(* ===== verification/Prelude.thy ===== *)
theory Prelude
  imports Main "HOL-Library.Word" "HOL-Library.Char_ord"
begin

text \<open>
  The vocabulary the component theories share. A Rust \<open>str\<close> is modelled as its UTF-8 byte
  sequence, a \<^typ>\<open>string\<close> whose \<^typ>\<open>char\<close>s are bytes, so byte indices and lengths are those of
  the code. The operations of the standard library the program calls on strings are defined
  here: ASCII classification and case folding, \<open>trim\<close> (which removes Unicode white space, so
  it recognises the UTF-8 encodings of the White_Space code points), prefix and substring
  search, \<open>split\<close>, \<open>split_once\<close>, \<open>lines\<close>, \<open>replace\<close>, \<open>join\<close>, decimal and
  hexadecimal formatting, and the \<open>u8 as char\<close> conversion. Fallible results are values of
  \<open>error + value\<close>.
\<close>

named_theorems str_simps \<open>rewriting of the string operations\<close>
named_theorems bind_simps \<open>unfolding of the error monad\<close>

section \<open>Machine integers and results\<close>

type_synonym u8 = "8 word"
type_synonym u16 = "16 word"
type_synonym u32 = "32 word"
type_synonym u64 = "64 word"
type_synonym i8 = "8 word"
type_synonym i16 = "16 word"
type_synonym i32 = "32 word"
type_synonym i64 = "64 word"
type_synonym f32 = "32 word"
type_synonym f64 = "64 word"

text \<open>The \<open>?\<close> operator: the first error ends the computation.\<close>

definition rbind :: "'e + 'a \<Rightarrow> ('a \<Rightarrow> 'e + 'b) \<Rightarrow> 'e + 'b" where
  "rbind r f = (case r of Inl e \<Rightarrow> Inl e | Inr a \<Rightarrow> f a)"

lemma rbind_simps [simp, bind_simps]:
  "rbind (Inl e) f = Inl e"
  "rbind (Inr a) f = f a"
  by (simp_all add: rbind_def)

lemma rbind_Inr_iff: "rbind r f = Inr b \<longleftrightarrow> (\<exists>a. r = Inr a \<and> f a = Inr b)"
  by (cases r) auto

definition ok_or :: "'a option \<Rightarrow> 'e \<Rightarrow> 'e + 'a" where
  "ok_or m e = (case m of None \<Rightarrow> Inl e | Some a \<Rightarrow> Inr a)"

lemma ok_or_simps [simp, bind_simps]:
  "ok_or None e = Inl e"
  "ok_or (Some a) e = Inr a"
  by (simp_all add: ok_or_def)

text \<open>Collecting an iterator of results into a result of a vector.\<close>

primrec rmap :: "('a \<Rightarrow> 'e + 'b) \<Rightarrow> 'a list \<Rightarrow> 'e + 'b list" where
  "rmap f [] = Inr []"
| "rmap f (x # xs) = rbind (f x) (\<lambda>y. rbind (rmap f xs) (\<lambda>ys. Inr (y # ys)))"

lemma rmap_map_Inr: "(\<And>x. x \<in> set xs \<Longrightarrow> f (g x) = Inr (h x)) \<Longrightarrow> rmap f (map g xs) = Inr (map h xs)"
  by (induction xs) auto

lemma rmap_Inr_length: "rmap f xs = Inr ys \<Longrightarrow> length ys = length xs"
  by (induction xs arbitrary: ys) (auto simp: rbind_Inr_iff)

lemma rmap_Inr_nth:
  "rmap f xs = Inr ys \<Longrightarrow> i < length xs \<Longrightarrow> f (xs ! i) = Inr (ys ! i)"
  by (induction xs arbitrary: ys i) (auto simp: rbind_Inr_iff nth_Cons split: nat.splits)

section \<open>Bytes and ASCII\<close>

definition byte_nat :: "char \<Rightarrow> nat" where
  "byte_nat c = of_char c"

definition nat_byte :: "nat \<Rightarrow> char" where
  "nat_byte n = char_of n"

lemma byte_nat_bound [simp]: "byte_nat c < 256"
  by (simp add: byte_nat_def)

lemma nat_byte_byte_nat [simp]: "nat_byte (byte_nat c) = c"
  by (simp add: nat_byte_def byte_nat_def)

lemma byte_nat_nat_byte [simp]: "n < 256 \<Longrightarrow> byte_nat (nat_byte n) = n"
  by (simp add: nat_byte_def byte_nat_def)

lemma byte_nat_inject [simp]: "byte_nat a = byte_nat b \<longleftrightarrow> a = b"
  by (simp add: byte_nat_def)

definition is_ascii_digit :: "char \<Rightarrow> bool" where
  "is_ascii_digit c \<longleftrightarrow> CHR ''0'' \<le> c \<and> c \<le> CHR ''9''"

definition is_ascii_lower :: "char \<Rightarrow> bool" where
  "is_ascii_lower c \<longleftrightarrow> CHR ''a'' \<le> c \<and> c \<le> CHR ''z''"

definition is_ascii_upper :: "char \<Rightarrow> bool" where
  "is_ascii_upper c \<longleftrightarrow> CHR ''A'' \<le> c \<and> c \<le> CHR ''Z''"

definition is_ascii_alpha :: "char \<Rightarrow> bool" where
  "is_ascii_alpha c \<longleftrightarrow> is_ascii_lower c \<or> is_ascii_upper c"

definition is_ascii_alnum :: "char \<Rightarrow> bool" where
  "is_ascii_alnum c \<longleftrightarrow> is_ascii_alpha c \<or> is_ascii_digit c"

text \<open>\<open>u8::is_ascii_whitespace\<close>: space, tab, line feed, form feed, carriage return.\<close>

definition is_ascii_ws :: "char \<Rightarrow> bool" where
  "is_ascii_ws c \<longleftrightarrow> c = CHR 0x20 \<or> c = CHR 0x09 \<or> c = CHR 0x0A \<or> c = CHR 0x0C \<or> c = CHR 0x0D"

definition to_upper :: "char \<Rightarrow> char" where
  "to_upper c = (if is_ascii_lower c then nat_byte (byte_nat c - 32) else c)"

definition to_lower :: "char \<Rightarrow> char" where
  "to_lower c = (if is_ascii_upper c then nat_byte (byte_nat c + 32) else c)"

definition upper :: "string \<Rightarrow> string" where
  "upper s = map to_upper s"

definition lower :: "string \<Rightarrow> string" where
  "lower s = map to_lower s"

definition eq_ignore_case :: "string \<Rightarrow> string \<Rightarrow> bool" where
  "eq_ignore_case a b \<longleftrightarrow> upper a = upper b"

lemma eq_ignore_case_refl [simp]: "eq_ignore_case s s"
  by (simp add: eq_ignore_case_def)

lemma length_upper [simp]: "length (upper s) = length s"
  by (simp add: upper_def)

lemma length_lower [simp]: "length (lower s) = length s"
  by (simp add: lower_def)

lemmas ascii_defs = is_ascii_digit_def is_ascii_lower_def is_ascii_upper_def is_ascii_alpha_def
  is_ascii_alnum_def is_ascii_ws_def

section \<open>White space\<close>

text \<open>
  The number of bytes of the White_Space code point a string begins with, 0 if it begins with
  none: U+0009 to U+000D and U+0020 (one byte), U+0085 and U+00A0 (two), U+1680, U+2000 to
  U+200A, U+2028, U+2029, U+202F, U+205F and U+3000 (three).
\<close>

definition wide_ws :: "char \<Rightarrow> char \<Rightarrow> char \<Rightarrow> bool" where
  "wide_ws a b c \<longleftrightarrow>
     (a = CHR 0xE1 \<and> b = CHR 0x9A \<and> c = CHR 0x80)
   \<or> (a = CHR 0xE2 \<and> b = CHR 0x80 \<and>
       ((CHR 0x80 \<le> c \<and> c \<le> CHR 0x8A) \<or> c = CHR 0xA8 \<or> c = CHR 0xA9 \<or> c = CHR 0xAF))
   \<or> (a = CHR 0xE2 \<and> b = CHR 0x81 \<and> c = CHR 0x9F)
   \<or> (a = CHR 0xE3 \<and> b = CHR 0x80 \<and> c = CHR 0x80)"

definition ws1 :: "char \<Rightarrow> bool" where
  "ws1 c \<longleftrightarrow> (CHR 0x09 \<le> c \<and> c \<le> CHR 0x0D) \<or> c = CHR 0x20"

definition ws2 :: "char \<Rightarrow> char \<Rightarrow> bool" where
  "ws2 a b \<longleftrightarrow> a = CHR 0xC2 \<and> (b = CHR 0x85 \<or> b = CHR 0xA0)"

fun ws_len :: "string \<Rightarrow> nat" where
  "ws_len [] = 0"
| "ws_len [a] = (if ws1 a then 1 else 0)"
| "ws_len [a, b] = (if ws1 a then 1 else if ws2 a b then 2 else 0)"
| "ws_len (a # b # c # s) =
     (if ws1 a then 1 else if ws2 a b then 2 else if wide_ws a b c then 3 else 0)"

text \<open>The same for the end of a string, given reversed.\<close>

fun ws_len_rev :: "string \<Rightarrow> nat" where
  "ws_len_rev [] = 0"
| "ws_len_rev [a] = (if ws1 a then 1 else 0)"
| "ws_len_rev [b, a] = (if ws1 b then 1 else if ws2 a b then 2 else 0)"
| "ws_len_rev (c # b # a # s) =
     (if ws1 c then 1 else if ws2 b c then 2 else if wide_ws a b c then 3 else 0)"

function trim_start :: "string \<Rightarrow> string" where
  "trim_start s = (if ws_len s = 0 \<or> s = [] then s else trim_start (drop (ws_len s) s))"
  by pat_completeness auto
termination
  by (relation "measure length") auto

declare trim_start.simps [simp del]

function trim_rev :: "string \<Rightarrow> string" where
  "trim_rev s = (if ws_len_rev s = 0 \<or> s = [] then s else trim_rev (drop (ws_len_rev s) s))"
  by pat_completeness auto
termination
  by (relation "measure length") auto

declare trim_rev.simps [simp del]

definition trim_end :: "string \<Rightarrow> string" where
  "trim_end s = rev (trim_rev (rev s))"

definition trim :: "string \<Rightarrow> string" where
  "trim s = trim_end (trim_start s)"

lemma trim_start_suffix: "\<exists>p. s = p @ trim_start s"
proof (induction s rule: trim_start.induct)
  case (1 s)
  show ?case
  proof (cases "ws_len s = 0 \<or> s = []")
    case True
    then show ?thesis by (simp add: trim_start.simps [of s])
  next
    case False
    from "1.IH" [OF this] obtain p where "drop (ws_len s) s = p @ trim_start (drop (ws_len s) s)"
      by blast
    then have "s = (take (ws_len s) s @ p) @ trim_start (drop (ws_len s) s)"
      by (metis append.assoc append_take_drop_id)
    with False show ?thesis by (metis trim_start.simps)
  qed
qed

lemma trim_start_length: "length (trim_start s) \<le> length s"
proof -
  obtain p where "s = p @ trim_start s" using trim_start_suffix by blast
  then have "length s = length p + length (trim_start s)" by (metis length_append)
  then show ?thesis by simp
qed

lemma ws_len_trim_start: "trim_start s = [] \<or> ws_len (trim_start s) = 0"
proof (induction s rule: trim_start.induct)
  case (1 s)
  then show ?case by (cases "ws_len s = 0 \<or> s = []") (auto simp: trim_start.simps [of s])
qed

lemma trim_start_idem [simp]: "trim_start (trim_start s) = trim_start s"
  using ws_len_trim_start [of s] by (subst trim_start.simps) auto

lemma trim_rev_suffix: "\<exists>p. s = p @ trim_rev s"
proof (induction s rule: trim_rev.induct)
  case (1 s)
  show ?case
  proof (cases "ws_len_rev s = 0 \<or> s = []")
    case True
    then show ?thesis by (simp add: trim_rev.simps [of s])
  next
    case False
    from "1.IH" [OF this] obtain p
      where "drop (ws_len_rev s) s = p @ trim_rev (drop (ws_len_rev s) s)" by blast
    then have "s = (take (ws_len_rev s) s @ p) @ trim_rev (drop (ws_len_rev s) s)"
      by (metis append.assoc append_take_drop_id)
    with False show ?thesis by (metis trim_rev.simps)
  qed
qed

lemma trim_end_prefix: "\<exists>q. s = trim_end s @ q"
proof -
  obtain p where "rev s = p @ trim_rev (rev s)" using trim_rev_suffix by blast
  then have "s = rev (trim_rev (rev s)) @ rev p" by (metis rev_append rev_rev_ident)
  then show ?thesis unfolding trim_end_def by blast
qed

lemma trim_end_length: "length (trim_end s) \<le> length s"
proof -
  obtain q where "s = trim_end s @ q" using trim_end_prefix by blast
  then have "length s = length (trim_end s) + length q" by (metis length_append)
  then show ?thesis by simp
qed

text \<open>What \<open>trim\<close> removes is a prefix and a suffix: the result is a slice of the input.\<close>

lemma trim_slice: "\<exists>p q. s = p @ trim s @ q"
proof -
  obtain p where p: "s = p @ trim_start s" using trim_start_suffix by blast
  obtain q where q: "trim_start s = trim_end (trim_start s) @ q" using trim_end_prefix by blast
  from p q show ?thesis unfolding trim_def by metis
qed

lemma trim_length: "length (trim s) \<le> length s"
  unfolding trim_def using trim_end_length [of "trim_start s"] trim_start_length [of s]
  by (rule order_trans)

lemma set_trim_start: "set (trim_start s) \<subseteq> set s"
proof -
  obtain p where "s = p @ trim_start s" using trim_start_suffix by blast
  then show ?thesis by (metis Un_upper2 set_append)
qed

lemma set_trim: "set (trim s) \<subseteq> set s"
proof -
  obtain p q where "s = p @ trim s @ q" using trim_slice by blast
  then have "set s = set p \<union> set (trim s) \<union> set q" by (metis Un_assoc set_append)
  then show ?thesis by blast
qed

lemma trim_Nil [simp]: "trim [] = []" "trim_start [] = []" "trim_end [] = []"
  by (simp_all add: trim_def trim_end_def trim_start.simps trim_rev.simps)

text \<open>A string whose first and last bytes are ASCII and no white space is left as it is.\<close>

lemma lead_byte_nat: "byte_nat (CHR 0xC2) = 194" "byte_nat (CHR 0xE1) = 225"
  "byte_nat (CHR 0xE2) = 226" "byte_nat (CHR 0xE3) = 227"
  by (simp_all add: byte_nat_def)

lemma ascii_not_ws2: "byte_nat a < 128 \<Longrightarrow> \<not> ws2 a b"
  using lead_byte_nat by (auto simp: ws2_def)

lemma ascii_not_wide: "byte_nat a < 128 \<Longrightarrow> \<not> wide_ws a b c"
  using lead_byte_nat by (auto simp: wide_ws_def)

lemma cont_byte_nat: "byte_nat (CHR 0x85) = 133" "byte_nat (CHR 0xA0) = 160"
  "byte_nat (CHR 0x80) = 128" "byte_nat (CHR 0xA8) = 168" "byte_nat (CHR 0xA9) = 169"
  "byte_nat (CHR 0xAF) = 175" "byte_nat (CHR 0x9F) = 159"
  by (simp_all add: byte_nat_def)

lemma byte_le_iff: "a \<le> b \<longleftrightarrow> byte_nat a \<le> byte_nat b"
  by (simp add: byte_nat_def less_eq_char_def)

lemma ascii_not_ws2': "byte_nat b < 128 \<Longrightarrow> \<not> ws2 a b"
  using cont_byte_nat by (auto simp: ws2_def)

lemma ascii_not_wide': "byte_nat c < 128 \<Longrightarrow> \<not> wide_ws a b c"
  using cont_byte_nat by (auto simp: wide_ws_def byte_le_iff)

lemma ws_len_plain: "s \<noteq> [] \<Longrightarrow> \<not> ws1 (hd s) \<Longrightarrow> byte_nat (hd s) < 128 \<Longrightarrow> ws_len s = 0"
  by (cases s rule: ws_len.cases) (simp_all add: ascii_not_ws2 ascii_not_wide)

lemma trim_start_plain: "s \<noteq> [] \<Longrightarrow> \<not> ws1 (hd s) \<Longrightarrow> byte_nat (hd s) < 128 \<Longrightarrow> trim_start s = s"
  by (subst trim_start.simps) (simp add: ws_len_plain)

lemma ws_len_rev_plain:
  "s \<noteq> [] \<Longrightarrow> \<not> ws1 (hd s) \<Longrightarrow> byte_nat (hd s) < 128 \<Longrightarrow> ws_len_rev s = 0"
  by (cases s rule: ws_len_rev.cases) (simp_all add: ascii_not_ws2' ascii_not_wide')

lemma trim_end_plain: "s \<noteq> [] \<Longrightarrow> \<not> ws1 (last s) \<Longrightarrow> byte_nat (last s) < 128 \<Longrightarrow> trim_end s = s"
  unfolding trim_end_def
  by (subst trim_rev.simps) (simp add: ws_len_rev_plain hd_rev)

lemma trim_plain:
  assumes "s \<noteq> []" "\<not> ws1 (hd s)" "byte_nat (hd s) < 128" "\<not> ws1 (last s)" "byte_nat (last s) < 128"
  shows "trim s = s"
  using assms by (simp add: trim_def trim_start_plain trim_end_plain)

section \<open>Prefixes, substrings, splitting\<close>

definition starts_with :: "string \<Rightarrow> string \<Rightarrow> bool" where
  "starts_with p s \<longleftrightarrow> take (length p) s = p"

definition ends_with :: "string \<Rightarrow> string \<Rightarrow> bool" where
  "ends_with p s \<longleftrightarrow> length p \<le> length s \<and> drop (length s - length p) s = p"

definition strip_prefix :: "string \<Rightarrow> string \<Rightarrow> string option" where
  "strip_prefix p s = (if starts_with p s then Some (drop (length p) s) else None)"

definition strip_suffix :: "string \<Rightarrow> string \<Rightarrow> string option" where
  "strip_suffix p s = (if ends_with p s then Some (take (length s - length p) s) else None)"

lemma strip_prefix_Some: "strip_prefix p s = Some r \<longleftrightarrow> s = p @ r"
  by (auto simp: strip_prefix_def starts_with_def) (metis append_take_drop_id)

lemma strip_suffix_Some: "strip_suffix p s = Some r \<longleftrightarrow> s = r @ p"
proof
  assume "strip_suffix p s = Some r"
  then show "s = r @ p"
    by (auto simp: strip_suffix_def ends_with_def split: if_splits) (metis append_take_drop_id)
qed (simp add: strip_suffix_def ends_with_def)

text \<open>\<open>str::find\<close> of a pattern: the byte index of its first occurrence.\<close>

fun find_sub :: "string \<Rightarrow> string \<Rightarrow> nat option" where
  "find_sub p [] = (if p = [] then Some 0 else None)"
| "find_sub p (c # s) = (if starts_with p (c # s) then Some 0 else map_option Suc (find_sub p s))"

definition contains :: "string \<Rightarrow> string \<Rightarrow> bool" where
  "contains p s \<longleftrightarrow> find_sub p s \<noteq> None"

lemma find_sub_Some:
  "find_sub p s = Some i \<Longrightarrow> i + length p \<le> length s \<and> take (length p) (drop i s) = p"
proof (induction p s arbitrary: i rule: find_sub.induct)
  case (1 p)
  then show ?case by (simp split: if_splits)
next
  case (2 p c s)
  show ?case
  proof (cases "starts_with p (c # s)")
    case True
    with "2.prems" have "i = 0" by simp
    moreover have "length p \<le> length (c # s)"
      using True unfolding starts_with_def by (metis length_take min.cobounded1 min.commute)
    ultimately show ?thesis using True by (simp add: starts_with_def)
  next
    case False
    with "2.prems" obtain j where "find_sub p s = Some j" "i = Suc j" by auto
    with "2.IH" [OF False] show ?thesis by simp
  qed
qed

lemma contains_append: "contains p (a @ p @ b)"
proof (induction a)
  case Nil
  have "starts_with p (p @ b)" by (simp add: starts_with_def)
  then show ?case by (cases "p @ b") (auto simp: contains_def)
next
  case (Cons c a)
  then show ?case by (auto simp: contains_def)
qed

lemma contains_iff: "contains p s \<longleftrightarrow> (\<exists>a b. s = a @ p @ b)"
proof
  assume "contains p s"
  then obtain i where "find_sub p s = Some i" unfolding contains_def by blast
  then have "take (length p) (drop i s) = p" by (blast dest: find_sub_Some)
  then have "s = take i s @ p @ drop (length p) (drop i s)" by (metis append_take_drop_id)
  then show "\<exists>a b. s = a @ p @ b" by blast
next
  assume "\<exists>a b. s = a @ p @ b"
  then show "contains p s" using contains_append by auto
qed

text \<open>\<open>split\<close> on a character: the pieces between its occurrences, at least one.\<close>

fun split_char :: "char \<Rightarrow> string \<Rightarrow> string list" where
  "split_char d [] = [[]]"
| "split_char d (c # s) =
     (if c = d then [] # split_char d s
      else (case split_char d s of [] \<Rightarrow> [[c]] | p # ps \<Rightarrow> (c # p) # ps))"

fun join :: "string \<Rightarrow> string list \<Rightarrow> string" where
  "join sep [] = []"
| "join sep [x] = x"
| "join sep (x # y # xs) = x @ sep @ join sep (y # xs)"

lemma split_char_nonempty [simp]: "split_char d s \<noteq> []"
  by (induction s) (auto split: list.splits)

lemma join_Cons: "xs \<noteq> [] \<Longrightarrow> join sep (x # xs) = x @ sep @ join sep xs"
  by (cases xs) auto

lemma join_split_char: "join [d] (split_char d s) = s"
proof (induction s)
  case (Cons c s)
  then show ?case
    by (cases "split_char d s"; cases "tl (split_char d s)") (auto simp: join_Cons split: list.splits)
qed simp

lemma split_char_no_sep: "x \<in> set (split_char d s) \<Longrightarrow> d \<notin> set x"
  by (induction s arbitrary: x) (auto split: list.splits if_splits)

definition split_once :: "char \<Rightarrow> string \<Rightarrow> (string \<times> string) option" where
  "split_once d s =
     (case find_sub [d] s of None \<Rightarrow> None | Some i \<Rightarrow> Some (take i s, drop (Suc i) s))"

lemma split_once_Some: "split_once d s = Some (a, b) \<Longrightarrow> s = a @ d # b"
proof -
  assume "split_once d s = Some (a, b)"
  then obtain i where i: "find_sub [d] s = Some i" and ab: "a = take i s" "b = drop (Suc i) s"
    by (auto simp: split_once_def split: option.splits)
  from find_sub_Some [OF i] have "i < length s" "take (Suc 0) (drop i s) = [d]" by auto
  then have "s ! i = d" by (simp add: take_Suc hd_drop_conv_nth split: list.splits)
  with \<open>i < length s\<close> ab show ?thesis by (metis id_take_nth_drop)
qed

text \<open>\<open>lines\<close>: pieces between line feeds, a carriage return before the feed dropped, and no
  empty last line.\<close>

definition strip_cr :: "string \<Rightarrow> string" where
  "strip_cr l = (case strip_suffix [CHR 0x0D] l of None \<Rightarrow> l | Some x \<Rightarrow> x)"

definition lines :: "string \<Rightarrow> string list" where
  "lines s =
     (let ps = split_char (CHR 0x0A) s
      in (if last ps = [] then map strip_cr (butlast ps) else map strip_cr (butlast ps) @ [last ps]))"

function str_replace :: "string \<Rightarrow> string \<Rightarrow> string \<Rightarrow> string" where
  "str_replace p r [] = []"
| "str_replace p r (c # s) =
     (if p \<noteq> [] \<and> starts_with p (c # s) then r @ str_replace p r (drop (length p) (c # s))
      else c # str_replace p r s)"
  by pat_completeness auto
termination
  by (relation "measure (\<lambda>(p, r, s). length s)") auto

definition skip_while :: "(char \<Rightarrow> bool) \<Rightarrow> string \<Rightarrow> nat \<Rightarrow> nat" where
  "skip_while f s i = i + length (takeWhile f (drop i s))"

section \<open>Numbers as text\<close>

definition digit_char :: "nat \<Rightarrow> char" where
  "digit_char d = nat_byte (48 + d)"

fun show_nat :: "nat \<Rightarrow> string" where
  "show_nat n = (if n < 10 then [digit_char n] else show_nat (n div 10) @ [digit_char (n mod 10)])"

declare show_nat.simps [simp del]

definition show_int :: "int \<Rightarrow> string" where
  "show_int i = (if i < 0 then CHR ''-'' # show_nat (nat (- i)) else show_nat (nat i))"

definition pad0 :: "nat \<Rightarrow> string \<Rightarrow> string" where
  "pad0 w s = replicate (w - length s) (CHR ''0'') @ s"

definition hex_digit_lower :: "nat \<Rightarrow> char" where
  "hex_digit_lower d = (if d < 10 then nat_byte (48 + d) else nat_byte (87 + d))"

definition hex_digit_upper :: "nat \<Rightarrow> char" where
  "hex_digit_upper d = (if d < 10 then nat_byte (48 + d) else nat_byte (55 + d))"

definition hex2_lower :: "nat \<Rightarrow> string" where
  "hex2_lower b = [hex_digit_lower (b div 16), hex_digit_lower (b mod 16)]"

definition hex2_upper :: "nat \<Rightarrow> string" where
  "hex2_upper b = [hex_digit_upper (b div 16), hex_digit_upper (b mod 16)]"

text \<open>\<open>String::push(b as char)\<close>: the byte read as a Latin-1 code point and encoded in UTF-8.\<close>

definition latin1 :: "char \<Rightarrow> string" where
  "latin1 c =
     (let n = byte_nat c
      in if n < 128 then [c] else [nat_byte (192 + n div 64), nat_byte (128 + n mod 64)])"

text \<open>The first \<open>n\<close> code points of a string: a continuation byte belongs to the code point
  before it.\<close>

definition is_cont :: "char \<Rightarrow> bool" where
  "is_cont c \<longleftrightarrow> CHR 0x80 \<le> c \<and> c < CHR 0xC0"

fun take_chars :: "nat \<Rightarrow> string \<Rightarrow> string" where
  "take_chars n [] = []"
| "take_chars n (c # s) =
     (if is_cont c then c # take_chars n s
      else case n of 0 \<Rightarrow> [] | Suc m \<Rightarrow> c # take_chars m s)"

end
