(* ===== verification/Handles.thy ===== *)
theory Handles
  imports Prelude
begin

text \<open>
  The contract of a handle table. Three components hand out \<open>u32\<close> handles the same way: the
  callback registry, the file-lock table and the resource ids of an extension's state all
  return a counter and advance it by \<open>wrapping_add(1).max(1)\<close>, so that 0 is never a handle.
  The locale names the operations and their laws; the lemmas inside it are about whole runs of
  operations: handles are strictly increasing and a released one is never bound again, as long
  as fewer allocations than the counter has values left are made.
\<close>

section \<open>The counter\<close>

definition bump_handle :: "u32 \<Rightarrow> u32" where
  "bump_handle h = max (h + 1) 1"

lemma bump_handle_pos: "0 < bump_handle h"
proof -
  have "(1 :: u32) \<le> bump_handle h" by (simp add: bump_handle_def)
  then show ?thesis using word_gt_0 by force
qed

lemma unat_bump_handle: "unat h + 1 < 2 ^ 32 \<Longrightarrow> unat (bump_handle h) = unat h + 1"
proof -
  assume a: "unat h + 1 < 2 ^ 32"
  have s: "unat (h + 1) = unat h + 1" using a by (subst unat_add_lem [THEN iffD1]) simp_all
  then have "(1 :: u32) \<le> h + 1" by (simp add: word_le_nat_alt)
  then show ?thesis using s by (simp add: bump_handle_def max_def)
qed

lemma bump_handle_wraps: "bump_handle (-1) = 1"
  by (simp add: bump_handle_def)

section \<open>Runs of allocations and releases\<close>

datatype 'a handle_op = Alloc 'a | Release u32

fun run_handle_ops ::
  "('s \<Rightarrow> 'a \<Rightarrow> u32 \<times> 's) \<Rightarrow> (u32 \<Rightarrow> 's \<Rightarrow> 's) \<Rightarrow> 's \<Rightarrow> 'a handle_op list \<Rightarrow> u32 list \<times> 's" where
  "run_handle_ops al rl s [] = ([], s)"
| "run_handle_ops al rl s (Alloc a # ops) =
     (let (h, s') = al s a; (hs, s'') = run_handle_ops al rl s' ops in (h # hs, s''))"
| "run_handle_ops al rl s (Release h # ops) = run_handle_ops al rl (rl h s) ops"

fun allocs :: "'a handle_op list \<Rightarrow> nat" where
  "allocs [] = 0"
| "allocs (Alloc a # ops) = Suc (allocs ops)"
| "allocs (Release h # ops) = allocs ops"

text \<open>\<open>ops\<close> fit: the counter does not wrap while they run.\<close>

definition fits :: "u32 \<Rightarrow> 'a handle_op list \<Rightarrow> bool" where
  "fits h ops \<longleftrightarrow> unat h + allocs ops < 2 ^ 32"

lemma fits_Release [simp]: "fits h (Release k # ops) = fits h ops"
  by (simp add: fits_def)

lemma fits_Alloc:
  "fits h (Alloc a # ops) \<Longrightarrow> unat (bump_handle h) = unat h + 1 \<and> fits (bump_handle h) ops"
proof -
  assume a: "fits h (Alloc a # ops)"
  then have "unat h + 1 < 2 ^ 32" by (simp add: fits_def)
  then have "unat (bump_handle h) = unat h + 1" by (rule unat_bump_handle)
  with a show ?thesis by (simp add: fits_def)
qed

section \<open>The interface\<close>

locale handle_table =
  fixes lookup :: "'s \<Rightarrow> u32 \<Rightarrow> 'e option"
    and counter :: "'s \<Rightarrow> u32"
    and alloc :: "'s \<Rightarrow> 'a \<Rightarrow> u32 \<times> 's"
    and release :: "u32 \<Rightarrow> 's \<Rightarrow> 's"
    and mk :: "'a \<Rightarrow> 'e"
  assumes alloc_handle: "fst (alloc s a) = counter s"
    and alloc_counter: "counter (snd (alloc s a)) = bump_handle (counter s)"
    and alloc_lookup:
      "lookup (snd (alloc s a)) h = (if h = counter s then Some (mk a) else lookup s h)"
    and release_lookup: "lookup (release k s) h = (if h = k then None else lookup s h)"
    and release_counter: "counter (release k s) = counter s"
begin

lemmas table_laws = alloc_handle alloc_counter alloc_lookup release_lookup release_counter

lemma alloc_eq:
  "alloc s a = (h, t) \<Longrightarrow>
     h = counter s \<and> counter t = bump_handle (counter s)
       \<and> (\<forall>k. lookup t k = (if k = counter s then Some (mk a) else lookup s k))"
  using alloc_handle [of s a] alloc_counter [of s a] alloc_lookup [of s a] by simp

lemma run_counter_mono:
  "fits (counter s) ops \<Longrightarrow> run_handle_ops alloc release s ops = (hs, t) \<Longrightarrow>
     unat (counter t) = unat (counter s) + allocs ops"
proof (induction ops arbitrary: s hs rule: allocs.induct)
  case (2 a ops)
  obtain h s1 where al: "alloc s a = (h, s1)" by fastforce
  with "2.prems"(2) obtain hs1 where run: "run_handle_ops alloc release s1 ops = (hs1, t)"
    by (auto split: prod.splits)
  have "counter s1 = bump_handle (counter s)" using alloc_eq [OF al] by simp
  with fits_Alloc [OF "2.prems"(1)] "2.IH" [OF _ run] show ?case by simp
next
  case (3 h ops)
  then show ?case using "3.IH" [of "release h s" hs] by (simp add: release_counter release_lookup)
qed simp_all

lemma run_handles_sorted:
  "fits (counter s) ops \<Longrightarrow> run_handle_ops alloc release s ops = (hs, t) \<Longrightarrow>
     sorted_wrt (<) hs \<and> (\<forall>h \<in> set hs. counter s \<le> h)"
proof (induction ops arbitrary: s hs rule: allocs.induct)
  case (2 a ops)
  obtain h s1 where al: "alloc s a = (h, s1)" by fastforce
  with "2.prems"(2) obtain hs1 where run: "run_handle_ops alloc release s1 ops = (hs1, t)"
    and hs: "hs = h # hs1" by (auto split: prod.splits)
  have h: "h = counter s" and c1: "counter s1 = bump_handle (counter s)"
    using alloc_eq [OF al] by auto
  from fits_Alloc [OF "2.prems"(1)] have lt: "counter s < counter s1"
    and fit1: "fits (counter s1) ops" by (simp_all add: c1 word_less_nat_alt)
  from "2.IH" [OF fit1 run] lt show ?case unfolding hs h by fastforce
next
  case (3 h ops)
  then show ?case using "3.IH" [of "release h s" hs] by (simp add: release_counter release_lookup)
qed simp_all

text \<open>A handle below the counter that is not bound stays unbound.\<close>

lemma run_unbound_stays:
  "fits (counter s) ops \<Longrightarrow> run_handle_ops alloc release s ops = (hs, t) \<Longrightarrow>
     k < counter s \<Longrightarrow> lookup s k = None \<Longrightarrow> lookup t k = None"
proof (induction ops arbitrary: s hs rule: allocs.induct)
  case (2 a ops)
  obtain h s1 where al: "alloc s a = (h, s1)" by fastforce
  with "2.prems"(2) obtain hs1 where run: "run_handle_ops alloc release s1 ops = (hs1, t)"
    by (auto split: prod.splits)
  note e = alloc_eq [OF al]
  from fits_Alloc [OF "2.prems"(1)] have fit1: "fits (counter s1) ops"
    and up: "unat (counter s1) = unat (counter s) + 1" using e by auto
  have "k < counter s1" using "2.prems"(3) up by (simp add: word_less_nat_alt)
  moreover have "lookup s1 k = None" using e "2.prems"(3,4) by auto
  ultimately show ?case by (rule "2.IH" [OF fit1 run])
next
  case (3 h ops)
  then show ?case using "3.IH" [of "release h s" hs] by (simp add: release_counter release_lookup)
qed simp_all

text \<open>A bound handle keeps its entry until it is released.\<close>

lemma run_bound_stays:
  "fits (counter s) ops \<Longrightarrow> run_handle_ops alloc release s ops = (hs, t) \<Longrightarrow>
     k < counter s \<Longrightarrow> lookup s k = Some e \<Longrightarrow> Release k \<notin> set ops \<Longrightarrow> lookup t k = Some e"
proof (induction ops arbitrary: s hs rule: allocs.induct)
  case (2 a ops)
  obtain h s1 where al: "alloc s a = (h, s1)" by fastforce
  with "2.prems"(2) obtain hs1 where run: "run_handle_ops alloc release s1 ops = (hs1, t)"
    by (auto split: prod.splits)
  note q = alloc_eq [OF al]
  from fits_Alloc [OF "2.prems"(1)] have fit1: "fits (counter s1) ops"
    and up: "unat (counter s1) = unat (counter s) + 1" using q by auto
  have "k < counter s1" using "2.prems"(3) up by (simp add: word_less_nat_alt)
  moreover have "lookup s1 k = Some e" using q "2.prems"(3,4) by auto
  moreover have "Release k \<notin> set ops" using "2.prems"(5) by simp
  ultimately show ?case by (rule "2.IH" [OF fit1 run])
next
  case (3 h ops)
  then show ?case using "3.IH" [of "release h s" hs] by (simp add: release_counter release_lookup)
qed simp_all

text \<open>The handle of an allocation still names its entry at the end of the run.\<close>

lemma run_alloc_bound:
  assumes "fits (counter s) (Alloc a # ops)"
    and "run_handle_ops alloc release s (Alloc a # ops) = (hs, t)"
    and "Release (hd hs) \<notin> set ops"
  shows "hd hs = counter s \<and> lookup t (hd hs) = Some (mk a)"
proof -
  obtain h s1 where al: "alloc s a = (h, s1)" by fastforce
  with assms(2) obtain hs1 where run: "run_handle_ops alloc release s1 ops = (hs1, t)"
    and hs: "hs = h # hs1" by (auto split: prod.splits)
  note q = alloc_eq [OF al]
  from fits_Alloc [OF assms(1)] have fit1: "fits (counter s1) ops"
    and "unat (counter s1) = unat (counter s) + 1" using q by auto
  then have "h < counter s1" using q by (simp add: word_less_nat_alt)
  moreover have "lookup s1 h = Some (mk a)" using q by auto
  ultimately have "lookup t h = Some (mk a)"
    using run_bound_stays [OF fit1 run] assms(3) hs by simp
  then show ?thesis using q hs by simp
qed

end

end
