(* ===== verification/Callback_Registry.thy ===== *)
theory Callback_Registry
  imports Handles
begin

text \<open>
  The callback registry of \<open>crates/ducklink-runtime/src/lib.rs\<close>: it maps the opaque handle
  DuckDB passes on every invocation back to the extension that owns the callback, the
  guest-side dispatcher handle and the kind of the function. The backing store is a vector
  indexed by handle. The \<open>Weak\<close> pointer to the owning instance is modelled by the identity of
  the instance it was downgraded from, \<^const>\<open>None\<close> for \<open>Weak::new()\<close>.
\<close>

datatype callback_kind = Scalar | Table | Aggregate | Pragma | Cast | LogStorage

fun describe_kind :: "callback_kind \<Rightarrow> string" where
  "describe_kind Scalar = ''scalar''"
| "describe_kind Table = ''table''"
| "describe_kind Aggregate = ''aggregate''"
| "describe_kind Pragma = ''pragma''"
| "describe_kind Cast = ''cast''"
| "describe_kind LogStorage = ''log-storage''"

lemma describe_kind_inject: "describe_kind a = describe_kind b \<longleftrightarrow> a = b"
  by (cases a; cases b) simp_all

record callback_entry =
  ce_extension :: string
  ce_dispatcher :: u32
  ce_kind :: callback_kind
  ce_instance :: "nat option"

type_synonym callback_slot = "callback_entry option"

record callback_registry =
  next_handle :: u32
  entries :: "callback_slot list"

definition new_registry :: callback_registry where
  "new_registry = \<lparr>next_handle = 1, entries = []\<rparr>"

definition ensure_slot :: "u32 \<Rightarrow> callback_registry \<Rightarrow> callback_registry" where
  "ensure_slot h r =
     (let idx = unat h
      in if length (entries r) \<le> idx
         then r\<lparr>entries := entries r @ replicate (idx + 1 - length (entries r)) None\<rparr>
         else r)"

definition allocate ::
  "callback_registry \<Rightarrow> string \<Rightarrow> callback_kind \<Rightarrow> u32 \<Rightarrow> u32 \<times> callback_registry" where
  "allocate r ext kind disp =
     (let h = next_handle r;
          r1 = r\<lparr>next_handle := max (next_handle r + 1) 1\<rparr>;
          r2 = ensure_slot h r1;
          e = \<lparr>ce_extension = ext, ce_dispatcher = disp, ce_kind = kind, ce_instance = None\<rparr>
      in (h, r2\<lparr>entries := (entries r2)[unat h := Some e]\<rparr>))"

definition allocate_quiet ::
  "callback_registry \<Rightarrow> string \<Rightarrow> callback_kind \<Rightarrow> u32 \<Rightarrow> u32 \<times> callback_registry" where
  "allocate_quiet r ext kind disp =
     (let h = next_handle r;
          r1 = r\<lparr>next_handle := max (next_handle r + 1) 1\<rparr>;
          r2 = ensure_slot h r1;
          e = \<lparr>ce_extension = ext, ce_dispatcher = disp, ce_kind = kind, ce_instance = None\<rparr>
      in (h, r2\<lparr>entries := (entries r2)[unat h := Some e]\<rparr>))"

definition remove_handle :: "u32 \<Rightarrow> callback_registry \<Rightarrow> callback_registry" where
  "remove_handle h r =
     (let idx = unat h
      in if idx < length (entries r) then r\<lparr>entries := (entries r)[idx := None]\<rparr> else r)"

definition remove_extension :: "string \<Rightarrow> callback_registry \<Rightarrow> callback_registry" where
  "remove_extension ext r =
     r\<lparr>entries := map (\<lambda>slot. case slot of
          None \<Rightarrow> None
        | Some e \<Rightarrow> if ce_extension e = ext then None else slot) (entries r)\<rparr>"

definition get_entry :: "callback_registry \<Rightarrow> u32 \<Rightarrow> callback_entry option" where
  "get_entry r h = (if unat h < length (entries r) then entries r ! unat h else None)"

definition resolve_entry :: "callback_registry \<Rightarrow> u32 \<Rightarrow> callback_entry option" where
  "resolve_entry r h = (if unat h < length (entries r) then entries r ! unat h else None)"

definition link_extension_instance :: "string \<Rightarrow> nat \<Rightarrow> callback_registry \<Rightarrow> callback_registry" where
  "link_extension_instance ext inst r =
     r\<lparr>entries := map (\<lambda>slot. case slot of
          None \<Rightarrow> None
        | Some e \<Rightarrow> if ce_extension e = ext then Some (e\<lparr>ce_instance := Some inst\<rparr>) else slot)
        (entries r)\<rparr>"

section \<open>Single operations\<close>

definition mk_entry :: "string \<times> callback_kind \<times> u32 \<Rightarrow> callback_entry" where
  "mk_entry = (\<lambda>(ext, kind, disp).
     \<lparr>ce_extension = ext, ce_dispatcher = disp, ce_kind = kind, ce_instance = None\<rparr>)"

lemma ensure_slot_length: "unat h < length (entries (ensure_slot h r))"
  by (auto simp: ensure_slot_def Let_def)

lemma ensure_slot_next [simp]: "next_handle (ensure_slot h r) = next_handle r"
  by (simp add: ensure_slot_def Let_def)

lemma ensure_slot_get: "get_entry (ensure_slot h r) k = get_entry r k"
  by (auto simp: ensure_slot_def get_entry_def Let_def nth_append)

lemma allocate_handle: "fst (allocate r ext kind disp) = next_handle r"
  by (simp add: allocate_def Let_def)

lemma allocate_next: "next_handle (snd (allocate r ext kind disp)) = bump_handle (next_handle r)"
  by (simp add: allocate_def Let_def bump_handle_def)

lemma allocate_get:
  "get_entry (snd (allocate r ext kind disp)) h =
     (if h = next_handle r then Some (mk_entry (ext, kind, disp)) else get_entry r h)"
proof -
  let ?r1 = "r\<lparr>next_handle := max (next_handle r + 1) 1\<rparr>"
  let ?r2 = "ensure_slot (next_handle r) ?r1"
  have len: "unat (next_handle r) < length (entries ?r2)" by (rule ensure_slot_length)
  have "get_entry ?r2 h = get_entry ?r1 h" by (rule ensure_slot_get)
  then have old: "get_entry ?r2 h = get_entry r h" by (simp add: get_entry_def)
  show ?thesis
  proof (cases "h = next_handle r")
    case True
    with len show ?thesis by (simp add: allocate_def Let_def get_entry_def mk_entry_def)
  next
    case False
    then have "unat h \<noteq> unat (next_handle r)" by (simp add: word_unat_eq_iff)
    with old False show ?thesis by (auto simp: allocate_def Let_def get_entry_def split: if_splits)
  qed
qed

lemma remove_handle_get:
  "get_entry (remove_handle k r) h = (if h = k then None else get_entry r h)"
  by (auto simp: remove_handle_def get_entry_def Let_def nth_list_update word_unat_eq_iff)

lemma remove_handle_next: "next_handle (remove_handle k r) = next_handle r"
  by (simp add: remove_handle_def Let_def)

lemma remove_extension_get:
  "get_entry (remove_extension ext r) h =
     (case get_entry r h of None \<Rightarrow> None | Some e \<Rightarrow> if ce_extension e = ext then None else Some e)"
  by (auto simp: remove_extension_def get_entry_def split: option.splits)

lemma link_extension_get:
  "get_entry (link_extension_instance ext i r) h =
     (case get_entry r h of None \<Rightarrow> None
      | Some e \<Rightarrow> if ce_extension e = ext then Some (e\<lparr>ce_instance := Some i\<rparr>) else Some e)"
  by (auto simp: link_extension_instance_def get_entry_def split: option.splits)

lemmas registry_get_simps =
  allocate_get remove_handle_get remove_extension_get link_extension_get

section \<open>The registry provides the handle-table contract\<close>

definition registry_alloc ::
  "callback_registry \<Rightarrow> string \<times> callback_kind \<times> u32 \<Rightarrow> u32 \<times> callback_registry" where
  "registry_alloc r a = (case a of (ext, kind, disp) \<Rightarrow> allocate r ext kind disp)"

interpretation registry: handle_table get_entry next_handle registry_alloc remove_handle mk_entry
  by unfold_locales
    (auto simp: registry_alloc_def allocate_handle allocate_next allocate_get remove_handle_get
      remove_handle_next split: prod.splits)

text \<open>
  C3. A handle routes a callback to the extension that registered it. In any run of
  registrations and releases that starts with a registration and in which the 32-bit counter does
  not wrap (fewer than \<open>2 ^ 32\<close> allocations from where it stands), the handle returned for it resolves, on the dispatch path, to exactly the entry
  that was registered, until that handle itself is released; no later registration takes it.
\<close>

theorem callback_handle_routes:
  assumes "fits (next_handle r) (Alloc (ext, kind, disp) # ops)"
    and "run_handle_ops registry_alloc remove_handle r (Alloc (ext, kind, disp) # ops) = (hs, t)"
    and "Release (hd hs) \<notin> set ops"
  shows "resolve_entry t (hd hs) =
     Some \<lparr>ce_extension = ext, ce_dispatcher = disp, ce_kind = kind, ce_instance = None\<rparr>"
  using registry.run_alloc_bound [OF assms]
  by (auto simp: resolve_entry_def get_entry_def mk_entry_def split: if_splits)

theorem callback_handle_routes_witness:
  "resolve_entry
     (snd (run_handle_ops registry_alloc remove_handle new_registry
        [Alloc (''ext'', Scalar, 7), Alloc (''other'', Table, 9), Release 2])) 1 =
   Some \<lparr>ce_extension = ''ext'', ce_dispatcher = 7, ce_kind = Scalar, ce_instance = None\<rparr>"
proof -
  let ?ops = "[Alloc (''other'', Table, 9), Release 2]"
  obtain hs t where run: "run_handle_ops registry_alloc remove_handle new_registry
      (Alloc (''ext'', Scalar, 7) # ?ops) = (hs, t)" by fastforce
  have fit: "fits (next_handle new_registry) (Alloc (''ext'', Scalar, 7) # ?ops)"
    by (simp add: fits_def new_registry_def)
  have hd: "hd hs = 1"
    using run by (auto simp: registry_alloc_def allocate_def new_registry_def Let_def
        split: prod.splits)
  show ?thesis using callback_handle_routes [OF fit run] hd run by simp
qed

text \<open>
  Handles never rebind: from a fresh registry and for fewer than \<open>2 ^ 32 - 1\<close>
  registrations, interleaved with releases in any way, the handles returned are strictly
  increasing and never 0, and a handle that was handed out and released resolves to nothing
  for the rest of the run.
\<close>

theorem callback_handles_never_rebind:
  assumes "allocs ops1 + allocs ops2 < 2 ^ 32 - 1"
    and "run_handle_ops registry_alloc remove_handle new_registry ops1 = (hs1, r1)"
    and "run_handle_ops registry_alloc remove_handle r1 ops2 = (hs2, r2)"
  shows "sorted_wrt (<) hs1 \<and> 0 \<notin> set hs1
    \<and> (\<forall>h. h < next_handle r1 \<longrightarrow> get_entry r1 h = None \<longrightarrow> get_entry r2 h = None)"
proof -
  have fit1: "fits (next_handle new_registry) ops1"
    using assms(1) by (simp add: fits_def new_registry_def)
  have nx: "unat (next_handle r1) = 1 + allocs ops1"
    using registry.run_counter_mono [OF fit1 assms(2)] by (simp add: new_registry_def)
  then have fit2: "fits (next_handle r1) ops2" using assms(1) by (simp add: fits_def)
  have "sorted_wrt (<) hs1" "\<forall>h \<in> set hs1. 1 \<le> h"
    using registry.run_handles_sorted [OF fit1 assms(2)] by (auto simp: new_registry_def)
  moreover from this(2) have "0 \<notin> set hs1" by auto
  ultimately show ?thesis using registry.run_unbound_stays [OF fit2 assms(3)] by blast
qed

theorem callback_handles_never_rebind_witness:
  "sorted_wrt (<) (fst (run_handle_ops registry_alloc remove_handle new_registry
      [Alloc (''a'', Scalar, 1), Release 1, Alloc (''b'', Cast, 2)])) \<and>
   get_entry (snd (run_handle_ops registry_alloc remove_handle
      (snd (run_handle_ops registry_alloc remove_handle new_registry
        [Alloc (''a'', Scalar, 1), Release 1, Alloc (''b'', Cast, 2)]))
      [Alloc (''c'', Pragma, 3)])) 1 = None"
proof -
  let ?ops = "[Alloc (''a'', Scalar, 1), Release 1, Alloc (''b'', Cast, 2)]"
  obtain hs1 r1 where run1: "run_handle_ops registry_alloc remove_handle new_registry ?ops
      = (hs1, r1)" by fastforce
  obtain hs2 r2 where run2: "run_handle_ops registry_alloc remove_handle r1
      [Alloc (''c'', Pragma, 3)] = (hs2, r2)" by fastforce
  have few: "allocs ?ops + allocs [Alloc (''c'', Pragma, 3 :: u32)] < 2 ^ 32 - 1" by simp
  have "next_handle r1 = 3 \<and> get_entry r1 1 = None"
    using run1 by (auto simp: registry_alloc_def allocate_def new_registry_def remove_handle_def
        ensure_slot_def get_entry_def Let_def split: prod.splits)
  then show ?thesis
    using callback_handles_never_rebind [OF few run1 run2] run1 run2 by simp
qed

text \<open>
  Unloading an extension purges exactly its callbacks: afterwards a handle resolves if and
  only if it did before and its owner is another extension, and then to the same entry; the
  counter is untouched, so handles of the unloaded extension are not handed out again.
\<close>

theorem remove_extension_exact:
  "(get_entry (remove_extension ext r) h = Some e
     \<longleftrightarrow> get_entry r h = Some e \<and> ce_extension e \<noteq> ext)
   \<and> next_handle (remove_extension ext r) = next_handle r"
proof (rule conjI)
  show "get_entry (remove_extension ext r) h = Some e
     \<longleftrightarrow> get_entry r h = Some e \<and> ce_extension e \<noteq> ext"
    by (auto simp: remove_extension_get split: option.splits if_splits)
  show "next_handle (remove_extension ext r) = next_handle r"
    by (simp add: remove_extension_def)
qed

text \<open>
  Linking the instance pointer is a pure optimisation: for every handle it changes nothing
  that dispatch routes on (owner, dispatcher handle and kind), it sets the pointer on exactly
  the slots of the named extension, and linking again replaces the pointer of the first link.
\<close>

theorem link_instance_transparent:
  "map_option (\<lambda>e. (ce_extension e, ce_dispatcher e, ce_kind e))
      (get_entry (link_extension_instance ext i r) h)
   = map_option (\<lambda>e. (ce_extension e, ce_dispatcher e, ce_kind e)) (get_entry r h)
   \<and> map_option ce_instance (get_entry (link_extension_instance ext i r) h)
   = map_option (\<lambda>e. if ce_extension e = ext then Some i else ce_instance e) (get_entry r h)
   \<and> link_extension_instance ext j (link_extension_instance ext i r)
   = link_extension_instance ext j r"
proof (intro conjI)
  show "link_extension_instance ext j (link_extension_instance ext i r)
      = link_extension_instance ext j r"
    by (auto simp: link_extension_instance_def split: option.splits)
qed (auto simp: link_extension_get split: option.splits)

text \<open>
  The counter wraps: after handle \<open>2 ^ 32 - 1\<close> has been handed out the next handle is 1
  again, and it is taken even while an earlier callback is bound to it, whose entry is then
  lost.
\<close>

theorem callback_counter_wrap_rebinds:
  assumes "next_handle r = -1" and "get_entry r 1 = Some old"
  shows "let (h1, r1) = allocate r e1 k1 d1; (h2, r2) = allocate r1 e2 k2 d2
         in h1 = -1 \<and> h2 = 1 \<and> get_entry r1 1 = Some old
            \<and> get_entry r2 1 = Some (mk_entry (e2, k2, d2))"
proof -
  obtain h1 r1 where a1: "allocate r e1 k1 d1 = (h1, r1)" by fastforce
  obtain h2 r2 where a2: "allocate r1 e2 k2 d2 = (h2, r2)" by fastforce
  have "h1 = -1" "next_handle r1 = 1" "get_entry r1 1 = Some old"
    using allocate_handle [of r e1 k1 d1] allocate_next [of r e1 k1 d1]
      allocate_get [of r e1 k1 d1 1] assms by (simp_all add: a1 bump_handle_wraps)
  then show ?thesis
    using allocate_handle [of r1 e2 k2 d2] allocate_get [of r1 e2 k2 d2 1] by (simp add: a1 a2)
qed

theorem callback_counter_wrap_rebinds_witness:
  "fst (allocate (snd (allocate \<lparr>next_handle = -1, entries = [None, Some (mk_entry (''a'', Scalar, 5))]\<rparr>
      ''b'' Table 6)) ''c'' Pragma 7) = 1"
proof -
  let ?r = "\<lparr>next_handle = -1, entries = [None, Some (mk_entry (''a'', Scalar, 5))]\<rparr>"
  have "get_entry ?r 1 = Some (mk_entry (''a'', Scalar, 5))" by (simp add: get_entry_def)
  then show ?thesis
    using callback_counter_wrap_rebinds [of ?r "mk_entry (''a'', Scalar, 5)" "''b''" Table 6 "''c''" Pragma 7]
    by (simp add: split_def Let_def)
qed

end
