(* ===== verification/Duck_Types.thy ===== *)
theory Duck_Types
  imports Callback_Registry
begin

text \<open>
  The data the runtime exchanges with extensions: the neutral registration records of module
  \<open>reg\<close> in \<open>crates/ducklink-runtime/src/lib.rs\<close>, and the value, type and column mirrors
  of \<open>crates/ducklink-runtime/src/extension.rs\<close>. Structs are records and enums are
  datatypes with the constructors of the source, prefixed where two enums share a name.
  Floating-point numbers are their bit patterns: the code only moves them.
\<close>

section \<open>Neutral registration model (module reg)\<close>

datatype reg_logical_type =
    R_Boolean | R_Int64 | R_Uint64 | R_Float64 | R_Text | R_Blob | R_Int32 | R_Timestamp
  | R_Int8 | R_Int16 | R_Uint8 | R_Uint16 | R_Uint32 | R_Float32 | R_Date | R_Time
  | R_Timestamptz | R_Decimal u8 u8 | R_Interval | R_Uuid | R_Hugeint | R_UHugeint
  | R_List reg_logical_type
  | R_Struct "(string \<times> reg_logical_type) list"
  | R_Map reg_logical_type reg_logical_type
  | R_Array u32 reg_logical_type
  | R_Complex string

definition show_word :: "'a::len word \<Rightarrow> string" where
  "show_word w = show_nat (unat w)"

fun describe_logical :: "reg_logical_type \<Rightarrow> string" where
  "describe_logical R_Boolean = ''BOOLEAN''"
| "describe_logical R_Int64 = ''INT64''"
| "describe_logical R_Uint64 = ''UINT64''"
| "describe_logical R_Float64 = ''FLOAT64''"
| "describe_logical R_Text = ''TEXT''"
| "describe_logical R_Blob = ''BLOB''"
| "describe_logical R_Int32 = ''INT32''"
| "describe_logical R_Timestamp = ''TIMESTAMP''"
| "describe_logical R_Int8 = ''INT8''"
| "describe_logical R_Int16 = ''INT16''"
| "describe_logical R_Uint8 = ''UINT8''"
| "describe_logical R_Uint16 = ''UINT16''"
| "describe_logical R_Uint32 = ''UINT32''"
| "describe_logical R_Float32 = ''FLOAT32''"
| "describe_logical R_Date = ''DATE''"
| "describe_logical R_Time = ''TIME''"
| "describe_logical R_Timestamptz = ''TIMESTAMPTZ''"
| "describe_logical (R_Decimal width scale) =
     ''DECIMAL('' @ show_word width @ '', '' @ show_word scale @ '')''"
| "describe_logical R_Interval = ''INTERVAL''"
| "describe_logical R_Uuid = ''UUID''"
| "describe_logical R_Hugeint = ''HUGEINT''"
| "describe_logical R_UHugeint = ''UHUGEINT''"
| "describe_logical (R_List inner) = ''LIST('' @ describe_logical inner @ '')''"
| "describe_logical (R_Struct fs) =
     ''STRUCT{'' @ join '', '' (map (\<lambda>(n, t). n @ '' '' @ describe_logical t) fs) @ ''}''"
| "describe_logical (R_Map k v) =
     ''MAP<'' @ describe_logical k @ '', '' @ describe_logical v @ ''>''"
| "describe_logical (R_Array sz inner) =
     ''ARRAY('' @ describe_logical inner @ '', '' @ show_word sz @ '')''"
| "describe_logical (R_Complex expr) = expr"

record reg_func_arg =
  rfa_name :: "string option"
  rfa_logical :: reg_logical_type

record reg_column_def =
  rcd_name :: string
  rcd_logical :: reg_logical_type

record reg_func_flags =
  rff_deterministic :: bool
  rff_commutative :: bool
  rff_stateless :: bool
  rff_side_effecting :: bool
  rff_deprecated :: bool

definition describe_flags :: "reg_func_flags \<Rightarrow> string" where
  "describe_flags f =
     (let parts =
        (if rff_deterministic f then [''deterministic''] else []) @
        (if rff_commutative f then [''commutative''] else []) @
        (if rff_stateless f then [''stateless''] else []) @
        (if rff_side_effecting f then [''sideeffecting''] else []) @
        (if rff_deprecated f then [''deprecated''] else [])
      in if parts = [] then ''none'' else ''['' @ join '', '' parts @ '']'')"

record reg_func_opts =
  rfo_description :: "string option"
  rfo_tags :: "string list"
  rfo_attributes :: reg_func_flags

record reg_ext_opts =
  reo_description :: "string option"
  reo_tags :: "string list"

record scalar_reg =
  scalar_extension :: string
  scalar_name :: string
  scalar_arguments :: "reg_func_arg list"
  scalar_returns :: reg_logical_type
  scalar_callback :: u32
  scalar_options :: "reg_func_opts option"

record table_reg =
  table_extension :: string
  table_name :: string
  table_arguments :: "reg_func_arg list"
  table_columns :: "reg_column_def list"
  table_callback :: u32
  table_options :: "reg_ext_opts option"

record storage_reg =
  storage_extension :: string
  storage_type_name :: string
  storage_callback :: u32
  storage_options :: "reg_ext_opts option"

record files_reg =
  files_extension :: string
  files_callback :: u32

record index_reg =
  index_extension :: string
  index_type_name :: string

record collation_reg =
  collation_extension :: string
  collation_name :: string
  collation_transform :: string
  collation_combinable :: bool

record pragma_reg =
  pragma_extension :: string
  pragma_name :: string
  pragma_callback :: u32

record aggregate_reg =
  aggregate_extension :: string
  aggregate_name :: string
  aggregate_arguments :: "reg_func_arg list"
  aggregate_returns :: reg_logical_type
  aggregate_callback :: u32
  aggregate_options :: "reg_func_opts option"

record macro_reg =
  macro_extension :: string
  macro_schema :: string
  macro_name :: string
  macro_parameters :: "string list"
  macro_definition_sql :: string

record replacement_scan_reg =
  scan_extension :: string
  scan_extensions :: "string list"
  scan_function_name :: string

record logical_type_reg =
  ltype_extension :: string
  ltype_name :: string
  ltype_physical :: string

record cast_reg =
  cast_extension :: string
  cast_source :: string
  cast_target :: string
  cast_callback :: u32
  cast_implicit_cost :: "i32 option"

record copy_handler_reg =
  copy_extension :: string
  copy_file_extension :: string
  copy_function :: u32

record secret_reg =
  secret_extension :: string
  secret_type_name :: string
  secret_provider :: "string option"
  secret_params :: "(string \<times> bool) list"
  secret_callback :: u32

record setting_reg =
  setting_extension :: string
  setting_name :: string
  setting_description :: string
  setting_ty :: string
  setting_default :: "string option"
  setting_scope :: string

record table_macro_reg =
  tmacro_extension :: string
  tmacro_schema :: string
  tmacro_name :: string
  tmacro_parameters :: "string list"
  tmacro_body_sql :: string

record modified_type_reg =
  mtype_extension :: string
  mtype_name :: string
  mtype_expr :: string

record enum_type_reg =
  enum_extension :: string
  enum_name :: string
  enum_members :: "string list"

record scalar_ex_reg =
  sex_extension :: string
  sex_name :: string
  sex_arguments :: "reg_func_arg list"
  sex_varargs :: "reg_logical_type option"
  sex_returns :: reg_logical_type
  sex_special_null :: bool
  sex_volatile :: bool
  sex_callback :: u32
  sex_options :: "reg_func_opts option"

record conn_callback_reg =
  conn_extension :: string
  conn_on_opened :: bool
  conn_on_closed :: bool
  conn_callback :: u32

record coordinate_system_reg =
  crs_extension :: string
  crs_auth_name :: string
  crs_code :: u32
  crs_wkt :: string

record arrow_table_reg =
  arrow_extension :: string
  arrow_name :: string
  arrow_columns :: "reg_column_def list"
  arrow_callback :: u32

record encoding_reg =
  encoding_extension :: string
  encoding_name :: string
  encoding_aliases :: "string list"
  encoding_callback :: u32

record compression_reg =
  compression_extension :: string
  compression_name :: string
  compression_file_extension :: string
  compression_callback :: u32

record parser_reg =
  parser_extension :: string
  parser_name :: string
  parser_callback :: u32

record optimizer_reg =
  optimizer_extension :: string
  optimizer_rule_name :: string
  optimizer_callback :: u32

record filterable_table_reg =
  ftable_extension :: string
  ftable_name :: string
  ftable_arguments :: "reg_func_arg list"
  ftable_columns :: "reg_column_def list"
  ftable_callback :: u32

section \<open>Values, types and columns of the extension ABI\<close>

datatype duckerror =
    Invalidargument string | Unsupported string | Invalidstate string | Io string | Internal string

fun show_duckerror :: "duckerror \<Rightarrow> string" where
  "show_duckerror (Invalidargument m) = ''invalid-argument: '' @ m"
| "show_duckerror (Unsupported m) = ''unsupported: '' @ m"
| "show_duckerror (Invalidstate m) = ''invalid-state: '' @ m"
| "show_duckerror (Io m) = ''io: '' @ m"
| "show_duckerror (Internal m) = ''internal: '' @ m"

record decimalvalue =
  dec_lower :: u64
  dec_upper :: u64
  dec_width :: u8
  dec_scale :: u8

record hugeintvalue =
  huge_lower :: u64
  huge_upper :: i64

record uhugeintvalue =
  uhuge_lower :: u64
  uhuge_upper :: u64

record intervalvalue =
  iv_months :: i32
  iv_days :: i32
  iv_micros :: i64

record uuidvalue =
  uuid_hi :: u64
  uuid_lo :: u64

record complexvalue =
  cx_type_expr :: string
  cx_json :: string

datatype duckvalue =
    D_Null
  | D_Boolean bool
  | D_Int64 i64
  | D_Uint64 u64
  | D_Float64 f64
  | D_Text string
  | D_Blob "u8 list"
  | D_Int32 i32
  | D_Timestamp i64
  | D_Int8 i8
  | D_Int16 i16
  | D_Uint8 u8
  | D_Uint16 u16
  | D_Uint32 u32
  | D_Float32 f32
  | D_Date i32
  | D_Time i64
  | D_Timestamptz i64
  | D_Decimal decimalvalue
  | D_Interval intervalvalue
  | D_Uuid uuidvalue
  | D_Hugeint hugeintvalue
  | D_Uhugeint uhugeintvalue
  | D_Complex complexvalue

record decimalshape =
  shape_width :: u8
  shape_scale :: u8

datatype logicaltype =
    L_Boolean | L_Int64 | L_Uint64 | L_Float64 | L_Text | L_Blob | L_Int32 | L_Timestamp
  | L_Int8 | L_Int16 | L_Uint8 | L_Uint16 | L_Uint32 | L_Float32 | L_Date | L_Time
  | L_Timestamptz | L_Decimal decimalshape | L_Interval | L_Uuid | L_Hugeint | L_Uhugeint
  | L_Complex string

record columndef =
  cd_name :: string
  cd_logical :: logicaltype

record duck_int128 =
  i128_lower :: u64
  i128_upper :: i64

record duck_uint128 =
  u128_lower :: u64
  u128_upper :: u64

record nested_column =
  nc_encoded :: "u8 list"

record map_column =
  mc_keys_encoded :: "u8 list"
  mc_vals_encoded :: "u8 list"

record array_column =
  ac_size :: u32
  ac_encoded :: "u8 list"

datatype column =
    C_Boolean "bool list"
  | C_Int64 "i64 list"
  | C_Uint64 "u64 list"
  | C_Float64 "f64 list"
  | C_Int32 "i32 list"
  | C_Timestamp "i64 list"
  | C_Int8 "i8 list"
  | C_Int16 "i16 list"
  | C_Uint8 "u8 list"
  | C_Uint16 "u16 list"
  | C_Uint32 "u32 list"
  | C_Float32 "f32 list"
  | C_Date "i32 list"
  | C_Time "i64 list"
  | C_Timestamptz "i64 list"
  | C_Decimal "decimalvalue list"
  | C_Interval "intervalvalue list"
  | C_Uuid "uuidvalue list"
  | C_Text "string list"
  | C_Blob "u8 list list"
  | C_Hugeint "duck_int128 list"
  | C_Uhugeint "duck_uint128 list"
  | C_ListCol nested_column
  | C_StructCol nested_column
  | C_MapCol map_column
  | C_ArrayCol array_column
  | C_Complex "complexvalue list"

record colvec =
  cv_data :: column
  cv_validity :: "u8 list"
  cv_rows :: u32

record funcarg =
  fa_name :: "string option"
  fa_logical :: logicaltype

record extopts =
  eo_description :: "string option"
  eo_tags :: "string list"

record funcflags =
  ff_deterministic :: bool
  ff_commutative :: bool
  ff_stateless :: bool
  ff_sideeffecting :: bool
  ff_deprecated :: bool

record funcopts =
  fo_description :: "string option"
  fo_tags :: "string list"
  fo_attributes :: funcflags

section \<open>From the wire types to the registration types\<close>

fun logical_to_reg :: "logicaltype \<Rightarrow> reg_logical_type" where
  "logical_to_reg L_Boolean = R_Boolean"
| "logical_to_reg L_Int64 = R_Int64"
| "logical_to_reg L_Uint64 = R_Uint64"
| "logical_to_reg L_Float64 = R_Float64"
| "logical_to_reg L_Text = R_Text"
| "logical_to_reg L_Blob = R_Blob"
| "logical_to_reg L_Int32 = R_Int32"
| "logical_to_reg L_Timestamp = R_Timestamp"
| "logical_to_reg L_Int8 = R_Int8"
| "logical_to_reg L_Int16 = R_Int16"
| "logical_to_reg L_Uint8 = R_Uint8"
| "logical_to_reg L_Uint16 = R_Uint16"
| "logical_to_reg L_Uint32 = R_Uint32"
| "logical_to_reg L_Float32 = R_Float32"
| "logical_to_reg L_Date = R_Date"
| "logical_to_reg L_Time = R_Time"
| "logical_to_reg L_Timestamptz = R_Timestamptz"
| "logical_to_reg (L_Decimal s) = R_Decimal (shape_width s) (shape_scale s)"
| "logical_to_reg L_Interval = R_Interval"
| "logical_to_reg L_Uuid = R_Uuid"
| "logical_to_reg L_Hugeint = R_Hugeint"
| "logical_to_reg L_Uhugeint = R_UHugeint"
| "logical_to_reg (L_Complex s) = R_Complex s"

definition columndef_to_reg :: "columndef \<Rightarrow> reg_column_def" where
  "columndef_to_reg c = \<lparr>rcd_name = cd_name c, rcd_logical = logical_to_reg (cd_logical c)\<rparr>"

definition funcarg_to_reg :: "funcarg \<Rightarrow> reg_func_arg" where
  "funcarg_to_reg a = \<lparr>rfa_name = fa_name a, rfa_logical = logical_to_reg (fa_logical a)\<rparr>"

definition funcflags_to_reg :: "funcflags \<Rightarrow> reg_func_flags" where
  "funcflags_to_reg f =
     \<lparr>rff_deterministic = ff_deterministic f, rff_commutative = ff_commutative f,
      rff_stateless = ff_stateless f, rff_side_effecting = ff_sideeffecting f,
      rff_deprecated = ff_deprecated f\<rparr>"

definition funcopts_to_reg :: "funcopts \<Rightarrow> reg_func_opts" where
  "funcopts_to_reg o1 =
     \<lparr>rfo_description = fo_description o1, rfo_tags = fo_tags o1,
      rfo_attributes = funcflags_to_reg (fo_attributes o1)\<rparr>"

definition extopts_to_reg :: "extopts \<Rightarrow> reg_ext_opts" where
  "extopts_to_reg o1 = \<lparr>reo_description = eo_description o1, reo_tags = eo_tags o1\<rparr>"

end
