(* ===== verification/Capture.thy ===== *)
theory Capture
  imports Prelude "HOL-Library.Multiset"
begin

text \<open>
  The contract of a capture buffer, which the scalar, table and aggregate registries of an
  extension's state share: a registry is opened under a fresh id, entries are pushed to an open
  registry, closing a registry moves its entries to the pending buffer, and a drain collects
  the pending buffer and the registries still open. The conserved quantity is the multiset of
  captured entries.
\<close>

section \<open>What is captured\<close>

definition captured :: "'e list \<Rightarrow> ('k \<rightharpoonup> 'e list) \<Rightarrow> 'e multiset" where
  "captured pend m = mset pend + (\<Sum>k \<in> dom m. mset (the (m k)))"

lemma captured_empty [simp]: "captured [] Map.empty = {#}"
  by (simp add: captured_def)

lemma captured_open: "finite (dom m) \<Longrightarrow> m k = None \<Longrightarrow> captured p (m(k \<mapsto> [])) = captured p m"
proof -
  assume f: "finite (dom m)" and n: "m k = None"
  have "(\<Sum>j \<in> dom m. mset (the ((m(k \<mapsto> [])) j))) = (\<Sum>j \<in> dom m. mset (the (m j)))"
    using n by (intro sum.cong) auto
  moreover have "k \<notin> dom m" using n by auto
  ultimately show ?thesis using f by (simp add: captured_def)
qed

lemma captured_remove:
  assumes "finite (dom m)" and "m k = Some es"
  shows "(\<Sum>j \<in> dom m. mset (the (m j))) = mset es + (\<Sum>j \<in> dom m - {k}. mset (the (m j)))"
proof -
  have "k \<in> dom m" using assms(2) by auto
  then show ?thesis using assms by (simp add: sum.remove)
qed

lemma captured_push:
  assumes "finite (dom m)" and "m k = Some es"
  shows "captured p (m(k \<mapsto> es @ [e])) = add_mset e (captured p m)"
proof -
  have d: "dom (m(k \<mapsto> es @ [e])) = insert k (dom m - {k})" by auto
  have "(\<Sum>j \<in> dom m - {k}. mset (the ((m(k \<mapsto> es @ [e])) j)))
      = (\<Sum>j \<in> dom m - {k}. mset (the (m j)))"
    by (intro sum.cong) auto
  then have "(\<Sum>j \<in> insert k (dom m - {k}). mset (the ((m(k \<mapsto> es @ [e])) j)))
      = add_mset e (mset es) + (\<Sum>j \<in> dom m - {k}. mset (the (m j)))"
    using assms(1) by (subst sum.insert) auto
  then show ?thesis
    using captured_remove [OF assms] unfolding captured_def d by simp
qed

lemma captured_close:
  assumes "finite (dom m)" and "m k = Some es"
  shows "captured (p @ es) (m(k := None)) = captured p m"
proof -
  have "(\<Sum>j \<in> dom m - {k}. mset (the ((m(k := None)) j)))
      = (\<Sum>j \<in> dom m - {k}. mset (the (m j)))"
    by (intro sum.cong) auto
  then show ?thesis
    using captured_remove [OF assms] by (simp add: captured_def dom_fun_upd)
qed

section \<open>The interface\<close>

locale capture_buffer =
  fixes registries :: "'s \<Rightarrow> u32 \<rightharpoonup> 'e list"
    and pending :: "'s \<Rightarrow> 'e list"
    and fresh_id :: "'s \<Rightarrow> u32"
    and open_registry :: "'s \<Rightarrow> u32 \<times> 's"
    and push :: "'s \<Rightarrow> u32 \<Rightarrow> 'e \<Rightarrow> ('x + u32) \<times> 's"
    and close_registry :: "u32 \<Rightarrow> 's \<Rightarrow> 's"
  assumes open_id: "fst (open_registry s) = fresh_id s"
    and open_registries: "registries (snd (open_registry s)) = (registries s)(fresh_id s \<mapsto> [])"
    and open_pending: "pending (snd (open_registry s)) = pending s"
    and push_unknown: "registries s k = None \<Longrightarrow> \<exists>x. push s k e = (Inl x, s)"
    and push_known: "registries s k = Some es \<Longrightarrow>
      \<exists>h t. push s k e = (Inr h, t) \<and> registries t = (registries s)(k \<mapsto> es @ [e])
        \<and> pending t = pending s"
    and close_registries: "registries (close_registry k s) = (registries s)(k := None)"
    and close_pending: "pending (close_registry k s) =
      pending s @ (case registries s k of None \<Rightarrow> [] | Some es \<Rightarrow> es)"
begin

lemma open_captured:
  "finite (dom (registries s)) \<Longrightarrow> registries s (fresh_id s) = None \<Longrightarrow>
     captured (pending (snd (open_registry s))) (registries (snd (open_registry s)))
       = captured (pending s) (registries s)"
  by (simp add: open_registries open_pending captured_open)

lemma push_captured:
  assumes "finite (dom (registries s))" and "push s k e = (r, t)"
  shows "captured (pending t) (registries t) =
    (case r of Inl x \<Rightarrow> captured (pending s) (registries s)
     | Inr h \<Rightarrow> add_mset e (captured (pending s) (registries s)))"
proof (cases "registries s k")
  case None
  then show ?thesis using push_unknown [of s k e] assms(2) by auto
next
  case (Some es)
  then show ?thesis
    using push_known [OF Some, of e] assms(2) captured_push [OF assms(1) Some] by auto
qed

lemma close_captured:
  assumes "finite (dom (registries s))"
  shows "captured (pending (close_registry k s)) (registries (close_registry k s))
    = captured (pending s) (registries s)"
proof (cases "registries s k")
  case None
  then have "(registries s)(k := None) = registries s" by auto
  with None show ?thesis by (simp add: close_registries close_pending)
next
  case (Some es)
  then show ?thesis
    by (simp add: close_registries close_pending captured_close [OF assms Some])
qed

text \<open>A push succeeds exactly on an open registry.\<close>

lemma push_ok_iff: "(\<exists>h. fst (push s k e) = Inr h) \<longleftrightarrow> registries s k \<noteq> None"
proof (cases "registries s k")
  case None
  then show ?thesis using push_unknown [OF None, of e] by auto
next
  case (Some es)
  then show ?thesis using push_known [OF Some, of e] by auto
qed

end

end
