(* ===== verification/Extension_State.thy ===== *)
theory Extension_State
  imports Duck_Types Capture
begin

text \<open>
  The per-extension store state of \<open>crates/ducklink-runtime/src/extension.rs\<close>
  (\<open>ExtensionInnerState\<close>): the buffers that capture what a component registers while it
  loads, the registries that are still held by the guest, the resource-id counter and the
  file-lock table, with every accessor the host handlers call, \<open>drain_pending\<close> and the
  \<open>take_pending_*\<close> drains. The callback registry behind the shared lock is threaded as an
  argument. A \<open>HashMap\<close> is a map; where the code iterates over one, the order of its keys is
  an argument. The services trait object and the OS lock behind a lock handle are outside the
  model: a lock is represented by its path, and the outcome of acquiring it is an argument.
\<close>

section \<open>State\<close>

record pending_log_storage =
  pls_name :: string
  pls_callback :: u32

record ext_state =
  next_resource_id :: u32
  scalar_registries :: "u32 \<rightharpoonup> scalar_reg list"
  table_registries :: "u32 \<rightharpoonup> table_reg list"
  aggregate_registries :: "u32 \<rightharpoonup> aggregate_reg list"
  pending_scalars :: "scalar_reg list"
  pending_tables :: "table_reg list"
  pending_aggregates :: "aggregate_reg list"
  pending_macros :: "macro_reg list"
  pending_replacement_scans :: "replacement_scan_reg list"
  pending_logical_types :: "logical_type_reg list"
  pending_casts :: "cast_reg list"
  pending_storages :: "storage_reg list"
  pending_indexes :: "index_reg list"
  pending_files :: "files_reg list"
  pending_collations :: "collation_reg list"
  pending_pragmas :: "pragma_reg list"
  pending_copy_handlers :: "copy_handler_reg list"
  pending_secrets :: "secret_reg list"
  pending_settings :: "setting_reg list"
  pending_table_macros :: "table_macro_reg list"
  pending_modified_types :: "modified_type_reg list"
  pending_enum_types :: "enum_type_reg list"
  pending_scalar_ex :: "scalar_ex_reg list"
  pending_conn_callbacks :: "conn_callback_reg list"
  pending_coordinate_systems :: "coordinate_system_reg list"
  pending_arrow_tables :: "arrow_table_reg list"
  pending_encodings :: "encoding_reg list"
  pending_compressions :: "compression_reg list"
  pending_parsers :: "parser_reg list"
  pending_optimizers :: "optimizer_reg list"
  pending_filterable_tables :: "filterable_table_reg list"
  pending_log_storages :: "pending_log_storage list"
  table_handle_names :: "u32 \<rightharpoonup> string"
  extension_name :: string
  lock_handles :: "u32 \<rightharpoonup> string"
  next_lock_handle :: u32

definition new_ext_state :: "string \<Rightarrow> ext_state" where
  "new_ext_state name =
     \<lparr>next_resource_id = 1,
      scalar_registries = Map.empty, table_registries = Map.empty,
      aggregate_registries = Map.empty,
      pending_scalars = [], pending_tables = [], pending_aggregates = [], pending_macros = [],
      pending_replacement_scans = [], pending_logical_types = [], pending_casts = [],
      pending_storages = [], pending_indexes = [], pending_files = [], pending_collations = [],
      pending_pragmas = [], pending_copy_handlers = [], pending_secrets = [],
      pending_settings = [], pending_table_macros = [], pending_modified_types = [],
      pending_enum_types = [], pending_scalar_ex = [], pending_conn_callbacks = [],
      pending_coordinate_systems = [], pending_arrow_tables = [], pending_encodings = [],
      pending_compressions = [], pending_parsers = [], pending_optimizers = [],
      pending_filterable_tables = [], pending_log_storages = [],
      table_handle_names = Map.empty, extension_name = name,
      lock_handles = Map.empty, next_lock_handle = 1\<rparr>"

record pending_registrations =
  pr_scalars :: "scalar_reg list"
  pr_tables :: "table_reg list"
  pr_aggregates :: "aggregate_reg list"
  pr_macros :: "macro_reg list"
  pr_replacement_scans :: "replacement_scan_reg list"
  pr_logical_types :: "logical_type_reg list"
  pr_casts :: "cast_reg list"
  pr_storages :: "storage_reg list"
  pr_pragmas :: "pragma_reg list"
  pr_settings :: "setting_reg list"
  pr_secrets :: "secret_reg list"
  pr_copy_handlers :: "copy_handler_reg list"
  pr_arrow_tables :: "arrow_table_reg list"
  pr_scalar_ex :: "scalar_ex_reg list"
  pr_table_macros :: "table_macro_reg list"
  pr_enum_types :: "enum_type_reg list"
  pr_modified_types :: "modified_type_reg list"
  pr_log_storages :: "pending_log_storage list"
  pr_coordinate_systems :: "coordinate_system_reg list"

definition append_registrations ::
  "pending_registrations \<Rightarrow> pending_registrations \<Rightarrow> pending_registrations" where
  "append_registrations a b =
     \<lparr>pr_scalars = pr_scalars a @ pr_scalars b,
      pr_tables = pr_tables a @ pr_tables b,
      pr_aggregates = pr_aggregates a @ pr_aggregates b,
      pr_macros = pr_macros a @ pr_macros b,
      pr_replacement_scans = pr_replacement_scans a @ pr_replacement_scans b,
      pr_logical_types = pr_logical_types a @ pr_logical_types b,
      pr_casts = pr_casts a @ pr_casts b,
      pr_storages = pr_storages a @ pr_storages b,
      pr_pragmas = pr_pragmas a @ pr_pragmas b,
      pr_settings = pr_settings a @ pr_settings b,
      pr_secrets = pr_secrets a @ pr_secrets b,
      pr_copy_handlers = pr_copy_handlers a @ pr_copy_handlers b,
      pr_arrow_tables = pr_arrow_tables a @ pr_arrow_tables b,
      pr_scalar_ex = pr_scalar_ex a @ pr_scalar_ex b,
      pr_table_macros = pr_table_macros a @ pr_table_macros b,
      pr_enum_types = pr_enum_types a @ pr_enum_types b,
      pr_modified_types = pr_modified_types a @ pr_modified_types b,
      pr_log_storages = pr_log_storages a @ pr_log_storages b,
      pr_coordinate_systems = pr_coordinate_systems a @ pr_coordinate_systems b\<rparr>"

section \<open>Handles\<close>

definition alloc_resource_id :: "ext_state \<Rightarrow> u32 \<times> ext_state" where
  "alloc_resource_id s =
     (next_resource_id s, s\<lparr>next_resource_id := max (next_resource_id s + 1) 1\<rparr>)"

definition alloc_lock_handle :: "ext_state \<Rightarrow> string \<Rightarrow> u32 \<times> ext_state" where
  "alloc_lock_handle s lock =
     (let rid = next_lock_handle s
      in (rid, s\<lparr>next_lock_handle := max (next_lock_handle s + 1) 1,
               lock_handles := (lock_handles s)(rid \<mapsto> lock)\<rparr>))"

definition free_lock_handle :: "u32 \<Rightarrow> ext_state \<Rightarrow> ext_state" where
  "free_lock_handle rid s = s\<lparr>lock_handles := (lock_handles s)(rid := None)\<rparr>"

text \<open>\<open>acquired\<close> is what \<open>LockHandleState::acquire_exclusive\<close> returned for the path.\<close>

definition acquire_exclusive_lock ::
  "string + unit \<Rightarrow> string \<Rightarrow> ext_state \<Rightarrow> (string + u32) \<times> ext_state" where
  "acquire_exclusive_lock acquired path s =
     (case acquired of
        Inl e \<Rightarrow> (Inl e, s)
      | Inr _ \<Rightarrow> (let (rid, s') = alloc_lock_handle s path in (Inr rid, s')))"

definition try_acquire_exclusive_lock ::
  "string + unit option \<Rightarrow> string \<Rightarrow> ext_state \<Rightarrow> (string + u32 option) \<times> ext_state" where
  "try_acquire_exclusive_lock acquired path s =
     (case acquired of
        Inl e \<Rightarrow> (Inl e, s)
      | Inr None \<Rightarrow> (Inr None, s)
      | Inr (Some _) \<Rightarrow> (let (rid, s') = alloc_lock_handle s path in (Inr (Some rid), s')))"

definition release_lock_handle :: "u32 \<Rightarrow> ext_state \<Rightarrow> ext_state" where
  "release_lock_handle rid s = free_lock_handle rid s"

definition active_lock_handle_count :: "ext_state \<Rightarrow> nat" where
  "active_lock_handle_count s = card (dom (lock_handles s))"

definition contains_lock_handle :: "ext_state \<Rightarrow> u32 \<Rightarrow> bool" where
  "contains_lock_handle s rid \<longleftrightarrow> lock_handles s rid \<noteq> None"

section \<open>Capture buffers\<close>

definition push_pending_setting :: "setting_reg \<Rightarrow> ext_state \<Rightarrow> ext_state" where
  "push_pending_setting e s = s\<lparr>pending_settings := pending_settings s @ [e]\<rparr>"

definition push_pending_parser :: "parser_reg \<Rightarrow> ext_state \<Rightarrow> ext_state" where
  "push_pending_parser e s = s\<lparr>pending_parsers := pending_parsers s @ [e]\<rparr>"

definition push_pending_optimizer :: "optimizer_reg \<Rightarrow> ext_state \<Rightarrow> ext_state" where
  "push_pending_optimizer e s = s\<lparr>pending_optimizers := pending_optimizers s @ [e]\<rparr>"

definition push_pending_coordinate_system :: "coordinate_system_reg \<Rightarrow> ext_state \<Rightarrow> ext_state" where
  "push_pending_coordinate_system e s = s\<lparr>pending_coordinate_systems := pending_coordinate_systems s @ [e]\<rparr>"

definition push_pending_storage :: "storage_reg \<Rightarrow> ext_state \<Rightarrow> ext_state" where
  "push_pending_storage e s = s\<lparr>pending_storages := pending_storages s @ [e]\<rparr>"

definition push_pending_log_storage :: "pending_log_storage \<Rightarrow> ext_state \<Rightarrow> ext_state" where
  "push_pending_log_storage e s = s\<lparr>pending_log_storages := pending_log_storages s @ [e]\<rparr>"

definition push_pending_secret :: "secret_reg \<Rightarrow> ext_state \<Rightarrow> ext_state" where
  "push_pending_secret e s = s\<lparr>pending_secrets := pending_secrets s @ [e]\<rparr>"

definition push_pending_table_macro :: "table_macro_reg \<Rightarrow> ext_state \<Rightarrow> ext_state" where
  "push_pending_table_macro e s = s\<lparr>pending_table_macros := pending_table_macros s @ [e]\<rparr>"

definition push_pending_modified_type :: "modified_type_reg \<Rightarrow> ext_state \<Rightarrow> ext_state" where
  "push_pending_modified_type e s = s\<lparr>pending_modified_types := pending_modified_types s @ [e]\<rparr>"

definition push_pending_enum_type :: "enum_type_reg \<Rightarrow> ext_state \<Rightarrow> ext_state" where
  "push_pending_enum_type e s = s\<lparr>pending_enum_types := pending_enum_types s @ [e]\<rparr>"

definition push_pending_replacement_scan :: "replacement_scan_reg \<Rightarrow> ext_state \<Rightarrow> ext_state" where
  "push_pending_replacement_scan e s = s\<lparr>pending_replacement_scans := pending_replacement_scans s @ [e]\<rparr>"

definition push_pending_copy_handler :: "copy_handler_reg \<Rightarrow> ext_state \<Rightarrow> ext_state" where
  "push_pending_copy_handler e s = s\<lparr>pending_copy_handlers := pending_copy_handlers s @ [e]\<rparr>"

definition push_pending_arrow_table :: "arrow_table_reg \<Rightarrow> ext_state \<Rightarrow> ext_state" where
  "push_pending_arrow_table e s = s\<lparr>pending_arrow_tables := pending_arrow_tables s @ [e]\<rparr>"

definition push_pending_filterable_table :: "filterable_table_reg \<Rightarrow> ext_state \<Rightarrow> ext_state" where
  "push_pending_filterable_table e s = s\<lparr>pending_filterable_tables := pending_filterable_tables s @ [e]\<rparr>"

definition push_pending_scalar_ex :: "scalar_ex_reg \<Rightarrow> ext_state \<Rightarrow> ext_state" where
  "push_pending_scalar_ex e s = s\<lparr>pending_scalar_ex := pending_scalar_ex s @ [e]\<rparr>"

definition push_pending_logical_type :: "logical_type_reg \<Rightarrow> ext_state \<Rightarrow> ext_state" where
  "push_pending_logical_type e s = s\<lparr>pending_logical_types := pending_logical_types s @ [e]\<rparr>"

definition push_pending_macro :: "macro_reg \<Rightarrow> ext_state \<Rightarrow> ext_state" where
  "push_pending_macro e s = s\<lparr>pending_macros := pending_macros s @ [e]\<rparr>"

definition push_pending_cast :: "cast_reg \<Rightarrow> ext_state \<Rightarrow> ext_state" where
  "push_pending_cast e s = s\<lparr>pending_casts := pending_casts s @ [e]\<rparr>"

definition take_pending_storages :: "ext_state \<Rightarrow> storage_reg list \<times> ext_state" where
  "take_pending_storages s = (pending_storages s, s\<lparr>pending_storages := []\<rparr>)"

definition take_pending_indexes :: "ext_state \<Rightarrow> index_reg list \<times> ext_state" where
  "take_pending_indexes s = (pending_indexes s, s\<lparr>pending_indexes := []\<rparr>)"

definition take_pending_files :: "ext_state \<Rightarrow> files_reg list \<times> ext_state" where
  "take_pending_files s = (pending_files s, s\<lparr>pending_files := []\<rparr>)"

definition take_pending_collations :: "ext_state \<Rightarrow> collation_reg list \<times> ext_state" where
  "take_pending_collations s = (pending_collations s, s\<lparr>pending_collations := []\<rparr>)"

definition take_pending_pragmas :: "ext_state \<Rightarrow> pragma_reg list \<times> ext_state" where
  "take_pending_pragmas s = (pending_pragmas s, s\<lparr>pending_pragmas := []\<rparr>)"

definition take_pending_copy_handlers :: "ext_state \<Rightarrow> copy_handler_reg list \<times> ext_state" where
  "take_pending_copy_handlers s = (pending_copy_handlers s, s\<lparr>pending_copy_handlers := []\<rparr>)"

definition take_pending_secrets :: "ext_state \<Rightarrow> secret_reg list \<times> ext_state" where
  "take_pending_secrets s = (pending_secrets s, s\<lparr>pending_secrets := []\<rparr>)"

definition take_pending_settings :: "ext_state \<Rightarrow> setting_reg list \<times> ext_state" where
  "take_pending_settings s = (pending_settings s, s\<lparr>pending_settings := []\<rparr>)"

definition take_pending_table_macros :: "ext_state \<Rightarrow> table_macro_reg list \<times> ext_state" where
  "take_pending_table_macros s = (pending_table_macros s, s\<lparr>pending_table_macros := []\<rparr>)"

definition take_pending_modified_types :: "ext_state \<Rightarrow> modified_type_reg list \<times> ext_state" where
  "take_pending_modified_types s = (pending_modified_types s, s\<lparr>pending_modified_types := []\<rparr>)"

definition take_pending_enum_types :: "ext_state \<Rightarrow> enum_type_reg list \<times> ext_state" where
  "take_pending_enum_types s = (pending_enum_types s, s\<lparr>pending_enum_types := []\<rparr>)"

definition take_pending_scalar_ex :: "ext_state \<Rightarrow> scalar_ex_reg list \<times> ext_state" where
  "take_pending_scalar_ex s = (pending_scalar_ex s, s\<lparr>pending_scalar_ex := []\<rparr>)"

definition take_pending_conn_callbacks :: "ext_state \<Rightarrow> conn_callback_reg list \<times> ext_state" where
  "take_pending_conn_callbacks s = (pending_conn_callbacks s, s\<lparr>pending_conn_callbacks := []\<rparr>)"

definition take_pending_coordinate_systems :: "ext_state \<Rightarrow> coordinate_system_reg list \<times> ext_state" where
  "take_pending_coordinate_systems s = (pending_coordinate_systems s, s\<lparr>pending_coordinate_systems := []\<rparr>)"

definition take_pending_arrow_tables :: "ext_state \<Rightarrow> arrow_table_reg list \<times> ext_state" where
  "take_pending_arrow_tables s = (pending_arrow_tables s, s\<lparr>pending_arrow_tables := []\<rparr>)"

definition take_pending_encodings :: "ext_state \<Rightarrow> encoding_reg list \<times> ext_state" where
  "take_pending_encodings s = (pending_encodings s, s\<lparr>pending_encodings := []\<rparr>)"

definition take_pending_compressions :: "ext_state \<Rightarrow> compression_reg list \<times> ext_state" where
  "take_pending_compressions s = (pending_compressions s, s\<lparr>pending_compressions := []\<rparr>)"

definition take_pending_parsers :: "ext_state \<Rightarrow> parser_reg list \<times> ext_state" where
  "take_pending_parsers s = (pending_parsers s, s\<lparr>pending_parsers := []\<rparr>)"

definition take_pending_optimizers :: "ext_state \<Rightarrow> optimizer_reg list \<times> ext_state" where
  "take_pending_optimizers s = (pending_optimizers s, s\<lparr>pending_optimizers := []\<rparr>)"

definition take_pending_filterable_tables :: "ext_state \<Rightarrow> filterable_table_reg list \<times> ext_state" where
  "take_pending_filterable_tables s = (pending_filterable_tables s, s\<lparr>pending_filterable_tables := []\<rparr>)"

definition take_pending_log_storages :: "ext_state \<Rightarrow> pending_log_storage list \<times> ext_state" where
  "take_pending_log_storages s = (pending_log_storages s, s\<lparr>pending_log_storages := []\<rparr>)"

section \<open>Registries held by the guest\<close>

datatype callback_validation_error = KindMismatch | UnknownHandle

datatype registry_push_error = UnknownRegistry

definition init_scalar_registry :: "ext_state \<Rightarrow> u32 \<times> ext_state" where
  "init_scalar_registry s =
     (let (rid, s') = alloc_resource_id s
      in (rid, s'\<lparr>scalar_registries := (scalar_registries s')(rid \<mapsto> [])\<rparr>))"

definition init_table_registry :: "ext_state \<Rightarrow> u32 \<times> ext_state" where
  "init_table_registry s =
     (let (rid, s') = alloc_resource_id s
      in (rid, s'\<lparr>table_registries := (table_registries s')(rid \<mapsto> [])\<rparr>))"

definition init_aggregate_registry :: "ext_state \<Rightarrow> u32 \<times> ext_state" where
  "init_aggregate_registry s =
     (let (rid, s') = alloc_resource_id s
      in (rid, s'\<lparr>aggregate_registries := (aggregate_registries s')(rid \<mapsto> [])\<rparr>))"

definition allocate_callback_handle ::
  "u32 \<Rightarrow> callback_kind \<Rightarrow> ext_state \<Rightarrow> callback_registry \<Rightarrow> u32 \<times> callback_registry" where
  "allocate_callback_handle disp kind s reg = allocate reg (extension_name s) kind disp"

definition release_callback_handle :: "u32 \<Rightarrow> callback_registry \<Rightarrow> callback_registry" where
  "release_callback_handle h reg = remove_handle h reg"

definition validate_callback_kind ::
  "callback_registry \<Rightarrow> u32 \<Rightarrow> callback_kind \<Rightarrow> callback_validation_error + unit" where
  "validate_callback_kind reg h expected =
     (case get_entry reg h of
        Some e \<Rightarrow> if ce_kind e = expected then Inr () else Inl KindMismatch
      | None \<Rightarrow> Inl UnknownHandle)"

definition scalar_registry_push ::
  "ext_state \<Rightarrow> u32 \<Rightarrow> scalar_reg \<Rightarrow> (registry_push_error + u32) \<times> ext_state" where
  "scalar_registry_push s rid e =
     (case scalar_registries s rid of
        None \<Rightarrow> (Inl UnknownRegistry, s)
      | Some es \<Rightarrow>
          (let s1 = s\<lparr>scalar_registries := (scalar_registries s)(rid \<mapsto> es @ [e])\<rparr>;
               (h, s2) = alloc_resource_id s1
           in (Inr h, s2)))"

definition table_registry_push ::
  "ext_state \<Rightarrow> u32 \<Rightarrow> table_reg \<Rightarrow> (registry_push_error + u32) \<times> ext_state" where
  "table_registry_push s rid e =
     (case table_registries s rid of
        None \<Rightarrow> (Inl UnknownRegistry, s)
      | Some es \<Rightarrow>
          (let s1 = s\<lparr>table_registries := (table_registries s)(rid \<mapsto> es @ [e])\<rparr>;
               (h, s2) = alloc_resource_id s1
           in (Inr h, s2\<lparr>table_handle_names := (table_handle_names s2)(h \<mapsto> table_name e)\<rparr>)))"

definition aggregate_registry_push ::
  "ext_state \<Rightarrow> u32 \<Rightarrow> aggregate_reg \<Rightarrow> (registry_push_error + u32) \<times> ext_state" where
  "aggregate_registry_push s rid e =
     (case aggregate_registries s rid of
        None \<Rightarrow> (Inl UnknownRegistry, s)
      | Some es \<Rightarrow>
          (let s1 = s\<lparr>aggregate_registries := (aggregate_registries s)(rid \<mapsto> es @ [e])\<rparr>;
               (h, s2) = alloc_resource_id s1
           in (Inr h, s2)))"

definition pragma_registry_push_call :: "pragma_reg \<Rightarrow> ext_state \<Rightarrow> u32 \<times> ext_state" where
  "pragma_registry_push_call e s =
     alloc_resource_id (s\<lparr>pending_pragmas := pending_pragmas s @ [e]\<rparr>)"

definition drain_scalar_registry :: "u32 \<Rightarrow> ext_state \<Rightarrow> ext_state" where
  "drain_scalar_registry rep s =
     (case scalar_registries s rep of
        None \<Rightarrow> s
      | Some es \<Rightarrow> s\<lparr>scalar_registries := (scalar_registries s)(rep := None),
                    pending_scalars := pending_scalars s @ es\<rparr>)"

definition drain_table_registry :: "u32 \<Rightarrow> ext_state \<Rightarrow> ext_state" where
  "drain_table_registry rep s =
     (case table_registries s rep of
        None \<Rightarrow> s
      | Some es \<Rightarrow> s\<lparr>table_registries := (table_registries s)(rep := None),
                    pending_tables := pending_tables s @ es\<rparr>)"

definition drain_aggregate_registry :: "u32 \<Rightarrow> ext_state \<Rightarrow> ext_state" where
  "drain_aggregate_registry rep s =
     (case aggregate_registries s rep of
        None \<Rightarrow> s
      | Some es \<Rightarrow> s\<lparr>aggregate_registries := (aggregate_registries s)(rep := None),
                    pending_aggregates := pending_aggregates s @ es\<rparr>)"

definition lookup_table_handle_name :: "ext_state \<Rightarrow> u32 \<Rightarrow> string option" where
  "lookup_table_handle_name s h = table_handle_names s h"

section \<open>Draining\<close>

text \<open>The entries of all registries of a hash map, its keys in the order given.\<close>

definition drain_entries :: "u32 list \<Rightarrow> (u32 \<rightharpoonup> 'e list) \<Rightarrow> 'e list" where
  "drain_entries ks m = concat (map (\<lambda>k. case m k of None \<Rightarrow> [] | Some es \<Rightarrow> es) ks)"

definition drain_pending ::
  "u32 list \<Rightarrow> u32 list \<Rightarrow> u32 list \<Rightarrow> ext_state \<Rightarrow> pending_registrations \<times> ext_state" where
  "drain_pending ks kt ka s0 =
     (let scalars = pending_scalars s0 @ drain_entries ks (scalar_registries s0);
          tables = pending_tables s0 @ drain_entries kt (table_registries s0);
          aggregates = pending_aggregates s0 @ drain_entries ka (aggregate_registries s0);
          macros = pending_macros s0;
          replacement_scans = pending_replacement_scans s0;
          logical_types = pending_logical_types s0;
          casts = pending_casts s0;
          storages = pending_storages s0;
          s1 = s0\<lparr>pending_scalars := [], scalar_registries := Map.empty,
                  pending_tables := [], table_registries := Map.empty,
                  pending_aggregates := [], aggregate_registries := Map.empty,
                  pending_macros := [], pending_replacement_scans := [],
                  pending_logical_types := [], pending_casts := [], pending_storages := []\<rparr>;
          (pragmas, s2) = take_pending_pragmas s1;
          (settings, s3) = take_pending_settings s2;
          (secrets, s4) = take_pending_secrets s3;
          (copy_handlers, s5) = take_pending_copy_handlers s4;
          (arrow_tables, s6) = take_pending_arrow_tables s5;
          (scalar_ex, s7) = take_pending_scalar_ex s6;
          (table_macros, s8) = take_pending_table_macros s7;
          (enum_types, s9) = take_pending_enum_types s8;
          (modified_types, s10) = take_pending_modified_types s9;
          (log_storages, s11) = take_pending_log_storages s10;
          (coordinate_systems, s12) = take_pending_coordinate_systems s11
      in (\<lparr>pr_scalars = scalars, pr_tables = tables, pr_aggregates = aggregates,
           pr_macros = macros, pr_replacement_scans = replacement_scans,
           pr_logical_types = logical_types, pr_casts = casts, pr_storages = storages,
           pr_pragmas = pragmas, pr_settings = settings, pr_secrets = secrets,
           pr_copy_handlers = copy_handlers, pr_arrow_tables = arrow_tables,
           pr_scalar_ex = scalar_ex, pr_table_macros = table_macros,
           pr_enum_types = enum_types, pr_modified_types = modified_types,
           pr_log_storages = log_storages, pr_coordinate_systems = coordinate_systems\<rparr>, s12))"

definition summarize_registration_names :: "('t \<Rightarrow> string) \<Rightarrow> 't list \<Rightarrow> string" where
  "summarize_registration_names project es =
     (if es = [] then ''none''
      else (let listed = map project (take 3 es)
            in join '', '' (if 3 < length es
                 then listed @ [''+'' @ show_nat (length es - 3) @ '' more''] else listed)))"

section \<open>The contracts the state provides\<close>

interpretation scalars: capture_buffer scalar_registries pending_scalars next_resource_id
  init_scalar_registry scalar_registry_push drain_scalar_registry
  by unfold_locales
    (auto simp: init_scalar_registry_def scalar_registry_push_def drain_scalar_registry_def
      alloc_resource_id_def split: option.splits)

interpretation tables: capture_buffer table_registries pending_tables next_resource_id
  init_table_registry table_registry_push drain_table_registry
  by unfold_locales
    (auto simp: init_table_registry_def table_registry_push_def drain_table_registry_def
      alloc_resource_id_def split: option.splits)

interpretation aggregates: capture_buffer aggregate_registries pending_aggregates next_resource_id
  init_aggregate_registry aggregate_registry_push drain_aggregate_registry
  by unfold_locales
    (auto simp: init_aggregate_registry_def aggregate_registry_push_def
      drain_aggregate_registry_def alloc_resource_id_def split: option.splits)

interpretation locks: handle_table lock_handles next_lock_handle alloc_lock_handle
  free_lock_handle "\<lambda>lock. lock"
  by unfold_locales (auto simp: alloc_lock_handle_def free_lock_handle_def bump_handle_def Let_def)

text \<open>Draining collects exactly what was captured.\<close>

lemma drain_entries_mset:
  "distinct ks \<Longrightarrow> set ks = dom m \<Longrightarrow> mset (p @ drain_entries ks m) = captured p m"
proof -
  assume d: "distinct ks" and s: "set ks = dom m"
  have "mset (drain_entries ks m) = (\<Sum>k \<leftarrow> ks. mset (case m k of None \<Rightarrow> [] | Some es \<Rightarrow> es))"
    by (simp add: drain_entries_def mset_concat comp_def)
  also have "\<dots> = (\<Sum>k \<in> dom m. mset (case m k of None \<Rightarrow> [] | Some es \<Rightarrow> es))"
    using d by (simp add: sum_list_distinct_conv_sum_set s)
  also have "\<dots> = (\<Sum>k \<in> dom m. mset (the (m k)))"
    by (intro sum.cong) auto
  finally show ?thesis by (simp add: captured_def)
qed

lemmas take_pending_defs = take_pending_pragmas_def take_pending_settings_def
  take_pending_secrets_def take_pending_copy_handlers_def take_pending_arrow_tables_def
  take_pending_scalar_ex_def take_pending_table_macros_def take_pending_enum_types_def
  take_pending_modified_types_def take_pending_log_storages_def
  take_pending_coordinate_systems_def

lemma drain_pending_simps:
  "pr_scalars (fst (drain_pending ks kt ka s)) = pending_scalars s @ drain_entries ks (scalar_registries s)"
  "pr_tables (fst (drain_pending ks kt ka s)) = pending_tables s @ drain_entries kt (table_registries s)"
  "pr_aggregates (fst (drain_pending ks kt ka s)) = pending_aggregates s @ drain_entries ka (aggregate_registries s)"
  "scalar_registries (snd (drain_pending ks kt ka s)) = Map.empty"
  "table_registries (snd (drain_pending ks kt ka s)) = Map.empty"
  "aggregate_registries (snd (drain_pending ks kt ka s)) = Map.empty"
  by (simp_all add: drain_pending_def take_pending_defs Let_def)

end
