(* ===== verification/Runtime_Host.thy ===== *)
theory Runtime_Host
  imports Extension_State
begin

text \<open>
  The host side of the \<open>duckdb:extension\<close> interfaces, \<open>crates/ducklink-runtime/src/extension_wasmos.rs\<close>:
  the handlers a component calls while it loads. Each handler holds the extension's state
  (and, for callbacks, the shared callback registry), so it is a function from the world to a
  result and a world. A resource handle is its \<open>u32\<close> representation. The marshalling the
  \<open>host_iface\<close> macro generates around a handler, and the handlers that only delegate to the
  services trait object (config, logging, query, nested-exec), are outside the model.
\<close>

record ext_world =
  callbacks :: callback_registry
  inner :: ext_state

definition new_world :: "string \<Rightarrow> ext_world" where
  "new_world name = \<lparr>callbacks = new_registry, inner = new_ext_state name\<rparr>"

section \<open>Capabilities\<close>

datatype capabilitykind =
    CapScalar | CapTable | CapAggregate | CapPragma | CapMacro | CapCatalog | CapFileFormat

datatype capability =
    ScalarRegistry u32 | TableRegistry u32 | AggregateRegistry u32 | PragmaRegistry u32
  | MacroRegistry u32

fun get_capability :: "capabilitykind \<Rightarrow> ext_world \<Rightarrow> capability option \<times> ext_world" where
  "get_capability CapScalar w =
     (let (rid, s) = init_scalar_registry (inner w) in (Some (ScalarRegistry rid), w\<lparr>inner := s\<rparr>))"
| "get_capability CapTable w =
     (let (rid, s) = init_table_registry (inner w) in (Some (TableRegistry rid), w\<lparr>inner := s\<rparr>))"
| "get_capability CapAggregate w =
     (let (rid, s) = init_aggregate_registry (inner w)
      in (Some (AggregateRegistry rid), w\<lparr>inner := s\<rparr>))"
| "get_capability CapPragma w =
     (let (rid, s) = alloc_resource_id (inner w) in (Some (PragmaRegistry rid), w\<lparr>inner := s\<rparr>))"
| "get_capability CapMacro w = (None, w)"
| "get_capability CapCatalog w = (None, w)"
| "get_capability CapFileFormat w = (None, w)"

definition list_capabilities :: "capabilitykind list" where
  "list_capabilities = [CapScalar, CapTable, CapAggregate, CapPragma]"

definition macro_registry_register_scalar :: "ext_world \<Rightarrow> (duckerror + bool) \<times> ext_world" where
  "macro_registry_register_scalar w =
     (Inl (Unsupported ''component runtime not available in CLI host''), w)"

section \<open>Callback resources\<close>

definition new_callback :: "callback_kind \<Rightarrow> u32 \<Rightarrow> ext_world \<Rightarrow> u32 \<times> ext_world" where
  "new_callback kind h w =
     (let (rid, reg) = allocate_callback_handle h kind (inner w) (callbacks w)
      in (rid, w\<lparr>callbacks := reg\<rparr>))"

definition drop_callback :: "u32 \<Rightarrow> ext_world \<Rightarrow> ext_world" where
  "drop_callback rep w = w\<lparr>callbacks := release_callback_handle rep (callbacks w)\<rparr>"

definition scalar_callback_new :: "u32 \<Rightarrow> ext_world \<Rightarrow> u32 \<times> ext_world" where
  "scalar_callback_new h w = new_callback Scalar h w"

definition table_callback_new :: "u32 \<Rightarrow> ext_world \<Rightarrow> u32 \<times> ext_world" where
  "table_callback_new h w = new_callback Table h w"

definition aggregate_callback_new :: "u32 \<Rightarrow> ext_world \<Rightarrow> u32 \<times> ext_world" where
  "aggregate_callback_new h w = new_callback Aggregate h w"

definition pragma_callback_new :: "u32 \<Rightarrow> ext_world \<Rightarrow> u32 \<times> ext_world" where
  "pragma_callback_new h w = new_callback Pragma h w"

definition cast_callback_new :: "u32 \<Rightarrow> ext_world \<Rightarrow> u32 \<times> ext_world" where
  "cast_callback_new h w = new_callback Cast h w"

lemmas callback_new_defs = scalar_callback_new_def table_callback_new_def
  aggregate_callback_new_def pragma_callback_new_def cast_callback_new_def

section \<open>Registration through a registry resource\<close>

fun kind_validation_to_duckerror :: "callback_validation_error \<Rightarrow> string \<Rightarrow> duckerror" where
  "kind_validation_to_duckerror KindMismatch phrase =
     Invalidargument (''callback handle is not '' @ phrase)"
| "kind_validation_to_duckerror UnknownHandle phrase =
     Internal (''unknown '' @ phrase @ '' callback handle'')"

definition scalar_registry_register ::
  "u32 \<Rightarrow> string \<Rightarrow> funcarg list \<Rightarrow> logicaltype \<Rightarrow> u32 \<Rightarrow> funcopts option \<Rightarrow> ext_world
     \<Rightarrow> (duckerror + u32) \<times> ext_world" where
  "scalar_registry_register registry_id name arguments returns callback_handle options w =
     (case validate_callback_kind (callbacks w) callback_handle Scalar of
        Inl e \<Rightarrow> (Inl (kind_validation_to_duckerror e ''scalar''), w)
      | Inr _ \<Rightarrow>
          (let entry = \<lparr>scalar_extension = extension_name (inner w), scalar_name = name,
                 scalar_arguments = map funcarg_to_reg arguments,
                 scalar_returns = logical_to_reg returns, scalar_callback = callback_handle,
                 scalar_options = map_option funcopts_to_reg options\<rparr>
           in (case scalar_registry_push (inner w) registry_id entry of
                 (Inr h, s) \<Rightarrow> (Inr h, w\<lparr>inner := s\<rparr>)
               | (Inl _, s) \<Rightarrow>
                   (Inl (Internal ''unknown scalar registry handle''), w\<lparr>inner := s\<rparr>))))"

definition table_registry_register ::
  "u32 \<Rightarrow> string \<Rightarrow> funcarg list \<Rightarrow> columndef list \<Rightarrow> u32 \<Rightarrow> extopts option \<Rightarrow> ext_world
     \<Rightarrow> (duckerror + u32) \<times> ext_world" where
  "table_registry_register registry_id name arguments columns callback_handle options w =
     (case validate_callback_kind (callbacks w) callback_handle Table of
        Inl e \<Rightarrow> (Inl (kind_validation_to_duckerror e ''a table callback''), w)
      | Inr _ \<Rightarrow>
          (let entry = \<lparr>table_extension = extension_name (inner w), table_name = name,
                 table_arguments = map funcarg_to_reg arguments,
                 table_columns = map columndef_to_reg columns, table_callback = callback_handle,
                 table_options = map_option extopts_to_reg options\<rparr>
           in (case table_registry_push (inner w) registry_id entry of
                 (Inr h, s) \<Rightarrow> (Inr h, w\<lparr>inner := s\<rparr>)
               | (Inl _, s) \<Rightarrow>
                   (Inl (Internal ''unknown table registry handle''), w\<lparr>inner := s\<rparr>))))"

definition aggregate_registry_register ::
  "u32 \<Rightarrow> string \<Rightarrow> funcarg list \<Rightarrow> logicaltype \<Rightarrow> u32 \<Rightarrow> funcopts option \<Rightarrow> ext_world
     \<Rightarrow> (duckerror + u32) \<times> ext_world" where
  "aggregate_registry_register registry_id name arguments returns callback_handle options w =
     (case validate_callback_kind (callbacks w) callback_handle Aggregate of
        Inl e \<Rightarrow> (Inl (kind_validation_to_duckerror e ''aggregate''), w)
      | Inr _ \<Rightarrow>
          (let entry = \<lparr>aggregate_extension = extension_name (inner w), aggregate_name = name,
                 aggregate_arguments = map funcarg_to_reg arguments,
                 aggregate_returns = logical_to_reg returns,
                 aggregate_callback = callback_handle,
                 aggregate_options = map_option funcopts_to_reg options\<rparr>
           in (case aggregate_registry_push (inner w) registry_id entry of
                 (Inr h, s) \<Rightarrow> (Inr h, w\<lparr>inner := s\<rparr>)
               | (Inl _, s) \<Rightarrow>
                   (Inl (Internal ''unknown aggregate registry handle''), w\<lparr>inner := s\<rparr>))))"

definition pragma_registry_register_call ::
  "string \<Rightarrow> u32 \<Rightarrow> ext_world \<Rightarrow> (duckerror + u32) \<times> ext_world" where
  "pragma_registry_register_call name callback_handle w =
     (case validate_callback_kind (callbacks w) callback_handle Pragma of
        Inl e \<Rightarrow> (Inl (kind_validation_to_duckerror e ''a pragma''), w)
      | Inr _ \<Rightarrow>
          (let entry = \<lparr>pragma_extension = extension_name (inner w), pragma_name = name,
                 pragma_callback = callback_handle\<rparr>;
               (h, s) = pragma_registry_push_call entry (inner w)
           in (Inr h, w\<lparr>inner := s\<rparr>)))"

definition scalar_registry_drop :: "u32 \<Rightarrow> ext_world \<Rightarrow> ext_world" where
  "scalar_registry_drop rep w = w\<lparr>inner := drain_scalar_registry rep (inner w)\<rparr>"

definition table_registry_drop :: "u32 \<Rightarrow> ext_world \<Rightarrow> ext_world" where
  "table_registry_drop rep w = w\<lparr>inner := drain_table_registry rep (inner w)\<rparr>"

definition aggregate_registry_drop :: "u32 \<Rightarrow> ext_world \<Rightarrow> ext_world" where
  "aggregate_registry_drop rep w = w\<lparr>inner := drain_aggregate_registry rep (inner w)\<rparr>"

definition pragma_registry_drop :: "u32 \<Rightarrow> ext_world \<Rightarrow> ext_world" where
  "pragma_registry_drop rep w = w"

section \<open>Registration handlers of the other interfaces\<close>

definition with_fresh_id ::
  "(ext_state \<Rightarrow> ext_state) \<Rightarrow> ext_world \<Rightarrow> ('e + u32) \<times> ext_world" where
  "with_fresh_id f w =
     (let (rid, s) = alloc_resource_id (inner w) in (Inr rid, w\<lparr>inner := f s\<rparr>))"

definition register_parser_extension ::
  "string \<Rightarrow> u32 \<Rightarrow> ext_world \<Rightarrow> (duckerror + u32) \<times> ext_world" where
  "register_parser_extension name callback_handle w =
     with_fresh_id (\<lambda>s. push_pending_parser
       \<lparr>parser_extension = extension_name s, parser_name = name,
        parser_callback = callback_handle\<rparr> s) w"

definition register_optimizer_rule ::
  "string \<Rightarrow> u32 \<Rightarrow> ext_world \<Rightarrow> (duckerror + u32) \<times> ext_world" where
  "register_optimizer_rule rule_name callback_handle w =
     with_fresh_id (\<lambda>s. push_pending_optimizer
       \<lparr>optimizer_extension = extension_name s, optimizer_rule_name = rule_name,
        optimizer_callback = callback_handle\<rparr> s) w"

datatype setting_type = SettingBoolean | SettingVarchar | SettingBigint | SettingDouble

datatype setting_scope = SettingLocal | SettingGlobal

fun setting_type_str :: "setting_type \<Rightarrow> string" where
  "setting_type_str SettingBoolean = ''boolean''"
| "setting_type_str SettingVarchar = ''varchar''"
| "setting_type_str SettingBigint = ''bigint''"
| "setting_type_str SettingDouble = ''double''"

fun setting_scope_str :: "setting_scope \<Rightarrow> string" where
  "setting_scope_str SettingLocal = ''local''"
| "setting_scope_str SettingGlobal = ''global''"

definition register_option ::
  "string \<Rightarrow> string \<Rightarrow> setting_type \<Rightarrow> string option \<Rightarrow> setting_scope \<Rightarrow> ext_world
     \<Rightarrow> (duckerror + unit) \<times> ext_world" where
  "register_option name description ty default_value scope w =
     (Inr (), w\<lparr>inner := push_pending_setting
        \<lparr>setting_extension = extension_name (inner w), setting_name = name,
         setting_description = description, setting_ty = setting_type_str ty,
         setting_default = default_value, setting_scope = setting_scope_str scope\<rparr> (inner w)\<rparr>)"

definition register_coordinate_system ::
  "string \<Rightarrow> u32 \<Rightarrow> string \<Rightarrow> ext_world \<Rightarrow> (duckerror + u32) \<times> ext_world" where
  "register_coordinate_system auth_name code wkt w =
     with_fresh_id (\<lambda>s. push_pending_coordinate_system
       \<lparr>crs_extension = extension_name s, crs_auth_name = auth_name, crs_code = code,
        crs_wkt = wkt\<rparr> s) w"

definition register_storage ::
  "string \<Rightarrow> u32 \<Rightarrow> extopts option \<Rightarrow> ext_world \<Rightarrow> (duckerror + u32) \<times> ext_world" where
  "register_storage type_name callback_handle options w =
     (Inr callback_handle, w\<lparr>inner := push_pending_storage
        \<lparr>storage_extension = extension_name (inner w), storage_type_name = type_name,
         storage_callback = callback_handle,
         storage_options = map_option extopts_to_reg options\<rparr> (inner w)\<rparr>)"

definition register_log_storage ::
  "string \<Rightarrow> u32 \<Rightarrow> ext_world \<Rightarrow> (duckerror + u32) \<times> ext_world" where
  "register_log_storage name callback_handle w =
     (let (global, reg) = allocate_callback_handle callback_handle LogStorage (inner w) (callbacks w)
      in (Inr global, w\<lparr>callbacks := reg,
            inner := push_pending_log_storage
              \<lparr>pls_name = name, pls_callback = global\<rparr> (inner w)\<rparr>))"

definition register_secret_type ::
  "string \<Rightarrow> (string \<times> bool) list \<Rightarrow> u32 \<Rightarrow> ext_world \<Rightarrow> (duckerror + u32) \<times> ext_world" where
  "register_secret_type type_name params callback_handle w =
     with_fresh_id (\<lambda>s. push_pending_secret
       \<lparr>secret_extension = extension_name s, secret_type_name = type_name,
        secret_provider = None, secret_params = params, secret_callback = callback_handle\<rparr> s) w"

definition register_secret_provider ::
  "string \<Rightarrow> string \<Rightarrow> u32 \<Rightarrow> ext_world \<Rightarrow> (duckerror + u32) \<times> ext_world" where
  "register_secret_provider type_name provider callback_handle w =
     with_fresh_id (\<lambda>s. push_pending_secret
       \<lparr>secret_extension = extension_name s, secret_type_name = type_name,
        secret_provider = Some provider, secret_params = [],
        secret_callback = callback_handle\<rparr> s) w"

definition register_table_macro ::
  "string \<Rightarrow> string \<Rightarrow> string list \<Rightarrow> string \<Rightarrow> ext_world \<Rightarrow> (duckerror + unit) \<times> ext_world" where
  "register_table_macro schema name parameters body_sql w =
     (Inr (), w\<lparr>inner := push_pending_table_macro
        \<lparr>tmacro_extension = extension_name (inner w), tmacro_schema = schema, tmacro_name = name,
         tmacro_parameters = parameters, tmacro_body_sql = body_sql\<rparr> (inner w)\<rparr>)"

definition register_logical_type_modified ::
  "string \<Rightarrow> string \<Rightarrow> ext_world \<Rightarrow> (duckerror + u32) \<times> ext_world" where
  "register_logical_type_modified name type_expr w =
     with_fresh_id (\<lambda>s. push_pending_modified_type
       \<lparr>mtype_extension = extension_name s, mtype_name = name, mtype_expr = type_expr\<rparr> s) w"

definition register_enum ::
  "string \<Rightarrow> string list \<Rightarrow> ext_world \<Rightarrow> (duckerror + u32) \<times> ext_world" where
  "register_enum name members w =
     with_fresh_id (\<lambda>s. push_pending_enum_type
       \<lparr>enum_extension = extension_name s, enum_name = name, enum_members = members\<rparr> s) w"

definition register_replacement_scan ::
  "u32 \<Rightarrow> string list \<Rightarrow> ext_world \<Rightarrow> (string + u32) \<times> ext_world" where
  "register_replacement_scan table_function extensions w =
     (case lookup_table_handle_name (inner w) table_function of
        None \<Rightarrow> (Inl (''replacement scan references unknown table-function handle ''
                   @ show_word table_function), w)
      | Some function_name \<Rightarrow>
          with_fresh_id (\<lambda>s. push_pending_replacement_scan
            \<lparr>scan_extension = extension_name s, scan_extensions = extensions,
             scan_function_name = function_name\<rparr> s) w)"

definition register_copy_handler ::
  "string \<Rightarrow> u32 \<Rightarrow> ext_world \<Rightarrow> (string + u32) \<times> ext_world" where
  "register_copy_handler file_extension function w =
     with_fresh_id (\<lambda>s. push_pending_copy_handler
       \<lparr>copy_extension = extension_name s, copy_file_extension = file_extension,
        copy_function = function\<rparr> s) w"

definition register_arrow_table ::
  "string \<Rightarrow> columndef list \<Rightarrow> u32 \<Rightarrow> ext_world \<Rightarrow> (duckerror + u32) \<times> ext_world" where
  "register_arrow_table name schema callback_handle w =
     with_fresh_id (\<lambda>s. push_pending_arrow_table
       \<lparr>arrow_extension = extension_name s, arrow_name = name,
        arrow_columns = map columndef_to_reg schema, arrow_callback = callback_handle\<rparr> s) w"

definition register_filterable_table ::
  "string \<Rightarrow> funcarg list \<Rightarrow> columndef list \<Rightarrow> u32 \<Rightarrow> ext_world
     \<Rightarrow> (duckerror + u32) \<times> ext_world" where
  "register_filterable_table name arguments columns callback_handle w =
     (let (global, reg) = allocate_callback_handle callback_handle Table (inner w) (callbacks w)
      in (Inr global, w\<lparr>callbacks := reg,
            inner := push_pending_filterable_table
              \<lparr>ftable_extension = extension_name (inner w), ftable_name = name,
               ftable_arguments = map funcarg_to_reg arguments,
               ftable_columns = map columndef_to_reg columns, ftable_callback = global\<rparr>
              (inner w)\<rparr>))"

datatype null_handling = NullDefault | NullSpecial

definition register_scalar_ex ::
  "string \<Rightarrow> funcarg list \<Rightarrow> logicaltype option \<Rightarrow> logicaltype \<Rightarrow> null_handling \<Rightarrow> u32
     \<Rightarrow> funcopts option \<Rightarrow> ext_world \<Rightarrow> (duckerror + u32) \<times> ext_world" where
  "register_scalar_ex name arguments varargs returns nulls callback_handle options w =
     (let options_r = map_option funcopts_to_reg options;
          volatile = (case options_r of
              None \<Rightarrow> False
            | Some o1 \<Rightarrow> \<not> rff_deterministic (rfo_attributes o1))
      in with_fresh_id (\<lambda>s. push_pending_scalar_ex
           \<lparr>sex_extension = extension_name s, sex_name = name,
            sex_arguments = map funcarg_to_reg arguments,
            sex_varargs = map_option logical_to_reg varargs, sex_returns = logical_to_reg returns,
            sex_special_null = (nulls = NullSpecial), sex_volatile = volatile,
            sex_callback = callback_handle, sex_options = options_r\<rparr> s) w)"

definition register_logical_type ::
  "string \<Rightarrow> string \<Rightarrow> ext_world \<Rightarrow> (string + u32) \<times> ext_world" where
  "register_logical_type name physical w =
     with_fresh_id (\<lambda>s. push_pending_logical_type
       \<lparr>ltype_extension = extension_name s, ltype_name = name, ltype_physical = physical\<rparr> s) w"

definition register_cast ::
  "string \<Rightarrow> string \<Rightarrow> i32 option \<Rightarrow> u32 \<Rightarrow> ext_world \<Rightarrow> (string + unit) \<times> ext_world" where
  "register_cast source target implicit_cost callback_handle w =
     (Inr (), w\<lparr>inner := push_pending_cast
        \<lparr>cast_extension = extension_name (inner w), cast_source = source, cast_target = target,
         cast_callback = callback_handle, cast_implicit_cost = implicit_cost\<rparr> (inner w)\<rparr>)"

definition register_macro ::
  "string \<Rightarrow> string \<Rightarrow> string list \<Rightarrow> string \<Rightarrow> ext_world \<Rightarrow> (string + unit) \<times> ext_world" where
  "register_macro schema name parameters definition_sql w =
     (Inr (), w\<lparr>inner := push_pending_macro
        \<lparr>macro_extension = extension_name (inner w), macro_schema = schema, macro_name = name,
         macro_parameters = parameters, macro_definition_sql = definition_sql\<rparr> (inner w)\<rparr>)"

text \<open>The interfaces without a stable C API refuse every registration.\<close>

definition register_connection_callback :: "ext_world \<Rightarrow> (duckerror + u32) \<times> ext_world" where
  "register_connection_callback w =
     (Inl (Unsupported ''no DuckDB C API for connection open/close callbacks''), w)"

definition register_encoding :: "ext_world \<Rightarrow> (duckerror + u32) \<times> ext_world" where
  "register_encoding w =
     (Inl (Unsupported ''duckdb_register_encoding is not part of the DuckDB stable C API''), w)"

definition register_files :: "ext_world \<Rightarrow> (duckerror + u32) \<times> ext_world" where
  "register_files w =
     (Inl (Unsupported ''duckdb_register_file_system is not part of the DuckDB stable C API''), w)"

definition register_index_type :: "ext_world \<Rightarrow> (duckerror + unit) \<times> ext_world" where
  "register_index_type w =
     (Inl (Unsupported ''duckdb_register_index_type is not part of the DuckDB stable C API''), w)"

definition register_collation :: "ext_world \<Rightarrow> (duckerror + unit) \<times> ext_world" where
  "register_collation w =
     (Inl (Unsupported ''duckdb_register_collation is not part of the DuckDB stable C API''), w)"

section \<open>File locks\<close>

definition file_lock_acquire_exclusive ::
  "string + unit \<Rightarrow> string \<Rightarrow> ext_world \<Rightarrow> (string + u32) \<times> ext_world" where
  "file_lock_acquire_exclusive acquired path w =
     (let (r, s) = acquire_exclusive_lock acquired path (inner w) in (r, w\<lparr>inner := s\<rparr>))"

definition file_lock_try_acquire_exclusive ::
  "string + unit option \<Rightarrow> string \<Rightarrow> ext_world \<Rightarrow> (string + u32 option) \<times> ext_world" where
  "file_lock_try_acquire_exclusive acquired path w =
     (let (r, s) = try_acquire_exclusive_lock acquired path (inner w) in (r, w\<lparr>inner := s\<rparr>))"

definition lock_handle_release :: "u32 \<Rightarrow> ext_world \<Rightarrow> ext_world" where
  "lock_handle_release h w = w\<lparr>inner := release_lock_handle h (inner w)\<rparr>"

definition lock_handle_drop :: "u32 \<Rightarrow> ext_world \<Rightarrow> ext_world" where
  "lock_handle_drop h w = w\<lparr>inner := release_lock_handle h (inner w)\<rparr>"

end
