(* ===== verification/Guest_Runs.thy ===== *)
theory Guest_Runs
  imports Runtime_Host
begin

text \<open>
  Runs of the calls a component makes while it loads: \<open>guest_op\<close> names a call of
  \<open>extension_wasmos.rs\<close> with its arguments, \<open>guest_step\<close> performs it with the handler of
  \<open>Runtime_Host\<close>, \<open>accepted_*\<close> are the registrations a call was told it made. The lemmas
  show that what a run was told is what the loader later drains, and that every registered
  callback can be dispatched to.
\<close>

datatype guest_op =
    GetCapability capabilitykind
  | NewCallback callback_kind u32
  | DropCallback u32
  | RegisterScalar u32 string "funcarg list" logicaltype u32 "funcopts option"
  | RegisterTable u32 string "funcarg list" "columndef list" u32 "extopts option"
  | RegisterAggregate u32 string "funcarg list" logicaltype u32 "funcopts option"
  | RegisterPragma string u32
  | CloseScalars u32
  | CloseTables u32
  | CloseAggregates u32
  | RegisterReplacementScan u32 "string list"
  | RegisterFilterable string "funcarg list" "columndef list" u32
  | RegisterLogStorage string u32
  | RegisterCast string string "i32 option" u32
  | RegisterMacro string string "string list" string

fun guest_step :: "guest_op \<Rightarrow> ext_world \<Rightarrow> ext_world" where
  "guest_step (GetCapability k) w = snd (get_capability k w)"
| "guest_step (NewCallback k h) w = snd (new_callback k h w)"
| "guest_step (DropCallback h) w = drop_callback h w"
| "guest_step (RegisterScalar rid n args ret h opts) w =
     snd (scalar_registry_register rid n args ret h opts w)"
| "guest_step (RegisterTable rid n args cols h opts) w =
     snd (table_registry_register rid n args cols h opts w)"
| "guest_step (RegisterAggregate rid n args ret h opts) w =
     snd (aggregate_registry_register rid n args ret h opts w)"
| "guest_step (RegisterPragma n h) w = snd (pragma_registry_register_call n h w)"
| "guest_step (CloseScalars rid) w = scalar_registry_drop rid w"
| "guest_step (CloseTables rid) w = table_registry_drop rid w"
| "guest_step (CloseAggregates rid) w = aggregate_registry_drop rid w"
| "guest_step (RegisterReplacementScan t es) w = snd (register_replacement_scan t es w)"
| "guest_step (RegisterFilterable n args cols h) w = snd (register_filterable_table n args cols h w)"
| "guest_step (RegisterLogStorage n h) w = snd (register_log_storage n h w)"
| "guest_step (RegisterCast a b c h) w = snd (register_cast a b c h w)"
| "guest_step (RegisterMacro s n ps d) w = snd (register_macro s n ps d w)"

definition guest_run :: "guest_op list \<Rightarrow> ext_world \<Rightarrow> ext_world" where
  "guest_run ops w = fold guest_step ops w"

section \<open>What a call was told\<close>

fun accepted_scalars :: "guest_op \<Rightarrow> ext_world \<Rightarrow> scalar_reg list" where
  "accepted_scalars (RegisterScalar rid n args ret h opts) w =
     (case fst (scalar_registry_register rid n args ret h opts w) of
        Inl _ \<Rightarrow> []
      | Inr _ \<Rightarrow> [\<lparr>scalar_extension = extension_name (inner w), scalar_name = n,
                   scalar_arguments = map funcarg_to_reg args, scalar_returns = logical_to_reg ret,
                   scalar_callback = h, scalar_options = map_option funcopts_to_reg opts\<rparr>])"
| "accepted_scalars _ w = []"

fun accepted_tables :: "guest_op \<Rightarrow> ext_world \<Rightarrow> table_reg list" where
  "accepted_tables (RegisterTable rid n args cols h opts) w =
     (case fst (table_registry_register rid n args cols h opts w) of
        Inl _ \<Rightarrow> []
      | Inr _ \<Rightarrow> [\<lparr>table_extension = extension_name (inner w), table_name = n,
                   table_arguments = map funcarg_to_reg args,
                   table_columns = map columndef_to_reg cols,
                   table_callback = h, table_options = map_option extopts_to_reg opts\<rparr>])"
| "accepted_tables _ w = []"

fun accepted_aggregates :: "guest_op \<Rightarrow> ext_world \<Rightarrow> aggregate_reg list" where
  "accepted_aggregates (RegisterAggregate rid n args ret h opts) w =
     (case fst (aggregate_registry_register rid n args ret h opts w) of
        Inl _ \<Rightarrow> []
      | Inr _ \<Rightarrow> [\<lparr>aggregate_extension = extension_name (inner w), aggregate_name = n,
                   aggregate_arguments = map funcarg_to_reg args,
                   aggregate_returns = logical_to_reg ret,
                   aggregate_callback = h, aggregate_options = map_option funcopts_to_reg opts\<rparr>])"
| "accepted_aggregates _ w = []"

fun run_accepted :: "(guest_op \<Rightarrow> ext_world \<Rightarrow> 'e list) \<Rightarrow> guest_op list \<Rightarrow> ext_world \<Rightarrow> 'e list" where
  "run_accepted acc [] w = []"
| "run_accepted acc (op # ops) w = acc op w @ run_accepted acc ops (guest_step op w)"

section \<open>Frames\<close>

lemmas register_defs = scalar_registry_register_def table_registry_register_def
  aggregate_registry_register_def pragma_registry_register_call_def
  pragma_registry_push_call_def

lemmas quiet_defs = with_fresh_id_def register_replacement_scan_def
  push_pending_replacement_scan_def register_filterable_table_def
  push_pending_filterable_table_def register_log_storage_def push_pending_log_storage_def
  register_cast_def push_pending_cast_def register_macro_def push_pending_macro_def
  new_callback_def drop_callback_def

lemmas close_defs = scalar_registry_drop_def table_registry_drop_def aggregate_registry_drop_def

lemmas open_defs = init_scalar_registry_def init_table_registry_def init_aggregate_registry_def

lemmas push_defs = scalar_registry_push_def table_registry_push_def aggregate_registry_push_def

lemmas drain_defs = drain_scalar_registry_def drain_table_registry_def drain_aggregate_registry_def

text \<open>The ids of open registries stay below the resource counter.\<close>

definition unbound :: "ext_state \<Rightarrow> u32 \<Rightarrow> bool" where
  "unbound s k \<longleftrightarrow>
     scalar_registries s k = None \<and> table_registries s k = None \<and> aggregate_registries s k = None"

definition ids_ok :: "nat \<Rightarrow> ext_state \<Rightarrow> bool" where
  "ids_ok n s \<longleftrightarrow> (\<forall>k. next_resource_id s \<le> k \<longrightarrow> unbound s k)
     \<and> unat (next_resource_id s) + n < 2 ^ 32"

lemma ids_ok_new: "n < 2 ^ 32 - 1 \<Longrightarrow> ids_ok n (new_ext_state name)"
  by (simp add: ids_ok_def unbound_def new_ext_state_def)

lemma ids_ok_fresh: "ids_ok n s \<Longrightarrow> unbound s (next_resource_id s)"
  by (simp add: ids_ok_def)

lemma ids_ok_frame:
  assumes "ids_ok (Suc n) s"
    and "next_resource_id t = next_resource_id s \<and> (\<forall>k. unbound s k \<longrightarrow> unbound t k)
      \<or> next_resource_id t = bump_handle (next_resource_id s)
        \<and> (\<forall>k. k \<noteq> next_resource_id s \<longrightarrow> unbound s k \<longrightarrow> unbound t k)"
  shows "ids_ok n t"
  using assms(2)
proof
  assume "next_resource_id t = next_resource_id s \<and> (\<forall>k. unbound s k \<longrightarrow> unbound t k)"
  then show ?thesis using assms(1) by (auto simp: ids_ok_def)
next
  assume b: "next_resource_id t = bump_handle (next_resource_id s)
    \<and> (\<forall>k. k \<noteq> next_resource_id s \<longrightarrow> unbound s k \<longrightarrow> unbound t k)"
  have u: "unat (next_resource_id t) = unat (next_resource_id s) + 1"
    using assms(1) b by (simp add: ids_ok_def unat_bump_handle)
  have "next_resource_id s < k" if "next_resource_id t \<le> k" for k
    using that u by (simp add: word_le_nat_alt word_less_nat_alt)
  then show ?thesis using assms(1) b u by (force simp: ids_ok_def)
qed

lemmas step_defs = register_defs quiet_defs close_defs open_defs push_defs drain_defs
  alloc_resource_id_def allocate_callback_handle_def release_callback_handle_def

lemma step_ids:
  "next_resource_id (inner (guest_step op w)) = next_resource_id (inner w)
      \<and> (\<forall>k. unbound (inner w) k \<longrightarrow> unbound (inner (guest_step op w)) k)
    \<or> next_resource_id (inner (guest_step op w)) = bump_handle (next_resource_id (inner w))
      \<and> (\<forall>k. k \<noteq> next_resource_id (inner w) \<longrightarrow> unbound (inner w) k \<longrightarrow>
           unbound (inner (guest_step op w)) k)"
proof (cases op)
  case (GetCapability k)
  then show ?thesis
    by (cases k) (simp_all add: step_defs unbound_def bump_handle_def)
qed (auto simp: step_defs unbound_def bump_handle_def Let_def split: sum.splits option.splits prod.splits)

lemma step_ids_ok: "ids_ok (Suc n) (inner w) \<Longrightarrow> ids_ok n (inner (guest_step op w))"
  by (rule ids_ok_frame [OF _ step_ids])

section \<open>Conservation\<close>

lemma step_scalars:
  assumes "ids_ok (Suc n) (inner w)"
  shows "captured (pending_scalars (inner (guest_step op w))) (scalar_registries (inner (guest_step op w)))
    = mset (accepted_scalars op w) + captured (pending_scalars (inner w)) (scalar_registries (inner w))"
proof (cases op)
  case (GetCapability k)
  show ?thesis
  proof (cases k)
    case CapScalar
    have "scalar_registries (inner w) (next_resource_id (inner w)) = None"
      using ids_ok_fresh [OF assms] by (simp add: unbound_def)
    then show ?thesis
      using scalars.open_captured [of "inner w"]
      by (auto simp: GetCapability CapScalar split: prod.splits)
  qed (simp_all add: GetCapability step_defs)
next
  case (RegisterScalar rid n args ret h opts)
  then show ?thesis
    using scalars.push_captured
    by (auto simp: scalar_registry_register_def split: sum.splits prod.splits)
next
  case (CloseScalars rid)
  then show ?thesis by (simp add: scalar_registry_drop_def scalars.close_captured)
qed (auto simp: step_defs Let_def split: sum.splits option.splits prod.splits)

lemma step_tables:
  assumes "ids_ok (Suc n) (inner w)"
  shows "captured (pending_tables (inner (guest_step op w))) (table_registries (inner (guest_step op w)))
    = mset (accepted_tables op w) + captured (pending_tables (inner w)) (table_registries (inner w))"
proof (cases op)
  case (GetCapability k)
  show ?thesis
  proof (cases k)
    case CapTable
    have "table_registries (inner w) (next_resource_id (inner w)) = None"
      using ids_ok_fresh [OF assms] by (simp add: unbound_def)
    then show ?thesis
      using tables.open_captured [of "inner w"]
      by (auto simp: GetCapability CapTable split: prod.splits)
  qed (simp_all add: GetCapability step_defs)
next
  case (RegisterTable rid n args cols h opts)
  then show ?thesis
    using tables.push_captured
    by (auto simp: table_registry_register_def split: sum.splits prod.splits)
next
  case (CloseTables rid)
  then show ?thesis by (simp add: table_registry_drop_def tables.close_captured)
qed (auto simp: step_defs Let_def split: sum.splits option.splits prod.splits)

lemma step_aggregates:
  assumes "ids_ok (Suc n) (inner w)"
  shows "captured (pending_aggregates (inner (guest_step op w)))
      (aggregate_registries (inner (guest_step op w)))
    = mset (accepted_aggregates op w)
      + captured (pending_aggregates (inner w)) (aggregate_registries (inner w))"
proof (cases op)
  case (GetCapability k)
  show ?thesis
  proof (cases k)
    case CapAggregate
    have "aggregate_registries (inner w) (next_resource_id (inner w)) = None"
      using ids_ok_fresh [OF assms] by (simp add: unbound_def)
    then show ?thesis
      using aggregates.open_captured [of "inner w"]
      by (auto simp: GetCapability CapAggregate split: prod.splits)
  qed (simp_all add: GetCapability step_defs)
next
  case (RegisterAggregate rid n args ret h opts)
  then show ?thesis
    using aggregates.push_captured
    by (auto simp: aggregate_registry_register_def split: sum.splits prod.splits)
next
  case (CloseAggregates rid)
  then show ?thesis by (simp add: aggregate_registry_drop_def aggregates.close_captured)
qed (auto simp: step_defs Let_def split: sum.splits option.splits prod.splits)

lemma run_captured:
  assumes step: "\<And>n op w. ids_ok (Suc n) (inner w) \<Longrightarrow>
      captured (pend (inner (guest_step op w))) (regs (inner (guest_step op w)))
        = mset (acc op w) + captured (pend (inner w)) (regs (inner w))"
    and "ids_ok (length ops) (inner w)"
  shows "captured (pend (inner (guest_run ops w))) (regs (inner (guest_run ops w)))
    = mset (run_accepted acc ops w) + captured (pend (inner w)) (regs (inner w))"
  using assms(2)
proof (induction ops arbitrary: w)
  case Nil
  then show ?case by (simp add: guest_run_def)
next
  case (Cons op ops)
  then have ok: "ids_ok (Suc (length ops)) (inner w)" by simp
  from Cons.IH [OF step_ids_ok [OF ok], of op] step [OF ok, of op]
  show ?case by (simp add: guest_run_def)
qed

lemma run_scalars:
  "ids_ok (length ops) (inner w) \<Longrightarrow>
     captured (pending_scalars (inner (guest_run ops w))) (scalar_registries (inner (guest_run ops w)))
       = mset (run_accepted accepted_scalars ops w)
         + captured (pending_scalars (inner w)) (scalar_registries (inner w))"
  by (rule run_captured [OF step_scalars])

lemma run_tables:
  "ids_ok (length ops) (inner w) \<Longrightarrow>
     captured (pending_tables (inner (guest_run ops w))) (table_registries (inner (guest_run ops w)))
       = mset (run_accepted accepted_tables ops w)
         + captured (pending_tables (inner w)) (table_registries (inner w))"
  by (rule run_captured [OF step_tables])

lemma run_aggregates:
  "ids_ok (length ops) (inner w) \<Longrightarrow>
     captured (pending_aggregates (inner (guest_run ops w))) (aggregate_registries (inner (guest_run ops w)))
       = mset (run_accepted accepted_aggregates ops w)
         + captured (pending_aggregates (inner w)) (aggregate_registries (inner w))"
  by (rule run_captured [OF step_aggregates])

text \<open>
  C1. No scalar, table or aggregate function that a component registers while it loads is lost,
  duplicated or altered on the way to the loader (filterable tables and the other kinds of
  registration have their own buffers and are not the subject here): for every run of fewer than \<open>2 ^ 32 - 1\<close> guest calls on a fresh state, in any order, with
  registries closed or left open, what \<open>drain_pending\<close> returns as scalars, tables and
  aggregates is, as a multiset, exactly the entries of the register calls that returned a
  handle. The key lists are the order in which the three hash maps are iterated.
\<close>

theorem drain_returns_accepted:
  assumes "length ops < 2 ^ 32 - 1"
    and "distinct ks" "set ks = dom (scalar_registries (inner (guest_run ops (new_world name))))"
    and "distinct kt" "set kt = dom (table_registries (inner (guest_run ops (new_world name))))"
    and "distinct ka" "set ka = dom (aggregate_registries (inner (guest_run ops (new_world name))))"
    and "drain_pending ks kt ka (inner (guest_run ops (new_world name))) = (regs, t)"
  shows "mset (pr_scalars regs) = mset (run_accepted accepted_scalars ops (new_world name))
    \<and> mset (pr_tables regs) = mset (run_accepted accepted_tables ops (new_world name))
    \<and> mset (pr_aggregates regs) = mset (run_accepted accepted_aggregates ops (new_world name))"
proof -
  have ok: "ids_ok (length ops) (inner (new_world name))"
    using ids_ok_new [OF assms(1)] by (simp add: new_world_def)
  have z: "captured (pending_scalars (inner (new_world name))) (scalar_registries (inner (new_world name))) = {#}"
    "captured (pending_tables (inner (new_world name))) (table_registries (inner (new_world name))) = {#}"
    "captured (pending_aggregates (inner (new_world name))) (aggregate_registries (inner (new_world name))) = {#}"
    by (simp_all add: new_world_def new_ext_state_def)
  note d = drain_pending_simps(1-3) [of ks kt ka "inner (guest_run ops (new_world name))",
      unfolded assms(8) fst_conv]
  show ?thesis
    unfolding d drain_entries_mset [OF assms(2,3)] drain_entries_mset [OF assms(4,5)]
      drain_entries_mset [OF assms(6,7)]
      run_scalars [OF ok] run_tables [OF ok] run_aggregates [OF ok] z by simp
qed

definition demo_guest_ops :: "guest_op list" where
  "demo_guest_ops =
     [GetCapability CapScalar, NewCallback Scalar 7, RegisterScalar 1 ''f'' [] L_Int64 1 None,
      RegisterScalar 9 ''g'' [] L_Int64 1 None, GetCapability CapTable, NewCallback Table 8,
      RegisterTable 3 ''t'' [] [] 2 None, CloseScalars 1]"

theorem drain_returns_accepted_witness:
  "let s = inner (guest_run demo_guest_ops (new_world ''e''));
       regs = fst (drain_pending (sorted_list_of_set (dom (scalar_registries s)))
                (sorted_list_of_set (dom (table_registries s)))
                (sorted_list_of_set (dom (aggregate_registries s))) s)
   in image_mset scalar_name (mset (pr_scalars regs)) = {#''f''#}
      \<and> image_mset table_name (mset (pr_tables regs)) = {#''t''#} \<and> pr_aggregates regs = []"
proof -
  let ?w = "guest_run demo_guest_ops (new_world ''e'')"
  obtain regs t where d: "drain_pending (sorted_list_of_set (dom (scalar_registries (inner ?w))))
      (sorted_list_of_set (dom (table_registries (inner ?w))))
      (sorted_list_of_set (dom (aggregate_registries (inner ?w)))) (inner ?w) = (regs, t)"
    by fastforce
  have len: "length demo_guest_ops < 2 ^ 32 - 1" by (simp add: demo_guest_ops_def)
  have names: "map scalar_name (run_accepted accepted_scalars demo_guest_ops (new_world ''e'')) = [''f'']"
    "map table_name (run_accepted accepted_tables demo_guest_ops (new_world ''e'')) = [''t'']"
    "run_accepted accepted_aggregates demo_guest_ops (new_world ''e'') = []"
    by code_simp+
  from names have m:
    "image_mset scalar_name (mset (run_accepted accepted_scalars demo_guest_ops (new_world ''e''))) = {#''f''#}"
    "image_mset table_name (mset (run_accepted accepted_tables demo_guest_ops (new_world ''e''))) = {#''t''#}"
    by (metis mset_map mset_single_iff_right)+
  show ?thesis
    using drain_returns_accepted [OF len _ _ _ _ _ _ d] m names(3) by (simp add: d Let_def)
qed

section \<open>Registered callbacks are dispatchable\<close>

definition bound_kind :: "callback_registry \<Rightarrow> u32 \<Rightarrow> callback_kind \<Rightarrow> bool" where
  "bound_kind r h k \<longleftrightarrow> (case resolve_entry r h of None \<Rightarrow> False | Some e \<Rightarrow> ce_kind e = k)"

definition callbacks_ok :: "nat \<Rightarrow> callback_registry \<Rightarrow> bool" where
  "callbacks_ok n r \<longleftrightarrow> length (entries r) \<le> unat (next_handle r)
     \<and> unat (next_handle r) + n < 2 ^ 32"

lemma resolve_get: "resolve_entry r h = get_entry r h"
  by (simp add: resolve_entry_def get_entry_def)

lemma validate_bound:
  "validate_callback_kind r h k = Inr () \<longleftrightarrow> bound_kind r h k"
  by (auto simp: validate_callback_kind_def bound_kind_def resolve_get split: option.splits)

lemma allocate_callbacks_ok:
  "callbacks_ok (Suc n) r \<Longrightarrow> callbacks_ok n (snd (allocate r ext k d))"
  using unat_bump_handle [of "next_handle r"] allocate_next [of r ext k d]
  by (auto simp: callbacks_ok_def allocate_def ensure_slot_def Let_def)

lemma allocate_bound_kind:
  assumes "callbacks_ok (Suc n) r" and "bound_kind r h k"
  shows "bound_kind (snd (allocate r ext j d)) h k"
proof -
  have "get_entry r (next_handle r) = None"
    using assms(1) by (simp add: callbacks_ok_def get_entry_def)
  with assms(2) have "h \<noteq> next_handle r" by (auto simp: bound_kind_def resolve_get)
  with assms(2) show ?thesis by (simp add: bound_kind_def resolve_get allocate_get)
qed

text \<open>Every call but a callback's destructor leaves the registry or allocates in it.\<close>

lemma step_callbacks:
  assumes "\<forall>h. op \<noteq> DropCallback h"
  shows "callbacks (guest_step op w) = callbacks w
    \<or> (\<exists>ext k d. callbacks (guest_step op w) = snd (allocate (callbacks w) ext k d))"
proof (cases op)
  case (GetCapability k)
  then show ?thesis by (cases k) (simp_all add: open_defs Let_def alloc_resource_id_def)
next
  case (RegisterFilterable n args cols h)
  then show ?thesis
    by (auto simp: register_filterable_table_def allocate_callback_handle_def split: prod.splits)
      (metis snd_conv)
next
  case (RegisterLogStorage n h)
  then show ?thesis
    by (auto simp: register_log_storage_def allocate_callback_handle_def split: prod.splits)
      (metis snd_conv)
next
  case (NewCallback k h)
  then show ?thesis
    by (auto simp: new_callback_def allocate_callback_handle_def split: prod.splits)
      (metis snd_conv)
qed (use assms in \<open>auto simp: register_defs close_defs with_fresh_id_def register_replacement_scan_def
   register_cast_def register_macro_def Let_def split: sum.splits option.splits prod.splits\<close>)

lemma callbacks_ok_down: "callbacks_ok (Suc n) r \<Longrightarrow> callbacks_ok n r"
  by (simp add: callbacks_ok_def)

lemma step_callbacks_ok:
  "\<forall>h. op \<noteq> DropCallback h \<Longrightarrow> callbacks_ok (Suc n) (callbacks w) \<Longrightarrow>
     callbacks_ok n (callbacks (guest_step op w))"
  using step_callbacks [of op w] allocate_callbacks_ok callbacks_ok_down by fastforce

lemma step_bound_kind:
  "\<forall>h. op \<noteq> DropCallback h \<Longrightarrow> callbacks_ok (Suc n) (callbacks w) \<Longrightarrow>
     bound_kind (callbacks w) h k \<Longrightarrow> bound_kind (callbacks (guest_step op w)) h k"
  using step_callbacks [of op w] allocate_bound_kind by fastforce

lemma run_bound_kind:
  "\<forall>h. DropCallback h \<notin> set ops \<Longrightarrow> callbacks_ok (length ops) (callbacks w) \<Longrightarrow>
     bound_kind (callbacks w) h k \<Longrightarrow> bound_kind (callbacks (guest_run ops w)) h k"
proof (induction ops arbitrary: w)
  case Nil
  then show ?case by (simp add: guest_run_def)
next
  case (Cons op ops)
  have nd: "\<forall>h. op \<noteq> DropCallback h" using Cons.prems(1) by auto
  have ok: "callbacks_ok (Suc (length ops)) (callbacks w)" using Cons.prems(2) by simp
  show ?case
    using Cons.IH [OF _ step_callbacks_ok [OF nd ok] step_bound_kind [OF nd ok Cons.prems(3)]]
      Cons.prems(1) by (simp add: guest_run_def)
qed

lemma run_accepted_bound:
  assumes acc: "\<And>op w e. e \<in> set (acc op w) \<Longrightarrow> bound_kind (callbacks w) (cb e) k \<and> (\<forall>h. op \<noteq> DropCallback h)"
  shows "\<forall>h. DropCallback h \<notin> set ops \<Longrightarrow> callbacks_ok (length ops) (callbacks w) \<Longrightarrow>
    e \<in> set (run_accepted acc ops w) \<Longrightarrow> bound_kind (callbacks (guest_run ops w)) (cb e) k"
proof (induction ops arbitrary: w)
  case (Cons op ops)
  have nd: "\<forall>h. op \<noteq> DropCallback h" using Cons.prems(1) by auto
  have ok: "callbacks_ok (Suc (length ops)) (callbacks w)" using Cons.prems(2) by simp
  show ?case
  proof (cases "e \<in> set (acc op w)")
    case True
    from run_bound_kind [OF Cons.prems(1,2) acc [OF True, THEN conjunct1]] show ?thesis .
  next
    case False
    then show ?thesis
      using Cons.IH [OF _ step_callbacks_ok [OF nd ok]] Cons.prems(1,3) by (simp add: guest_run_def)
  qed
qed simp

lemma accepted_scalar_bound:
  "e \<in> set (accepted_scalars op w) \<Longrightarrow>
     bound_kind (callbacks w) (scalar_callback e) Scalar \<and> (\<forall>h. op \<noteq> DropCallback h)"
  by (cases op) (auto simp: scalar_registry_register_def validate_bound [symmetric] split: sum.splits)

lemma accepted_table_bound:
  "e \<in> set (accepted_tables op w) \<Longrightarrow>
     bound_kind (callbacks w) (table_callback e) Table \<and> (\<forall>h. op \<noteq> DropCallback h)"
  by (cases op) (auto simp: table_registry_register_def validate_bound [symmetric] split: sum.splits)

lemma accepted_aggregate_bound:
  "e \<in> set (accepted_aggregates op w) \<Longrightarrow>
     bound_kind (callbacks w) (aggregate_callback e) Aggregate \<and> (\<forall>h. op \<noteq> DropCallback h)"
  by (cases op)
    (auto simp: aggregate_registry_register_def validate_bound [symmetric] split: sum.splits)

lemma run_scalars_bound:
  "\<forall>h. DropCallback h \<notin> set ops \<Longrightarrow> callbacks_ok (length ops) (callbacks w) \<Longrightarrow>
    e \<in> set (run_accepted accepted_scalars ops w) \<Longrightarrow>
    bound_kind (callbacks (guest_run ops w)) (scalar_callback e) Scalar"
  by (rule run_accepted_bound [where acc = accepted_scalars, OF accepted_scalar_bound])

lemma run_tables_bound:
  "\<forall>h. DropCallback h \<notin> set ops \<Longrightarrow> callbacks_ok (length ops) (callbacks w) \<Longrightarrow>
    e \<in> set (run_accepted accepted_tables ops w) \<Longrightarrow>
    bound_kind (callbacks (guest_run ops w)) (table_callback e) Table"
  by (rule run_accepted_bound [where acc = accepted_tables, OF accepted_table_bound])

lemma run_aggregates_bound:
  "\<forall>h. DropCallback h \<notin> set ops \<Longrightarrow> callbacks_ok (length ops) (callbacks w) \<Longrightarrow>
    e \<in> set (run_accepted accepted_aggregates ops w) \<Longrightarrow>
    bound_kind (callbacks (guest_run ops w)) (aggregate_callback e) Aggregate"
  by (rule run_accepted_bound [where acc = accepted_aggregates, OF accepted_aggregate_bound])

text \<open>The drain of a run on a fresh state returns what the calls were told, whatever the registry.\<close>

lemma drained_msets:
  assumes "length ops < 2 ^ 32 - 1"
    and "w = guest_run ops \<lparr>callbacks = shared, inner = new_ext_state name\<rparr>"
    and "distinct ks" "set ks = dom (scalar_registries (inner w))"
    and "distinct kt" "set kt = dom (table_registries (inner w))"
    and "distinct ka" "set ka = dom (aggregate_registries (inner w))"
  shows "mset (pr_scalars (fst (drain_pending ks kt ka (inner w))))
      = mset (run_accepted accepted_scalars ops \<lparr>callbacks = shared, inner = new_ext_state name\<rparr>)"
    and "mset (pr_tables (fst (drain_pending ks kt ka (inner w))))
      = mset (run_accepted accepted_tables ops \<lparr>callbacks = shared, inner = new_ext_state name\<rparr>)"
    and "mset (pr_aggregates (fst (drain_pending ks kt ka (inner w))))
      = mset (run_accepted accepted_aggregates ops \<lparr>callbacks = shared, inner = new_ext_state name\<rparr>)"
proof -
  let ?w0 = "\<lparr>callbacks = shared, inner = new_ext_state name\<rparr>"
  have ok: "ids_ok (length ops) (inner ?w0)" using ids_ok_new [OF assms(1)] by simp
  have z: "captured (pending_scalars (inner ?w0)) (scalar_registries (inner ?w0)) = {#}"
    "captured (pending_tables (inner ?w0)) (table_registries (inner ?w0)) = {#}"
    "captured (pending_aggregates (inner ?w0)) (aggregate_registries (inner ?w0)) = {#}"
    by (simp_all add: new_ext_state_def)
  note d = drain_entries_mset [OF assms(3,4)] drain_entries_mset [OF assms(5,6)]
    drain_entries_mset [OF assms(7,8)]
  show "mset (pr_scalars (fst (drain_pending ks kt ka (inner w))))
      = mset (run_accepted accepted_scalars ops ?w0)"
    "mset (pr_tables (fst (drain_pending ks kt ka (inner w))))
      = mset (run_accepted accepted_tables ops ?w0)"
    "mset (pr_aggregates (fst (drain_pending ks kt ka (inner w))))
      = mset (run_accepted accepted_aggregates ops ?w0)"
    unfolding drain_pending_simps d
    unfolding assms(2) run_scalars [OF ok] run_tables [OF ok] run_aggregates [OF ok] z by simp_all
qed

text \<open>
  C2. What the loader installs can be called. An extension loads with fewer than \<open>2 ^ 32 - 1\<close> calls
  against a shared callback registry that already holds other extensions' callbacks and whose counter
  does not wrap within these calls (\<open>callbacks_ok\<close>), and none of its callback resources is destroyed
  before the drain. Then every scalar, table and aggregate entry that the drain returns names a
  handle that the dispatch path resolves to a callback of exactly that kind.
\<close>

theorem drained_callbacks_resolve:
  assumes "callbacks_ok (length ops) shared" "\<forall>h. DropCallback h \<notin> set ops"
    and "length ops < 2 ^ 32 - 1"
    and "w = guest_run ops \<lparr>callbacks = shared, inner = new_ext_state name\<rparr>"
    and "distinct ks" "set ks = dom (scalar_registries (inner w))"
    and "distinct kt" "set kt = dom (table_registries (inner w))"
    and "distinct ka" "set ka = dom (aggregate_registries (inner w))"
    and "regs = fst (drain_pending ks kt ka (inner w))"
  shows "(\<forall>e \<in> set (pr_scalars regs). bound_kind (callbacks w) (scalar_callback e) Scalar)
    \<and> (\<forall>e \<in> set (pr_tables regs). bound_kind (callbacks w) (table_callback e) Table)
    \<and> (\<forall>e \<in> set (pr_aggregates regs). bound_kind (callbacks w) (aggregate_callback e) Aggregate)"
proof -
  let ?w0 = "\<lparr>callbacks = shared, inner = new_ext_state name\<rparr>"
  have "set (pr_scalars regs) = set (run_accepted accepted_scalars ops ?w0)"
    "set (pr_tables regs) = set (run_accepted accepted_tables ops ?w0)"
    "set (pr_aggregates regs) = set (run_accepted accepted_aggregates ops ?w0)"
    unfolding assms(11) using drained_msets [OF assms(3-10)] by (auto dest: mset_eq_setD)
  moreover note run_scalars_bound [OF assms(2), of ?w0] run_tables_bound [OF assms(2), of ?w0]
    run_aggregates_bound [OF assms(2), of ?w0]
  ultimately show ?thesis using assms(1,4) by simp
qed

definition shared_registry :: callback_registry where
  "shared_registry = snd (allocate new_registry ''other'' Table 3)"

definition shared_ops :: "guest_op list" where
  "shared_ops =
     [GetCapability CapScalar, NewCallback Scalar 7, RegisterScalar 1 ''f'' [] L_Int64 2 None,
      RegisterScalar 1 ''g'' [] L_Int64 1 None, GetCapability CapTable, NewCallback Table 8,
      RegisterTable 3 ''t'' [] [] 3 None, CloseScalars 1]"

theorem drained_callbacks_resolve_witness:
  "let w = guest_run shared_ops \<lparr>callbacks = shared_registry, inner = new_ext_state ''e''\<rparr>;
       s = inner w;
       regs = fst (drain_pending (sorted_list_of_set (dom (scalar_registries s)))
                (sorted_list_of_set (dom (table_registries s)))
                (sorted_list_of_set (dom (aggregate_registries s))) s)
   in (\<exists>e. pr_scalars regs = [e] \<and> scalar_name e = ''f'' \<and> bound_kind (callbacks w) (scalar_callback e) Scalar)
      \<and> (\<exists>e. pr_tables regs = [e] \<and> table_name e = ''t'' \<and> bound_kind (callbacks w) (table_callback e) Table)"
proof -
  let ?w0 = "\<lparr>callbacks = shared_registry, inner = new_ext_state ''e''\<rparr>"
  define w where "w = guest_run shared_ops ?w0"
  define ks where "ks = sorted_list_of_set (dom (scalar_registries (inner w)))"
  define kt where "kt = sorted_list_of_set (dom (table_registries (inner w)))"
  define ka where "ka = sorted_list_of_set (dom (aggregate_registries (inner w)))"
  define regs where "regs = fst (drain_pending ks kt ka (inner w))"
  have k: "distinct ks" "set ks = dom (scalar_registries (inner w))"
    "distinct kt" "set kt = dom (table_registries (inner w))"
    "distinct ka" "set ka = dom (aggregate_registries (inner w))"
    by (simp_all add: ks_def kt_def ka_def)
  have ok: "callbacks_ok (length shared_ops) shared_registry"
    by (simp add: callbacks_ok_def shared_registry_def allocate_def ensure_slot_def Let_def new_registry_def
        shared_ops_def word_le_nat_alt)
  have nd: "\<forall>h. DropCallback h \<notin> set shared_ops" by (simp add: shared_ops_def)
  have len: "length shared_ops < 2 ^ 32 - 1" by (simp add: shared_ops_def)
  have names: "map scalar_name (run_accepted accepted_scalars shared_ops ?w0) = [''f'']"
    "map table_name (run_accepted accepted_tables shared_ops ?w0) = [''t'']"
    by code_simp+
  have "mset (map scalar_name (pr_scalars regs)) = mset [''f'']"
    "mset (map table_name (pr_tables regs)) = mset [''t'']"
    unfolding mset_map regs_def drained_msets [OF len w_def k] by (simp_all only: names flip: mset_map)
  then have "map scalar_name (pr_scalars regs) = [''f'']" "map table_name (pr_tables regs) = [''t'']"
    by (simp_all add: mset_single_iff del: mset_map)
  then obtain e t where "pr_scalars regs = [e]" "scalar_name e = ''f''" "pr_tables regs = [t]" "table_name t = ''t''"
    by (auto simp: map_eq_Cons_conv)
  with drained_callbacks_resolve [OF ok nd len w_def k regs_def]
  show ?thesis unfolding Let_def w_def regs_def ks_def kt_def ka_def by simp
qed

section \<open>One registration\<close>

text \<open>
  Registering a scalar function is decided by the callback handle and the registry alone:
  with a live scalar callback and an open registry it returns the fresh id and appends exactly
  one entry to that registry; an unbound handle, a callback of another kind or a closed
  registry is answered with that error, in this order, and leaves the whole world unchanged.
\<close>

theorem scalar_register_exact:
  "scalar_registry_register rid name args ret h opts w =
     (case resolve_entry (callbacks w) h of
        None \<Rightarrow> (Inl (Internal ''unknown scalar callback handle''), w)
      | Some e \<Rightarrow>
          if ce_kind e \<noteq> Scalar then (Inl (Invalidargument ''callback handle is not scalar''), w)
          else (case scalar_registries (inner w) rid of
              None \<Rightarrow> (Inl (Internal ''unknown scalar registry handle''), w)
            | Some es \<Rightarrow>
                (Inr (next_resource_id (inner w)),
                 w\<lparr>inner := (inner w)
                    \<lparr>scalar_registries := (scalar_registries (inner w))(rid \<mapsto> es @
                       [\<lparr>scalar_extension = extension_name (inner w), scalar_name = name,
                         scalar_arguments = map funcarg_to_reg args,
                         scalar_returns = logical_to_reg ret, scalar_callback = h,
                         scalar_options = map_option funcopts_to_reg opts\<rparr>]),
                     next_resource_id := bump_handle (next_resource_id (inner w))\<rparr>\<rparr>)))"
  by (cases "scalar_registries (inner w) rid")
    (auto simp: scalar_registry_register_def validate_callback_kind_def resolve_get
      scalar_registry_push_def alloc_resource_id_def bump_handle_def Let_def split: option.splits)

text \<open>
  A replacement scan can only route to a table function the same extension registered: it
  is accepted exactly when the handle it names was returned by a table registration, and then
  it records that function's name; otherwise the error names the handle and nothing changes.
  Here right after a table registration that returned the handle \<open>th\<close>.
\<close>

theorem replacement_scan_follows_table:
  assumes "table_registry_register rid name args cols h opts w = (Inr th, w1)"
  shows "register_replacement_scan th exts w1 =
     (Inr (next_resource_id (inner w1)),
      w1\<lparr>inner := (inner w1)
          \<lparr>next_resource_id := bump_handle (next_resource_id (inner w1)),
           pending_replacement_scans := pending_replacement_scans (inner w1)
             @ [\<lparr>scan_extension = extension_name (inner w), scan_extensions = exts,
                 scan_function_name = name\<rparr>]\<rparr>\<rparr>)
    \<and> (\<forall>k. k \<noteq> th \<longrightarrow> lookup_table_handle_name (inner w1) k = None \<longrightarrow>
         table_handle_names (inner w) k = None \<and>
         register_replacement_scan k exts w1 =
           (Inl (''replacement scan references unknown table-function handle '' @ show_word k), w1))"
  using assms
  by (auto simp: table_registry_register_def table_registry_push_def register_replacement_scan_def
      lookup_table_handle_name_def with_fresh_id_def alloc_resource_id_def
      push_pending_replacement_scan_def bump_handle_def Let_def
      split: sum.splits option.splits)

theorem replacement_scan_follows_table_witness:
  "fst (register_replacement_scan 4 [''csv'']
     (guest_step (RegisterTable 3 ''t'' [] [] 2 None)
       (guest_run (take 6 demo_guest_ops) (new_world ''e'')))) = Inr 5"
proof -
  let ?r = "table_registry_register 3 ''t'' [] [] 2 None
    (guest_run (take 6 demo_guest_ops) (new_world ''e''))"
  have th: "fst ?r = Inr 4" "next_resource_id (inner (snd ?r)) = 5" by code_simp+
  obtain w1 where r: "?r = (Inr 4, w1)" using th(1) by (metis surjective_pairing)
  show ?thesis
    using replacement_scan_follows_table [OF r, of "[''csv'']"] th(2) by (simp add: r)
qed

section \<open>Draining twice\<close>

text \<open>
  \<open>drain_pending\<close> is destructive and complete for what it collects: a second drain
  returns nothing at all, whatever iteration order either drain used, and the counters, the
  table-handle names, the file locks and the buffers that have their own \<open>take_pending_*\<close>
  drain (indexes, files, collations, connection callbacks, encodings, compressions, parsers,
  optimizers, filterable tables) are exactly as before.
\<close>

theorem drain_pending_complete:
  "snd (drain_pending ks kt ka s) =
     (new_ext_state (extension_name s))
       \<lparr>next_resource_id := next_resource_id s, table_handle_names := table_handle_names s,
        lock_handles := lock_handles s, next_lock_handle := next_lock_handle s,
        pending_indexes := pending_indexes s, pending_files := pending_files s,
        pending_collations := pending_collations s,
        pending_conn_callbacks := pending_conn_callbacks s,
        pending_encodings := pending_encodings s, pending_compressions := pending_compressions s,
        pending_parsers := pending_parsers s, pending_optimizers := pending_optimizers s,
        pending_filterable_tables := pending_filterable_tables s\<rparr>
   \<and> fst (drain_pending ks' kt' ka' (snd (drain_pending ks kt ka s))) =
       fst (drain_pending [] [] [] (new_ext_state name))"
  by (simp add: drain_pending_def take_pending_defs new_ext_state_def drain_entries_def Let_def)

section \<open>File locks\<close>

text \<open>
  Lock handles never alias: across any sequence of acquisitions and releases within the
  counter's range, the handles a fresh state gives out are pairwise distinct and not 0, a
  handle stands for the path it was acquired for until it is released, and destroying a handle
  a second time changes nothing.
\<close>

theorem lock_handles_never_alias:
  assumes "allocs (Alloc path # ops) < 2 ^ 32 - 1"
    and "run_handle_ops alloc_lock_handle free_lock_handle (new_ext_state name) (Alloc path # ops)
      = (hs, t)"
    and "Release (hd hs) \<notin> set ops"
  shows "distinct hs \<and> 0 \<notin> set hs \<and> lock_handles t (hd hs) = Some path
    \<and> contains_lock_handle t (hd hs)
    \<and> lock_handle_drop h (lock_handle_release h \<lparr>callbacks = r, inner = t\<rparr>)
      = lock_handle_release h \<lparr>callbacks = r, inner = t\<rparr>"
proof -
  have fit: "fits (next_lock_handle (new_ext_state name)) (Alloc path # ops)"
    using assms(1) by (simp add: fits_def new_ext_state_def)
  have "sorted_wrt (<) hs" "\<forall>h \<in> set hs. 1 \<le> h"
    using locks.run_handles_sorted [OF fit assms(2)] by (auto simp: new_ext_state_def)
  moreover from this have "distinct hs" "0 \<notin> set hs"
    by (auto dest: strict_sorted_imp_sorted simp: strict_sorted_iff)
  moreover have "lock_handles t (hd hs) = Some path"
    using locks.run_alloc_bound [OF fit assms(2,3)] by blast
  ultimately show ?thesis
    by (simp add: contains_lock_handle_def lock_handle_drop_def lock_handle_release_def
        release_lock_handle_def free_lock_handle_def)
qed

theorem lock_handles_never_alias_witness:
  "distinct (fst (run_handle_ops alloc_lock_handle free_lock_handle (new_ext_state ''e'')
     [Alloc ''a'', Alloc ''b'', Release 2, Alloc ''c'']))"
proof -
  let ?ops = "[Alloc ''b'', Release 2, Alloc ''c'']"
  obtain hs t where run: "run_handle_ops alloc_lock_handle free_lock_handle (new_ext_state ''e'')
    (Alloc ''a'' # ?ops) = (hs, t)" by fastforce
  have "hd hs = 1"
    using run by (auto simp: alloc_lock_handle_def new_ext_state_def Let_def split: prod.splits)
  then show ?thesis using lock_handles_never_alias [OF _ run] run by simp
qed

end
