(* ===== verification/Columnar.thy ===== *)
theory Columnar
  imports Duck_Types
begin

text \<open>
  The pivot between row-major values and column vectors at the boundary of the dispatch calls
  (\<open>crates/ducklink-runtime/src/extension.rs\<close>): \<open>column_from_values\<close> builds a column and its
  validity bitmap, \<open>colvec_to_values\<close> is the way back, \<open>rows_to_colvecs\<close> transposes a batch.
  Floats are bit patterns; the zero float is the pattern 0.
\<close>

section \<open>The validity bitmap\<close>

definition mark_null :: "nat \<Rightarrow> nat \<Rightarrow> u8 list \<Rightarrow> u8 list" where
  "mark_null n row validity =
     (let v = (if validity = [] then replicate ((n + 7) div 8) 0xFF else validity)
      in v[row div 8 := and (v ! (row div 8)) (not (push_bit (row mod 8) 1))])"

definition is_valid :: "u8 list \<Rightarrow> nat \<Rightarrow> bool" where
  "is_valid validity i \<longleftrightarrow>
     validity = [] \<or> length validity \<le> i div 8
       \<or> and (drop_bit (i mod 8) (validity ! (i div 8))) 1 \<noteq> 0"

text \<open>
  The \<open>build!\<close> loop: the rows whose value has the column's arm are extracted, the others get
  the default and a cleared bit. \<open>n\<close> is the number of rows of the whole column.
\<close>

fun build_rows ::
  "(duckvalue \<Rightarrow> 'a option) \<Rightarrow> 'a \<Rightarrow> nat \<Rightarrow> nat \<Rightarrow> duckvalue list \<Rightarrow> u8 list \<Rightarrow> 'a list \<times> u8 list" where
  "build_rows extract dflt n r [] validity = ([], validity)"
| "build_rows extract dflt n r (v # vs) validity =
     (case extract v of
        Some x \<Rightarrow> (let (out, val) = build_rows extract dflt n (r + 1) vs validity in (x # out, val))
      | None \<Rightarrow>
          (let (out, val) = build_rows extract dflt n (r + 1) vs (mark_null n r validity)
           in (dflt # out, val)))"

definition build_arm ::
  "('a list \<Rightarrow> column) \<Rightarrow> 'a \<Rightarrow> (duckvalue \<Rightarrow> 'a option) \<Rightarrow> duckvalue list \<Rightarrow> colvec" where
  "build_arm arm dflt extract vals =
     (let (out, validity) = build_rows extract dflt (length vals) 0 vals []
      in \<lparr>cv_data = arm out, cv_validity = validity, cv_rows = word_of_nat (length vals)\<rparr>)"

definition all_null :: "duckvalue list \<Rightarrow> colvec" where
  "all_null vals =
     \<lparr>cv_data = C_Int64 (replicate (length vals) 0),
      cv_validity = fold (mark_null (length vals)) [0 ..< length vals] [],
      cv_rows = word_of_nat (length vals)\<rparr>"

definition representative :: "duckvalue list \<Rightarrow> duckvalue" where
  "representative vals = (case filter (\<lambda>v. v \<noteq> D_Null) vals of [] \<Rightarrow> D_Null | v # _ \<Rightarrow> v)"

definition column_from_values :: "duckvalue list \<Rightarrow> colvec" where
  "column_from_values vals = (case representative vals of
      D_Null \<Rightarrow> all_null vals
    | D_Boolean _ \<Rightarrow> build_arm C_Boolean False (\<lambda>v. case v of D_Boolean x \<Rightarrow> Some x | _ \<Rightarrow> None) vals
    | D_Int64 _ \<Rightarrow> build_arm C_Int64 0 (\<lambda>v. case v of D_Int64 x \<Rightarrow> Some x | _ \<Rightarrow> None) vals
    | D_Uint64 _ \<Rightarrow> build_arm C_Uint64 0 (\<lambda>v. case v of D_Uint64 x \<Rightarrow> Some x | _ \<Rightarrow> None) vals
    | D_Float64 _ \<Rightarrow> build_arm C_Float64 0 (\<lambda>v. case v of D_Float64 x \<Rightarrow> Some x | _ \<Rightarrow> None) vals
    | D_Int32 _ \<Rightarrow> build_arm C_Int32 0 (\<lambda>v. case v of D_Int32 x \<Rightarrow> Some x | _ \<Rightarrow> None) vals
    | D_Int16 _ \<Rightarrow> build_arm C_Int16 0 (\<lambda>v. case v of D_Int16 x \<Rightarrow> Some x | _ \<Rightarrow> None) vals
    | D_Int8 _ \<Rightarrow> build_arm C_Int8 0 (\<lambda>v. case v of D_Int8 x \<Rightarrow> Some x | _ \<Rightarrow> None) vals
    | D_Uint32 _ \<Rightarrow> build_arm C_Uint32 0 (\<lambda>v. case v of D_Uint32 x \<Rightarrow> Some x | _ \<Rightarrow> None) vals
    | D_Uint16 _ \<Rightarrow> build_arm C_Uint16 0 (\<lambda>v. case v of D_Uint16 x \<Rightarrow> Some x | _ \<Rightarrow> None) vals
    | D_Uint8 _ \<Rightarrow> build_arm C_Uint8 0 (\<lambda>v. case v of D_Uint8 x \<Rightarrow> Some x | _ \<Rightarrow> None) vals
    | D_Float32 _ \<Rightarrow> build_arm C_Float32 0 (\<lambda>v. case v of D_Float32 x \<Rightarrow> Some x | _ \<Rightarrow> None) vals
    | D_Timestamp _ \<Rightarrow> build_arm C_Timestamp 0 (\<lambda>v. case v of D_Timestamp x \<Rightarrow> Some x | _ \<Rightarrow> None) vals
    | D_Time _ \<Rightarrow> build_arm C_Time 0 (\<lambda>v. case v of D_Time x \<Rightarrow> Some x | _ \<Rightarrow> None) vals
    | D_Timestamptz _ \<Rightarrow> build_arm C_Timestamptz 0 (\<lambda>v. case v of D_Timestamptz x \<Rightarrow> Some x | _ \<Rightarrow> None) vals
    | D_Date _ \<Rightarrow> build_arm C_Date 0 (\<lambda>v. case v of D_Date x \<Rightarrow> Some x | _ \<Rightarrow> None) vals
    | D_Text _ \<Rightarrow> build_arm C_Text [] (\<lambda>v. case v of D_Text x \<Rightarrow> Some x | _ \<Rightarrow> None) vals
    | D_Blob _ \<Rightarrow> build_arm C_Blob [] (\<lambda>v. case v of D_Blob x \<Rightarrow> Some x | _ \<Rightarrow> None) vals
    | D_Decimal _ \<Rightarrow> build_arm C_Decimal \<lparr>dec_lower = 0, dec_upper = 0, dec_width = 0, dec_scale = 0\<rparr>
        (\<lambda>v. case v of D_Decimal x \<Rightarrow> Some x | _ \<Rightarrow> None) vals
    | D_Interval _ \<Rightarrow> build_arm C_Interval \<lparr>iv_months = 0, iv_days = 0, iv_micros = 0\<rparr>
        (\<lambda>v. case v of D_Interval x \<Rightarrow> Some x | _ \<Rightarrow> None) vals
    | D_Uuid _ \<Rightarrow> build_arm C_Uuid \<lparr>uuid_hi = 0, uuid_lo = 0\<rparr>
        (\<lambda>v. case v of D_Uuid x \<Rightarrow> Some x | _ \<Rightarrow> None) vals
    | D_Hugeint _ \<Rightarrow> build_arm C_Hugeint \<lparr>i128_lower = 0, i128_upper = 0\<rparr>
        (\<lambda>v. case v of
            D_Hugeint h \<Rightarrow> Some \<lparr>i128_lower = huge_lower h, i128_upper = huge_upper h\<rparr>
          | _ \<Rightarrow> None) vals
    | D_Uhugeint _ \<Rightarrow> build_arm C_Uhugeint \<lparr>u128_lower = 0, u128_upper = 0\<rparr>
        (\<lambda>v. case v of
            D_Uhugeint h \<Rightarrow> Some \<lparr>u128_lower = uhuge_lower h, u128_upper = uhuge_upper h\<rparr>
          | _ \<Rightarrow> None) vals
    | D_Complex _ \<Rightarrow> build_arm C_Complex \<lparr>cx_type_expr = [], cx_json = ''null''\<rparr>
        (\<lambda>v. case v of D_Complex x \<Rightarrow> Some x | _ \<Rightarrow> None) vals)"

text \<open>Pivot a batch; indexing a row that is too short panics, which is \<^const>\<open>None\<close>.\<close>

definition rows_to_colvecs :: "duckvalue list list \<Rightarrow> colvec list option" where
  "rows_to_colvecs rows =
     (let ncols = (case rows of [] \<Rightarrow> 0 | r # _ \<Rightarrow> length r)
      in if \<forall>r \<in> set rows. ncols \<le> length r
         then Some (map (\<lambda>j. column_from_values (map (\<lambda>r. r ! j) rows)) [0 ..< ncols])
         else None)"

section \<open>Back to values\<close>

definition nested_column_json :: "u8 list \<Rightarrow> string" where
  "nested_column_json bytes = ''\"'' @ concat (map (\<lambda>b. hex2_lower (unat b)) bytes) @ ''\"''"

definition emit :: "u8 list \<Rightarrow> ('a \<Rightarrow> duckvalue) \<Rightarrow> 'a list \<Rightarrow> duckvalue list" where
  "emit validity ctor xs =
     map (\<lambda>(i, x). if is_valid validity i then ctor x else D_Null) (enumerate 0 xs)"

definition emit_same :: "u8 list \<Rightarrow> duckvalue \<Rightarrow> nat \<Rightarrow> duckvalue list" where
  "emit_same validity v n = map (\<lambda>i. if is_valid validity i then v else D_Null) [0 ..< n]"

definition colvec_to_values :: "colvec \<Rightarrow> duckvalue list" where
  "colvec_to_values c =
     (let n = unat (cv_rows c); val = cv_validity c
      in case cv_data c of
        C_Boolean v \<Rightarrow> emit val D_Boolean v
      | C_Int64 v \<Rightarrow> emit val D_Int64 v
      | C_Uint64 v \<Rightarrow> emit val D_Uint64 v
      | C_Float64 v \<Rightarrow> emit val D_Float64 v
      | C_Int32 v \<Rightarrow> emit val D_Int32 v
      | C_Int16 v \<Rightarrow> emit val D_Int16 v
      | C_Int8 v \<Rightarrow> emit val D_Int8 v
      | C_Uint32 v \<Rightarrow> emit val D_Uint32 v
      | C_Uint16 v \<Rightarrow> emit val D_Uint16 v
      | C_Uint8 v \<Rightarrow> emit val D_Uint8 v
      | C_Float32 v \<Rightarrow> emit val D_Float32 v
      | C_Timestamp v \<Rightarrow> emit val D_Timestamp v
      | C_Time v \<Rightarrow> emit val D_Time v
      | C_Timestamptz v \<Rightarrow> emit val D_Timestamptz v
      | C_Date v \<Rightarrow> emit val D_Date v
      | C_Text v \<Rightarrow> emit val D_Text v
      | C_Blob v \<Rightarrow> emit val D_Blob v
      | C_Decimal v \<Rightarrow> emit val D_Decimal v
      | C_Interval v \<Rightarrow> emit val D_Interval v
      | C_Uuid v \<Rightarrow> emit val D_Uuid v
      | C_Complex v \<Rightarrow> emit val D_Complex v
      | C_Hugeint v \<Rightarrow> emit val (\<lambda>h. D_Hugeint \<lparr>huge_lower = i128_lower h,
            huge_upper = i128_upper h\<rparr>) v
      | C_Uhugeint v \<Rightarrow> emit val (\<lambda>h. D_Uhugeint \<lparr>uhuge_lower = u128_lower h,
            uhuge_upper = u128_upper h\<rparr>) v
      | C_ListCol nc \<Rightarrow> emit_same val (D_Complex \<lparr>cx_type_expr = ''LIST'',
            cx_json = nested_column_json (nc_encoded nc)\<rparr>) n
      | C_StructCol nc \<Rightarrow> emit_same val (D_Complex \<lparr>cx_type_expr = ''STRUCT'',
            cx_json = nested_column_json (nc_encoded nc)\<rparr>) n
      | C_MapCol mc \<Rightarrow> emit_same val (D_Complex \<lparr>cx_type_expr = ''MAP'',
            cx_json = ''{\"keys\":'' @ nested_column_json (mc_keys_encoded mc) @ '',\"vals\":''
              @ nested_column_json (mc_vals_encoded mc) @ ''}''\<rparr>) n
      | C_ArrayCol ac \<Rightarrow> emit_same val (D_Complex \<lparr>cx_type_expr = ''ARRAY'',
            cx_json = ''{\"size\":'' @ show_word (ac_size ac) @ '',\"encoded\":''
              @ nested_column_json (ac_encoded ac) @ ''}''\<rparr>) n)"

section \<open>The bitmap\<close>

definition bitmap_ok :: "nat \<Rightarrow> u8 list \<Rightarrow> bool" where
  "bitmap_ok n v \<longleftrightarrow> v = [] \<or> length v = (n + 7) div 8"

lemma is_valid_bit:
  "is_valid v i \<longleftrightarrow> v = [] \<or> length v \<le> i div 8 \<or> bit (v ! (i div 8)) (i mod 8)"
  by (simp add: is_valid_def and_one_eq bit_iff_odd_drop_bit odd_iff_mod_2_eq_one)

lemma bit_full: "i < 8 \<Longrightarrow> bit (0xFF :: u8) i"
proof -
  have "(0xFF :: u8) = mask 8" by (simp add: mask_eq_exp_minus_1)
  then show "i < 8 \<Longrightarrow> bit (0xFF :: u8) i" by (simp only: bit_mask_iff) simp
qed

lemma row_in_bitmap: "r < n \<Longrightarrow> r div 8 < (n + 7) div (8 :: nat)"
  by linarith

lemma mark_null_ok: "bitmap_ok n v \<Longrightarrow> bitmap_ok n (mark_null n r v)"
  by (auto simp: bitmap_ok_def mark_null_def Let_def)

lemma mark_null_valid:
  assumes "bitmap_ok n v" and "r < n"
  shows "is_valid (mark_null n r v) i \<longleftrightarrow> is_valid v i \<and> i \<noteq> r"
proof -
  let ?v = "if v = [] then replicate ((n + 7) div 8) 0xFF else v"
  have len: "length ?v = (n + 7) div 8" using assms(1) by (auto simp: bitmap_ok_def)
  have r: "r div 8 < length ?v" using row_in_bitmap [OF assms(2)] len by simp
  then have ne: "?v \<noteq> []" "mark_null n r v \<noteq> []" by (auto simp: mark_null_def Let_def)
  have old: "is_valid ?v i = is_valid v i"
    using bit_full [of "i mod 8"] by (cases "i div 8 < (n + 7) div 8") (auto simp: is_valid_bit)
  have eq: "i = r \<longleftrightarrow> i div 8 = r div 8 \<and> i mod 8 = r mod 8"
    by (metis div_mult_mod_eq)
  show ?thesis
  proof (cases "i div 8 = r div 8")
    case True
    have bl: "i mod 8 < LENGTH(8)" by simp
    have "mark_null n r v ! (i div 8) = and (?v ! (r div 8)) (not (push_bit (r mod 8) 1))"
      using True r by (simp add: mark_null_def Let_def)
    then have "is_valid (mark_null n r v) i
        \<longleftrightarrow> bit (?v ! (i div 8)) (i mod 8) \<and> i mod 8 \<noteq> r mod 8"
      using True r ne bl len
      by (auto simp: is_valid_bit mark_null_def Let_def bit_simps)
    moreover have "is_valid ?v i \<longleftrightarrow> bit (?v ! (i div 8)) (i mod 8)"
      using True r ne by (simp only: is_valid_bit) auto
    ultimately show ?thesis using old True eq by simp
  next
    case False
    then have "mark_null n r v ! (i div 8) = ?v ! (i div 8)"
      by (simp add: mark_null_def Let_def)
    then have "is_valid (mark_null n r v) i \<longleftrightarrow> is_valid ?v i"
      using ne by (simp add: is_valid_bit mark_null_def Let_def)
    then show ?thesis using old False by auto
  qed
qed

lemma build_rows_spec:
  assumes "build_rows ext d n r vs v = (out, v')" and "bitmap_ok n v" and "r + length vs \<le> n"
  shows "out = map (\<lambda>x. case ext x of Some y \<Rightarrow> y | None \<Rightarrow> d) vs \<and> bitmap_ok n v'
    \<and> (\<forall>i. is_valid v' i \<longleftrightarrow> is_valid v i
         \<and> \<not> (r \<le> i \<and> i < r + length vs \<and> ext (vs ! (i - r)) = None))"
  using assms
proof (induction vs arbitrary: r v out)
  case Nil
  then show ?case by simp
next
  case (Cons x vs)
  obtain out1 v1 where rec:
    "build_rows ext d n (r + 1) vs (case ext x of None \<Rightarrow> mark_null n r v | Some _ \<Rightarrow> v) = (out1, v1)"
    by fastforce
  have out: "out = (case ext x of Some y \<Rightarrow> y | None \<Rightarrow> d) # out1" and v1: "v' = v1"
    using Cons.prems(1) rec by (auto split: option.splits prod.splits)
  have ok: "bitmap_ok n (case ext x of None \<Rightarrow> mark_null n r v | Some _ \<Rightarrow> v)"
    using Cons.prems(2) by (auto simp: mark_null_ok split: option.splits)
  note IH = Cons.IH [OF rec [folded v1] ok]
  have rn: "r < n" using Cons.prems(3) by simp
  have step: "(r \<le> i \<and> i < r + length (x # vs) \<and> ext ((x # vs) ! (i - r)) = None)
      \<longleftrightarrow> (i = r \<and> ext x = None)
        \<or> (r + 1 \<le> i \<and> i < r + 1 + length vs \<and> ext (vs ! (i - (r + 1))) = None)" for i
  proof (cases "r < i")
    case True
    then obtain k where "i = Suc (r + k)" using less_iff_Suc_add by auto
    then show ?thesis by simp
  qed auto
  have "out = map (\<lambda>x. case ext x of Some y \<Rightarrow> y | None \<Rightarrow> d) (x # vs) \<and> bitmap_ok n v'"
    using IH Cons.prems(3) out by simp
  moreover have "is_valid v' i \<longleftrightarrow> is_valid v i
      \<and> \<not> (r \<le> i \<and> i < r + length (x # vs) \<and> ext ((x # vs) ! (i - r)) = None)" for i
  proof (cases "ext x")
    case None
    then show ?thesis
      unfolding step using IH Cons.prems(3) mark_null_valid [OF Cons.prems(2) rn] by auto
  next
    case (Some y)
    then show ?thesis unfolding step using IH Cons.prems(3) by auto
  qed
  ultimately show ?case by blast
qed

section \<open>The pivot\<close>

text \<open>The arm of a value, as a number; NULL has its own.\<close>

fun arm_of :: "duckvalue \<Rightarrow> nat" where
  "arm_of D_Null = 0"
| "arm_of (D_Boolean _) = 1"
| "arm_of (D_Int64 _) = 2"
| "arm_of (D_Uint64 _) = 3"
| "arm_of (D_Float64 _) = 4"
| "arm_of (D_Text _) = 5"
| "arm_of (D_Blob _) = 6"
| "arm_of (D_Int32 _) = 7"
| "arm_of (D_Timestamp _) = 8"
| "arm_of (D_Int8 _) = 9"
| "arm_of (D_Int16 _) = 10"
| "arm_of (D_Uint8 _) = 11"
| "arm_of (D_Uint16 _) = 12"
| "arm_of (D_Uint32 _) = 13"
| "arm_of (D_Float32 _) = 14"
| "arm_of (D_Date _) = 15"
| "arm_of (D_Time _) = 16"
| "arm_of (D_Timestamptz _) = 17"
| "arm_of (D_Decimal _) = 18"
| "arm_of (D_Interval _) = 19"
| "arm_of (D_Uuid _) = 20"
| "arm_of (D_Hugeint _) = 21"
| "arm_of (D_Uhugeint _) = 22"
| "arm_of (D_Complex _) = 23"

definition same_arm_view :: "duckvalue \<Rightarrow> duckvalue list \<Rightarrow> duckvalue list" where
  "same_arm_view rep vals = map (\<lambda>v. if arm_of v = arm_of rep then v else D_Null) vals"

lemma emit_build:
  assumes "\<And>v. v \<in> set vals \<Longrightarrow> arm_of v = k \<longleftrightarrow> ext v \<noteq> None"
    and "\<And>v x. v \<in> set vals \<Longrightarrow> ext v = Some x \<Longrightarrow> ctor x = v"
    and "build_rows ext d (length vals) 0 vals [] = (out, validity)"
  shows "emit validity ctor out = map (\<lambda>v. if arm_of v = k then v else D_Null) vals"
proof -
  have spec: "out = map (\<lambda>x. case ext x of Some y \<Rightarrow> y | None \<Rightarrow> d) vals"
    "\<And>i. is_valid validity i \<longleftrightarrow> \<not> (i < length vals \<and> ext (vals ! i) = None)"
    using build_rows_spec [OF assms(3)] by (auto simp: bitmap_ok_def is_valid_def)
  show ?thesis
  proof (rule nth_equalityI)
    show "length (emit validity ctor out) = length (map (\<lambda>v. if arm_of v = k then v else D_Null) vals)"
      by (simp add: emit_def spec(1))
    fix i assume "i < length (emit validity ctor out)"
    then have i: "i < length vals" by (simp add: emit_def spec(1))
    then have "vals ! i \<in> set vals" by simp
    with assms(1,2) [OF this] i
    show "emit validity ctor out ! i = map (\<lambda>v. if arm_of v = k then v else D_Null) vals ! i"
      by (auto simp: emit_def spec nth_enumerate_eq split: option.splits)
  qed
qed

lemma all_null_valid:
  "m \<le> n \<Longrightarrow> bitmap_ok n (fold (mark_null n) [0 ..< m] [])
    \<and> (\<forall>i. is_valid (fold (mark_null n) [0 ..< m] []) i \<longleftrightarrow> \<not> i < m)"
proof (induction m)
  case 0
  then show ?case by (simp add: is_valid_def bitmap_ok_def)
next
  case (Suc m)
  then have ok: "bitmap_ok n (fold (mark_null n) [0 ..< m] [])"
    and v: "is_valid (fold (mark_null n) [0 ..< m] []) i \<longleftrightarrow> \<not> i < m" for i by auto
  have m: "m < n" using Suc.prems by simp
  have f: "fold (mark_null n) [0 ..< Suc m] [] = mark_null n m (fold (mark_null n) [0 ..< m] [])"
    by simp
  show ?case
    unfolding f mark_null_valid [OF ok m] v by (auto simp: mark_null_ok [OF ok])
qed

lemma representative_hd:
  "filter (\<lambda>v. v \<noteq> D_Null) vals = x # xs \<Longrightarrow> representative vals = x \<and> x \<noteq> D_Null \<and> x \<in> set vals"
  using set_filter [of "\<lambda>v. v \<noteq> D_Null" vals] by (auto simp: representative_def)

lemma representative_null:
  assumes "representative vals = D_Null" and "v \<in> set vals"
  shows "v = D_Null"
proof (cases "filter (\<lambda>v. v \<noteq> D_Null) vals")
  case Nil
  then show ?thesis using assms(2) by (simp add: filter_empty_conv)
qed (use assms representative_hd in blast)

lemma build_arm_emit:
  assumes "\<And>v. arm_of v = k \<longleftrightarrow> ext v \<noteq> None"
    and "\<And>v x. ext v = Some x \<Longrightarrow> ctor x = v"
  shows "emit (cv_validity (build_arm arm d ext vals))
      (ctor) (fst (build_rows ext d (length vals) 0 vals []))
    = map (\<lambda>v. if arm_of v = k then v else D_Null) vals"
    and "cv_data (build_arm arm d ext vals) = arm (fst (build_rows ext d (length vals) 0 vals []))"
  using emit_build [of vals k ext ctor d] assms
  by (auto simp: build_arm_def split: prod.splits)

lemma pivot_view:
  "colvec_to_values (column_from_values vals) = same_arm_view (representative vals) vals"
proof (cases "representative vals")
  case D_Null
  have "i < length vals \<Longrightarrow> (if arm_of (vals ! i) = 0 then vals ! i else D_Null) = D_Null" for i
    using representative_null [OF D_Null] by auto
  then show ?thesis
    using all_null_valid [of "length vals" "length vals"]
    by (auto simp: D_Null column_from_values_def all_null_def colvec_to_values_def emit_def
        same_arm_view_def nth_enumerate_eq intro!: nth_equalityI)
next
  case (D_Boolean x)
  let ?ext = "\<lambda>v. case v of D_Boolean x \<Rightarrow> Some x | _ \<Rightarrow> None"
  have "\<And>v. arm_of v = 1 \<longleftrightarrow> ?ext v \<noteq> None" "\<And>v x. ?ext v = Some x \<Longrightarrow> D_Boolean x = v"
    by (auto split: duckvalue.splits)
  from build_arm_emit [of "1" ?ext "D_Boolean", OF this] show ?thesis
    by (simp add: D_Boolean column_from_values_def colvec_to_values_def same_arm_view_def Let_def)
next
  case (D_Int64 x)
  let ?ext = "\<lambda>v. case v of D_Int64 x \<Rightarrow> Some x | _ \<Rightarrow> None"
  have "\<And>v. arm_of v = 2 \<longleftrightarrow> ?ext v \<noteq> None" "\<And>v x. ?ext v = Some x \<Longrightarrow> D_Int64 x = v"
    by (auto split: duckvalue.splits)
  from build_arm_emit [of "2" ?ext "D_Int64", OF this] show ?thesis
    by (simp add: D_Int64 column_from_values_def colvec_to_values_def same_arm_view_def Let_def)
next
  case (D_Uint64 x)
  let ?ext = "\<lambda>v. case v of D_Uint64 x \<Rightarrow> Some x | _ \<Rightarrow> None"
  have "\<And>v. arm_of v = 3 \<longleftrightarrow> ?ext v \<noteq> None" "\<And>v x. ?ext v = Some x \<Longrightarrow> D_Uint64 x = v"
    by (auto split: duckvalue.splits)
  from build_arm_emit [of "3" ?ext "D_Uint64", OF this] show ?thesis
    by (simp add: D_Uint64 column_from_values_def colvec_to_values_def same_arm_view_def Let_def)
next
  case (D_Float64 x)
  let ?ext = "\<lambda>v. case v of D_Float64 x \<Rightarrow> Some x | _ \<Rightarrow> None"
  have "\<And>v. arm_of v = 4 \<longleftrightarrow> ?ext v \<noteq> None" "\<And>v x. ?ext v = Some x \<Longrightarrow> D_Float64 x = v"
    by (auto split: duckvalue.splits)
  from build_arm_emit [of "4" ?ext "D_Float64", OF this] show ?thesis
    by (simp add: D_Float64 column_from_values_def colvec_to_values_def same_arm_view_def Let_def)
next
  case (D_Text x)
  let ?ext = "\<lambda>v. case v of D_Text x \<Rightarrow> Some x | _ \<Rightarrow> None"
  have "\<And>v. arm_of v = 5 \<longleftrightarrow> ?ext v \<noteq> None" "\<And>v x. ?ext v = Some x \<Longrightarrow> D_Text x = v"
    by (auto split: duckvalue.splits)
  from build_arm_emit [of "5" ?ext "D_Text", OF this] show ?thesis
    by (simp add: D_Text column_from_values_def colvec_to_values_def same_arm_view_def Let_def)
next
  case (D_Blob x)
  let ?ext = "\<lambda>v. case v of D_Blob x \<Rightarrow> Some x | _ \<Rightarrow> None"
  have "\<And>v. arm_of v = 6 \<longleftrightarrow> ?ext v \<noteq> None" "\<And>v x. ?ext v = Some x \<Longrightarrow> D_Blob x = v"
    by (auto split: duckvalue.splits)
  from build_arm_emit [of "6" ?ext "D_Blob", OF this] show ?thesis
    by (simp add: D_Blob column_from_values_def colvec_to_values_def same_arm_view_def Let_def)
next
  case (D_Int32 x)
  let ?ext = "\<lambda>v. case v of D_Int32 x \<Rightarrow> Some x | _ \<Rightarrow> None"
  have "\<And>v. arm_of v = 7 \<longleftrightarrow> ?ext v \<noteq> None" "\<And>v x. ?ext v = Some x \<Longrightarrow> D_Int32 x = v"
    by (auto split: duckvalue.splits)
  from build_arm_emit [of "7" ?ext "D_Int32", OF this] show ?thesis
    by (simp add: D_Int32 column_from_values_def colvec_to_values_def same_arm_view_def Let_def)
next
  case (D_Timestamp x)
  let ?ext = "\<lambda>v. case v of D_Timestamp x \<Rightarrow> Some x | _ \<Rightarrow> None"
  have "\<And>v. arm_of v = 8 \<longleftrightarrow> ?ext v \<noteq> None" "\<And>v x. ?ext v = Some x \<Longrightarrow> D_Timestamp x = v"
    by (auto split: duckvalue.splits)
  from build_arm_emit [of "8" ?ext "D_Timestamp", OF this] show ?thesis
    by (simp add: D_Timestamp column_from_values_def colvec_to_values_def same_arm_view_def Let_def)
next
  case (D_Int8 x)
  let ?ext = "\<lambda>v. case v of D_Int8 x \<Rightarrow> Some x | _ \<Rightarrow> None"
  have "\<And>v. arm_of v = 9 \<longleftrightarrow> ?ext v \<noteq> None" "\<And>v x. ?ext v = Some x \<Longrightarrow> D_Int8 x = v"
    by (auto split: duckvalue.splits)
  from build_arm_emit [of "9" ?ext "D_Int8", OF this] show ?thesis
    by (simp add: D_Int8 column_from_values_def colvec_to_values_def same_arm_view_def Let_def)
next
  case (D_Int16 x)
  let ?ext = "\<lambda>v. case v of D_Int16 x \<Rightarrow> Some x | _ \<Rightarrow> None"
  have "\<And>v. arm_of v = 10 \<longleftrightarrow> ?ext v \<noteq> None" "\<And>v x. ?ext v = Some x \<Longrightarrow> D_Int16 x = v"
    by (auto split: duckvalue.splits)
  from build_arm_emit [of "10" ?ext "D_Int16", OF this] show ?thesis
    by (simp add: D_Int16 column_from_values_def colvec_to_values_def same_arm_view_def Let_def)
next
  case (D_Uint8 x)
  let ?ext = "\<lambda>v. case v of D_Uint8 x \<Rightarrow> Some x | _ \<Rightarrow> None"
  have "\<And>v. arm_of v = 11 \<longleftrightarrow> ?ext v \<noteq> None" "\<And>v x. ?ext v = Some x \<Longrightarrow> D_Uint8 x = v"
    by (auto split: duckvalue.splits)
  from build_arm_emit [of "11" ?ext "D_Uint8", OF this] show ?thesis
    by (simp add: D_Uint8 column_from_values_def colvec_to_values_def same_arm_view_def Let_def)
next
  case (D_Uint16 x)
  let ?ext = "\<lambda>v. case v of D_Uint16 x \<Rightarrow> Some x | _ \<Rightarrow> None"
  have "\<And>v. arm_of v = 12 \<longleftrightarrow> ?ext v \<noteq> None" "\<And>v x. ?ext v = Some x \<Longrightarrow> D_Uint16 x = v"
    by (auto split: duckvalue.splits)
  from build_arm_emit [of "12" ?ext "D_Uint16", OF this] show ?thesis
    by (simp add: D_Uint16 column_from_values_def colvec_to_values_def same_arm_view_def Let_def)
next
  case (D_Uint32 x)
  let ?ext = "\<lambda>v. case v of D_Uint32 x \<Rightarrow> Some x | _ \<Rightarrow> None"
  have "\<And>v. arm_of v = 13 \<longleftrightarrow> ?ext v \<noteq> None" "\<And>v x. ?ext v = Some x \<Longrightarrow> D_Uint32 x = v"
    by (auto split: duckvalue.splits)
  from build_arm_emit [of "13" ?ext "D_Uint32", OF this] show ?thesis
    by (simp add: D_Uint32 column_from_values_def colvec_to_values_def same_arm_view_def Let_def)
next
  case (D_Float32 x)
  let ?ext = "\<lambda>v. case v of D_Float32 x \<Rightarrow> Some x | _ \<Rightarrow> None"
  have "\<And>v. arm_of v = 14 \<longleftrightarrow> ?ext v \<noteq> None" "\<And>v x. ?ext v = Some x \<Longrightarrow> D_Float32 x = v"
    by (auto split: duckvalue.splits)
  from build_arm_emit [of "14" ?ext "D_Float32", OF this] show ?thesis
    by (simp add: D_Float32 column_from_values_def colvec_to_values_def same_arm_view_def Let_def)
next
  case (D_Date x)
  let ?ext = "\<lambda>v. case v of D_Date x \<Rightarrow> Some x | _ \<Rightarrow> None"
  have "\<And>v. arm_of v = 15 \<longleftrightarrow> ?ext v \<noteq> None" "\<And>v x. ?ext v = Some x \<Longrightarrow> D_Date x = v"
    by (auto split: duckvalue.splits)
  from build_arm_emit [of "15" ?ext "D_Date", OF this] show ?thesis
    by (simp add: D_Date column_from_values_def colvec_to_values_def same_arm_view_def Let_def)
next
  case (D_Time x)
  let ?ext = "\<lambda>v. case v of D_Time x \<Rightarrow> Some x | _ \<Rightarrow> None"
  have "\<And>v. arm_of v = 16 \<longleftrightarrow> ?ext v \<noteq> None" "\<And>v x. ?ext v = Some x \<Longrightarrow> D_Time x = v"
    by (auto split: duckvalue.splits)
  from build_arm_emit [of "16" ?ext "D_Time", OF this] show ?thesis
    by (simp add: D_Time column_from_values_def colvec_to_values_def same_arm_view_def Let_def)
next
  case (D_Timestamptz x)
  let ?ext = "\<lambda>v. case v of D_Timestamptz x \<Rightarrow> Some x | _ \<Rightarrow> None"
  have "\<And>v. arm_of v = 17 \<longleftrightarrow> ?ext v \<noteq> None" "\<And>v x. ?ext v = Some x \<Longrightarrow> D_Timestamptz x = v"
    by (auto split: duckvalue.splits)
  from build_arm_emit [of "17" ?ext "D_Timestamptz", OF this] show ?thesis
    by (simp add: D_Timestamptz column_from_values_def colvec_to_values_def same_arm_view_def Let_def)
next
  case (D_Decimal x)
  let ?ext = "\<lambda>v. case v of D_Decimal x \<Rightarrow> Some x | _ \<Rightarrow> None"
  have "\<And>v. arm_of v = 18 \<longleftrightarrow> ?ext v \<noteq> None" "\<And>v x. ?ext v = Some x \<Longrightarrow> D_Decimal x = v"
    by (auto split: duckvalue.splits)
  from build_arm_emit [of "18" ?ext "D_Decimal", OF this] show ?thesis
    by (simp add: D_Decimal column_from_values_def colvec_to_values_def same_arm_view_def Let_def)
next
  case (D_Interval x)
  let ?ext = "\<lambda>v. case v of D_Interval x \<Rightarrow> Some x | _ \<Rightarrow> None"
  have "\<And>v. arm_of v = 19 \<longleftrightarrow> ?ext v \<noteq> None" "\<And>v x. ?ext v = Some x \<Longrightarrow> D_Interval x = v"
    by (auto split: duckvalue.splits)
  from build_arm_emit [of "19" ?ext "D_Interval", OF this] show ?thesis
    by (simp add: D_Interval column_from_values_def colvec_to_values_def same_arm_view_def Let_def)
next
  case (D_Uuid x)
  let ?ext = "\<lambda>v. case v of D_Uuid x \<Rightarrow> Some x | _ \<Rightarrow> None"
  have "\<And>v. arm_of v = 20 \<longleftrightarrow> ?ext v \<noteq> None" "\<And>v x. ?ext v = Some x \<Longrightarrow> D_Uuid x = v"
    by (auto split: duckvalue.splits)
  from build_arm_emit [of "20" ?ext "D_Uuid", OF this] show ?thesis
    by (simp add: D_Uuid column_from_values_def colvec_to_values_def same_arm_view_def Let_def)
next
  case (D_Hugeint x)
  let ?ext = "\<lambda>v. case v of D_Hugeint x \<Rightarrow> Some \<lparr>i128_lower = huge_lower x, i128_upper = huge_upper x\<rparr> | _ \<Rightarrow> None"
  have "\<And>v. arm_of v = 21 \<longleftrightarrow> ?ext v \<noteq> None" "\<And>v x. ?ext v = Some x \<Longrightarrow> (\<lambda>h. D_Hugeint \<lparr>huge_lower = i128_lower h, huge_upper = i128_upper h\<rparr>) x = v"
    by (auto split: duckvalue.splits)
  from build_arm_emit [of "21" ?ext "(\<lambda>h. D_Hugeint \<lparr>huge_lower = i128_lower h, huge_upper = i128_upper h\<rparr>)", OF this] show ?thesis
    by (simp add: D_Hugeint column_from_values_def colvec_to_values_def same_arm_view_def Let_def)
next
  case (D_Uhugeint x)
  let ?ext = "\<lambda>v. case v of D_Uhugeint x \<Rightarrow> Some \<lparr>u128_lower = uhuge_lower x, u128_upper = uhuge_upper x\<rparr> | _ \<Rightarrow> None"
  have "\<And>v. arm_of v = 22 \<longleftrightarrow> ?ext v \<noteq> None" "\<And>v x. ?ext v = Some x \<Longrightarrow> (\<lambda>h. D_Uhugeint \<lparr>uhuge_lower = u128_lower h, uhuge_upper = u128_upper h\<rparr>) x = v"
    by (auto split: duckvalue.splits)
  from build_arm_emit [of "22" ?ext "(\<lambda>h. D_Uhugeint \<lparr>uhuge_lower = u128_lower h, uhuge_upper = u128_upper h\<rparr>)", OF this] show ?thesis
    by (simp add: D_Uhugeint column_from_values_def colvec_to_values_def same_arm_view_def Let_def)
next
  case (D_Complex x)
  let ?ext = "\<lambda>v. case v of D_Complex x \<Rightarrow> Some x | _ \<Rightarrow> None"
  have "\<And>v. arm_of v = 23 \<longleftrightarrow> ?ext v \<noteq> None" "\<And>v x. ?ext v = Some x \<Longrightarrow> D_Complex x = v"
    by (auto split: duckvalue.splits)
  from build_arm_emit [of "23" ?ext "D_Complex", OF this] show ?thesis
    by (simp add: D_Complex column_from_values_def colvec_to_values_def same_arm_view_def Let_def)
qed

text \<open>
  C4. The two pivots are inverse up to the column's type: a column built from any list of
  values reads back as the same list, in order and of the same length, in which the values
  of the arm of the first non-NULL value are unchanged in every bit and every other value,
  NULL or of another type, is NULL.
\<close>

theorem column_roundtrip:
  "colvec_to_values (column_from_values vals) = same_arm_view (representative vals) vals"
  by (rule pivot_view)

section \<open>The bitmap of a column\<close>

lemma build_rows_validity:
  "(\<And>v. ext v = None \<longleftrightarrow> ext' v = None) \<Longrightarrow>
     snd (build_rows ext d n r vs val) = snd (build_rows ext' d' n r vs val)"
proof (induction vs arbitrary: r val)
  case (Cons v vs)
  show ?case
    using Cons.IH [OF Cons.prems] Cons.prems [of v]
    by (auto split: option.splits prod.splits) (metis snd_conv)+
qed simp

lemma build_arm_validity:
  "(\<And>v. arm_of v = k \<longleftrightarrow> ext v \<noteq> None) \<Longrightarrow>
     cv_validity (build_arm arm d ext vals)
       = snd (build_rows (\<lambda>v. if arm_of v = k then Some () else None) () (length vals) 0 vals [])"
  using build_rows_validity [of ext "\<lambda>v. if arm_of v = k then Some () else None" d "length vals" 0 vals "[]" "()"]
  by (auto simp: build_arm_def split: prod.splits)

lemma column_validity:
  assumes "representative vals \<noteq> D_Null"
  shows "cv_validity (column_from_values vals)
    = snd (build_rows (\<lambda>v. if arm_of v = arm_of (representative vals) then Some () else None) ()
        (length vals) 0 vals [])"
  using assms
  by (cases "representative vals")
    (auto simp: column_from_values_def intro!: build_arm_validity split: duckvalue.splits)

text \<open>
  C5. The bitmap is exactly the NULL mask: bit \<open>i\<close> of a column's validity is set if and only
  if value \<open>i\<close> is a non-NULL value of the column's arm; the bitmap is empty, which means all
  rows valid, or has one bit per row rounded up to bytes; and the padding bits stay set.
\<close>

theorem column_bitmap:
  "(\<forall>i < length vals. is_valid (cv_validity (column_from_values vals)) i
      \<longleftrightarrow> vals ! i \<noteq> D_Null \<and> arm_of (vals ! i) = arm_of (representative vals))
   \<and> (cv_validity (column_from_values vals) = []
      \<or> length (cv_validity (column_from_values vals)) = (length vals + 7) div 8)
   \<and> (\<forall>i \<ge> length vals. is_valid (cv_validity (column_from_values vals)) i)
   \<and> cv_rows (column_from_values vals) = word_of_nat (length vals)"
proof (cases "representative vals = D_Null")
  case True
  then show ?thesis
    using all_null_valid [of "length vals" "length vals"] representative_null [OF True]
    by (auto simp: column_from_values_def all_null_def bitmap_ok_def)
next
  case False
  let ?ext = "\<lambda>v. if arm_of v = arm_of (representative vals) then Some () else None"
  obtain out val where b: "build_rows ?ext () (length vals) 0 vals [] = (out, val)" by fastforce
  have v: "cv_validity (column_from_values vals) = val" using column_validity [OF False] b by simp
  have nz: "arm_of (representative vals) \<noteq> arm_of D_Null"
    using False by (cases "representative vals") simp_all
  have "cv_rows (column_from_values vals) = word_of_nat (length vals)"
    by (cases "representative vals")
      (simp_all add: column_from_values_def all_null_def build_arm_def split_def Let_def)
  moreover have ok: "bitmap_ok (length vals) val"
    and bits: "\<And>i. is_valid val i \<longleftrightarrow> \<not> (i < length vals \<and> ?ext (vals ! i) = None)"
    using build_rows_spec [OF b] by (simp_all add: bitmap_ok_def is_valid_def [of "[]"])
  moreover have "vals ! i \<noteq> D_Null" if "arm_of (vals ! i) = arm_of (representative vals)" for i
    using that nz by metis
  ultimately show ?thesis unfolding v bits by (auto simp: bitmap_ok_def)
qed

theorem column_bitmap_witness:
  "\<not> is_valid (cv_validity (column_from_values [D_Null, D_Int64 7, D_Text ''x''])) 0
   \<and> is_valid (cv_validity (column_from_values [D_Null, D_Int64 7, D_Text ''x''])) 1"
  using column_bitmap [of "[D_Null, D_Int64 7, D_Text ''x'']"]
  by (simp add: representative_def)

section \<open>Batches\<close>

lemma homogeneous_view:
  assumes "\<forall>v \<in> set vals. \<forall>w \<in> set vals. v = D_Null \<or> w = D_Null \<or> arm_of v = arm_of w"
  shows "same_arm_view (representative vals) vals = vals"
proof -
  have "v = D_Null" if "v \<in> set vals" "arm_of v \<noteq> arm_of (representative vals)" for v
  proof (cases "filter (\<lambda>v. v \<noteq> D_Null) vals")
    case Nil
    then show ?thesis using that(1) by (simp add: filter_empty_conv)
  next
    case (Cons x xs)
    then show ?thesis using representative_hd [OF Cons] assms that by blast
  qed
  then show ?thesis unfolding same_arm_view_def by (intro map_idI) metis
qed

text \<open>
  Transposing a batch loses nothing: a rectangular batch whose columns are homogeneous up
  to NULL pivots into one column vector per argument, whose values read back are, row by row,
  the arguments of the batch; a batch with a row shorter than the first panics.
\<close>

theorem batch_transpose:
  assumes "rows = r0 # rest" and "\<forall>r \<in> set rows. length r = k"
    and "\<forall>j < k. \<forall>r \<in> set rows. \<forall>r' \<in> set rows.
      r ! j = D_Null \<or> r' ! j = D_Null \<or> arm_of (r ! j) = arm_of (r' ! j)"
  shows "(case rows_to_colvecs rows of
       None \<Rightarrow> False
     | Some cols \<Rightarrow> length cols = k \<and>
         (\<forall>j < k. colvec_to_values (cols ! j) = map (\<lambda>r. r ! j) rows))
    \<and> (length short < k \<longrightarrow> rows_to_colvecs (r0 # short # rest) = None)"
proof -
  have k: "length r0 = k" using assms(1,2) by simp
  have "rows_to_colvecs rows = Some (map (\<lambda>j. column_from_values (map (\<lambda>r. r ! j) rows)) [0 ..< k])"
    using assms(1,2) by (simp add: rows_to_colvecs_def Let_def)
  moreover have "colvec_to_values (column_from_values (map (\<lambda>r. r ! j) rows)) = map (\<lambda>r. r ! j) rows"
    if "j < k" for j
    unfolding pivot_view using that assms(3) by (intro homogeneous_view) auto
  ultimately show ?thesis by (simp add: rows_to_colvecs_def k Let_def)
qed

theorem batch_transpose_witness:
  "length (the (rows_to_colvecs [[D_Int64 1, D_Null], [D_Int64 2, D_Text ''x'']])) = 2"
proof -
  let ?rows = "[[D_Int64 1, D_Null], [D_Int64 2, D_Text ''x'']]"
  have "case rows_to_colvecs ?rows of None \<Rightarrow> False
     | Some cols \<Rightarrow> length cols = 2 \<and>
         (\<forall>j < 2. colvec_to_values (cols ! j) = map (\<lambda>r. r ! j) ?rows)"
    using batch_transpose [of ?rows _ _ 2 "[]"] by (simp add: less_2_cases_iff)
  then show ?thesis by (simp split: option.splits)
qed

end
