(* ===== verification/Marshal.thy ===== *)
theory Marshal
  imports Columnar
begin

text \<open>
  Marshalling between typed values and the values of the component runtime
  (\<open>crates/ducklink-runtime/src/export_marshal.rs\<close>). \<open>wvalue\<close> is the runtime's value type with the
  constructors this repository uses; it comes from a dependency, and so does its \<open>Debug\<close>
  output, which appears in error messages only: \<open>fmt\<close> carries it as a parameter, together with
  the \<open>Debug\<close> output of a string. Floats are bit patterns.
\<close>

datatype wvalue =
    V_Bool bool | V_S8 i8 | V_S16 i16 | V_S32 i32 | V_S64 i64
  | V_U8 u8 | V_U16 u16 | V_U32 u32 | V_U64 u64 | V_F32 f32 | V_F64 f64
  | V_String string | V_Bytes "u8 list" | V_List "wvalue list"
  | V_Record "(string \<times> wvalue) list" | V_Variant string "wvalue option"
  | V_Option "wvalue option" | V_Result "wvalue option + wvalue option"
  | V_Tuple "wvalue list" | V_Enum string | V_Flags "string list" | V_Resource u64 u64

record fmt =
  dbg :: "wvalue \<Rightarrow> string"
  dbg_str :: "string \<Rightarrow> string"

definition dbg_opt :: "fmt \<Rightarrow> wvalue option \<Rightarrow> string" where
  "dbg_opt fm o1 = (case o1 of None \<Rightarrow> ''None'' | Some v \<Rightarrow> ''Some('' @ dbg fm v @ '')'')"

section \<open>Errors\<close>

definition duckerror_from_value :: "fmt \<Rightarrow> wvalue \<Rightarrow> duckerror" where
  "duckerror_from_value fm v =
     (case v of
        V_Variant disc payload \<Rightarrow>
          (let named = (\<lambda>msg.
             if disc = ''invalidargument'' then Invalidargument msg
             else if disc = ''unsupported'' then Unsupported msg
             else if disc = ''invalidstate'' then Invalidstate msg
             else if disc = ''io'' then Io msg
             else if disc = ''internal'' then Internal msg
             else Internal (''export_marshal: unknown duckerror discriminant '' @ dbg_str fm disc
                    @ '': '' @ msg))
           in (case payload of
                 Some (V_String s) \<Rightarrow> named s
               | Some other \<Rightarrow> Internal (''export_marshal: expected String payload for duckerror.''
                     @ disc @ '', got '' @ dbg fm other)
               | None \<Rightarrow> named []))
      | other \<Rightarrow> Internal (''export_marshal: expected Variant for duckerror, got '' @ dbg fm other))"

definition string_from_value :: "fmt \<Rightarrow> wvalue \<Rightarrow> string" where
  "string_from_value fm v =
     (case v of V_String s \<Rightarrow> s | other \<Rightarrow> ''export_marshal: expected string, got '' @ dbg fm other)"

definition export_result_to_duckerror ::
  "fmt \<Rightarrow> wvalue list \<Rightarrow> string \<Rightarrow> (wvalue option \<Rightarrow> duckerror + 'a) \<Rightarrow> duckerror + 'a" where
  "export_result_to_duckerror fm out method lift_ok =
     (if length out \<noteq> 1
      then Inl (Internal (dbg_str fm method @ '' returned '' @ show_nat (length out)
             @ '' values, expected 1''))
      else (case hd out of
          V_Result (Inr payload) \<Rightarrow> lift_ok payload
        | V_Result (Inl payload) \<Rightarrow>
            Inl (case payload of
                   None \<Rightarrow> Internal (method @ '': Err(None)'')
                 | Some e \<Rightarrow> duckerror_from_value fm e)
        | other \<Rightarrow> Inl (Internal (dbg_str fm method @ '': expected Result, got '' @ dbg fm other))))"

definition export_result_to_string ::
  "fmt \<Rightarrow> wvalue list \<Rightarrow> string \<Rightarrow> (wvalue option \<Rightarrow> string + 'a) \<Rightarrow> duckerror + 'a" where
  "export_result_to_string fm out method lift_ok =
     (if length out \<noteq> 1
      then Inl (Internal (dbg_str fm method @ '' returned '' @ show_nat (length out)
             @ '' values, expected 1''))
      else (case hd out of
          V_Result (Inr payload) \<Rightarrow>
            (case lift_ok payload of Inl s \<Rightarrow> Inl (Io s) | Inr a \<Rightarrow> Inr a)
        | V_Result (Inl payload) \<Rightarrow>
            Inl (Io (case payload of None \<Rightarrow> [] | Some e \<Rightarrow> string_from_value fm e))
        | other \<Rightarrow> Inl (Internal (dbg_str fm method @ '': expected Result, got '' @ dbg fm other))))"

section \<open>Lifters of plain results\<close>

definition lift_bool :: "fmt \<Rightarrow> wvalue option \<Rightarrow> duckerror + bool" where
  "lift_bool fm payload =
     (case payload of
        Some (V_Bool x) \<Rightarrow> Inr x
      | Some other \<Rightarrow> Inl (Internal (''expected Ok(Bool), got '' @ dbg fm other))
      | None \<Rightarrow> Inl (Internal ''expected Ok(Bool), got None''))"

definition lift_u32 :: "fmt \<Rightarrow> wvalue option \<Rightarrow> duckerror + u32" where
  "lift_u32 fm payload =
     (case payload of
        Some (V_U32 x) \<Rightarrow> Inr x
      | Some other \<Rightarrow> Inl (Internal (''expected Ok(U32), got '' @ dbg fm other))
      | None \<Rightarrow> Inl (Internal ''expected Ok(U32), got None''))"

definition lift_u64 :: "fmt \<Rightarrow> wvalue option \<Rightarrow> duckerror + u64" where
  "lift_u64 fm payload =
     (case payload of
        Some (V_U64 x) \<Rightarrow> Inr x
      | Some other \<Rightarrow> Inl (Internal (''expected Ok(U64), got '' @ dbg fm other))
      | None \<Rightarrow> Inl (Internal ''expected Ok(U64), got None''))"

text \<open>
  The element loops: every element is extracted in order, the first that does not fit is
  reported, with its index where the code prints one.
\<close>

fun lift_items ::
  "(nat \<Rightarrow> wvalue \<Rightarrow> duckerror) \<Rightarrow> (wvalue \<Rightarrow> 'a option) \<Rightarrow> nat \<Rightarrow> wvalue list \<Rightarrow> duckerror + 'a list" where
  "lift_items err extract i [] = Inr []"
| "lift_items err extract i (x # xs) =
     (case extract x of
        None \<Rightarrow> Inl (err i x)
      | Some y \<Rightarrow> rbind (lift_items err extract (i + 1) xs) (\<lambda>ys. Inr (y # ys)))"

definition as_bool :: "wvalue \<Rightarrow> bool option" where
  "as_bool v = (case v of V_Bool x \<Rightarrow> Some x | _ \<Rightarrow> None)"

definition as_s8 :: "wvalue \<Rightarrow> i8 option" where
  "as_s8 v = (case v of V_S8 x \<Rightarrow> Some x | _ \<Rightarrow> None)"

definition as_s16 :: "wvalue \<Rightarrow> i16 option" where
  "as_s16 v = (case v of V_S16 x \<Rightarrow> Some x | _ \<Rightarrow> None)"

definition as_s32 :: "wvalue \<Rightarrow> i32 option" where
  "as_s32 v = (case v of V_S32 x \<Rightarrow> Some x | _ \<Rightarrow> None)"

definition as_s64 :: "wvalue \<Rightarrow> i64 option" where
  "as_s64 v = (case v of V_S64 x \<Rightarrow> Some x | _ \<Rightarrow> None)"

definition as_u8 :: "wvalue \<Rightarrow> u8 option" where
  "as_u8 v = (case v of V_U8 x \<Rightarrow> Some x | _ \<Rightarrow> None)"

definition as_u16 :: "wvalue \<Rightarrow> u16 option" where
  "as_u16 v = (case v of V_U16 x \<Rightarrow> Some x | _ \<Rightarrow> None)"

definition as_u32 :: "wvalue \<Rightarrow> u32 option" where
  "as_u32 v = (case v of V_U32 x \<Rightarrow> Some x | _ \<Rightarrow> None)"

definition as_u64 :: "wvalue \<Rightarrow> u64 option" where
  "as_u64 v = (case v of V_U64 x \<Rightarrow> Some x | _ \<Rightarrow> None)"

definition as_f32 :: "wvalue \<Rightarrow> f32 option" where
  "as_f32 v = (case v of V_F32 x \<Rightarrow> Some x | _ \<Rightarrow> None)"

definition as_f64 :: "wvalue \<Rightarrow> f64 option" where
  "as_f64 v = (case v of V_F64 x \<Rightarrow> Some x | _ \<Rightarrow> None)"

definition as_string :: "wvalue \<Rightarrow> string option" where
  "as_string v = (case v of V_String x \<Rightarrow> Some x | _ \<Rightarrow> None)"

definition lift_bytes :: "fmt \<Rightarrow> wvalue option \<Rightarrow> duckerror + u8 list" where
  "lift_bytes fm payload =
     (case payload of
        Some (V_Bytes b) \<Rightarrow> Inr b
      | Some (V_List items) \<Rightarrow>
          lift_items (\<lambda>i other. Internal (''list<u8>['' @ show_nat i @ '']: expected U8, got ''
            @ dbg fm other)) as_u8 0 items
      | Some other \<Rightarrow> Inl (Internal (''expected Ok(list<u8>), got '' @ dbg fm other))
      | None \<Rightarrow> Inl (Internal ''expected Ok(list<u8>), got None''))"

definition lift_string_list :: "fmt \<Rightarrow> wvalue option \<Rightarrow> duckerror + string list" where
  "lift_string_list fm payload =
     (case payload of
        Some (V_List items) \<Rightarrow>
          lift_items (\<lambda>i other. Internal (''list<string>['' @ show_nat i @ '']: expected String, got ''
            @ dbg fm other)) as_string 0 items
      | Some other \<Rightarrow> Inl (Internal (''expected Ok(list<string>), got '' @ dbg fm other))
      | None \<Rightarrow> Inl (Internal ''expected Ok(list<string>), got None''))"

definition lift_s64_list :: "fmt \<Rightarrow> wvalue option \<Rightarrow> duckerror + i64 list" where
  "lift_s64_list fm payload =
     (case payload of
        Some (V_List items) \<Rightarrow>
          lift_items (\<lambda>i other. Internal (''list<s64>['' @ show_nat i @ '']: expected S64, got ''
            @ dbg fm other)) as_s64 0 items
      | Some other \<Rightarrow> Inl (Internal (''expected Ok(list<s64>), got '' @ dbg fm other))
      | None \<Rightarrow> Inl (Internal ''expected Ok(list<s64>), got None''))"

section \<open>Lowerers\<close>

definition bytes_to_value :: "u8 list \<Rightarrow> wvalue" where
  "bytes_to_value b = V_List (map V_U8 b)"

definition s64_list_to_value :: "i64 list \<Rightarrow> wvalue" where
  "s64_list_to_value xs = V_List (map V_S64 xs)"

definition f32_matrix_to_value :: "f32 list list \<Rightarrow> wvalue" where
  "f32_matrix_to_value m = V_List (map (\<lambda>row. V_List (map V_F32 row)) m)"

definition f32_list_to_value :: "f32 list \<Rightarrow> wvalue" where
  "f32_list_to_value xs = V_List (map V_F32 xs)"

section \<open>Record fields\<close>

definition record_field :: "fmt \<Rightarrow> wvalue \<Rightarrow> string \<Rightarrow> duckerror + wvalue" where
  "record_field fm v name =
     (case v of
        V_Record fs \<Rightarrow>
          (case filter (\<lambda>(n, _). n = name) fs of
             [] \<Rightarrow> Inl (Internal (''record missing field '' @ dbg_str fm name))
           | (_, val) # _ \<Rightarrow> Inr val)
      | other \<Rightarrow> Inl (Internal (''expected Record, got '' @ dbg fm other)))"

definition typed_field ::
  "(wvalue \<Rightarrow> 'a option) \<Rightarrow> string \<Rightarrow> fmt \<Rightarrow> wvalue \<Rightarrow> string \<Rightarrow> duckerror + 'a" where
  "typed_field extract want fm rec name =
     rbind (record_field fm rec name) (\<lambda>v.
       (case extract v of
          Some x \<Rightarrow> Inr x
        | None \<Rightarrow> Inl (Internal (''field '' @ dbg_str fm name @ '': expected '' @ want @ '', got ''
                  @ dbg fm v))))"

definition u32_field :: "fmt \<Rightarrow> wvalue \<Rightarrow> string \<Rightarrow> duckerror + u32" where
  "u32_field = typed_field as_u32 ''U32''"

definition u64_field :: "fmt \<Rightarrow> wvalue \<Rightarrow> string \<Rightarrow> duckerror + u64" where
  "u64_field = typed_field as_u64 ''U64''"

definition s32_field :: "fmt \<Rightarrow> wvalue \<Rightarrow> string \<Rightarrow> duckerror + i32" where
  "s32_field = typed_field as_s32 ''S32''"

definition s64_field :: "fmt \<Rightarrow> wvalue \<Rightarrow> string \<Rightarrow> duckerror + i64" where
  "s64_field = typed_field as_s64 ''S64''"

definition u8_field :: "fmt \<Rightarrow> wvalue \<Rightarrow> string \<Rightarrow> duckerror + u8" where
  "u8_field = typed_field as_u8 ''U8''"

definition bool_field :: "fmt \<Rightarrow> wvalue \<Rightarrow> string \<Rightarrow> duckerror + bool" where
  "bool_field = typed_field as_bool ''Bool''"

definition string_field :: "fmt \<Rightarrow> wvalue \<Rightarrow> string \<Rightarrow> duckerror + string" where
  "string_field = typed_field as_string ''String''"

text \<open>A byte list arrives as bytes or as a list of \<open>u8\<close> values.\<close>

definition lift_byte_list ::
  "(wvalue \<Rightarrow> duckerror) \<Rightarrow> (wvalue \<Rightarrow> duckerror) \<Rightarrow> wvalue \<Rightarrow> duckerror + u8 list" where
  "lift_byte_list elem_err shape_err v =
     (case v of
        V_Bytes b \<Rightarrow> Inr b
      | V_List items \<Rightarrow> lift_items (\<lambda>_. elem_err) as_u8 0 items
      | other \<Rightarrow> Inl (shape_err other))"

definition bytes_field :: "fmt \<Rightarrow> wvalue \<Rightarrow> string \<Rightarrow> duckerror + u8 list" where
  "bytes_field fm rec name =
     rbind (record_field fm rec name)
       (lift_byte_list
         (\<lambda>x. Internal (''field '' @ dbg_str fm name @ '' element: expected U8, got '' @ dbg fm x))
         (\<lambda>x. Internal (''field '' @ dbg_str fm name @ '': expected Bytes or List<U8>, got ''
           @ dbg fm x)))"

section \<open>The record payloads\<close>

definition decimal_record :: "decimalvalue \<Rightarrow> wvalue" where
  "decimal_record d = V_Record [(''lower'', V_U64 (dec_lower d)), (''upper'', V_U64 (dec_upper d)),
     (''width'', V_U8 (dec_width d)), (''scale'', V_U8 (dec_scale d))]"

definition interval_record :: "intervalvalue \<Rightarrow> wvalue" where
  "interval_record i = V_Record [(''months'', V_S32 (iv_months i)), (''days'', V_S32 (iv_days i)),
     (''micros'', V_S64 (iv_micros i))]"

definition uuid_record :: "uuidvalue \<Rightarrow> wvalue" where
  "uuid_record u = V_Record [(''hi'', V_U64 (uuid_hi u)), (''lo'', V_U64 (uuid_lo u))]"

definition int128_record :: "u64 \<Rightarrow> i64 \<Rightarrow> wvalue" where
  "int128_record lo hi = V_Record [(''lower'', V_U64 lo), (''upper'', V_S64 hi)]"

definition uint128_record :: "u64 \<Rightarrow> u64 \<Rightarrow> wvalue" where
  "uint128_record lo hi = V_Record [(''lower'', V_U64 lo), (''upper'', V_U64 hi)]"

definition complex_record :: "complexvalue \<Rightarrow> wvalue" where
  "complex_record c = V_Record [(''type-expr'', V_String (cx_type_expr c)),
     (''json'', V_String (cx_json c))]"

definition decimal_from :: "fmt \<Rightarrow> wvalue \<Rightarrow> duckerror + decimalvalue" where
  "decimal_from fm rec =
     rbind (u64_field fm rec ''lower'') (\<lambda>lo. rbind (u64_field fm rec ''upper'') (\<lambda>up.
     rbind (u8_field fm rec ''width'') (\<lambda>wd. rbind (u8_field fm rec ''scale'') (\<lambda>sc.
       Inr \<lparr>dec_lower = lo, dec_upper = up, dec_width = wd, dec_scale = sc\<rparr>))))"

definition interval_from :: "fmt \<Rightarrow> wvalue \<Rightarrow> duckerror + intervalvalue" where
  "interval_from fm rec =
     rbind (s32_field fm rec ''months'') (\<lambda>m. rbind (s32_field fm rec ''days'') (\<lambda>d.
     rbind (s64_field fm rec ''micros'') (\<lambda>us.
       Inr \<lparr>iv_months = m, iv_days = d, iv_micros = us\<rparr>)))"

definition uuid_from :: "fmt \<Rightarrow> wvalue \<Rightarrow> duckerror + uuidvalue" where
  "uuid_from fm rec =
     rbind (u64_field fm rec ''hi'') (\<lambda>hi. rbind (u64_field fm rec ''lo'') (\<lambda>lo.
       Inr \<lparr>uuid_hi = hi, uuid_lo = lo\<rparr>))"

definition int128_from :: "fmt \<Rightarrow> (u64 \<Rightarrow> i64 \<Rightarrow> 'a) \<Rightarrow> wvalue \<Rightarrow> duckerror + 'a" where
  "int128_from fm mk rec =
     rbind (u64_field fm rec ''lower'') (\<lambda>lo. rbind (s64_field fm rec ''upper'') (\<lambda>up. Inr (mk lo up)))"

definition uint128_from :: "fmt \<Rightarrow> (u64 \<Rightarrow> u64 \<Rightarrow> 'a) \<Rightarrow> wvalue \<Rightarrow> duckerror + 'a" where
  "uint128_from fm mk rec =
     rbind (u64_field fm rec ''lower'') (\<lambda>lo. rbind (u64_field fm rec ''upper'') (\<lambda>up. Inr (mk lo up)))"

definition complex_from :: "fmt \<Rightarrow> wvalue \<Rightarrow> duckerror + complexvalue" where
  "complex_from fm rec =
     rbind (string_field fm rec ''type-expr'') (\<lambda>t. rbind (string_field fm rec ''json'') (\<lambda>j.
       Inr \<lparr>cx_type_expr = t, cx_json = j\<rparr>))"

section \<open>Values\<close>

definition duckvalue_to_value :: "duckvalue \<Rightarrow> wvalue" where
  "duckvalue_to_value v =
     (let (disc, payload) = (case v of
        D_Null \<Rightarrow> (''null'', None)
      | D_Boolean x \<Rightarrow> (''boolean'', Some (V_Bool x))
      | D_Int64 x \<Rightarrow> (''int64'', Some (V_S64 x))
      | D_Uint64 x \<Rightarrow> (''uint64'', Some (V_U64 x))
      | D_Float64 x \<Rightarrow> (''float64'', Some (V_F64 x))
      | D_Text x \<Rightarrow> (''text'', Some (V_String x))
      | D_Blob b \<Rightarrow> (''blob'', Some (bytes_to_value b))
      | D_Int32 x \<Rightarrow> (''int32'', Some (V_S32 x))
      | D_Timestamp x \<Rightarrow> (''timestamp'', Some (V_S64 x))
      | D_Int8 x \<Rightarrow> (''int8'', Some (V_S8 x))
      | D_Int16 x \<Rightarrow> (''int16'', Some (V_S16 x))
      | D_Uint8 x \<Rightarrow> (''uint8'', Some (V_U8 x))
      | D_Uint16 x \<Rightarrow> (''uint16'', Some (V_U16 x))
      | D_Uint32 x \<Rightarrow> (''uint32'', Some (V_U32 x))
      | D_Float32 x \<Rightarrow> (''float32'', Some (V_F32 x))
      | D_Date x \<Rightarrow> (''date'', Some (V_S32 x))
      | D_Time x \<Rightarrow> (''time'', Some (V_S64 x))
      | D_Timestamptz x \<Rightarrow> (''timestamptz'', Some (V_S64 x))
      | D_Decimal d \<Rightarrow> (''decimal'', Some (decimal_record d))
      | D_Interval i \<Rightarrow> (''interval'', Some (interval_record i))
      | D_Uuid u \<Rightarrow> (''uuid'', Some (uuid_record u))
      | D_Hugeint h \<Rightarrow> (''hugeint'', Some (int128_record (huge_lower h) (huge_upper h)))
      | D_Uhugeint h \<Rightarrow> (''uhugeint'', Some (uint128_record (uhuge_lower h) (uhuge_upper h)))
      | D_Complex c \<Rightarrow> (''complex'', Some (complex_record c)))
      in V_Variant disc payload)"

definition shape_err :: "fmt \<Rightarrow> string \<Rightarrow> string \<Rightarrow> wvalue \<Rightarrow> duckerror" where
  "shape_err fm disc want got =
     Internal (''duckvalue.'' @ disc @ '': expected '' @ want @ '', got '' @ dbg fm got)"

definition need :: "string \<Rightarrow> wvalue option \<Rightarrow> string \<Rightarrow> duckerror + wvalue" where
  "need disc payload want =
     (case payload of
        None \<Rightarrow> Inl (Internal (''duckvalue.'' @ disc @ '': expected '' @ want @ '', got None''))
      | Some v \<Rightarrow> Inr v)"

definition prim_arm ::
  "fmt \<Rightarrow> string \<Rightarrow> wvalue option \<Rightarrow> string \<Rightarrow> (wvalue \<Rightarrow> 'a option) \<Rightarrow> ('a \<Rightarrow> duckvalue)
     \<Rightarrow> duckerror + duckvalue" where
  "prim_arm fm disc payload want extract ctor =
     rbind (need disc payload want) (\<lambda>v.
       (case extract v of Some x \<Rightarrow> Inr (ctor x) | None \<Rightarrow> Inl (shape_err fm disc want v)))"

definition value_to_prim ::
  "fmt \<Rightarrow> string \<Rightarrow> wvalue option \<Rightarrow> (duckerror + duckvalue) option" where
  "value_to_prim fm disc payload =
    (if disc = ''null'' then Some (Inr D_Null)
     else if disc = ''boolean'' then Some (prim_arm fm disc payload ''Bool'' as_bool D_Boolean)
     else if disc = ''int64'' then Some (prim_arm fm disc payload ''S64'' as_s64 D_Int64)
     else if disc = ''uint64'' then Some (prim_arm fm disc payload ''U64'' as_u64 D_Uint64)
     else if disc = ''float64'' then Some (prim_arm fm disc payload ''F64'' as_f64 D_Float64)
     else if disc = ''text'' then Some (prim_arm fm disc payload ''String'' as_string D_Text)
     else if disc = ''blob'' then Some (rbind (need disc payload ''Bytes'') (\<lambda>v.
       rbind (lift_byte_list (shape_err fm disc ''U8 in blob list'')
                (shape_err fm disc ''Bytes or List<U8>'') v) (\<lambda>b. Inr (D_Blob b))))
     else if disc = ''int32'' then Some (prim_arm fm disc payload ''S32'' as_s32 D_Int32)
     else if disc = ''timestamp'' then Some (prim_arm fm disc payload ''S64'' as_s64 D_Timestamp)
     else if disc = ''int8'' then Some (prim_arm fm disc payload ''S8'' as_s8 D_Int8)
     else if disc = ''int16'' then Some (prim_arm fm disc payload ''S16'' as_s16 D_Int16)
     else if disc = ''uint8'' then Some (prim_arm fm disc payload ''U8'' as_u8 D_Uint8)
     else if disc = ''uint16'' then Some (prim_arm fm disc payload ''U16'' as_u16 D_Uint16)
     else if disc = ''uint32'' then Some (prim_arm fm disc payload ''U32'' as_u32 D_Uint32)
     else if disc = ''float32'' then Some (prim_arm fm disc payload ''F32'' as_f32 D_Float32)
     else if disc = ''date'' then Some (prim_arm fm disc payload ''S32'' as_s32 D_Date)
     else if disc = ''time'' then Some (prim_arm fm disc payload ''S64'' as_s64 D_Time)
     else if disc = ''timestamptz'' then Some (prim_arm fm disc payload ''S64'' as_s64 D_Timestamptz)
     else None)"

definition value_to_duckvalue :: "fmt \<Rightarrow> wvalue \<Rightarrow> duckerror + duckvalue" where
  "value_to_duckvalue fm v =
     (case v of
        V_Variant disc payload \<Rightarrow>
          (case value_to_prim fm disc payload of
             Some r \<Rightarrow> r
           | None \<Rightarrow>
               if disc = ''decimal'' then rbind (need disc payload ''Record'') (\<lambda>rec.
                 rbind (decimal_from fm rec) (\<lambda>d. Inr (D_Decimal d)))
               else if disc = ''interval'' then rbind (need disc payload ''Record'') (\<lambda>rec.
                 rbind (interval_from fm rec) (\<lambda>d. Inr (D_Interval d)))
               else if disc = ''uuid'' then rbind (need disc payload ''Record'') (\<lambda>rec.
                 rbind (uuid_from fm rec) (\<lambda>d. Inr (D_Uuid d)))
               else if disc = ''hugeint'' then rbind (need disc payload ''Record'')
                 (int128_from fm (\<lambda>lo up. D_Hugeint \<lparr>huge_lower = lo, huge_upper = up\<rparr>))
               else if disc = ''uhugeint'' then rbind (need disc payload ''Record'')
                 (uint128_from fm (\<lambda>lo up. D_Uhugeint \<lparr>uhuge_lower = lo, uhuge_upper = up\<rparr>))
               else if disc = ''complex'' then rbind (need disc payload ''Record'') (\<lambda>rec.
                 rbind (complex_from fm rec) (\<lambda>c. Inr (D_Complex c)))
               else Inl (Internal (''value_to_duckvalue: unknown discriminant '' @ dbg_str fm disc)))
      | other \<Rightarrow> Inl (Internal (''value_to_duckvalue: expected Variant, got '' @ dbg fm other)))"

definition duckvalue_list_to_value :: "duckvalue list \<Rightarrow> wvalue" where
  "duckvalue_list_to_value xs = V_List (map duckvalue_to_value xs)"

definition value_to_duckvalue_list :: "fmt \<Rightarrow> wvalue \<Rightarrow> duckerror + duckvalue list" where
  "value_to_duckvalue_list fm v =
     (case v of
        V_List items \<Rightarrow> rmap (value_to_duckvalue fm) items
      | other \<Rightarrow> Inl (Internal (''expected list<duckvalue>, got '' @ dbg fm other)))"

definition value_to_resultset :: "fmt \<Rightarrow> wvalue \<Rightarrow> duckerror + duckvalue list list" where
  "value_to_resultset fm v =
     (case v of
        V_List rows \<Rightarrow> rmap (value_to_duckvalue_list fm) rows
      | other \<Rightarrow> Inl (Internal (''expected resultset (list<list<duckvalue>>), got '' @ dbg fm other)))"

definition value_to_optional_duckvalue :: "fmt \<Rightarrow> wvalue \<Rightarrow> duckerror + duckvalue option" where
  "value_to_optional_duckvalue fm v =
     (case v of
        V_Option None \<Rightarrow> Inr None
      | V_Option (Some x) \<Rightarrow> rbind (value_to_duckvalue fm x) (\<lambda>d. Inr (Some d))
      | other \<Rightarrow> Inl (Internal (''expected option<duckvalue>, got '' @ dbg fm other)))"

section \<open>Types and column definitions\<close>

definition logicaltype_to_value :: "logicaltype \<Rightarrow> wvalue" where
  "logicaltype_to_value v =
     (let (disc, payload) = (case v of
        L_Boolean \<Rightarrow> (''boolean'', None)
      | L_Int64 \<Rightarrow> (''int64'', None)
      | L_Uint64 \<Rightarrow> (''uint64'', None)
      | L_Float64 \<Rightarrow> (''float64'', None)
      | L_Text \<Rightarrow> (''text'', None)
      | L_Blob \<Rightarrow> (''blob'', None)
      | L_Int32 \<Rightarrow> (''int32'', None)
      | L_Timestamp \<Rightarrow> (''timestamp'', None)
      | L_Int8 \<Rightarrow> (''int8'', None)
      | L_Int16 \<Rightarrow> (''int16'', None)
      | L_Uint8 \<Rightarrow> (''uint8'', None)
      | L_Uint16 \<Rightarrow> (''uint16'', None)
      | L_Uint32 \<Rightarrow> (''uint32'', None)
      | L_Float32 \<Rightarrow> (''float32'', None)
      | L_Date \<Rightarrow> (''date'', None)
      | L_Time \<Rightarrow> (''time'', None)
      | L_Timestamptz \<Rightarrow> (''timestamptz'', None)
      | L_Interval \<Rightarrow> (''interval'', None)
      | L_Uuid \<Rightarrow> (''uuid'', None)
      | L_Hugeint \<Rightarrow> (''hugeint'', None)
      | L_Uhugeint \<Rightarrow> (''uhugeint'', None)
      | L_Decimal d \<Rightarrow> (''decimal'', Some (V_Record [(''width'', V_U8 (shape_width d)),
                          (''scale'', V_U8 (shape_scale d))]))
      | L_Complex s \<Rightarrow> (''complex'', Some (V_String s)))
      in V_Variant disc payload)"

definition value_to_logicaltype :: "fmt \<Rightarrow> wvalue \<Rightarrow> duckerror + logicaltype" where
  "value_to_logicaltype fm v =
     (case v of
        V_Variant disc payload \<Rightarrow>
          (if disc = ''boolean'' then Inr L_Boolean
           else if disc = ''int64'' then Inr L_Int64
           else if disc = ''uint64'' then Inr L_Uint64
           else if disc = ''float64'' then Inr L_Float64
           else if disc = ''text'' then Inr L_Text
           else if disc = ''blob'' then Inr L_Blob
           else if disc = ''int32'' then Inr L_Int32
           else if disc = ''timestamp'' then Inr L_Timestamp
           else if disc = ''int8'' then Inr L_Int8
           else if disc = ''int16'' then Inr L_Int16
           else if disc = ''uint8'' then Inr L_Uint8
           else if disc = ''uint16'' then Inr L_Uint16
           else if disc = ''uint32'' then Inr L_Uint32
           else if disc = ''float32'' then Inr L_Float32
           else if disc = ''date'' then Inr L_Date
           else if disc = ''time'' then Inr L_Time
           else if disc = ''timestamptz'' then Inr L_Timestamptz
           else if disc = ''interval'' then Inr L_Interval
           else if disc = ''uuid'' then Inr L_Uuid
           else if disc = ''hugeint'' then Inr L_Hugeint
           else if disc = ''uhugeint'' then Inr L_Uhugeint
           else if disc = ''decimal'' then
             (case payload of
                None \<Rightarrow> Inl (Internal ''logicaltype.decimal: missing payload'')
              | Some rec \<Rightarrow>
                  rbind (u8_field fm rec ''width'') (\<lambda>wd. rbind (u8_field fm rec ''scale'') (\<lambda>sc.
                    Inr (L_Decimal \<lparr>shape_width = wd, shape_scale = sc\<rparr>))))
           else if disc = ''complex'' then
             (case payload of
                Some (V_String s) \<Rightarrow> Inr (L_Complex s)
              | other \<Rightarrow> Inl (Internal (''logicaltype.complex: expected String, got ''
                           @ dbg_opt fm other)))
           else Inl (Internal (''value_to_logicaltype: unknown discriminant '' @ dbg_str fm disc)))
      | other \<Rightarrow> Inl (Internal (''value_to_logicaltype: expected Variant, got '' @ dbg fm other)))"

definition columndef_to_value :: "columndef \<Rightarrow> wvalue" where
  "columndef_to_value c =
     V_Record [(''name'', V_String (cd_name c)), (''logical'', logicaltype_to_value (cd_logical c))]"

definition value_to_columndef :: "fmt \<Rightarrow> wvalue \<Rightarrow> duckerror + columndef" where
  "value_to_columndef fm v =
     rbind (string_field fm v ''name'') (\<lambda>name.
     rbind (rbind (record_field fm v ''logical'') (value_to_logicaltype fm)) (\<lambda>logical.
       Inr \<lparr>cd_name = name, cd_logical = logical\<rparr>))"

definition columndef_list_to_value :: "columndef list \<Rightarrow> wvalue" where
  "columndef_list_to_value cs = V_List (map columndef_to_value cs)"

definition value_to_columndef_list :: "fmt \<Rightarrow> wvalue \<Rightarrow> duckerror + columndef list" where
  "value_to_columndef_list fm v =
     (case v of
        V_List items \<Rightarrow> rmap (value_to_columndef fm) items
      | other \<Rightarrow> Inl (Internal (''expected list<columndef>, got '' @ dbg fm other)))"

section \<open>Columns\<close>

definition column_to_value :: "column \<Rightarrow> wvalue" where
  "column_to_value c =
     (let (disc, payload) = (case c of
        C_Boolean xs \<Rightarrow> (''boolean'', V_List (map V_Bool xs))
      | C_Int64 xs \<Rightarrow> (''int64'', V_List (map V_S64 xs))
      | C_Uint64 xs \<Rightarrow> (''uint64'', V_List (map V_U64 xs))
      | C_Float64 xs \<Rightarrow> (''float64'', V_List (map V_F64 xs))
      | C_Int32 xs \<Rightarrow> (''int32'', V_List (map V_S32 xs))
      | C_Timestamp xs \<Rightarrow> (''timestamp'', V_List (map V_S64 xs))
      | C_Int8 xs \<Rightarrow> (''int8'', V_List (map V_S8 xs))
      | C_Int16 xs \<Rightarrow> (''int16'', V_List (map V_S16 xs))
      | C_Uint8 xs \<Rightarrow> (''uint8'', V_List (map V_U8 xs))
      | C_Uint16 xs \<Rightarrow> (''uint16'', V_List (map V_U16 xs))
      | C_Uint32 xs \<Rightarrow> (''uint32'', V_List (map V_U32 xs))
      | C_Float32 xs \<Rightarrow> (''float32'', V_List (map V_F32 xs))
      | C_Date xs \<Rightarrow> (''date'', V_List (map V_S32 xs))
      | C_Time xs \<Rightarrow> (''time'', V_List (map V_S64 xs))
      | C_Timestamptz xs \<Rightarrow> (''timestamptz'', V_List (map V_S64 xs))
      | C_Decimal xs \<Rightarrow> (''decimal'', V_List (map decimal_record xs))
      | C_Interval xs \<Rightarrow> (''interval'', V_List (map interval_record xs))
      | C_Uuid xs \<Rightarrow> (''uuid'', V_List (map uuid_record xs))
      | C_Text xs \<Rightarrow> (''text'', V_List (map V_String xs))
      | C_Blob xs \<Rightarrow> (''blob'', V_List (map bytes_to_value xs))
      | C_Hugeint xs \<Rightarrow>
          (''hugeint'', V_List (map (\<lambda>h. int128_record (i128_lower h) (i128_upper h)) xs))
      | C_Uhugeint xs \<Rightarrow>
          (''uhugeint'', V_List (map (\<lambda>h. uint128_record (u128_lower h) (u128_upper h)) xs))
      | C_ListCol n \<Rightarrow> (''list-col'', V_Record [(''encoded'', bytes_to_value (nc_encoded n))])
      | C_StructCol n \<Rightarrow> (''struct-col'', V_Record [(''encoded'', bytes_to_value (nc_encoded n))])
      | C_MapCol m \<Rightarrow> (''map-col'', V_Record [(''keys-encoded'', bytes_to_value (mc_keys_encoded m)),
                          (''vals-encoded'', bytes_to_value (mc_vals_encoded m))])
      | C_ArrayCol a \<Rightarrow> (''array-col'', V_Record [(''size'', V_U32 (ac_size a)),
                          (''encoded'', bytes_to_value (ac_encoded a))])
      | C_Complex xs \<Rightarrow> (''complex'', V_List (map complex_record xs)))
      in V_Variant disc (Some payload))"

definition lift_prim_list ::
  "fmt \<Rightarrow> wvalue \<Rightarrow> string \<Rightarrow> (wvalue \<Rightarrow> 'a option) \<Rightarrow> duckerror + 'a list" where
  "lift_prim_list fm v name extract =
     (case v of
        V_List items \<Rightarrow>
          lift_items (\<lambda>i x. Internal (''column.'' @ name @ ''['' @ show_nat i
            @ '']: shape mismatch, got '' @ dbg fm x)) extract 0 items
      | other \<Rightarrow> Inl (Internal (''expected List for column.'' @ name @ '', got '' @ dbg fm other)))"

definition prim_column ::
  "fmt \<Rightarrow> wvalue \<Rightarrow> string \<Rightarrow> (wvalue \<Rightarrow> 'a option) \<Rightarrow> ('a list \<Rightarrow> column) \<Rightarrow> duckerror + column" where
  "prim_column fm p name extract ctor =
     rbind (lift_prim_list fm p name extract) (\<lambda>xs. Inr (ctor xs))"

definition record_column ::
  "fmt \<Rightarrow> wvalue \<Rightarrow> string \<Rightarrow> (wvalue \<Rightarrow> duckerror + 'a) \<Rightarrow> ('a list \<Rightarrow> column) \<Rightarrow> duckerror + column" where
  "record_column fm p name lift ctor =
     (case p of
        V_List items \<Rightarrow> rbind (rmap lift items) (\<lambda>xs. Inr (ctor xs))
      | other \<Rightarrow> Inl (Internal (''column.'' @ name @ '': expected List, got '' @ dbg fm other)))"

definition value_to_prim_column :: "fmt \<Rightarrow> string \<Rightarrow> wvalue \<Rightarrow> (duckerror + column) option" where
  "value_to_prim_column fm disc p =
    (if disc = ''boolean'' then Some (prim_column fm p ''boolean'' as_bool C_Boolean)
     else if disc = ''int64'' then Some (prim_column fm p ''int64'' as_s64 C_Int64)
     else if disc = ''uint64'' then Some (prim_column fm p ''uint64'' as_u64 C_Uint64)
     else if disc = ''float64'' then Some (prim_column fm p ''float64'' as_f64 C_Float64)
     else if disc = ''int32'' then Some (prim_column fm p ''int32'' as_s32 C_Int32)
     else if disc = ''timestamp'' then Some (prim_column fm p ''timestamp'' as_s64 C_Timestamp)
     else if disc = ''int8'' then Some (prim_column fm p ''int8'' as_s8 C_Int8)
     else if disc = ''int16'' then Some (prim_column fm p ''int16'' as_s16 C_Int16)
     else if disc = ''uint8'' then Some (prim_column fm p ''uint8'' as_u8 C_Uint8)
     else if disc = ''uint16'' then Some (prim_column fm p ''uint16'' as_u16 C_Uint16)
     else if disc = ''uint32'' then Some (prim_column fm p ''uint32'' as_u32 C_Uint32)
     else if disc = ''float32'' then Some (prim_column fm p ''float32'' as_f32 C_Float32)
     else if disc = ''date'' then Some (prim_column fm p ''date'' as_s32 C_Date)
     else if disc = ''time'' then Some (prim_column fm p ''time'' as_s64 C_Time)
     else if disc = ''timestamptz'' then Some (prim_column fm p ''timestamptz'' as_s64 C_Timestamptz)
     else if disc = ''text'' then Some (prim_column fm p ''text'' as_string C_Text)
     else None)"

definition blob_element :: "fmt \<Rightarrow> wvalue \<Rightarrow> duckerror + u8 list" where
  "blob_element fm =
     lift_byte_list (\<lambda>x. Internal (''column.blob element: expected U8, got '' @ dbg fm x))
       (\<lambda>x. Internal (''column.blob element: expected Bytes/List, got '' @ dbg fm x))"

definition value_to_record_column :: "fmt \<Rightarrow> string \<Rightarrow> wvalue \<Rightarrow> (duckerror + column) option" where
  "value_to_record_column fm disc p =
    (if disc = ''decimal'' then Some (record_column fm p ''decimal'' (decimal_from fm) C_Decimal)
     else if disc = ''interval'' then Some (record_column fm p ''interval'' (interval_from fm) C_Interval)
     else if disc = ''uuid'' then Some (record_column fm p ''uuid'' (uuid_from fm) C_Uuid)
     else if disc = ''blob'' then Some (record_column fm p ''blob'' (blob_element fm) C_Blob)
     else if disc = ''hugeint'' then Some (record_column fm p ''hugeint''
       (int128_from fm (\<lambda>lo up. \<lparr>i128_lower = lo, i128_upper = up\<rparr>)) C_Hugeint)
     else if disc = ''uhugeint'' then Some (record_column fm p ''uhugeint''
       (uint128_from fm (\<lambda>lo up. \<lparr>u128_lower = lo, u128_upper = up\<rparr>)) C_Uhugeint)
     else None)"

definition value_to_nested_column :: "fmt \<Rightarrow> string \<Rightarrow> wvalue \<Rightarrow> duckerror + column" where
  "value_to_nested_column fm disc p =
    (if disc = ''list-col'' then rbind (bytes_field fm p ''encoded'') (\<lambda>b.
       Inr (C_ListCol \<lparr>nc_encoded = b\<rparr>))
     else if disc = ''struct-col'' then rbind (bytes_field fm p ''encoded'') (\<lambda>b.
       Inr (C_StructCol \<lparr>nc_encoded = b\<rparr>))
     else if disc = ''map-col'' then rbind (bytes_field fm p ''keys-encoded'') (\<lambda>k.
       rbind (bytes_field fm p ''vals-encoded'') (\<lambda>v.
       Inr (C_MapCol \<lparr>mc_keys_encoded = k, mc_vals_encoded = v\<rparr>)))
     else if disc = ''array-col'' then rbind (u32_field fm p ''size'') (\<lambda>n.
       rbind (bytes_field fm p ''encoded'') (\<lambda>b.
       Inr (C_ArrayCol \<lparr>ac_size = n, ac_encoded = b\<rparr>)))
     else if disc = ''complex'' then record_column fm p ''complex'' (complex_from fm) C_Complex
     else Inl (Internal (''value_to_column: unknown discriminant '' @ dbg_str fm disc)))"

definition value_to_column :: "fmt \<Rightarrow> wvalue \<Rightarrow> duckerror + column" where
  "value_to_column fm v =
     (case v of
        V_Variant disc payload \<Rightarrow>
          (case payload of
             None \<Rightarrow> Inl (Internal (''column.'' @ disc @ '': missing payload''))
           | Some p \<Rightarrow>
               (case value_to_prim_column fm disc p of
                  Some r \<Rightarrow> r
                | None \<Rightarrow> (case value_to_record_column fm disc p of
                             Some r \<Rightarrow> r
                           | None \<Rightarrow> value_to_nested_column fm disc p)))
      | other \<Rightarrow> Inl (Internal (''value_to_column: expected Variant, got '' @ dbg fm other)))"

definition colvec_to_value :: "colvec \<Rightarrow> wvalue" where
  "colvec_to_value cv =
     V_Record [(''data'', column_to_value (cv_data cv)),
       (''validity'', bytes_to_value (cv_validity cv)), (''rows'', V_U32 (cv_rows cv))]"

definition value_to_colvec :: "fmt \<Rightarrow> wvalue \<Rightarrow> duckerror + colvec" where
  "value_to_colvec fm v =
     rbind (rbind (record_field fm v ''data'') (value_to_column fm)) (\<lambda>data.
     rbind (rbind (record_field fm v ''validity'')
       (lift_byte_list (\<lambda>x. Internal (''colvec.validity: expected U8, got '' @ dbg fm x))
         (\<lambda>x. Internal (''colvec.validity: expected Bytes or List<U8>, got '' @ dbg fm x)))) (\<lambda>validity.
     rbind (u32_field fm v ''rows'') (\<lambda>rows.
       Inr \<lparr>cv_data = data, cv_validity = validity, cv_rows = rows\<rparr>)))"

definition colvec_list_to_value :: "colvec list \<Rightarrow> wvalue" where
  "colvec_list_to_value cvs = V_List (map colvec_to_value cvs)"

section \<open>Round trips\<close>

lemmas as_defs = as_bool_def as_s8_def as_s16_def as_s32_def as_s64_def as_u8_def as_u16_def
  as_u32_def as_u64_def as_f32_def as_f64_def as_string_def

lemmas field_defs = u32_field_def u64_field_def s32_field_def s64_field_def u8_field_def
  bool_field_def string_field_def typed_field_def record_field_def

lemmas record_defs = decimal_record_def interval_record_def uuid_record_def int128_record_def
  uint128_record_def complex_record_def

lemmas from_defs = decimal_from_def interval_from_def uuid_from_def int128_from_def
  uint128_from_def complex_from_def

lemma lift_items_map:
  "(\<And>x. x \<in> set xs \<Longrightarrow> extract (g x) = Some x) \<Longrightarrow> lift_items err extract i (map g xs) = Inr xs"
  by (induction xs arbitrary: i) auto

lemma lift_byte_list_bytes [simp]: "lift_byte_list e1 e2 (bytes_to_value b) = Inr b"
  by (simp add: lift_byte_list_def bytes_to_value_def lift_items_map as_u8_def)

lemma rmap_map_id: "(\<And>x. x \<in> set xs \<Longrightarrow> f (g x) = Inr x) \<Longrightarrow> rmap f (map g xs) = Inr xs"
  using rmap_map_Inr [of xs f g "\<lambda>x. x"] by simp

lemma record_payloads [simp]:
  "decimal_from fm (decimal_record d) = Inr d"
  "interval_from fm (interval_record i) = Inr i"
  "uuid_from fm (uuid_record u) = Inr u"
  "int128_from fm mk (int128_record lo hi) = Inr (mk lo hi)"
  "uint128_from fm mk2 (uint128_record lo hi') = Inr (mk2 lo hi')"
  "complex_from fm (complex_record c) = Inr c"
  by (simp_all add: record_defs from_defs field_defs as_defs)

lemma duckvalue_value: "value_to_duckvalue fm (duckvalue_to_value v) = Inr v"
  by (cases v)
    (simp_all add: duckvalue_to_value_def value_to_duckvalue_def value_to_prim_def prim_arm_def
      need_def as_defs)

lemma duckvalue_list_value: "value_to_duckvalue_list fm (duckvalue_list_to_value vs) = Inr vs"
  by (simp add: value_to_duckvalue_list_def duckvalue_list_to_value_def rmap_map_id duckvalue_value)

text \<open>
  Values survive the crossing into a component and back: every result set of rows of
  values, of any type and with NULLs, is decoded from its encoding as the same rows, and so is
  an optional value.
\<close>

theorem resultset_roundtrip:
  "value_to_resultset fm (V_List (map duckvalue_list_to_value rows)) = Inr rows
   \<and> value_to_optional_duckvalue fm (V_Option (map_option duckvalue_to_value ov)) = Inr ov"
  by (cases ov)
    (simp_all add: value_to_resultset_def value_to_optional_duckvalue_def rmap_map_id
      duckvalue_list_value duckvalue_value)

lemma logicaltype_value: "value_to_logicaltype fm (logicaltype_to_value t) = Inr t"
  by (cases t)
    (simp_all add: logicaltype_to_value_def value_to_logicaltype_def field_defs as_defs)

lemma columndef_value: "value_to_columndef fm (columndef_to_value c) = Inr c"
  by (simp add: value_to_columndef_def columndef_to_value_def field_defs as_defs logicaltype_value)

text \<open>
  A table schema survives the crossing: the column definitions encoded for a component
  decode to the same names and logical types, in order, decimal shapes and type expressions
  included.
\<close>

theorem columndefs_roundtrip:
  "value_to_columndef_list fm (columndef_list_to_value cs) = Inr cs"
  by (simp add: value_to_columndef_list_def columndef_list_to_value_def rmap_map_id columndef_value)

lemma bytes_field_head:
  "bytes_field fm (V_Record ((k, bytes_to_value b) # fs)) k = Inr b"
  by (simp add: bytes_field_def record_field_def)

lemma bytes_field_skip:
  "k \<noteq> k' \<Longrightarrow> bytes_field fm (V_Record ((k', v) # fs)) k = bytes_field fm (V_Record fs) k"
  by (simp add: bytes_field_def record_field_def)

lemma prim_column_map:
  "(\<And>x. extract (g x) = Some x) \<Longrightarrow> prim_column fm (V_List (map g xs)) name extract ctor = Inr (ctor xs)"
  by (simp add: prim_column_def lift_prim_list_def lift_items_map)

lemma record_column_map:
  "(\<And>x. lift (g x) = Inr x) \<Longrightarrow> record_column fm (V_List (map g xs)) name lift ctor = Inr (ctor xs)"
  by (simp add: record_column_def rmap_map_id)

lemma column_value: "value_to_column fm (column_to_value c) = Inr c"
  by (cases c)
    (simp_all add: column_to_value_def value_to_column_def value_to_prim_column_def
      value_to_record_column_def value_to_nested_column_def prim_column_map record_column_map
      bytes_field_head bytes_field_skip blob_element_def as_defs u32_field_def typed_field_def
      record_field_def)

text \<open>
  C6. A column vector survives the crossing bit for bit: data of any of the 27 arms, the
  validity bitmap and the row count decode from the encoding to what was encoded.
\<close>

theorem colvec_roundtrip:
  "value_to_colvec fm (colvec_to_value cv) = Inr cv"
  by (simp add: value_to_colvec_def colvec_to_value_def record_field_def column_value
      u32_field_def typed_field_def as_defs)

section \<open>Malformed results\<close>

lemma lift_items_ok:
  "lift_items err extract i xs = Inr ys \<longleftrightarrow> map extract xs = map Some ys"
  by (induction xs arbitrary: i ys)
    (auto simp: rbind_Inr_iff Cons_eq_map_conv split: option.splits)

lemma lift_items_bad:
  "k < length xs \<Longrightarrow> extract (xs ! k) = None \<Longrightarrow> (\<forall>j < k. extract (xs ! j) \<noteq> None) \<Longrightarrow>
     lift_items err extract i xs = Inl (err (i + k) (xs ! k))"
proof (induction xs arbitrary: i k)
  case (Cons x xs)
  show ?case
  proof (cases k)
    case (Suc k')
    from Cons.prems(3) Suc have "extract x \<noteq> None" "\<forall>j < k'. extract (xs ! j) \<noteq> None"
      by force+
    with Cons.IH [of k' "i + 1"] Cons.prems Suc show ?thesis by (auto split: option.splits)
  qed (use Cons.prems in simp)
qed simp

text \<open>
  A primitive column is decoded all or nothing: it succeeds exactly when every element
  has the declared primitive type, and then element by element; otherwise the error names the
  first offending index and prints the offending value.
\<close>

theorem prim_list_all_or_first_error:
  "(lift_prim_list fm (V_List xs) name ext = Inr ys \<longleftrightarrow> map ext xs = map Some ys)
   \<and> (k < length xs \<and> ext (xs ! k) = None \<and> (\<forall>j < k. ext (xs ! j) \<noteq> None) \<longrightarrow>
        lift_prim_list fm (V_List xs) name ext =
          Inl (Internal (''column.'' @ name @ ''['' @ show_nat k @ '']: shape mismatch, got ''
            @ dbg fm (xs ! k))))"
  using lift_items_bad [of k xs ext _ 0] lift_items_ok [of _ ext 0 xs ys]
  by (simp add: lift_prim_list_def)

definition plain_fmt :: fmt where
  "plain_fmt = \<lparr>dbg = (\<lambda>_. ''?''), dbg_str = (\<lambda>s. s)\<rparr>"

theorem prim_list_all_or_first_error_witness:
  "lift_prim_list plain_fmt (V_List [V_S64 1, V_Bool True]) ''int64'' as_s64
     = Inl (Internal (''column.int64['' @ show_nat 1 @ '']: shape mismatch, got ?''))"
  using prim_list_all_or_first_error [of plain_fmt "[V_S64 1, V_Bool True]" "''int64''" as_s64 _ 1]
  by (simp add: as_defs plain_fmt_def)

definition duckerror_to_value :: "duckerror \<Rightarrow> wvalue" where
  "duckerror_to_value e = (case e of
      Invalidargument m \<Rightarrow> V_Variant ''invalidargument'' (Some (V_String m))
    | Unsupported m \<Rightarrow> V_Variant ''unsupported'' (Some (V_String m))
    | Invalidstate m \<Rightarrow> V_Variant ''invalidstate'' (Some (V_String m))
    | Io m \<Rightarrow> V_Variant ''io'' (Some (V_String m))
    | Internal m \<Rightarrow> V_Variant ''internal'' (Some (V_String m)))"

text \<open>
  C7. An export that fails is always reported as an error and never taken for a value: unless
  the export returned exactly one value, an \<open>Ok\<close> whose payload lifts, the caller gets an
  error; an \<open>Err\<close> carrying one of the five declared cases reaches the caller as exactly that
  error with its message.
\<close>

theorem export_result_exact:
  "(export_result_to_duckerror fm out method lift_ok = Inr r
      \<longleftrightarrow> (\<exists>p. out = [V_Result (Inr p)] \<and> lift_ok p = Inr r))
   \<and> export_result_to_duckerror fm [V_Result (Inl (Some (duckerror_to_value e)))] method lift_ok
       = Inl e"
proof (rule conjI)
  show "export_result_to_duckerror fm out method lift_ok = Inr r
      \<longleftrightarrow> (\<exists>p. out = [V_Result (Inr p)] \<and> lift_ok p = Inr r)"
    by (cases out)
      (auto simp: export_result_to_duckerror_def split: wvalue.splits sum.splits option.splits)
  show "export_result_to_duckerror fm [V_Result (Inl (Some (duckerror_to_value e)))] method lift_ok
       = Inl e"
    by (cases e)
      (simp_all add: export_result_to_duckerror_def duckerror_to_value_def duckerror_from_value_def)
qed

end
