(* ===== verification/Dispatch.thy ===== *)
theory Dispatch
  imports Marshal
begin

text \<open>
  Calls into a loaded component (\<open>crates/ducklink-runtime/src/extension.rs\<close>, \<open>ExtensionInstance\<close>):
  the funnel \<open>call_bridge_export\<close>, the callback dispatchers, \<open>shutdown\<close> and \<open>reconfigure\<close>, and the
  teardown on drop. The component is third-party code behind the component runtime: it is the
  parameter \<open>call\<close>, a function from the state of the instance, the qualified export name and the
  arguments to the returned values, or the text of the runtime's error, and the new state. A
  batch with a short row panics in the pivot; that is \<^const>\<open>None\<close>.
\<close>

type_synonym 'g guest = "'g \<Rightarrow> string \<Rightarrow> wvalue list \<Rightarrow> (string + wvalue list) \<times> 'g"

record invokeinfo =
  rowindex :: "u64 option"
  iswindow :: bool

section \<open>The funnel\<close>

definition call_bridge_export ::
  "'g guest \<Rightarrow> string option \<Rightarrow> string \<Rightarrow> wvalue list \<Rightarrow> 'g \<Rightarrow> (string + wvalue list) \<times> 'g" where
  "call_bridge_export call iface meth args g =
     call g (case iface of Some i \<Rightarrow> i @ ''#'' @ meth | None \<Rightarrow> meth) args"

text \<open>
  What every dispatcher does: call the export, turn a failure of the runtime into an internal
  error under the dispatcher's label, and decode the result.
\<close>

definition dispatch ::
  "fmt \<Rightarrow> 'g guest \<Rightarrow> string \<Rightarrow> string \<Rightarrow> string \<Rightarrow> wvalue list \<Rightarrow> (wvalue option \<Rightarrow> duckerror + 'a) \<Rightarrow>
     'g \<Rightarrow> (duckerror + 'a) \<times> 'g" where
  "dispatch fm call iface meth label args lift g =
     (case call_bridge_export call (Some iface) meth args g of
        (Inl e, g') \<Rightarrow> (Inl (Internal (label @ '' dispatch failed: '' @ e)), g')
      | (Inr out, g') \<Rightarrow> (export_result_to_duckerror fm out label lift, g'))"

definition callback_iface :: string where
  "callback_iface = ''duckdb:extension/callback-dispatch@5.0.0''"

definition guest_iface :: string where
  "guest_iface = ''duckdb:extension/guest@5.0.0''"

text \<open>The payload of an \<open>Ok\<close>, or an error that says what was expected.\<close>

definition need_payload :: "string \<Rightarrow> wvalue option \<Rightarrow> duckerror + wvalue" where
  "need_payload expected p = (case p of None \<Rightarrow> Inl (Internal expected) | Some v \<Rightarrow> Inr v)"

definition expect_bool :: "fmt \<Rightarrow> string \<Rightarrow> string \<Rightarrow> wvalue option \<Rightarrow> duckerror + bool" where
  "expect_bool fm label shape p =
     (case p of
        Some (V_Bool b) \<Rightarrow> Inr b
      | Some other \<Rightarrow> Inl (Internal (label @ '': expected Ok('' @ shape @ ''), got '' @ dbg fm other))
      | None \<Rightarrow> Inl (Internal (label @ '': expected Ok('' @ shape @ ''), got Ok(None)'')))"

definition invokeinfo_to_value :: "invokeinfo \<Rightarrow> wvalue" where
  "invokeinfo_to_value ctx =
     V_Record [(''rowindex'', V_Option (map_option V_U64 (rowindex ctx))),
               (''iswindow'', V_Bool (iswindow ctx))]"

section \<open>Callbacks\<close>

definition dispatch_scalar ::
  "fmt \<Rightarrow> 'g guest \<Rightarrow> u32 \<Rightarrow> duckvalue list \<Rightarrow> invokeinfo \<Rightarrow> 'g \<Rightarrow> (duckerror + duckvalue) \<times> 'g" where
  "dispatch_scalar fm call handle args ctx =
     dispatch fm call callback_iface ''call-scalar'' ''call-scalar''
       [V_U32 handle, duckvalue_list_to_value args, invokeinfo_to_value ctx]
       (\<lambda>p. rbind (need_payload ''call-scalar: expected Ok(duckvalue), got None'' p)
              (value_to_duckvalue fm))"

definition dispatch_scalar_batch_col ::
  "fmt \<Rightarrow> 'g guest \<Rightarrow> u32 \<Rightarrow> colvec list \<Rightarrow> invokeinfo \<Rightarrow> 'g \<Rightarrow> (duckerror + colvec) \<times> 'g" where
  "dispatch_scalar_batch_col fm call handle args ctx =
     dispatch fm call callback_iface ''call-scalar-batch-col'' ''call-scalar-batch-col''
       [V_U32 handle, colvec_list_to_value args, invokeinfo_to_value ctx]
       (\<lambda>p. rbind (need_payload ''call-scalar-batch-col: expected Ok(colvec), got None'' p)
              (value_to_colvec fm))"

definition dispatch_scalar_batch ::
  "fmt \<Rightarrow> 'g guest \<Rightarrow> u32 \<Rightarrow> duckvalue list list \<Rightarrow> invokeinfo \<Rightarrow> 'g \<Rightarrow>
     ((duckerror + duckvalue list) \<times> 'g) option" where
  "dispatch_scalar_batch fm call handle rows ctx g =
     (case rows_to_colvecs rows of
        None \<Rightarrow> None
      | Some args \<Rightarrow>
          Some (apfst (map_sum (\<lambda>e. e) colvec_to_values)
            (dispatch_scalar_batch_col fm call handle args ctx g)))"

definition dispatch_table ::
  "fmt \<Rightarrow> 'g guest \<Rightarrow> u32 \<Rightarrow> duckvalue list \<Rightarrow> 'g \<Rightarrow> (duckerror + duckvalue list list) \<times> 'g" where
  "dispatch_table fm call handle args =
     dispatch fm call callback_iface ''call-table'' ''call-table''
       [V_U32 handle, duckvalue_list_to_value args]
       (\<lambda>p. rbind (need_payload ''call-table: expected Ok(resultset), got None'' p)
              (value_to_resultset fm))"

definition dispatch_aggregate_col ::
  "fmt \<Rightarrow> 'g guest \<Rightarrow> u32 \<Rightarrow> colvec list \<Rightarrow> 'g \<Rightarrow> (duckerror + duckvalue) \<times> 'g" where
  "dispatch_aggregate_col fm call handle args =
     dispatch fm call callback_iface ''call-aggregate-col'' ''call-aggregate-col''
       [V_U32 handle, colvec_list_to_value args]
       (\<lambda>p. rbind (need_payload ''call-aggregate-col: expected Ok(duckvalue), got None'' p)
              (value_to_duckvalue fm))"

definition dispatch_aggregate ::
  "fmt \<Rightarrow> 'g guest \<Rightarrow> u32 \<Rightarrow> duckvalue list list \<Rightarrow> 'g \<Rightarrow> ((duckerror + duckvalue) \<times> 'g) option" where
  "dispatch_aggregate fm call handle rows g =
     (case rows_to_colvecs rows of
        None \<Rightarrow> None
      | Some args \<Rightarrow> Some (dispatch_aggregate_col fm call handle args g))"

definition dispatch_pragma ::
  "fmt \<Rightarrow> 'g guest \<Rightarrow> u32 \<Rightarrow> duckvalue list \<Rightarrow> 'g \<Rightarrow> (duckerror + duckvalue option) \<times> 'g" where
  "dispatch_pragma fm call handle args =
     dispatch fm call callback_iface ''call-pragma'' ''call-pragma''
       [V_U32 handle, duckvalue_list_to_value args]
       (\<lambda>p. rbind (need_payload ''call-pragma: expected Ok(option<duckvalue>), got None'' p)
              (value_to_optional_duckvalue fm))"

definition dispatch_cast ::
  "fmt \<Rightarrow> 'g guest \<Rightarrow> u32 \<Rightarrow> duckvalue \<Rightarrow> 'g \<Rightarrow> (duckerror + duckvalue) \<times> 'g" where
  "dispatch_cast fm call handle value =
     dispatch fm call callback_iface ''call-cast-col'' ''call-cast-col''
       [V_U32 handle, colvec_to_value (column_from_values [value])]
       (\<lambda>p. rbind (need_payload ''call-cast-col: expected Ok(colvec), got None'' p) (\<lambda>v.
            rbind (value_to_colvec fm v) (\<lambda>c.
              Inr (case colvec_to_values c of [] \<Rightarrow> D_Null | x # _ \<Rightarrow> x))))"

section \<open>Lifecycle\<close>

definition dispatch_shutdown :: "fmt \<Rightarrow> 'g guest \<Rightarrow> 'g \<Rightarrow> (duckerror + bool) \<times> 'g" where
  "dispatch_shutdown fm call =
     dispatch fm call guest_iface ''shutdown'' ''shutdown'' [] (expect_bool fm ''shutdown'' ''bool'')"

definition dispatch_reconfigure ::
  "fmt \<Rightarrow> 'g guest \<Rightarrow> string list \<Rightarrow> 'g \<Rightarrow> (duckerror + bool) \<times> 'g" where
  "dispatch_reconfigure fm call keys =
     dispatch fm call guest_iface ''reconfigure'' ''reconfigure'' [V_List (map V_String keys)]
       (expect_bool fm ''reconfigure'' ''bool'')"

text \<open>The \<open>Debug\<close> output of an error, and what dropping an instance prints, if anything.\<close>

definition debug_duckerror :: "fmt \<Rightarrow> duckerror \<Rightarrow> string" where
  "debug_duckerror fm e = (case e of
      Invalidargument m \<Rightarrow> ''Invalidargument('' @ dbg_str fm m @ '')''
    | Unsupported m \<Rightarrow> ''Unsupported('' @ dbg_str fm m @ '')''
    | Invalidstate m \<Rightarrow> ''Invalidstate('' @ dbg_str fm m @ '')''
    | Io m \<Rightarrow> ''Io('' @ dbg_str fm m @ '')''
    | Internal m \<Rightarrow> ''Internal('' @ dbg_str fm m @ '')'')"

definition drop_instance :: "fmt \<Rightarrow> 'g guest \<Rightarrow> 'g \<Rightarrow> string option \<times> 'g" where
  "drop_instance fm call g =
     (case dispatch_shutdown fm call g of
        (Inr _, g') \<Rightarrow> (None, g')
      | (Inl err, g') \<Rightarrow>
          (Some (''[ducklink] component shutdown failed: '' @ debug_duckerror fm err), g'))"

section \<open>Answers of a component\<close>

text \<open>The wire form of a \<open>result<T, duckerror>\<close>, given the wire form of \<open>T\<close>.\<close>

definition reply :: "('a \<Rightarrow> wvalue) \<Rightarrow> duckerror + 'a \<Rightarrow> wvalue list" where
  "reply enc res =
     [V_Result (case res of
        Inr a \<Rightarrow> Inr (Some (enc a)) | Inl e \<Rightarrow> Inl (Some (duckerror_to_value e)))]"

lemma duckerror_value [simp]: "duckerror_from_value fm (duckerror_to_value e) = e"
  by (cases e) (simp_all add: duckerror_to_value_def duckerror_from_value_def)

lemma export_reply:
  assumes "\<And>a. res = Inr a \<Longrightarrow> lift (Some (enc a)) = Inr (view a)"
  shows "export_result_to_duckerror fm (reply enc res) label lift = map_sum (\<lambda>e. e) view res"
  using assms by (cases res) (simp_all add: reply_def export_result_to_duckerror_def)

lemma dispatch_reply:
  assumes "call g (iface @ ''#'' @ meth) args = (Inr (reply enc res), g')"
    and "\<And>a. res = Inr a \<Longrightarrow> lift (Some (enc a)) = Inr (view a)"
  shows "dispatch fm call iface meth label args lift g = (map_sum (\<lambda>e. e) view res, g')"
  using assms(1) export_reply [of res lift enc view fm label] assms(2)
  by (simp add: dispatch_def call_bridge_export_def)

lemma dispatch_trap:
  assumes "call g (iface @ ''#'' @ meth) args = (Inl e, g')"
  shows "dispatch fm call iface meth label args lift g
    = (Inl (Internal (label @ '' dispatch failed: '' @ e)), g')"
  using assms by (simp add: dispatch_def call_bridge_export_def)

lemma map_sum_ident [simp]: "map_sum (\<lambda>e. e) (\<lambda>a. a) res = res"
  by (cases res) simp_all

lemma colvec_value [simp]: "value_to_colvec fm (colvec_to_value cv) = Inr cv"
  by (simp add: value_to_colvec_def colvec_to_value_def record_field_def column_value
      u32_field_def typed_field_def as_defs)

text \<open>What the caller gets for an answer, or for a failure of the runtime.\<close>

definition settled :: "string \<Rightarrow> string + (duckerror + 'a) \<Rightarrow> duckerror + 'a" where
  "settled label answer =
     (case answer of
        Inr res \<Rightarrow> res | Inl e \<Rightarrow> Inl (Internal (label @ '' dispatch failed: '' @ e)))"

lemma dispatch_settled:
  assumes "call g (iface @ ''#'' @ meth) args = (map_sum (\<lambda>e. e) (reply enc) answer, g')"
    and "\<And>a. lift (Some (enc a)) = Inr a"
  shows "dispatch fm call iface meth label args lift g = (settled label answer, g')"
proof (cases answer)
  case (Inl e)
  then show ?thesis using assms(1) by (simp add: dispatch_trap settled_def)
next
  case (Inr res)
  then have "dispatch fm call iface meth label args lift g = (map_sum (\<lambda>e. e) (\<lambda>a. a) res, g')"
    using assms by (intro dispatch_reply [where enc = enc]) simp_all
  then show ?thesis using Inr by (simp add: settled_def)
qed

lemma resultset_value:
  "value_to_resultset fm (V_List (map duckvalue_list_to_value rows)) = Inr rows"
  by (simp add: value_to_resultset_def rmap_map_id duckvalue_list_value)

lemma optional_value:
  "value_to_optional_duckvalue fm (V_Option (map_option duckvalue_to_value v)) = Inr v"
  by (cases v) (simp_all add: value_to_optional_duckvalue_def duckvalue_value)

text \<open>
  C12. A callback call is transparent: whatever the component answers to a scalar, table,
  aggregate or pragma call, a value or one of the declared errors, is what the caller gets, and
  a call the runtime cannot complete is an internal error, never a value.
\<close>

theorem callback_calls_transparent:
  assumes "call g (callback_iface @ ''#'' @ ''call-scalar'')
      [V_U32 h, duckvalue_list_to_value args, invokeinfo_to_value ctx]
        = (map_sum (\<lambda>e. e) (reply duckvalue_to_value) scalar, g1)"
    and "call g (callback_iface @ ''#'' @ ''call-table'') [V_U32 h, duckvalue_list_to_value args]
        = (map_sum (\<lambda>e. e) (reply (\<lambda>rows. V_List (map duckvalue_list_to_value rows))) table, g2)"
    and "call g (callback_iface @ ''#'' @ ''call-aggregate-col'') [V_U32 h, colvec_list_to_value cols]
        = (map_sum (\<lambda>e. e) (reply duckvalue_to_value) agg, g3)"
    and "call g (callback_iface @ ''#'' @ ''call-pragma'') [V_U32 h, duckvalue_list_to_value args]
        = (map_sum (\<lambda>e. e) (reply (\<lambda>v. V_Option (map_option duckvalue_to_value v))) pragma, g4)"
  shows "dispatch_scalar fm call h args ctx g
      = (settled ''call-scalar'' scalar, g1)
    \<and> dispatch_table fm call h args g = (settled ''call-table'' table, g2)
    \<and> dispatch_aggregate_col fm call h cols g = (settled ''call-aggregate-col'' agg, g3)
    \<and> dispatch_pragma fm call h args g = (settled ''call-pragma'' pragma, g4)"
proof (intro conjI)
  show "dispatch_scalar fm call h args ctx g = (settled ''call-scalar'' scalar, g1)"
    unfolding dispatch_scalar_def
    by (rule dispatch_settled, rule assms(1)) (simp add: need_payload_def duckvalue_value)
  show "dispatch_table fm call h args g = (settled ''call-table'' table, g2)"
    unfolding dispatch_table_def
    by (rule dispatch_settled, rule assms(2)) (simp add: need_payload_def resultset_value)
  show "dispatch_aggregate_col fm call h cols g = (settled ''call-aggregate-col'' agg, g3)"
    unfolding dispatch_aggregate_col_def
    by (rule dispatch_settled, rule assms(3)) (simp add: need_payload_def duckvalue_value)
  show "dispatch_pragma fm call h args g = (settled ''call-pragma'' pragma, g4)"
    unfolding dispatch_pragma_def
    by (rule dispatch_settled, rule assms(4)) (simp add: need_payload_def optional_value)
qed

theorem callback_calls_transparent_witness:
  "dispatch_scalar plain_fmt (\<lambda>g name args. (if name = callback_iface @ ''#'' @ ''call-scalar''
       then Inr (reply duckvalue_to_value (Inr (D_Int64 7))) else Inl ''trap'', g))
     1 [] \<lparr>rowindex = None, iswindow = False\<rparr> () = (Inr (D_Int64 7), ())"
  using callback_calls_transparent [of "\<lambda>g name args. (if name = callback_iface @ ''#'' @ ''call-scalar''
       then Inr (reply duckvalue_to_value (Inr (D_Int64 7))) else Inl ''trap'', g)" "()" 1 "[]"
     "\<lparr>rowindex = None, iswindow = False\<rparr>" "Inr (Inr (D_Int64 7))" "()" "Inl ''trap''" "()" "[]"
     "Inl ''trap''" "()" "Inl ''trap''" "()" plain_fmt]
  by (simp add: callback_iface_def settled_def)

section \<open>Batches\<close>

text \<open>The rows a batch of column vectors stands for.\<close>

definition rows_of :: "colvec list \<Rightarrow> duckvalue list list" where
  "rows_of cols =
     (case cols of
        [] \<Rightarrow> []
      | c0 # _ \<Rightarrow>
          map (\<lambda>i. map (\<lambda>c. colvec_to_values c ! i) cols) [0 ..< length (colvec_to_values c0)])"

definition uniform :: "duckvalue list \<Rightarrow> bool" where
  "uniform vals \<longleftrightarrow> (\<forall>v \<in> set vals. \<forall>w \<in> set vals. v = D_Null \<or> w = D_Null \<or> arm_of v = arm_of w)"

text \<open>At least one argument, the same number in every row, one arm per argument up to NULL.\<close>

definition batch_ok :: "nat \<Rightarrow> duckvalue list list \<Rightarrow> bool" where
  "batch_ok k rows \<longleftrightarrow> 0 < k \<and> (\<forall>r \<in> set rows. length r = k)
     \<and> (\<forall>j < k. uniform (map (\<lambda>r. r ! j) rows))"

lemma pivot_uniform:
  "uniform vals \<Longrightarrow> colvec_to_values (column_from_values vals) = vals"
  unfolding pivot_view uniform_def by (rule homogeneous_view)

lemma pivot_rows:
  assumes "batch_ok k rows"
  shows "\<exists>cols. rows_to_colvecs rows = Some cols \<and> rows_of cols = rows"
proof (cases rows)
  case Nil
  then show ?thesis by (simp add: rows_to_colvecs_def rows_of_def)
next
  case (Cons r0 rest)
  let ?cols = "map (\<lambda>j. column_from_values (map (\<lambda>r. r ! j) rows)) [0 ..< k]"
  have len: "length r = k" if "r \<in> set rows" for r
    using assms that by (simp add: batch_ok_def)
  have "rows_to_colvecs rows = Some ?cols"
    using len Cons by (simp add: rows_to_colvecs_def Let_def)
  moreover have vals: "colvec_to_values (column_from_values (map (\<lambda>r. r ! j) rows)) = map (\<lambda>r. r ! j) rows"
    if "j < k" for j using assms that by (intro pivot_uniform) (simp add: batch_ok_def)
  moreover have "rows_of ?cols = rows"
  proof -
    have "0 < k" using assms by (simp add: batch_ok_def)
    then obtain cs where cs: "?cols = column_from_values (map (\<lambda>r. r ! 0) rows) # cs"
      by (cases k) (simp_all add: upt_conv_Cons del: upt_Suc)
    have "rows_of ?cols = map (\<lambda>i. map (\<lambda>c. colvec_to_values c ! i) ?cols) [0 ..< length rows]"
      using vals [OF \<open>0 < k\<close>] unfolding rows_of_def by (subst (1) cs) simp
    also have "\<dots> = map (\<lambda>i. map (\<lambda>j. rows ! i ! j) [0 ..< k]) [0 ..< length rows]"
      by (intro map_cong refl) (simp add: vals)
    also have "\<dots> = map (\<lambda>i. rows ! i) [0 ..< length rows]"
      by (intro map_cong refl) (metis atLeastLessThan_iff len map_nth nth_mem set_upt)
    finally show ?thesis by (simp add: map_nth)
  qed
  ultimately show ?thesis by blast
qed

text \<open>
  What a component answers that computes \<open>f\<close> on one row, on a batch of columns, and that
  computes an aggregate \<open>agg\<close>, each decoding its arguments from the wire.
\<close>

definition row_answer ::
  "fmt \<Rightarrow> (duckvalue list \<Rightarrow> duckerror + duckvalue) \<Rightarrow> wvalue list \<Rightarrow> wvalue list" where
  "row_answer fm f args =
     (case args of
        [_, vs, _] \<Rightarrow> reply duckvalue_to_value (rbind (value_to_duckvalue_list fm vs) f)
      | _ \<Rightarrow> [])"

definition batch_answer ::
  "fmt \<Rightarrow> (duckvalue list \<Rightarrow> duckerror + duckvalue) \<Rightarrow> wvalue list \<Rightarrow> wvalue list" where
  "batch_answer fm f args =
     (case args of
        [_, V_List cs, _] \<Rightarrow>
          reply colvec_to_value (rbind (rmap (value_to_colvec fm) cs) (\<lambda>cols.
            map_sum (\<lambda>e. e) column_from_values (rmap f (rows_of cols))))
      | _ \<Rightarrow> [])"

definition aggregate_answer ::
  "fmt \<Rightarrow> (duckvalue list list \<Rightarrow> duckerror + duckvalue) \<Rightarrow> wvalue list \<Rightarrow> wvalue list" where
  "aggregate_answer fm agg args =
     (case args of
        [_, V_List cs] \<Rightarrow>
          reply duckvalue_to_value (rbind (rmap (value_to_colvec fm) cs) (\<lambda>cols. agg (rows_of cols)))
      | _ \<Rightarrow> [])"

definition cast_answer ::
  "fmt \<Rightarrow> (duckvalue \<Rightarrow> duckerror + duckvalue) \<Rightarrow> wvalue list \<Rightarrow> wvalue list" where
  "cast_answer fm f args =
     (case args of
        [_, c] \<Rightarrow>
          reply colvec_to_value (rbind (value_to_colvec fm c) (\<lambda>cv.
            map_sum (\<lambda>e. e) column_from_values (rmap f (colvec_to_values cv))))
      | _ \<Rightarrow> [])"

lemma colvec_list_lift: "colvec_list_to_value cols = V_List (map colvec_to_value cols)"
  by (simp add: colvec_list_to_value_def)

text \<open>A component for concrete runs: \<open>sum2\<close> adds two integers and rejects anything else.\<close>

definition sum2 :: "duckvalue list \<Rightarrow> duckerror + duckvalue" where
  "sum2 row = (case row of
      [D_Int64 a, D_Int64 b] \<Rightarrow> Inr (D_Int64 (a + b))
    | [_, _] \<Rightarrow> Inr D_Null
    | _ \<Rightarrow> Inl (Invalidargument ''sum2''))"

definition count_rows :: "duckvalue list list \<Rightarrow> duckerror + duckvalue" where
  "count_rows rows = Inr (D_Int64 (word_of_nat (length rows)))"

definition to_text :: "duckvalue \<Rightarrow> duckerror + duckvalue" where
  "to_text v = (case v of D_Int64 i \<Rightarrow> Inr (D_Text ''int'') | _ \<Rightarrow> Inl (Unsupported ''cast''))"

definition demo_component :: "unit guest" where
  "demo_component g name args =
     (if name = callback_iface @ ''#'' @ ''call-scalar'' then Inr (row_answer plain_fmt sum2 args)
      else if name = callback_iface @ ''#'' @ ''call-scalar-batch-col''
      then Inr (batch_answer plain_fmt sum2 args)
      else if name = callback_iface @ ''#'' @ ''call-aggregate-col''
      then Inr (aggregate_answer plain_fmt count_rows args)
      else if name = callback_iface @ ''#'' @ ''call-cast-col''
      then Inr (cast_answer plain_fmt to_text args)
      else Inl ''no such export'', g)"

lemma sum2_arm: "sum2 r = Inr w \<Longrightarrow> w = D_Null \<or> arm_of w = 2"
  by (auto simp: sum2_def split: list.splits duckvalue.splits)

lemma sum2_uniform: "rmap sum2 rows = Inr vs \<Longrightarrow> \<forall>v \<in> set vs. v = D_Null \<or> arm_of v = 2"
proof (induction rows arbitrary: vs)
  case (Cons r rs)
  then obtain w ws where "sum2 r = Inr w" "rmap sum2 rs = Inr ws" "vs = w # ws"
    by (auto simp: rbind_def split: sum.splits)
  then show ?case using Cons.IH [of ws] sum2_arm [of r w] by simp
qed simp

text \<open>
  C13. Batch dispatch computes what row-at-a-time dispatch computes: against a component whose
  batch and row exports both implement \<open>f\<close> and keep no state, a batch of rows with at least one
  argument, all of the same width, and one arm per argument up to NULL (\<open>batch_ok\<close>) returns
  the list of the values that one call per row returns, or the error of the first row that
  fails, for a result that also has one arm up to NULL. A function without arguments is not
  covered: its batch has no columns and so no rows.
\<close>

theorem batch_dispatch_is_rowwise:
  assumes "batch_ok k rows" and "\<forall>vs. rmap f rows = Inr vs \<longrightarrow> uniform vs"
    and "\<forall>args. call g (callback_iface @ ''#'' @ ''call-scalar'') args = (Inr (row_answer fm f args), g)"
    and "\<forall>args. call g (callback_iface @ ''#'' @ ''call-scalar-batch-col'') args
      = (Inr (batch_answer fm f args), g)"
  shows "dispatch_scalar_batch fm call h rows ctx g
      = Some (rmap (\<lambda>row. fst (dispatch_scalar fm call h row ctx g)) rows, g)"
proof -
  obtain cols where c: "rows_to_colvecs rows = Some cols" "rows_of cols = rows"
    using pivot_rows [OF assms(1)] by blast
  have row: "fst (dispatch_scalar fm call h row ctx g) = f row" for row
  proof -
    have "dispatch_scalar fm call h row ctx g = (map_sum (\<lambda>e. e) (\<lambda>a. a) (f row), g)"
      unfolding dispatch_scalar_def
      by (rule dispatch_reply [where enc = duckvalue_to_value])
        (use assms(3) in \<open>simp_all add: row_answer_def duckvalue_list_value need_payload_def
          duckvalue_value\<close>)
    then show ?thesis by simp
  qed
  let ?res = "map_sum (\<lambda>e. e) column_from_values (rmap f rows)"
  have "dispatch_scalar_batch_col fm call h cols ctx g = (map_sum (\<lambda>e. e) (\<lambda>a. a) ?res, g)"
    unfolding dispatch_scalar_batch_col_def
    by (rule dispatch_reply [where enc = colvec_to_value])
      (use assms(4) in \<open>simp_all add: batch_answer_def colvec_list_lift rmap_map_id c(2)
        need_payload_def\<close>)
  moreover have "map_sum (\<lambda>e. e) colvec_to_values ?res = rmap f rows"
    using assms(2) by (cases "rmap f rows") (simp_all add: pivot_uniform)
  ultimately show ?thesis by (simp add: dispatch_scalar_batch_def c(1) row)
qed

theorem batch_dispatch_is_rowwise_witness:
  "dispatch_scalar_batch plain_fmt demo_component 1
     [[D_Int64 1, D_Int64 2], [D_Int64 3, D_Null]] \<lparr>rowindex = None, iswindow = False\<rparr> ()
   = Some (Inr [D_Int64 3, D_Null], ())"
proof -
  let ?rows = "[[D_Int64 1, D_Int64 2], [D_Int64 3, D_Null]]"
  let ?ctx = "\<lparr>rowindex = None, iswindow = False\<rparr>"
  have ok: "batch_ok 2 ?rows" by (simp add: batch_ok_def uniform_def less_2_cases_iff)
  have un: "\<forall>vs. rmap sum2 ?rows = Inr vs \<longrightarrow> uniform vs"
    using sum2_uniform unfolding uniform_def by metis
  have row: "dispatch_scalar plain_fmt demo_component 1 row ?ctx () = (sum2 row, ())" for row
  proof -
    have "dispatch_scalar plain_fmt demo_component 1 row ?ctx ()
        = (map_sum (\<lambda>e. e) (\<lambda>a. a) (sum2 row), ())"
      unfolding dispatch_scalar_def
      by (rule dispatch_reply [where enc = duckvalue_to_value])
        (simp_all add: demo_component_def row_answer_def duckvalue_list_value need_payload_def
          duckvalue_value)
    then show ?thesis by simp
  qed
  have "dispatch_scalar_batch plain_fmt demo_component 1 ?rows ?ctx ()
      = Some (rmap (\<lambda>row. fst (dispatch_scalar plain_fmt demo_component 1 row ?ctx ())) ?rows, ())"
    by (rule batch_dispatch_is_rowwise [OF ok un]) (simp_all add: demo_component_def)
  then show ?thesis unfolding row by (simp add: sum2_def rbind_def)
qed

text \<open>
  An aggregate sees exactly the rows it is given and a cast exactly its value: against a
  component that computes \<open>agg\<close> from its columns and \<open>f\<close> on each value of its column,
  dispatching a batch returns \<open>agg\<close> of those rows in order, and dispatching a cast returns
  \<open>f\<close> of the value, errors included.
\<close>

theorem column_calls_exact:
  assumes "batch_ok k rows"
    and "\<forall>args. call g (callback_iface @ ''#'' @ ''call-aggregate-col'') args
      = (Inr (aggregate_answer fm agg args), g)"
    and "\<forall>args. call g (callback_iface @ ''#'' @ ''call-cast-col'') args
      = (Inr (cast_answer fm f args), g)"
  shows "dispatch_aggregate fm call h rows g = Some (agg rows, g)
    \<and> dispatch_cast fm call h v g = (f v, g)"
proof (rule conjI)
  obtain cols where c: "rows_to_colvecs rows = Some cols" "rows_of cols = rows"
    using pivot_rows [OF assms(1)] by blast
  have "dispatch_aggregate_col fm call h cols g = (map_sum (\<lambda>e. e) (\<lambda>a. a) (agg rows), g)"
    unfolding dispatch_aggregate_col_def
    by (rule dispatch_reply [where enc = duckvalue_to_value])
      (use assms(2) in \<open>simp_all add: aggregate_answer_def colvec_list_lift rmap_map_id c(2)
        need_payload_def duckvalue_value\<close>)
  then show "dispatch_aggregate fm call h rows g = Some (agg rows, g)"
    by (simp add: dispatch_aggregate_def c(1))
  have one: "colvec_to_values (column_from_values [w]) = [w]" for w
    by (rule pivot_uniform) (simp add: uniform_def)
  let ?res = "map_sum (\<lambda>e. e) (\<lambda>w. column_from_values [w]) (f v)"
  have "dispatch_cast fm call h v g
      = (map_sum (\<lambda>e. e)
          (\<lambda>c. case colvec_to_values c of [] \<Rightarrow> D_Null | x # _ \<Rightarrow> x) ?res, g)"
    unfolding dispatch_cast_def
    by (rule dispatch_reply [where enc = colvec_to_value])
      (use assms(3) in \<open>cases "f v"; simp add: cast_answer_def one need_payload_def rbind_def\<close>)+
  then show "dispatch_cast fm call h v g = (f v, g)"
    by (cases "f v") (simp_all add: one)
qed

theorem column_calls_exact_witness:
  "dispatch_aggregate plain_fmt demo_component 1 [[D_Int64 1], [D_Null]] () = Some (Inr (D_Int64 2), ())
   \<and> dispatch_cast plain_fmt demo_component 2 (D_Int64 7) () = (Inr (D_Text ''int''), ())"
proof -
  have "batch_ok 1 [[D_Int64 1], [D_Null]]" by (simp add: batch_ok_def uniform_def)
  from column_calls_exact [OF this, of demo_component "()" plain_fmt count_rows to_text]
  show ?thesis by (simp add: demo_component_def callback_iface_def count_rows_def to_text_def)
qed

end
