(* ===== verification/Dispatch_More.thy ===== *)
theory Dispatch_More
  imports Dispatch
begin

text \<open>
  The other dispatchers of \<open>ExtensionInstance\<close> (\<open>crates/ducklink-runtime/src/extension.rs\<close>): COPY
  handlers, secrets, storage reads and writes, streaming tables, incremental aggregates,
  connections, files, indexes, settings, log sinks, arrow tables, parsers and optimizers.
\<close>

definition interface :: "string \<Rightarrow> string" where
  "interface name = ''duckdb:extension/'' @ name @ ''@5.0.0''"

definition unit_ok :: "wvalue option \<Rightarrow> duckerror + unit" where
  "unit_ok p = Inr ()"

definition u32_list :: "u32 list \<Rightarrow> wvalue" where
  "u32_list xs = V_List (map V_U32 xs)"

definition rows_to_value :: "duckvalue list list \<Rightarrow> wvalue" where
  "rows_to_value rows = V_List (map duckvalue_list_to_value rows)"

definition pairs_to_value :: "(string \<times> string) list \<Rightarrow> wvalue" where
  "pairs_to_value ps = V_List (map (\<lambda>(k, v). V_Tuple [V_String k, V_String v]) ps)"

definition lift_rows :: "fmt \<Rightarrow> string \<Rightarrow> wvalue option \<Rightarrow> duckerror + duckvalue list list" where
  "lift_rows fm label p =
     rbind (need_payload (label @ '': expected Ok(resultset), got None'') p) (value_to_resultset fm)"

section \<open>COPY handlers\<close>

record copy_from_bind_result =
  cfb_reader :: u32
  cfb_columns :: "columndef list"

definition copy_to_bind ::
  "fmt \<Rightarrow> 'g guest \<Rightarrow> u32 \<Rightarrow> string \<Rightarrow> columndef list \<Rightarrow> (string \<times> string) list \<Rightarrow> 'g \<Rightarrow>
     (duckerror + u32) \<times> 'g" where
  "copy_to_bind fm call handle path cols options =
     dispatch fm call (interface ''copy-dispatch'') ''copy-to-bind'' ''copy-to-bind''
       [V_U32 handle, V_String path, columndef_list_to_value cols, pairs_to_value options]
       (lift_u32 fm)"

definition copy_to_sink ::
  "fmt \<Rightarrow> 'g guest \<Rightarrow> u32 \<Rightarrow> u32 \<Rightarrow> duckvalue list list \<Rightarrow> 'g \<Rightarrow> (duckerror + unit) \<times> 'g" where
  "copy_to_sink fm call handle writer rows =
     dispatch fm call (interface ''copy-dispatch'') ''copy-to-sink'' ''copy-to-sink''
       [V_U32 handle, V_U32 writer, rows_to_value rows] unit_ok"

definition copy_to_finalize ::
  "fmt \<Rightarrow> 'g guest \<Rightarrow> u32 \<Rightarrow> u32 \<Rightarrow> 'g \<Rightarrow> (duckerror + u64) \<times> 'g" where
  "copy_to_finalize fm call handle writer =
     dispatch fm call (interface ''copy-dispatch'') ''copy-to-finalize'' ''copy-to-finalize''
       [V_U32 handle, V_U32 writer] (lift_u64 fm)"

definition copy_from_bind ::
  "fmt \<Rightarrow> 'g guest \<Rightarrow> u32 \<Rightarrow> string \<Rightarrow> (string \<times> string) list \<Rightarrow> columndef list \<Rightarrow> 'g \<Rightarrow>
     (duckerror + copy_from_bind_result) \<times> 'g" where
  "copy_from_bind fm call handle path options target_columns =
     dispatch fm call (interface ''copy-dispatch'') ''copy-from-bind'' ''copy-from-bind''
       [V_U32 handle, V_String path, pairs_to_value options, columndef_list_to_value target_columns]
       (\<lambda>p. rbind (need_payload
              ''copy-from-bind: expected Ok(copy-from-bind-result), got None'' p) (\<lambda>rec.
            rbind (u32_field fm rec ''reader'') (\<lambda>reader.
            rbind (rbind (record_field fm rec ''columns'') (value_to_columndef_list fm)) (\<lambda>cols.
              Inr \<lparr>cfb_reader = reader, cfb_columns = cols\<rparr>))))"

definition copy_from_scan ::
  "fmt \<Rightarrow> 'g guest \<Rightarrow> u32 \<Rightarrow> u32 \<Rightarrow> u32 \<Rightarrow> 'g \<Rightarrow> (duckerror + duckvalue list list) \<times> 'g" where
  "copy_from_scan fm call handle reader max_rows =
     dispatch fm call (interface ''copy-dispatch'') ''copy-from-scan'' ''copy-from-scan''
       [V_U32 handle, V_U32 reader, V_U32 max_rows] (lift_rows fm ''copy-from-scan'')"

definition copy_from_close :: "fmt \<Rightarrow> 'g guest \<Rightarrow> u32 \<Rightarrow> u32 \<Rightarrow> 'g \<Rightarrow> (duckerror + bool) \<times> 'g" where
  "copy_from_close fm call handle reader =
     dispatch fm call (interface ''copy-dispatch'') ''copy-from-close'' ''copy-from-close''
       [V_U32 handle, V_U32 reader] (lift_bool fm)"

section \<open>Secrets\<close>

record secret_kv =
  kv_key :: string
  kv_value :: string

definition kv_to_value :: "secret_kv \<Rightarrow> wvalue" where
  "kv_to_value kv = V_Record [(''key'', V_String (kv_key kv)), (''value'', V_String (kv_value kv))]"

definition value_to_kv :: "fmt \<Rightarrow> wvalue \<Rightarrow> duckerror + secret_kv" where
  "value_to_kv fm item =
     rbind (string_field fm item ''key'') (\<lambda>k.
     rbind (string_field fm item ''value'') (\<lambda>v. Inr \<lparr>kv_key = k, kv_value = v\<rparr>))"

definition lift_list_payload ::
  "fmt \<Rightarrow> string \<Rightarrow> string \<Rightarrow> (wvalue \<Rightarrow> duckerror + 'a) \<Rightarrow> wvalue option \<Rightarrow> duckerror + 'a list" where
  "lift_list_payload fm label shape item p =
     rbind (need_payload (label @ '': expected Ok(list<'' @ shape @ ''>), got None'') p) (\<lambda>v.
       case v of
         V_List items \<Rightarrow> rmap item items
       | other \<Rightarrow> Inl (Internal (label @ '': expected List, got '' @ dbg fm other)))"

definition create_secret ::
  "fmt \<Rightarrow> 'g guest \<Rightarrow> u32 \<Rightarrow> string \<Rightarrow> string \<Rightarrow> secret_kv list \<Rightarrow> 'g \<Rightarrow>
     (duckerror + secret_kv list) \<times> 'g" where
  "create_secret fm call handle type_name provider params =
     dispatch fm call (interface ''secret-dispatch'') ''create-secret'' ''create-secret''
       [V_U32 handle, V_String type_name, V_String provider, V_List (map kv_to_value params)]
       (lift_list_payload fm ''create-secret'' ''secret-kv'' (value_to_kv fm))"

section \<open>Storage writes\<close>

abbreviation (input) storage_write ::
  "fmt \<Rightarrow> 'g guest \<Rightarrow> string \<Rightarrow> wvalue list \<Rightarrow> (wvalue option \<Rightarrow> duckerror + 'a) \<Rightarrow> 'g \<Rightarrow>
     (duckerror + 'a) \<times> 'g" where
  "storage_write fm call meth \<equiv> dispatch fm call (interface ''storage-write-dispatch'') meth meth"

definition storage_begin_transaction ::
  "fmt \<Rightarrow> 'g guest \<Rightarrow> u32 \<Rightarrow> u32 \<Rightarrow> 'g \<Rightarrow> (duckerror + u32) \<times> 'g" where
  "storage_begin_transaction fm call handle catalog =
     storage_write fm call ''begin-transaction'' [V_U32 handle, V_U32 catalog] (lift_u32 fm)"

definition storage_commit_transaction ::
  "fmt \<Rightarrow> 'g guest \<Rightarrow> u32 \<Rightarrow> u32 \<Rightarrow> 'g \<Rightarrow> (duckerror + unit) \<times> 'g" where
  "storage_commit_transaction fm call handle txn =
     storage_write fm call ''commit-transaction'' [V_U32 handle, V_U32 txn] unit_ok"

definition storage_rollback_transaction ::
  "fmt \<Rightarrow> 'g guest \<Rightarrow> u32 \<Rightarrow> u32 \<Rightarrow> 'g \<Rightarrow> (duckerror + unit) \<times> 'g" where
  "storage_rollback_transaction fm call handle txn =
     storage_write fm call ''rollback-transaction'' [V_U32 handle, V_U32 txn] unit_ok"

definition storage_create_table ::
  "fmt \<Rightarrow> 'g guest \<Rightarrow> u32 \<Rightarrow> u32 \<Rightarrow> string \<Rightarrow> columndef list \<Rightarrow> 'g \<Rightarrow> (duckerror + unit) \<times> 'g" where
  "storage_create_table fm call handle txn table cols =
     storage_write fm call ''create-table''
       [V_U32 handle, V_U32 txn, V_String table, columndef_list_to_value cols] unit_ok"

definition storage_insert_rows ::
  "fmt \<Rightarrow> 'g guest \<Rightarrow> u32 \<Rightarrow> u32 \<Rightarrow> string \<Rightarrow> duckvalue list list \<Rightarrow> 'g \<Rightarrow> (duckerror + u64) \<times> 'g" where
  "storage_insert_rows fm call handle txn table rows =
     storage_write fm call ''insert-rows''
       [V_U32 handle, V_U32 txn, V_String table, rows_to_value rows] (lift_u64 fm)"

definition storage_delete_rows ::
  "fmt \<Rightarrow> 'g guest \<Rightarrow> u32 \<Rightarrow> u32 \<Rightarrow> string \<Rightarrow> i64 list \<Rightarrow> 'g \<Rightarrow> (duckerror + u64) \<times> 'g" where
  "storage_delete_rows fm call handle txn table rowids =
     storage_write fm call ''delete-rows''
       [V_U32 handle, V_U32 txn, V_String table, s64_list_to_value rowids] (lift_u64 fm)"

definition storage_update_rows ::
  "fmt \<Rightarrow> 'g guest \<Rightarrow> u32 \<Rightarrow> u32 \<Rightarrow> string \<Rightarrow> i64 list \<Rightarrow> duckvalue list list \<Rightarrow> 'g \<Rightarrow>
     (duckerror + u64) \<times> 'g" where
  "storage_update_rows fm call handle txn table rowids rows =
     storage_write fm call ''update-rows''
       [V_U32 handle, V_U32 txn, V_String table, s64_list_to_value rowids, rows_to_value rows]
       (lift_u64 fm)"

definition storage_writes_persist_directly ::
  "fmt \<Rightarrow> 'g guest \<Rightarrow> u32 \<Rightarrow> 'g \<Rightarrow> (duckerror + bool) \<times> 'g" where
  "storage_writes_persist_directly fm call handle =
     storage_write fm call ''writes-persist-directly'' [V_U32 handle] (lift_bool fm)"

section \<open>Streaming tables\<close>

record table_open_result =
  to_cursor :: u32
  to_columns :: "columndef list"

datatype filter_op = F_Eq | F_Ne | F_Lt | F_Le | F_Gt | F_Ge | F_Is_In | F_Is_Null | F_Is_Not_Null

record table_filter =
  tf_column :: u32
  tf_op :: filter_op
  tf_values :: "duckvalue list"

definition filter_op_name :: "filter_op \<Rightarrow> string" where
  "filter_op_name op = (case op of
      F_Eq \<Rightarrow> ''eq'' | F_Ne \<Rightarrow> ''ne'' | F_Lt \<Rightarrow> ''lt'' | F_Le \<Rightarrow> ''le'' | F_Gt \<Rightarrow> ''gt'' | F_Ge \<Rightarrow> ''ge''
    | F_Is_In \<Rightarrow> ''is-in'' | F_Is_Null \<Rightarrow> ''is-null'' | F_Is_Not_Null \<Rightarrow> ''is-not-null'')"

definition table_filter_to_value :: "table_filter \<Rightarrow> wvalue" where
  "table_filter_to_value f =
     V_Record [(''column'', V_U32 (tf_column f)), (''op'', V_Enum (filter_op_name (tf_op f))),
               (''values'', duckvalue_list_to_value (tf_values f))]"

definition lift_table_open :: "fmt \<Rightarrow> string \<Rightarrow> wvalue option \<Rightarrow> duckerror + table_open_result" where
  "lift_table_open fm label p =
     rbind (need_payload (label @ '': expected Ok(table-open-result), got None'') p) (\<lambda>rec.
     rbind (u32_field fm rec ''cursor'') (\<lambda>cur.
     rbind (rbind (record_field fm rec ''columns'') (value_to_columndef_list fm)) (\<lambda>cols.
       Inr \<lparr>to_cursor = cur, to_columns = cols\<rparr>)))"

definition table_open ::
  "fmt \<Rightarrow> 'g guest \<Rightarrow> u32 \<Rightarrow> duckvalue list \<Rightarrow> u32 list \<Rightarrow> 'g \<Rightarrow> (duckerror + table_open_result) \<times> 'g" where
  "table_open fm call handle args projection =
     dispatch fm call (interface ''table-stream-dispatch'') ''call-table-open'' ''call-table-open''
       [V_U32 handle, duckvalue_list_to_value args, u32_list projection]
       (lift_table_open fm ''call-table-open'')"

definition table_open_filtered ::
  "fmt \<Rightarrow> 'g guest \<Rightarrow> u32 \<Rightarrow> duckvalue list \<Rightarrow> u32 list \<Rightarrow> table_filter list \<Rightarrow> 'g \<Rightarrow>
     (duckerror + table_open_result) \<times> 'g" where
  "table_open_filtered fm call handle args projection filters =
     dispatch fm call (interface ''table-stream-dispatch'') ''call-table-open-filtered''
       ''call-table-open-filtered''
       [V_U32 handle, duckvalue_list_to_value args, u32_list projection,
        V_List (map table_filter_to_value filters)]
       (lift_table_open fm ''call-table-open-filtered'')"

definition table_next ::
  "fmt \<Rightarrow> 'g guest \<Rightarrow> u32 \<Rightarrow> u32 \<Rightarrow> u32 \<Rightarrow> 'g \<Rightarrow> (duckerror + duckvalue list list) \<times> 'g" where
  "table_next fm call handle cursor max_rows =
     dispatch fm call (interface ''table-stream-dispatch'') ''call-table-next'' ''call-table-next''
       [V_U32 handle, V_U32 cursor, V_U32 max_rows] (lift_rows fm ''call-table-next'')"

definition table_close :: "fmt \<Rightarrow> 'g guest \<Rightarrow> u32 \<Rightarrow> u32 \<Rightarrow> 'g \<Rightarrow> (duckerror + bool) \<times> 'g" where
  "table_close fm call handle cursor =
     dispatch fm call (interface ''table-stream-dispatch'') ''call-table-close'' ''call-table-close''
       [V_U32 handle, V_U32 cursor] (lift_bool fm)"

section \<open>Incremental aggregates\<close>

definition aggregate_init :: "fmt \<Rightarrow> 'g guest \<Rightarrow> u32 \<Rightarrow> 'g \<Rightarrow> (duckerror + u32) \<times> 'g" where
  "aggregate_init fm call handle =
     dispatch fm call (interface ''aggregate-incr-dispatch'') ''call-aggregate-init''
       ''call-aggregate-init'' [V_U32 handle] (lift_u32 fm)"

definition aggregate_update ::
  "fmt \<Rightarrow> 'g guest \<Rightarrow> u32 \<Rightarrow> u32 \<Rightarrow> duckvalue list list \<Rightarrow> 'g \<Rightarrow> (duckerror + unit) \<times> 'g" where
  "aggregate_update fm call handle st rows =
     dispatch fm call (interface ''aggregate-incr-dispatch'') ''call-aggregate-update''
       ''call-aggregate-update'' [V_U32 handle, V_U32 st, rows_to_value rows] unit_ok"

definition aggregate_combine ::
  "fmt \<Rightarrow> 'g guest \<Rightarrow> u32 \<Rightarrow> u32 \<Rightarrow> u32 \<Rightarrow> 'g \<Rightarrow> (duckerror + unit) \<times> 'g" where
  "aggregate_combine fm call handle target src =
     dispatch fm call (interface ''aggregate-incr-dispatch'') ''call-aggregate-combine''
       ''call-aggregate-combine'' [V_U32 handle, V_U32 target, V_U32 src] unit_ok"

definition aggregate_finalize ::
  "fmt \<Rightarrow> 'g guest \<Rightarrow> u32 \<Rightarrow> u32 \<Rightarrow> 'g \<Rightarrow> (duckerror + duckvalue) \<times> 'g" where
  "aggregate_finalize fm call handle st =
     dispatch fm call (interface ''aggregate-incr-dispatch'') ''call-aggregate-finalize''
       ''call-aggregate-finalize'' [V_U32 handle, V_U32 st]
       (\<lambda>p. rbind (need_payload ''call-aggregate-finalize: expected Ok(duckvalue), got None'' p)
              (value_to_duckvalue fm))"

section \<open>Connections, settings and log sinks\<close>

definition connection_opened :: "fmt \<Rightarrow> 'g guest \<Rightarrow> u32 \<Rightarrow> u64 \<Rightarrow> 'g \<Rightarrow> (duckerror + unit) \<times> 'g" where
  "connection_opened fm call handle connection_id =
     dispatch fm call (interface ''conn-dispatch'') ''on-connection-opened'' ''on-connection-opened''
       [V_U32 handle, V_U64 connection_id] unit_ok"

definition connection_closed :: "fmt \<Rightarrow> 'g guest \<Rightarrow> u32 \<Rightarrow> u64 \<Rightarrow> 'g \<Rightarrow> (duckerror + unit) \<times> 'g" where
  "connection_closed fm call handle connection_id =
     dispatch fm call (interface ''conn-dispatch'') ''on-connection-closed'' ''on-connection-closed''
       [V_U32 handle, V_U64 connection_id] unit_ok"

definition setting_set ::
  "fmt \<Rightarrow> 'g guest \<Rightarrow> u32 \<Rightarrow> string \<Rightarrow> string \<Rightarrow> 'g \<Rightarrow> (duckerror + unit) \<times> 'g" where
  "setting_set fm call handle name value =
     dispatch fm call (interface ''settings-dispatch'') ''on-setting-set'' ''on-setting-set''
       [V_U32 handle, V_String name, V_String value] unit_ok"

record log_entry =
  log_level :: u32
  log_message :: string
  log_tags :: "(string \<times> string) list option"
  log_ts_micros :: i64

definition log_entry_to_value :: "log_entry \<Rightarrow> wvalue" where
  "log_entry_to_value e =
     V_Record [(''level'', V_U32 (log_level e)), (''message'', V_String (log_message e)),
               (''tags'', V_Option (map_option pairs_to_value (log_tags e))),
               (''ts-micros'', V_S64 (log_ts_micros e))]"

definition dispatch_write_log_entry ::
  "fmt \<Rightarrow> 'g guest \<Rightarrow> u32 \<Rightarrow> log_entry \<Rightarrow> 'g \<Rightarrow> (duckerror + unit) \<times> 'g" where
  "dispatch_write_log_entry fm call handle entry =
     dispatch fm call (interface ''log-storage-dispatch'') ''write-log-entry'' ''write-log-entry''
       [V_U32 handle, log_entry_to_value entry] unit_ok"

section \<open>Arrow tables\<close>

definition expect_u32 :: "fmt \<Rightarrow> string \<Rightarrow> wvalue option \<Rightarrow> duckerror + u32" where
  "expect_u32 fm label p =
     (case p of
        Some (V_U32 n) \<Rightarrow> Inr n
      | Some other \<Rightarrow> Inl (Internal (label @ '': expected Ok(U32), got '' @ dbg fm other))
      | None \<Rightarrow> Inl (Internal (label @ '': expected Ok(U32), got Ok(None)'')))"

definition dispatch_arrow_open :: "fmt \<Rightarrow> 'g guest \<Rightarrow> u32 \<Rightarrow> 'g \<Rightarrow> (duckerror + u32) \<times> 'g" where
  "dispatch_arrow_open fm call callback_handle =
     dispatch fm call (interface ''arrow-ext-dispatch'') ''call-arrow-open'' ''call-arrow-open''
       [V_U32 callback_handle] (expect_u32 fm ''call-arrow-open'')"

definition dispatch_arrow_next ::
  "fmt \<Rightarrow> 'g guest \<Rightarrow> u32 \<Rightarrow> u32 \<Rightarrow> 'g \<Rightarrow> (duckerror + duckvalue list list) \<times> 'g" where
  "dispatch_arrow_next fm call callback_handle cursor =
     dispatch fm call (interface ''arrow-ext-dispatch'') ''call-arrow-next'' ''call-arrow-next''
       [V_U32 callback_handle, V_U32 cursor] (lift_rows fm ''call-arrow-next'')"

definition dispatch_arrow_close ::
  "fmt \<Rightarrow> 'g guest \<Rightarrow> u32 \<Rightarrow> u32 \<Rightarrow> 'g \<Rightarrow> (duckerror + bool) \<times> 'g" where
  "dispatch_arrow_close fm call callback_handle cursor =
     dispatch fm call (interface ''arrow-ext-dispatch'') ''call-arrow-close'' ''call-arrow-close''
       [V_U32 callback_handle, V_U32 cursor] (expect_bool fm ''call-arrow-close'' ''Bool'')"

section \<open>Storage reads\<close>

text \<open>
  Attaching hands the bytes of the database over first and asks for the catalog only when the
  component took them.
\<close>

definition storage_attach ::
  "fmt \<Rightarrow> 'g guest \<Rightarrow> u32 \<Rightarrow> string \<Rightarrow> u8 list \<Rightarrow> 'g \<Rightarrow> (duckerror + u32) \<times> 'g" where
  "storage_attach fm call handle dsn bytes g =
     (case dispatch fm call (interface ''storage-dispatch'') ''attach-blob'' ''attach-blob''
             [V_U32 handle, V_String dsn, bytes_to_value bytes] unit_ok g of
        (Inl e, g') \<Rightarrow> (Inl e, g')
      | (Inr _, g') \<Rightarrow>
          dispatch fm call (interface ''storage-dispatch'') ''storage-attach'' ''storage-attach''
            [V_U32 handle, V_String dsn, V_List []] (lift_u32 fm) g')"

definition storage_list_tables ::
  "fmt \<Rightarrow> 'g guest \<Rightarrow> u32 \<Rightarrow> u32 \<Rightarrow> 'g \<Rightarrow> (duckerror + string list) \<times> 'g" where
  "storage_list_tables fm call handle catalog =
     dispatch fm call (interface ''storage-dispatch'') ''storage-list-tables'' ''storage-list-tables''
       [V_U32 handle, V_U32 catalog] (lift_string_list fm)"

definition storage_table_columns ::
  "fmt \<Rightarrow> 'g guest \<Rightarrow> u32 \<Rightarrow> u32 \<Rightarrow> string \<Rightarrow> 'g \<Rightarrow> (duckerror + columndef list) \<times> 'g" where
  "storage_table_columns fm call handle catalog table =
     dispatch fm call (interface ''storage-dispatch'') ''storage-table-columns''
       ''storage-table-columns'' [V_U32 handle, V_U32 catalog, V_String table]
       (\<lambda>p. rbind (need_payload
              ''storage-table-columns: expected Ok(list<columndef>), got None'' p)
              (value_to_columndef_list fm))"

datatype compare_op = Op_Eq | Op_Ne | Op_Lt | Op_Le | Op_Gt | Op_Ge | Op_Is_Null | Op_Is_Not_Null

record scan_filter =
  sf_column :: u32
  sf_op :: compare_op
  sf_value :: duckvalue

record scan_request =
  sr_table :: string
  sr_projection :: "u32 list"
  sr_filters :: "scan_filter list"
  sr_limit :: "u64 option"

definition compare_op_name :: "compare_op \<Rightarrow> string" where
  "compare_op_name op = (case op of
      Op_Eq \<Rightarrow> ''eq'' | Op_Ne \<Rightarrow> ''ne'' | Op_Lt \<Rightarrow> ''lt'' | Op_Le \<Rightarrow> ''le'' | Op_Gt \<Rightarrow> ''gt''
    | Op_Ge \<Rightarrow> ''ge'' | Op_Is_Null \<Rightarrow> ''is-null'' | Op_Is_Not_Null \<Rightarrow> ''is-not-null'')"

definition scan_filter_to_value :: "scan_filter \<Rightarrow> wvalue" where
  "scan_filter_to_value f =
     V_Record [(''column'', V_U32 (sf_column f)), (''op'', V_Enum (compare_op_name (sf_op f))),
               (''value'', duckvalue_to_value (sf_value f))]"

definition scan_request_to_value :: "scan_request \<Rightarrow> wvalue" where
  "scan_request_to_value r =
     V_Record [(''table'', V_String (sr_table r)), (''projection'', u32_list (sr_projection r)),
               (''filters'', V_List (map scan_filter_to_value (sr_filters r))),
               (''limit'', V_Option (map_option V_U64 (sr_limit r)))]"

definition storage_scan_open ::
  "fmt \<Rightarrow> 'g guest \<Rightarrow> u32 \<Rightarrow> u32 \<Rightarrow> scan_request \<Rightarrow> 'g \<Rightarrow> (duckerror + u32) \<times> 'g" where
  "storage_scan_open fm call handle catalog request =
     dispatch fm call (interface ''storage-dispatch'') ''storage-scan-open'' ''storage-scan-open''
       [V_U32 handle, V_U32 catalog, scan_request_to_value request] (lift_u32 fm)"

definition storage_scan_next ::
  "fmt \<Rightarrow> 'g guest \<Rightarrow> u32 \<Rightarrow> u32 \<Rightarrow> u32 \<Rightarrow> 'g \<Rightarrow> (duckerror + duckvalue list list) \<times> 'g" where
  "storage_scan_next fm call handle scan max_rows =
     dispatch fm call (interface ''storage-dispatch'') ''storage-scan-next'' ''storage-scan-next''
       [V_U32 handle, V_U32 scan, V_U32 max_rows] (lift_rows fm ''storage-scan-next'')"

definition storage_scan_close :: "fmt \<Rightarrow> 'g guest \<Rightarrow> u32 \<Rightarrow> u32 \<Rightarrow> 'g \<Rightarrow> (duckerror + bool) \<times> 'g" where
  "storage_scan_close fm call handle scan =
     dispatch fm call (interface ''storage-dispatch'') ''storage-scan-close'' ''storage-scan-close''
       [V_U32 handle, V_U32 scan] (lift_bool fm)"

definition storage_serialize :: "fmt \<Rightarrow> 'g guest \<Rightarrow> u32 \<Rightarrow> u32 \<Rightarrow> 'g \<Rightarrow> (duckerror + u8 list) \<times> 'g" where
  "storage_serialize fm call handle catalog =
     dispatch fm call (interface ''storage-dispatch'') ''serialize'' ''storage.serialize''
       [V_U32 handle, V_U32 catalog] (lift_bytes fm)"

section \<open>Indexes\<close>

record index_hit =
  hit_rowid :: i64
  hit_distance :: f32

definition index_create ::
  "fmt \<Rightarrow> 'g guest \<Rightarrow> string \<Rightarrow> string \<Rightarrow> u32 \<Rightarrow> 'g \<Rightarrow> (duckerror + u32) \<times> 'g" where
  "index_create fm call type_name index_name dims =
     dispatch fm call (interface ''index-dispatch'') ''index-create'' ''index-create''
       [V_String type_name, V_String index_name, V_U32 dims] (expect_u32 fm ''index-create'')"

definition index_append ::
  "fmt \<Rightarrow> 'g guest \<Rightarrow> u32 \<Rightarrow> i64 list \<Rightarrow> f32 list list \<Rightarrow> 'g \<Rightarrow> (duckerror + unit) \<times> 'g" where
  "index_append fm call handle rowids vectors =
     dispatch fm call (interface ''index-dispatch'') ''index-append'' ''index-append''
       [V_U32 handle, s64_list_to_value rowids, f32_matrix_to_value vectors] unit_ok"

definition index_build :: "fmt \<Rightarrow> 'g guest \<Rightarrow> u32 \<Rightarrow> 'g \<Rightarrow> (duckerror + unit) \<times> 'g" where
  "index_build fm call handle =
     dispatch fm call (interface ''index-dispatch'') ''index-build'' ''index-build''
       [V_U32 handle] unit_ok"

definition value_to_hit :: "fmt \<Rightarrow> wvalue \<Rightarrow> duckerror + index_hit" where
  "value_to_hit fm item =
     rbind (s64_field fm item ''rowid'') (\<lambda>r.
     rbind (record_field fm item ''distance'') (\<lambda>d.
       case d of
         V_F32 f \<Rightarrow> Inr \<lparr>hit_rowid = r, hit_distance = f\<rparr>
       | other \<Rightarrow> Inl (Internal (''index-hit.distance: expected F32, got '' @ dbg fm other))))"

definition index_search ::
  "fmt \<Rightarrow> 'g guest \<Rightarrow> u32 \<Rightarrow> f32 list \<Rightarrow> u32 \<Rightarrow> 'g \<Rightarrow> (duckerror + index_hit list) \<times> 'g" where
  "index_search fm call handle query k =
     dispatch fm call (interface ''index-dispatch'') ''index-search'' ''index-search''
       [V_U32 handle, f32_list_to_value query, V_U32 k]
       (lift_list_payload fm ''index-search'' ''index-hit'' (value_to_hit fm))"

definition index_drop :: "fmt \<Rightarrow> 'g guest \<Rightarrow> u32 \<Rightarrow> 'g \<Rightarrow> (duckerror + unit) \<times> 'g" where
  "index_drop fm call handle =
     dispatch fm call (interface ''index-dispatch'') ''index-drop'' ''index-drop''
       [V_U32 handle] unit_ok"

definition index_scan ::
  "fmt \<Rightarrow> 'g guest \<Rightarrow> u32 \<Rightarrow> u32 \<Rightarrow> duckvalue list \<Rightarrow> duckvalue list \<Rightarrow> 'g \<Rightarrow> (duckerror + i64 list) \<times> 'g" where
  "index_scan fm call handle index low high =
     dispatch fm call (interface ''index-write-dispatch'') ''index-scan'' ''index-scan''
       [V_U32 handle, V_U32 index, duckvalue_list_to_value low, duckvalue_list_to_value high]
       (lift_s64_list fm)"

definition index_delete ::
  "fmt \<Rightarrow> 'g guest \<Rightarrow> u32 \<Rightarrow> u32 \<Rightarrow> i64 list \<Rightarrow> 'g \<Rightarrow> (duckerror + u64) \<times> 'g" where
  "index_delete fm call handle index rowids =
     dispatch fm call (interface ''index-write-dispatch'') ''index-delete'' ''index-delete''
       [V_U32 handle, V_U32 index, s64_list_to_value rowids] (lift_u64 fm)"

definition index_constraint ::
  "fmt \<Rightarrow> 'g guest \<Rightarrow> u32 \<Rightarrow> u32 \<Rightarrow> duckvalue list \<Rightarrow> 'g \<Rightarrow> (duckerror + bool) \<times> 'g" where
  "index_constraint fm call handle index keys =
     dispatch fm call (interface ''index-write-dispatch'') ''index-constraint'' ''index-constraint''
       [V_U32 handle, V_U32 index, duckvalue_list_to_value keys] (lift_bool fm)"

definition index_serialize :: "fmt \<Rightarrow> 'g guest \<Rightarrow> u32 \<Rightarrow> u32 \<Rightarrow> 'g \<Rightarrow> (duckerror + u8 list) \<times> 'g" where
  "index_serialize fm call handle index =
     dispatch fm call (interface ''index-write-dispatch'') ''index-serialize'' ''index-serialize''
       [V_U32 handle, V_U32 index] (lift_bytes fm)"

section \<open>Files\<close>

text \<open>The exports of \<open>file-dispatch\<close> fail with a string, which becomes an \<open>Io\<close> error.\<close>

definition dispatch_io ::
  "fmt \<Rightarrow> 'g guest \<Rightarrow> string \<Rightarrow> wvalue list \<Rightarrow> (wvalue option \<Rightarrow> string + 'a) \<Rightarrow> 'g \<Rightarrow>
     (duckerror + 'a) \<times> 'g" where
  "dispatch_io fm call meth args lift g =
     (case call_bridge_export call (Some (interface ''file-dispatch'')) meth args g of
        (Inl e, g') \<Rightarrow> (Inl (Internal (meth @ '' dispatch failed: '' @ e)), g')
      | (Inr out, g') \<Rightarrow> (export_result_to_string fm out meth lift, g'))"

definition debug_err :: "fmt \<Rightarrow> duckerror + 'a \<Rightarrow> string + 'a" where
  "debug_err fm r = map_sum (debug_duckerror fm) (\<lambda>a. a) r"

definition file_open :: "fmt \<Rightarrow> 'g guest \<Rightarrow> u32 \<Rightarrow> string \<Rightarrow> 'g \<Rightarrow> (duckerror + u32 \<times> u64) \<times> 'g" where
  "file_open fm call handle url =
     dispatch_io fm call ''file-open'' [V_U32 handle, V_String url]
       (\<lambda>p. case p of
          None \<Rightarrow> Inl ''expected Ok(file-open-result), got None''
        | Some rec \<Rightarrow>
            rbind (debug_err fm (u32_field fm rec ''handle'')) (\<lambda>h.
            rbind (debug_err fm (u64_field fm rec ''size'')) (\<lambda>s. Inr (h, s))))"

definition file_read ::
  "fmt \<Rightarrow> 'g guest \<Rightarrow> u32 \<Rightarrow> u32 \<Rightarrow> u64 \<Rightarrow> u32 \<Rightarrow> 'g \<Rightarrow> (duckerror + u8 list) \<times> 'g" where
  "file_read fm call handle file offset len =
     dispatch_io fm call ''file-read'' [V_U32 handle, V_U32 file, V_U64 offset, V_U32 len]
       (\<lambda>p. debug_err fm (lift_bytes fm p))"

definition file_close :: "fmt \<Rightarrow> 'g guest \<Rightarrow> u32 \<Rightarrow> u32 \<Rightarrow> 'g \<Rightarrow> (duckerror + unit) \<times> 'g" where
  "file_close fm call handle file =
     dispatch_io fm call ''file-close'' [V_U32 handle, V_U32 file] (\<lambda>_. Inr ())"

definition file_write ::
  "fmt \<Rightarrow> 'g guest \<Rightarrow> u32 \<Rightarrow> string \<Rightarrow> u64 \<Rightarrow> u8 list \<Rightarrow> 'g \<Rightarrow> (duckerror + u64) \<times> 'g" where
  "file_write fm call handle path offset data =
     dispatch fm call (interface ''file-write-dispatch'') ''file-write'' ''file-write''
       [V_U32 handle, V_String path, V_U64 offset, bytes_to_value data] (lift_u64 fm)"

definition file_glob :: "fmt \<Rightarrow> 'g guest \<Rightarrow> u32 \<Rightarrow> string \<Rightarrow> 'g \<Rightarrow> (duckerror + string list) \<times> 'g" where
  "file_glob fm call handle pattern =
     dispatch fm call (interface ''file-write-dispatch'') ''file-glob'' ''file-glob''
       [V_U32 handle, V_String pattern] (lift_string_list fm)"

record file_info =
  fi_path :: string
  fi_size :: u64
  fi_is_directory :: bool

definition file_stat :: "fmt \<Rightarrow> 'g guest \<Rightarrow> u32 \<Rightarrow> string \<Rightarrow> 'g \<Rightarrow> (duckerror + file_info) \<times> 'g" where
  "file_stat fm call handle path =
     dispatch fm call (interface ''file-write-dispatch'') ''file-stat'' ''file-stat''
       [V_U32 handle, V_String path]
       (\<lambda>p. rbind (need_payload ''file-stat: expected Ok(file-info), got None'' p) (\<lambda>rec.
            rbind (string_field fm rec ''path'') (\<lambda>f.
            rbind (u64_field fm rec ''size'') (\<lambda>n.
            rbind (bool_field fm rec ''is-directory'') (\<lambda>d.
              Inr \<lparr>fi_path = f, fi_size = n, fi_is_directory = d\<rparr>)))))"

section \<open>Parsers and optimizers\<close>

text \<open>
  Both answer with a variant: declined, or a rewritten text; the optimizer's structured
  \<open>apply\<close> counts as declined.
\<close>

definition lift_rewrite ::
  "fmt \<Rightarrow> string \<Rightarrow> string \<Rightarrow> string \<Rightarrow> string list \<Rightarrow> wvalue option \<Rightarrow> duckerror + string option" where
  "lift_rewrite fm label variant rewrite declines p =
     rbind (need_payload (label @ '': expected Ok('' @ variant @ ''), got None'') p) (\<lambda>v.
       case v of
         V_Variant disc payload \<Rightarrow>
           if disc \<in> set declines then Inr None
           else if disc = rewrite then
             (case payload of
                Some (V_String s) \<Rightarrow> Inr (Some s)
              | other \<Rightarrow> Inl (Internal (variant @ ''.'' @ rewrite @ '': expected String, got ''
                    @ dbg_opt fm other)))
           else Inl (Internal (variant @ '': unknown discriminant '' @ dbg_str fm disc))
       | other \<Rightarrow> Inl (Internal (label @ '': expected Variant, got '' @ dbg fm other)))"

definition call_parse :: "fmt \<Rightarrow> 'g guest \<Rightarrow> u32 \<Rightarrow> string \<Rightarrow> 'g \<Rightarrow> (duckerror + string option) \<times> 'g" where
  "call_parse fm call handle query =
     dispatch fm call (interface ''parser-dispatch'') ''call-parse'' ''call-parse''
       [V_U32 handle, V_String query]
       (lift_rewrite fm ''call-parse'' ''parse-outcome'' ''rewrite'' [''declined''])"

record plan_node =
  node_id :: u32
  node_op_type :: string
  node_parent :: "u32 option"
  node_params_json :: string

definition plan_node_to_value :: "plan_node \<Rightarrow> wvalue" where
  "plan_node_to_value n =
     V_Record [(''id'', V_U32 (node_id n)), (''op-type'', V_String (node_op_type n)),
               (''parent'', V_Option (map_option V_U32 (node_parent n))),
               (''params-json'', V_String (node_params_json n))]"

definition call_optimize ::
  "fmt \<Rightarrow> 'g guest \<Rightarrow> u32 \<Rightarrow> plan_node list \<Rightarrow> string \<Rightarrow> 'g \<Rightarrow> (duckerror + string option) \<times> 'g" where
  "call_optimize fm call handle nodes query =
     dispatch fm call (interface ''optimizer-dispatch'') ''call-optimize'' ''call-optimize''
       [V_U32 handle,
        V_Record [(''nodes'', V_List (map plan_node_to_value nodes)), (''query'', V_String query)]]
       (lift_rewrite fm ''call-optimize'' ''rewrite-directive'' ''rewrite-query'' [''declined'', ''apply''])"

section \<open>Acknowledged writes\<close>

lemma dispatch_Inr_iff:
  "dispatch fm call iface meth label args lift g = (Inr r, g') \<longleftrightarrow>
     (\<exists>p. call g (iface @ ''#'' @ meth) args = (Inr [V_Result (Inr p)], g') \<and> lift p = Inr r)"
proof -
  have export: "export_result_to_duckerror fm out label lift = Inr r
      \<longleftrightarrow> (\<exists>p. out = [V_Result (Inr p)] \<and> lift p = Inr r)" for out
    by (cases out)
      (auto simp: export_result_to_duckerror_def split: wvalue.splits sum.splits option.splits)
  show ?thesis
    by (cases "call g (iface @ ''#'' @ meth) args")
      (auto simp: dispatch_def call_bridge_export_def export split: sum.splits)
qed

lemma lift_u64_Inr: "lift_u64 fm p = Inr n \<longleftrightarrow> p = Some (V_U64 n)"
  by (auto simp: lift_u64_def split: option.splits wvalue.splits)

lemma lift_u32_Inr: "lift_u32 fm p = Inr n \<longleftrightarrow> p = Some (V_U32 n)"
  by (auto simp: lift_u32_def split: option.splits wvalue.splits)

definition write_export :: "string \<Rightarrow> string" where
  "write_export meth = interface ''storage-write-dispatch'' @ ''#'' @ meth"

text \<open>
  A write is reported exactly when the component acknowledged it: commit and rollback
  succeed if and only if the export completed with a single \<open>Ok\<close>, and an insert, delete or
  update reports \<open>n\<close> rows if and only if the export answered \<open>Ok(n)\<close>; a trap, a declared error
  or a malformed answer is always an error.
\<close>

theorem writes_acknowledged:
  "(storage_commit_transaction fm call h t g = (Inr (), g') \<longleftrightarrow>
      (\<exists>p. call g (write_export ''commit-transaction'') [V_U32 h, V_U32 t]
         = (Inr [V_Result (Inr p)], g')))
   \<and> (storage_rollback_transaction fm call h t g = (Inr (), g') \<longleftrightarrow>
      (\<exists>p. call g (write_export ''rollback-transaction'') [V_U32 h, V_U32 t]
         = (Inr [V_Result (Inr p)], g')))
   \<and> (storage_insert_rows fm call h t table rows g = (Inr n, g') \<longleftrightarrow>
      call g (write_export ''insert-rows'') [V_U32 h, V_U32 t, V_String table, rows_to_value rows]
        = (Inr [V_Result (Inr (Some (V_U64 n)))], g'))
   \<and> (storage_delete_rows fm call h t table ids g = (Inr n, g') \<longleftrightarrow>
      call g (write_export ''delete-rows'') [V_U32 h, V_U32 t, V_String table, s64_list_to_value ids]
        = (Inr [V_Result (Inr (Some (V_U64 n)))], g'))
   \<and> (storage_update_rows fm call h t table ids rows g = (Inr n, g') \<longleftrightarrow>
      call g (write_export ''update-rows'')
          [V_U32 h, V_U32 t, V_String table, s64_list_to_value ids, rows_to_value rows]
        = (Inr [V_Result (Inr (Some (V_U64 n)))], g'))"
  by (simp add: storage_commit_transaction_def storage_rollback_transaction_def
      storage_insert_rows_def storage_delete_rows_def storage_update_rows_def write_export_def
      dispatch_Inr_iff lift_u64_Inr unit_ok_def)

definition storage_export :: "string \<Rightarrow> string" where
  "storage_export meth = interface ''storage-dispatch'' @ ''#'' @ meth"

text \<open>
  A catalog is attached only after its bytes were taken: attaching returns the catalog
  handle \<open>c\<close> exactly when \<open>attach-blob\<close> was acknowledged and then, in the state it left,
  \<open>storage-attach\<close> answered \<open>Ok(c)\<close>; when the component refuses the bytes its error is
  returned and \<open>storage-attach\<close> is never called.
\<close>

theorem storage_attach_ordered:
  "(storage_attach fm call h dsn bytes g = (Inr c, g'') \<longleftrightarrow>
      (\<exists>p g'. call g (storage_export ''attach-blob'') [V_U32 h, V_String dsn, bytes_to_value bytes]
           = (Inr [V_Result (Inr p)], g')
         \<and> call g' (storage_export ''storage-attach'') [V_U32 h, V_String dsn, V_List []]
           = (Inr [V_Result (Inr (Some (V_U32 c)))], g'')))
   \<and> (call g (storage_export ''attach-blob'') [V_U32 h, V_String dsn, bytes_to_value bytes]
        = (Inr [V_Result (Inl (Some (duckerror_to_value e)))], g') \<longrightarrow>
      storage_attach fm call h dsn bytes g = (Inl e, g'))"
proof (intro conjI impI)
  let ?first = "dispatch fm call (interface ''storage-dispatch'') ''attach-blob'' ''attach-blob''
     [V_U32 h, V_String dsn, bytes_to_value bytes] unit_ok g"
  note exact = dispatch_Inr_iff [where iface = "interface ''storage-dispatch''"]
  show "storage_attach fm call h dsn bytes g = (Inr c, g'') \<longleftrightarrow>
      (\<exists>p g'. call g (storage_export ''attach-blob'') [V_U32 h, V_String dsn, bytes_to_value bytes]
           = (Inr [V_Result (Inr p)], g')
         \<and> call g' (storage_export ''storage-attach'') [V_U32 h, V_String dsn, V_List []]
           = (Inr [V_Result (Inr (Some (V_U32 c)))], g''))"
  proof -
    have "storage_attach fm call h dsn bytes g = (Inr c, g'') \<longleftrightarrow>
        (\<exists>u g'. ?first = (Inr u, g') \<and>
           dispatch fm call (interface ''storage-dispatch'') ''storage-attach'' ''storage-attach''
             [V_U32 h, V_String dsn, V_List []] (lift_u32 fm) g' = (Inr c, g''))"
      by (cases ?first) (auto simp: storage_attach_def split: sum.splits)
    then show ?thesis
      by (simp only: exact lift_u32_Inr unit_ok_def storage_export_def) auto
  qed
next
  assume "call g (storage_export ''attach-blob'') [V_U32 h, V_String dsn, bytes_to_value bytes]
    = (Inr [V_Result (Inl (Some (duckerror_to_value e)))], g')"
  then show "storage_attach fm call h dsn bytes g = (Inl e, g')"
    by (simp add: storage_attach_def dispatch_def call_bridge_export_def storage_export_def
        export_result_to_duckerror_def)
qed

text \<open>A refusal of the bytes, for a component with a counter of its calls as state.\<close>

theorem storage_attach_ordered_witness:
  "storage_attach plain_fmt
     (\<lambda>(n :: nat) name args. (Inr [V_Result (Inl (Some (duckerror_to_value (Io ''bad''))))], n + 1))
     1 ''x.db'' [1, 2] 0 = (Inl (Io ''bad''), 1)"
  using storage_attach_ordered [of plain_fmt
     "\<lambda>(n :: nat) name args. (Inr [V_Result (Inl (Some (duckerror_to_value (Io ''bad''))))], n + 1)"
     1 "''x.db''" "[1, 2]" 0 0 0 "Io ''bad''" 1]
  by simp

section \<open>Requests on the wire\<close>

lemma duckvalue_inj: "duckvalue_to_value v = duckvalue_to_value w \<longleftrightarrow> v = w"
  by (metis duckvalue_value sum.inject(2))

lemma duckvalue_list_inj: "duckvalue_list_to_value vs = duckvalue_list_to_value ws \<longleftrightarrow> vs = ws"
  by (metis duckvalue_list_value sum.inject(2))

lemma map_inj: "(\<And>x y. f x = f y \<longleftrightarrow> x = y) \<Longrightarrow> map f xs = map f ys \<longleftrightarrow> xs = ys"
  by (metis inj_def inj_map_eq_map)

lemma map_option_inj: "(\<And>x y. f x = f y \<longleftrightarrow> x = y) \<Longrightarrow> map_option f a = map_option f b \<longleftrightarrow> a = b"
  by (cases a; cases b) simp_all

lemma pairs_inj: "pairs_to_value ps = pairs_to_value qs \<longleftrightarrow> ps = qs"
  unfolding pairs_to_value_def wvalue.inject by (rule map_inj) auto

lemma u32_list_inj: "u32_list xs = u32_list ys \<longleftrightarrow> xs = ys"
  unfolding u32_list_def wvalue.inject by (rule map_inj) auto

lemma scan_filter_inj: "scan_filter_to_value f = scan_filter_to_value f' \<longleftrightarrow> f = f'"
  by (cases "sf_op f"; cases "sf_op f'")
    (auto simp: scan_filter_to_value_def compare_op_name_def duckvalue_inj
      intro!: scan_filter.equality)

lemma table_filter_inj: "table_filter_to_value f = table_filter_to_value f' \<longleftrightarrow> f = f'"
  by (cases "tf_op f"; cases "tf_op f'")
    (auto simp: table_filter_to_value_def filter_op_name_def duckvalue_list_inj
      intro!: table_filter.equality)

text \<open>
  No request is lost or blurred on the wire: two storage scans, pushed-down table filters,
  log records, plan nodes or secret parameters have the same encoding only when they are the
  same, whatever their tables, projections, comparison operators, values, limits, tags or
  parents.
\<close>

theorem requests_injective:
  "(scan_request_to_value r = scan_request_to_value r' \<longleftrightarrow> r = r')
   \<and> (map table_filter_to_value fs = map table_filter_to_value fs' \<longleftrightarrow> fs = fs')
   \<and> (log_entry_to_value e = log_entry_to_value e' \<longleftrightarrow> e = e')
   \<and> (map plan_node_to_value ns = map plan_node_to_value ns' \<longleftrightarrow> ns = ns')
   \<and> (map kv_to_value ks = map kv_to_value ks' \<longleftrightarrow> ks = ks')"
proof (intro conjI)
  show "scan_request_to_value r = scan_request_to_value r' \<longleftrightarrow> r = r'"
    by (auto simp: scan_request_to_value_def u32_list_inj map_inj [OF scan_filter_inj]
        map_option_inj intro!: scan_request.equality)
  show "map table_filter_to_value fs = map table_filter_to_value fs' \<longleftrightarrow> fs = fs'"
    by (rule map_inj [OF table_filter_inj])
  show "log_entry_to_value e = log_entry_to_value e' \<longleftrightarrow> e = e'"
    by (auto simp: log_entry_to_value_def map_option_inj [OF pairs_inj]
        intro!: log_entry.equality)
  show "map plan_node_to_value ns = map plan_node_to_value ns' \<longleftrightarrow> ns = ns'"
    by (rule map_inj) (auto simp: plan_node_to_value_def map_option_inj intro!: plan_node.equality)
  show "map kv_to_value ks = map kv_to_value ks' \<longleftrightarrow> ks = ks'"
    by (rule map_inj) (auto simp: kv_to_value_def intro!: secret_kv.equality)
qed

section \<open>Rewrites\<close>

lemma lift_rewrite_Inr:
  "rewrite \<notin> set declines \<Longrightarrow>
   (lift_rewrite fm label variant rewrite declines p = Inr (Some s)
      \<longleftrightarrow> p = Some (V_Variant rewrite (Some (V_String s))))
   \<and> (lift_rewrite fm label variant rewrite declines p = Inr None
      \<longleftrightarrow> (\<exists>d q. p = Some (V_Variant d q) \<and> d \<in> set declines))"
  by (cases p)
    (auto simp: lift_rewrite_def need_payload_def rbind_def split: wvalue.splits option.splits)

text \<open>
  A query is only ever replaced by text the component sent as a rewrite: the parser hook
  yields a new text exactly for \<open>Ok(rewrite(text))\<close> and the optimizer hook exactly for
  \<open>Ok(rewrite-query(text))\<close>; the query is left alone exactly when the component declined or,
  for the optimizer, answered with structured edits.
\<close>

theorem rewrites_exact:
  "(call_parse fm call h q g = (Inr (Some s), g') \<longleftrightarrow>
      call g (interface ''parser-dispatch'' @ ''#'' @ ''call-parse'') [V_U32 h, V_String q]
        = (Inr [V_Result (Inr (Some (V_Variant ''rewrite'' (Some (V_String s)))))], g'))
   \<and> (call_parse fm call h q g = (Inr None, g') \<longleftrightarrow>
      (\<exists>x. call g (interface ''parser-dispatch'' @ ''#'' @ ''call-parse'') [V_U32 h, V_String q]
         = (Inr [V_Result (Inr (Some (V_Variant ''declined'' x)))], g')))
   \<and> (call_optimize fm call h nodes q g = (Inr (Some s), g') \<longleftrightarrow>
      call g (interface ''optimizer-dispatch'' @ ''#'' @ ''call-optimize'')
          [V_U32 h, V_Record [(''nodes'', V_List (map plan_node_to_value nodes)), (''query'', V_String q)]]
        = (Inr [V_Result (Inr (Some (V_Variant ''rewrite-query'' (Some (V_String s)))))], g'))
   \<and> (call_optimize fm call h nodes q g = (Inr None, g') \<longleftrightarrow>
      (\<exists>d x. (d = ''declined'' \<or> d = ''apply'') \<and>
         call g (interface ''optimizer-dispatch'' @ ''#'' @ ''call-optimize'')
          [V_U32 h, V_Record [(''nodes'', V_List (map plan_node_to_value nodes)), (''query'', V_String q)]]
         = (Inr [V_Result (Inr (Some (V_Variant d x)))], g')))"
  using lift_rewrite_Inr [of "''rewrite''" "[''declined'']"]
    lift_rewrite_Inr [of "''rewrite-query''" "[''declined'', ''apply'']"]
  by (auto simp: call_parse_def call_optimize_def dispatch_Inr_iff)

end
