(* ===== verification/Text_Lines.thy ===== *)
theory Text_Lines
  imports Prelude
begin

text \<open>
  Lemmas on trimming and on splitting a text into lines, for the components that canonicalise
  text line by line.
\<close>

lemma trim_rev_fix: "trim_rev s = [] \<or> ws_len_rev (trim_rev s) = 0"
proof (induction s rule: trim_rev.induct)
  case (1 s)
  then show ?case by (cases "ws_len_rev s = 0 \<or> s = []") (auto simp: trim_rev.simps [of s])
qed

lemma trim_rev_idem [simp]: "trim_rev (trim_rev s) = trim_rev s"
  using trim_rev_fix [of s] by (subst trim_rev.simps) auto

lemma trim_end_idem [simp]: "trim_end (trim_end s) = trim_end s"
  by (simp add: trim_end_def)

lemma set_trim_end: "set (trim_end s) \<subseteq> set s"
proof -
  obtain q where "s = trim_end s @ q" using trim_end_prefix by blast
  then show ?thesis by (metis Un_upper1 set_append)
qed

lemma ws1_ws_len_rev: "ws1 c \<Longrightarrow> ws_len_rev (c # s) = 1"
  by (cases "c # s" rule: ws_len_rev.cases) auto

lemma trim_end_snoc: "ws1 c \<Longrightarrow> trim_end (s @ [c]) = trim_end s"
  unfolding trim_end_def by (subst trim_rev.simps) (simp add: ws1_ws_len_rev)

lemma trim_end_strip_cr [simp]: "trim_end (strip_cr l) = trim_end l"
proof (cases "strip_suffix [CHR 0x0D] l")
  case (Some x)
  then have "l = x @ [CHR 0x0D]" by (simp add: strip_suffix_Some)
  moreover have "ws1 (CHR 0x0D)" by (simp add: ws1_def less_eq_char_def)
  ultimately show ?thesis using Some by (simp add: strip_cr_def trim_end_snoc)
qed (simp add: strip_cr_def)

section \<open>Splitting a joined text\<close>

lemma split_char_none: "d \<notin> set s \<Longrightarrow> split_char d s = [s]"
  by (induction s) auto

lemma split_char_append: "d \<notin> set a \<Longrightarrow> split_char d (a @ d # b) = a # split_char d b"
  by (induction a) auto

lemma split_char_join:
  "ls \<noteq> [] \<Longrightarrow> (\<forall>l \<in> set ls. d \<notin> set l) \<Longrightarrow> split_char d (join [d] ls) = ls"
proof (induction ls rule: induct_list012)
  case (3 x y zs)
  then show ?case by (simp add: split_char_append)
qed (simp_all add: split_char_none)

text \<open>
  Up to trailing white space and empty lines, the lines of a text are its pieces between line
  feeds.
\<close>

abbreviation (input) solid :: "string list \<Rightarrow> string list" where
  "solid ls \<equiv> filter (\<lambda>l. trim l \<noteq> []) (map trim_end ls)"

lemma solid_pieces:
  "ps \<noteq> [] \<Longrightarrow>
     solid (if last ps = [] then map strip_cr (butlast ps) else map strip_cr (butlast ps) @ [last ps])
       = solid ps"
  by (cases ps rule: rev_cases) (auto simp: comp_def)

lemma solid_lines: "solid (lines s) = solid (split_char (CHR 0x0A) s)"
  using solid_pieces [of "split_char (CHR 0x0A) s"] by (simp only: lines_def Let_def) simp

text \<open>
  A canonical form that keeps the solid lines satisfying \<open>keep\<close>: it is idempotent and does not
  see a line that is not kept.
\<close>

definition keep_lines :: "(string \<Rightarrow> bool) \<Rightarrow> string \<Rightarrow> string" where
  "keep_lines keep s = join [CHR 0x0A] (filter keep (solid (lines s)))"

lemma keep_lines_join:
  assumes "\<forall>l \<in> set ls. CHR 0x0A \<notin> set l"
  shows "keep_lines keep (join [CHR 0x0A] ls) = join [CHR 0x0A] (filter keep (solid ls))"
proof (cases "ls = []")
  case True
  then show ?thesis by (simp add: keep_lines_def solid_lines)
next
  case False
  then show ?thesis using assms by (simp add: keep_lines_def solid_lines split_char_join)
qed

lemma keep_lines_idem: "keep_lines keep (keep_lines keep s) = keep_lines keep s"
proof -
  let ?ls = "filter keep (solid (split_char (CHR 0x0A) s))"
  have nl: "\<forall>l \<in> set ?ls. CHR 0x0A \<notin> set l"
    using split_char_no_sep set_trim_end by fastforce
  have "map trim_end ?ls = ?ls" by (auto intro!: map_idI)
  then have "filter keep (solid ?ls) = ?ls" by (simp only:) (auto intro!: filter_cong)
  then show ?thesis using keep_lines_join [OF nl] by (simp add: keep_lines_def solid_lines)
qed

lemma keep_lines_skip:
  assumes "\<forall>l \<in> set (xs @ c # ys). CHR 0x0A \<notin> set l"
    and "trim (trim_end c) = [] \<or> \<not> keep (trim_end c)"
  shows "keep_lines keep (join [CHR 0x0A] (xs @ c # ys)) = keep_lines keep (join [CHR 0x0A] (xs @ ys))"
  using assms by (subst (1 2) keep_lines_join) auto

end
