(* ===== verification/Resolver.thy ===== *)
theory Resolver
  imports Text_Lines "HOL-Library.Multiset"
begin

text \<open>
  The provider resolver, \<open>crates/ducklink-host/src/resolver.rs\<close>: the dependency gate, the
  candidate pipeline over the providers of one manifest entry, the choice by precedence, the
  canonical form of a conformance suite, and the manifest reader. JSON access is the third-party
  \<open>serde_json::Value\<close>: \<open>json\<close> carries its accessors as a parameter. The digest function of
  \<open>compute_suite_digest\<close> is an argument too. \<open>PathBuf\<close> is its string.
\<close>

datatype content_ref = Path string | Digest string | Oci string | Url string

datatype provider_kind =
    Wasm string content_ref "string option" bool
  | Native string string content_ref
  | Remote string

fun kind_tag :: "provider_kind \<Rightarrow> string" where
  "kind_tag (Wasm _ _ _ _) = ''wasm''"
| "kind_tag (Native _ _ _) = ''native''"
| "kind_tag (Remote _) = ''remote''"

record conformance =
  suite :: string
  suite_digest :: string
  contract_digest :: string
  passed :: bool

record trust =
  signed_by :: "string option"
  attestation :: "string option"

record provider_descriptor =
  provider_id :: string
  provider_kind :: provider_kind
  reference :: bool
  conformance_record :: "conformance option"
  trust_record :: "trust option"

record manifest_entry =
  entry_name :: string
  wit_contract :: string
  providers :: "provider_descriptor list"
  requires_components :: "string list"

record env =
  wasm_runtime :: bool
  allow_native :: bool
  available_components :: "string list"

definition default_env :: env where
  "default_env = \<lparr>wasm_runtime = True, allow_native = False, available_components = []\<rparr>"

record resolve_policy =
  forced_provider :: "string option"
  denied :: "string list"

datatype outcome = Chosen string | Rejected string

record candidate_outcome =
  cand_id :: string
  cand_kind :: string
  cand_outcome :: outcome

record resolution =
  res_extension :: string
  chosen_id :: string
  chosen_kind :: string
  artifact :: content_ref
  reasoning :: "candidate_outcome list"

record resolve_error =
  err_extension :: string
  err_reasoning :: "candidate_outcome list"

section \<open>Small helpers\<close>

definition available_components_from_spec :: "string \<Rightarrow> string list" where
  "available_components_from_spec spec =
     filter (\<lambda>i. i \<noteq> [])
       (map (\<lambda>(i, _). trim i)
         (map the (filter (\<lambda>x. x \<noteq> None)
           (map (split_once (CHR ''=''))
             (filter (\<lambda>e. e \<noteq> []) (map trim (split_char (CHR '','') spec)))))))"

definition available_components_from_env :: "string option \<Rightarrow> string list" where
  "available_components_from_env var =
     (case var of
        Some s \<Rightarrow> if trim s \<noteq> [] then available_components_from_spec s else []
      | None \<Rightarrow> [])"

definition quoted :: "string \<Rightarrow> string" where
  "quoted s = CHR 0x27 # s @ [CHR 0x27]"

definition short :: "string \<Rightarrow> string" where
  "short digest = take_chars 12 digest"

definition reject :: "string \<Rightarrow> string \<Rightarrow> string \<Rightarrow> candidate_outcome" where
  "reject i kind why = \<lparr>cand_id = i, cand_kind = kind, cand_outcome = Rejected why\<rparr>"

definition render_reasoning :: "candidate_outcome list \<Rightarrow> string" where
  "render_reasoning rs =
     join ''; '' (map (\<lambda>c. case cand_outcome c of
         Chosen note \<Rightarrow> cand_id c @ '' ['' @ cand_kind c @ ''] = CHOSEN ('' @ note @ '')''
       | Rejected why \<Rightarrow> cand_id c @ '' ['' @ cand_kind c @ ''] = rejected ('' @ why @ '')'') rs)"

definition show_resolve_error :: "resolve_error \<Rightarrow> string" where
  "show_resolve_error e =
     ''no admissible provider for '' @ quoted (err_extension e) @ '': '' @ render_reasoning (err_reasoning e)"

definition precedence_rank :: "provider_kind \<Rightarrow> nat" where
  "precedence_rank k = (case k of
      Native _ _ _ \<Rightarrow> 0
    | Wasm _ _ _ browser_safe \<Rightarrow> if browser_safe then 2 else 1
    | Remote _ \<Rightarrow> 3)"

section \<open>The gates\<close>

definition contract_mismatch :: "conformance \<Rightarrow> string \<Rightarrow> string" where
  "contract_mismatch c contract =
     ''uncertified: certified at contract '' @ short (contract_digest c) @ '' != live ''
       @ short contract"

definition conformance_ok ::
  "provider_descriptor \<Rightarrow> string \<Rightarrow> string option \<Rightarrow> string + string" where
  "conformance_ok p contract canonical =
     (case canonical of
        Some canon \<Rightarrow>
          (case conformance_record p of
             None \<Rightarrow> Inl ''uncertified: no conformance record (suite registered)''
           | Some c \<Rightarrow>
               if \<not> passed c then Inl ''uncertified: conformance.passed=false''
               else if contract_digest c \<noteq> contract then Inl (contract_mismatch c contract)
               else if suite_digest c \<noteq> canon then
                 Inl (''uncertified: suite_digest '' @ short (suite_digest c)
                   @ '' doesn''  @ [CHR 0x27] @ ''t match canonical '' @ short canon)
               else Inr (''conformance verified: suite '' @ quoted (suite c)
                   @ '' digest '' @ short (suite_digest c) @ '' == canonical, passed at contract ''
                   @ short contract))
      | None \<Rightarrow>
          if reference p \<and> kind_tag (provider_kind p) = ''wasm''
          then Inr (''conformance by construction (reference baseline; no suite registered) at contract ''
                 @ short contract)
          else (case conformance_record p of
             None \<Rightarrow> Inl ''uncertified: no conformance record''
           | Some c \<Rightarrow>
               if \<not> passed c then Inl ''uncertified: conformance.passed=false''
               else if contract_digest c \<noteq> contract then Inl (contract_mismatch c contract)
               else Inr (''conformance record passed at contract '' @ short contract
                      @ '' (no canonical suite to pin)'')))"

definition substrate_available :: "provider_kind \<Rightarrow> env \<Rightarrow> string + unit" where
  "substrate_available k e = (case k of
      Wasm _ _ _ _ \<Rightarrow> if wasm_runtime e then Inr () else Inl ''no wasm runtime''
    | Native os arch _ \<Rightarrow>
        if \<not> allow_native e then Inl ''native providers disabled (allow_native=false)''
        else Inl (''native loader not implemented ('' @ os @ ''/'' @ arch @ '')'')
    | Remote endpoint \<Rightarrow> Inl (''remote loader not implemented ('' @ endpoint @ '')''))"

definition trusted :: "provider_kind \<Rightarrow> string + unit" where
  "trusted k = (case k of
      Wasm _ _ _ _ \<Rightarrow> Inr ()
    | Native _ _ _ \<Rightarrow> Inl ''native trust policy not implemented''
    | Remote _ \<Rightarrow> Inl ''remote trust policy not implemented'')"

section \<open>The pipeline\<close>

text \<open>
  One iteration of the loop: the reason why the provider is passed over, or the certification
  note it is admitted with.
\<close>

definition judge ::
  "string \<Rightarrow> env \<Rightarrow> resolve_policy \<Rightarrow> string option \<Rightarrow> provider_descriptor \<Rightarrow> string + string" where
  "judge contract e policy canonical p =
     rbind (conformance_ok p contract canonical) (\<lambda>note.
     rbind (substrate_available (provider_kind p) e) (\<lambda>_.
     rbind (trusted (provider_kind p)) (\<lambda>_.
       if provider_id p \<in> set (denied policy) then Inl ''user-excluded (deny)''
       else (case forced_provider policy of
           None \<Rightarrow> Inr note
         | Some forced \<Rightarrow>
             if forced \<noteq> provider_id p
             then Inl (''not the forced provider ('' @ quoted forced @ '')'')
             else Inr note))))"

fun candidates ::
  "(provider_descriptor \<Rightarrow> string + string) \<Rightarrow> provider_descriptor list \<Rightarrow>
     candidate_outcome list \<times> (provider_descriptor \<times> string) list \<Rightarrow>
     candidate_outcome list \<times> (provider_descriptor \<times> string) list" where
  "candidates judg [] (rs, adm) = (rs, adm)"
| "candidates judg (p # ps) (rs, adm) =
     (case judg p of
        Inl why \<Rightarrow>
          candidates judg ps (rs @ [reject (provider_id p) (kind_tag (provider_kind p)) why], adm)
      | Inr note \<Rightarrow> candidates judg ps (rs, adm @ [(p, note)]))"

definition missing_components :: "manifest_entry \<Rightarrow> env \<Rightarrow> string list" where
  "missing_components entry e =
     filter (\<lambda>dep. dep \<notin> set (available_components e)) (requires_components entry)"

definition ellipsis :: string where
  "ellipsis = [CHR 0xE2, CHR 0x80, CHR 0xA6]"

definition reject_missing :: "string \<Rightarrow> candidate_outcome" where
  "reject_missing dep =
     reject (''requires:'' @ dep) ''dep''
       (''requires component '' @ quoted dep
         @ '' '' @ [CHR 0xE2, CHR 0x80, CHR 0x94] @ '' not present (set DUCKLINK_PROVIDERS='' @ dep
         @ ''='' @ ellipsis @ '')'')"

definition chosen_artifact :: "provider_kind \<Rightarrow> content_ref" where
  "chosen_artifact k = (case k of
      Wasm _ art _ _ \<Rightarrow> art | Native _ _ art \<Rightarrow> art | Remote endpoint \<Rightarrow> Oci endpoint)"

definition resolve ::
  "manifest_entry \<Rightarrow> env \<Rightarrow> resolve_policy \<Rightarrow> string option \<Rightarrow> resolve_error + resolution" where
  "resolve entry e policy canonical =
     (if missing_components entry e \<noteq> [] then
        Inl \<lparr>err_extension = entry_name entry,
             err_reasoning = map reject_missing (missing_components entry e)\<rparr>
      else
        (let (rs, adm) = candidates (judge (wit_contract entry) e policy canonical)
               (providers entry) ([], []);
             sorted = sort_key (\<lambda>(p, _). precedence_rank (provider_kind p)) adm
         in (case sorted of
               (chosen, note) # others \<Rightarrow>
                 Inr \<lparr>res_extension = entry_name entry,
                      chosen_id = provider_id chosen,
                      chosen_kind = kind_tag (provider_kind chosen),
                      artifact = chosen_artifact (provider_kind chosen),
                      reasoning =
                        \<lparr>cand_id = provider_id chosen, cand_kind = kind_tag (provider_kind chosen),
                         cand_outcome = Chosen note\<rparr> # rs
                        @ map (\<lambda>(other, _). reject (provider_id other)
                                (kind_tag (provider_kind other)) ''lost on precedence'') others\<rparr>
             | [] \<Rightarrow> Inl \<lparr>err_extension = entry_name entry, err_reasoning = rs\<rparr>)))"

section \<open>Suites\<close>

definition normalize_suite_sql :: "string \<Rightarrow> string" where
  "normalize_suite_sql sql =
     join [CHR 0x0A]
       (filter (\<lambda>l. \<not> starts_with ''--'' (trim_start l))
         (filter (\<lambda>l. trim l \<noteq> []) (map trim_end (lines sql))))"

definition normalize_suite_expected :: "string \<Rightarrow> string" where
  "normalize_suite_expected expected =
     join [CHR 0x0A]
       (filter (\<lambda>l. \<not> (trim_start l = ''#'' \<or> starts_with ''# '' (trim_start l)))
         (filter (\<lambda>l. trim l \<noteq> []) (map trim_end (lines expected))))"

text \<open>\<open>digest\<close> is \<open>compose_core::blobs::compute_digest\<close>.\<close>

definition compute_suite_digest :: "(string \<Rightarrow> string) \<Rightarrow> string \<Rightarrow> string \<Rightarrow> string" where
  "compute_suite_digest digest sql expected =
     concat (map (\<lambda>b. hex2_lower (byte_nat b))
       (digest (''duckdb:conformance-suite:1'' @ [CHR 0x0A] @ normalize_suite_sql sql
         @ [CHR 0x0A, CHR 0x1E, CHR 0x0A] @ normalize_suite_expected expected)))"

section \<open>The manifest\<close>

record 'j json =
  jget :: "'j \<Rightarrow> string \<Rightarrow> 'j option"
  jstr :: "'j \<Rightarrow> string option"
  jarr :: "'j \<Rightarrow> 'j list option"
  jbool :: "'j \<Rightarrow> bool option"

definition get_str :: "'j json \<Rightarrow> 'j \<Rightarrow> string \<Rightarrow> string option" where
  "get_str js v key = Option.bind (jget js v key) (jstr js)"

definition get_bool :: "'j json \<Rightarrow> 'j \<Rightarrow> string \<Rightarrow> bool option" where
  "get_bool js v key = Option.bind (jget js v key) (jbool js)"

definition get_arr :: "'j json \<Rightarrow> 'j \<Rightarrow> string \<Rightarrow> 'j list option" where
  "get_arr js v key = Option.bind (jget js v key) (jarr js)"

definition or_else :: "'a option \<Rightarrow> 'a \<Rightarrow> 'a" where
  "or_else x d = (case x of None \<Rightarrow> d | Some y \<Rightarrow> y)"

definition artifact_ref :: "string \<Rightarrow> content_ref" where
  "artifact_ref s = (if starts_with ''https://'' s then Url s else Path s)"

definition parse_kind :: "'j json \<Rightarrow> 'j \<Rightarrow> string \<Rightarrow> provider_kind option" where
  "parse_kind js p default_abi =
     (let tag = or_else (get_str js p ''kind'') ''wasm''
      in if tag = ''wasm'' then
           (case get_str js p ''artifact'' of
              None \<Rightarrow> None
            | Some art \<Rightarrow>
                Some (Wasm (or_else (get_str js p ''abi'') default_abi) (artifact_ref art)
                  (get_str js p ''content_digest'') (or_else (get_bool js p ''browser_safe'') False)))
         else if tag = ''native'' then
           (let plat = jget js p ''platform'';
                field = (\<lambda>key. or_else (Option.bind plat (\<lambda>v. get_str js v key)) [])
            in Some (Native (field ''os'') (field ''arch'')
                 (Oci (or_else (get_str js p ''artifact'') []))))
         else if tag = ''remote'' then Some (Remote (or_else (get_str js p ''endpoint'') []))
         else None)"

definition parse_provider :: "'j json \<Rightarrow> 'j \<Rightarrow> string \<Rightarrow> provider_descriptor option" where
  "parse_provider js p default_abi =
     (case get_str js p ''id'' of
        None \<Rightarrow> None
      | Some i \<Rightarrow>
          (case parse_kind js p default_abi of
             None \<Rightarrow> None
           | Some kind \<Rightarrow>
               Some \<lparr>provider_id = i, provider_kind = kind,
                     reference = or_else (get_bool js p ''reference'') False,
                     conformance_record = map_option (\<lambda>c.
                       \<lparr>suite = or_else (get_str js c ''suite'') [],
                        suite_digest = or_else (get_str js c ''suite_digest'') [],
                        contract_digest = or_else (get_str js c ''at'') [],
                        passed = or_else (get_bool js c ''passed'') False\<rparr>) (jget js p ''conformance''),
                     trust_record = map_option (\<lambda>t.
                       \<lparr>signed_by = get_str js t ''signed_by'',
                        attestation = get_str js t ''attestation''\<rparr>) (jget js p ''trust'')\<rparr>))"

definition entry_providers :: "'j json \<Rightarrow> 'j \<Rightarrow> string \<Rightarrow> provider_descriptor list" where
  "entry_providers js entry abi =
     (case get_arr js entry ''providers'' of
        Some arr \<Rightarrow> map the (filter (\<lambda>x. x \<noteq> None) (map (\<lambda>p. parse_provider js p abi) arr))
      | None \<Rightarrow>
          (case get_str js entry ''artifact'' of
             Some art \<Rightarrow>
               [\<lparr>provider_id = ''wasm-component'',
                 provider_kind = Wasm abi (artifact_ref art) (get_str js entry ''content_digest'') False,
                 reference = True, conformance_record = None, trust_record = None\<rparr>]
           | None \<Rightarrow> []))"

definition read_manifest_entry :: "'j json \<Rightarrow> 'j \<Rightarrow> string \<Rightarrow> manifest_entry option" where
  "read_manifest_entry js index name =
     Option.bind (get_arr js index ''extensions'') (\<lambda>exts.
       (case filter (\<lambda>e. get_str js e ''name'' = Some name) exts of
          [] \<Rightarrow> None
        | entry # _ \<Rightarrow>
            (let contract = or_else (get_str js entry ''wit_contract'') [];
                 abi = ''duckdb:extension@'' @ or_else (get_str js entry ''wit_contract_version'') ''2.0.0'';
                 ps = entry_providers js entry abi
             in if ps = [] then None
                else Some \<lparr>entry_name = name, wit_contract = contract, providers = ps,
                       requires_components =
                         (case get_arr js entry ''requires_components'' of
                            None \<Rightarrow> []
                          | Some arr \<Rightarrow> map the (filter (\<lambda>x. x \<noteq> None) (map (jstr js) arr)))\<rparr>)))"

section \<open>What the pipeline admits\<close>

text \<open>The conformance gate, as a predicate.\<close>

definition certified :: "provider_descriptor \<Rightarrow> string \<Rightarrow> string option \<Rightarrow> bool" where
  "certified p contract canonical \<longleftrightarrow>
     (case canonical of
        Some canon \<Rightarrow>
          (case conformance_record p of
             None \<Rightarrow> False
           | Some c \<Rightarrow> passed c \<and> contract_digest c = contract \<and> suite_digest c = canon)
      | None \<Rightarrow>
          reference p \<and> kind_tag (provider_kind p) = ''wasm''
          \<or> (case conformance_record p of
               None \<Rightarrow> False
             | Some c \<Rightarrow> passed c \<and> contract_digest c = contract))"

definition admissible ::
  "manifest_entry \<Rightarrow> env \<Rightarrow> resolve_policy \<Rightarrow> string option \<Rightarrow> provider_descriptor \<Rightarrow> bool" where
  "admissible entry e policy canonical p \<longleftrightarrow>
     certified p (wit_contract entry) canonical
     \<and> wasm_runtime e \<and> kind_tag (provider_kind p) = ''wasm''
     \<and> provider_id p \<notin> set (denied policy)
     \<and> (forced_provider policy = None \<or> forced_provider policy = Some (provider_id p))"

lemma conformance_ok_iff: "(\<exists>note. conformance_ok p contract canonical = Inr note) \<longleftrightarrow> certified p contract canonical"
  by (auto simp: conformance_ok_def certified_def split: option.splits)

lemma substrate_trusted_iff:
  "substrate_available k e = Inr () \<and> trusted k = Inr () \<longleftrightarrow> wasm_runtime e \<and> kind_tag k = ''wasm''"
  by (cases k) (auto simp: substrate_available_def trusted_def)

lemma judge_iff:
  "(\<exists>note. judge (wit_contract entry) e policy canonical p = Inr note)
     \<longleftrightarrow> admissible entry e policy canonical p"
proof -
  have "(\<exists>note. judge (wit_contract entry) e policy canonical p = Inr note) \<longleftrightarrow>
      (\<exists>note. conformance_ok p (wit_contract entry) canonical = Inr note)
      \<and> (substrate_available (provider_kind p) e = Inr () \<and> trusted (provider_kind p) = Inr ())
      \<and> provider_id p \<notin> set (denied policy)
      \<and> (forced_provider policy = None \<or> forced_provider policy = Some (provider_id p))"
    by (auto simp: judge_def rbind_def split: option.splits sum.splits)
  then show ?thesis unfolding conformance_ok_iff substrate_trusted_iff admissible_def by blast
qed

lemma candidates_spec:
  "candidates judg ps (rs, adm) =
     (rs @ map (\<lambda>p. reject (provider_id p) (kind_tag (provider_kind p)) (projl (judg p)))
             (filter (\<lambda>p. \<not> (\<exists>note. judg p = Inr note)) ps),
      adm @ map (\<lambda>p. (p, projr (judg p))) (filter (\<lambda>p. \<exists>note. judg p = Inr note) ps))"
  by (induction ps arbitrary: rs adm) (auto split: sum.splits)

text \<open>The admitted provider of least rank, the first in manifest order among equals.\<close>

definition best :: "provider_descriptor list \<Rightarrow> provider_descriptor list" where
  "best ps = sort_key (\<lambda>p. precedence_rank (provider_kind p)) ps"

lemma sort_key_map_fst:
  "sort_key (\<lambda>(p, _). f p) (map (\<lambda>p. (p, g p)) ps) = map (\<lambda>p. (p, g p)) (sort_key f ps)"
proof -
  have ins: "insort_key (\<lambda>(p, _). f p) (x, g x) (map (\<lambda>p. (p, g p)) qs)
      = map (\<lambda>p. (p, g p)) (insort_key f x qs)" for x qs
    by (induction qs) auto
  show ?thesis by (induction ps) (simp_all add: ins)
qed

lemma resolve_eq:
  "resolve entry e policy canonical =
     (if missing_components entry e \<noteq> [] then
        Inl \<lparr>err_extension = entry_name entry,
             err_reasoning = map reject_missing (missing_components entry e)\<rparr>
      else
        (let judg = judge (wit_contract entry) e policy canonical;
             adm = filter (admissible entry e policy canonical) (providers entry);
             rs = map (\<lambda>p. reject (provider_id p) (kind_tag (provider_kind p)) (projl (judg p)))
               (filter (\<lambda>p. \<not> admissible entry e policy canonical p) (providers entry))
         in (case best adm of
               chosen # others \<Rightarrow>
                 Inr \<lparr>res_extension = entry_name entry,
                      chosen_id = provider_id chosen,
                      chosen_kind = kind_tag (provider_kind chosen),
                      artifact = chosen_artifact (provider_kind chosen),
                      reasoning =
                        \<lparr>cand_id = provider_id chosen, cand_kind = kind_tag (provider_kind chosen),
                         cand_outcome = Chosen (projr (judg chosen))\<rparr> # rs
                        @ map (\<lambda>other. reject (provider_id other)
                                (kind_tag (provider_kind other)) ''lost on precedence'') others\<rparr>
             | [] \<Rightarrow> Inl \<lparr>err_extension = entry_name entry, err_reasoning = rs\<rparr>)))"
  by (auto simp: resolve_def candidates_spec judge_iff sort_key_map_fst best_def Let_def comp_def
      split: list.splits prod.splits)

lemma best_head:
  "best (filter A ps) = c # os \<Longrightarrow>
     \<exists>pre post. ps = pre @ c # post \<and> A c
       \<and> (\<forall>q \<in> set pre. A q \<longrightarrow> precedence_rank (provider_kind c) < precedence_rank (provider_kind q))
       \<and> (\<forall>q \<in> set post. A q \<longrightarrow> precedence_rank (provider_kind c) \<le> precedence_rank (provider_kind q))"
proof (induction ps arbitrary: c os)
  case Nil
  then show ?case by (simp add: best_def)
next
  case (Cons p ps)
  show ?case
  proof (cases "A p")
    case False
    with Cons.prems have "best (filter A ps) = c # os" by simp
    with Cons.IH obtain pre post where "ps = pre @ c # post" "A c"
      "\<forall>q \<in> set pre. A q \<longrightarrow> precedence_rank (provider_kind c) < precedence_rank (provider_kind q)"
      "\<forall>q \<in> set post. A q \<longrightarrow> precedence_rank (provider_kind c) \<le> precedence_rank (provider_kind q)"
      by blast
    with False show ?thesis by (intro exI [of _ "p # pre"] exI [of _ post]) simp
  next
    case A: True
    show ?thesis
    proof (cases "best (filter A ps)")
      case Nil
      then have "filter A ps = []"
        unfolding best_def by (metis length_0_conv length_sort)
      moreover from this Cons.prems A have "c = p" by (simp add: best_def)
      ultimately show ?thesis
        using A by (intro exI [of _ "[]"] exI [of _ ps]) (auto simp: filter_empty_conv)
    next
      case (Cons y ys)
      from Cons.IH [OF this] obtain pre post where d: "ps = pre @ y # post" "A y"
        "\<forall>q \<in> set pre. A q \<longrightarrow> precedence_rank (provider_kind y) < precedence_rank (provider_kind q)"
        "\<forall>q \<in> set post. A q \<longrightarrow> precedence_rank (provider_kind y) \<le> precedence_rank (provider_kind q)"
        by blast
      show ?thesis
      proof (cases "precedence_rank (provider_kind p) \<le> precedence_rank (provider_kind y)")
        case True
        with Cons.prems Cons A have c: "c = p" by (simp add: best_def)
        have "\<forall>q \<in> set ps. A q \<longrightarrow> precedence_rank (provider_kind p) \<le> precedence_rank (provider_kind q)"
          using d True by (auto dest: order_trans less_imp_le)
        with c A show ?thesis by (intro exI [of _ "[]"] exI [of _ ps]) simp
      next
        case False
        with Cons.prems Cons A have "c = y" by (simp add: best_def)
        with d A False show ?thesis by (intro exI [of _ "p # pre"] exI [of _ post]) auto
      qed
    qed
  qed
qed

lemma best_Nil: "best ps = [] \<longleftrightarrow> ps = []"
  unfolding best_def by (metis length_0_conv length_sort)

lemma missing_Nil:
  "missing_components entry e = [] \<longleftrightarrow> set (requires_components entry) \<subseteq> set (available_components e)"
  by (auto simp: missing_components_def filter_empty_conv)

lemma resolve_Inr:
  "resolve entry e policy canonical = Inr r \<Longrightarrow>
     missing_components entry e = [] \<and>
     (\<exists>c os. best (filter (admissible entry e policy canonical) (providers entry)) = c # os
       \<and> chosen_id r = provider_id c \<and> chosen_kind r = kind_tag (provider_kind c)
       \<and> artifact r = chosen_artifact (provider_kind c))"
  by (auto simp: resolve_eq Let_def split: if_splits list.splits)

text \<open>
  C8. Whatever the resolver picks is entitled to run and is the best such provider: it is
  certified (against the registered suite when there is one, with a passing record at the live
  contract and the canonical suite digest), runs on an available substrate, is neither denied
  nor passed over for a forced one; every provider before it in the manifest that is also
  admissible has a strictly worse rank and none after it has a better one; and all component
  dependencies of the entry are present.
\<close>

theorem resolve_sound_and_best:
  assumes "resolve entry e policy canonical = Inr r"
  shows "set (requires_components entry) \<subseteq> set (available_components e) \<and>
    (\<exists>pre p post. providers entry = pre @ p # post
      \<and> admissible entry e policy canonical p
      \<and> chosen_id r = provider_id p \<and> chosen_kind r = ''wasm''
      \<and> artifact r = chosen_artifact (provider_kind p)
      \<and> (\<forall>q \<in> set pre. admissible entry e policy canonical q \<longrightarrow>
           precedence_rank (provider_kind p) < precedence_rank (provider_kind q))
      \<and> (\<forall>q \<in> set post. admissible entry e policy canonical q \<longrightarrow>
           precedence_rank (provider_kind p) \<le> precedence_rank (provider_kind q)))"
proof -
  obtain c os where b: "best (filter (admissible entry e policy canonical) (providers entry)) = c # os"
    and r: "missing_components entry e = []" "chosen_id r = provider_id c"
      "chosen_kind r = kind_tag (provider_kind c)" "artifact r = chosen_artifact (provider_kind c)"
    using resolve_Inr [OF assms] by blast
  from best_head [OF b] obtain pre post where d: "providers entry = pre @ c # post"
    "admissible entry e policy canonical c"
    "\<forall>q \<in> set pre. admissible entry e policy canonical q \<longrightarrow>
       precedence_rank (provider_kind c) < precedence_rank (provider_kind q)"
    "\<forall>q \<in> set post. admissible entry e policy canonical q \<longrightarrow>
       precedence_rank (provider_kind c) \<le> precedence_rank (provider_kind q)" by blast
  have "kind_tag (provider_kind c) = ''wasm''" using d(2) by (simp add: admissible_def)
  then show ?thesis
    using r d missing_Nil by (intro conjI exI [of _ pre] exI [of _ c] exI [of _ post]) auto
qed

definition demo_entry :: manifest_entry where
  "demo_entry = \<lparr>entry_name = ''aba'', wit_contract = ''c1'',
     providers =
       [\<lparr>provider_id = ''b'', provider_kind = Wasm ''abi'' (Path ''b.wasm'') None True,
         reference = True, conformance_record = None, trust_record = None\<rparr>,
        \<lparr>provider_id = ''n'', provider_kind = Native ''linux'' ''x'' (Oci ''n''),
         reference = False, conformance_record = None, trust_record = None\<rparr>,
        \<lparr>provider_id = ''w'', provider_kind = Wasm ''abi'' (Path ''w.wasm'') None False,
         reference = True, conformance_record = None, trust_record = None\<rparr>],
     requires_components = []\<rparr>"

definition no_policy :: resolve_policy where
  "no_policy = \<lparr>forced_provider = None, denied = []\<rparr>"

lemma demo_resolve:
  "\<exists>r. resolve demo_entry default_env no_policy None = Inr r \<and> chosen_id r = ''w''"
  by (simp add: resolve_eq demo_entry_def default_env_def no_policy_def missing_components_def
      admissible_def certified_def best_def precedence_rank_def Let_def)

theorem resolve_sound_and_best_witness:
  "\<exists>r. resolve demo_entry default_env no_policy None = Inr r \<and> chosen_kind r = ''wasm''
    \<and> chosen_id r = ''w''"
  using demo_resolve resolve_sound_and_best [of demo_entry default_env no_policy None] by blast

lemma resolve_succeeds_iff:
  "(\<exists>r. resolve entry e policy canonical = Inr r)
     \<longleftrightarrow> set (requires_components entry) \<subseteq> set (available_components e)
       \<and> (\<exists>p \<in> set (providers entry). admissible entry e policy canonical p)"
proof -
  let ?adm = "filter (admissible entry e policy canonical) (providers entry)"
  have "(\<exists>r. resolve entry e policy canonical = Inr r)
      \<longleftrightarrow> missing_components entry e = [] \<and> best ?adm \<noteq> []"
    by (simp add: resolve_eq Let_def split: list.splits)
  also have "\<dots> \<longleftrightarrow> missing_components entry e = [] \<and> ?adm \<noteq> []" by (simp add: best_Nil)
  also have "?adm \<noteq> [] \<longleftrightarrow> (\<exists>p \<in> set (providers entry). admissible entry e policy canonical p)"
    by (auto simp: filter_empty_conv)
  finally show ?thesis unfolding missing_Nil .
qed

text \<open>
  C9. The resolver fails only when it must: it picks a provider if and only if every required
  component is available and some provider of the entry is admissible.
\<close>

theorem resolve_complete:
  "(\<exists>r. resolve entry e policy canonical = Inr r)
     \<longleftrightarrow> set (requires_components entry) \<subseteq> set (available_components e)
       \<and> (\<exists>p \<in> set (providers entry). admissible entry e policy canonical p)"
  by (rule resolve_succeeds_iff)

text \<open>
  Denying a provider that was not chosen never changes the choice: the pipeline has no
  dependence on losers.
\<close>

theorem resolve_ignores_losers:
  assumes "resolve entry e policy canonical = Inr r" and "d \<noteq> chosen_id r"
  shows "\<exists>r'. resolve entry e (policy\<lparr>denied := d # denied policy\<rparr>) canonical = Inr r'
    \<and> chosen_id r' = chosen_id r \<and> artifact r' = artifact r"
proof -
  let ?A = "admissible entry e policy canonical"
  let ?B = "admissible entry e (policy\<lparr>denied := d # denied policy\<rparr>) canonical"
  obtain c os where b: "best (filter ?A (providers entry)) = c # os"
    and r: "missing_components entry e = []" "chosen_id r = provider_id c"
      "artifact r = chosen_artifact (provider_kind c)"
    using resolve_Inr [OF assms(1)] by blast
  have BA: "?B p \<longleftrightarrow> ?A p \<and> provider_id p \<noteq> d" for p by (auto simp: admissible_def)
  have "?A c" using best_head [OF b] by blast
  with r assms(2) have Bc: "provider_id c \<noteq> d" by simp
  have "best (filter ?B (providers entry))
      = filter (\<lambda>p. provider_id p \<noteq> d) (best (filter ?A (providers entry)))"
    unfolding BA best_def by (simp add: filter_sort [symmetric] conj_commute)
  also have "\<dots> = c # filter (\<lambda>p. provider_id p \<noteq> d) os" using b Bc by simp
  finally show ?thesis using r by (simp add: resolve_eq Let_def)
qed

theorem resolve_ignores_losers_witness:
  "\<exists>r'. resolve demo_entry default_env (no_policy\<lparr>denied := ''b'' # denied no_policy\<rparr>) None = Inr r'
    \<and> chosen_id r' = ''w''"
proof -
  obtain r where r: "resolve demo_entry default_env no_policy None = Inr r" "chosen_id r = ''w''"
    using demo_resolve by blast
  have "''b'' \<noteq> chosen_id r" using r(2) by simp
  from resolve_ignores_losers [OF r(1) this] r(2) show ?thesis by auto
qed

definition is_chosen :: "candidate_outcome \<Rightarrow> bool" where
  "is_chosen c = (case cand_outcome c of Chosen _ \<Rightarrow> True | Rejected _ \<Rightarrow> False)"

text \<open>
  The reasoning accounts for every provider exactly once: a resolution lists the chosen
  provider first and as the only chosen one, and the ids listed are, as a multiset, the ids of
  the manifest; a failure past the dependency gate lists all providers in manifest order, all
  rejected.
\<close>

theorem reasoning_accounts:
  assumes "set (requires_components entry) \<subseteq> set (available_components e)"
  shows "case resolve entry e policy canonical of
      Inr r \<Rightarrow> mset (map cand_id (reasoning r)) = mset (map provider_id (providers entry))
        \<and> map is_chosen (reasoning r) = True # replicate (length (providers entry) - 1) False
        \<and> cand_id (hd (reasoning r)) = chosen_id r
    | Inl err \<Rightarrow> map cand_id (err_reasoning err) = map provider_id (providers entry)
        \<and> filter is_chosen (err_reasoning err) = []"
proof -
  let ?A = "admissible entry e policy canonical"
  have m: "missing_components entry e = []" using assms missing_Nil by blast
  have rej [simp]: "\<not> is_chosen (reject i k w)" "cand_id (reject i k w) = i" for i k w
    by (simp_all add: is_chosen_def reject_def)
  have split: "mset (providers entry) = mset (filter ?A (providers entry))
      + mset (filter (\<lambda>p. \<not> ?A p) (providers entry))"
    by (simp add: mset_filter)
  show ?thesis
  proof (cases "best (filter ?A (providers entry))")
    case Nil
    then have "filter ?A (providers entry) = []" by (simp add: best_Nil)
    then have "filter (\<lambda>p. \<not> ?A p) (providers entry) = providers entry"
      by (simp add: filter_empty_conv)
    with m Nil show ?thesis by (simp add: resolve_eq Let_def comp_def filter_empty_conv)
  next
    case (Cons c os)
    have "mset (filter ?A (providers entry)) = mset (c # os)"
      using Cons unfolding best_def by (metis mset_sort)
    then have ms: "mset (providers entry)
        = mset (c # filter (\<lambda>p. \<not> ?A p) (providers entry) @ os)"
      using split by (simp del: mset_filter add: union_commute)
    then have ids: "mset (map provider_id (providers entry))
        = mset (map provider_id (c # filter (\<lambda>p. \<not> ?A p) (providers entry) @ os))"
      by (metis mset_map)
    have len: "length (providers entry) = Suc (length (filter (\<lambda>p. \<not> ?A p) (providers entry) @ os))"
      using mset_eq_length [OF ms] by simp
    have hd: "is_chosen \<lparr>cand_id = i, cand_kind = k, cand_outcome = Chosen n\<rparr>" for i k n
      by (simp add: is_chosen_def)
    let ?w = "\<lambda>p. projl (judge (wit_contract entry) e policy canonical p)"
    let ?k = "\<lambda>p. kind_tag (provider_kind p)"
    obtain r where r: "resolve entry e policy canonical = Inr r" "chosen_id r = provider_id c"
      and rs: "\<exists>n. reasoning r =
        \<lparr>cand_id = provider_id c, cand_kind = ?k c, cand_outcome = Chosen n\<rparr>
        # map (\<lambda>p. reject (provider_id p) (?k p) (?w p)) (filter (\<lambda>p. \<not> ?A p) (providers entry))
        @ map (\<lambda>p. reject (provider_id p) (?k p) ''lost on precedence'') os"
      using m Cons by (auto simp: resolve_eq Let_def)
    then have "map cand_id (reasoning r)
        = map provider_id (c # filter (\<lambda>p. \<not> ?A p) (providers entry) @ os)"
      "map is_chosen (reasoning r)
        = True # map (\<lambda>_. False) (filter (\<lambda>p. \<not> ?A p) (providers entry) @ os)"
      "cand_id (hd (reasoning r)) = chosen_id r"
      by (auto simp: hd)
    then show ?thesis
      unfolding r(1) ids len by (simp only: sum.case map_replicate_const) simp
  qed
qed

theorem reasoning_accounts_witness:
  "case resolve demo_entry default_env no_policy (Some ''s'') of
     Inr r \<Rightarrow> False | Inl err \<Rightarrow> map cand_id (err_reasoning err) = [''b'', ''n'', ''w'']"
proof -
  have none: "\<not> (\<exists>r. resolve demo_entry default_env no_policy (Some ''s'') = Inr r)"
    unfolding resolve_succeeds_iff by (simp add: demo_entry_def admissible_def certified_def)
  have "set (requires_components demo_entry) \<subseteq> set (available_components default_env)"
    by (simp add: demo_entry_def)
  from reasoning_accounts [OF this, of no_policy "Some ''s''"] none show ?thesis
    by (auto simp: demo_entry_def split: sum.splits)
qed

section \<open>Suite digests\<close>

definition sql_line :: "string \<Rightarrow> bool" where
  "sql_line l \<longleftrightarrow> \<not> starts_with ''--'' (trim_start l)"

definition expected_line :: "string \<Rightarrow> bool" where
  "expected_line l \<longleftrightarrow> \<not> (trim_start l = ''#'' \<or> starts_with ''# '' (trim_start l))"

lemma normalize_sql_keep: "normalize_suite_sql = keep_lines sql_line"
  by (rule ext) (simp add: normalize_suite_sql_def keep_lines_def sql_line_def)

lemma normalize_expected_keep: "normalize_suite_expected = keep_lines expected_line"
  by (rule ext) (simp add: normalize_suite_expected_def keep_lines_def expected_line_def)

text \<open>
  Cosmetic edits never change a suite's digest, whatever the digest function: inserting a
  blank line or a comment line anywhere in the SQL or in the expected output, or canonicalising
  the files in place, leaves \<open>compute_suite_digest\<close> as it was.
\<close>

theorem suite_digest_cosmetic:
  assumes "\<forall>l \<in> set (xs @ c # ys). CHR 0x0A \<notin> set l"
    and "\<forall>l \<in> set (us @ d # vs). CHR 0x0A \<notin> set l"
    and "trim (trim_end c) = [] \<or> \<not> sql_line (trim_end c)"
    and "trim (trim_end d) = [] \<or> \<not> expected_line (trim_end d)"
  shows "compute_suite_digest digest (join [CHR 0x0A] (xs @ c # ys)) (join [CHR 0x0A] (us @ d # vs))
      = compute_suite_digest digest (join [CHR 0x0A] (xs @ ys)) (join [CHR 0x0A] (us @ vs))
    \<and> compute_suite_digest digest (normalize_suite_sql sql) (normalize_suite_expected expected)
      = compute_suite_digest digest sql expected"
  unfolding compute_suite_digest_def normalize_sql_keep normalize_expected_keep
    keep_lines_skip [where keep = sql_line, OF assms(1,3)]
    keep_lines_skip [where keep = expected_line, OF assms(2,4)] keep_lines_idem by simp

theorem suite_digest_cosmetic_witness:
  "compute_suite_digest rev (join [CHR 0x0A] [''SELECT 1;'', ''-- note'']) (join [CHR 0x0A] [''1'', []])
   = compute_suite_digest rev ''SELECT 1;'' ''1''"
proof -
  have c: "\<not> sql_line (trim_end ''-- note'')" by code_simp
  have d: "trim (trim_end []) = []" by simp
  have n: "\<forall>l \<in> set ([''SELECT 1;''] @ ''-- note'' # []). CHR 0x0A \<notin> set l"
    "\<forall>l \<in> set ([''1''] @ [] # []). CHR 0x0A \<notin> set l" by simp_all
  show ?thesis using suite_digest_cosmetic [OF n disjI2 [OF c] disjI1 [OF d], of rev] by simp
qed

section \<open>Entries of the older manifest shape\<close>

text \<open>
  A single-artifact entry of the older manifest shape stays loadable: it reads as one
  reference wasm provider with the entry's contract, a URL when the artifact is published over
  HTTPS and a path otherwise, and with its component dependencies present it resolves to that
  artifact as long as no conformance suite is registered for it. Once a suite is registered it
  cannot resolve, because it carries no conformance record.
\<close>

theorem legacy_entry_resolves:
  assumes "get_arr js index ''extensions'' = Some exts"
    and "filter (\<lambda>x. get_str js x ''name'' = Some name) exts = entry # others"
    and "get_arr js entry ''providers'' = None"
    and "get_str js entry ''artifact'' = Some art"
  shows "\<exists>m. read_manifest_entry js index name = Some m
    \<and> wit_contract m = or_else (get_str js entry ''wit_contract'') []
    \<and> (set (requires_components m) \<subseteq> set (available_components e) \<longrightarrow> wasm_runtime e \<longrightarrow>
        (\<exists>r. resolve m e no_policy None = Inr r \<and> chosen_id r = ''wasm-component''
          \<and> artifact r = (if starts_with ''https://'' art then Url art else Path art)))
    \<and> (\<forall>r. resolve m e no_policy (Some canon) \<noteq> Inr r)"
proof -
  let ?p = "\<lparr>provider_id = ''wasm-component'',
     provider_kind = Wasm (''duckdb:extension@'' @ or_else (get_str js entry ''wit_contract_version'') ''2.0.0'')
       (artifact_ref art) (get_str js entry ''content_digest'') False,
     reference = True, conformance_record = None, trust_record = None\<rparr>"
  obtain m where m: "read_manifest_entry js index name = Some m" and ps: "providers m = [?p]"
    and c: "wit_contract m = or_else (get_str js entry ''wit_contract'') []"
    using assms by (simp add: read_manifest_entry_def entry_providers_def Let_def)
  have adm: "admissible m e no_policy None ?p \<longleftrightarrow> wasm_runtime e"
    "admissible m e no_policy (Some canon) ?p = False"
    by (simp_all add: admissible_def certified_def no_policy_def)
  have "\<exists>r. resolve m e no_policy None = Inr r \<and> chosen_id r = ''wasm-component''
      \<and> artifact r = (if starts_with ''https://'' art then Url art else Path art)"
    if "set (requires_components m) \<subseteq> set (available_components e)" "wasm_runtime e"
    using that missing_Nil [of m e] adm
    by (simp add: resolve_eq ps Let_def best_def chosen_artifact_def artifact_ref_def)
  moreover have "\<not> (\<exists>r. resolve m e no_policy (Some canon) = Inr r)"
    unfolding resolve_succeeds_iff ps using adm(2) by simp
  ultimately show ?thesis using m c by blast
qed

definition demo_json :: "nat json" where
  "demo_json = \<lparr>
     jget = (\<lambda>v k. if v = 0 \<and> k = ''extensions'' then Some 1
              else if v = 2 \<and> k = ''name'' then Some 3
              else if v = 2 \<and> k = ''artifact'' then Some 4 else None),
     jstr = (\<lambda>v. if v = 3 then Some ''aba'' else if v = 4 then Some ''https://x/aba.wasm'' else None),
     jarr = (\<lambda>v. if v = 1 then Some [2] else None), jbool = (\<lambda>_. None)\<rparr>"

theorem legacy_entry_resolves_witness:
  "\<exists>m r. read_manifest_entry demo_json 0 ''aba'' = Some m
    \<and> resolve m default_env no_policy None = Inr r \<and> artifact r = Url ''https://x/aba.wasm''"
proof -
  have req: "read_manifest_entry demo_json 0 ''aba'' = Some m \<Longrightarrow> requires_components m = []" for m
    by (simp add: read_manifest_entry_def get_arr_def get_str_def demo_json_def Let_def
        entry_providers_def) auto
  show ?thesis
    using legacy_entry_resolves [of demo_json 0 "[2]" "''aba''" 2 "[]" "''https://x/aba.wasm''" default_env]
      req by (force simp: get_arr_def get_str_def demo_json_def default_env_def starts_with_def)
qed

end
