(* ===== verification/Sql_Lex.thy ===== *)
theory Sql_Lex
  imports Text_Lines
begin

text \<open>
  The lexical layer of the SQL interception, \<open>crates/ducklink-host/src/at5_intercept.rs\<close>:
  keyword tests, comments, statement splitting, quoted strings, identifiers and the scanners
  that look for a top-level comma, keyword, \<open>=\<close> or closing parenthesis. A \<open>&str\<close> is its UTF-8
  bytes; the loops over byte indices are recursions over the rest of the text. The nesting depth
  is an unbounded integer: the \<open>i32\<close> of the code cannot overflow on a text under 2 GiB.
\<close>

datatype quote_mode = Plain | In_single | In_double

definition is_word_byte :: "char \<Rightarrow> bool" where
  "is_word_byte c \<longleftrightarrow> is_ascii_alnum c \<or> c = CHR ''_''"

definition first_byte :: "string \<Rightarrow> char option" where
  "first_byte s = (case s of [] \<Rightarrow> None | c # _ \<Rightarrow> Some c)"

text \<open>Is the byte at the head, if any, not part of a word?\<close>

definition word_ends :: "string \<Rightarrow> bool" where
  "word_ends s = (case s of [] \<Rightarrow> True | c # _ \<Rightarrow> \<not> is_word_byte c)"

definition has_prefix_ci :: "string \<Rightarrow> string \<Rightarrow> bool" where
  "has_prefix_ci kw s \<longleftrightarrow> length kw \<le> length s \<and> eq_ignore_case (take (length kw) s) kw"

definition starts_with_kw_ci :: "string \<Rightarrow> string \<Rightarrow> bool" where
  "starts_with_kw_ci input kw =
     (let s = trim_start input in has_prefix_ci kw s \<and> word_ends (drop (length kw) s))"

definition is_bare_ident :: "string \<Rightarrow> bool" where
  "is_bare_ident s =
     (case s of
        [] \<Rightarrow> False
      | c # r \<Rightarrow> (is_ascii_alpha c \<or> c = CHR ''_'') \<and> list_all is_word_byte r)"

definition split_alias_table :: "string \<Rightarrow> (string \<times> string) option" where
  "split_alias_table ident =
     (case split_once (CHR ''.'') (trim ident) of
        None \<Rightarrow> None
      | Some (a, r) \<Rightarrow>
          (let alias = trim a; rest = trim r
           in if alias = [] \<or> rest = [] then None
              else if CHR ''.'' \<in> set rest then None
              else if \<not> is_bare_ident alias \<or> \<not> is_bare_ident rest then None
              else Some (alias, rest)))"

section \<open>Comments and statements\<close>

text \<open>The length of the rest of a block comment, to the end of the text if it is not closed.\<close>

fun block_len :: "string \<Rightarrow> nat" where
  "block_len (a # b # s) =
     (if a = CHR ''*'' \<and> b = CHR ''/'' then 2 else Suc (block_len (b # s)))"
| "block_len [a] = 1"
| "block_len [] = 0"

definition skip_comment :: "string \<Rightarrow> nat" where
  "skip_comment s =
     (case s of
        a # b # r \<Rightarrow>
          if a = CHR ''-'' \<and> b = CHR ''-'' then 2 + length (takeWhile (\<lambda>c. c \<noteq> CHR 0x0A) r)
          else if a = CHR ''/'' \<and> b = CHR ''*'' then 2 + block_len r
          else 0
      | _ \<Rightarrow> 0)"

definition strip_trailing_semicolon :: "string \<Rightarrow> string" where
  "strip_trailing_semicolon s0 =
     (let s = trim s0
      in trim_end (case strip_suffix '';'' s of None \<Rightarrow> s | Some r \<Rightarrow> r))"

definition push_piece :: "string \<Rightarrow> string list \<Rightarrow> string list" where
  "push_piece piece out = (if trim piece \<noteq> [] then piece # out else out)"

text \<open>\<open>cur\<close> is the slice from the start of the statement to the current byte.\<close>

function (sequential) split_go :: "quote_mode \<Rightarrow> string \<Rightarrow> string \<Rightarrow> string list" where
  "split_go m cur [] = push_piece cur []"
| "split_go In_single cur (c # s) =
     split_go (if c = CHR 0x27 then Plain else In_single) (cur @ [c]) s"
| "split_go In_double cur (c # s) =
     split_go (if c = CHR 0x22 then Plain else In_double) (cur @ [c]) s"
| "split_go Plain cur (c # s) =
     (let k = skip_comment (c # s)
      in if k \<noteq> 0 then split_go Plain (cur @ take k (c # s)) (drop k (c # s))
         else if c = CHR 0x27 then split_go In_single (cur @ [c]) s
         else if c = CHR 0x22 then split_go In_double (cur @ [c]) s
         else if c = CHR '';'' then push_piece cur (split_go Plain [] s)
         else split_go Plain (cur @ [c]) s)"
  by pat_completeness auto
termination
  by (relation "measure (\<lambda>(m, cur, s). length s)") auto

definition split_statements :: "string \<Rightarrow> string list" where
  "split_statements sql = split_go Plain [] sql"

function (sequential) multi_go :: "quote_mode \<Rightarrow> bool \<Rightarrow> string \<Rightarrow> bool" where
  "multi_go m seen [] = False"
| "multi_go In_single seen (c # s) = multi_go (if c = CHR 0x27 then Plain else In_single) seen s"
| "multi_go In_double seen (c # s) = multi_go (if c = CHR 0x22 then Plain else In_double) seen s"
| "multi_go Plain seen (c # s) =
     (let k = skip_comment (c # s)
      in if k \<noteq> 0 then multi_go Plain seen (drop k (c # s))
         else if c = CHR 0x27 then multi_go In_single seen s
         else if c = CHR 0x22 then multi_go In_double seen s
         else if c = CHR '';'' then (if seen then True else multi_go Plain True s)
         else if seen \<and> \<not> is_ascii_ws c then True
         else multi_go Plain seen s)"
  by pat_completeness auto
termination
  by (relation "measure (\<lambda>(m, seen, s). length s)") auto

definition is_multi_statement :: "string \<Rightarrow> bool" where
  "is_multi_statement sql = multi_go Plain False sql"

section \<open>Tokens\<close>

definition strip_quotes :: "string \<Rightarrow> string option" where
  "strip_quotes v =
     (if 2 \<le> length v \<and> hd v = CHR 0x27 \<and> last v = CHR 0x27
      then Some (str_replace [CHR 0x27, CHR 0x27] [CHR 0x27] (butlast (tl v))) else None)"

text \<open>The text up to the closing quote and the rest; a doubled quote is one quote, and a byte is
  pushed as the code point of the same number.\<close>

fun quoted_go :: "string \<Rightarrow> (string \<times> string) option" where
  "quoted_go [] = None"
| "quoted_go [c] = (if c = CHR 0x27 then Some ([], []) else None)"
| "quoted_go (c # d # s) =
     (if c = CHR 0x27 then
        (if d = CHR 0x27 then map_option (\<lambda>(out, r). (CHR 0x27 # out, r)) (quoted_go s)
         else Some ([], d # s))
      else map_option (\<lambda>(out, r). (latin1 c @ out, r)) (quoted_go (d # s)))"

definition parse_single_quoted_string :: "string \<Rightarrow> (string \<times> string) option" where
  "parse_single_quoted_string s =
     (case s of
        [] \<Rightarrow> None
      | c # r \<Rightarrow> if c = CHR 0x27 then quoted_go r else None)"

definition parse_bare_ident :: "string \<Rightarrow> (string \<times> string) option" where
  "parse_bare_ident s0 =
     (case trim_start s0 of
        [] \<Rightarrow> None
      | c # r \<Rightarrow>
          if \<not> (is_ascii_alpha c \<or> c = CHR ''_'') then None
          else Some (c # takeWhile is_word_byte r, dropWhile is_word_byte r))"

definition is_open_bracket :: "char \<Rightarrow> bool" where
  "is_open_bracket c \<longleftrightarrow> c = CHR ''('' \<or> c = CHR ''[''"

definition is_close_bracket :: "char \<Rightarrow> bool" where
  "is_close_bracket c \<longleftrightarrow> c = CHR '')'' \<or> c = CHR '']''"

fun commas_go :: "quote_mode \<Rightarrow> int \<Rightarrow> string \<Rightarrow> string \<Rightarrow> string list" where
  "commas_go m d buf [] = (if trim buf \<noteq> [] then [buf] else [])"
| "commas_go In_single d buf (c # s) =
     commas_go (if c = CHR 0x27 then Plain else In_single) d (buf @ [c]) s"
| "commas_go In_double d buf (c # s) =
     commas_go (if c = CHR 0x22 then Plain else In_double) d (buf @ [c]) s"
| "commas_go Plain d buf (c # s) =
     (if c = CHR 0x27 then commas_go In_single d (buf @ [c]) s
      else if c = CHR 0x22 then commas_go In_double d (buf @ [c]) s
      else if is_open_bracket c then commas_go Plain (d + 1) (buf @ [c]) s
      else if is_close_bracket c then commas_go Plain (d - 1) (buf @ [c]) s
      else if c = CHR '','' \<and> d = 0 then buf # commas_go Plain d [] s
      else commas_go Plain d (buf @ [c]) s)"

definition split_top_level_commas :: "string \<Rightarrow> string list" where
  "split_top_level_commas s = commas_go Plain 0 [] s"

section \<open>Scanners of the write path\<close>

definition strip_optional_if_not_exists :: "string \<Rightarrow> bool \<times> string" where
  "strip_optional_if_not_exists sql =
     (if \<not> starts_with_kw_ci sql ''IF'' then (False, sql)
      else (let after_if = trim_start (drop 2 sql)
            in if \<not> starts_with_kw_ci after_if ''NOT'' then (False, sql)
               else (let after_not = trim_start (drop 3 after_if)
                     in if \<not> starts_with_kw_ci after_not ''EXISTS'' then (False, sql)
                        else (True, trim_start (drop 6 after_not)))))"

definition split_first_token :: "string \<Rightarrow> string \<times> string" where
  "split_first_token s0 =
     (let s = trim_start s0
      in (takeWhile (\<lambda>c. \<not> is_ascii_ws c) s, dropWhile (\<lambda>c. \<not> is_ascii_ws c) s))"

definition take_dotted_ident :: "string \<Rightarrow> string \<times> string" where
  "take_dotted_ident sql0 =
     (let sql = trim_start sql0;
          ok = (\<lambda>c. is_word_byte c \<or> c = CHR ''.'' \<or> c = CHR 0x22)
      in (takeWhile ok sql, dropWhile ok sql))"

definition strip_ident_quotes :: "string \<Rightarrow> string" where
  "strip_ident_quotes s0 =
     (let s = trim s0
      in if 2 \<le> length s \<and> (hd s = CHR 0x22 \<and> last s = CHR 0x22
              \<or> hd s = CHR 0x60 \<and> last s = CHR 0x60)
         then butlast (tl s) else s)"

definition constraint_keywords :: "string list" where
  "constraint_keywords =
     [''PRIMARY'', ''NOT'', ''UNIQUE'', ''DEFAULT'', ''CHECK'', ''REFERENCES'', ''COLLATE'',
      ''GENERATED'', ''AUTO_INCREMENT'', ''AUTOINCREMENT'', ''NULL'']"

definition word_at :: "string \<Rightarrow> string \<Rightarrow> bool" where
  "word_at kw s \<longleftrightarrow> has_prefix_ci kw s \<and> word_ends (drop (length kw) s)"

definition word_starts :: "char option \<Rightarrow> bool" where
  "word_starts prev = (case prev of None \<Rightarrow> True | Some c \<Rightarrow> \<not> is_word_byte c)"

text \<open>The slice before the first constraint keyword; \<open>prev\<close> is the byte before the current one.\<close>

fun constraints_go :: "quote_mode \<Rightarrow> int \<Rightarrow> char option \<Rightarrow> string \<Rightarrow> string" where
  "constraints_go m d prev [] = []"
| "constraints_go In_single d prev (c # s) =
     (if c = CHR 0x27 then
        (case s of
           e # s' \<Rightarrow>
             if e = CHR 0x27 then c # e # constraints_go In_single d (Some e) s'
             else c # constraints_go Plain d (Some c) s
         | [] \<Rightarrow> [c])
      else c # constraints_go In_single d (Some c) s)"
| "constraints_go In_double d prev (c # s) =
     c # constraints_go (if c = CHR 0x22 then Plain else In_double) d (Some c) s"
| "constraints_go Plain d prev (c # s) =
     (if c = CHR 0x27 then c # constraints_go In_single d (Some c) s
      else if c = CHR 0x22 then c # constraints_go In_double d (Some c) s
      else if is_open_bracket c then c # constraints_go Plain (d + 1) (Some c) s
      else if is_close_bracket c then c # constraints_go Plain (d - 1) (Some c) s
      else if d = 0 \<and> word_starts prev \<and> list_ex (\<lambda>kw. word_at kw (c # s)) constraint_keywords
      then []
      else c # constraints_go Plain d (Some c) s)"

definition strip_column_constraints :: "string \<Rightarrow> string" where
  "strip_column_constraints s = trim (constraints_go Plain 0 None s)"

fun param_go :: "quote_mode \<Rightarrow> string \<Rightarrow> bool" where
  "param_go m [] = False"
| "param_go In_single (c # s) =
     (if c = CHR 0x27 then
        (case s of
           e # s' \<Rightarrow> if e = CHR 0x27 then param_go In_single s' else param_go Plain s
         | [] \<Rightarrow> False)
      else param_go In_single s)"
| "param_go In_double (c # s) = param_go (if c = CHR 0x22 then Plain else In_double) s"
| "param_go Plain (c # s) =
     (if c = CHR 0x27 then param_go In_single s
      else if c = CHR 0x22 then param_go In_double s
      else if c = CHR ''?'' then True
      else if c = CHR ''$'' \<and> (case s of [] \<Rightarrow> False | e # _ \<Rightarrow> is_ascii_digit e) then True
      else param_go Plain s)"

definition contains_param_marker :: "string \<Rightarrow> bool" where
  "contains_param_marker sql = param_go Plain sql"

definition strip_optional_or_clause :: "string \<Rightarrow> string option \<times> string" where
  "strip_optional_or_clause sql =
     (if \<not> starts_with_kw_ci sql ''OR'' then (None, sql)
      else (let after_or = trim_start (drop 2 sql)
            in (case filter (starts_with_kw_ci after_or)
                   [''REPLACE'', ''IGNORE'', ''FAIL'', ''ABORT'', ''ROLLBACK''] of
                  [] \<Rightarrow> (None, sql)
                | kw # _ \<Rightarrow>
                    (Some (''INSERT OR '' @ kw @ '' on attached foreign catalogs''),
                     trim_start (drop (length kw) after_or)))))"

fun before_kw_go ::
  "string \<Rightarrow> quote_mode \<Rightarrow> int \<Rightarrow> char option \<Rightarrow> string \<Rightarrow> string \<times> string option" where
  "before_kw_go kw m d prev [] = ([], None)"
| "before_kw_go kw In_single d prev (c # s) =
     (if c = CHR 0x27 then
        (case s of
           e # s' \<Rightarrow>
             if e = CHR 0x27
             then map_prod (\<lambda>b. c # e # b) (\<lambda>w. w) (before_kw_go kw In_single d (Some e) s')
             else map_prod (\<lambda>b. c # b) (\<lambda>w. w) (before_kw_go kw Plain d (Some c) s)
         | [] \<Rightarrow> ([c], None))
      else map_prod (\<lambda>b. c # b) (\<lambda>w. w) (before_kw_go kw In_single d (Some c) s))"
| "before_kw_go kw In_double d prev (c # s) =
     map_prod (\<lambda>b. c # b) (\<lambda>w. w)
       (before_kw_go kw (if c = CHR 0x22 then Plain else In_double) d (Some c) s)"
| "before_kw_go kw Plain d prev (c # s) =
     (if c = CHR 0x27 then map_prod (\<lambda>b. c # b) (\<lambda>w. w) (before_kw_go kw In_single d (Some c) s)
      else if c = CHR 0x22 then
        map_prod (\<lambda>b. c # b) (\<lambda>w. w) (before_kw_go kw In_double d (Some c) s)
      else if is_open_bracket c then
        map_prod (\<lambda>b. c # b) (\<lambda>w. w) (before_kw_go kw Plain (d + 1) (Some c) s)
      else if is_close_bracket c then
        map_prod (\<lambda>b. c # b) (\<lambda>w. w) (before_kw_go kw Plain (d - 1) (Some c) s)
      else if d = 0 \<and> word_starts prev \<and> word_at kw (c # s) then
        ([], Some (trim (drop (length kw) (c # s))))
      else map_prod (\<lambda>b. c # b) (\<lambda>w. w) (before_kw_go kw Plain d (Some c) s))"

definition split_before_kw_ci :: "string \<Rightarrow> string \<Rightarrow> string \<times> string option" where
  "split_before_kw_ci s kw = before_kw_go kw Plain 0 None s"

fun assign_go :: "nat \<Rightarrow> quote_mode \<Rightarrow> int \<Rightarrow> string \<Rightarrow> nat option" where
  "assign_go i m d [] = None"
| "assign_go i In_single d (c # s) =
     assign_go (i + 1) (if c = CHR 0x27 \<and> first_byte s \<noteq> Some (CHR 0x27) then Plain else In_single)
       d s"
| "assign_go i In_double d (c # s) =
     assign_go (i + 1) (if c = CHR 0x22 then Plain else In_double) d s"
| "assign_go i Plain d (c # s) =
     (if c = CHR 0x27 then assign_go (i + 1) In_single d s
      else if c = CHR 0x22 then assign_go (i + 1) In_double d s
      else if is_open_bracket c then assign_go (i + 1) Plain (d + 1) s
      else if is_close_bracket c then assign_go (i + 1) Plain (d - 1) s
      else if c = CHR ''='' \<and> d = 0 then Some i
      else assign_go (i + 1) Plain d s)"

definition find_assignment_equals :: "string \<Rightarrow> nat option" where
  "find_assignment_equals s = assign_go 0 Plain 0 s"

fun balanced_go :: "char \<Rightarrow> char \<Rightarrow> nat \<Rightarrow> quote_mode \<Rightarrow> int \<Rightarrow> string \<Rightarrow> nat option" where
  "balanced_go op cl i m d [] = None"
| "balanced_go op cl i In_single d (c # s) =
     balanced_go op cl (i + 1)
       (if c = CHR 0x27 \<and> first_byte s \<noteq> Some (CHR 0x27) then Plain else In_single) d s"
| "balanced_go op cl i In_double d (c # s) =
     balanced_go op cl (i + 1) (if c = CHR 0x22 then Plain else In_double) d s"
| "balanced_go op cl i Plain d (c # s) =
     (if c = CHR 0x27 then balanced_go op cl (i + 1) In_single d s
      else if c = CHR 0x22 then balanced_go op cl (i + 1) In_double d s
      else if c = op then balanced_go op cl (i + 1) Plain (d + 1) s
      else if c = cl then
        (if d - 1 = 0 then Some i else balanced_go op cl (i + 1) Plain (d - 1) s)
      else balanced_go op cl (i + 1) Plain d s)"

definition balanced_close :: "string \<Rightarrow> char \<Rightarrow> char \<Rightarrow> nat option" where
  "balanced_close sql op cl =
     (if first_byte sql \<noteq> Some op then None else balanced_go op cl 0 Plain 0 sql)"

section \<open>Statements\<close>

text \<open>
  The specification of the splitter: the first statement of a text and what follows its
  semicolon.
\<close>

function (sequential) first_stmt :: "quote_mode \<Rightarrow> string \<Rightarrow> string \<times> string option" where
  "first_stmt m [] = ([], None)"
| "first_stmt In_single (c # s) =
     map_prod (Cons c) (\<lambda>r. r) (first_stmt (if c = CHR 0x27 then Plain else In_single) s)"
| "first_stmt In_double (c # s) =
     map_prod (Cons c) (\<lambda>r. r) (first_stmt (if c = CHR 0x22 then Plain else In_double) s)"
| "first_stmt Plain (c # s) =
     (let k = skip_comment (c # s)
      in if k \<noteq> 0 then map_prod ((@) (take k (c # s))) (\<lambda>r. r) (first_stmt Plain (drop k (c # s)))
         else if c = CHR 0x27 then map_prod (Cons c) (\<lambda>r. r) (first_stmt In_single s)
         else if c = CHR 0x22 then map_prod (Cons c) (\<lambda>r. r) (first_stmt In_double s)
         else if c = CHR '';'' then ([], Some s)
         else map_prod (Cons c) (\<lambda>r. r) (first_stmt Plain s))"
  by pat_completeness auto
termination
  by (relation "measure (\<lambda>(m, s). length s)") auto

lemma split_go_first:
  "split_go m cur s =
     (case first_stmt m s of
        (p, None) \<Rightarrow> push_piece (cur @ p) []
      | (p, Some r) \<Rightarrow> push_piece (cur @ p) (split_go Plain [] r))"
  by (induction m cur s rule: split_go.induct)
    (auto simp: Let_def split: prod.splits option.splits)

lemma block_len_take:
  "drop (block_len r) r \<noteq> [] \<Longrightarrow> block_len (take (block_len r) r @ x) = block_len r"
proof (induction r rule: block_len.induct)
  case (1 a b s)
  show ?case
  proof (cases "a = CHR ''*'' \<and> b = CHR ''/''")
    case False
    with "1.prems" have "drop (block_len (b # s)) (b # s) \<noteq> []" by simp
    with "1.IH" [OF False] have IH: "block_len (take (block_len (b # s)) (b # s) @ x) = block_len (b # s)"
      by simp
    obtain k where k: "block_len (b # s) = Suc k"
      by (cases s) (cases "block_len (b # s)"; simp split: if_splits)+
    from IH False show ?thesis by (auto simp: k)
  qed simp
qed auto

lemma skip_comment_take:
  assumes "skip_comment s = k" and "k \<noteq> 0" and "drop k s = p @ CHR '';'' # r"
  shows "skip_comment (take k s @ p) = k"
proof -
  obtain a b t where s: "s = a # b # t"
    using assms(1,2) by (auto simp: skip_comment_def split: list.splits)
  show ?thesis
  proof (cases "a = CHR ''-'' \<and> b = CHR ''-''")
    case True
    let ?w = "takeWhile (\<lambda>c. c \<noteq> CHR 0x0A) t"
    have k: "k = 2 + length ?w" using assms(1) True by (simp add: skip_comment_def s)
    then have d: "dropWhile (\<lambda>c. c \<noteq> CHR 0x0A) t = p @ CHR '';'' # r"
      using assms(3) by (simp add: s dropWhile_eq_drop)
    then obtain p' where p: "p = CHR 0x0A # p'"
      using hd_dropWhile [of "\<lambda>c. c \<noteq> CHR 0x0A" t] by (cases p) auto
    have t: "take k s @ p = a # b # ?w @ p" by (simp add: k s takeWhile_eq_take [symmetric])
    have "takeWhile (\<lambda>c. c \<noteq> CHR 0x0A) (?w @ p) = ?w"
      unfolding p by (simp add: takeWhile_append)
    then show ?thesis using True unfolding t by (simp add: skip_comment_def k)
  next
    case False
    then have ab: "a = CHR ''/'' \<and> b = CHR ''*''" and k: "k = 2 + block_len t"
      using assms(1,2) by (auto simp: skip_comment_def s split: if_splits)
    have "drop (block_len t) t \<noteq> []" using assms(3) by (simp add: s k)
    from block_len_take [OF this, of p] show ?thesis using ab by (simp add: skip_comment_def s k)
  qed
qed

lemma skip_comment_zero:
  "skip_comment (c # p @ CHR '';'' # r) = 0 \<Longrightarrow> skip_comment (c # p) = 0"
  by (cases p) (auto simp: skip_comment_def split: if_splits)

lemma first_stmt_None: "first_stmt m s = (p, None) \<Longrightarrow> p = s"
  by (induction m s arbitrary: p rule: first_stmt.induct)
    (auto simp: Let_def map_prod_def split: if_splits prod.splits)

lemma first_stmt_Some:
  "first_stmt m s = (p, Some r) \<Longrightarrow> s = p @ CHR '';'' # r \<and> first_stmt m p = (p, None)"
proof (induction m s arbitrary: p rule: first_stmt.induct)
  case (4 c s)
  let ?k = "skip_comment (c # s)"
  consider (comment) "?k \<noteq> 0" | (single) "?k = 0" "c = CHR 0x27" | (double) "?k = 0" "c = CHR 0x22"
    | (semi) "?k = 0" "c = CHR '';''"
    | (other) "?k = 0" "c \<noteq> CHR 0x27" "c \<noteq> CHR 0x22" "c \<noteq> CHR '';''" by blast
  then show ?case
  proof cases
    case comment
    with "4.prems" obtain p' where f: "first_stmt Plain (drop ?k (c # s)) = (p', Some r)"
      and p: "p = take ?k (c # s) @ p'" by (auto simp: Let_def map_prod_def split: prod.splits)
    from "4.IH"(1) [OF refl comment f]
    have IH: "drop ?k (c # s) = p' @ CHR '';'' # r" "first_stmt Plain p' = (p', None)" by auto
    have sk: "skip_comment p = ?k" unfolding p by (rule skip_comment_take [OF refl comment IH(1)])
    have s: "c # s = p @ CHR '';'' # r" unfolding p using IH(1) by (metis append.assoc append_take_drop_id)
    obtain k' where k': "?k = Suc k'" using comment by (cases ?k) auto
    obtain q where pq: "p = c # q" unfolding p by (simp add: k')
    have "?k < length (c # s)" using IH(1) by (metis append_is_Nil_conv drop_eq_Nil not_le list.distinct(1))
    then have dt: "drop ?k p = p'" "take ?k p @ p' = p" unfolding p by simp_all
    have "first_stmt Plain (c # q) = map_prod ((@) (take (skip_comment (c # q)) (c # q))) (\<lambda>r. r)
        (first_stmt Plain (drop (skip_comment (c # q)) (c # q)))"
      using sk comment unfolding pq by (simp add: Let_def)
    then have "first_stmt Plain p = (p, None)"
      unfolding pq [symmetric] sk dt(1) IH(2) using dt(2) by simp
    with s show ?thesis by blast
  next
    case other
    with "4.prems" obtain p' where f: "first_stmt Plain s = (p', Some r)" and p: "p = c # p'"
      by (auto simp: Let_def map_prod_def split: prod.splits)
    from "4.IH"(4) [OF refl _ other(2,3,4) f] other
    have IH: "s = p' @ CHR '';'' # r" "first_stmt Plain p' = (p', None)" by auto
    with other show ?thesis
      using skip_comment_zero [of c p' r] by (simp add: p Let_def)
  next
    case single
    with "4.prems" obtain p' where f: "first_stmt In_single s = (p', Some r)" and p: "p = c # p'"
      by (auto simp: Let_def map_prod_def split: prod.splits)
    from "4.IH"(2) [OF refl _ single(2) f] single
    have IH: "s = p' @ CHR '';'' # r" "first_stmt In_single p' = (p', None)" by auto
    with single show ?thesis using skip_comment_zero [of c p' r] by (simp add: p Let_def)
  next
    case double
    with "4.prems" obtain p' where f: "first_stmt In_double s = (p', Some r)" and p: "p = c # p'"
      by (auto simp: Let_def map_prod_def split: prod.splits)
    from "4.IH"(3) [OF refl _ _ double(2) f] double
    have IH: "s = p' @ CHR '';'' # r" "first_stmt In_double p' = (p', None)" by auto
    with double show ?thesis using skip_comment_zero [of c p' r] by (simp add: p Let_def)
  next
    case semi
    with "4.prems" show ?thesis by (auto simp: Let_def)
  qed
qed (auto simp: map_prod_def split: prod.splits if_splits)

text \<open>All pieces of a text, blank ones included.\<close>

lemma pieces:
  "\<exists>ps. join '';'' ps = sql \<and> ps \<noteq> [] \<and> split_statements sql = filter (\<lambda>p. trim p \<noteq> []) ps
    \<and> (\<forall>p \<in> set ps. split_statements p = (if trim p = [] then [] else [p]))"
proof (induction sql rule: length_induct)
  case (1 sql)
  obtain p r where f: "first_stmt Plain sql = (p, r)" by fastforce
  show ?case
  proof (cases r)
    case None
    with f have "p = sql" by (simp add: first_stmt_None)
    with f None show ?thesis
      by (intro exI [of _ "[sql]"]) (simp add: split_statements_def split_go_first push_piece_def)
  next
    case (Some t)
    with f have sql: "sql = p @ CHR '';'' # t" and fp: "first_stmt Plain p = (p, None)"
      by (simp_all add: first_stmt_Some)
    from sql have "length t < length sql" by simp
    with "1.IH" obtain ps where ps: "join '';'' ps = t" "ps \<noteq> []"
      "split_statements t = filter (\<lambda>p. trim p \<noteq> []) ps"
      "\<forall>p \<in> set ps. split_statements p = (if trim p = [] then [] else [p])" by blast
    have "split_statements sql = push_piece p (split_statements t)"
      using f Some unfolding split_statements_def by (subst split_go_first) simp
    moreover have "split_statements p = (if trim p = [] then [] else [p])"
      using fp unfolding split_statements_def by (subst split_go_first) (simp add: push_piece_def)
    moreover have "join '';'' (p # ps) = sql" using ps(1,2) sql by (simp add: join_Cons)
    ultimately show ?thesis
      using ps by (intro exI [of _ "p # ps"]) (simp add: push_piece_def)
  qed
qed

text \<open>
  Splitting a script is lossless and stable: the text is the pieces joined by semicolons,
  the statements are exactly the pieces that are not blank, in order, and each of them, split
  again, is one statement. So a semicolon inside a string literal, a quoted identifier or a
  comment never separates statements, and every other one does.
\<close>

theorem split_statements_lossless:
  "\<exists>ps. join '';'' ps = sql \<and> split_statements sql = filter (\<lambda>p. trim p \<noteq> []) ps
    \<and> (\<forall>p. p \<in> set (split_statements sql) \<longrightarrow> split_statements p = [p])"
proof -
  obtain ps where ps: "join '';'' ps = sql" "split_statements sql = filter (\<lambda>p. trim p \<noteq> []) ps"
    and st: "\<forall>p \<in> set ps. split_statements p = (if trim p = [] then [] else [p])"
    using pieces by blast
  have "split_statements p = [p]" if "p \<in> set (split_statements sql)" for p
    using that ps(2) st by auto
  with ps show ?thesis by blast
qed

theorem split_statements_lossless_witness:
  "split_statements (''INSERT INTO t VALUES ('' @ [CHR 0x27] @ ''a;b'' @ [CHR 0x27] @ '')'')
    = [''INSERT INTO t VALUES ('' @ [CHR 0x27] @ ''a;b'' @ [CHR 0x27] @ '')'']"
proof -
  let ?p = "''INSERT INTO t VALUES ('' @ [CHR 0x27] @ ''a;b'' @ [CHR 0x27] @ '')''"
  have "?p \<in> set (split_statements (''LOAD x;'' @ ?p @ '';''))" by code_simp
  then show ?thesis using split_statements_lossless [of "''LOAD x;'' @ ?p @ '';''"] by blast
qed

text \<open>
  The multi-statement test and the splitter disagree: a doubled final semicolon counts as
  several statements although there is one, and a second statement that begins with a quoted
  token and has nothing but quoted text is not seen.
\<close>

theorem multi_statement_disagrees:
  "is_multi_statement ''SELECT 1;;'' \<and> length (split_statements ''SELECT 1;;'') = 1
   \<and> \<not> is_multi_statement (''SELECT 1;'' @ [CHR 0x22] @ ''t'' @ [CHR 0x22])
   \<and> length (split_statements (''SELECT 1;'' @ [CHR 0x22] @ ''t'' @ [CHR 0x22])) = 2"
  by code_simp

section \<open>String literals\<close>

definition double_quotes :: "string \<Rightarrow> string" where
  "double_quotes t = concat (map (\<lambda>c. if c = CHR 0x27 then [CHR 0x27, CHR 0x27] else [c]) t)"

definition sql_literal :: "string \<Rightarrow> string" where
  "sql_literal t = CHR 0x27 # double_quotes t @ [CHR 0x27]"

lemma quoted_go_step: "c \<noteq> CHR 0x27 \<Longrightarrow> s \<noteq> [] \<Longrightarrow>
   quoted_go (c # s) = map_option (\<lambda>(out, r). (latin1 c @ out, r)) (quoted_go s)"
  by (cases s) auto

lemma latin1_quote: "latin1 (CHR 0x27) = [CHR 0x27]"
  by (simp add: latin1_def byte_nat_def)

lemma quoted_go_literal:
  "first_byte rest \<noteq> Some (CHR 0x27) \<Longrightarrow>
     quoted_go (double_quotes t @ CHR 0x27 # rest) = Some (concat (map latin1 t), rest)"
proof (induction t)
  case Nil
  then show ?case by (cases rest) (auto simp: double_quotes_def first_byte_def)
next
  case (Cons c t)
  have IH: "quoted_go (double_quotes t @ CHR 0x27 # rest) = Some (concat (map latin1 t), rest)"
    by (rule Cons.IH [OF Cons.prems])
  show ?case
  proof (cases "c = CHR 0x27")
    case True
    then have "double_quotes (c # t) = CHR 0x27 # CHR 0x27 # double_quotes t"
      by (simp add: double_quotes_def)
    with IH True show ?thesis by (simp add: latin1_quote)
  next
    case False
    then have "double_quotes (c # t) = c # double_quotes t" by (simp add: double_quotes_def)
    with IH False show ?thesis by (simp add: quoted_go_step)
  qed
qed

lemma latin1_ascii: "\<forall>c \<in> set t. byte_nat c < 128 \<Longrightarrow> concat (map latin1 t) = t"
  by (induction t) (auto simp: latin1_def Let_def)

lemma literal_head: "sql_literal t @ rest = CHR 0x27 # double_quotes t @ CHR 0x27 # rest"
  by (simp add: sql_literal_def)

text \<open>
  A single-quoted literal reads back: the text written between quotes, with every quote
  doubled, is returned together with what follows, and ASCII text unchanged. A byte of a
  non-ASCII character is pushed as the code point of that number, so it comes back re-encoded.
\<close>

theorem quoted_string_roundtrip:
  assumes "first_byte rest \<noteq> Some (CHR 0x27)"
  shows "parse_single_quoted_string (sql_literal t @ rest) = Some (concat (map latin1 t), rest)
    \<and> ((\<forall>c \<in> set t. byte_nat c < 128) \<longrightarrow> concat (map latin1 t) = t)"
  using quoted_go_literal [OF assms] latin1_ascii
  by (simp add: literal_head parse_single_quoted_string_def)

theorem quoted_string_roundtrip_witness:
  "parse_single_quoted_string (sql_literal [CHR ''a'', CHR 0x27, CHR 0xC3, CHR 0xA9] @ '' AS x'')
     = Some ([CHR ''a'', CHR 0x27, CHR 0xC3, CHR 0x83, CHR 0xC2, CHR 0xA9], '' AS x'')"
proof -
  have "first_byte '' AS x'' \<noteq> Some (CHR 0x27)" by (simp add: first_byte_def)
  from quoted_string_roundtrip [OF this, of "[CHR ''a'', CHR 0x27, CHR 0xC3, CHR 0xA9]"]
  moreover have "concat (map latin1 [CHR ''a'', CHR 0x27, CHR 0xC3, CHR 0xA9])
      = [CHR ''a'', CHR 0x27, CHR 0xC3, CHR 0x83, CHR 0xC2, CHR 0xA9]" by code_simp
  ultimately show ?thesis by simp
qed

section \<open>Commas and parentheses\<close>

lemma commas_go_pieces:
  "\<exists>ps last. join '','' (ps @ [last]) = buf @ s
     \<and> commas_go m d buf s = ps @ (if trim last \<noteq> [] then [last] else [])"
proof (induction m d buf s rule: commas_go.induct)
  case (1 m d buf)
  then show ?case by (intro exI [of _ "[]"] exI [of _ buf]) simp
next
  case (4 d buf c s)
  show ?case
  proof (cases "c \<noteq> CHR 0x27 \<and> c \<noteq> CHR 0x22 \<and> \<not> is_open_bracket c \<and> \<not> is_close_bracket c
      \<and> c = CHR '','' \<and> d = 0")
    case True
    with "4.IH"(5) obtain ps last where "join '','' (ps @ [last]) = s"
      "commas_go Plain d [] s = ps @ (if trim last \<noteq> [] then [last] else [])" by auto
    with True show ?thesis
      by (intro exI [of _ "buf # ps"] exI [of _ last])
        (simp add: join_Cons is_open_bracket_def is_close_bracket_def)
  next
    case False
    then show ?thesis using "4.IH" by (auto split: if_splits)
  qed
qed auto

text \<open>
  Splitting at top-level commas drops nothing but a blank last piece: the pieces, with the
  last one added back, joined by commas are the text.
\<close>

theorem top_level_commas_lossless:
  "\<exists>ps last. join '','' (ps @ [last]) = s
     \<and> split_top_level_commas s = ps @ (if trim last \<noteq> [] then [last] else [])"
  using commas_go_pieces [of "[]" s Plain 0] by (simp add: split_top_level_commas_def)

text \<open>The depth of a text without quotes.\<close>

definition nesting :: "char \<Rightarrow> char \<Rightarrow> string \<Rightarrow> int" where
  "nesting op cl s = int (count_list s op) - int (count_list s cl)"

lemma nesting_Cons:
  "op \<noteq> cl \<Longrightarrow> nesting op cl (c # s) = nesting op cl s + (if c = op then 1 else if c = cl then - 1 else 0)"
  by (simp add: nesting_def)

lemma balanced_go_sound:
  assumes "op \<noteq> cl" and "balanced_go op cl i Plain d s = Some j"
    and "CHR 0x27 \<notin> set s" "CHR 0x22 \<notin> set s"
  shows "\<exists>n. j = i + n \<and> n < length s \<and> s ! n = cl \<and> d + nesting op cl (take (n + 1) s) = 0"
  using assms(2-)
proof (induction s arbitrary: i d)
  case (Cons c s)
  have q: "c \<noteq> CHR 0x27" "c \<noteq> CHR 0x22" "CHR 0x27 \<notin> set s" "CHR 0x22 \<notin> set s"
    using Cons.prems by auto
  consider (stop) "c = cl" "d - 1 = 0"
    | (go) d' where "balanced_go op cl (i + 1) Plain d' s = Some j"
        "d' = d + (if c = op then 1 else if c = cl then - 1 else 0)"
    using Cons.prems(1) q(1,2) assms(1) by (auto split: if_splits)
  then show ?case
  proof cases
    case stop
    then show ?thesis
      using Cons.prems(1) q(1,2) assms(1)
      by (intro exI [of _ 0]) (auto simp: nesting_Cons nesting_def)
  next
    case go
    from Cons.IH [OF go(1) q(3,4)] obtain n where n: "j = i + 1 + n" "n < length s" "s ! n = cl"
      "d' + nesting op cl (take (n + 1) s) = 0" by blast
    then show ?thesis
      using go(2) by (intro exI [of _ "Suc n"]) (auto simp: nesting_Cons [OF assms(1)])
  qed
qed simp

text \<open>
  The matching parenthesis is right on text without quotes: the index found holds the
  closing character and the slice up to it, which begins with the opening character, is
  balanced.
\<close>

theorem balanced_close_matches:
  assumes "balanced_close sql op cl = Some i" and "op \<noteq> cl"
    and "CHR 0x27 \<notin> set sql" "CHR 0x22 \<notin> set sql"
  shows "first_byte sql = Some op \<and> i < length sql \<and> sql ! i = cl
    \<and> count_list (take (i + 1) sql) op = count_list (take (i + 1) sql) cl"
proof -
  have f: "first_byte sql = Some op" "balanced_go op cl 0 Plain 0 sql = Some i"
    using assms(1) by (auto simp: balanced_close_def split: if_splits)
  from balanced_go_sound [OF assms(2) f(2) assms(3,4)] f(1) show ?thesis
    by (auto simp: nesting_def)
qed

theorem balanced_close_matches_witness:
  "count_list (take 9 ''(a,(b),c),(d)'') (CHR ''('') = count_list (take 9 ''(a,(b),c),(d)'') (CHR '')'')
   \<and> ''(a,(b),c),(d)'' ! 8 = CHR '')''"
proof -
  have "balanced_close ''(a,(b),c),(d)'' (CHR ''('') (CHR '')'') = Some 8" by code_simp
  from balanced_close_matches [OF this] show ?thesis by simp
qed

text \<open>
  A doubled quote derails the scanner for the closing parenthesis: the literal
  \<open>'it''s'\<close> ends it in the state inside a string, so the parenthesis that closes the tuple is
  not found.
\<close>

theorem balanced_close_misses_doubled_quote:
  "balanced_close (''('' @ sql_literal (''it'' @ CHR 0x27 # ''s'') @ '')'') (CHR ''('') (CHR '')'') = None
   \<and> balanced_close (''('' @ sql_literal ''its'' @ '')'') (CHR ''('') (CHR '')'') = Some 6"
  by code_simp

end
