(* ===== verification/Sql_Numbers.thy ===== *)
theory Sql_Numbers
  imports Prelude
begin

text \<open>
  The two number parsers of the standard library that \<open>parse_value_literal\<close> of
  \<open>crates/ducklink-host/src/at5_intercept.rs\<close> calls: \<open>str::parse::<i64>\<close> and
  \<open>str::parse::<f64>\<close>. The float parser accepts the grammar of the standard library and returns
  the nearest binary64 value, ties to even, as its bit pattern; it is computed with exact
  integer arithmetic.
\<close>

definition digit_val :: "char \<Rightarrow> nat" where
  "digit_val c = byte_nat c - 48"

definition decimal :: "string \<Rightarrow> nat" where
  "decimal s = foldl (\<lambda>n c. 10 * n + digit_val c) 0 s"

definition split_sign :: "string \<Rightarrow> bool \<times> string" where
  "split_sign s =
     (case s of
        [] \<Rightarrow> (False, [])
      | c # r \<Rightarrow> if c = CHR ''-'' then (True, r) else if c = CHR ''+'' then (False, r) else (False, s))"

definition parse_i64 :: "string \<Rightarrow> i64 option" where
  "parse_i64 s =
     (let (neg, ds) = split_sign s;
          n = decimal ds
      in if ds = [] \<or> \<not> list_all is_ascii_digit ds then None
         else if neg then (if n \<le> 2 ^ 63 then Some (- word_of_nat n) else None)
         else if n < 2 ^ 63 then Some (word_of_nat n) else None)"

section \<open>Binary64\<close>

fun bit_length :: "nat \<Rightarrow> nat" where
  "bit_length n = (if n = 0 then 0 else Suc (bit_length (n div 2)))"

declare bit_length.simps [simp del]

text \<open>The quotient rounded to nearest, ties to even.\<close>

definition round_div :: "nat \<Rightarrow> nat \<Rightarrow> nat" where
  "round_div a b =
     (let q = a div b; r = a mod b
      in if 2 * r < b then q else if b < 2 * r then q + 1 else if even q then q else q + 1)"

text \<open>
  The magnitude bits of \<open>a / b\<close>: \<open>e\<close> is the binary exponent, at least that of the subnormals,
  and the significand is \<open>a / b\<close> scaled to an integer and rounded. A carry out of the significand
  goes into the exponent; the largest exponent is infinity.
\<close>

definition binary64_ratio :: "nat \<Rightarrow> nat \<Rightarrow> nat" where
  "binary64_ratio a b =
     (if a = 0 then 0
      else let e0 = int (bit_length a) - int (bit_length b);
               below = (if 0 \<le> e0 then a < b * 2 ^ nat e0 else a * 2 ^ nat (- e0) < b);
               e = max (if below then e0 - 1 else e0) (- 1022);
               k = 52 - e;
               q = (if 0 \<le> k then round_div (a * 2 ^ nat k) b else round_div a (b * 2 ^ nat (- k)));
               bits = nat (e + 1022) * 2 ^ 52 + q
           in min bits (2047 * 2 ^ 52))"

definition with_sign :: "bool \<Rightarrow> nat \<Rightarrow> f64" where
  "with_sign neg m = word_of_nat (m + (if neg then 2 ^ 63 else 0))"

definition infinity_bits :: nat where "infinity_bits = 2047 * 2 ^ 52"

definition nan_bits :: nat where "nan_bits = 2047 * 2 ^ 52 + 2 ^ 51"

text \<open>The exponent part: absent, or \<open>e\<close>, a sign and at least one digit.\<close>

definition parse_exponent :: "string \<Rightarrow> int option" where
  "parse_exponent s =
     (case s of
        [] \<Rightarrow> Some 0
      | c # r \<Rightarrow>
          if c \<noteq> CHR ''e'' \<and> c \<noteq> CHR ''E'' then None
          else (let (neg, ds) = split_sign r
                in if ds = [] \<or> \<not> list_all is_ascii_digit ds then None
                   else Some (if neg then - int (decimal ds) else int (decimal ds))))"

definition parse_f64 :: "string \<Rightarrow> f64 option" where
  "parse_f64 s =
     (let (neg, body) = split_sign s;
          whole = takeWhile is_ascii_digit body;
          rest = dropWhile is_ascii_digit body;
          (frac, tail) = (case rest of
              c # r \<Rightarrow> if c = CHR ''.'' then (takeWhile is_ascii_digit r, dropWhile is_ascii_digit r)
                       else ([], rest)
            | [] \<Rightarrow> ([], []))
      in if eq_ignore_case body ''inf'' \<or> eq_ignore_case body ''infinity''
         then Some (with_sign neg infinity_bits)
         else if eq_ignore_case body ''nan'' then Some (with_sign neg nan_bits)
         else if whole = [] \<and> frac = [] then None
         else (case parse_exponent tail of
             None \<Rightarrow> None
           | Some x \<Rightarrow>
               (let m = decimal (whole @ frac); e = x - int (length frac)
                in Some (with_sign neg
                     (if 0 \<le> e then binary64_ratio (m * 10 ^ nat e) 1
                      else binary64_ratio m (10 ^ nat (- e)))))))"

section \<open>Integers read back\<close>

lemma digit_char_props:
  "d < 10 \<Longrightarrow> is_ascii_digit (digit_char d) \<and> digit_val (digit_char d) = d
    \<and> digit_char d \<noteq> CHR ''-'' \<and> digit_char d \<noteq> CHR ''+''"
proof -
  assume "d < 10"
  then have "d \<in> {0, 1, 2, 3, 4, 5, 6, 7, 8, 9}" by auto
  then show ?thesis
    by (elim insertE)
      (auto simp: digit_char_def digit_val_def is_ascii_digit_def nat_byte_def byte_nat_def
        char_of_def bit_simps less_eq_char_def)
qed

lemma decimal_append: "decimal (s @ [c]) = 10 * decimal s + digit_val c"
  by (simp add: decimal_def)

lemma show_nat_decimal:
  "show_nat n \<noteq> [] \<and> list_all is_ascii_digit (show_nat n) \<and> decimal (show_nat n) = n"
proof (induction n rule: show_nat.induct)
  case (1 n)
  show ?case
  proof (cases "n < 10")
    case True
    then show ?thesis using digit_char_props [of n] by (simp add: show_nat.simps [of n] decimal_def)
  next
    case False
    then show ?thesis
      using 1 digit_char_props [of "n mod 10"] by (simp add: show_nat.simps [of n] decimal_append)
  qed
qed

lemma show_nat_sign: "split_sign (show_nat n) = (False, show_nat n)"
proof -
  obtain c r where s: "show_nat n = c # r" using show_nat_decimal [of n] by (cases "show_nat n") auto
  then have "is_ascii_digit c" using show_nat_decimal [of n] by simp
  then have "c \<noteq> CHR ''-''" "c \<noteq> CHR ''+''" by (auto simp: is_ascii_digit_def less_eq_char_def)
  with s show ?thesis by (simp add: split_sign_def)
qed

lemma parse_i64_show:
  assumes "- (2 ^ 63) \<le> i" "i < 2 ^ 63"
  shows "parse_i64 (show_int i) = Some (word_of_int i)"
proof (cases "i < 0")
  case True
  have "split_sign (show_int i) = (True, show_nat (nat (- i)))"
    using True by (simp add: show_int_def split_sign_def)
  moreover have "(- word_of_nat (nat (- i)) :: i64) = word_of_int i"
    using True by (simp add: of_nat_nat)
  ultimately show ?thesis
    using assms show_nat_decimal [of "nat (- i)"] by (simp add: parse_i64_def Let_def)
next
  case False
  have "split_sign (show_int i) = (False, show_nat (nat i))"
    using False by (simp add: show_int_def show_nat_sign)
  moreover have "(word_of_nat (nat i) :: i64) = word_of_int i"
    using False by (simp add: of_nat_nat)
  ultimately show ?thesis
    using assms False show_nat_decimal [of "nat i"] by (simp add: parse_i64_def Let_def)
qed

end
