(* ===== verification/Sql_Write.thy ===== *)
theory Sql_Write
  imports Sql_Lex Sql_Numbers
begin

text \<open>
  The interception of statements against attached foreign catalogs,
  \<open>crates/ducklink-host/src/at5_intercept.rs\<close>: \<open>parse_attach\<close> and the write router
  \<open>resolve_write_target\<close> with its INSERT, UPDATE, DELETE and CREATE TABLE parsers. The map of
  attached catalogs is used through its keys only, given as a list; a float is its bit pattern.
\<close>

record attach_spec =
  dsn :: string
  attach_alias :: string
  attach_type :: string
  attach_options :: "(string \<times> string) list"
  attach_if_not_exists :: bool
  read_only :: bool

datatype value_literal =
    VL_Null | VL_Integer i64 | VL_Float f64 | VL_String string | VL_Blob "u8 list" | VL_Raw string

record create_table_column =
  col_name :: string
  col_type :: string

datatype write_route =
    Insert string string "string list" "value_literal list list"
  | Update string string "(string \<times> string) list" "string option"
  | Delete string string "string option"
  | Create_Table string string "create_table_column list" bool
  | Route_Unsupported string

section \<open>ATTACH\<close>

fun attach_options_go ::
  "string list \<Rightarrow> string option \<Rightarrow> (string \<times> string) list \<Rightarrow> (string \<times> (string \<times> string) list) option" where
  "attach_options_go [] ty opts = (case ty of None \<Rightarrow> None | Some t \<Rightarrow> Some (t, opts))"
| "attach_options_go (part0 # parts) ty opts =
     (let part = trim part0;
          unquote = (\<lambda>v. case strip_quotes v of None \<Rightarrow> v | Some q \<Rightarrow> q)
      in if starts_with_kw_ci part ''TYPE'' then
           (let v0 = trim (drop 4 part);
                v = trim (case strip_prefix ''='' v0 of None \<Rightarrow> v0 | Some r \<Rightarrow> r)
            in attach_options_go parts (Some (unquote v)) opts)
         else if starts_with_kw_ci part ''READ_ONLY'' then
           attach_options_go parts ty (opts @ [(''read_only'', ''true'')])
         else (case find_sub ''='' part of
             Some eq \<Rightarrow>
               attach_options_go parts ty
                 (opts @ [(trim (take eq part), unquote (trim (drop (eq + 1) part)))])
           | None \<Rightarrow> attach_options_go parts ty opts))"

definition parse_attach_options :: "string \<Rightarrow> (string \<times> (string \<times> string) list) option" where
  "parse_attach_options inside = attach_options_go (split_top_level_commas inside) None []"

text \<open>\<open>rfind\<close> of a character: the index of its last occurrence.\<close>

definition rfind_char :: "char \<Rightarrow> string \<Rightarrow> nat option" where
  "rfind_char c s =
     (case find_sub [c] (rev s) of None \<Rightarrow> None | Some i \<Rightarrow> Some (length s - 1 - i))"

text \<open>The optional \<open>IF NOT EXISTS\<close>; \<^const>\<open>None\<close> when it is begun and not finished.\<close>

definition attach_if_clause :: "string \<Rightarrow> (bool \<times> string) option" where
  "attach_if_clause rest =
     (if starts_with_kw_ci rest ''IF'' then
        (let after_if = trim_start (drop 2 rest)
         in if starts_with_kw_ci after_if ''NOT'' then
              (let after_not = trim_start (drop 3 after_if)
               in if starts_with_kw_ci after_not ''EXISTS''
                  then Some (True, trim_start (drop 6 after_not)) else None)
            else None)
      else Some (False, rest))"

definition parse_attach_tail :: "bool \<Rightarrow> string \<Rightarrow> string \<Rightarrow> attach_spec option" where
  "parse_attach_tail if_not_exists d rest_after_dsn =
     (let rest = trim_start rest_after_dsn
      in if \<not> starts_with_kw_ci rest ''AS'' then None
         else (case parse_bare_ident (trim_start (drop 2 rest)) of
             None \<Rightarrow> None
           | Some (alias, rest_after_alias) \<Rightarrow>
               (let rest1 = trim_start rest_after_alias
                in if first_byte rest1 \<noteq> Some (CHR ''('') then None
                   else (case rfind_char (CHR '')'') rest1 of
                       None \<Rightarrow> None
                     | Some close \<Rightarrow>
                         (case parse_attach_options (take (close - 1) (drop 1 rest1)) of
                            None \<Rightarrow> None
                          | Some (ty, opts) \<Rightarrow>
                              Some \<lparr>dsn = d, attach_alias = alias, attach_type = ty,
                                    attach_options = opts, attach_if_not_exists = if_not_exists,
                                    read_only = list_ex (\<lambda>(k, _). eq_ignore_case k ''read_only'') opts\<rparr>)))))"

definition parse_attach :: "string \<Rightarrow> attach_spec option" where
  "parse_attach sql0 =
     (let sql = trim (strip_trailing_semicolon sql0)
      in if \<not> starts_with_kw_ci sql ''ATTACH'' then None
         else (case attach_if_clause (trim_start (drop 6 sql)) of
             None \<Rightarrow> None
           | Some (if_not_exists, rest) \<Rightarrow>
               (case parse_single_quoted_string rest of
                  None \<Rightarrow> None
                | Some (d, rest_after_dsn) \<Rightarrow> parse_attach_tail if_not_exists d rest_after_dsn)))"

section \<open>Values\<close>

definition hex_val :: "char \<Rightarrow> nat option" where
  "hex_val b =
     (if is_ascii_digit b then Some (byte_nat b - 48)
      else if CHR ''a'' \<le> b \<and> b \<le> CHR ''f'' then Some (10 + (byte_nat b - 97))
      else if CHR ''A'' \<le> b \<and> b \<le> CHR ''F'' then Some (10 + (byte_nat b - 65))
      else None)"

fun hex_pairs :: "string \<Rightarrow> u8 list option" where
  "hex_pairs (a # b # s) =
     (case (hex_val a, hex_val b) of
        (Some hi, Some lo) \<Rightarrow> map_option (Cons (word_of_nat (16 * hi + lo))) (hex_pairs s)
      | _ \<Rightarrow> None)"
| "hex_pairs [a] = None"
| "hex_pairs [] = Some []"

definition decode_hex :: "string \<Rightarrow> u8 list option" where
  "decode_hex s = (if odd (length s) then None else hex_pairs s)"

definition parse_value_literal :: "string \<Rightarrow> value_literal" where
  "parse_value_literal s0 =
     (let s = trim s0;
          quoted = Option.bind (strip_prefix [CHR 0x27] s) (strip_suffix [CHR 0x27]);
          blob = (if starts_with [CHR ''X'', CHR 0x27] s \<or> starts_with [CHR ''x'', CHR 0x27] s
                  then Option.bind (strip_suffix [CHR 0x27] (drop 2 s)) decode_hex else None)
      in if eq_ignore_case s ''NULL'' then VL_Null
         else (case quoted of
             Some q \<Rightarrow> VL_String (str_replace [CHR 0x27, CHR 0x27] [CHR 0x27] q)
           | None \<Rightarrow>
             (case blob of
                Some b \<Rightarrow> VL_Blob b
              | None \<Rightarrow>
                (case parse_i64 s of
                   Some i \<Rightarrow> VL_Integer i
                 | None \<Rightarrow>
                   (case parse_f64 s of
                      Some f \<Rightarrow> VL_Float f
                    | None \<Rightarrow> VL_Raw s)))))"

lemma balanced_go_bound: "balanced_go op cl i m d s = Some j \<Longrightarrow> j < i + length s"
proof (induction s arbitrary: i m d)
  case (Cons c s)
  show ?case
    by (cases m) (use Cons.prems in \<open>auto split: if_splits dest!: Cons.IH\<close>)
qed simp

lemma balanced_close_bound: "balanced_close s op cl = Some j \<Longrightarrow> j < length s"
  using balanced_go_bound [of op cl 0 Plain 0 s j] by (auto simp: balanced_close_def split: if_splits)

function tuples_go :: "value_literal list list \<Rightarrow> string \<Rightarrow> value_literal list list option" where
  "tuples_go out s0 =
     (let s = dropWhile is_ascii_ws s0
      in case s of
           [] \<Rightarrow> (if out = [] then None else Some out)
         | c # r \<Rightarrow>
             if c = CHR '','' then tuples_go out r
             else if c = CHR '';'' then (if out = [] then None else Some out)
             else if c \<noteq> CHR ''('' then (if out = [] then None else Some out)
             else (case balanced_close s (CHR ''('') (CHR '')'') of
                 None \<Rightarrow> None
               | Some close \<Rightarrow>
                   tuples_go
                     (out @ [map (\<lambda>cell. parse_value_literal (trim cell))
                               (split_top_level_commas (take (close - 1) (drop 1 s)))])
                     (drop (close + 1) s)))"
  by pat_completeness auto
termination
proof (relation "measure (\<lambda>(out, s). length s)", goal_cases)
  case (2 out s0 s c r)
  then have "length (c # r) \<le> length s0" by (metis length_dropWhile_le)
  then show ?case by simp
next
  case (3 out s0 s c r close)
  then have "length s \<le> length s0" "s = c # r" by (simp_all add: length_dropWhile_le)
  then show ?case by simp
qed simp

declare tuples_go.simps [simp del]

definition parse_values_tuples :: "string \<Rightarrow> value_literal list list option" where
  "parse_values_tuples sql = tuples_go [] sql"

section \<open>The write parsers\<close>

definition detect_trailing_non_goal :: "string \<Rightarrow> string option" where
  "detect_trailing_non_goal sql =
     (let up = upper sql
      in if contains ''RETURNING'' up then Some ''RETURNING clause on attached foreign catalogs''
         else if contains ''ON CONFLICT'' up
         then Some ''INSERT ... ON CONFLICT on attached foreign catalogs''
         else if contains ''ON DUPLICATE KEY'' up
         then Some ''INSERT ... ON DUPLICATE KEY on attached foreign catalogs''
         else None)"

definition any_write_touches_attached :: "string \<Rightarrow> string list \<Rightarrow> bool" where
  "any_write_touches_attached sql attached =
     (let up = upper sql
      in list_ex (\<lambda>kw. contains kw up) [''INSERT'', ''UPDATE'', ''DELETE'']
         \<and> list_ex (\<lambda>alias. contains (upper alias @ ''.'') up) attached)"

definition param_reason :: string where
  "param_reason = ''prepared/parameterized DDL on attached foreign catalogs''"

text \<open>The dotted identifier at the head, if it names a table of an attached catalog, and the rest.\<close>

definition attached_target :: "string \<Rightarrow> string list \<Rightarrow> (string \<times> string \<times> string) option" where
  "attached_target s attached =
     (let (ident, rest) = take_dotted_ident s
      in case split_alias_table ident of
           None \<Rightarrow> None
         | Some (alias, table) \<Rightarrow>
             if alias \<in> set attached then Some (alias, table, rest) else None)"

definition insert_columns :: "string \<Rightarrow> (string list \<times> string) option" where
  "insert_columns rest =
     (if first_byte rest = Some (CHR ''('') then
        (case balanced_close rest (CHR ''('') (CHR '')'') of
           None \<Rightarrow> None
         | Some close \<Rightarrow>
             Some (map trim (split_top_level_commas (take (close - 1) (drop 1 rest))),
                   trim_start (drop (close + 1) rest)))
      else Some ([], rest))"

definition parse_insert :: "string \<Rightarrow> string list \<Rightarrow> write_route option" where
  "parse_insert sql attached =
     (let (or_kind, after_or) = strip_optional_or_clause (trim_start (drop 6 sql))
      in if \<not> starts_with_kw_ci after_or ''INTO'' then None
         else (case attached_target (trim_start (drop 4 after_or)) attached of
             None \<Rightarrow> None
           | Some (alias, table, rest0) \<Rightarrow>
               (case or_kind of
                  Some reason \<Rightarrow> Some (Route_Unsupported reason)
                | None \<Rightarrow>
                    (case insert_columns (trim_start rest0) of
                       None \<Rightarrow> None
                     | Some (columns, rest) \<Rightarrow>
                         if \<not> starts_with_kw_ci rest ''VALUES'' then
                           (if starts_with_kw_ci rest ''SELECT'' then
                              Some (Route_Unsupported
                                ''INSERT ... SELECT into attached foreign catalogs'')
                            else if starts_with_kw_ci rest ''DEFAULT'' then
                              Some (Route_Unsupported
                                ''INSERT ... DEFAULT VALUES into attached foreign catalogs'')
                            else Some (Route_Unsupported
                                (''INSERT clause after '' @ [CHR 0x27] @ alias @ ''.'' @ table
                                  @ [CHR 0x27] @ '' isn'' @ [CHR 0x27]
                                  @ ''t a supported VALUES form'')))
                         else
                           (let after_values = trim_start (drop 6 rest)
                            in case detect_trailing_non_goal after_values of
                                 Some reason \<Rightarrow> Some (Route_Unsupported reason)
                               | None \<Rightarrow>
                                   if contains_param_marker after_values
                                   then Some (Route_Unsupported param_reason)
                                   else (case parse_values_tuples after_values of
                                       None \<Rightarrow> None
                                     | Some rows \<Rightarrow> Some (Insert alias table columns rows)))))))"

definition parse_assignment :: "string \<Rightarrow> (string \<times> string) option" where
  "parse_assignment piece0 =
     (let piece = trim piece0
      in case find_assignment_equals piece of
           None \<Rightarrow> None
         | Some eq \<Rightarrow>
             (let col = trim (take eq piece)
              in if is_bare_ident col then Some (col, trim (drop (eq + 1) piece)) else None))"

definition parse_update :: "string \<Rightarrow> string list \<Rightarrow> write_route option" where
  "parse_update sql attached =
     (case attached_target (trim_start (drop 6 sql)) attached of
        None \<Rightarrow> None
      | Some (alias, table, rest0) \<Rightarrow>
          (let rest = trim_start rest0
           in if \<not> starts_with_kw_ci rest ''SET'' then
                Some (Route_Unsupported ''UPDATE without SET clause on attached foreign catalog'')
              else
                (let after_set = trim_start (drop 3 rest)
                 in if contains_param_marker after_set then Some (Route_Unsupported param_reason)
                    else (case detect_trailing_non_goal after_set of
                        Some reason \<Rightarrow> Some (Route_Unsupported reason)
                      | None \<Rightarrow>
                          (let (set_body, where_clause) = split_before_kw_ci after_set ''WHERE'';
                               assignments = List.map_filter parse_assignment
                                 (split_top_level_commas (trim set_body))
                           in if assignments = [] then
                                Some (Route_Unsupported
                                  ''UPDATE with no parseable SET assignments on attached foreign catalog'')
                              else Some (Update alias table assignments where_clause))))))"

definition parse_delete :: "string \<Rightarrow> string list \<Rightarrow> write_route option" where
  "parse_delete sql attached =
     (let after_delete = trim_start (drop 6 sql)
      in if \<not> starts_with_kw_ci after_delete ''FROM'' then None
         else (case attached_target (trim_start (drop 4 after_delete)) attached of
             None \<Rightarrow> None
           | Some (alias, table, rest0) \<Rightarrow>
               (let rest = trim_start rest0
                in if contains_param_marker rest then Some (Route_Unsupported param_reason)
                   else (case detect_trailing_non_goal rest of
                       Some reason \<Rightarrow> Some (Route_Unsupported reason)
                     | None \<Rightarrow>
                         if starts_with_kw_ci rest ''WHERE''
                         then Some (Delete alias table (Some (trim (drop 5 rest))))
                         else if rest = [] then Some (Delete alias table None)
                         else Some (Route_Unsupported
                           (''DELETE clause '' @ [CHR 0x27] @ rest @ [CHR 0x27] @ '' isn''
                             @ [CHR 0x27] @ ''t a supported plain WHERE form''))))))"

section \<open>CREATE TABLE\<close>

definition is_table_constraint :: "string \<Rightarrow> bool" where
  "is_table_constraint piece =
     list_ex (\<lambda>p. starts_with p (upper piece))
       [''PRIMARY KEY'', ''UNIQUE '', ''UNIQUE('', ''FOREIGN KEY'', ''CONSTRAINT '', ''CHECK '', ''CHECK('']"

text \<open>The column declarations, or the reason for which the statement is refused.\<close>

fun columns_go ::
  "string \<Rightarrow> string list \<Rightarrow> create_table_column list \<Rightarrow> string + create_table_column list" where
  "columns_go what [] cols = Inr cols"
| "columns_go what (piece0 # pieces) cols =
     (let piece = trim piece0
      in if piece = [] then columns_go what pieces cols
         else if is_table_constraint piece then columns_go what pieces cols
         else
           (let (name, rest) = split_first_token piece
            in if \<not> is_bare_ident name then
                 Inl (''CREATE TABLE '' @ what @ '': column name '' @ [CHR 0x27] @ name @ [CHR 0x27]
                   @ '' not a bare identifier'')
               else
                 (let type_text = strip_column_constraints (trim rest)
                  in if type_text = [] then
                       Inl (''CREATE TABLE '' @ what @ '': column '' @ [CHR 0x27] @ name @ [CHR 0x27]
                         @ '' missing type'')
                     else columns_go what pieces
                       (cols @ [\<lparr>col_name = name, col_type = type_text\<rparr>]))))"

definition trim_end_semis :: "string \<Rightarrow> string" where
  "trim_end_semis s = rev (dropWhile (\<lambda>c. c = CHR '';'') (rev s))"

definition create_or_replace :: "string \<Rightarrow> string list \<Rightarrow> write_route option" where
  "create_or_replace after_create attached =
     (let after = trim_start (drop 2 after_create)
      in if \<not> starts_with_kw_ci after ''REPLACE'' then None
         else
           (let after_kw = trim_start (drop 7 after)
            in if \<not> starts_with_kw_ci after_kw ''TABLE'' then None
               else
                 (let (_, temp_rest) = strip_optional_if_not_exists (trim_start (drop 5 after_kw))
                  in case attached_target temp_rest attached of
                       None \<Rightarrow> None
                     | Some _ \<Rightarrow> Some (Route_Unsupported
                         ''CREATE OR REPLACE TABLE on attached foreign catalogs''))))"

definition create_table_body :: "string \<Rightarrow> string \<Rightarrow> bool \<Rightarrow> string \<Rightarrow> write_route option" where
  "create_table_body alias table if_not_exists rest =
     (let what = alias @ ''.'' @ table
      in if starts_with_kw_ci rest ''AS'' then
           Some (Route_Unsupported ''CREATE TABLE ... AS SELECT into attached foreign catalogs'')
         else if starts_with_kw_ci rest ''LIKE'' then
           Some (Route_Unsupported ''CREATE TABLE ... LIKE on attached foreign catalogs'')
         else if first_byte rest \<noteq> Some (CHR ''('') then
           Some (Route_Unsupported (''CREATE TABLE '' @ what @ '': expected column list in parentheses''))
         else (case balanced_close rest (CHR ''('') (CHR '')'') of
             None \<Rightarrow> None
           | Some close \<Rightarrow>
               (let inside = take (close - 1) (drop 1 rest);
                    tail = trim_start (drop (close + 1) rest)
                in if tail \<noteq> [] \<and> trim (trim_end_semis tail) \<noteq> [] then
                     Some (Route_Unsupported (''CREATE TABLE '' @ what @ '': trailing clause ''
                       @ [CHR 0x27] @ tail @ [CHR 0x27] @ '' not supported''))
                   else (case columns_go what (split_top_level_commas inside) [] of
                       Inl reason \<Rightarrow> Some (Route_Unsupported reason)
                     | Inr columns \<Rightarrow>
                         if columns = [] then
                           Some (Route_Unsupported (''CREATE TABLE '' @ what
                             @ '': no columns after constraint filter''))
                         else Some (Create_Table alias table columns if_not_exists)))))"

definition parse_create_table :: "string \<Rightarrow> string list \<Rightarrow> write_route option" where
  "parse_create_table sql attached =
     (let after_create = trim_start (drop 6 sql)
      in if starts_with_kw_ci after_create ''OR'' then create_or_replace after_create attached
         else if \<not> starts_with_kw_ci after_create ''TABLE'' then None
         else
           (let (if_not_exists, rest) =
                  strip_optional_if_not_exists (trim_start (drop 5 after_create))
            in case attached_target rest attached of
                 None \<Rightarrow> None
               | Some (alias, table, rest1) \<Rightarrow>
                   create_table_body alias table if_not_exists (trim_start rest1)))"

definition resolve_write_target :: "string \<Rightarrow> string list \<Rightarrow> write_route option" where
  "resolve_write_target sql0 attached =
     (if is_multi_statement sql0 then
        (if any_write_touches_attached sql0 attached then
           Some (Route_Unsupported
             ''multi-statement scripts mixing intercepted and non-intercepted writes'')
         else None)
      else
        (let sql = trim (strip_trailing_semicolon sql0)
         in if starts_with_kw_ci sql ''WITH'' then
              (if any_write_touches_attached sql attached then
                 Some (Route_Unsupported ''CTE-driven writes against attached foreign catalogs'')
               else None)
            else if starts_with_kw_ci sql ''INSERT'' then parse_insert sql attached
            else if starts_with_kw_ci sql ''UPDATE'' then parse_update sql attached
            else if starts_with_kw_ci sql ''DELETE'' then parse_delete sql attached
            else if starts_with_kw_ci sql ''CREATE'' then parse_create_table sql attached
            else None))"

section \<open>Whom a route addresses\<close>

fun route_target :: "write_route \<Rightarrow> (string \<times> string) option" where
  "route_target (Insert a t _ _) = Some (a, t)"
| "route_target (Update a t _ _) = Some (a, t)"
| "route_target (Delete a t _) = Some (a, t)"
| "route_target (Create_Table a t _ _) = Some (a, t)"
| "route_target (Route_Unsupported _) = None"

definition addressed :: "string list \<Rightarrow> write_route \<Rightarrow> bool" where
  "addressed attached r \<longleftrightarrow>
     (case route_target r of
        None \<Rightarrow> True
      | Some (a, t) \<Rightarrow> a \<in> set attached \<and> is_bare_ident a \<and> is_bare_ident t)"

lemma attached_target_ok:
  "attached_target s attached = Some (a, t, rest) \<Longrightarrow>
     a \<in> set attached \<and> is_bare_ident a \<and> is_bare_ident t"
  by (auto simp: attached_target_def split_alias_table_def Let_def
      split: prod.splits option.splits if_splits)

lemma addressed_unsupported [simp]: "addressed attached (Route_Unsupported why)"
  by (simp add: addressed_def)

lemma insert_addressed: "parse_insert sql attached = Some r \<Longrightarrow> addressed attached r"
  by (auto simp: parse_insert_def Let_def addressed_def dest: attached_target_ok
      split: prod.splits option.splits if_splits)

lemma update_addressed: "parse_update sql attached = Some r \<Longrightarrow> addressed attached r"
  by (auto simp: parse_update_def Let_def addressed_def dest: attached_target_ok
      split: prod.splits option.splits if_splits)

lemma delete_addressed: "parse_delete sql attached = Some r \<Longrightarrow> addressed attached r"
  by (auto simp: parse_delete_def Let_def addressed_def dest: attached_target_ok
      split: prod.splits option.splits if_splits)

lemma create_addressed: "parse_create_table sql attached = Some r \<Longrightarrow> addressed attached r"
  by (auto simp: parse_create_table_def create_or_replace_def create_table_body_def Let_def
      addressed_def dest: attached_target_ok
      split: prod.splits option.splits if_splits sum.splits)

lemma attached_target_Nil: "attached_target s [] = None"
  by (simp add: attached_target_def split: prod.splits option.splits)

text \<open>
  A statement is only ever routed to a catalog that is attached: every INSERT, UPDATE,
  DELETE or CREATE TABLE route names an attached alias and a plain table identifier and comes
  from a single statement; and with nothing attached no statement is intercepted at all.
\<close>

theorem write_route_addressed:
  "(resolve_write_target sql attached = Some r \<longrightarrow> route_target r = Some (a, t) \<longrightarrow>
      a \<in> set attached \<and> is_bare_ident a \<and> is_bare_ident t \<and> \<not> is_multi_statement sql)
   \<and> resolve_write_target sql [] = None"
proof (intro conjI impI)
  assume r: "resolve_write_target sql attached = Some r" and t: "route_target r = Some (a, t)"
  have "addressed attached r"
    using r by (auto simp: resolve_write_target_def Let_def
        dest: insert_addressed update_addressed delete_addressed create_addressed split: if_splits)
  with t have at: "a \<in> set attached \<and> is_bare_ident a \<and> is_bare_ident t"
    by (simp add: addressed_def)
  then show "a \<in> set attached" "is_bare_ident a" "is_bare_ident t" by auto
  show "\<not> is_multi_statement sql"
    using r t by (auto simp: resolve_write_target_def split: if_splits)
next
  show "resolve_write_target sql [] = None"
    by (simp add: resolve_write_target_def any_write_touches_attached_def parse_insert_def
        parse_update_def parse_delete_def parse_create_table_def create_or_replace_def
        attached_target_Nil Let_def split: prod.splits)
qed

lemma delete_example:
  "resolve_write_target ''DELETE FROM pg.t'' [''pg''] = Some (Delete ''pg'' ''t'' None)"
  by code_simp

theorem write_route_addressed_witness: "''pg'' \<in> set [''pg'']"
  using write_route_addressed [of "''DELETE FROM pg.t''" "[''pg'']" "Delete ''pg'' ''t'' None" "''pg''" "''t''"]
    delete_example by simp

text \<open>
  Three statements are not handled as written: an INSERT whose literal contains a doubled
  quote falls through to the core although it addresses an attached table; an UPDATE silently
  drops an assignment to a quoted column; and text after the VALUES tuples is ignored.
\<close>

theorem write_router_quirks:
  "resolve_write_target (''INSERT INTO a.t VALUES ('' @ sql_literal (''it'' @ CHR 0x27 # ''s'') @ '')'') [''a''] = None
   \<and> resolve_write_target (''UPDATE a.t SET '' @ [CHR 0x22] @ ''x'' @ [CHR 0x22] @ '' = 1, y = 2'') [''a'']
       = Some (Update ''a'' ''t'' [(''y'', ''2'')] None)
   \<and> resolve_write_target ''INSERT INTO a.t VALUES (NULL) XYZ'' [''a'']
       = Some (Insert ''a'' ''t'' [] [[VL_Null]])"
  by (intro conjI; code_simp)

end
