(* ===== verification/Civil_Dates.thy ===== *)
theory Civil_Dates
  imports Prelude "HOL-Library.Signed_Division"
begin

text \<open>
  The calendar conversion of \<open>crates/ducklink-host/src/sigv4.rs\<close> (\<open>civil_from_days\<close>), on unbounded
  integers: the program calls it with a day count below \<open>2 ^ 48\<close>, far from the range of its
  64-bit integers. Division truncates toward zero, which is \<open>sdiv\<close>. The
  specification is the Gregorian successor of a date.
\<close>

definition civil_from_days :: "int \<Rightarrow> int \<times> int \<times> int" where
  "civil_from_days z0 =
     (let z = z0 + 719468;
          era = (if z \<ge> 0 then z else z - 146096) sdiv 146097;
          doe = z - era * 146097;
          yoe = (doe - doe sdiv 1460 + doe sdiv 36524 - doe sdiv 146096) sdiv 365;
          y = yoe + era * 400;
          doy = doe - (365 * yoe + yoe sdiv 4 - yoe sdiv 100);
          mp = (5 * doy + 2) sdiv 153;
          d = doy - (153 * mp + 2) sdiv 5 + 1;
          m = (if mp < 10 then mp + 3 else mp - 9)
      in (if m \<le> 2 then y + 1 else y, m, d))"

section \<open>The calendar\<close>

definition leap :: "int \<Rightarrow> bool" where
  "leap y \<longleftrightarrow> 4 dvd y \<and> (100 dvd y \<longrightarrow> 400 dvd y)"

definition days_in_month :: "int \<Rightarrow> int \<Rightarrow> int" where
  "days_in_month y m =
     (if m = 2 then (if leap y then 29 else 28)
      else if m \<in> {4, 6, 9, 11} then 30 else 31)"

fun next_date :: "int \<times> int \<times> int \<Rightarrow> int \<times> int \<times> int" where
  "next_date (y, m, d) =
     (if d < days_in_month y m then (y, m, d + 1)
      else if m < 12 then (y, m + 1, 1) else (y + 1, 1, 1))"

section \<open>Years that begin in March\<close>

text \<open>The days before year \<open>y\<close>, counted from the first of March of year 0, and its length.\<close>

definition start :: "int \<Rightarrow> int" where
  "start y = 365 * y + y div 4 - y div 100 + y div 400"

lemma div_step:
  assumes "0 < k"
  shows "(y + 1) div k = y div k + (if k dvd (y + 1) then 1 else (0 :: int))"
proof -
  have y: "y = k * (y div k) + y mod k" by simp
  have r: "0 \<le> y mod k" "y mod k < k" using assms by simp_all
  show ?thesis
  proof (cases "y mod k + 1 < k")
    case True
    have y1: "y + 1 = k * (y div k) + (y mod k + 1)" using y by linarith
    have "(y + 1) div k = y div k" using r True by (intro int_div_pos_eq [OF y1]) simp_all
    moreover have "(y + 1) mod k = y mod k + 1" using r True by (intro int_mod_pos_eq [OF y1]) simp_all
    ultimately show ?thesis using r by (simp add: dvd_eq_mod_eq_0)
  next
    case False
    then have "y mod k = k - 1" using r by simp
    then have "y + 1 = k * (y div k) + k" using y by linarith
    then have y1: "y + 1 = k * (y div k + 1) + 0" by (simp add: distrib_left)
    have "(y + 1) div k = y div k + 1" using assms by (intro int_div_pos_eq [OF y1]) simp_all
    moreover have "k dvd (y + 1)" using y1 by (metis add_0_right dvd_triv_left)
    ultimately show ?thesis by simp
  qed
qed

definition tick :: "bool \<Rightarrow> int" where
  "tick b = (if b then 1 else 0)"

lemma div_tick: "0 < k \<Longrightarrow> (y + 1) div k = y div k + tick (k dvd (y + 1))"
  unfolding tick_def by (rule div_step)

lemma tick_nested:
  "(b \<longrightarrow> a) \<Longrightarrow> (c \<longrightarrow> b) \<Longrightarrow> tick (a \<and> (b \<longrightarrow> c)) = tick a - tick b + tick c"
  by (cases a; cases b; cases c) (simp_all add: tick_def)

lemma tick_leap: "tick (leap y) = tick (4 dvd y) - tick (100 dvd y) + tick (400 dvd y)"
  unfolding leap_def
proof (rule tick_nested)
  have "(4 :: int) dvd 100" "(100 :: int) dvd 400" by simp_all
  then show "100 dvd y \<longrightarrow> 4 dvd y" "400 dvd y \<longrightarrow> 100 dvd y" using dvd_trans by blast+
qed

lemma start_step: "start (y + 1) = start y + 365 + tick (leap (y + 1))"
proof -
  have sum: "365 * (y + 1) + (a + p) - (b + q) + (c + r) = 365 * y + a - b + c + 365 + (p - q + r)"
    for a b c p q r :: int by simp
  have e: "(y + 1) div 4 = y div 4 + tick (4 dvd (y + 1))"
    "(y + 1) div 100 = y div 100 + tick (100 dvd (y + 1))"
    "(y + 1) div 400 = y div 400 + tick (400 dvd (y + 1))" by (rule div_tick, simp)+
  show ?thesis unfolding start_def tick_leap e by (rule sum)
qed

lemma start_era: "start (400 * e + y) = 146097 * e + start y"
proof -
  have sum: "365 * (400 * e + y) + (100 * e + a) - (4 * e + b) + (e + c)
    = 146097 * e + (365 * y + a - b + c)" for a b c :: int by simp
  have m: "400 * e = 4 * (100 * e)" "400 * e = 100 * (4 * e)" by simp_all
  have d4: "(400 * e + y) div 4 = 100 * e + y div 4"
    unfolding m(1) by (rule div_mult_self4) simp
  have d100: "(400 * e + y) div 100 = 4 * e + y div 100"
    unfolding m(2) by (rule div_mult_self4) simp
  have d400: "(400 * e + y) div 400 = e + y div 400"
    by (rule div_mult_self4) simp
  show ?thesis unfolding start_def d4 d100 d400 by (rule sum)
qed

lemma step_mono:
  fixes f :: "int \<Rightarrow> int"
  assumes "\<And>n. f n \<le> f (n + 1)" and "a \<le> b"
  shows "f a \<le> f b"
  using assms(2)
proof (induction "nat (b - a)" arbitrary: b)
  case (Suc n)
  then have "f a \<le> f (b - 1)" by simp
  also have "\<dots> \<le> f b" using assms(1) [of "b - 1"] by simp
  finally show ?case .
qed simp

lemma start_mono: "a \<le> b \<Longrightarrow> start a \<le> start b"
  by (rule step_mono) (simp_all add: start_step tick_def)

text \<open>The year of a day: the code's estimate of the year of the era is exact.\<close>

definition adjusted :: "int \<Rightarrow> int" where
  "adjusted n = n - n div 1460 + n div 36524 - n div 146096"

lemma adjusted_step: "adjusted n \<le> adjusted (n + 1)"
proof -
  have "(36524 :: int) dvd 146096" by simp
  then have "146096 dvd (n + 1) \<longrightarrow> 36524 dvd (n + 1)" using dvd_trans by blast
  then have t: "tick (146096 dvd (n + 1)) \<le> tick (36524 dvd (n + 1))"
    by (simp add: tick_def)
  have one: "tick (1460 dvd (n + 1)) \<le> 1" by (simp add: tick_def)
  have sum: "n - a + b - c \<le> n + 1 - (a + p) + (b + q) - (c + r)"
    if "r \<le> q" "p \<le> 1" for a b c p q r :: int using that by simp
  have e: "(n + 1) div 1460 = n div 1460 + tick (1460 dvd (n + 1))"
    "(n + 1) div 36524 = n div 36524 + tick (36524 dvd (n + 1))"
    "(n + 1) div 146096 = n div 146096 + tick (146096 dvd (n + 1))" by (rule div_tick, simp)+
  show ?thesis unfolding adjusted_def e by (rule sum [OF t one])
qed

lemma adjusted_mono: "a \<le> b \<Longrightarrow> adjusted a \<le> adjusted b"
  by (rule step_mono, rule adjusted_step)

lemma year_table:
  "list_all (\<lambda>y. adjusted (start y) div 365 = y \<and> adjusted (start (y + 1) - 1) div 365 = y) [0 .. 399]"
  by code_simp

lemma year_of_era:
  assumes "0 \<le> y" "y < 400" and "start y \<le> n" "n < start (y + 1)"
  shows "adjusted n div 365 = y"
proof (rule antisym)
  have ends: "adjusted (start y) div 365 = y" "adjusted (start (y + 1) - 1) div 365 = y"
    using year_table assms(1,2) by (simp_all add: list_all_iff)
  show "adjusted n div 365 \<le> y"
    using zdiv_mono1 [OF adjusted_mono [of n "start (y + 1) - 1"], of 365] assms(4) ends(2) by simp
  show "y \<le> adjusted n div 365"
    using zdiv_mono1 [OF adjusted_mono [OF assms(3)], of 365] ends(1) by simp
qed

section \<open>Months\<close>

text \<open>Month and day of the day \<open>doy\<close> of a year that begins in March.\<close>

definition month_day :: "int \<Rightarrow> int \<times> int" where
  "month_day doy =
     (let mp = (5 * doy + 2) div 153
      in (if mp < 10 then mp + 3 else mp - 9, doy - (153 * mp + 2) div 5 + 1))"

definition date_of :: "int \<Rightarrow> int \<Rightarrow> int \<times> int \<times> int" where
  "date_of y doy = (let (m, d) = month_day doy in (if m \<le> 2 then y + 1 else y, m, d))"

lemma month_table:
  "list_all (\<lambda>n. let (m, d) = month_day n; (m', d') = month_day (n + 1)
     in 1 \<le> m \<and> m \<le> 12 \<and>
        (if m = 2 then m' = 2 \<and> d = n - 336 \<and> d' = d + 1
         else if d < days_in_month 1 m then m' = m \<and> d' = d + 1
         else d' = 1 \<and> m' = (if m = 12 then 1 else m + 1))) [0 .. 364]"
  by code_simp

lemma month_step:
  assumes "0 \<le> n" and "n < 365"
  shows "case month_day n of (m, d) \<Rightarrow> case month_day (n + 1) of (m', d') \<Rightarrow>
      1 \<le> m \<and> m \<le> 12 \<and>
      (if m = 2 then m' = 2 \<and> d = n - 336 \<and> d' = d + 1
       else if d < days_in_month 1 m then m' = m \<and> d' = d + 1
       else d' = 1 \<and> m' = (if m = 12 then 1 else m + 1))"
  using month_table assms by (simp add: list_all_iff split_beta Let_def)

lemma month_last: "month_day 364 = (2, 28)" "month_day 365 = (2, 29)" "month_day 0 = (3, 1)"
  by code_simp+

section \<open>The conversion\<close>

lemma sdiv_pos: "0 \<le> a \<Longrightarrow> 0 < b \<Longrightarrow> a sdiv b = a div (b :: int)"
  by (cases "a = 0") (simp_all add: signed_divide_int_def)

lemma era_exact:
  fixes e n :: int
  assumes "0 \<le> n" and "n < 146097"
  shows "(if 146097 * e + n \<ge> 0 then 146097 * e + n else 146097 * e + n - 146096) sdiv 146097 = e"
proof (cases "146097 * e + n \<ge> 0")
  case True
  have "(146097 * e + n) div 146097 = e" using assms by (intro int_div_pos_eq [OF refl])
  then show ?thesis using True by (simp add: sdiv_pos)
next
  case False
  have neg: "sgn (146097 * e + n - 146096) = -1" "\<bar>146097 * e + n - 146096\<bar> = 146096 - 146097 * e - n"
    using False by simp_all
  have d: "146096 - 146097 * e - n = 146097 * (- e) + (146096 - n)" by simp
  have "(146096 - 146097 * e - n) div 146097 = - e"
    using assms by (intro int_div_pos_eq [OF d]) simp_all
  then show ?thesis using False neg by (simp add: signed_divide_int_def)
qed

lemma civil_date_of:
  assumes "0 \<le> doy" and "doy < 365 + tick (leap (Y + 1))"
  shows "civil_from_days (start Y + doy - 719468) = date_of Y doy"
proof -
  define e y n where "e = Y div 400" and "y = Y mod 400" and "n = start y + doy"
  have Y: "Y = 400 * e + y" and y: "0 \<le> y" "y < 400" by (simp_all add: e_def y_def)
  have "start (Y + 1) = 146097 * e + start (y + 1)" "start Y = 146097 * e + start y"
    using start_era [of e "y + 1"] start_era [of e y] by (simp_all add: Y add.assoc)
  then have n: "start y \<le> n" "n < start (y + 1)" "start Y + doy = 146097 * e + n"
    using assms start_step [of Y] by (simp_all add: n_def)
  have bounds: "0 \<le> start y" "start (y + 1) \<le> 146097"
    using start_mono [of 0 y] start_mono [of "y + 1" 400] y by (simp_all add: start_def)
  have pos: "0 \<le> n" "n < 146097" using n bounds by simp_all
  have adj: "0 \<le> adjusted n" using adjusted_mono [OF pos(1)] by (simp add: adjusted_def)
  have yoe: "(n - n sdiv 1460 + n sdiv 36524 - n sdiv 146096) sdiv 365 = y"
    using year_of_era [OF y n(1,2)] adj pos(1) by (simp add: adjusted_def sdiv_pos)
  have rest: "n - (365 * y + y sdiv 4 - y sdiv 100) = doy"
    using y by (simp add: n_def start_def sdiv_pos)
  have z: "start Y + doy - 719468 + 719468 = 146097 * e + n" using n(3) by simp
  have mp: "(5 * doy + 2) sdiv 153 = (5 * doy + 2) div 153" using assms(1) by (simp add: sdiv_pos)
  have mp0: "0 \<le> (5 * doy + 2) div 153" using assms(1) by simp
  have md: "(153 * ((5 * doy + 2) div 153) + 2) sdiv 5 = (153 * ((5 * doy + 2) div 153) + 2) div 5"
    using mp0 by (intro sdiv_pos) simp_all
  show ?thesis
    unfolding civil_from_days_def Let_def z era_exact [OF pos] add_diff_cancel_left'
      mult.commute [of e] yoe rest mp md date_of_def month_day_def
    by (simp add: Y add.commute)
qed

lemma year_exists: "0 \<le> r \<Longrightarrow> r < start (int k) \<Longrightarrow> \<exists>y. start y \<le> r \<and> r < start (y + 1)"
proof (induction k)
  case 0
  then show ?case by (simp add: start_def)
next
  case (Suc k)
  then show ?case
  proof (cases "r < start (int k)")
    case False
    then show ?thesis using Suc.prems by (intro exI [of _ "int k"]) (simp add: add.commute)
  qed simp
qed

lemma day_in_year: "\<exists>Y doy. n = start Y + doy \<and> 0 \<le> doy \<and> doy < 365 + tick (leap (Y + 1))"
proof -
  let ?e = "n div 146097" and ?r = "n mod 146097"
  have "start (int 400) = 146097" by (simp add: start_def)
  then obtain y where y: "start y \<le> ?r" "?r < start (y + 1)"
    using year_exists [of ?r 400] by auto
  have n: "n = 146097 * ?e + ?r" by simp
  have "start (400 * ?e + y) = 146097 * ?e + start y"
    "start (400 * ?e + y + 1) = 146097 * ?e + start (y + 1)"
    using start_era [of ?e y] start_era [of ?e "y + 1"] by (simp_all only: add.assoc)
  then have "start (400 * ?e + y) \<le> n" "n < start (400 * ?e + y + 1)" using y n by linarith+
  then show ?thesis
    using start_step [of "400 * ?e + y"]
    by (intro exI [of _ "400 * ?e + y"] exI [of _ "n - start (400 * ?e + y)"]) simp
qed

lemma next_in_year:
  assumes "0 \<le> doy" and "doy + 1 < 365 + tick (leap (Y + 1))"
  shows "date_of Y (doy + 1) = next_date (date_of Y doy)"
proof -
  have d: "doy < 365" using assms by (simp add: tick_def split: if_splits)
  obtain m d m' d' where md: "month_day doy = (m, d)" "month_day (doy + 1) = (m', d')"
    by (metis surj_pair)
  have step: "1 \<le> m" "m \<le> 12" "if m = 2 then m' = 2 \<and> d = doy - 336 \<and> d' = d + 1
      else if d < days_in_month 1 m then m' = m \<and> d' = d + 1
      else d' = 1 \<and> m' = (if m = 12 then 1 else m + 1)"
    using month_step [OF assms(1) d] by (simp_all add: md)
  show ?thesis
  proof (cases "m = 2")
    case True
    then have "d < days_in_month (Y + 1) 2"
      using step(3) assms(2) by (simp add: days_in_month_def tick_def split: if_splits)
    then show ?thesis using True step(3) by (simp add: date_of_def md)
  next
    case False
    then have "days_in_month Y m = days_in_month 1 m" "days_in_month (Y + 1) m = days_in_month 1 m"
      by (simp_all add: days_in_month_def)
    then show ?thesis using False step by (auto simp: date_of_def md split: if_splits)
  qed
qed

lemma next_year:
  "date_of (Y + 1) 0 = next_date (date_of Y (364 + tick (leap (Y + 1))))"
  by (simp add: date_of_def month_last tick_def days_in_month_def)

text \<open>
  C15. The conversion is the Gregorian calendar: day 0 is the first of January 1970, and the
  date of the next day is always the successor of a date, over month ends, leap days, century
  years and the four-hundred-year rule, for every day before and after.
\<close>

theorem civil_is_gregorian:
  "civil_from_days 0 = (1970, 1, 1) \<and> civil_from_days (z + 1) = next_date (civil_from_days z)"
proof (rule conjI)
  show "civil_from_days 0 = (1970, 1, 1)" by code_simp
  obtain Y doy where z: "z + 719468 = start Y + doy" "0 \<le> doy" "doy < 365 + tick (leap (Y + 1))"
    using day_in_year by blast
  have "z = start Y + doy - 719468" using z(1) by simp
  then have now: "civil_from_days z = date_of Y doy" using civil_date_of [OF z(2,3)] by simp
  show "civil_from_days (z + 1) = next_date (civil_from_days z)"
  proof (cases "doy + 1 < 365 + tick (leap (Y + 1))")
    case True
    have "civil_from_days (start Y + (doy + 1) - 719468) = date_of Y (doy + 1)"
      using z(2) True by (intro civil_date_of) simp_all
    moreover have "start Y + (doy + 1) - 719468 = z + 1" using z(1) by simp
    ultimately show ?thesis using next_in_year [OF z(2) True] now by simp
  next
    case False
    then have last: "doy = 364 + tick (leap (Y + 1))" using z(3) by simp
    have "civil_from_days (start (Y + 1) + 0 - 719468) = date_of (Y + 1) 0"
      by (intro civil_date_of) (simp_all add: tick_def)
    moreover have "start (Y + 1) + 0 - 719468 = z + 1" using z(1) last start_step [of Y] by simp
    ultimately show ?thesis using next_year [of Y] now last by (simp add: add.commute)
  qed
qed

end
