(* ===== verification/Sigv4.thy ===== *)
theory Sigv4
  imports Civil_Dates Sql_Numbers "HOL-Library.List_Lexorder" "HOL-Library.Multiset"
begin

text \<open>
  AWS Signature Version 4 (\<open>crates/ducklink-host/src/sigv4.rs\<close>). SHA-256, HMAC and the hex
  encoder come from dependencies: \<open>sha\<close>, \<open>mac\<close> and \<open>hex\<close> are parameters, from bytes to bytes. Cutting the date stamp out
  of a timestamp that is too short panics; that is \<^const>\<open>None\<close>.
\<close>

record credentials =
  access_key :: string
  secret_key :: string
  session_token :: "string option"

definition sha256_hex :: "(string \<Rightarrow> string) \<Rightarrow> (string \<Rightarrow> string) \<Rightarrow> string \<Rightarrow> string" where
  "sha256_hex hex sha data = hex (sha data)"

section \<open>URI encoding\<close>

definition is_unreserved :: "char \<Rightarrow> bool" where
  "is_unreserved b \<longleftrightarrow> is_ascii_alnum b \<or> b \<in> set ''-_.~''"

definition encode_segment :: "string \<Rightarrow> string" where
  "encode_segment seg =
     concat (map (\<lambda>b. if is_unreserved b then [b] else CHR ''%'' # hex2_upper (byte_nat b)) seg)"

definition uri_encode_path :: "string \<Rightarrow> string" where
  "uri_encode_path key = join ''/'' (map encode_segment (split_char (CHR ''/'') key))"

section \<open>Timestamps\<close>

definition format_amz_date :: "u64 \<Rightarrow> string" where
  "format_amz_date unix_secs =
     (let secs = unat unix_secs;
          days = secs div 86400;
          rem = secs mod 86400;
          (y, mo, d) = civil_from_days (int days)
      in pad0 4 (show_int y) @ pad0 2 (show_int mo) @ pad0 2 (show_int d) @ ''T''
         @ pad0 2 (show_nat (rem div 3600)) @ pad0 2 (show_nat (rem mod 3600 div 60))
         @ pad0 2 (show_nat (rem mod 60)) @ ''Z'')"

section \<open>Signing\<close>

definition sorted_headers :: "(string \<times> string) list \<Rightarrow> (string \<times> string) list" where
  "sorted_headers headers = sort_key fst (map (\<lambda>(k, v). (lower k, trim v)) headers)"

definition canonical_request ::
  "string \<Rightarrow> string \<Rightarrow> string \<Rightarrow> (string \<times> string) list \<Rightarrow> string \<Rightarrow> string" where
  "canonical_request meth canonical_uri canonical_query hs payload_hash =
     (let nl = [CHR 0x0A]
      in meth @ nl @ canonical_uri @ nl @ canonical_query @ nl
         @ concat (map (\<lambda>(k, v). k @ '':'' @ v @ nl) hs) @ nl
         @ join '';'' (map fst hs) @ nl @ payload_hash)"

definition signing_key ::
  "(string \<Rightarrow> string \<Rightarrow> string) \<Rightarrow> string \<Rightarrow> string \<Rightarrow> string \<Rightarrow> string \<Rightarrow> string" where
  "signing_key mac secret date_stamp region service =
     mac (mac (mac (mac (''AWS4'' @ secret) date_stamp) region) service) ''aws4_request''"

definition sign_v4 ::
  "(string \<Rightarrow> string) \<Rightarrow> (string \<Rightarrow> string) \<Rightarrow> (string \<Rightarrow> string \<Rightarrow> string) \<Rightarrow> credentials \<Rightarrow> string \<Rightarrow> string \<Rightarrow> string \<Rightarrow>
     string \<Rightarrow> string \<Rightarrow> (string \<times> string) list \<Rightarrow> string \<Rightarrow> string \<Rightarrow> string option" where
  "sign_v4 hex sha mac creds meth region service canonical_uri canonical_query headers payload_hash
       amz_date =
     (if length amz_date < 8 \<or> (8 < length amz_date \<and> is_cont (amz_date ! 8)) then None
      else
        (let date_stamp = take 8 amz_date;
             hs = sorted_headers headers;
             nl = [CHR 0x0A];
             scope = date_stamp @ ''/'' @ region @ ''/'' @ service @ ''/aws4_request'';
             string_to_sign = ''AWS4-HMAC-SHA256'' @ nl @ amz_date @ nl @ scope @ nl
               @ sha256_hex hex sha
                   (canonical_request meth canonical_uri canonical_query hs payload_hash);
             signature = hex
               (mac (signing_key mac (secret_key creds) date_stamp region service) string_to_sign)
         in Some (''AWS4-HMAC-SHA256 Credential='' @ access_key creds @ ''/'' @ scope
              @ '', SignedHeaders='' @ join '';'' (map fst hs) @ '', Signature='' @ signature)))"

section \<open>Path encoding is lossless\<close>

text \<open>Percent decoding, and the encoding byte by byte.\<close>

definition hex_digit :: "char \<Rightarrow> nat" where
  "hex_digit c = (if is_ascii_digit c then byte_nat c - 48 else byte_nat c - 55)"

fun uri_decode :: "string \<Rightarrow> string" where
  "uri_decode [] = []"
| "uri_decode (c # s) =
     (if c = CHR ''%'' then
        (case s of
           a # b # r \<Rightarrow> nat_byte (16 * hex_digit a + hex_digit b) # uri_decode r
         | _ \<Rightarrow> [c])
      else c # uri_decode s)"

definition encode_byte :: "char \<Rightarrow> string" where
  "encode_byte b =
     (if b = CHR ''/'' \<or> is_unreserved b then [b] else CHR ''%'' # hex2_upper (byte_nat b))"

lemma hex_digit_table:
  "list_all (\<lambda>n. hex_digit (hex_digit_upper n) = n \<and> is_unreserved (hex_digit_upper n)) [0 ..< 16]"
  by code_simp

lemma hex_digit_upper: "n < 16 \<Longrightarrow> hex_digit (hex_digit_upper n) = n \<and> is_unreserved (hex_digit_upper n)"
  using hex_digit_table by (simp add: list_all_iff)

lemma percent_reserved: "\<not> is_unreserved (CHR ''%'')"
  by code_simp

lemma slash_reserved: "\<not> is_unreserved (CHR ''/'')"
  by code_simp

lemma nibble: "byte_nat b div 16 < 16"
  by (rule less_mult_imp_div_less) simp

lemma decode_encode_byte: "uri_decode (encode_byte b @ s) = b # uri_decode s"
proof -
  have "16 * hex_digit (hex_digit_upper (byte_nat b div 16))
      + hex_digit (hex_digit_upper (byte_nat b mod 16)) = byte_nat b"
    using hex_digit_upper nibble by simp
  then show ?thesis
    using percent_reserved by (auto simp: encode_byte_def hex2_upper_def)
qed

lemma encode_segment_Cons:
  "c \<noteq> CHR ''/'' \<Longrightarrow> encode_segment (c # s) = encode_byte c @ encode_segment s"
  by (simp add: encode_segment_def encode_byte_def)

lemma join_head: "join sep ((a @ b) # ps) = a @ join sep (b # ps)"
  by (cases ps) simp_all

lemma uri_encode_bytes: "uri_encode_path key = concat (map encode_byte key)"
proof (induction key)
  case Nil
  show ?case by (simp add: uri_encode_path_def encode_segment_def)
next
  case (Cons c key)
  obtain p ps where split: "split_char (CHR ''/'') key = p # ps"
    using split_char_nonempty by (meson neq_Nil_conv)
  show ?case
  proof (cases "c = CHR ''/''")
    case True
    then have "uri_encode_path (c # key) = CHR ''/'' # uri_encode_path key"
      by (simp add: uri_encode_path_def split encode_segment_def)
    then show ?thesis using True Cons by (simp add: encode_byte_def)
  next
    case False
    then have "uri_encode_path (c # key) = encode_byte c @ uri_encode_path key"
      by (simp add: uri_encode_path_def split encode_segment_Cons join_head)
    then show ?thesis using Cons by simp
  qed
qed

text \<open>
  Encoding an object key loses nothing and stays inside the URI alphabet: percent-decoding
  the canonical path gives the key back byte by byte, and the path consists of unreserved
  characters, percent signs and the slashes of the key only.
\<close>

theorem uri_path_roundtrip:
  "uri_decode (uri_encode_path key) = key
   \<and> list_all (\<lambda>c. is_unreserved c \<or> c = CHR ''%'' \<or> c = CHR ''/'') (uri_encode_path key)
   \<and> filter (\<lambda>c. c = CHR ''/'') (uri_encode_path key) = filter (\<lambda>c. c = CHR ''/'') key"
proof (intro conjI)
  show "uri_decode (uri_encode_path key) = key"
    unfolding uri_encode_bytes by (induction key) (simp_all add: decode_encode_byte)
  have digits: "is_unreserved (hex_digit_upper (byte_nat b div 16))"
    "is_unreserved (hex_digit_upper (byte_nat b mod 16))" for b
    using hex_digit_upper [of "byte_nat b div 16"] hex_digit_upper [of "byte_nat b mod 16"]
      nibble [of b] by simp_all
  then show "list_all (\<lambda>c. is_unreserved c \<or> c = CHR ''%'' \<or> c = CHR ''/'') (uri_encode_path key)"
    unfolding uri_encode_bytes
    by (induction key) (auto simp: encode_byte_def hex2_upper_def)
  have "hex_digit_upper (byte_nat b div 16) \<noteq> CHR ''/''"
    "hex_digit_upper (byte_nat b mod 16) \<noteq> CHR ''/''" for b
    using digits [of b] slash_reserved by metis+
  then show "filter (\<lambda>c. c = CHR ''/'') (uri_encode_path key) = filter (\<lambda>c. c = CHR ''/'') key"
    unfolding uri_encode_bytes
    by (induction key) (auto simp: encode_byte_def hex2_upper_def)
qed

section \<open>Header order\<close>

lemma sort_key_perm:
  assumes "mset xs = mset ys" and "distinct (map f xs)"
  shows "sort_key f xs = sort_key f ys"
proof (rule properties_for_sort_key)
  show "mset (sort_key f ys) = mset xs" using assms(1) by simp
  show "sorted (map f (sort_key f ys))" by simp
  fix k
  assume k: "k \<in> set (sort_key f ys)"
  have one: "filter (\<lambda>x. f k = f x) zs = [k]" if "mset zs = mset xs" for zs
  proof -
    have "distinct (map f zs)" using assms(2) that by (metis mset_eq_imp_distinct_iff mset_map)
    moreover have "k \<in> set zs" using k that assms(1) by (metis mset_eq_setD set_sort)
    ultimately show ?thesis by (induction zs) (auto simp: filter_empty_conv image_iff)
  qed
  show "filter (\<lambda>x. f k = f x) (sort_key f ys) = filter (\<lambda>x. f k = f x) xs"
    using one [of "sort_key f ys"] one [of xs] assms(1) by simp
qed

text \<open>
  A signature does not depend on the order in which the headers are given nor on the case
  of their names: two header lists that agree up to order and case, with distinct names, are
  signed alike; and the headers signed are all of them, in increasing order of their names.
\<close>

theorem signature_header_order:
  assumes "mset (map (\<lambda>(k, v). (lower k, trim v)) headers)
      = mset (map (\<lambda>(k, v). (lower k, trim v)) headers')"
    and "distinct (map (\<lambda>(k, v). lower k) headers)"
  shows "sign_v4 hex sha mac creds meth region service uri query headers hash date
      = sign_v4 hex sha mac creds meth region service uri query headers' hash date
    \<and> mset (map fst (sorted_headers headers)) = mset (map (\<lambda>(k, v). lower k) headers)
    \<and> sorted (map fst (sorted_headers headers))"
proof (intro conjI)
  let ?f = "\<lambda>(k, v). (lower k, trim v)"
  have names: "map fst (map ?f headers) = map (\<lambda>(k, v). lower k) headers"
    by (induction headers) auto
  then have "distinct (map fst (map ?f headers))" using assms(2) by (simp only:)
  then have "sorted_headers headers = sorted_headers headers'"
    unfolding sorted_headers_def using assms(1) by (intro sort_key_perm)
  then show "sign_v4 hex sha mac creds meth region service uri query headers hash date
      = sign_v4 hex sha mac creds meth region service uri query headers' hash date"
    by (simp only: sign_v4_def)
  have "mset (map fst (sorted_headers headers)) = mset (map fst (map ?f headers))"
    by (simp only: sorted_headers_def mset_map mset_sort)
  then show "mset (map fst (sorted_headers headers)) = mset (map (\<lambda>(k, v). lower k) headers)"
    unfolding names .
  show "sorted (map fst (sorted_headers headers))" by (simp add: sorted_headers_def)
qed

theorem signature_header_order_witness:
  "sign_v4 (\<lambda>b. b) (\<lambda>b. b) (@) \<lparr>access_key = ''AK'', secret_key = ''s'', session_token = None\<rparr> ''GET'' ''r'' ''s3'' ''/k'' [] [(''X-Amz'', ''1''), (''Host'', ''h'')] ''p'' ''20240101T000000Z''
   = sign_v4 (\<lambda>b. b) (\<lambda>b. b) (@) \<lparr>access_key = ''AK'', secret_key = ''s'', session_token = None\<rparr> ''GET'' ''r'' ''s3'' ''/k'' [] [(''host'', ''h''), (''X-AMZ'', ''1'')] ''p'' ''20240101T000000Z''"
proof -
  let ?hs = "[(''X-Amz'', ''1''), (''Host'', ''h'')]"
  let ?gs = "[(''host'', ''h''), (''X-AMZ'', ''1'')]"
  have low: "lower ''X-AMZ'' = lower ''X-Amz''" "lower ''host'' = lower ''Host''" by code_simp+
  have m: "mset (map (\<lambda>(k, v). (lower k, trim v)) ?hs) = mset (map (\<lambda>(k, v). (lower k, trim v)) ?gs)"
    by (simp add: low)
  have "length (lower ''X-Amz'') \<noteq> length (lower ''Host'')" by simp
  then have "lower ''X-Amz'' \<noteq> lower ''Host''" by (rule contrapos_nn) (simp only:)
  then have d: "distinct (map (\<lambda>(k, v). lower k) ?hs)" by simp
  from signature_header_order [OF m d] show ?thesis by blast
qed

end
