(* ===== verification/Paths.thy ===== *)
theory Paths
  imports Prelude
begin

text \<open>
  What the host uses of \<open>std::path\<close>: a path is its text, \<open>Path::join\<close> and \<open>Path::file_name\<close>.
\<close>

text \<open>An absolute right-hand side replaces the left-hand side.\<close>

definition path_join :: "string \<Rightarrow> string \<Rightarrow> string" where
  "path_join base rel =
     (if starts_with ''/'' rel then rel
      else if base = [] \<or> ends_with ''/'' base then base @ rel else base @ ''/'' @ rel)"

text \<open>The last component; a path that ends with two dots or has no component has none.\<close>

definition file_name :: "string \<Rightarrow> string option" where
  "file_name p =
     (let cs = filter (\<lambda>s. s \<noteq> [] \<and> s \<noteq> ''.'') (split_char (CHR ''/'') p)
      in if cs = [] \<or> last cs = ''..'' then None else Some (last cs))"

end
