(* ===== verification/Delta_Rewrite.thy ===== *)
theory Delta_Rewrite
  imports Resolver Sql_Lex Paths "HOL-Library.Multiset"
begin

text \<open>
  The rewriting of \<open>delta_scan('dir')\<close> to \<open>read_parquet([...])\<close>
  (\<open>crates/ducklink-host/src/delta_rewrite.rs\<close>). The JSON parser is a parameter \<open>parse\<close>, from a
  line to a value of the library if the line is JSON, with the accessors of \<^typ>\<open>'j json\<close>; the
  concatenated log of a directory is the parameter \<open>read_log\<close>. A path is its text.
\<close>

section \<open>The active files of a log\<close>

definition action_path :: "'j json \<Rightarrow> 'j \<Rightarrow> string \<Rightarrow> string option" where
  "action_path js obj act = Option.bind (jget js obj act) (\<lambda>a. get_str js a ''path'')"

definition log_line ::
  "'j json \<Rightarrow> (string \<Rightarrow> 'j option) \<Rightarrow> string \<Rightarrow> string list \<times> string set \<Rightarrow> string list \<times> string set" where
  "log_line js parse line0 st =
     (let line = trim line0
      in if line = [] then st
         else (case parse line of
             None \<Rightarrow> st
           | Some obj \<Rightarrow>
               (let (order, active) =
                      (case action_path js obj ''add'' of
                         Some p \<Rightarrow>
                           if p \<in> snd st then st else (fst st @ [p], insert p (snd st))
                       | None \<Rightarrow> st)
                in (case action_path js obj ''remove'' of
                      Some p \<Rightarrow> (order, active - {p})
                    | None \<Rightarrow> (order, active)))))"

definition active_files :: "'j json \<Rightarrow> (string \<Rightarrow> 'j option) \<Rightarrow> string \<Rightarrow> string list" where
  "active_files js parse log =
     (let (order, active) = fold (log_line js parse) (lines log) ([], {})
      in filter (\<lambda>p. p \<in> active) order)"

section \<open>Calls in a statement\<close>

record delta_scan_call =
  call_start :: nat
  call_end :: nat
  call_dir :: string

text \<open>What follows the name: parentheses around one string literal. The literal and the rest.\<close>

definition literal_argument :: "string \<Rightarrow> (string \<times> string) option" where
  "literal_argument s =
     (case dropWhile is_ascii_ws s of
        [] \<Rightarrow> None
      | c # s1 \<Rightarrow>
          if c \<noteq> CHR ''('' then None
          else (case parse_single_quoted_string (dropWhile is_ascii_ws s1) of
              None \<Rightarrow> None
            | Some (dir, s2) \<Rightarrow>
                (case dropWhile is_ascii_ws s2 of
                   [] \<Rightarrow> None
                 | d # s3 \<Rightarrow> if d = CHR '')'' then Some (dir, s3) else None)))"

lemma quoted_go_length: "quoted_go s = Some (d, r) \<Longrightarrow> length r < length s"
  by (induction s arbitrary: d r rule: quoted_go.induct) (fastforce split: if_splits)+

lemma literal_argument_length: "literal_argument s = Some (d, r) \<Longrightarrow> length r < length s"
proof -
  assume a: "literal_argument s = Some (d, r)"
  obtain s1 s2 where s1: "dropWhile is_ascii_ws s = CHR ''('' # s1"
    and q: "parse_single_quoted_string (dropWhile is_ascii_ws s1) = Some (d, s2)"
    and s2: "dropWhile is_ascii_ws s2 = CHR '')'' # r"
    using a by (auto simp: literal_argument_def split: list.splits option.splits if_splits prod.splits)
  have "length s2 < length (dropWhile is_ascii_ws s1)"
    using q quoted_go_length by (fastforce simp: parse_single_quoted_string_def split: list.splits if_splits)
  moreover have "length (dropWhile is_ascii_ws s1) \<le> length s1" "length (CHR ''('' # s1) \<le> length s"
    "length (CHR '')'' # r) \<le> length s2"
    using length_dropWhile_le [of is_ascii_ws] s1 s2 by metis+
  ultimately show ?thesis by simp
qed

lemma delta_scan_found:
  assumes "find_sub ''delta_scan'' (drop i low) = Some rel"
  shows "rel + 10 \<le> length low - i"
  using find_sub_Some [OF assms] by simp

text \<open>The scan from \<open>i\<close>; \<open>low\<close> is the statement in lower case.\<close>

function find_calls_from :: "string \<Rightarrow> string \<Rightarrow> nat \<Rightarrow> delta_scan_call list" where
  "find_calls_from sql low i =
     (case find_sub ''delta_scan'' (drop i low) of
        None \<Rightarrow> []
      | Some rel \<Rightarrow>
          (let name_start = i + rel;
               after_name = name_start + 10
           in if 0 < name_start \<and> is_word_byte (sql ! (name_start - 1))
              then find_calls_from sql low after_name
              else (case literal_argument (drop after_name sql) of
                  None \<Rightarrow> find_calls_from sql low after_name
                | Some (dir, rest) \<Rightarrow>
                    (let e = after_name + (length (drop after_name sql) - length rest)
                     in \<lparr>call_start = name_start, call_end = e, call_dir = dir\<rparr>
                        # find_calls_from sql low e))))"
  by pat_completeness auto
termination
  by (relation "measure (\<lambda>(sql, low, i). length low - i)")
     (use delta_scan_found in \<open>fastforce+\<close>)

declare find_calls_from.simps [simp del]

definition find_delta_scan_calls :: "string \<Rightarrow> delta_scan_call list" where
  "find_delta_scan_calls sql = find_calls_from sql (lower sql) 0"

section \<open>Mounts and the replacement\<close>

definition trim_end_char :: "char \<Rightarrow> string \<Rightarrow> string" where
  "trim_end_char c s = rev (dropWhile (\<lambda>x. x = c) (rev s))"

definition mount_guest :: "string \<Rightarrow> string" where
  "mount_guest guest = (let g = trim_end_char (CHR ''/'') guest in if g = ''.'' then [] else g)"

definition mount_rel :: "string \<Rightarrow> string \<Rightarrow> string option" where
  "mount_rel dir_norm g =
     (if g = [] then Some dir_norm
      else if dir_norm = g then Some []
      else Option.bind (strip_prefix g dir_norm) (strip_prefix ''/''))"

fun best_mount ::
  "string \<Rightarrow> (string \<times> string) list \<Rightarrow> (string \<times> string \<times> string) option \<Rightarrow>
     (string \<times> string \<times> string) option" where
  "best_mount dir_norm [] cur = cur"
| "best_mount dir_norm ((host, guest) # ps) cur =
     (let g = mount_guest guest
      in case mount_rel dir_norm g of
           None \<Rightarrow> best_mount dir_norm ps cur
         | Some rel \<Rightarrow>
             (case cur of
                None \<Rightarrow> best_mount dir_norm ps (Some (host, g, rel))
              | Some (h, bg, r) \<Rightarrow>
                  if length bg < length g then best_mount dir_norm ps (Some (host, g, rel))
                  else best_mount dir_norm ps cur))"

definition resolve_guest_dir :: "string \<Rightarrow> (string \<times> string) list \<Rightarrow> (string \<times> string) option" where
  "resolve_guest_dir dir preopens =
     (let dir_norm = trim_end_char (CHR ''/'') dir
      in map_option (\<lambda>(host, _, rel). (if rel = [] then host else path_join host rel, dir_norm))
           (best_mount dir_norm preopens None))"

definition build_read_parquet :: "string \<Rightarrow> string list \<Rightarrow> string option" where
  "build_read_parquet guest_dir files =
     (if files = [] then None
      else
        (let guest = trim_end_char (CHR ''/'') guest_dir;
             full = (\<lambda>f. if guest = [] then f else guest @ ''/'' @ f);
             lit = (\<lambda>f. [CHR 0x27] @ str_replace [CHR 0x27] [CHR 0x27, CHR 0x27] (full f) @ [CHR 0x27])
         in Some (''(SELECT * FROM read_parquet(['' @ join '', '' (map lit files) @ '']))'')))"

definition delta_replacement ::
  "'j json \<Rightarrow> (string \<Rightarrow> 'j option) \<Rightarrow> (string \<Rightarrow> string option) \<Rightarrow> (string \<times> string) list \<Rightarrow>
     delta_scan_call \<Rightarrow> string option" where
  "delta_replacement js parse read_log preopens c =
     Option.bind (resolve_guest_dir (call_dir c) preopens) (\<lambda>(host_dir, guest_dir).
     Option.bind (read_log host_dir) (\<lambda>log.
       build_read_parquet guest_dir (active_files js parse log)))"

fun splice_calls ::
  "string \<Rightarrow> nat \<Rightarrow> (delta_scan_call \<Rightarrow> string option) \<Rightarrow> delta_scan_call list \<Rightarrow> string" where
  "splice_calls sql cursor repl [] = drop cursor sql"
| "splice_calls sql cursor repl (c # cs) =
     take (call_start c - cursor) (drop cursor sql)
     @ (case repl c of
          Some r \<Rightarrow> r
        | None \<Rightarrow> take (call_end c - call_start c) (drop (call_start c) sql))
     @ splice_calls sql (call_end c) repl cs"

definition rewrite_delta_scan ::
  "'j json \<Rightarrow> (string \<Rightarrow> 'j option) \<Rightarrow> (string \<Rightarrow> string option) \<Rightarrow> (string \<times> string) list \<Rightarrow>
     string \<Rightarrow> string" where
  "rewrite_delta_scan js parse read_log preopens sql =
     (let calls = find_delta_scan_calls sql
      in if calls = [] then sql
         else splice_calls sql 0 (delta_replacement js parse read_log preopens) calls)"

section \<open>The log as a sequence of actions\<close>

text \<open>
  The reference: a log is the list of its add and remove actions, and a file is live when its last
  action is an add.
\<close>

datatype action = Add string | Remove string

definition opt_list :: "'a option \<Rightarrow> 'a list" where
  "opt_list x = (case x of None \<Rightarrow> [] | Some a \<Rightarrow> [a])"

definition line_actions :: "'j json \<Rightarrow> (string \<Rightarrow> 'j option) \<Rightarrow> string \<Rightarrow> action list" where
  "line_actions js parse line0 =
     (case (if trim line0 = [] then None else parse (trim line0)) of
        None \<Rightarrow> []
      | Some obj \<Rightarrow>
          map Add (opt_list (action_path js obj ''add''))
          @ map Remove (opt_list (action_path js obj ''remove'')))"

definition log_actions :: "'j json \<Rightarrow> (string \<Rightarrow> 'j option) \<Rightarrow> string \<Rightarrow> action list" where
  "log_actions js parse log = concat (map (line_actions js parse) (lines log))"

fun act :: "action \<Rightarrow> string list \<times> string set \<Rightarrow> string list \<times> string set" where
  "act (Add p) (ord, live) = (if p \<in> live then (ord, live) else (ord @ [p], insert p live))"
| "act (Remove p) (ord, live) = (ord, live - {p})"

lemma log_line_act: "log_line js parse l st = fold act (line_actions js parse l) st"
  by (cases st)
     (auto simp: log_line_def line_actions_def Let_def opt_list_def split: option.splits prod.splits)

lemma log_lines_act: "fold (log_line js parse) ls st = fold act (concat (map (line_actions js parse) ls)) st"
  by (induction ls arbitrary: st) (simp_all add: log_line_act)

definition last_add :: "action list \<Rightarrow> string \<Rightarrow> bool" where
  "last_add acts p \<longleftrightarrow> (\<exists>xs ys. acts = xs @ Add p # ys \<and> Remove p \<notin> set ys)"

lemma last_add_snoc:
  "last_add (acts @ [a]) p \<longleftrightarrow> a = Add p \<or> (last_add acts p \<and> a \<noteq> Remove p)"
proof
  assume "last_add (acts @ [a]) p"
  then obtain xs ys where e: "acts @ [a] = xs @ Add p # ys" and n: "Remove p \<notin> set ys"
    unfolding last_add_def by blast
  show "a = Add p \<or> (last_add acts p \<and> a \<noteq> Remove p)"
  proof (cases ys rule: rev_cases)
    case (snoc zs b)
    then show ?thesis using e n unfolding last_add_def by auto
  qed (use e in simp)
next
  assume r: "a = Add p \<or> (last_add acts p \<and> a \<noteq> Remove p)"
  show "last_add (acts @ [a]) p"
  proof (cases "a = Add p")
    case False
    with r obtain xs ys where "acts = xs @ Add p # ys" "Remove p \<notin> set ys" "a \<noteq> Remove p"
      unfolding last_add_def by blast
    then have "acts @ [a] = xs @ Add p # (ys @ [a])" "Remove p \<notin> set (ys @ [a])" by auto
    then show ?thesis unfolding last_add_def by blast
  next
    case True
    then show ?thesis unfolding last_add_def by (intro exI [of _ acts] exI [of _ "[]"]) simp
  qed
qed

text \<open>How often a path becomes active: the adds that find it inactive.\<close>

fun activations :: "string \<Rightarrow> bool \<Rightarrow> action list \<Rightarrow> nat" where
  "activations p live [] = 0"
| "activations p live (Add q # acts) =
     (if q = p then (if live then 0 else 1) + activations p True acts else activations p live acts)"
| "activations p live (Remove q # acts) =
     (if q = p then activations p False acts else activations p live acts)"

lemma fold_act_live: "p \<in> snd (fold act acts ([], {})) \<longleftrightarrow> last_add acts p"
proof (induction acts rule: rev_induct)
  case (snoc a acts)
  obtain ord live where s: "fold act acts ([], {}) = (ord, live)" by force
  with snoc have "p \<in> live \<longleftrightarrow> last_add acts p" by simp
  with s show ?case by (cases a) (auto simp: last_add_snoc)
qed (simp add: last_add_def)

lemma fold_act_count:
  "count_list (fst (fold act acts (ord, live))) p
     = count_list ord p + activations p (p \<in> live) acts"
proof (induction acts arbitrary: ord live)
  case (Cons a acts)
  show ?case
  proof (cases a)
    case (Add q)
    then show ?thesis by (cases "q \<in> live"; cases "q = p") (simp_all add: Cons.IH)
  next
    case (Remove q)
    then show ?thesis by (cases "q = p") (simp_all add: Cons.IH)
  qed
qed simp

lemma count_list_filter: "count_list (filter P xs) x = (if P x then count_list xs x else 0)"
  by (induction xs) auto

lemma active_files_fold:
  "active_files js parse log =
     (let (ord, live) = fold act (log_actions js parse log) ([], {}) in filter (\<lambda>p. p \<in> live) ord)"
  by (simp add: active_files_def log_actions_def log_lines_act)

text \<open>
  C14. The files that a Delta scan reads are those whose last action in the log is an add, and a
  path is listed as often as the log activated it, so once for a log that never adds a path again
  after removing it.
\<close>

theorem active_files_last_action:
  "count_list (active_files js parse log) p =
     (if last_add (log_actions js parse log) p
      then activations p False (log_actions js parse log) else 0)"
proof -
  obtain ord live where s: "fold act (log_actions js parse log) ([], {}) = (ord, live)" by force
  have "p \<in> live \<longleftrightarrow> last_add (log_actions js parse log) p"
    using fold_act_live [of p "log_actions js parse log"] s by simp
  moreover have "count_list ord p = activations p False (log_actions js parse log)"
    using fold_act_count [of "log_actions js parse log" "[]" "{}" p] s by simp
  ultimately show ?thesis by (simp add: active_files_fold s count_list_filter)
qed

lemma readded_file_listed_twice:
  "activations ''a'' False [Add ''a'', Remove ''a'', Add ''a''] = 2"
  "last_add [Add ''a'', Remove ''a'', Add ''a''] ''a''"
  using last_add_snoc [of "[Add ''a'', Remove ''a'']" "Add ''a''" "''a''"] by simp_all

section \<open>The rewrite leaves the rest of the statement alone\<close>

lemma quoted_go_prefix:
  "quoted_go s = Some (d, r) \<Longrightarrow>
     \<exists>t. s = t @ r \<and> t \<noteq> [] \<and> (\<forall>r'. r' = [] \<or> hd r' \<noteq> CHR 0x27 \<longrightarrow> quoted_go (t @ r') = Some (d, r'))"
proof (induction s arbitrary: d r rule: quoted_go.induct)
  case (2 c)
  then have c: "c = CHR 0x27" "d = []" "r = []" by (auto split: if_splits)
  have "quoted_go ([c] @ r') = Some (d, r')" if "r' = [] \<or> hd r' \<noteq> CHR 0x27" for r'
    using that c by (cases r') auto
  then show ?case using c by (intro exI [of _ "[c]"]) simp
next
  case (3 c e s)
  consider (dbl) "c = CHR 0x27" "e = CHR 0x27" | (close) "c = CHR 0x27" "e \<noteq> CHR 0x27"
    | (plain) "c \<noteq> CHR 0x27" by blast
  then show ?case
  proof cases
    case dbl
    then obtain d' where q: "quoted_go s = Some (d', r)" "d = CHR 0x27 # d'"
      using "3.prems" by (auto split: if_splits)
    from "3.IH"(1) [OF dbl q(1)] obtain t where
      "s = t @ r" "\<And>r'. r' = [] \<or> hd r' \<noteq> CHR 0x27 \<Longrightarrow> quoted_go (t @ r') = Some (d', r')" by blast
    then show ?thesis using dbl q by (intro exI [of _ "c # e # t"]) auto
  next
    case close
    then have "d = []" "r = e # s" using "3.prems" by auto
    moreover have "quoted_go ([c] @ r') = Some ([], r')" if "r' = [] \<or> hd r' \<noteq> CHR 0x27" for r'
      using that close by (cases r') auto
    ultimately show ?thesis by (intro exI [of _ "[c]"]) simp
  next
    case plain
    then obtain d' where q: "quoted_go (e # s) = Some (d', r)" "d = latin1 c @ d'"
      using "3.prems" by auto
    from "3.IH"(2) [OF plain q(1)] obtain t where
      t: "e # s = t @ r" "t \<noteq> []"
        "\<And>r'. r' = [] \<or> hd r' \<noteq> CHR 0x27 \<Longrightarrow> quoted_go (t @ r') = Some (d', r')" by blast
    then have "quoted_go ((c # t) @ r') = Some (d, r')" if "r' = [] \<or> hd r' \<noteq> CHR 0x27" for r'
      using that plain q by (simp add: quoted_go_step)
    then show ?thesis using t by (intro exI [of _ "c # t"]) simp
  qed
qed simp

lemma literal_argument_prefix:
  assumes "literal_argument s = Some (d, r)"
  shows "\<exists>t. s = t @ r \<and> literal_argument t = Some (d, [])"
proof -
  obtain s1 s2 where s1: "dropWhile is_ascii_ws s = CHR ''('' # s1"
    and q: "parse_single_quoted_string (dropWhile is_ascii_ws s1) = Some (d, s2)"
    and s2: "dropWhile is_ascii_ws s2 = CHR '')'' # r"
    using assms by (auto simp: literal_argument_def split: list.splits option.splits if_splits prod.splits)
  obtain q1 where q1: "dropWhile is_ascii_ws s1 = CHR 0x27 # q1" "quoted_go q1 = Some (d, s2)"
    using q by (auto simp: parse_single_quoted_string_def split: list.splits if_splits)
  obtain w where w: "q1 = w @ s2"
    "\<And>r'. r' = [] \<or> hd r' \<noteq> CHR 0x27 \<Longrightarrow> quoted_go (w @ r') = Some (d, r')"
    using quoted_go_prefix [OF q1(2)] by blast
  define a b e where "a = takeWhile is_ascii_ws s" and "b = takeWhile is_ascii_ws s1"
    and "e = takeWhile is_ascii_ws s2"
  have sa: "s = a @ CHR ''('' # s1" and sb: "s1 = b @ CHR 0x27 # q1" and se: "s2 = e @ CHR '')'' # r"
    using s1 q1(1) s2 takeWhile_dropWhile_id [of is_ascii_ws] unfolding a_def b_def e_def by metis+
  have ws: "\<forall>c \<in> set a. is_ascii_ws c" "\<forall>c \<in> set b. is_ascii_ws c" "\<forall>c \<in> set e. is_ascii_ws c"
    unfolding a_def b_def e_def by (auto dest: set_takeWhileD)
  have nw: "\<not> is_ascii_ws (CHR ''('')" "\<not> is_ascii_ws (CHR 0x27)" "\<not> is_ascii_ws (CHR '')'')"
    by code_simp+
  have skip: "dropWhile is_ascii_ws (v @ c # z) = c # z"
    if "\<forall>x \<in> set v. is_ascii_ws x" "\<not> is_ascii_ws c" for v c z
    using that by (simp add: dropWhile_append)
  have nq: "e @ CHR '')'' # [] = [] \<or> hd (e @ CHR '')'' # []) \<noteq> CHR 0x27"
    using ws(3) nw(2) by (cases e) auto
  have lit: "parse_single_quoted_string (CHR 0x27 # w @ e @ [CHR '')'']) = Some (d, e @ [CHR '')''])"
    using w(2) [OF nq] by (simp add: parse_single_quoted_string_def)
  have sk: "dropWhile is_ascii_ws (a @ CHR ''('' # z) = CHR ''('' # z"
    "dropWhile is_ascii_ws (b @ CHR 0x27 # z) = CHR 0x27 # z"
    "dropWhile is_ascii_ws (e @ CHR '')'' # z) = CHR '')'' # z" for z
    using skip [OF ws(1) nw(1)] skip [OF ws(2) nw(2)] skip [OF ws(3) nw(3)] by blast+
  let ?t = "a @ CHR ''('' # b @ CHR 0x27 # w @ e @ [CHR '')'']"
  have "literal_argument ?t = Some (d, [])"
    unfolding literal_argument_def sk(1) using lit sk(3) [of "[]"] by (simp add: sk(2))
  moreover have "s = ?t @ r" using sa sb w(1) se by simp
  ultimately show ?thesis by blast
qed

definition call_text :: "string \<Rightarrow> string \<Rightarrow> bool" where
  "call_text t d \<longleftrightarrow> lower (take 10 t) = ''delta_scan'' \<and> literal_argument (drop 10 t) = Some (d, [])"

fun calls_in :: "string \<Rightarrow> nat \<Rightarrow> delta_scan_call list \<Rightarrow> bool" where
  "calls_in sql i [] \<longleftrightarrow> True"
| "calls_in sql i (c # cs) \<longleftrightarrow>
     i \<le> call_start c \<and> call_start c \<le> call_end c \<and> call_end c \<le> length sql
     \<and> call_text (take (call_end c - call_start c) (drop (call_start c) sql)) (call_dir c)
     \<and> calls_in sql (call_end c) cs"

lemma calls_in_mono: "calls_in sql j cs \<Longrightarrow> i \<le> j \<Longrightarrow> calls_in sql i cs"
  by (cases cs) auto

lemma found_call_text:
  assumes f: "find_sub ''delta_scan'' (drop i (lower sql)) = Some rel"
    and l: "literal_argument (drop (i + rel + 10) sql) = Some (d, r)"
    and e: "e = i + rel + 10 + (length (drop (i + rel + 10) sql) - length r)"
  shows "call_text (take (e - (i + rel)) (drop (i + rel) sql)) d" "i + rel + 10 \<le> e" "e \<le> length sql"
proof -
  have "rel + 10 \<le> length sql - i" and nm: "take 10 (drop rel (drop i (lower sql))) = ''delta_scan''"
    using find_sub_Some [OF f] by (simp_all add: lower_def eval_nat_numeral)
  then have len: "i + rel + 10 \<le> length sql" by linarith
  obtain t where t: "drop (i + rel + 10) sql = t @ r" "literal_argument t = Some (d, [])"
    using literal_argument_prefix [OF l] by blast
  have et: "e = i + rel + 10 + length t" using e t(1) by simp
  have "length sql - (i + rel + 10) = length t + length r"
    using arg_cong [OF t(1), of length] by simp
  then show "e \<le> length sql" using et len by simp
  show "i + rel + 10 \<le> e" using et by simp
  have "drop 10 (take (e - (i + rel)) (drop (i + rel) sql)) = t"
    using t(1) et by (simp add: drop_take add.commute)
  moreover have "lower (take 10 (take (e - (i + rel)) (drop (i + rel) sql))) = ''delta_scan''"
    using nm et by (simp add: lower_def take_map drop_map add.commute min_def)
  ultimately show "call_text (take (e - (i + rel)) (drop (i + rel) sql)) d"
    using t(2) by (simp add: call_text_def)
qed

lemma find_calls_in: "low = lower sql \<Longrightarrow> calls_in sql i (find_calls_from sql low i)"
proof (induction sql low i rule: find_calls_from.induct)
  case (1 sql low i)
  show ?case
  proof (cases "find_sub ''delta_scan'' (drop i low)")
    case (Some rel)
    let ?n = "i + rel"
    show ?thesis
    proof (cases "0 < ?n \<and> is_word_byte (sql ! (?n - 1))")
      case True
      then have "calls_in sql (?n + 10) (find_calls_from sql low (?n + 10))"
        using "1.IH"(1) [OF Some] "1.prems" by simp
      moreover have "find_calls_from sql low i = find_calls_from sql low (?n + 10)"
        by (subst find_calls_from.simps) (use Some True in simp)
      ultimately show ?thesis using calls_in_mono by simp
    next
      case False
      show ?thesis
      proof (cases "literal_argument (drop (?n + 10) sql)")
        case None
        then have "calls_in sql (?n + 10) (find_calls_from sql low (?n + 10))"
          using "1.IH"(2) [OF Some] False "1.prems" by simp
        moreover have "find_calls_from sql low i = find_calls_from sql low (?n + 10)"
          by (subst find_calls_from.simps) (use Some False None in \<open>simp add: Let_def\<close>)
        ultimately show ?thesis using calls_in_mono by simp
      next
        case (Some dr)
        note fs = \<open>find_sub _ _ = Some rel\<close>
        obtain d r where dr: "dr = (d, r)" by force
        define e where "e = ?n + 10 + (length (drop (?n + 10) sql) - length r)"
        have l: "literal_argument (drop (?n + 10) sql) = Some (d, r)" using Some dr by simp
        have "calls_in sql e (find_calls_from sql low e)"
          using "1.IH"(3) [OF fs refl refl False l refl e_def] "1.prems" by simp
        moreover have "find_calls_from sql low i =
          \<lparr>call_start = ?n, call_end = e, call_dir = d\<rparr> # find_calls_from sql low e"
          by (subst find_calls_from.simps) (use fs False l e_def in \<open>auto simp: Let_def\<close>)
        moreover note found_call_text [OF _ l e_def]
        ultimately show ?thesis using fs "1.prems" by simp
      qed
    qed
  qed (subst find_calls_from.simps, simp)
qed

text \<open>The statement as gaps and calls, each call with its directory; \<open>rep\<close> renders a call.\<close>

definition render :: "(string \<Rightarrow> string \<Rightarrow> string) \<Rightarrow> (string \<times> string \<times> string) list \<Rightarrow> string" where
  "render rep segs = concat (map (\<lambda>(gap, t, d). gap @ rep t d) segs)"

lemma splice_render:
  assumes "\<And>c. repl c = rep (call_dir c)" "calls_in sql cursor cs"
  shows "\<exists>segs tl. drop cursor sql = render (\<lambda>t d. t) segs @ tl
      \<and> splice_calls sql cursor repl cs
          = render (\<lambda>t d. case rep d of Some r \<Rightarrow> r | None \<Rightarrow> t) segs @ tl
      \<and> list_all (\<lambda>(gap, t, d). call_text t d) segs"
  using assms(2)
proof (induction cs arbitrary: cursor)
  case Nil
  show ?case by (intro exI [of _ "[]"] exI [of _ "drop cursor sql"]) (simp add: render_def)
next
  case (Cons c cs)
  let ?g = "take (call_start c - cursor) (drop cursor sql)"
  let ?t = "take (call_end c - call_start c) (drop (call_start c) sql)"
  from Cons.prems have le: "cursor \<le> call_start c" "call_start c \<le> call_end c" by simp_all
  obtain segs tl where IH: "drop (call_end c) sql = render (\<lambda>t d. t) segs @ tl"
    "splice_calls sql (call_end c) repl cs
       = render (\<lambda>t d. case rep d of Some r \<Rightarrow> r | None \<Rightarrow> t) segs @ tl"
    "list_all (\<lambda>(gap, t, d). call_text t d) segs"
    using Cons.IH Cons.prems by fastforce
  have "drop cursor sql = ?g @ drop (call_start c) sql"
    using le(1) by (metis append_take_drop_id drop_drop le_add_diff_inverse2)
  also have "drop (call_start c) sql = ?t @ drop (call_end c) sql"
    using le(2) by (metis append_take_drop_id drop_drop le_add_diff_inverse2)
  finally have "drop cursor sql = render (\<lambda>t d. t) ((?g, ?t, call_dir c) # segs) @ tl"
    using IH(1) by (simp add: render_def)
  moreover have "splice_calls sql cursor repl (c # cs)
      = render (\<lambda>t d. case rep d of Some r \<Rightarrow> r | None \<Rightarrow> t) ((?g, ?t, call_dir c) # segs) @ tl"
    using IH(2) assms(1) by (simp add: render_def)
  moreover have "list_all (\<lambda>(gap, t, d). call_text t d) ((?g, ?t, call_dir c) # segs)"
    using IH(3) Cons.prems by simp
  ultimately show ?case by blast
qed

definition dir_replacement ::
  "'j json \<Rightarrow> (string \<Rightarrow> 'j option) \<Rightarrow> (string \<Rightarrow> string option) \<Rightarrow> (string \<times> string) list \<Rightarrow>
     string \<Rightarrow> string option" where
  "dir_replacement js parse read_log preopens d =
     (case resolve_guest_dir d preopens of
        None \<Rightarrow> None
      | Some (host, guest) \<Rightarrow>
          (case read_log host of
             None \<Rightarrow> None
           | Some log \<Rightarrow> build_read_parquet guest (active_files js parse log)))"

lemma delta_replacement_dir:
  "delta_replacement js parse read_log preopens c = dir_replacement js parse read_log preopens (call_dir c)"
  by (auto simp: delta_replacement_def dir_replacement_def split: option.splits)

text \<open>
  The rewrite only touches complete \<open>delta_scan('dir')\<close> calls: the statement is gaps and calls, the
  result is the same gaps with each call replaced by the scan of its directory's active files, or
  kept where the directory is not mounted, its log cannot be read or it has no active file.
\<close>

theorem delta_rewrite_frame:
  "\<exists>segs tl. sql = render (\<lambda>t d. t) segs @ tl
     \<and> rewrite_delta_scan js parse read_log preopens sql
         = render (\<lambda>t d. case dir_replacement js parse read_log preopens d of
                           Some r \<Rightarrow> r | None \<Rightarrow> t) segs @ tl
     \<and> list_all (\<lambda>(gap, t, d). call_text t d) segs"
proof (cases "find_delta_scan_calls sql = []")
  case True
  then show ?thesis
    by (intro exI [of _ "[]"] exI [of _ sql]) (simp add: rewrite_delta_scan_def render_def)
next
  case False
  have "calls_in sql 0 (find_delta_scan_calls sql)"
    by (simp add: find_delta_scan_calls_def find_calls_in)
  from splice_render [of "delta_replacement js parse read_log preopens"
      "dir_replacement js parse read_log preopens", OF delta_replacement_dir this]
  show ?thesis using False by (simp add: rewrite_delta_scan_def)
qed

section \<open>Mounts\<close>

lemma best_mount_deepest:
  "best_mount d ps cur = Some (h, g, rel) \<Longrightarrow>
     (\<forall>h' g' r'. cur = Some (h', g', r') \<longrightarrow> length g' \<le> length g)
     \<and> (\<forall>(h', guest) \<in> set ps. \<forall>r'. mount_rel d (mount_guest guest) = Some r' \<longrightarrow>
            length (mount_guest guest) \<le> length g)"
proof (induction d ps cur rule: best_mount.induct)
  case (2 d host guest ps cur)
  show ?case
  proof (cases "mount_rel d (mount_guest guest)")
    case None
    then show ?thesis using 2 by (simp add: Let_def)
  next
    case (Some rel')
    show ?thesis
    proof (cases cur)
      case None
      then show ?thesis using "2.IH"(2) [OF refl Some None] "2.prems" Some by (simp add: Let_def)
    next
      case (Some c)
      obtain h0 g0 r0 where c: "c = (h0, g0, r0)" by (cases c)
      have cur: "cur = Some (h0, g0, r0)" using Some c by simp
      show ?thesis
      proof (cases "length g0 < length (mount_guest guest)")
        case True
        then show ?thesis
          using "2.IH"(3) [OF refl \<open>mount_rel _ _ = _\<close> cur refl refl True] "2.prems" cur
            \<open>mount_rel _ _ = _\<close> by (fastforce simp: Let_def)
      next
        case False
        then show ?thesis
          using "2.IH"(4) [OF refl \<open>mount_rel _ _ = _\<close> cur refl refl False] "2.prems" cur
            \<open>mount_rel _ _ = _\<close> by (fastforce simp: Let_def)
      qed
    qed
  qed
qed simp

text \<open>A directory that is absolute, or climbs with two dots, leaves the mounted directory.\<close>

lemma guest_dir_leaves_mount:
  "resolve_guest_dir ''/etc'' [(''/srv/data'', ''.'')] = Some (''/etc'', ''/etc'')"
  "resolve_guest_dir ''data/../../etc'' [(''/srv/data'', ''data'')] = Some (''/srv/data/../../etc'', ''data/../../etc'')"
  by code_simp+

end
