(* ===== verification/Plan_Shape.thy ===== *)
theory Plan_Shape
  imports Resolver Dispatch_More
begin

text \<open>
  Flattening of the core's plan (\<open>crates/ducklink-host/src/plan_shape.rs\<close>). The JSON library is a
  parameter: \<open>parse\<close> reads a text or says what is wrong with it, \<open>js\<close> has the accessors,
  \<open>num_u64\<close> and \<open>num_i64\<close> read a number and \<open>render\<close> prints a value.
\<close>

definition max_nodes :: nat where
  "max_nodes = 65536"

definition flatten_node ::
  "'j json \<Rightarrow> ('j \<Rightarrow> u64 option) \<Rightarrow> ('j \<Rightarrow> i64 option) \<Rightarrow> ('j \<Rightarrow> string) \<Rightarrow> 'j \<Rightarrow> plan_node" where
  "flatten_node js num_u64 num_i64 render node =
     \<lparr>node_id = ucast (or_else (Option.bind (jget js node ''id'') num_u64) 0),
      node_op_type = or_else (get_str js node ''op'') [],
      node_parent =
        (case Option.bind (jget js node ''parent'') num_i64 of
           None \<Rightarrow> None
         | Some p \<Rightarrow> if 0 \<le>s p then Some (ucast p) else None),
      node_params_json = render node\<rparr>"

definition flatten_plan_json ::
  "(string \<Rightarrow> string + 'j) \<Rightarrow> 'j json \<Rightarrow> ('j \<Rightarrow> u64 option) \<Rightarrow> ('j \<Rightarrow> i64 option) \<Rightarrow>
     ('j \<Rightarrow> string) \<Rightarrow> string \<Rightarrow> string + plan_node list" where
  "flatten_plan_json parse js num_u64 num_i64 render plan_json =
     (case parse plan_json of
        Inl e \<Rightarrow> Inl (''bad plan JSON: '' @ e)
      | Inr v \<Rightarrow>
          Inr (case jarr js v of
                 None \<Rightarrow> []
               | Some arr \<Rightarrow> map (flatten_node js num_u64 num_i64 render) (take max_nodes arr)))"

text \<open>
  Node identities are truncated to 32 bits: two nodes whose identities agree modulo \<open>2 ^ 32\<close>
  become one, and a parent of \<open>2 ^ 32\<close> becomes the node 0.
\<close>

lemma plan_ids_collide:
  fixes i :: u64
  shows "(ucast i :: u32) = ucast (i + 2 ^ 32)"
  by transfer (simp add: take_bit_eq_mod mod_mod_cancel)

lemma flatten_bounded:
  "flatten_plan_json parse js num_u64 num_i64 render s = Inr ns \<Longrightarrow> length ns \<le> max_nodes"
  by (auto simp: flatten_plan_json_def split: sum.splits option.splits)

end
