(* ===== verification/Manager_State.thy ===== *)
theory Manager_State
  imports Dispatch_More Extension_State Resolver "HOL-Library.AList"
begin

text \<open>
  The extension manager of the host (\<open>ExtensionManager\<close> of \<open>crates/ducklink-host/src/lib.rs\<close>): its
  state, the way a call reaches an instance, and the lookups. A hash map whose iteration order
  the code observes is an association list in that order; theorems hold for every order.

  An instance is the state of its wasm store together with the state that its host functions
  mutate (\<^typ>\<open>ext_state\<close>). A call into a component may change both and the callback registry, which
  all instances share. What the host does not decide is in the record \<open>world\<close>: the components'
  code, the loader, the file system, the manifest.
\<close>

section \<open>State\<close>

type_synonym 'm inst = "'m \<times> ext_state"
type_synonym 'm running = "'m \<times> ext_state \<times> callback_registry"

record at5_scan_target =
  at5_extension :: string
  at5_storage_handle :: u32
  at5_catalog_handle :: u32
  at5_table :: string

record 'm manager =
  m_core :: bool
  m_extensions :: "(string \<times> 'm inst) list"
  m_registry :: callback_registry
  m_storage_backends :: "(string \<times> string \<times> u32) list"
  m_index_backends :: "(string \<times> string) list"
  m_files_backend :: "(string \<times> u32) option"
  m_collations :: "(string \<times> string \<times> bool) list"
  m_pragmas :: "(string \<times> string \<times> u32) list"
  m_parsers :: "(string \<times> string \<times> u32) list"
  m_optimizers :: "(string \<times> string \<times> u32) list"
  m_at5_targets :: "u32 \<rightharpoonup> at5_scan_target"
  m_next_at5 :: u32
  m_filterable_tables :: "filterable_table_reg list"
  m_snapshot_enabled :: bool
  m_policy :: resolve_policy
  m_last_resolutions :: "string \<rightharpoonup> string"
  m_injected_load :: bool
  m_injected_prefix :: bool
  m_deferred_prefixes :: "(string \<times> string) list"
  m_deferred_names :: "string list"
  m_deferred :: pending_registrations
  m_sibling :: "string list option"
  m_secret_backends :: "(string \<times> string option) \<rightharpoonup> string \<times> u32"
  m_settings :: "string \<rightharpoonup> string \<times> setting_reg"

record 'm world =
  w_fmt :: fmt
  w_guest :: "string \<Rightarrow> 'm running guest"
  w_load :: "string \<Rightarrow> string \<Rightarrow> callback_registry \<Rightarrow> (string + 'm inst \<times> bool) \<times> callback_registry"
  w_exists :: "string \<Rightarrow> bool"
  w_attach_file :: "string \<Rightarrow> (string + u8 list) option"
  w_entry :: "string \<Rightarrow> manifest_entry option"
  w_digest :: "string \<Rightarrow> string option"
  w_components :: "string list"
  w_root :: string
  w_bridge :: "string \<Rightarrow> string option"
  w_materialize :: "string \<Rightarrow> string + string"
  w_order :: "ext_state \<Rightarrow> u32 list \<times> u32 list \<times> u32 list"
  w_plan :: "string \<Rightarrow> string + plan_node list"

definition no_registrations :: pending_registrations where
  "no_registrations =
     \<lparr>pr_scalars = [], pr_tables = [], pr_aggregates = [], pr_macros = [],
      pr_replacement_scans = [], pr_logical_types = [], pr_casts = [], pr_storages = [],
      pr_pragmas = [], pr_settings = [], pr_secrets = [], pr_copy_handlers = [],
      pr_arrow_tables = [], pr_scalar_ex = [], pr_table_macros = [], pr_enum_types = [],
      pr_modified_types = [], pr_log_storages = [], pr_coordinate_systems = []\<rparr>"

definition resolver_explain_handle :: u32 where
  "resolver_explain_handle = 0xFFFFFFFF"

definition resolver_set_handle :: u32 where
  "resolver_set_handle = 0xFFFFFFFE"

definition ducklink_load_handle :: u32 where
  "ducklink_load_handle = 0xFFFFFFFD"

definition ducklink_prefix_table_handle :: u32 where
  "ducklink_prefix_table_handle = 0xFFFFFFFC"

definition ducklink_prefix_scalar_handle :: u32 where
  "ducklink_prefix_scalar_handle = 0xFFFFFFFB"

definition at5_handle_min :: u32 where
  "at5_handle_min = 0xFFC00000"

definition at5_handle_max :: u32 where
  "at5_handle_max = 0xFFFEFFFF"

text \<open>A manager as \<open>new\<close> makes it; \<open>forced\<close> and \<open>denied\<close> are the two environment variables.\<close>

definition new_manager :: "string option \<Rightarrow> string option \<Rightarrow> 'm manager" where
  "new_manager forced denied_var =
     \<lparr>m_core = False, m_extensions = [], m_registry = new_registry, m_storage_backends = [],
      m_index_backends = [], m_files_backend = None, m_collations = [], m_pragmas = [],
      m_parsers = [], m_optimizers = [], m_at5_targets = Map.empty, m_next_at5 = at5_handle_min,
      m_filterable_tables = [], m_snapshot_enabled = False,
      m_policy = \<lparr>forced_provider = (case forced of
                      Some s \<Rightarrow> if s = [] then None else Some s | None \<Rightarrow> None),
                  denied = (case denied_var of
                      Some s \<Rightarrow> filter (\<lambda>x. x \<noteq> []) (map trim (split_char (CHR '','') s))
                    | None \<Rightarrow> [])\<rparr>,
      m_last_resolutions = Map.empty, m_injected_load = False, m_injected_prefix = False,
      m_deferred_prefixes = [], m_deferred_names = [], m_deferred = no_registrations,
      m_sibling = None, m_secret_backends = Map.empty, m_settings = Map.empty\<rparr>"

section \<open>Reaching an instance\<close>

definition not_loaded :: "string \<Rightarrow> string \<Rightarrow> duckerror" where
  "not_loaded what ext = Invalidstate (what @ '' extension '' @ quoted ext @ '' not loaded'')"

definition put_instance :: "string \<Rightarrow> 'm running \<Rightarrow> 'm manager \<Rightarrow> 'm manager" where
  "put_instance ext g m =
     (case g of (w, s, reg) \<Rightarrow>
        m\<lparr>m_extensions := AList.update ext (w, s) (m_extensions m), m_registry := reg\<rparr>)"

text \<open>
  \<open>self.extensions.get_mut(ext)\<close> and a call on the instance; \<open>err\<close> if the extension is not loaded.
\<close>

definition on_instance ::
  "'e \<Rightarrow> string \<Rightarrow> ('m running \<Rightarrow> ('e + 'a) \<times> 'm running) \<Rightarrow> 'm manager \<Rightarrow>
     ('e + 'a) \<times> 'm manager" where
  "on_instance err ext f m =
     (case map_of (m_extensions m) ext of
        None \<Rightarrow> (Inl err, m)
      | Some (w, s) \<Rightarrow>
          apsnd (\<lambda>g. put_instance ext g m) (f (w, s, m_registry m)))"

section \<open>Lookups\<close>

definition storage_backend_for :: "'m manager \<Rightarrow> string \<Rightarrow> (string \<times> u32) option" where
  "storage_backend_for m type_name = map_of (m_storage_backends m) type_name"

definition secret_backend_for ::
  "'m manager \<Rightarrow> string \<Rightarrow> string option \<Rightarrow> (string \<times> u32) option" where
  "secret_backend_for m type_name provider =
     (case (case provider of
              Some p \<Rightarrow> m_secret_backends m (type_name, Some p)
            | None \<Rightarrow> None) of
        Some b \<Rightarrow> Some b
      | None \<Rightarrow> m_secret_backends m (type_name, None))"

definition setting_backend_for :: "'m manager \<Rightarrow> string \<Rightarrow> (string \<times> setting_reg) option" where
  "setting_backend_for m name = m_settings m name"

text \<open>
  The backend of the preferred type, else the only one, else the first when every type is backed
  by the same extension.
\<close>

definition resolve_storage_backend :: "'m manager \<Rightarrow> duckerror + (string \<times> u32)" where
  "resolve_storage_backend m =
     (case map_of (m_storage_backends m) ''sqlitewasm'' of
        Some b \<Rightarrow> Inr b
      | None \<Rightarrow>
          (case m_storage_backends m of
             [(_, b)] \<Rightarrow> Inr b
           | (_, b) # rest \<Rightarrow>
               if list_all (\<lambda>(_, v). fst v = fst b) rest then Inr b
               else Inl (Invalidstate (''no storage backend registered for ''
                 @ quoted ''sqlitewasm'' @ '' (have '' @ show_nat (length (m_storage_backends m))
                 @ '' backend(s))''))
           | [] \<Rightarrow> Inl (Invalidstate (''no storage backend registered for ''
                 @ quoted ''sqlitewasm'' @ '' (have 0 backend(s))''))))"

definition resolve_index_backend :: "'m manager \<Rightarrow> string \<Rightarrow> duckerror + string" where
  "resolve_index_backend m type_name =
     (case map_of (m_index_backends m) type_name of
        Some ext \<Rightarrow> Inr ext
      | None \<Rightarrow>
          (let err = Invalidstate (''no index backend registered for '' @ quoted type_name
                 @ '' (have '' @ show_nat (length (m_index_backends m)) @ '' backend(s))'')
           in case m_index_backends m of
                [(_, ext)] \<Rightarrow> Inr ext
              | (_, ext) # rest \<Rightarrow> if list_all (\<lambda>(_, v). v = ext) rest then Inr ext else Inl err
              | [] \<Rightarrow> Inl err))"

definition resolve_files_backend :: "'m manager \<Rightarrow> string + (string \<times> u32)" where
  "resolve_files_backend m =
     (case m_files_backend m of
        Some b \<Rightarrow> Inr b
      | None \<Rightarrow> Inl ''no files backend loaded (LOAD a files extension, e.g. webfs)'')"

definition lookup_callback :: "'m manager \<Rightarrow> u32 \<Rightarrow> callback_kind \<Rightarrow> callback_entry option" where
  "lookup_callback m handle kind =
     (case get_entry (m_registry m) handle of
        Some e \<Rightarrow> if ce_kind e = kind then Some e else None
      | None \<Rightarrow> None)"

definition registered_collations :: "'m manager \<Rightarrow> (string \<times> string \<times> bool) list" where
  "registered_collations m = m_collations m"

definition registered_pragmas :: "'m manager \<Rightarrow> (string \<times> u32) list" where
  "registered_pragmas m = map (\<lambda>(name, _, h). (name, h)) (m_pragmas m)"

definition registered_parsers :: "'m manager \<Rightarrow> (string \<times> u32) list" where
  "registered_parsers m = map (\<lambda>(name, _, h). (name, h)) (m_parsers m)"

definition registered_optimizers :: "'m manager \<Rightarrow> (string \<times> u32) list" where
  "registered_optimizers m = map (\<lambda>(name, _, h). (name, h)) (m_optimizers m)"

definition registered_storage_types :: "'m manager \<Rightarrow> string list" where
  "registered_storage_types m = map fst (m_storage_backends m)"

definition registered_index_types :: "'m manager \<Rightarrow> string list" where
  "registered_index_types m = map fst (m_index_backends m)"

definition registered_filterable_tables :: "'m manager \<Rightarrow> filterable_table_reg list" where
  "registered_filterable_tables m = m_filterable_tables m"

definition attach_core :: "'m manager \<Rightarrow> 'm manager" where
  "attach_core m = m\<lparr>m_core := True\<rparr>"

definition attach_sibling_state :: "string list \<Rightarrow> 'm manager \<Rightarrow> 'm manager" where
  "attach_sibling_state loaded m = m\<lparr>m_sibling := Some loaded\<rparr>"

definition take_deferred_drain_names :: "'m manager \<Rightarrow> string list \<times> 'm manager" where
  "take_deferred_drain_names m = (m_deferred_names m, m\<lparr>m_deferred_names := []\<rparr>)"

definition take_deferred_prefix_declarations :: "'m manager \<Rightarrow> (string \<times> string) list \<times> 'm manager" where
  "take_deferred_prefix_declarations m =
     (m_deferred_prefixes m, m\<lparr>m_deferred_prefixes := []\<rparr>)"

section \<open>Reaching an instance changes nothing else\<close>

text \<open>What the rest of the manager is: everything but the instances and the shared registry.\<close>

definition rest_of :: "'m manager \<Rightarrow> 'm manager" where
  "rest_of m = m\<lparr>m_extensions := [], m_registry := new_registry\<rparr>"

definition loaded_names :: "'m manager \<Rightarrow> string list" where
  "loaded_names m = map fst (m_extensions m)"

text \<open>The instance of an extension as a call sees it.\<close>

definition running :: "'m manager \<Rightarrow> string \<Rightarrow> 'm running option" where
  "running m ext = map_option (\<lambda>(w, s). (w, s, m_registry m)) (map_of (m_extensions m) ext)"

lemma update_keys_present: "k \<in> fst ` set al \<Longrightarrow> map fst (AList.update k v al) = map fst al"
  by (induction al) auto

lemma put_instance_rest [simp]: "rest_of (put_instance ext g m) = rest_of m"
  by (simp add: put_instance_def rest_of_def split: prod.split)

lemma put_instance_tables [simp]:
  "m_storage_backends (put_instance ext g m) = m_storage_backends m"
  "m_index_backends (put_instance ext g m) = m_index_backends m"
  "m_deferred (put_instance ext g m) = m_deferred m"
  "m_at5_targets (put_instance ext g m) = m_at5_targets m"
  by (simp_all add: put_instance_def split: prod.split)

lemma put_instance_names:
  "ext \<in> set (loaded_names m) \<Longrightarrow> loaded_names (put_instance ext g m) = loaded_names m"
  by (simp add: put_instance_def loaded_names_def update_keys_present split: prod.split)

lemma put_instance_running [simp]: "running (put_instance ext g m) ext = Some g"
  by (simp add: put_instance_def running_def update_conv' split: prod.split)

lemma put_instance_other:
  "ext' \<noteq> ext \<Longrightarrow> map_of (m_extensions (put_instance ext g m)) ext' = map_of (m_extensions m) ext'"
  by (simp add: put_instance_def update_conv' split: prod.split)

lemma put_instance_twice [simp]: "put_instance ext g' (put_instance ext g m) = put_instance ext g' m"
proof -
  have "AList.update k v (AList.update k u al) = AList.update k v al" for k and v u :: "'a inst" and al
    by (induction al) auto
  then show ?thesis by (simp add: put_instance_def split: prod.split)
qed

lemma running_names: "running m ext \<noteq> None \<longleftrightarrow> ext \<in> set (loaded_names m)"
  by (simp add: running_def loaded_names_def map_of_eq_None_iff)

lemma on_instance_running:
  "on_instance err ext f m =
     (case running m ext of
        None \<Rightarrow> (Inl err, m)
      | Some g \<Rightarrow> apsnd (\<lambda>g. put_instance ext g m) (f g))"
  by (simp add: on_instance_def running_def split: option.split prod.split)

lemma on_instance_rest [simp]: "rest_of (snd (on_instance err ext f m)) = rest_of m"
  by (simp add: on_instance_running split: option.split)

lemma on_instance_names [simp]: "loaded_names (snd (on_instance err ext f m)) = loaded_names m"
  using running_names [of m ext] by (auto simp: on_instance_running put_instance_names split: option.split)

lemma on_instance_other:
  "ext' \<noteq> ext \<Longrightarrow> map_of (m_extensions (snd (on_instance err ext f m))) ext' = map_of (m_extensions m) ext'"
  by (simp add: on_instance_running put_instance_other split: option.split)

end
