(* ===== verification/Manager_Dispatch.thy ===== *)
theory Manager_Dispatch
  imports Manager_State
begin

text \<open>
  The dispatchers of the extension manager (\<open>crates/ducklink-host/src/lib.rs\<close>) for storage, the
  scans of attached tables, indexes, files, parsers and streaming tables: each finds the
  extension that is responsible and calls its instance.
\<close>

section \<open>Storage\<close>

definition on_storage ::
  "(string \<Rightarrow> u32 \<Rightarrow> 'm running \<Rightarrow> (duckerror + 'a) \<times> 'm running) \<Rightarrow> 'm manager \<Rightarrow>
     (duckerror + 'a) \<times> 'm manager" where
  "on_storage f m =
     (case resolve_storage_backend m of
        Inl e \<Rightarrow> (Inl e, m)
      | Inr (ext, h) \<Rightarrow> on_instance (not_loaded ''storage'' ext) ext (f ext h) m)"

definition dispatch_storage_attach ::
  "'m world \<Rightarrow> string \<Rightarrow> 'm manager \<Rightarrow> (duckerror + u32) \<times> 'm manager" where
  "dispatch_storage_attach W dsn m =
     (case resolve_storage_backend m of
        Inl e \<Rightarrow> (Inl e, m)
      | Inr (ext, h) \<Rightarrow>
          (case w_attach_file W dsn of
             Some (Inl e) \<Rightarrow>
               (Inl (Io (''cannot read attach file '' @ quoted dsn @ '': '' @ e)), m)
           | Some (Inr bytes) \<Rightarrow>
               on_instance (not_loaded ''storage'' ext) ext
                 (storage_attach (w_fmt W) (w_guest W ext) h dsn bytes) m
           | None \<Rightarrow>
               on_instance (not_loaded ''storage'' ext) ext
                 (storage_attach (w_fmt W) (w_guest W ext) h dsn []) m))"

definition dispatch_storage_list_tables ::
  "'m world \<Rightarrow> u32 \<Rightarrow> 'm manager \<Rightarrow> (duckerror + string list) \<times> 'm manager" where
  "dispatch_storage_list_tables W catalog =
     on_storage (\<lambda>ext h. storage_list_tables (w_fmt W) (w_guest W ext) h catalog)"

definition dispatch_storage_table_columns ::
  "'m world \<Rightarrow> u32 \<Rightarrow> string \<Rightarrow> 'm manager \<Rightarrow> (duckerror + columndef list) \<times> 'm manager" where
  "dispatch_storage_table_columns W catalog table =
     on_storage (\<lambda>ext h. storage_table_columns (w_fmt W) (w_guest W ext) h catalog table)"

definition dispatch_storage_scan_open ::
  "'m world \<Rightarrow> u32 \<Rightarrow> scan_request \<Rightarrow> 'm manager \<Rightarrow> (duckerror + u32) \<times> 'm manager" where
  "dispatch_storage_scan_open W catalog request =
     on_storage (\<lambda>ext h. storage_scan_open (w_fmt W) (w_guest W ext) h catalog request)"

definition dispatch_storage_scan_next ::
  "'m world \<Rightarrow> u32 \<Rightarrow> u32 \<Rightarrow> 'm manager \<Rightarrow> (duckerror + duckvalue list list) \<times> 'm manager" where
  "dispatch_storage_scan_next W scan max_rows =
     on_storage (\<lambda>ext h. storage_scan_next (w_fmt W) (w_guest W ext) h scan max_rows)"

definition dispatch_storage_scan_close ::
  "'m world \<Rightarrow> u32 \<Rightarrow> 'm manager \<Rightarrow> (duckerror + bool) \<times> 'm manager" where
  "dispatch_storage_scan_close W scan =
     on_storage (\<lambda>ext h. storage_scan_close (w_fmt W) (w_guest W ext) h scan)"

definition dispatch_storage_serialize ::
  "'m world \<Rightarrow> u32 \<Rightarrow> 'm manager \<Rightarrow> (duckerror + u8 list) \<times> 'm manager" where
  "dispatch_storage_serialize W catalog =
     on_storage (\<lambda>ext h. storage_serialize (w_fmt W) (w_guest W ext) h catalog)"

definition dispatch_storage_writes_persist_directly ::
  "'m world \<Rightarrow>  'm manager \<Rightarrow> (duckerror + bool) \<times> 'm manager" where
  "dispatch_storage_writes_persist_directly W =
     on_storage (\<lambda>ext h. storage_writes_persist_directly (w_fmt W) (w_guest W ext) h)"

definition dispatch_storage_begin_transaction ::
  "'m world \<Rightarrow> u32 \<Rightarrow> 'm manager \<Rightarrow> (duckerror + u32) \<times> 'm manager" where
  "dispatch_storage_begin_transaction W catalog =
     on_storage (\<lambda>ext h. storage_begin_transaction (w_fmt W) (w_guest W ext) h catalog)"

definition dispatch_storage_commit_transaction ::
  "'m world \<Rightarrow> u32 \<Rightarrow> 'm manager \<Rightarrow> (duckerror + unit) \<times> 'm manager" where
  "dispatch_storage_commit_transaction W txn =
     on_storage (\<lambda>ext h. storage_commit_transaction (w_fmt W) (w_guest W ext) h txn)"

definition dispatch_storage_rollback_transaction ::
  "'m world \<Rightarrow> u32 \<Rightarrow> 'm manager \<Rightarrow> (duckerror + unit) \<times> 'm manager" where
  "dispatch_storage_rollback_transaction W txn =
     on_storage (\<lambda>ext h. storage_rollback_transaction (w_fmt W) (w_guest W ext) h txn)"

definition dispatch_storage_create_table ::
  "'m world \<Rightarrow> u32 \<Rightarrow> string \<Rightarrow> columndef list \<Rightarrow> 'm manager \<Rightarrow> (duckerror + unit) \<times> 'm manager" where
  "dispatch_storage_create_table W txn table cols =
     on_storage (\<lambda>ext h. storage_create_table (w_fmt W) (w_guest W ext) h txn table cols)"

definition dispatch_storage_insert_rows ::
  "'m world \<Rightarrow> u32 \<Rightarrow> string \<Rightarrow> duckvalue list list \<Rightarrow> 'm manager \<Rightarrow> (duckerror + u64) \<times> 'm manager" where
  "dispatch_storage_insert_rows W txn table rows =
     on_storage (\<lambda>ext h. storage_insert_rows (w_fmt W) (w_guest W ext) h txn table rows)"

definition dispatch_storage_delete_rows ::
  "'m world \<Rightarrow> u32 \<Rightarrow> string \<Rightarrow> i64 list \<Rightarrow> 'm manager \<Rightarrow> (duckerror + u64) \<times> 'm manager" where
  "dispatch_storage_delete_rows W txn table rowids =
     on_storage (\<lambda>ext h. storage_delete_rows (w_fmt W) (w_guest W ext) h txn table rowids)"

definition dispatch_storage_update_rows ::
  "'m world \<Rightarrow> u32 \<Rightarrow> string \<Rightarrow> i64 list \<Rightarrow> u32 list \<Rightarrow> duckvalue list list \<Rightarrow> 'm manager \<Rightarrow>
     (duckerror + u64) \<times> 'm manager" where
  "dispatch_storage_update_rows W txn table rowids updated_columns rows =
     on_storage (\<lambda>ext h. storage_update_rows (w_fmt W) (w_guest W ext) h txn table rowids rows)"

text \<open>One write in a transaction of its own: commit if it succeeded, else roll back.\<close>

definition storage_direct ::
  "'m world \<Rightarrow> u32 \<Rightarrow> (u32 \<Rightarrow> 'm manager \<Rightarrow> (duckerror + 'a) \<times> 'm manager) \<Rightarrow> 'm manager \<Rightarrow>
     (duckerror + 'a) \<times> 'm manager" where
  "storage_direct W catalog body m =
     (case dispatch_storage_begin_transaction W catalog m of
        (Inl e, m1) \<Rightarrow> (Inl e, m1)
      | (Inr txn, m1) \<Rightarrow>
          (case body txn m1 of
             (Inr n, m2) \<Rightarrow>
               (case dispatch_storage_commit_transaction W txn m2 of
                  (Inl e, m3) \<Rightarrow> (Inl e, m3)
                | (Inr _, m3) \<Rightarrow> (Inr n, m3))
           | (Inl err, m2) \<Rightarrow>
               (Inl err, snd (dispatch_storage_rollback_transaction W txn m2))))"

definition dispatch_storage_insert_direct ::
  "'m world \<Rightarrow> u32 \<Rightarrow> string \<Rightarrow> duckvalue list list \<Rightarrow> 'm manager \<Rightarrow>
     (duckerror + u64) \<times> 'm manager" where
  "dispatch_storage_insert_direct W catalog table rows =
     storage_direct W catalog (\<lambda>txn. dispatch_storage_insert_rows W txn table rows)"

definition dispatch_storage_update_direct ::
  "'m world \<Rightarrow> u32 \<Rightarrow> string \<Rightarrow> i64 list \<Rightarrow> duckvalue list list \<Rightarrow> 'm manager \<Rightarrow>
     (duckerror + u64) \<times> 'm manager" where
  "dispatch_storage_update_direct W catalog table rowids rows =
     storage_direct W catalog (\<lambda>txn. dispatch_storage_update_rows W txn table rowids [] rows)"

definition dispatch_storage_create_table_direct ::
  "'m world \<Rightarrow> u32 \<Rightarrow> string \<Rightarrow> columndef list \<Rightarrow> 'm manager \<Rightarrow>
     (duckerror + unit) \<times> 'm manager" where
  "dispatch_storage_create_table_direct W catalog table cols =
     storage_direct W catalog (\<lambda>txn. dispatch_storage_create_table W txn table cols)"

definition dispatch_storage_delete_direct ::
  "'m world \<Rightarrow> u32 \<Rightarrow> string \<Rightarrow> i64 list \<Rightarrow> 'm manager \<Rightarrow> (duckerror + u64) \<times> 'm manager" where
  "dispatch_storage_delete_direct W catalog table rowids =
     storage_direct W catalog (\<lambda>txn. dispatch_storage_delete_rows W txn table rowids)"

section \<open>Scans of attached tables\<close>

definition at5_next :: "u32 \<Rightarrow> u32" where
  "at5_next h =
     (let n = h + 1 in if at5_handle_max < n \<or> n < at5_handle_min then at5_handle_min else n)"

text \<open>The search for a free handle; it does not end when every handle is taken.\<close>

partial_function (option) at5_find ::
  "(u32 \<rightharpoonup> at5_scan_target) \<Rightarrow> u32 \<Rightarrow> u32 \<Rightarrow> (u32 \<times> u32) option" where
  "at5_find targets handle nxt =
     (if targets handle = None then Some (handle, nxt)
      else at5_find targets nxt (at5_next nxt))"

definition register_at5_scan ::
  "string \<Rightarrow> u32 \<Rightarrow> u32 \<Rightarrow> string \<Rightarrow> 'm manager \<Rightarrow> (u32 \<times> 'm manager) option" where
  "register_at5_scan ext storage_handle catalog_handle table m =
     map_option (\<lambda>(handle, nxt).
         (handle, m\<lparr>m_next_at5 := nxt,
                    m_at5_targets := (m_at5_targets m)(handle \<mapsto>
                      \<lparr>at5_extension = ext, at5_storage_handle = storage_handle,
                       at5_catalog_handle = catalog_handle, at5_table = table\<rparr>)\<rparr>))
       (at5_find (m_at5_targets m) (m_next_at5 m) (at5_next (m_next_at5 m)))"

text \<open>
  The loop that collects a scan, one batch at a time until an empty one. \<open>None\<close>: it runs forever.
\<close>

partial_function (option) drain_scan ::
  "fmt \<Rightarrow> 'g guest \<Rightarrow> u32 \<Rightarrow> u32 \<Rightarrow> duckvalue list list \<Rightarrow> 'g \<Rightarrow>
     ((duckerror + duckvalue list list) \<times> 'g) option" where
  "drain_scan fm call handle scan out g =
     (case storage_scan_next fm call handle scan (- 1) g of
        (Inl e, g') \<Rightarrow> Some (Inl e, g')
      | (Inr batch, g') \<Rightarrow>
          if batch = [] then Some (Inr out, g')
          else drain_scan fm call handle scan (out @ batch) g')"

definition scan_everything :: "string \<Rightarrow> scan_request" where
  "scan_everything table =
     \<lparr>sr_table = table, sr_projection = [], sr_filters = [], sr_limit = None\<rparr>"

definition at5_scan_instance ::
  "fmt \<Rightarrow> 'g guest \<Rightarrow> at5_scan_target \<Rightarrow> 'g \<Rightarrow> ((duckerror + duckvalue list list) \<times> 'g) option" where
  "at5_scan_instance fm call t g =
     (case storage_scan_open fm call (at5_storage_handle t) (at5_catalog_handle t)
             (scan_everything (at5_table t)) g of
        (Inl e, g1) \<Rightarrow> Some (Inl e, g1)
      | (Inr scan, g1) \<Rightarrow>
          map_option (\<lambda>(r, g2).
              case r of
                Inl e \<Rightarrow> (Inl e, g2)
              | Inr out \<Rightarrow>
                  (Inr out, snd (storage_scan_close fm call (at5_storage_handle t) scan g2)))
            (drain_scan fm call (at5_storage_handle t) scan [] g1))"

definition native_at5_attach_scan ::
  "'m world \<Rightarrow> u32 \<Rightarrow> 'm manager \<Rightarrow> ((duckerror + duckvalue list list) \<times> 'm manager) option" where
  "native_at5_attach_scan W handle m =
     (case m_at5_targets m handle of
        None \<Rightarrow>
          Some (Inl (Invalidstate (''unknown AT5 attach-scan handle '' @ show_word handle)), m)
      | Some t \<Rightarrow>
          (case running m (at5_extension t) of
             None \<Rightarrow>
               Some (Inl (Invalidstate (''AT5 attach-scan handle '' @ show_word handle
                 @ '' points at extension '' @ quoted (at5_extension t)
                 @ '', which is not loaded'')), m)
           | Some g \<Rightarrow>
               map_option (apsnd (\<lambda>g'. put_instance (at5_extension t) g' m))
                 (at5_scan_instance (w_fmt W) (w_guest W (at5_extension t)) t g)))"

section \<open>Indexes\<close>

definition on_index ::
  "string \<Rightarrow> (string \<Rightarrow> 'm running \<Rightarrow> (duckerror + 'a) \<times> 'm running) \<Rightarrow> 'm manager \<Rightarrow>
     (duckerror + 'a) \<times> 'm manager" where
  "on_index type_name f m =
     (case resolve_index_backend m type_name of
        Inl e \<Rightarrow> (Inl e, m)
      | Inr ext \<Rightarrow> on_instance (not_loaded ''index'' ext) ext (f ext) m)"

definition dispatch_index_create ::
  "'m world \<Rightarrow> string \<Rightarrow> string \<Rightarrow> u32 \<Rightarrow> 'm manager \<Rightarrow> (duckerror + u32) \<times> 'm manager" where
  "dispatch_index_create W type_name index_name dims =
     on_index type_name (\<lambda>ext. index_create (w_fmt W) (w_guest W ext) type_name index_name dims)"

definition dispatch_index_append ::
  "'m world \<Rightarrow> u32 \<Rightarrow> i64 list \<Rightarrow> f32 list list \<Rightarrow> 'm manager \<Rightarrow> (duckerror + unit) \<times> 'm manager" where
  "dispatch_index_append W handle rowids vectors =
     on_index [] (\<lambda>ext. index_append (w_fmt W) (w_guest W ext) handle rowids vectors)"

definition dispatch_index_build ::
  "'m world \<Rightarrow> u32 \<Rightarrow> 'm manager \<Rightarrow> (duckerror + unit) \<times> 'm manager" where
  "dispatch_index_build W handle =
     on_index [] (\<lambda>ext. index_build (w_fmt W) (w_guest W ext) handle)"

definition dispatch_index_search ::
  "'m world \<Rightarrow> u32 \<Rightarrow> f32 list \<Rightarrow> u32 \<Rightarrow> 'm manager \<Rightarrow> (duckerror + index_hit list) \<times> 'm manager" where
  "dispatch_index_search W handle query k =
     on_index [] (\<lambda>ext. index_search (w_fmt W) (w_guest W ext) handle query k)"

definition dispatch_index_drop ::
  "'m world \<Rightarrow> u32 \<Rightarrow> 'm manager \<Rightarrow> (duckerror + unit) \<times> 'm manager" where
  "dispatch_index_drop W handle =
     on_index [] (\<lambda>ext. index_drop (w_fmt W) (w_guest W ext) handle)"

section \<open>Files\<close>

text \<open>Errors of the files backend are texts.\<close>

definition on_files ::
  "'m world \<Rightarrow> (string \<Rightarrow> u32 \<Rightarrow> 'm running \<Rightarrow> (duckerror + 'a) \<times> 'm running) \<Rightarrow> 'm manager \<Rightarrow>
     (string + 'a) \<times> 'm manager" where
  "on_files W f m =
     (case resolve_files_backend m of
        Inl e \<Rightarrow> (Inl e, m)
      | Inr (ext, h) \<Rightarrow>
          on_instance (''files extension '' @ quoted ext @ '' not loaded'') ext
            (\<lambda>g. apfst (debug_err (w_fmt W)) (f ext h g)) m)"

definition dispatch_file_open ::
  "'m world \<Rightarrow> string \<Rightarrow> 'm manager \<Rightarrow> (string + u32 \<times> u64) \<times> 'm manager" where
  "dispatch_file_open W url =
     on_files W (\<lambda>ext h. file_open (w_fmt W) (w_guest W ext) h url)"

definition dispatch_file_read ::
  "'m world \<Rightarrow> u32 \<Rightarrow> u64 \<Rightarrow> u32 \<Rightarrow> 'm manager \<Rightarrow> (string + u8 list) \<times> 'm manager" where
  "dispatch_file_read W file offset len =
     on_files W (\<lambda>ext h. file_read (w_fmt W) (w_guest W ext) h file offset len)"

definition dispatch_file_close ::
  "'m world \<Rightarrow> u32 \<Rightarrow> 'm manager \<Rightarrow> (string + unit) \<times> 'm manager" where
  "dispatch_file_close W file =
     on_files W (\<lambda>ext h. file_close (w_fmt W) (w_guest W ext) h file)"

section \<open>Parsers and optimizers\<close>

text \<open>
  A rewrite is handed to the core, which plans it again: an empty one, or one that is the
  statement itself, is refused.
\<close>

definition validate_parser_rewrite :: "string \<Rightarrow> string \<Rightarrow> string \<Rightarrow> string + unit" where
  "validate_parser_rewrite ext query rewrite =
     (if trim rewrite = [] then
        Inl (''parser extension '' @ quoted ext @ '' returned an empty rewrite'')
      else if trim rewrite = trim query then
        Inl (''parser extension '' @ quoted ext
          @ '' returned a rewrite identical to the input (would re-loop)'')
      else Inr ())"

definition handle_owner :: "(string \<times> string \<times> u32) list \<Rightarrow> u32 \<Rightarrow> string option" where
  "handle_owner table handle =
     map_option (\<lambda>(_, e, _). e) (find (\<lambda>(_, _, h). h = handle) table)"

definition dispatch_parse ::
  "'m world \<Rightarrow> u32 \<Rightarrow> string \<Rightarrow> 'm manager \<Rightarrow> (duckerror + string option) \<times> 'm manager" where
  "dispatch_parse W handle query m =
     (case handle_owner (m_parsers m) handle of
        None \<Rightarrow>
          (Inl (Invalidstate (''no parser extension registered for handle '' @ show_word handle)), m)
      | Some ext \<Rightarrow>
          apfst (\<lambda>r. rbind r (\<lambda>outcome.
              case outcome of
                None \<Rightarrow> Inr None
              | Some rewrite \<Rightarrow>
                  (case validate_parser_rewrite ext query rewrite of
                     Inl e \<Rightarrow> Inl (Invalidargument e)
                   | Inr _ \<Rightarrow> Inr (Some rewrite))))
            (on_instance (not_loaded ''parser'' ext) ext
               (call_parse (w_fmt W) (w_guest W ext) handle query) m))"

definition dispatch_optimize ::
  "'m world \<Rightarrow> u32 \<Rightarrow> string \<Rightarrow> 'm manager \<Rightarrow> (duckerror + string option) \<times> 'm manager" where
  "dispatch_optimize W handle plan_json m =
     (case handle_owner (m_optimizers m) handle of
        None \<Rightarrow>
          (Inl (Invalidstate (''no optimizer rule registered for handle '' @ show_word handle)), m)
      | Some ext \<Rightarrow>
          (case w_plan W plan_json of
             Inl e \<Rightarrow> (Inl (Invalidargument e), m)
           | Inr nodes \<Rightarrow>
               on_instance (not_loaded ''optimizer'' ext) ext
                 (call_optimize (w_fmt W) (w_guest W ext) handle nodes []) m))"

section \<open>Callbacks of the registry\<close>

definition callback_not_loaded :: "string \<Rightarrow> duckerror" where
  "callback_not_loaded ext = Invalidstate (''extension '' @ ext @ '' is not loaded'')"

text \<open>The common route: the entry of the kind asked for, then the instance it names.\<close>

definition on_callback ::
  "duckerror \<Rightarrow> callback_kind \<Rightarrow> u32 \<Rightarrow>
     (string \<Rightarrow> u32 \<Rightarrow> 'm running \<Rightarrow> (duckerror + 'a) \<times> 'm running) \<Rightarrow> 'm manager \<Rightarrow>
     (duckerror + 'a) \<times> 'm manager" where
  "on_callback unknown kind handle f m =
     (case lookup_callback m handle kind of
        None \<Rightarrow> (Inl unknown, m)
      | Some e \<Rightarrow>
          on_instance (callback_not_loaded (ce_extension e)) (ce_extension e)
            (f (ce_extension e) (ce_dispatcher e)) m)"

definition unknown_handle :: "string \<Rightarrow> u32 \<Rightarrow> duckerror" where
  "unknown_handle what handle = Invalidstate (''unknown '' @ what @ '' handle '' @ show_word handle)"

definition dispatch_table_open_filtered ::
  "'m world \<Rightarrow> u32 \<Rightarrow> duckvalue list \<Rightarrow> u32 list \<Rightarrow> table_filter list \<Rightarrow> 'm manager \<Rightarrow>
     (duckerror + table_open_result) \<times> 'm manager" where
  "dispatch_table_open_filtered W handle args projection filters =
     on_callback (unknown_handle ''filterable-table'' handle) Table handle
       (\<lambda>ext h. table_open_filtered (w_fmt W) (w_guest W ext) h args projection filters)"

definition dispatch_table_next ::
  "'m world \<Rightarrow> u32 \<Rightarrow> u32 \<Rightarrow> u32 \<Rightarrow> 'm manager \<Rightarrow> (duckerror + duckvalue list list) \<times> 'm manager" where
  "dispatch_table_next W handle cursor max_rows =
     on_callback (unknown_handle ''filterable-table'' handle) Table handle
       (\<lambda>ext h. table_next (w_fmt W) (w_guest W ext) h cursor max_rows)"

definition dispatch_table_close ::
  "'m world \<Rightarrow> u32 \<Rightarrow> u32 \<Rightarrow> 'm manager \<Rightarrow> (duckerror + bool) \<times> 'm manager" where
  "dispatch_table_close W handle cursor =
     on_callback (unknown_handle ''filterable-table'' handle) Table handle
       (\<lambda>ext h. table_close (w_fmt W) (w_guest W ext) h cursor)"

definition manager_dispatch_pragma ::
  "'m world \<Rightarrow> u32 \<Rightarrow> duckvalue list \<Rightarrow> 'm manager \<Rightarrow> (duckerror + duckvalue option) \<times> 'm manager" where
  "manager_dispatch_pragma W handle args =
     on_callback (unknown_handle ''pragma callback'' handle) Pragma handle
       (\<lambda>ext h. dispatch_pragma (w_fmt W) (w_guest W ext) h args)"

definition manager_dispatch_cast ::
  "'m world \<Rightarrow> u32 \<Rightarrow> duckvalue \<Rightarrow> 'm manager \<Rightarrow> (duckerror + duckvalue) \<times> 'm manager" where
  "manager_dispatch_cast W handle v =
     on_callback (unknown_handle ''cast callback'' handle) Cast handle
       (\<lambda>ext h. dispatch_cast (w_fmt W) (w_guest W ext) h v)"

text \<open>The pivot of an aggregate's rows panics on a short row: \<^const>\<open>None\<close>.\<close>

definition manager_dispatch_aggregate ::
  "'m world \<Rightarrow> u32 \<Rightarrow> duckvalue list list \<Rightarrow> 'm manager \<Rightarrow>
     ((duckerror + duckvalue) \<times> 'm manager) option" where
  "manager_dispatch_aggregate W handle rows m =
     (case lookup_callback m handle Aggregate of
        None \<Rightarrow> Some (Inl (unknown_handle ''aggregate callback'' handle), m)
      | Some e \<Rightarrow>
          (case running m (ce_extension e) of
             None \<Rightarrow> Some (Inl (callback_not_loaded (ce_extension e)), m)
           | Some g \<Rightarrow>
               map_option (apsnd (\<lambda>g'. put_instance (ce_extension e) g' m))
                 (dispatch_aggregate (w_fmt W) (w_guest W (ce_extension e)) (ce_dispatcher e)
                    rows g)))"

end
