(* ===== verification/Manager_Load.thy ===== *)
theory Manager_Load
  imports Manager_Dispatch Paths
begin

text \<open>
  Loading extensions through the extension manager (\<open>crates/ducklink-host/src/lib.rs\<close>): the choice
  of the artifact, \<open>ensure_extension_loaded\<close>, the native \<open>ducklink_load\<close> and \<open>ducklink_prefix\<close>
  functions, the dispatchers that have to know their handles, and the drain of registrations.
\<close>

section \<open>Names\<close>

text \<open>Every character that is not allowed becomes an underscore, a wide character one.\<close>

definition sanitize_extension_name :: "string \<Rightarrow> string" where
  "sanitize_extension_name raw =
     (let s = concat (map (\<lambda>b.
          if is_ascii_alnum b \<or> b = CHR ''_'' \<or> b = CHR ''-'' then [b]
          else if is_cont b then [] else ''_'') raw)
      in if s = [] then ''_'' else s)"

definition is_safe_prefix_identifier :: "string \<Rightarrow> bool" where
  "is_safe_prefix_identifier s \<longleftrightarrow>
     s \<noteq> [] \<and> list_all (\<lambda>c. is_ascii_alnum c \<or> c = CHR ''_'') s"

definition short_digest :: "string \<Rightarrow> string" where
  "short_digest digest = take_chars 12 digest"

definition extension_artifact_path :: "'m world \<Rightarrow> string \<Rightarrow> string" where
  "extension_artifact_path W name = path_join (w_root W) (name @ ''.wasm'')"

section \<open>Resolution\<close>

definition resolver_env :: "'m world \<Rightarrow> env" where
  "resolver_env W = default_env\<lparr>available_components := w_components W\<rparr>"

definition note_resolution :: "string \<Rightarrow> string \<Rightarrow> 'm manager \<Rightarrow> 'm manager" where
  "note_resolution name text m =
     m\<lparr>m_last_resolutions := (m_last_resolutions m)(name \<mapsto> text)\<rparr>"

definition resolve_provider_artifact ::
  "'m world \<Rightarrow> string \<Rightarrow> 'm manager \<Rightarrow> (string + string) \<times> 'm manager" where
  "resolve_provider_artifact W name m =
     (case w_entry W name of
        None \<Rightarrow>
          (Inr (extension_artifact_path W name),
           note_resolution name ''no manifest entry; backward-compat filename resolution'' m)
      | Some entry \<Rightarrow>
          (case resolve entry (resolver_env W) (m_policy m) (w_digest W name) of
             Inr res \<Rightarrow>
               (let why = ''chosen: '' @ chosen_id res @ '' ['' @ chosen_kind res @ ''] at contract ''
                      @ short_digest (wit_contract entry) @ ''; ''
                      @ render_reasoning (reasoning res);
                    base = (case artifact res of
                        Path p \<Rightarrow> or_else (file_name p) (name @ ''.wasm'')
                      | _ \<Rightarrow> name @ ''.wasm'')
                in (Inr (path_join (w_root W) base), note_resolution name why m))
           | Inl e \<Rightarrow>
               (Inl (show_resolve_error e),
                note_resolution name (''FAILED: '' @ render_reasoning (err_reasoning e)) m)))"

definition explain_resolution :: "'m world \<Rightarrow> 'm manager \<Rightarrow> string \<Rightarrow> string" where
  "explain_resolution W m name =
     (case w_entry W name of
        None \<Rightarrow> quoted name @ '': no manifest entry (backward-compat filename load)''
      | Some entry \<Rightarrow>
          (case resolve entry (resolver_env W) (m_policy m) (w_digest W name) of
             Inr res \<Rightarrow>
               quoted name @ '': chosen '' @ quoted (chosen_id res) @ '' ['' @ chosen_kind res
                 @ ''] at contract '' @ short_digest (wit_contract entry) @ ''; ''
                 @ render_reasoning (reasoning res)
           | Inl e \<Rightarrow> quoted name @ '': '' @ show_resolve_error e))"

definition set_forced_provider :: "string \<Rightarrow> 'm manager \<Rightarrow> string \<times> 'm manager" where
  "set_forced_provider i m =
     (if i = [] \<or> eq_ignore_case i ''auto'' \<or> eq_ignore_case i ''none''
      then (''extension_provider override cleared (auto)'',
            m\<lparr>m_policy := (m_policy m)\<lparr>forced_provider := None\<rparr>\<rparr>)
      else (''extension_provider forced to '' @ quoted i,
            m\<lparr>m_policy := (m_policy m)\<lparr>forced_provider := Some i\<rparr>\<rparr>))"

section \<open>Loading\<close>

text \<open>
  What is captured from an instance right after its load. Each \<open>take\<close> empties a buffer of the
  instance; a later registration of a name replaces an earlier one.
\<close>

definition capture_loaded :: "string \<Rightarrow> 'm manager \<Rightarrow> 'm manager" where
  "capture_loaded name m =
     (case map_of (m_extensions m) name of
        None \<Rightarrow> m
      | Some (w, s0) \<Rightarrow>
          (let (storages, s1) = take_pending_storages s0;
               (indexes, s2) = take_pending_indexes s1;
               (files, s3) = take_pending_files s2;
               (collations, s4) = take_pending_collations s3;
               (pragmas, s5) = take_pending_pragmas s4;
               (parsers, s6) = take_pending_parsers s5;
               (optimizers, s7) = take_pending_optimizers s6;
               (filterable, s8) = take_pending_filterable_tables s7
           in m\<lparr>m_extensions := AList.update name (w, s8) (m_extensions m),
                m_storage_backends := fold (\<lambda>r. AList.update (storage_type_name r)
                    (storage_extension r, storage_callback r)) storages (m_storage_backends m),
                m_index_backends := fold (\<lambda>r. AList.update (index_type_name r) (index_extension r))
                    indexes (m_index_backends m),
                m_files_backend := fold (\<lambda>r _. Some (files_extension r, files_callback r)) files
                    (m_files_backend m),
                m_filterable_tables := m_filterable_tables m @ filterable,
                m_parsers := fold (\<lambda>r. AList.update (parser_name r)
                    (parser_extension r, parser_callback r)) parsers (m_parsers m),
                m_optimizers := fold (\<lambda>r. AList.update (optimizer_rule_name r)
                    (optimizer_extension r, optimizer_callback r)) optimizers (m_optimizers m),
                m_collations := fold (\<lambda>r. AList.update (collation_name r)
                    (collation_transform r, collation_combinable r)) collations (m_collations m),
                m_pragmas := fold (\<lambda>r. AList.update (pragma_name r)
                    (pragma_extension r, pragma_callback r)) pragmas (m_pragmas m)\<rparr>))"

definition record_extension_loaded :: "string \<Rightarrow> string list \<Rightarrow> string list" where
  "record_extension_loaded name loaded = (if name \<in> set loaded then loaded else loaded @ [name])"

definition load_artifact ::
  "'m world \<Rightarrow> string \<Rightarrow> string \<Rightarrow> 'm manager \<Rightarrow> (string + bool) \<times> 'm manager" where
  "load_artifact W name path m =
     (if \<not> m_core m then (Inr False, m)
      else (case w_load W name path (m_registry m) of
          (Inl e, reg) \<Rightarrow> (Inl e, m\<lparr>m_registry := reg\<rparr>)
        | (Inr (inst, imports_query), reg) \<Rightarrow>
            (let m1 = m\<lparr>m_registry := reg,
                        m_snapshot_enabled := imports_query \<or> m_snapshot_enabled m,
                        m_extensions := AList.update name inst (m_extensions m)\<rparr>;
                 m2 = capture_loaded name m1
             in (Inr True,
                 m2\<lparr>m_sibling := map_option (record_extension_loaded name) (m_sibling m2)\<rparr>))))"

definition is_loaded :: "'m manager \<Rightarrow> string \<Rightarrow> bool" where
  "is_loaded m name = (map_of (m_extensions m) (sanitize_extension_name name) \<noteq> None)"

text \<open>\<open>Inr False\<close>: the request is skipped; \<open>Inl\<close>: loading the component failed.\<close>

definition ensure_extension_loaded ::
  "'m world \<Rightarrow> string \<Rightarrow> 'm manager \<Rightarrow> (string + bool) \<times> 'm manager" where
  "ensure_extension_loaded W name m =
     (let s = sanitize_extension_name name
      in if map_of (m_extensions m) s \<noteq> None then (Inr True, m)
         else (case w_bridge W s of
             Some bridge \<Rightarrow>
               (case w_materialize W s of
                  Inl _ \<Rightarrow> (Inr False, m)
                | Inr _ \<Rightarrow>
                    if w_exists W bridge then load_artifact W s bridge m else (Inr False, m))
           | None \<Rightarrow>
               (case resolve_provider_artifact W s m of
                  (Inl _, m1) \<Rightarrow> (Inr False, m1)
                | (Inr path, m1) \<Rightarrow>
                    if w_exists W path then load_artifact W s path m1 else (Inr False, m1))))"

section \<open>Native functions\<close>

definition em_dash :: string where
  "em_dash = [CHR 0xE2, CHR 0x80, CHR 0x94]"

text \<open>The argument at a position: a text, or an error that says what was expected there.\<close>

definition text_argument ::
  "duckvalue list \<Rightarrow> nat \<Rightarrow> string \<Rightarrow> string \<Rightarrow> duckerror + string" where
  "text_argument args k missing wrong =
     (if k < length args then
        (case args ! k of
           D_Text s \<Rightarrow> Inr s
         | D_Null \<Rightarrow> Inl (Invalidargument missing)
         | _ \<Rightarrow> Inl (Invalidargument wrong))
      else Inl (Invalidargument missing))"

definition load_kind :: "duckvalue list \<Rightarrow> duckerror + unit" where
  "load_kind args =
     rbind (if 1 < length args then
              (case args ! 1 of
                 D_Text s \<Rightarrow> Inr (lower s)
               | D_Null \<Rightarrow> Inr ''wasm''
               | _ \<Rightarrow> Inl (Invalidargument ''ducklink_load: second argument (kind) must be VARCHAR''))
            else Inr ''wasm'') (\<lambda>kind.
       if kind = ''wasm'' then Inr ()
       else if kind = ''native'' then
         Inl (Unsupported (''ducklink_load(kind='' @ quoted ''native''
           @ ''): the workspace host has no native provider path yet '' @ em_dash @ '' use kind=''
           @ quoted ''wasm'' @ '' (the default)''))
       else Inl (Invalidargument (''ducklink_load: kind must be '' @ quoted ''wasm'' @ '' or ''
           @ quoted ''native'' @ '', got '' @ quoted kind)))"

definition native_ducklink_load ::
  "'m world \<Rightarrow> duckvalue list \<Rightarrow> 'm manager \<Rightarrow> (duckerror + duckvalue list list) \<times> 'm manager" where
  "native_ducklink_load W args m =
     (case text_argument args 0 (''ducklink_load: missing required VARCHAR argument '' @ quoted ''name'')
             ''ducklink_load: first argument must be VARCHAR'' of
        Inl e \<Rightarrow> (Inl e, m)
      | Inr name \<Rightarrow>
          (case load_kind args of
             Inl e \<Rightarrow> (Inl e, m)
           | Inr _ \<Rightarrow>
               (let s = sanitize_extension_name name
                in case ensure_extension_loaded W s m of
                     (Inl err, m1) \<Rightarrow>
                       (Inl (Internal (''ducklink_load: failed to load '' @ quoted name @ '': '' @ err)), m1)
                   | (Inr False, m1) \<Rightarrow>
                       (Inl (Invalidargument (''ducklink_load: no admissible provider for ''
                          @ quoted name @ '' '' @ em_dash
                          @ '' no manifest entry, no <extensions-dir>/'' @ s
                          @ ''.wasm shortcut, or the resolver declined the candidates'')), m1)
                   | (Inr True, m1) \<Rightarrow>
                       (let (scalars, tables, aggregates, m2) =
                              (case map_of (m_extensions m1) s of
                                 None \<Rightarrow> (0, 0, 0, m1)
                               | Some (w, st) \<Rightarrow>
                                   (let (ks, kt, ka) = w_order W st;
                                        (drained, st') = drain_pending ks kt ka st
                                    in (length (pr_scalars drained), length (pr_tables drained),
                                        length (pr_aggregates drained),
                                        m1\<lparr>m_extensions := AList.update s (w, st') (m_extensions m1),
                                           m_deferred := append_registrations (m_deferred m1)
                                             drained\<rparr>)));
                            m3 = (if s \<in> set (m_deferred_names m2) then m2
                                  else m2\<lparr>m_deferred_names := m_deferred_names m2 @ [s]\<rparr>)
                        in (Inr [[D_Text s, D_Null, D_Int64 (of_nat scalars), D_Int64 (of_nat tables),
                                  D_Int64 (of_nat aggregates)]], m3)))))"

definition native_ducklink_prefix_common ::
  "duckvalue list \<Rightarrow> 'm manager \<Rightarrow> (duckerror + string \<times> string) \<times> 'm manager" where
  "native_ducklink_prefix_common args m =
     (case rbind (text_argument args 0
               (''ducklink_prefix: missing required VARCHAR argument '' @ quoted ''alias'')
               ''ducklink_prefix: first argument (alias) must be VARCHAR'') (\<lambda>alias.
             rbind (text_argument args 1
               (''ducklink_prefix: missing required VARCHAR argument '' @ quoted ''namespace'')
               ''ducklink_prefix: second argument (namespace) must be VARCHAR'') (\<lambda>namespace.
             if is_safe_prefix_identifier alias \<and> is_safe_prefix_identifier namespace
             then Inr (alias, namespace)
             else Inl (Invalidargument (''ducklink_prefix: alias and namespace must match [A-Za-z0-9_]+ ''
                    @ ''(got alias='' @ quoted alias @ '', namespace='' @ quoted namespace @ '')'')))) of
        Inl e \<Rightarrow> (Inl e, m)
      | Inr pair \<Rightarrow>
          (Inr pair,
           if pair \<in> set (m_deferred_prefixes m) then m
           else m\<lparr>m_deferred_prefixes := m_deferred_prefixes m @ [pair]\<rparr>))"

definition native_ducklink_prefix_table ::
  "duckvalue list \<Rightarrow> 'm manager \<Rightarrow> (duckerror + duckvalue list list) \<times> 'm manager" where
  "native_ducklink_prefix_table args m =
     apfst (map_sum (\<lambda>e. e) (\<lambda>(alias, namespace). [[D_Text alias, D_Text namespace, D_Int64 0]]))
       (native_ducklink_prefix_common args m)"

definition native_ducklink_prefix_scalar ::
  "duckvalue list \<Rightarrow> 'm manager \<Rightarrow> (duckerror + duckvalue) \<times> 'm manager" where
  "native_ducklink_prefix_scalar args m =
     apfst (map_sum (\<lambda>e. e) (\<lambda>(alias, namespace).
         D_Text (''alias='' @ quoted alias @ '' namespace='' @ quoted namespace
           @ '' macros=0 (deferred)'')))
       (native_ducklink_prefix_common args m)"

section \<open>Dispatchers that know the reserved handles\<close>

definition manager_dispatch_scalar ::
  "'m world \<Rightarrow> u32 \<Rightarrow> duckvalue list \<Rightarrow> invokeinfo \<Rightarrow> 'm manager \<Rightarrow>
     (duckerror + duckvalue) \<times> 'm manager" where
  "manager_dispatch_scalar W handle args ctx m =
     (if handle = ducklink_prefix_scalar_handle then native_ducklink_prefix_scalar args m
      else (case resolve_entry (m_registry m) handle of
          None \<Rightarrow> (Inl (unknown_handle ''scalar callback'' handle), m)
        | Some e \<Rightarrow>
            if ce_kind e \<noteq> Scalar then
              (Inl (Invalidstate (''callback handle '' @ show_word handle @ '' is not scalar'')), m)
            else on_instance (callback_not_loaded (ce_extension e)) (ce_extension e)
                   (dispatch_scalar (w_fmt W) (w_guest W (ce_extension e)) (ce_dispatcher e) args ctx)
                   m))"

text \<open>One row after the other; the first error ends the batch.\<close>

fun over_rows ::
  "(duckvalue list \<Rightarrow> 's \<Rightarrow> (duckerror + duckvalue) \<times> 's) \<Rightarrow> duckvalue list list \<Rightarrow> 's \<Rightarrow>
     (duckerror + duckvalue list) \<times> 's" where
  "over_rows f [] m = (Inr [], m)"
| "over_rows f (row # rows) m =
     (case f row m of
        (Inl e, m1) \<Rightarrow> (Inl e, m1)
      | (Inr v, m1) \<Rightarrow> apfst (map_sum (\<lambda>e. e) (\<lambda>vs. v # vs)) (over_rows f rows m1))"

definition resolver_function ::
  "'m world \<Rightarrow> u32 \<Rightarrow> duckvalue list \<Rightarrow> 'm manager \<Rightarrow> (duckerror + duckvalue) \<times> 'm manager" where
  "resolver_function W handle row m =
     (let arg = (case row of D_Text s # _ \<Rightarrow> s | _ \<Rightarrow> [])
      in if handle = resolver_explain_handle then (Inr (D_Text (explain_resolution W m arg)), m)
         else apfst (\<lambda>text. Inr (D_Text text)) (set_forced_provider arg m))"

definition manager_dispatch_scalar_batch ::
  "'m world \<Rightarrow> u32 \<Rightarrow> duckvalue list list \<Rightarrow> invokeinfo \<Rightarrow> 'm manager \<Rightarrow>
     ((duckerror + duckvalue list) \<times> 'm manager) option" where
  "manager_dispatch_scalar_batch W handle rows ctx m =
     (if handle = ducklink_prefix_scalar_handle then
        Some (over_rows native_ducklink_prefix_scalar rows m)
      else if handle = resolver_explain_handle \<or> handle = resolver_set_handle then
        Some (over_rows (resolver_function W handle) rows m)
      else (case lookup_callback m handle Scalar of
          None \<Rightarrow> Some (Inl (unknown_handle ''scalar callback'' handle), m)
        | Some e \<Rightarrow>
            (case running m (ce_extension e) of
               None \<Rightarrow> Some (Inl (callback_not_loaded (ce_extension e)), m)
             | Some g \<Rightarrow>
                 map_option (apsnd (\<lambda>g'. put_instance (ce_extension e) g' m))
                   (dispatch_scalar_batch (w_fmt W) (w_guest W (ce_extension e)) (ce_dispatcher e)
                      rows ctx g))))"

definition is_at5_handle :: "u32 \<Rightarrow> bool" where
  "is_at5_handle handle \<longleftrightarrow> at5_handle_min \<le> handle \<and> handle \<le> at5_handle_max"

definition manager_dispatch_table ::
  "'m world \<Rightarrow> u32 \<Rightarrow> duckvalue list \<Rightarrow> 'm manager \<Rightarrow>
     ((duckerror + duckvalue list list) \<times> 'm manager) option" where
  "manager_dispatch_table W handle args m =
     (if is_at5_handle handle then native_at5_attach_scan W handle m
      else if handle = ducklink_load_handle then Some (native_ducklink_load W args m)
      else if handle = ducklink_prefix_table_handle then Some (native_ducklink_prefix_table args m)
      else Some (on_callback (unknown_handle ''table callback'' handle) Table handle
             (\<lambda>ext h. dispatch_table (w_fmt W) (w_guest W ext) h args) m))"

section \<open>The drain\<close>

fun drain_instances ::
  "(ext_state \<Rightarrow> u32 list \<times> u32 list \<times> u32 list) \<Rightarrow> (string \<times> 'm inst) list \<Rightarrow>
     pending_registrations \<Rightarrow> pending_registrations \<times> (string \<times> 'm inst) list" where
  "drain_instances ord [] agg = (agg, [])"
| "drain_instances ord ((name, w, s) # es) agg =
     (let (ks, kt, ka) = ord s;
          (p, s') = drain_pending ks kt ka s;
          (agg', es') = drain_instances ord es (append_registrations agg p)
      in (agg', (name, w, s') # es'))"

definition text_arg :: "string \<Rightarrow> reg_func_arg" where
  "text_arg name = \<lparr>rfa_name = Some name, rfa_logical = R_Text\<rparr>"

definition column_of :: "string \<Rightarrow> reg_logical_type \<Rightarrow> reg_column_def" where
  "column_of name ty = \<lparr>rcd_name = name, rcd_logical = ty\<rparr>"

definition load_table :: table_reg where
  "load_table =
     \<lparr>table_extension = ''ducklink'', table_name = ''ducklink_load'',
      table_arguments = [text_arg ''name''],
      table_columns = [column_of ''name'' R_Text, column_of ''path'' R_Text,
        column_of ''scalars'' R_Int64, column_of ''tables'' R_Int64, column_of ''aggregates'' R_Int64],
      table_callback = ducklink_load_handle, table_options = None\<rparr>"

definition prefix_table :: table_reg where
  "prefix_table =
     \<lparr>table_extension = ''ducklink'', table_name = ''ducklink_prefix'',
      table_arguments = [text_arg ''alias'', text_arg ''namespace''],
      table_columns = [column_of ''alias'' R_Text, column_of ''namespace'' R_Text,
        column_of ''macros'' R_Int64],
      table_callback = ducklink_prefix_table_handle, table_options = None\<rparr>"

definition prefix_scalar :: scalar_reg where
  "prefix_scalar =
     \<lparr>scalar_extension = ''ducklink'', scalar_name = ''ducklink_prefix'',
      scalar_arguments = [text_arg ''alias'', text_arg ''namespace''], scalar_returns = R_Text,
      scalar_callback = ducklink_prefix_scalar_handle, scalar_options = None\<rparr>"

definition drain_pending_registrations ::
  "'m world \<Rightarrow> 'm manager \<Rightarrow> pending_registrations \<times> 'm manager" where
  "drain_pending_registrations W m =
     (let (agg, es) = drain_instances (w_order W) (m_extensions m)
                        (append_registrations no_registrations (m_deferred m));
          m1 = m\<lparr>m_deferred := no_registrations, m_extensions := es,
                 m_storage_backends := fold (\<lambda>r. AList.update (storage_type_name r)
                     (storage_extension r, storage_callback r)) (pr_storages agg)
                     (m_storage_backends m),
                 m_secret_backends := fold (\<lambda>r b. b((secret_type_name r, secret_provider r)
                     \<mapsto> (secret_extension r, secret_callback r))) (pr_secrets agg)
                     (m_secret_backends m),
                 m_settings := fold (\<lambda>r b. b(setting_name r \<mapsto> (setting_extension r, r)))
                     (pr_settings agg) (m_settings m)\<rparr>;
          (agg1, m2) =
            (if m_injected_load m1 then (agg, m1)
             else (agg\<lparr>pr_tables := pr_tables agg @ [load_table]\<rparr>, m1\<lparr>m_injected_load := True\<rparr>));
          (agg2, m3) =
            (if m_injected_prefix m2 then (agg1, m2)
             else (agg1\<lparr>pr_tables := pr_tables agg1 @ [prefix_table],
                        pr_scalars := pr_scalars agg1 @ [prefix_scalar]\<rparr>,
                   m2\<lparr>m_injected_prefix := True\<rparr>))
      in (agg2, m3))"

end
