(* ===== verification/Manager_Scans.thy ===== *)
theory Manager_Scans
  imports Manager_Dispatch
begin

text \<open>
  The scans of attached tables: the handles given out for them form a ring, and the search for a
  free one ends exactly when one is left; collecting a scan ends exactly when the component ends
  it, and returns its batches in order.
\<close>

section \<open>The ring of handles\<close>

definition in_range :: "u32 \<Rightarrow> bool" where
  "in_range h \<longleftrightarrow> at5_handle_min \<le> h \<and> h \<le> at5_handle_max"

definition ring_size :: nat where
  "ring_size = 4128768"

definition ring_pos :: "u32 \<Rightarrow> nat" where
  "ring_pos h = unat h - unat at5_handle_min"

lemma in_range_nat:
  "in_range h \<longleftrightarrow> unat at5_handle_min \<le> unat h \<and> unat h < unat at5_handle_min + ring_size"
  by (auto simp: in_range_def at5_handle_min_def at5_handle_max_def ring_size_def word_le_nat_alt)

lemma ring_pos_less: "in_range h \<Longrightarrow> ring_pos h < ring_size"
  by (auto simp: in_range_nat ring_pos_def)

lemma ring_pos_inj: "in_range h \<Longrightarrow> in_range k \<Longrightarrow> ring_pos h = ring_pos k \<Longrightarrow> h = k"
  by (auto simp: in_range_nat ring_pos_def word_unat_eq_iff)

lemma at5_next_range: "in_range (at5_next h)"
  by (auto simp: in_range_def at5_next_def at5_handle_min_def at5_handle_max_def Let_def)

lemma ring_pos_next:
  assumes "in_range h"
  shows "ring_pos (at5_next h) = Suc (ring_pos h) mod ring_size"
proof (cases "h = at5_handle_max")
  case True
  have "at5_next h = at5_handle_min" "ring_pos h = ring_size - 1"
    unfolding True
    by (simp_all add: at5_next_def at5_handle_max_def at5_handle_min_def ring_pos_def ring_size_def)
  then show ?thesis by (simp add: ring_pos_def ring_size_def)
next
  case False
  have u: "unat (h + 1) = unat h + 1"
    using assms by (subst unat_add_lem [THEN iffD1])
      (simp_all add: in_range_nat at5_handle_min_def ring_size_def)
  have lt: "h < at5_handle_max" using assms False by (simp add: in_range_def order_less_le)
  then have up: "h + 1 \<le> at5_handle_max" by (rule inc_le)
  have lo: "at5_handle_min \<le> h + 1"
    using assms u by (simp add: in_range_def word_le_nat_alt)
  have n: "at5_next h = h + 1" using up lo by (simp add: at5_next_def Let_def linorder_not_less leD)
  then have p: "ring_pos (at5_next h) = Suc (ring_pos h)"
    using assms u by (simp add: ring_pos_def in_range_nat Suc_diff_le)
  moreover have "ring_pos (at5_next h) < ring_size" by (rule ring_pos_less [OF at5_next_range])
  ultimately show ?thesis by simp
qed

lemma iterate_range: "in_range h \<Longrightarrow> in_range ((at5_next ^^ k) h)"
  using at5_next_range by (cases k) simp_all

lemma iterate_pos: "in_range h \<Longrightarrow> ring_pos ((at5_next ^^ k) h) = (ring_pos h + k) mod ring_size"
proof (induction k)
  case 0
  then show ?case using ring_pos_less by simp
next
  case (Suc k)
  then show ?case by (simp add: ring_pos_next iterate_range mod_Suc_eq)
qed

lemma ring_reaches:
  assumes "in_range h" "in_range k"
  shows "\<exists>n. (at5_next ^^ n) h = k"
proof -
  let ?n = "ring_size - ring_pos h + ring_pos k"
  have "ring_pos ((at5_next ^^ ?n) h) = (ring_size + ring_pos k) mod ring_size"
    using ring_pos_less [OF assms(1)] by (simp add: iterate_pos [OF assms(1)])
  also have "\<dots> = ring_pos k" using ring_pos_less [OF assms(2)] by simp
  finally show ?thesis using ring_pos_inj iterate_range assms by blast
qed

section \<open>The search for a free handle\<close>

lemma at5_find_first:
  "targets ((at5_next ^^ n) h) = None \<Longrightarrow> \<forall>k < n. targets ((at5_next ^^ k) h) \<noteq> None \<Longrightarrow>
     at5_find targets h (at5_next h) = Some ((at5_next ^^ n) h, (at5_next ^^ Suc n) h)"
proof (induction n arbitrary: h)
  case 0
  then show ?case by (simp add: at5_find.simps)
next
  case (Suc n)
  have "targets h \<noteq> None" using Suc.prems(2) by (auto dest: spec [of _ 0])
  moreover have "\<forall>k < n. targets ((at5_next ^^ k) (at5_next h)) \<noteq> None"
    using Suc.prems(2) by (metis Suc_mono comp_apply funpow_Suc_right)
  ultimately show ?case
    using Suc.IH [of "at5_next h"] Suc.prems(1)
    by (subst at5_find.simps) (auto simp: funpow_swap1)
qed

lemma at5_find_free:
  assumes "at5_find targets x n = Some r"
  shows "n = at5_next x \<longrightarrow> (\<exists>k. fst r = (at5_next ^^ k) x \<and> targets (fst r) = None)"
proof (rule at5_find.raw_induct [where P = "\<lambda>targets x n r. n = at5_next x \<longrightarrow>
      (\<exists>k. fst r = (at5_next ^^ k) x \<and> targets (fst r) = None)", OF _ assms], rule impI, goal_cases)
  case (1 find targets x n r)
  show ?case
  proof (cases "targets x = None")
    case True
    then show ?thesis using 1(2) by (intro exI [of _ 0]) auto
  next
    case False
    have "find targets n (at5_next n) = Some r" using 1(2) unfolding if_not_P [OF False] .
    from 1(1) [OF this] obtain k where "fst r = (at5_next ^^ k) n" "targets (fst r) = None" by blast
    then show ?thesis using 1(3) by (metis comp_apply funpow_Suc_right)
  qed
qed

lemma at5_find_ends:
  assumes "in_range h"
  shows "(case at5_find targets h (at5_next h) of
      None \<Rightarrow> \<forall>k. in_range k \<longrightarrow> targets k \<noteq> None
    | Some (handle, nxt) \<Rightarrow> in_range handle \<and> targets handle = None \<and> in_range nxt)"
proof (cases "\<exists>n. targets ((at5_next ^^ n) h) = None")
  case True
  define n where "n = (LEAST n. targets ((at5_next ^^ n) h) = None)"
  have "targets ((at5_next ^^ n) h) = None" "\<forall>k < n. targets ((at5_next ^^ k) h) \<noteq> None"
    using True not_less_Least unfolding n_def by (auto intro: LeastI_ex)
  from at5_find_first [OF this] this show ?thesis
    using iterate_range [OF assms, of n] iterate_range [OF assms, of "Suc n"] by simp
next
  case False
  have "at5_find targets h (at5_next h) = None"
    using at5_find_free [of targets h "at5_next h"] False by (metis option.exhaust)
  moreover have "targets k \<noteq> None" if k: "in_range k" for k
  proof -
    obtain n where n: "(at5_next ^^ n) h = k" using ring_reaches [OF assms k] by blast
    show ?thesis using False unfolding n [symmetric] by simp
  qed
  ultimately show ?thesis by simp
qed

text \<open>
  C21. Giving out a handle for the scan of an attached table ends exactly when a handle is left:
  the handle is then inside the reserved range and bound to no other table, every other table
  keeps its handle, and the place to search from next stays inside the range, so that this holds
  for every later table too.
\<close>

theorem register_at5_scan_ends:
  assumes "in_range (m_next_at5 m)"
  shows "(case register_at5_scan ext sh ch table m of
      None \<Rightarrow> \<forall>h. in_range h \<longrightarrow> m_at5_targets m h \<noteq> None
    | Some (handle, m') \<Rightarrow>
        in_range handle \<and> m_at5_targets m handle = None \<and> in_range (m_next_at5 m')
        \<and> m_at5_targets m' = (m_at5_targets m)(handle \<mapsto>
            \<lparr>at5_extension = ext, at5_storage_handle = sh, at5_catalog_handle = ch,
             at5_table = table\<rparr>)
        \<and> m_extensions m' = m_extensions m \<and> m_registry m' = m_registry m)"
  using at5_find_ends [OF assms, of "m_at5_targets m"]
  by (auto simp: register_at5_scan_def split: option.splits)

theorem register_at5_scan_ends_witness:
  "(case register_at5_scan ''sqlite'' 3 1 ''t'' (new_manager None None :: unit manager) of
      None \<Rightarrow> False
    | Some (handle, m') \<Rightarrow> in_range handle \<and> dom (m_at5_targets m') = {handle})"
proof -
  have r: "in_range (m_next_at5 (new_manager None None :: unit manager))"
    by (simp add: new_manager_def in_range_def at5_handle_min_def at5_handle_max_def)
  have e: "m_at5_targets (new_manager None None :: unit manager) = Map.empty"
    by (simp add: new_manager_def)
  have "in_range at5_handle_min"
    by (simp add: in_range_def at5_handle_min_def at5_handle_max_def)
  then show ?thesis
    using register_at5_scan_ends [OF r, of "''sqlite''" 3 1 "''t''"]
    unfolding e by (cases "register_at5_scan ''sqlite'' 3 1 ''t'' (new_manager None None :: unit manager)")
      (auto split: if_splits)
qed

section \<open>Collecting a scan\<close>

text \<open>The batches a component hands out from a state on, until it ends the scan or fails.\<close>

inductive scan_run ::
  "fmt \<Rightarrow> 'g guest \<Rightarrow> u32 \<Rightarrow> u32 \<Rightarrow> 'g \<Rightarrow> duckvalue list list list \<Rightarrow> duckerror option \<Rightarrow> 'g \<Rightarrow> bool"
  for fm call h scan where
  Ended: "storage_scan_next fm call h scan (- 1) g = (Inr [], g') \<Longrightarrow>
     scan_run fm call h scan g [] None g'"
| Failed: "storage_scan_next fm call h scan (- 1) g = (Inl e, g') \<Longrightarrow>
     scan_run fm call h scan g [] (Some e) g'"
| More: "storage_scan_next fm call h scan (- 1) g = (Inr b, g1) \<Longrightarrow> b \<noteq> [] \<Longrightarrow>
     scan_run fm call h scan g1 bs e g' \<Longrightarrow> scan_run fm call h scan g (b # bs) e g'"

inductive_cases scan_runE: "scan_run fm call h scan g bs e g'"

definition scan_result ::
  "duckvalue list list \<Rightarrow> duckvalue list list list \<Rightarrow> duckerror option \<Rightarrow> duckerror + duckvalue list list" where
  "scan_result out bs e = (case e of None \<Rightarrow> Inr (out @ concat bs) | Some err \<Rightarrow> Inl err)"

lemma scan_run_drain:
  "scan_run fm call h scan g bs e g' \<Longrightarrow>
     drain_scan fm call h scan out g = Some (scan_result out bs e, g')"
proof (induction arbitrary: out rule: scan_run.induct)
  case (More g b g1 bs e g')
  then show ?case
    by (subst drain_scan.simps) (simp add: scan_result_def split: option.split)
qed (subst drain_scan.simps, simp add: scan_result_def)+

lemma drain_scan_run:
  assumes "drain_scan fm call h scan out g = Some x"
  shows "\<exists>bs e. scan_run fm call h scan g bs e (snd x) \<and> fst x = scan_result out bs e"
proof (rule drain_scan.raw_induct [where P = "\<lambda>fm call h scan out g x.
      \<exists>bs e. scan_run fm call h scan g bs e (snd x) \<and> fst x = scan_result out bs e", OF _ assms],
    goal_cases)
  case (1 drain fm call h scan out g x)
  obtain a g1 where n: "storage_scan_next fm call h scan (- 1) g = (a, g1)" by force
  show ?case
  proof (cases a)
    case (Inl e)
    then have "x = (Inl e, g1)" using 1(2) n by simp
    moreover have "scan_run fm call h scan g [] (Some e) g1" using n Inl by (simp add: Failed)
    ultimately show ?thesis by (intro exI [of _ "[]"] exI [of _ "Some e"]) (simp add: scan_result_def)
  next
    case (Inr b)
    show ?thesis
    proof (cases "b = []")
      case True
      then have "x = (Inr out, g1)" using 1(2) n Inr by simp
      moreover have "scan_run fm call h scan g [] None g1" using n Inr True by (simp add: Ended)
      ultimately show ?thesis by (intro exI [of _ "[]"] exI [of _ None]) (simp add: scan_result_def)
    next
      case False
      have "drain fm call h scan (out @ b) g1 = Some x" using 1(2) n Inr False by simp
      from 1(1) [OF this] obtain bs e where r: "scan_run fm call h scan g1 bs e (snd x)"
        "fst x = scan_result (out @ b) bs e" by blast
      have "scan_run fm call h scan g (b # bs) e (snd x)"
        using More [OF _ False r(1)] n Inr by simp
      moreover have "fst x = scan_result out (b # bs) e"
        using r(2) by (simp add: scan_result_def split: option.split)
      ultimately show ?thesis by blast
    qed
  qed
qed

text \<open>The state after \<open>n\<close> batches, and whether the component ends the scan there.\<close>

definition scan_state :: "fmt \<Rightarrow> 'g guest \<Rightarrow> u32 \<Rightarrow> u32 \<Rightarrow> nat \<Rightarrow> 'g \<Rightarrow> 'g" where
  "scan_state fm call h scan n = ((\<lambda>g. snd (storage_scan_next fm call h scan (- 1) g)) ^^ n)"

definition scan_stops :: "fmt \<Rightarrow> 'g guest \<Rightarrow> u32 \<Rightarrow> u32 \<Rightarrow> 'g \<Rightarrow> bool" where
  "scan_stops fm call h scan g =
     (case fst (storage_scan_next fm call h scan (- 1) g) of Inl _ \<Rightarrow> True | Inr b \<Rightarrow> b = [])"

lemma scan_run_stops:
  "scan_run fm call h scan g bs e g' \<Longrightarrow> scan_stops fm call h scan (scan_state fm call h scan (length bs) g)"
  by (induction rule: scan_run.induct)
    (simp_all add: scan_stops_def scan_state_def funpow_Suc_right del: funpow.simps(2))

lemma scan_stops_run:
  "scan_stops fm call h scan (scan_state fm call h scan n g) \<Longrightarrow> \<exists>bs e g'. scan_run fm call h scan g bs e g'"
proof (induction n arbitrary: g)
  case 0
  obtain a g1 where "storage_scan_next fm call h scan (- 1) g = (a, g1)" by force
  with 0 show ?case
    by (cases a) (auto simp: scan_stops_def scan_state_def intro: scan_run.intros)
next
  case (Suc n)
  obtain a g1 where n: "storage_scan_next fm call h scan (- 1) g = (a, g1)" by force
  have "scan_stops fm call h scan (scan_state fm call h scan n g1)"
    using Suc.prems n by (simp add: scan_state_def funpow_Suc_right del: funpow.simps(2))
  from Suc.IH [OF this] n show ?case
    by (cases a) (metis scan_run.intros)+
qed

lemma drain_scan_None:
  "drain_scan fm call h scan out g = None
     \<longleftrightarrow> (\<forall>n. \<not> scan_stops fm call h scan (scan_state fm call h scan n g))"
proof
  assume "drain_scan fm call h scan out g = None"
  then show "\<forall>n. \<not> scan_stops fm call h scan (scan_state fm call h scan n g)"
    using scan_stops_run scan_run_drain by (metis option.distinct(1))
next
  assume "\<forall>n. \<not> scan_stops fm call h scan (scan_state fm call h scan n g)"
  then show "drain_scan fm call h scan out g = None"
    using drain_scan_run scan_run_stops by (metis not_None_eq)
qed

section \<open>Scans through the manager\<close>

definition opens_scan ::
  "'m world \<Rightarrow> 'm manager \<Rightarrow> u32 \<Rightarrow> at5_scan_target \<Rightarrow> u32 \<Rightarrow> 'm running \<Rightarrow> bool" where
  "opens_scan W m handle t scan g1 \<longleftrightarrow>
     m_at5_targets m handle = Some t
     \<and> (\<exists>g. running m (at5_extension t) = Some g
          \<and> storage_scan_open (w_fmt W) (w_guest W (at5_extension t)) (at5_storage_handle t)
              (at5_catalog_handle t) (scan_everything (at5_table t)) g = (Inr scan, g1))"

lemma drain_scan_rows:
  "drain_scan fm call h scan [] g = Some (Inr rows, g')
     \<longleftrightarrow> (\<exists>bs. scan_run fm call h scan g bs None g' \<and> rows = concat bs)"
proof
  assume "drain_scan fm call h scan [] g = Some (Inr rows, g')"
  from drain_scan_run [OF this] obtain bs e where
    r: "scan_run fm call h scan g bs e g'" "Inr rows = scan_result [] bs e" by auto
  then have "e = None" "rows = concat bs" by (auto simp: scan_result_def split: option.splits)
  with r(1) show "\<exists>bs. scan_run fm call h scan g bs None g' \<and> rows = concat bs" by blast
next
  assume "\<exists>bs. scan_run fm call h scan g bs None g' \<and> rows = concat bs"
  then obtain bs where "scan_run fm call h scan g bs None g'" "rows = concat bs" by blast
  then show "drain_scan fm call h scan [] g = Some (Inr rows, g')"
    by (simp add: scan_run_drain scan_result_def)
qed

lemma map_closed:
  "map_option (\<lambda>(r, g2). case r of Inl e \<Rightarrow> (Inl e, g2) | Inr out \<Rightarrow> (Inr out, c g2)) d
      = Some (Inr rows, g') \<longleftrightarrow> (\<exists>g2. d = Some (Inr rows, g2) \<and> g' = c g2)"
proof (cases d)
  case (Some rg)
  obtain r g2 where "rg = (r, g2)" by (rule prod.exhaust)
  then show ?thesis using Some by (cases r) auto
qed simp

lemma at5_scan_instance_rows:
  "at5_scan_instance fm call t g = Some (Inr rows, g') \<longleftrightarrow>
     (\<exists>scan g1 bs g2. storage_scan_open fm call (at5_storage_handle t) (at5_catalog_handle t)
            (scan_everything (at5_table t)) g = (Inr scan, g1)
        \<and> scan_run fm call (at5_storage_handle t) scan g1 bs None g2 \<and> rows = concat bs
        \<and> g' = snd (storage_scan_close fm call (at5_storage_handle t) scan g2))"
  (is "?l \<longleftrightarrow> ?r")
proof -
  let ?close = "\<lambda>scan g2. snd (storage_scan_close fm call (at5_storage_handle t) scan g2)"
  have "?l \<longleftrightarrow> (\<exists>scan g1 g2. storage_scan_open fm call (at5_storage_handle t)
            (at5_catalog_handle t) (scan_everything (at5_table t)) g = (Inr scan, g1)
        \<and> drain_scan fm call (at5_storage_handle t) scan [] g1 = Some (Inr rows, g2)
        \<and> g' = ?close scan g2)"
  proof -
    obtain a g1 where o: "storage_scan_open fm call (at5_storage_handle t) (at5_catalog_handle t)
        (scan_everything (at5_table t)) g = (a, g1)" by (rule prod.exhaust)
    show ?thesis
    proof (cases a)
      case (Inr scan)
      then have "?l \<longleftrightarrow> (\<exists>g2. drain_scan fm call (at5_storage_handle t) scan [] g1 = Some (Inr rows, g2)
          \<and> g' = ?close scan g2)"
        unfolding at5_scan_instance_def o by (simp only: prod.case sum.case map_closed)
      then show ?thesis using o Inr by simp
    qed (use o in \<open>simp add: at5_scan_instance_def\<close>)
  qed
  also have "\<dots> \<longleftrightarrow> ?r" unfolding drain_scan_rows by blast
  finally show ?thesis .
qed

text \<open>
  C20. Reading an attached table returns unless the component hands out non-empty batches for
  ever: then, and only then, it does not.
\<close>

theorem attached_scan_returns:
  "native_at5_attach_scan W handle m = None \<longleftrightarrow>
     (\<exists>t scan g1. opens_scan W m handle t scan g1
        \<and> (\<forall>n. \<not> scan_stops (w_fmt W) (w_guest W (at5_extension t)) (at5_storage_handle t) scan
              (scan_state (w_fmt W) (w_guest W (at5_extension t)) (at5_storage_handle t) scan n g1)))"
proof -
  have one: "at5_scan_instance fm call t g = None \<longleftrightarrow>
      (\<exists>scan g1. storage_scan_open fm call (at5_storage_handle t) (at5_catalog_handle t)
              (scan_everything (at5_table t)) g = (Inr scan, g1)
         \<and> drain_scan fm call (at5_storage_handle t) scan [] g1 = None)"
    for fm and call :: "'m running guest" and t g
    by (auto simp: at5_scan_instance_def split: prod.split sum.split)
  show ?thesis
    unfolding native_at5_attach_scan_def opens_scan_def drain_scan_None [symmetric, where out = "[]"]
    by (auto simp: one split: option.split)
qed

text \<open>
  The rows of an attached table are the batches of the component in order, none lost and none
  twice, the scan is opened once on the catalog and the table that the handle stands for and
  closed once at the end, and no other extension is touched.
\<close>

theorem attached_scan_rows:
  "native_at5_attach_scan W handle m = Some (Inr rows, m') \<longleftrightarrow>
     (\<exists>t scan g1 bs g2. opens_scan W m handle t scan g1
        \<and> scan_run (w_fmt W) (w_guest W (at5_extension t)) (at5_storage_handle t) scan g1 bs None g2
        \<and> rows = concat bs
        \<and> m' = put_instance (at5_extension t)
              (snd (storage_scan_close (w_fmt W) (w_guest W (at5_extension t))
                      (at5_storage_handle t) scan g2)) m)"
  (is "?l \<longleftrightarrow> ?r")
proof -
  note one = at5_scan_instance_rows
  show ?thesis
  proof (cases "m_at5_targets m handle")
    case (Some t)
    show ?thesis
    proof (cases "running m (at5_extension t)")
      case None
      then show ?thesis using Some by (simp add: native_at5_attach_scan_def opens_scan_def)
    next
      case g: (Some g)
      have l: "?l \<longleftrightarrow> (\<exists>g'. at5_scan_instance (w_fmt W) (w_guest W (at5_extension t)) t g
              = Some (Inr rows, g') \<and> m' = put_instance (at5_extension t) g' m)"
        using Some g by (auto simp: native_at5_attach_scan_def)
      have o: "opens_scan W m handle t' scan g1 \<longleftrightarrow>
          t' = t \<and> storage_scan_open (w_fmt W) (w_guest W (at5_extension t)) (at5_storage_handle t)
              (at5_catalog_handle t) (scan_everything (at5_table t)) g = (Inr scan, g1)" for t' scan g1
        unfolding opens_scan_def Some option.inject using g by (auto simp del: split_paired_Ex)
      show ?thesis unfolding l one o by blast
    qed
  qed (simp add: native_at5_attach_scan_def opens_scan_def)
qed

end
