(* ===== verification/Manager_Safety.thy ===== *)
theory Manager_Safety
  imports Manager_Load Manager_Scans
begin

text \<open>
  A call through the manager touches nothing but the extension that is responsible for it; and
  the manager as a state machine: the operations as steps, and an invariant of every state that
  is reached from a new manager.
\<close>

section \<open>Confinement\<close>

text \<open>
  \<open>confined m owner m'\<close>: the tables of the manager and the set of loaded extensions are as before,
  and no instance but that of the owner has changed; without an owner nothing at all has.
\<close>

definition confined :: "'m manager \<Rightarrow> string option \<Rightarrow> 'm manager \<Rightarrow> bool" where
  "confined m owner m' \<longleftrightarrow>
     rest_of m' = rest_of m \<and> loaded_names m' = loaded_names m
     \<and> (case owner of
          None \<Rightarrow> m' = m
        | Some ext \<Rightarrow> \<forall>x. map_of (m_extensions m') x \<noteq> map_of (m_extensions m) x \<longrightarrow> x = ext)"

lemma confined_same [simp]: "confined m owner m"
  by (simp add: confined_def split: option.split)

lemma confined_put: "running m ext \<noteq> None \<Longrightarrow> confined m (Some ext) (put_instance ext g m)"
  using put_instance_other [of _ ext g m] running_names [of m ext]
  by (auto simp: confined_def put_instance_names)

lemma confined_on_instance: "confined m (Some ext) (snd (on_instance err ext f m))"
  using confined_put [of m ext] by (simp add: on_instance_running split: option.split)

text \<open>The extension that a callback handle belongs to, if it is bound to a callback of the kind.\<close>

definition owner_of :: "'m manager \<Rightarrow> u32 \<Rightarrow> callback_kind \<Rightarrow> string option" where
  "owner_of m handle kind = map_option ce_extension (lookup_callback m handle kind)"

lemma confined_on_callback:
  "confined m (owner_of m handle kind) (snd (on_callback unknown kind handle f m))"
  by (simp add: on_callback_def owner_of_def confined_on_instance split: option.split)

lemma confined_on_storage:
  "confined m (case resolve_storage_backend m of Inl _ \<Rightarrow> None | Inr b \<Rightarrow> Some (fst b)) (snd (on_storage f m))"
  by (simp add: on_storage_def confined_on_instance split: sum.split prod.split)

lemma confined_on_index:
  "confined m (case resolve_index_backend m ty of Inl _ \<Rightarrow> None | Inr ext \<Rightarrow> Some ext) (snd (on_index ty f m))"
  by (simp add: on_index_def confined_on_instance split: sum.split)

definition reserved :: "u32 \<Rightarrow> bool" where
  "reserved handle \<longleftrightarrow> is_at5_handle handle
     \<or> handle \<in> {resolver_explain_handle, resolver_set_handle, ducklink_load_handle,
          ducklink_prefix_table_handle, ducklink_prefix_scalar_handle}"

text \<open>
  C17. A scalar, table, aggregate, pragma or cast call on a callback handle that is none of the handles
  reserved for the host's own functions and scans reaches only the extension that registered it, and
  only for the kind it was registered for: a handle that is not bound to a callback of that kind
  changes nothing at all; any other call leaves the set of loaded extensions, every other instance
  and every table of the manager as they were. The callback registry that all extensions share is
  the exception: the component that is called may register and release handles in it.
\<close>

theorem callback_confined:
  assumes "\<not> reserved handle"
  shows "confined m (owner_of m handle Scalar) (snd (manager_dispatch_scalar W handle args ctx m))
    \<and> pred_option (\<lambda>(r, m'). confined m (owner_of m handle Scalar) m')
        (manager_dispatch_scalar_batch W handle rows ctx m)
    \<and> pred_option (\<lambda>(r, m'). confined m (owner_of m handle Table) m')
        (manager_dispatch_table W handle args m)
    \<and> pred_option (\<lambda>(r, m'). confined m (owner_of m handle Aggregate) m')
        (manager_dispatch_aggregate W handle rows m)
    \<and> confined m (owner_of m handle Pragma) (snd (manager_dispatch_pragma W handle args m))
    \<and> confined m (owner_of m handle Cast) (snd (manager_dispatch_cast W handle v m))"
proof (intro conjI)
  have r: "resolve_entry (m_registry m) handle = get_entry (m_registry m) handle"
    by (simp add: resolve_entry_def get_entry_def)
  have put: "confined m (owner_of m handle kind) (put_instance (ce_extension e) g m)"
    if "lookup_callback m handle kind = Some e" "running m (ce_extension e) = Some g0" for kind e g g0
    using that confined_put [of m "ce_extension e" g] by (simp add: owner_of_def)
  show "confined m (owner_of m handle Scalar) (snd (manager_dispatch_scalar W handle args ctx m))"
    using assms confined_on_instance
    by (auto simp: manager_dispatch_scalar_def reserved_def r owner_of_def lookup_callback_def
        split: option.split)
  show "pred_option (\<lambda>(r, m'). confined m (owner_of m handle Scalar) m')
        (manager_dispatch_scalar_batch W handle rows ctx m)"
    using assms put
    by (auto simp: manager_dispatch_scalar_batch_def reserved_def pred_option_def split: option.splits)
  show "pred_option (\<lambda>(r, m'). confined m (owner_of m handle Table) m')
        (manager_dispatch_table W handle args m)"
    using assms confined_on_callback
    by (auto simp: manager_dispatch_table_def reserved_def split_beta)
  show "pred_option (\<lambda>(r, m'). confined m (owner_of m handle Aggregate) m')
        (manager_dispatch_aggregate W handle rows m)"
    using put by (auto simp: manager_dispatch_aggregate_def pred_option_def split: option.splits)
  show "confined m (owner_of m handle Pragma) (snd (manager_dispatch_pragma W handle args m))"
    by (simp add: manager_dispatch_pragma_def confined_on_callback)
  show "confined m (owner_of m handle Cast) (snd (manager_dispatch_cast W handle v m))"
    by (simp add: manager_dispatch_cast_def confined_on_callback)
qed

text \<open>Two extensions that count their calls; the first registered a pragma, which has handle 1.\<close>

definition count_calls :: "nat running guest" where
  "count_calls g name args =
     (case g of (n, s, reg) \<Rightarrow> (Inr [V_Result (Inr (Some (V_Option (Some (duckvalue_to_value (D_Text ''done'')))))) ], (Suc n, s, reg)))"

definition counting_world :: "nat world" where
  "counting_world =
     \<lparr>w_fmt = plain_fmt, w_guest = (\<lambda>_. count_calls), w_load = (\<lambda>_ _ reg. (Inl ''none'', reg)),
      w_exists = (\<lambda>_. False), w_attach_file = (\<lambda>_. None), w_entry = (\<lambda>_. None),
      w_digest = (\<lambda>_. None), w_components = [], w_root = ''/'', w_bridge = (\<lambda>_. None),
      w_materialize = (\<lambda>_. Inl ''none''), w_order = (\<lambda>_. ([], [], [])), w_plan = (\<lambda>_. Inr [])\<rparr>"

definition two_loaded :: "nat manager" where
  "two_loaded = (new_manager None None)
     \<lparr>m_extensions := [(''a'', 0, new_ext_state ''a''), (''b'', 7, new_ext_state ''b'')],
      m_registry := snd (allocate new_registry ''a'' Pragma 5)\<rparr>"

theorem callback_confined_witness:
  "let (r, m') = manager_dispatch_pragma counting_world 1 [] two_loaded in
     r = Inr (Some (D_Text ''done''))
     \<and> map_option fst (map_of (m_extensions m') ''a'') = Some 1
     \<and> map_of (m_extensions m') ''b'' = Some (7, new_ext_state ''b'')
     \<and> rest_of m' = rest_of two_loaded
     \<and> snd (manager_dispatch_cast counting_world 1 D_Null two_loaded) = two_loaded"
proof -
  have n: "\<not> reserved 1"
    by (simp add: reserved_def is_at5_handle_def at5_handle_min_def at5_handle_max_def
      resolver_explain_handle_def resolver_set_handle_def ducklink_load_handle_def
      ducklink_prefix_table_handle_def ducklink_prefix_scalar_handle_def word_le_nat_alt)
  have o: "owner_of two_loaded 1 Pragma = Some ''a''" "owner_of two_loaded 1 Cast = None"
    by code_simp+
  have b: "map_of (m_extensions two_loaded) ''b'' = Some (7, new_ext_state ''b'')"
    by (simp add: two_loaded_def)
  have r: "fst (manager_dispatch_pragma counting_world 1 [] two_loaded) = Inr (Some (D_Text ''done''))"
    "map_option fst (map_of (m_extensions (snd (manager_dispatch_pragma counting_world 1 [] two_loaded))) ''a'') = Some 1"
    by code_simp+
  have p: "confined two_loaded (Some ''a'') (snd (manager_dispatch_pragma counting_world 1 [] two_loaded))"
    and c: "confined two_loaded None (snd (manager_dispatch_cast counting_world 1 D_Null two_loaded))"
    using callback_confined [OF n, of two_loaded counting_world] unfolding o by blast+
  have "map_of (m_extensions (snd (manager_dispatch_pragma counting_world 1 [] two_loaded))) x
      = map_of (m_extensions two_loaded) x" if "x \<noteq> ''a''" for x
    using p that unfolding confined_def option.case by blast
  from this [of "''b''"] have other: "map_of (m_extensions (snd (manager_dispatch_pragma counting_world 1 [] two_loaded))) ''b''
      = Some (7, new_ext_state ''b'')" unfolding b by simp
  show ?thesis
    unfolding case_prod_unfold Let_def
  proof (intro conjI)
    show "rest_of (snd (manager_dispatch_pragma counting_world 1 [] two_loaded)) = rest_of two_loaded"
      using p unfolding confined_def by blast
    show "snd (manager_dispatch_cast counting_world 1 D_Null two_loaded) = two_loaded"
      using c unfolding confined_def option.case by blast
  qed (rule r other)+
qed

section \<open>The manager as a state machine\<close>

text \<open>Calls that reach at most one instance, by what they return.\<close>

inductive instance_step :: "'m world \<Rightarrow> 'm manager \<Rightarrow> 'm manager \<Rightarrow> bool" for W where
  Storage_Attach: "instance_step W m (snd (dispatch_storage_attach W dsn m))"
| List_Tables: "instance_step W m (snd (dispatch_storage_list_tables W c m))"
| Table_Columns: "instance_step W m (snd (dispatch_storage_table_columns W c t m))"
| Scan_Open: "instance_step W m (snd (dispatch_storage_scan_open W c q m))"
| Scan_Next: "instance_step W m (snd (dispatch_storage_scan_next W s k m))"
| Scan_Close: "instance_step W m (snd (dispatch_storage_scan_close W s m))"
| Serialize: "instance_step W m (snd (dispatch_storage_serialize W c m))"
| Persist: "instance_step W m (snd (dispatch_storage_writes_persist_directly W  m))"
| Begin: "instance_step W m (snd (dispatch_storage_begin_transaction W c m))"
| Commit: "instance_step W m (snd (dispatch_storage_commit_transaction W x m))"
| Rollback: "instance_step W m (snd (dispatch_storage_rollback_transaction W x m))"
| Create_Table: "instance_step W m (snd (dispatch_storage_create_table W x t cs m))"
| Insert_Rows: "instance_step W m (snd (dispatch_storage_insert_rows W x t rows m))"
| Delete_Rows: "instance_step W m (snd (dispatch_storage_delete_rows W x t ids m))"
| Update_Rows: "instance_step W m (snd (dispatch_storage_update_rows W x t ids us rows m))"
| Index_Create: "instance_step W m (snd (dispatch_index_create W ty n d m))"
| Index_Append: "instance_step W m (snd (dispatch_index_append W h ids vs m))"
| Index_Build: "instance_step W m (snd (dispatch_index_build W h m))"
| Index_Search: "instance_step W m (snd (dispatch_index_search W h q k m))"
| Index_Drop: "instance_step W m (snd (dispatch_index_drop W h m))"
| File_Open: "instance_step W m (snd (dispatch_file_open W u m))"
| File_Read: "instance_step W m (snd (dispatch_file_read W f off l m))"
| File_Close: "instance_step W m (snd (dispatch_file_close W f m))"
| Parse: "instance_step W m (snd (dispatch_parse W h q m))"
| Optimize: "instance_step W m (snd (dispatch_optimize W h q m))"
| Open_Filtered: "instance_step W m (snd (dispatch_table_open_filtered W h args ps fs m))"
| Table_Next: "instance_step W m (snd (dispatch_table_next W h c k m))"
| Table_Close: "instance_step W m (snd (dispatch_table_close W h c m))"
| Pragma_Call: "instance_step W m (snd (manager_dispatch_pragma W h args m))"
| Cast_Call: "instance_step W m (snd (manager_dispatch_cast W h v m))"
| Aggregate_Call: "manager_dispatch_aggregate W h rows m = Some (r, m') \<Longrightarrow> instance_step W m m'"
| Attached_Scan: "native_at5_attach_scan W h m = Some (r, m') \<Longrightarrow> instance_step W m m'"

text \<open>The tables and the set of loaded extensions are the same.\<close>

definition same_tables :: "'m manager \<Rightarrow> 'm manager \<Rightarrow> bool" where
  "same_tables m m' \<longleftrightarrow> rest_of m' = rest_of m \<and> loaded_names m' = loaded_names m"

lemma same_refl [simp]: "same_tables m m"
  by (simp add: same_tables_def)

lemma same_put: "running m ext = Some g0 \<Longrightarrow> same_tables m (put_instance ext g m)"
  using running_names [of m ext] by (simp add: same_tables_def put_instance_names)

lemma same_on_instance [simp]: "same_tables m (snd (on_instance err ext f m))"
  by (simp add: same_tables_def)

lemma same_on_storage [simp]: "same_tables m (snd (on_storage f m))"
  by (simp add: on_storage_def split: sum.split prod.split)

lemma same_on_index [simp]: "same_tables m (snd (on_index ty f m))"
  by (simp add: on_index_def split: sum.split)

lemma same_on_files [simp]: "same_tables m (snd (on_files W f m))"
  by (simp add: on_files_def split: sum.split prod.split)

lemma same_on_callback [simp]: "same_tables m (snd (on_callback u k h f m))"
  by (simp add: on_callback_def split: option.split)

lemma instance_step_same: "instance_step W m m' \<Longrightarrow> same_tables m m'"
proof (induction rule: instance_step.induct)
  case (Storage_Attach m dsn)
  then show ?case
    by (simp add: dispatch_storage_attach_def split: sum.split prod.split option.split)
next
  case (Parse m h q)
  then show ?case by (simp add: dispatch_parse_def split: option.split)
next
  case (Optimize m h q)
  then show ?case by (simp add: dispatch_optimize_def split: option.split sum.split)
next
  case (Aggregate_Call h rows m r m')
  then show ?case by (auto simp: manager_dispatch_aggregate_def same_put split: option.splits)
next
  case (Attached_Scan h m r m')
  then show ?case by (auto simp: native_at5_attach_scan_def same_put split: option.splits)
qed (simp_all add: dispatch_storage_list_tables_def dispatch_storage_table_columns_def
      dispatch_storage_scan_open_def dispatch_storage_scan_next_def dispatch_storage_scan_close_def
      dispatch_storage_serialize_def dispatch_storage_writes_persist_directly_def
      dispatch_storage_begin_transaction_def dispatch_storage_commit_transaction_def
      dispatch_storage_rollback_transaction_def dispatch_storage_create_table_def
      dispatch_storage_insert_rows_def dispatch_storage_delete_rows_def dispatch_storage_update_rows_def
      dispatch_index_create_def dispatch_index_append_def dispatch_index_build_def
      dispatch_index_search_def dispatch_index_drop_def dispatch_file_open_def dispatch_file_read_def
      dispatch_file_close_def dispatch_table_open_filtered_def dispatch_table_next_def
      dispatch_table_close_def manager_dispatch_pragma_def manager_dispatch_cast_def)

end
