(* ===== verification/Manager_Writes.thy ===== *)
theory Manager_Writes
  imports Manager_Dispatch
begin

text \<open>
  Writes to an attached catalog outside a transaction of the user: each runs in a transaction of
  its own, and is one atomic step for a component that keeps transactions as its interface says.
  Also the choice of the storage backend, which does not look at the catalog.
\<close>

section \<open>One write on an instance\<close>

text \<open>The bracket of \<^const>\<open>storage_direct\<close> on the instance alone.\<close>

definition instance_direct ::
  "fmt \<Rightarrow> 'g guest \<Rightarrow> u32 \<Rightarrow> u32 \<Rightarrow> (u32 \<Rightarrow> 'g \<Rightarrow> (duckerror + 'a) \<times> 'g) \<Rightarrow> 'g \<Rightarrow>
     (duckerror + 'a) \<times> 'g" where
  "instance_direct fm call h catalog body g =
     (case storage_begin_transaction fm call h catalog g of
        (Inl e, g1) \<Rightarrow> (Inl e, g1)
      | (Inr txn, g1) \<Rightarrow>
          (case body txn g1 of
             (Inr n, g2) \<Rightarrow>
               (case storage_commit_transaction fm call h txn g2 of
                  (Inl e, g3) \<Rightarrow> (Inl e, g3)
                | (Inr _, g3) \<Rightarrow> (Inr n, g3))
           | (Inl err, g2) \<Rightarrow> (Inl err, snd (storage_rollback_transaction fm call h txn g2))))"

lemma resolve_storage_put [simp]:
  "resolve_storage_backend (put_instance ext g m) = resolve_storage_backend m"
  by (simp only: resolve_storage_backend_def put_instance_tables)

lemma on_storage_running:
  assumes "resolve_storage_backend m = Inr (ext, h)" "running m ext = Some g"
  shows "on_storage f m = apsnd (\<lambda>g. put_instance ext g m) (f ext h g)"
  using assms by (simp add: on_storage_def on_instance_running)

lemma on_storage_again:
  assumes "resolve_storage_backend m = Inr (ext, h)"
  shows "on_storage f (put_instance ext g m) = apsnd (\<lambda>g. put_instance ext g m) (f ext h g)"
  using on_storage_running [of "put_instance ext g m" ext h g f] assms by simp

lemma storage_direct_instance:
  assumes "resolve_storage_backend m = Inr (ext, h)" "running m ext = Some g"
  shows "storage_direct W catalog (\<lambda>txn. on_storage (\<lambda>ext h. body ext h txn)) m
    = apsnd (\<lambda>g. put_instance ext g m)
        (instance_direct (w_fmt W) (w_guest W ext) h catalog (body ext h) g)"
  unfolding storage_direct_def instance_direct_def dispatch_storage_begin_transaction_def
    dispatch_storage_commit_transaction_def dispatch_storage_rollback_transaction_def
    on_storage_running [OF assms]
  by (simp add: on_storage_again [OF assms(1)] apsnd_def split: prod.split sum.split)

section \<open>Calls and their replies\<close>

definition acknowledged :: "string + wvalue list \<Rightarrow> bool" where
  "acknowledged r \<longleftrightarrow> (\<exists>p. r = Inr [V_Result (Inr p)])"

lemma dispatch_called:
  assumes "dispatch fm call iface meth label args lift g = (r, g')"
  shows "\<exists>rr. call g (iface @ ''#'' @ meth) args = (rr, g') \<and> (\<forall>n. r = Inr n \<longrightarrow> acknowledged rr)"
proof -
  obtain rr where c: "call g (iface @ ''#'' @ meth) args = (rr, g')"
    using assms by (auto simp: dispatch_def call_bridge_export_def split: prod.splits sum.splits)
  moreover have "acknowledged rr" if "r = Inr n" for n
    using assms c unfolding that dispatch_Inr_iff by (auto simp: acknowledged_def)
  ultimately show ?thesis by blast
qed

lemma begin_called:
  assumes "storage_begin_transaction fm call h catalog g = (r, g')"
  shows "\<exists>rr. call g (write_export ''begin-transaction'') [V_U32 h, V_U32 catalog] = (rr, g')
    \<and> (\<forall>t. r = Inr t \<longleftrightarrow> rr = Inr [V_Result (Inr (Some (V_U32 t)))])"
proof -
  obtain rr where c: "call g (write_export ''begin-transaction'') [V_U32 h, V_U32 catalog] = (rr, g')"
    using dispatch_called [OF assms [unfolded storage_begin_transaction_def]] by (auto simp: write_export_def)
  have "r = Inr t \<longleftrightarrow> rr = Inr [V_Result (Inr (Some (V_U32 t)))]" for t
    using dispatch_Inr_iff [of fm call "interface ''storage-write-dispatch''" "''begin-transaction''" _
        "[V_U32 h, V_U32 catalog]" "lift_u32 fm" g t g'] assms c
    by (auto simp: storage_begin_transaction_def write_export_def lift_u32_Inr)
  with c show ?thesis by blast
qed

lemma end_called:
  assumes "dispatch fm call (interface ''storage-write-dispatch'') meth label [V_U32 h, V_U32 t] unit_ok g = (r, g')"
  shows "\<exists>rr. call g (write_export meth) [V_U32 h, V_U32 t] = (rr, g') \<and> (r = Inr () \<longleftrightarrow> acknowledged rr)"
proof -
  obtain rr where c: "call g (write_export meth) [V_U32 h, V_U32 t] = (rr, g')"
    using dispatch_called [OF assms] by (auto simp: write_export_def)
  have "r = Inr () \<longleftrightarrow> acknowledged rr"
    using dispatch_Inr_iff [of fm call "interface ''storage-write-dispatch''" meth label "[V_U32 h, V_U32 t]" unit_ok g "()" g']
      assms c by (auto simp: write_export_def acknowledged_def unit_ok_def)
  with c show ?thesis by blast
qed

section \<open>All or nothing\<close>

text \<open>
  What a component that keeps transactions promises: \<open>saved\<close> is the data that others see, \<open>pending\<close>
  the working copies of the open transactions, and \<open>apply\<close> what a write means. Beginning takes a
  copy; a write touches its copy only, and when it is not acknowledged the copy may hold anything;
  an acknowledged rollback drops the copy, an acknowledged commit makes it the data.
\<close>

definition write_methods :: "string set" where
  "write_methods = {''insert-rows'', ''update-rows'', ''delete-rows'', ''create-table''}"

definition keeps_transactions ::
  "'g guest \<Rightarrow> u32 \<Rightarrow> ('g \<Rightarrow> 'd) \<Rightarrow> ('g \<Rightarrow> u32 \<Rightarrow> 'd option) \<Rightarrow> (string \<Rightarrow> wvalue list \<Rightarrow> 'd \<Rightarrow> 'd) \<Rightarrow> bool" where
  "keeps_transactions call h saved pending apply \<longleftrightarrow>
     (\<forall>g c r g'. call g (write_export ''begin-transaction'') [V_U32 h, V_U32 c] = (r, g') \<longrightarrow>
        saved g' = saved g
        \<and> (\<forall>t. r = Inr [V_Result (Inr (Some (V_U32 t)))] \<longrightarrow>
             pending g t = None \<and> pending g' = (pending g)(t := Some (saved g)))
        \<and> ((\<forall>t. r \<noteq> Inr [V_Result (Inr (Some (V_U32 t)))]) \<longrightarrow> pending g' = pending g))
   \<and> (\<forall>g t d meth args r g'. meth \<in> write_methods \<longrightarrow> pending g t = Some d \<longrightarrow>
        call g (write_export meth) (V_U32 h # V_U32 t # args) = (r, g') \<longrightarrow>
        saved g' = saved g
        \<and> (\<exists>d'. pending g' = (pending g)(t := Some d') \<and> (acknowledged r \<longrightarrow> d' = apply meth args d)))
   \<and> (\<forall>g t d r g'. pending g t = Some d \<longrightarrow> call g (write_export ''rollback-transaction'') [V_U32 h, V_U32 t] = (r, g') \<longrightarrow>
        saved g' = saved g \<and> (acknowledged r \<longrightarrow> pending g' = (pending g)(t := None)))
   \<and> (\<forall>g t d r g'. pending g t = Some d \<longrightarrow> call g (write_export ''commit-transaction'') [V_U32 h, V_U32 t] = (r, g') \<longrightarrow>
        (if acknowledged r then saved g' = d \<and> pending g' = (pending g)(t := None) else saved g' = saved g))"

text \<open>
  The write as one step: done and nothing left open, or nothing changed; then a transaction is left
  open only if the component refused to end it.
\<close>

definition one_step ::
  "'g guest \<Rightarrow> u32 \<Rightarrow> ('g \<Rightarrow> 'd) \<Rightarrow> ('g \<Rightarrow> u32 \<Rightarrow> 'd option) \<Rightarrow> ('d \<Rightarrow> 'd) \<Rightarrow> 'g \<Rightarrow> duckerror + 'a \<Rightarrow> 'g \<Rightarrow> bool" where
  "one_step call h saved pending write g r g' \<longleftrightarrow>
     (case r of
        Inr _ \<Rightarrow> saved g' = write (saved g) \<and> pending g' = pending g
      | Inl _ \<Rightarrow> saved g' = saved g
          \<and> (pending g' = pending g
             \<or> (\<exists>t meth g2 rr. meth \<in> {''rollback-transaction'', ''commit-transaction''}
                  \<and> call g2 (write_export meth) [V_U32 h, V_U32 t] = (rr, g') \<and> \<not> acknowledged rr)))"

lemma instance_direct_step:
  assumes contract: "keeps_transactions call h saved pending apply"
    and body: "\<And>txn g1 r g2. body txn g1 = (r, g2) \<Longrightarrow>
      \<exists>rr. call g1 (write_export meth) (V_U32 h # V_U32 txn # args) = (rr, g2) \<and> (\<forall>n. r = Inr n \<longrightarrow> acknowledged rr)"
    and meth: "meth \<in> write_methods"
    and run: "instance_direct fm call h catalog body g = (r, g')"
  shows "one_step call h saved pending (apply meth args) g r g'"
proof -
  note laws = contract [unfolded keeps_transactions_def]
  obtain a g1 where b: "storage_begin_transaction fm call h catalog g = (a, g1)" by (rule prod.exhaust)
  obtain rb where rb: "call g (write_export ''begin-transaction'') [V_U32 h, V_U32 catalog] = (rb, g1)"
    "\<And>t. a = Inr t \<longleftrightarrow> rb = Inr [V_Result (Inr (Some (V_U32 t)))]"
    using begin_called [OF b] by blast
  note begun = laws [THEN conjunct1, rule_format, OF rb(1)]
  show ?thesis
  proof (cases a)
    case (Inl e)
    then have "\<forall>t. rb \<noteq> Inr [V_Result (Inr (Some (V_U32 t)))]" using rb(2) by force
    then show ?thesis using run b Inl begun by (auto simp: instance_direct_def one_step_def)
  next
    case txn: (Inr t)
    then have p1: "saved g1 = saved g" "pending g t = None" "pending g1 = (pending g)(t := Some (saved g))"
      using begun rb(2) by auto
    obtain c g2 where d: "body t g1 = (c, g2)" by (rule prod.exhaust)
    obtain rw where rw: "call g1 (write_export meth) (V_U32 h # V_U32 t # args) = (rw, g2)"
      "\<And>n. c = Inr n \<Longrightarrow> acknowledged rw" using body [OF d] by blast
    have "pending g1 t = Some (saved g)" using p1(3) by simp
    from laws [THEN conjunct2, THEN conjunct1, rule_format, OF meth this rw(1)]
    obtain d' where p2: "saved g2 = saved g" "pending g2 = (pending g)(t := Some d')"
      "acknowledged rw \<Longrightarrow> d' = apply meth args (saved g)" using p1 by auto
    have restored: "(pending g)(t := None) = pending g" using p1(2) by auto
    have mine: "pending g2 t = Some d'" using p2(2) by simp
    show ?thesis
    proof (cases c)
      case (Inl e)
      obtain k g3 where roll: "storage_rollback_transaction fm call h t g2 = (k, g3)" by (rule prod.exhaust)
      have rg: "r = Inl e" "g' = g3" using run b d txn Inl roll by (simp_all add: instance_direct_def)
      obtain rr where rr: "call g2 (write_export ''rollback-transaction'') [V_U32 h, V_U32 t] = (rr, g3)"
        using end_called [OF roll [unfolded storage_rollback_transaction_def]] by blast
      have "saved g3 = saved g" "acknowledged rr \<Longrightarrow> pending g3 = pending g"
        using laws [THEN conjunct2, THEN conjunct2, THEN conjunct1, rule_format, OF mine rr] p2(1,2) restored by auto
      then show ?thesis using rg rr by (auto simp: one_step_def)
    next
      case n: (Inr n)
      obtain k g3 where com: "storage_commit_transaction fm call h t g2 = (k, g3)" by (rule prod.exhaust)
      obtain rr where rr: "call g2 (write_export ''commit-transaction'') [V_U32 h, V_U32 t] = (rr, g3)"
        "k = Inr () \<longleftrightarrow> acknowledged rr"
        using end_called [OF com [unfolded storage_commit_transaction_def]] by blast
      note fin = laws [THEN conjunct2, THEN conjunct2, THEN conjunct2, rule_format, OF mine rr(1)]
      show ?thesis
      proof (cases k)
        case (Inl err)
        then have "\<not> acknowledged rr" using rr(2) by auto
        moreover have "r = Inl err" "g' = g3" using run b d txn n com Inl by (simp_all add: instance_direct_def)
        ultimately show ?thesis using fin rr(1) p2(1) by (auto simp: one_step_def)
      next
        case (Inr u)
        have "r = Inr n" "g' = g3" using run b d txn n com Inr by (simp_all add: instance_direct_def)
        then show ?thesis
          using Inr rr(2) fin p2 restored rw(2) [OF n] by (simp add: one_step_def)
      qed
    qed
  qed
qed

text \<open>
  C19. A direct write refines one atomic step of the backend: for a component that keeps transactions
  as its interface says, an insert, update, delete or create that succeeds has changed the saved
  data by exactly that write and has left no transaction open; one that reports an error has left
  the saved data as it was, in whichever of its calls it failed and whatever the failed write did
  to its working copy, and its transaction is gone unless the component itself refused the rollback
  or the commit. No other extension and no table of the manager is touched.
\<close>

theorem direct_write_atomic:
  assumes "resolve_storage_backend m = Inr (ext, h)" "running m ext = Some g"
    and "keeps_transactions (w_guest W ext) h saved pending apply"
  shows "(\<exists>r g'. dispatch_storage_insert_direct W catalog table rows m = (r, put_instance ext g' m)
        \<and> one_step (w_guest W ext) h saved pending
            (apply ''insert-rows'' [V_String table, rows_to_value rows]) g r g')
    \<and> (\<exists>r g'. dispatch_storage_update_direct W catalog table rowids rows m = (r, put_instance ext g' m)
        \<and> one_step (w_guest W ext) h saved pending
            (apply ''update-rows'' [V_String table, s64_list_to_value rowids, rows_to_value rows]) g r g')
    \<and> (\<exists>r g'. dispatch_storage_delete_direct W catalog table rowids m = (r, put_instance ext g' m)
        \<and> one_step (w_guest W ext) h saved pending
            (apply ''delete-rows'' [V_String table, s64_list_to_value rowids]) g r g')
    \<and> (\<exists>r g'. dispatch_storage_create_table_direct W catalog table cols m = (r, put_instance ext g' m)
        \<and> one_step (w_guest W ext) h saved pending
            (apply ''create-table'' [V_String table, columndef_list_to_value cols]) g r g')"
proof -
  have one: "\<exists>r g'. storage_direct W catalog (\<lambda>txn. on_storage (\<lambda>ext h. body ext h txn)) m
        = (r, put_instance ext g' m)
      \<and> one_step (w_guest W ext) h saved pending (apply meth args) g r g'"
    if q: "\<And>txn g1. body ext h txn g1 = dispatch (w_fmt W) (w_guest W ext) (interface ''storage-write-dispatch'') meth
        label (V_U32 h # V_U32 txn # args) lift g1" and meth: "meth \<in> write_methods"
    for body :: "string \<Rightarrow> u32 \<Rightarrow> u32 \<Rightarrow> 'a running \<Rightarrow> (duckerror + 'c) \<times> 'a running" and meth args label lift
  proof -
    obtain r g' where run: "instance_direct (w_fmt W) (w_guest W ext) h catalog (body ext h) g = (r, g')"
      by (rule prod.exhaust)
    have "one_step (w_guest W ext) h saved pending (apply meth args) g r g'"
      by (rule instance_direct_step [OF assms(3) _ meth run])
        (use dispatch_called in \<open>fastforce simp: q write_export_def\<close>)
    with storage_direct_instance [OF assms(1,2)] run show ?thesis by (metis apsnd_conv)
  qed
  note defs = dispatch_storage_insert_rows_def dispatch_storage_update_rows_def
    dispatch_storage_delete_rows_def dispatch_storage_create_table_def
  show ?thesis
    unfolding dispatch_storage_insert_direct_def dispatch_storage_update_direct_def
      dispatch_storage_delete_direct_def dispatch_storage_create_table_direct_def defs
    by (intro conjI; rule one)
      (simp_all add: storage_insert_rows_def storage_update_rows_def storage_delete_rows_def
        storage_create_table_def write_methods_def)
qed

text \<open>
  A component for the witness: a committed number and a pending one; inserting fails half way.
\<close>

definition demo_guest :: "(nat \<times> nat) running guest" where
  "demo_guest g name args =
     (case g of ((c, p), s, reg) \<Rightarrow>
        if name = write_export ''commit-transaction'' then (Inr [V_Result (Inr None)], ((c + p, 0), s, reg))
        else if name = interface ''storage-write-dispatch'' @ ''#begin-transaction''
        then (Inr [V_Result (Inr (Some (V_U32 7)))], ((c, 0), s, reg))
        else if name = interface ''storage-write-dispatch'' @ ''#insert-rows''
        then (Inr [V_Result (Inl (Some (duckerror_to_value (Io ''full''))))], ((c, 5), s, reg))
        else (Inr [V_Result (Inr None)], ((c, 0), s, reg)))"

definition demo_world :: "(nat \<times> nat) world" where
  "demo_world =
     \<lparr>w_fmt = plain_fmt, w_guest = (\<lambda>_. demo_guest), w_load = (\<lambda>_ _ reg. (Inl ''none'', reg)),
      w_exists = (\<lambda>_. False), w_attach_file = (\<lambda>_. None), w_entry = (\<lambda>_. None),
      w_digest = (\<lambda>_. None), w_components = [], w_root = ''/'', w_bridge = (\<lambda>_. None),
      w_materialize = (\<lambda>_. Inl ''none''), w_order = (\<lambda>_. ([], [], [])), w_plan = (\<lambda>_. Inr [])\<rparr>"

definition demo_manager :: "(nat \<times> nat) manager" where
  "demo_manager = (new_manager None None)
     \<lparr>m_extensions := [(''db'', (3, 0), new_ext_state ''db'')],
      m_storage_backends := [(''sqlitewasm'', ''db'', 9)]\<rparr>"

text \<open>
  A component that keeps transactions, for the witness: a saved number and the copy of transaction 7.
  An insert adds five to the copy; a create damages it and reports that the disk is full.
\<close>

definition demo_store :: "(nat \<times> nat option) running guest" where
  "demo_store g name args =
     (case g of ((c, p), s, reg) \<Rightarrow>
        if name = write_export ''begin-transaction'' then
          (if p = None then (Inr [V_Result (Inr (Some (V_U32 7)))], ((c, Some c), s, reg)) else (Inl ''busy'', g))
        else if p = None \<or> length args < 2 \<or> args ! 1 \<noteq> V_U32 7 then (Inl ''no transaction'', g)
        else if name = write_export ''commit-transaction'' then (Inr [V_Result (Inr None)], ((the p, None), s, reg))
        else if name = write_export ''rollback-transaction'' then (Inr [V_Result (Inr None)], ((c, None), s, reg))
        else if name = write_export ''create-table''
        then (Inr [V_Result (Inl (Some (duckerror_to_value (Io ''full''))))], ((c, Some 99), s, reg))
        else if name = write_export ''insert-rows''
        then (Inr [V_Result (Inr (Some (V_U64 1)))], ((c, Some (the p + 5)), s, reg))
        else (Inr [V_Result (Inr (Some (V_U64 0)))], g))"

definition demo_saved :: "(nat \<times> nat option) running \<Rightarrow> nat" where
  "demo_saved = (\<lambda>((c, p), s, reg). c)"

definition demo_open :: "(nat \<times> nat option) running \<Rightarrow> u32 \<Rightarrow> nat option" where
  "demo_open = (\<lambda>((c, p), s, reg) t. if t = 7 then p else None)"

lemma demo_store_state [simp]:
  "demo_saved ((c, p), s, reg) = c" "demo_open ((c, p), s, reg) 7 = p"
  by (simp_all add: demo_saved_def demo_open_def)

definition demo_apply :: "string \<Rightarrow> wvalue list \<Rightarrow> nat \<Rightarrow> nat" where
  "demo_apply meth args d = (if meth = ''insert-rows'' then d + 5 else d)"

definition store_world :: "(nat \<times> nat option) world" where
  "store_world =
     \<lparr>w_fmt = plain_fmt, w_guest = (\<lambda>_. demo_store), w_load = (\<lambda>_ _ reg. (Inl ''none'', reg)),
      w_exists = (\<lambda>_. False), w_attach_file = (\<lambda>_. None), w_entry = (\<lambda>_. None),
      w_digest = (\<lambda>_. None), w_components = [], w_root = ''/'', w_bridge = (\<lambda>_. None),
      w_materialize = (\<lambda>_. Inl ''none''), w_order = (\<lambda>_. ([], [], [])), w_plan = (\<lambda>_. Inr [])\<rparr>"

definition store_manager :: "(nat \<times> nat option) manager" where
  "store_manager = (new_manager None None)
     \<lparr>m_extensions := [(''db'', (3, None), new_ext_state ''db'')],
      m_storage_backends := [(''sqlitewasm'', ''db'', 9)]\<rparr>"

lemma store_keeps:
  "keeps_transactions demo_store 9 demo_saved demo_open demo_apply"
  unfolding keeps_transactions_def
  by (intro conjI allI impI; clarsimp simp: demo_store_def write_export_def write_methods_def acknowledged_def fun_eq_iff demo_apply_def
      demo_saved_def demo_open_def
      split: if_splits; force)

theorem direct_write_atomic_witness:
  "(\<exists>g'. dispatch_storage_insert_direct store_world 1 ''t'' [[D_Int64 1]] store_manager
         = (Inr 1, put_instance ''db'' g' store_manager) \<and> demo_saved g' = 8 \<and> demo_open g' 7 = None)
    \<and> (\<exists>e g'. dispatch_storage_create_table_direct store_world 1 ''t'' [] store_manager
         = (Inl e, put_instance ''db'' g' store_manager) \<and> demo_saved g' = 3)"
proof -
  have b: "resolve_storage_backend store_manager = Inr (''db'', 9)"
    by (simp add: resolve_storage_backend_def store_manager_def)
  have g: "running store_manager ''db'' = Some ((3, None), new_ext_state ''db'', new_registry)"
    by (simp add: running_def store_manager_def new_manager_def)
  have w: "w_guest store_world ''db'' = demo_store" by (simp add: store_world_def)
  have i: "fst (dispatch_storage_insert_direct store_world 1 ''t'' [[D_Int64 1]] store_manager) = Inr 1" by code_simp
  have c: "map_sum (\<lambda>e. ()) (\<lambda>u. u) (fst (dispatch_storage_create_table_direct store_world 1 ''t'' [] store_manager)) = Inl ()"
    by code_simp
  then obtain e where e: "fst (dispatch_storage_create_table_direct store_world 1 ''t'' [] store_manager) = Inl e"
    by (cases "fst (dispatch_storage_create_table_direct store_world 1 ''t'' [] store_manager)") simp_all
  note t = direct_write_atomic [OF b g, of store_world, unfolded w, OF store_keeps, where table = "''t''" and catalog = 1]
  show ?thesis
  proof
    from t [THEN conjunct1, of "[[D_Int64 1]]"] i
    obtain g' where "dispatch_storage_insert_direct store_world 1 ''t'' [[D_Int64 1]] store_manager
        = (Inr 1, put_instance ''db'' g' store_manager)" "demo_saved g' = 8"
      "demo_open g' = demo_open ((3, None), new_ext_state ''db'', new_registry)"
      by (auto simp: one_step_def demo_apply_def)
    then
    show "\<exists>g'. dispatch_storage_insert_direct store_world 1 ''t'' [[D_Int64 1]] store_manager
         = (Inr 1, put_instance ''db'' g' store_manager) \<and> demo_saved g' = 8 \<and> demo_open g' 7 = None"
      by (metis demo_store_state(2))
    from t [THEN conjunct2, THEN conjunct2, THEN conjunct2, of "[]"] e
    obtain g' where "dispatch_storage_create_table_direct store_world 1 ''t'' [] store_manager
        = (Inl e, put_instance ''db'' g' store_manager)" "demo_saved g' = 3"
      by (auto simp: one_step_def)
    then
    show "\<exists>e g'. dispatch_storage_create_table_direct store_world 1 ''t'' [] store_manager
         = (Inl e, put_instance ''db'' g' store_manager) \<and> demo_saved g' = 3"
      by blast
  qed
qed

section \<open>The choice of the backend\<close>

text \<open>
  The backend is chosen without a look at the catalog: with one registered for the preferred
  type, calls on every catalog go to it, and for several names of one extension the choice
  depends on the order of the map.
\<close>

lemma preferred_backend_always:
  "map_of (m_storage_backends m) ''sqlitewasm'' = Some b \<Longrightarrow> resolve_storage_backend m = Inr b"
  by (simp add: resolve_storage_backend_def)

lemma backend_choice_order:
  "resolve_storage_backend (demo_manager\<lparr>m_storage_backends := [(''mysql'', ''my'', 1), (''mysqlwasm'', ''my'', 2)]\<rparr>)
     = Inr (''my'', 1)"
  "resolve_storage_backend (demo_manager\<lparr>m_storage_backends := [(''mysqlwasm'', ''my'', 2), (''mysql'', ''my'', 1)]\<rparr>)
     = Inr (''my'', 2)"
  by (simp_all add: resolve_storage_backend_def)

end
