(* ===== verification/Manager_Drain.thy ===== *)
theory Manager_Drain
  imports Manager_Load Manager_Writes Capture
begin

text \<open>
  What components register reaches the core exactly once: the drain hands over what the deferred
  buffer and the instances hold, and leaves nothing; \<open>ducklink_load\<close> only moves registrations from
  an instance to the deferred buffer. The locale is one kind of registration with its buffer; it
  is interpreted for scalars, tables and aggregates.
\<close>

section \<open>One kind of registration\<close>

text \<open>The iteration order of the hash maps of an instance lists each open registry once.\<close>

definition lists_registries :: "u32 list \<times> u32 list \<times> u32 list \<Rightarrow> ext_state \<Rightarrow> bool" where
  "lists_registries ord s \<longleftrightarrow>
     (case ord of (ks, kt, ka) \<Rightarrow>
        distinct ks \<and> set ks = dom (scalar_registries s)
        \<and> distinct kt \<and> set kt = dom (table_registries s)
        \<and> distinct ka \<and> set ka = dom (aggregate_registries s))"

definition drain_with ::
  "u32 list \<times> u32 list \<times> u32 list \<Rightarrow> ext_state \<Rightarrow> pending_registrations \<times> ext_state" where
  "drain_with ord s = (case ord of (ks, kt, ka) \<Rightarrow> drain_pending ks kt ka s)"

text \<open>What the deferred buffer and the instances hold.\<close>

definition held ::
  "(pending_registrations \<Rightarrow> 'r list) \<Rightarrow> (ext_state \<Rightarrow> 'r multiset) \<Rightarrow> 'm manager \<Rightarrow> 'r multiset" where
  "held drained has m =
     mset (drained (m_deferred m)) + (\<Sum>(name, w, s) \<leftarrow> m_extensions m. has s)"

definition orders_ok :: "'m world \<Rightarrow> (string \<times> 'm inst) list \<Rightarrow> bool" where
  "orders_ok W es \<longleftrightarrow> list_all (\<lambda>(name, w, s). lists_registries (w_order W s) s) es"

locale delivery =
  fixes drained :: "pending_registrations \<Rightarrow> 'r list"
    and has :: "ext_state \<Rightarrow> 'r multiset"
  assumes appended: "drained (append_registrations a b) = drained a @ drained b"
    and nothing: "drained no_registrations = []"
    and delivers: "lists_registries ord s \<Longrightarrow> mset (drained (fst (drain_with ord s))) = has s"
    and empties: "has (snd (drain_with ord s)) = {#}"
begin

lemma instances_deliver:
  "orders_ok W es \<Longrightarrow> drain_instances (w_order W) es agg = (agg', es') \<Longrightarrow>
     mset (drained agg') = mset (drained agg) + (\<Sum>(name, w, s) \<leftarrow> es. has s)
     \<and> (\<Sum>(name, w, s) \<leftarrow> es'. has s) = {#}"
proof (induction es arbitrary: agg agg' es')
  case (Cons e es)
  obtain name w s where e: "e = (name, w, s)" by (cases e)
  obtain p s' where d: "drain_with (w_order W s) s = (p, s')" by force
  obtain es'' where r: "drain_instances (w_order W) es (append_registrations agg p) = (agg', es'')"
    "es' = (name, w, s') # es''"
    using Cons.prems(2) d e by (auto simp: drain_with_def split: prod.splits)
  have "mset (drained p) = has s" "has s' = {#}"
    using delivers [of "w_order W s" s] empties [of "w_order W s" s] Cons.prems(1) d e
    by (simp_all add: orders_ok_def)
  moreover have "orders_ok W es" using Cons.prems(1) by (simp add: orders_ok_def)
  from Cons.IH [OF this r(1)] have
    "mset (drained agg') = mset (drained (append_registrations agg p)) + (\<Sum>(name, w, s) \<leftarrow> es. has s)"
    "(\<Sum>(name, w, s) \<leftarrow> es''. has s) = {#}" by blast+
  ultimately show ?case using e r(2) by (simp add: appended)
qed simp

lemma update_held:
  "map_of es k = Some (w, s) \<Longrightarrow>
     (\<Sum>(name, w, s) \<leftarrow> AList.update k (w', s') es. has s) + has s
       = (\<Sum>(name, w, s) \<leftarrow> es. has s) + has s'"
  by (induction es) (auto simp: ac_simps)

text \<open>Moving what one instance holds to the deferred buffer.\<close>

lemma defer_held:
  assumes "map_of (m_extensions m) k = Some (w, s)" "lists_registries ord s"
    "drain_with ord s = (p, s')"
  shows "held drained has (m\<lparr>m_extensions := AList.update k (w, s') (m_extensions m),
      m_deferred := append_registrations (m_deferred m) p\<rparr>) = held drained has m"
proof -
  have "mset (drained p) = has s" "has s' = {#}"
    using delivers [OF assms(2)] empties [of ord s] assms(3) by simp_all
  then show ?thesis
    using update_held [OF assms(1), of w s'] by (simp add: held_def appended ac_simps)
qed

end

definition has_scalars :: "ext_state \<Rightarrow> scalar_reg multiset" where
  "has_scalars s = captured (pending_scalars s) (scalar_registries s)"

definition has_tables :: "ext_state \<Rightarrow> table_reg multiset" where
  "has_tables s = captured (pending_tables s) (table_registries s)"

definition has_aggregates :: "ext_state \<Rightarrow> aggregate_reg multiset" where
  "has_aggregates s = captured (pending_aggregates s) (aggregate_registries s)"

lemma drain_pending_empties:
  "pending_scalars (snd (drain_pending ks kt ka s)) = []"
  "pending_tables (snd (drain_pending ks kt ka s)) = []"
  "pending_aggregates (snd (drain_pending ks kt ka s)) = []"
  by (simp_all add: drain_pending_def take_pending_defs Let_def)

lemmas delivery_defs = append_registrations_def no_registrations_def lists_registries_def
  drain_with_def has_scalars_def has_tables_def has_aggregates_def

interpretation scalar_delivery: delivery pr_scalars has_scalars
  by unfold_locales
    (auto simp: delivery_defs drain_pending_simps drain_entries_mset [unfolded mset_append] drain_pending_empties
      split: prod.splits)

interpretation table_delivery: delivery pr_tables has_tables
  by unfold_locales
    (auto simp: delivery_defs drain_pending_simps drain_entries_mset [unfolded mset_append] drain_pending_empties
      split: prod.splits)

interpretation aggregate_delivery: delivery pr_aggregates has_aggregates
  by unfold_locales
    (auto simp: delivery_defs drain_pending_simps drain_entries_mset [unfolded mset_append] drain_pending_empties
      split: prod.splits)

section \<open>Exactly once\<close>

definition undelivered ::
  "'m manager \<Rightarrow> scalar_reg multiset \<times> table_reg multiset \<times> aggregate_reg multiset" where
  "undelivered m =
     (held pr_scalars has_scalars m, held pr_tables has_tables m, held pr_aggregates has_aggregates m)"

text \<open>The native functions that a drain adds the first time.\<close>

definition native_scalars :: "'m manager \<Rightarrow> scalar_reg multiset" where
  "native_scalars m = (if m_injected_prefix m then {#} else {#prefix_scalar#})"

definition native_tables :: "'m manager \<Rightarrow> table_reg multiset" where
  "native_tables m = (if m_injected_load m then {#} else {#load_table#})
     + (if m_injected_prefix m then {#} else {#prefix_table#})"

text \<open>
  C18. A drain delivers every captured scalar, table and aggregate exactly once, those that
  \<open>ducklink_load\<close> put aside included, and the native functions the first time only: what it hands
  over is what was held, as a multiset, and afterwards nothing is held and nothing native is due.
  The other kinds of registration are not the subject. \<open>orders_ok\<close> says that the iteration of each
  hash map lists its keys, each once.
\<close>

theorem drain_exactly_once:
  assumes "orders_ok W (m_extensions m)"
    and "drain_pending_registrations W m = (p, m')"
  shows "(mset (pr_scalars p), mset (pr_tables p), mset (pr_aggregates p))
      = (fst (undelivered m) + native_scalars m,
         fst (snd (undelivered m)) + native_tables m, snd (snd (undelivered m)))
    \<and> undelivered m' = ({#}, {#}, {#}) \<and> native_scalars m' = {#} \<and> native_tables m' = {#}"
proof -
  obtain agg es where d: "drain_instances (w_order W) (m_extensions m)
      (append_registrations no_registrations (m_deferred m)) = (agg, es)" by force
  note s = scalar_delivery.instances_deliver [OF assms(1) d]
    and t = table_delivery.instances_deliver [OF assms(1) d]
    and a = aggregate_delivery.instances_deliver [OF assms(1) d]
  have p: "pr_scalars p = pr_scalars agg @ (if m_injected_prefix m then [] else [prefix_scalar])"
    "mset (pr_tables p) = mset (pr_tables agg) + native_tables m"
    "pr_aggregates p = pr_aggregates agg"
    using assms(2) d
    by (cases "m_injected_load m"; cases "m_injected_prefix m";
        auto simp: drain_pending_registrations_def native_tables_def Let_def)+
  have m': "m_deferred m' = no_registrations" "m_extensions m' = es" "m_injected_load m'"
    "m_injected_prefix m'"
    using assms(2) d
    by (cases "m_injected_load m"; cases "m_injected_prefix m";
        auto simp: drain_pending_registrations_def Let_def)+
  show ?thesis
    using s t a
    by (simp add: p m' undelivered_def held_def native_scalars_def native_tables_def
        scalar_delivery.appended table_delivery.appended aggregate_delivery.appended
        scalar_delivery.nothing table_delivery.nothing aggregate_delivery.nothing)
qed

definition demo_scalar :: scalar_reg where
  "demo_scalar = prefix_scalar\<lparr>scalar_name := ''double'', scalar_callback := 3\<rparr>"

definition demo_pending :: "(nat \<times> nat) manager" where
  "demo_pending = (new_manager None None)
     \<lparr>m_extensions := [(''db'', (3, 0), (new_ext_state ''db'')\<lparr>pending_scalars := [demo_scalar]\<rparr>)]\<rparr>"

lemma demo_orders:
  "orders_ok demo_world (m_extensions demo_pending)"
  by (simp add: orders_ok_def demo_pending_def demo_world_def lists_registries_def new_ext_state_def)

theorem drain_exactly_once_witness:
  "mset (pr_scalars (fst (drain_pending_registrations demo_world demo_pending)))
     = {#demo_scalar, prefix_scalar#}
   \<and> undelivered (snd (drain_pending_registrations demo_world demo_pending)) = ({#}, {#}, {#})"
proof -
  have "fst (undelivered demo_pending) = {#demo_scalar#}" "native_scalars demo_pending = {#prefix_scalar#}"
    by (simp_all add: undelivered_def held_def has_scalars_def demo_pending_def new_manager_def
        no_registrations_def captured_def new_ext_state_def native_scalars_def)
  then show ?thesis
    using drain_exactly_once [OF demo_orders prod.collapse [symmetric]] by simp
qed

text \<open>
  C11. \<open>ducklink_load\<close> loses and duplicates no scalar, table or aggregate function: when the extension
  is loaded (or gets loaded), the call reports how many of each it took over from the instance, which
  holds none afterwards, puts them aside for the next drain, which therefore owes exactly what it
  owed before, and queues the name for the load statement that triggers the drain.
\<close>

theorem ducklink_load_defers:
  assumes "s = sanitize_extension_name name"
    and "ensure_extension_loaded W s m = (Inr True, m1)"
    and "map_of (m_extensions m1) s = Some (w, st)" "lists_registries (w_order W st) st"
  shows "\<exists>m'. native_ducklink_load W [D_Text name] m
        = (Inr [[D_Text s, D_Null, D_Int64 (of_nat (size (has_scalars st))),
                 D_Int64 (of_nat (size (has_tables st))), D_Int64 (of_nat (size (has_aggregates st)))]],
           m')
      \<and> undelivered m' = undelivered m1 \<and> s \<in> set (m_deferred_names m')
      \<and> (\<exists>st'. map_of (m_extensions m') s = Some (w, st') \<and> has_scalars st' = {#}
            \<and> has_tables st' = {#} \<and> has_aggregates st' = {#})"
proof -
  obtain p st' where d: "drain_with (w_order W st) st = (p, st')" by force
  let ?m2 = "m1\<lparr>m_extensions := AList.update s (w, st') (m_extensions m1),
                m_deferred := append_registrations (m_deferred m1) p\<rparr>"
  let ?m3 = "if s \<in> set (m_deferred_names ?m2) then ?m2
             else ?m2\<lparr>m_deferred_names := m_deferred_names ?m2 @ [s]\<rparr>"
  have counts: "size (has_scalars st) = length (pr_scalars p)" "size (has_tables st) = length (pr_tables p)"
    "size (has_aggregates st) = length (pr_aggregates p)"
    using scalar_delivery.delivers [OF assms(4)] table_delivery.delivers [OF assms(4)]
      aggregate_delivery.delivers [OF assms(4)] d by (metis fst_conv size_mset)+
  have run: "native_ducklink_load W [D_Text name] m
      = (Inr [[D_Text s, D_Null, D_Int64 (of_nat (length (pr_scalars p))),
               D_Int64 (of_nat (length (pr_tables p))), D_Int64 (of_nat (length (pr_aggregates p)))]], ?m3)"
    using assms(2,3) d
    by (cases "w_order W st")
      (simp add: native_ducklink_load_def text_argument_def load_kind_def assms(1) [symmetric]
        drain_with_def)
  have "undelivered ?m2 = undelivered m1"
    by (simp only: undelivered_def scalar_delivery.defer_held [OF assms(3,4) d]
        table_delivery.defer_held [OF assms(3,4) d] aggregate_delivery.defer_held [OF assms(3,4) d])
  then have "undelivered ?m3 = undelivered m1" by (simp add: undelivered_def held_def)
  moreover have "map_of (m_extensions ?m3) s = Some (w, st')" by (simp add: update_conv')
  moreover have "has_scalars st' = {#}" "has_tables st' = {#}" "has_aggregates st' = {#}"
    using scalar_delivery.empties [of "w_order W st" st] table_delivery.empties [of "w_order W st" st]
      aggregate_delivery.empties [of "w_order W st" st] d by simp_all
  ultimately show ?thesis unfolding run counts by (intro exI [of _ ?m3]) auto
qed

theorem ducklink_load_defers_witness:
  "\<exists>m'. native_ducklink_load demo_world [D_Text ''db''] demo_pending
      = (Inr [[D_Text ''db'', D_Null, D_Int64 1, D_Int64 0, D_Int64 0]], m')
    \<and> undelivered m' = undelivered demo_pending \<and> ''db'' \<in> set (m_deferred_names m')"
proof -
  let ?st = "(new_ext_state ''db'')\<lparr>pending_scalars := [demo_scalar]\<rparr>"
  have n: "''db'' = sanitize_extension_name ''db''" by code_simp
  have i: "map_of (m_extensions demo_pending) ''db'' = Some ((3, 0), ?st)" by (simp add: demo_pending_def)
  have e: "ensure_extension_loaded demo_world ''db'' demo_pending = (Inr True, demo_pending)"
    using i by (simp add: ensure_extension_loaded_def n [symmetric])
  have l: "lists_registries (w_order demo_world ?st) ?st"
    by (simp add: demo_world_def lists_registries_def new_ext_state_def)
  have "size (has_scalars ?st) = 1" "size (has_tables ?st) = 0" "size (has_aggregates ?st) = 0"
    by (simp_all add: has_scalars_def has_tables_def has_aggregates_def captured_def new_ext_state_def)
  then show ?thesis using ducklink_load_defers [OF n e i l] by auto
qed

end
