(* ===== verification/Manager_Invariant.thy ===== *)
theory Manager_Invariant
  imports Manager_Safety Manager_Drain
begin

text \<open>
  An invariant of every state that the extension manager reaches: its tables have one entry per
  name, the handles for attached tables are in their range, a pending \<open>LOAD\<close> is for a loaded
  extension, and every queued prefix declaration is made of plain identifiers, so that the
  statements built from it later cannot be anything else.
\<close>

section \<open>Names\<close>

lemma sanitize_plain:
  "list_all (\<lambda>b. is_ascii_alnum b \<or> b = CHR ''_'' \<or> b = CHR ''-'') s \<Longrightarrow> s \<noteq> [] \<Longrightarrow>
     sanitize_extension_name s = s"
proof -
  assume a: "list_all (\<lambda>b. is_ascii_alnum b \<or> b = CHR ''_'' \<or> b = CHR ''-'') s" and n: "s \<noteq> []"
  have "concat (map (\<lambda>b. if is_ascii_alnum b \<or> b = CHR ''_'' \<or> b = CHR ''-'' then [b]
      else if is_cont b then [] else ''_'') s) = s"
    using a by (induction s) auto
  then show ?thesis using n by (simp only: sanitize_extension_name_def Let_def if_False)
qed

lemma sanitize_allowed:
  "list_all (\<lambda>b. is_ascii_alnum b \<or> b = CHR ''_'' \<or> b = CHR ''-'') (sanitize_extension_name s)"
  "sanitize_extension_name s \<noteq> []"
  by (auto simp: sanitize_extension_name_def Let_def list_all_iff split: if_splits)

lemma sanitize_idem [simp]: "sanitize_extension_name (sanitize_extension_name s) = sanitize_extension_name s"
  by (rule sanitize_plain) (rule sanitize_allowed)+

section \<open>The invariant\<close>

definition distinct_tables :: "'m manager \<Rightarrow> bool" where
  "distinct_tables m \<longleftrightarrow>
     distinct (map fst (m_storage_backends m)) \<and> distinct (map fst (m_index_backends m))
     \<and> distinct (map fst (m_collations m)) \<and> distinct (map fst (m_pragmas m))
     \<and> distinct (map fst (m_parsers m)) \<and> distinct (map fst (m_optimizers m))"

definition manager_ok :: "'m manager \<Rightarrow> bool" where
  "manager_ok m \<longleftrightarrow>
     distinct (loaded_names m) \<and> (\<forall>n \<in> set (loaded_names m). sanitize_extension_name n = n)
     \<and> distinct_tables m
     \<and> in_range (m_next_at5 m) \<and> (\<forall>h. m_at5_targets m h \<noteq> None \<longrightarrow> in_range h)
     \<and> distinct (m_deferred_names m) \<and> set (m_deferred_names m) \<subseteq> set (loaded_names m)
     \<and> distinct (m_deferred_prefixes m)
     \<and> (\<forall>(a, n) \<in> set (m_deferred_prefixes m). is_safe_prefix_identifier a \<and> is_safe_prefix_identifier n)"

inductive manager_step :: "'m world \<Rightarrow> 'm manager \<Rightarrow> 'm manager \<Rightarrow> bool" for W where
  Instance: "instance_step W m m' \<Longrightarrow> manager_step W m m'"
| Insert_Direct: "manager_step W m (snd (dispatch_storage_insert_direct W c t rows m))"
| Update_Direct: "manager_step W m (snd (dispatch_storage_update_direct W c t ids rows m))"
| Delete_Direct: "manager_step W m (snd (dispatch_storage_delete_direct W c t ids m))"
| Create_Direct: "manager_step W m (snd (dispatch_storage_create_table_direct W c t cs m))"
| Scalar_Call: "manager_step W m (snd (manager_dispatch_scalar W h args ctx m))"
| Scalar_Batch: "manager_dispatch_scalar_batch W h rows ctx m = Some (r, m') \<Longrightarrow> manager_step W m m'"
| Table_Call: "manager_dispatch_table W h args m = Some (r, m') \<Longrightarrow> manager_step W m m'"
| Load: "manager_step W m (snd (ensure_extension_loaded W name m))"
| Drain: "manager_step W m (snd (drain_pending_registrations W m))"
| Register_Scan: "register_at5_scan ext sh ch t m = Some (h, m') \<Longrightarrow> manager_step W m m'"
| Attach_Core: "manager_step W m (attach_core m)"
| Attach_Sibling: "manager_step W m (attach_sibling_state loaded m)"
| Take_Names: "manager_step W m (snd (take_deferred_drain_names m))"
| Take_Prefixes: "manager_step W m (snd (take_deferred_prefix_declarations m))"
| Force: "manager_step W m (snd (set_forced_provider i m))"

inductive reached :: "'m world \<Rightarrow> 'm manager \<Rightarrow> bool" for W where
  Start: "reached W (new_manager f d)"
| Step: "reached W m \<Longrightarrow> manager_step W m m' \<Longrightarrow> reached W m'"

section \<open>Every operation keeps it\<close>

lemma rest_fields:
  "m_storage_backends (rest_of m) = m_storage_backends m"
  "m_index_backends (rest_of m) = m_index_backends m" "m_collations (rest_of m) = m_collations m"
  "m_pragmas (rest_of m) = m_pragmas m" "m_parsers (rest_of m) = m_parsers m"
  "m_optimizers (rest_of m) = m_optimizers m" "m_next_at5 (rest_of m) = m_next_at5 m"
  "m_at5_targets (rest_of m) = m_at5_targets m" "m_deferred_names (rest_of m) = m_deferred_names m"
  "m_deferred_prefixes (rest_of m) = m_deferred_prefixes m"
  by (simp_all add: rest_of_def)

lemma rest_eq_fields:
  assumes "rest_of m' = rest_of m"
  shows "m_storage_backends m' = m_storage_backends m"
    and "m_index_backends m' = m_index_backends m"
    and "m_collations m' = m_collations m"
    and "m_pragmas m' = m_pragmas m"
    and "m_parsers m' = m_parsers m"
    and "m_optimizers m' = m_optimizers m"
    and "m_next_at5 m' = m_next_at5 m"
    and "m_at5_targets m' = m_at5_targets m"
    and "m_deferred_names m' = m_deferred_names m"
    and "m_deferred_prefixes m' = m_deferred_prefixes m"
  using arg_cong [OF assms, of m_storage_backends]
    arg_cong [OF assms, of m_index_backends]
    arg_cong [OF assms, of m_collations]
    arg_cong [OF assms, of m_pragmas]
    arg_cong [OF assms, of m_parsers]
    arg_cong [OF assms, of m_optimizers]
    arg_cong [OF assms, of m_next_at5]
    arg_cong [OF assms, of m_at5_targets]
    arg_cong [OF assms, of m_deferred_names]
    arg_cong [OF assms, of m_deferred_prefixes]
  unfolding rest_fields .

lemma same_ok: "same_tables m m' \<Longrightarrow> manager_ok m \<Longrightarrow> manager_ok m'"
proof -
  assume s: "same_tables m m'" and ok: "manager_ok m"
  have "rest_of m' = rest_of m" using s by (simp add: same_tables_def)
  note f = rest_eq_fields [OF this]
  show "manager_ok m'"
    using ok s unfolding same_tables_def manager_ok_def distinct_tables_def f by simp
qed

lemma same_trans: "same_tables m m1 \<Longrightarrow> same_tables m1 m2 \<Longrightarrow> same_tables m m2"
  by (simp add: same_tables_def)

lemma same_direct:
  assumes "\<And>txn m. same_tables m (snd (body txn m))"
  shows "same_tables m (snd (storage_direct W c body m))"
proof -
  have sub: "same_tables m m'" if "on_storage f m = (a, m')" for f a and m m' :: "'a manager"
    using same_on_storage [of m f] that by simp
  obtain a m1 where b: "dispatch_storage_begin_transaction W c m = (a, m1)" by (rule prod.exhaust)
  then have s1: "same_tables m m1"
    using same_on_storage [of m] by (metis dispatch_storage_begin_transaction_def snd_conv)
  show ?thesis
  proof (cases a)
    case (Inl e)
    then show ?thesis using b s1 by (simp add: storage_direct_def)
  next
    case txn: (Inr txn)
    obtain r m2 where d: "body txn m1 = (r, m2)" by (rule prod.exhaust)
    have s2: "same_tables m m2" using same_trans [OF s1] assms [of m1 txn] d by simp
    show ?thesis
    proof (cases r)
      case (Inl e)
      have "same_tables m2 (snd (dispatch_storage_rollback_transaction W txn m2))"
        by (simp add: dispatch_storage_rollback_transaction_def)
      then show ?thesis using b d txn Inl same_trans [OF s2] by (simp add: storage_direct_def)
    next
      case n: (Inr n)
      obtain k m3 where e: "dispatch_storage_commit_transaction W txn m2 = (k, m3)" by (rule prod.exhaust)
      then have "same_tables m2 m3"
        using same_on_storage [of m2] by (metis dispatch_storage_commit_transaction_def snd_conv)
      then show ?thesis
        using b d e txn n same_trans [OF s2] by (cases k) (simp_all add: storage_direct_def)
    qed
  qed
qed

lemmas direct_same = same_direct [where body = "\<lambda>txn. on_storage (f txn)" for f, OF same_on_storage]

lemma fold_update_distinct:
  "distinct (map fst al) \<Longrightarrow> distinct (map fst (fold (\<lambda>r. AList.update (k r) (v r)) rs al))"
  by (induction rs arbitrary: al) (simp_all add: distinct_update)

lemma capture_names: "loaded_names (capture_loaded name m) = loaded_names m"
proof (cases "map_of (m_extensions m) name")
  case (Some ws)
  then have "name \<in> fst ` set (m_extensions m)" by (metis image_eqI fst_conv map_of_SomeD)
  then show ?thesis
    using Some by (simp add: capture_loaded_def loaded_names_def update_keys_present split: prod.split)
qed (simp add: capture_loaded_def)

lemma capture_ok: "manager_ok m \<Longrightarrow> manager_ok (capture_loaded name m)"
  unfolding manager_ok_def capture_names
  by (auto simp: capture_loaded_def distinct_tables_def fold_update_distinct split: option.split prod.split)

lemma load_artifact_ok:
  assumes ok: "manager_ok m" and n: "sanitize_extension_name name = name"
  shows "manager_ok (snd (load_artifact W name path m))"
proof -
  have "manager_ok (m\<lparr>m_registry := reg, m_snapshot_enabled := q,
      m_extensions := AList.update name inst (m_extensions m)\<rparr>)" for reg q and inst :: "'a inst"
    using ok n by (auto simp: manager_ok_def distinct_tables_def loaded_names_def distinct_update dom_update)
  moreover have "manager_ok (m\<lparr>m_registry := reg\<rparr>)" for reg
    using ok by (simp add: manager_ok_def distinct_tables_def loaded_names_def)
  moreover have "manager_ok ((capture_loaded name m2)\<lparr>m_sibling := l\<rparr>)" if "manager_ok m2"
    for m2 :: "'a manager" and l
    using capture_ok [OF that, of name] by (simp add: manager_ok_def distinct_tables_def loaded_names_def)
  ultimately show ?thesis
    using ok by (simp add: load_artifact_def Let_def split: prod.split sum.split)
qed

lemma note_ok: "manager_ok m \<Longrightarrow> manager_ok (note_resolution name why m)"
  by (simp add: manager_ok_def distinct_tables_def loaded_names_def note_resolution_def)

lemma resolve_artifact_ok: "manager_ok m \<Longrightarrow> manager_ok (snd (resolve_provider_artifact W name m))"
  by (simp add: resolve_provider_artifact_def note_ok Let_def split: option.split sum.split)

lemma ensure_ok: "manager_ok m \<Longrightarrow> manager_ok (snd (ensure_extension_loaded W name m))"
proof -
  assume ok: "manager_ok m"
  let ?s = "sanitize_extension_name name"
  have l: "manager_ok (snd (load_artifact W ?s p m'))" if "manager_ok m'" for p and m' :: "'a manager"
    using that by (intro load_artifact_ok) simp_all
  obtain r m1 where ra: "resolve_provider_artifact W ?s m = (r, m1)" by (rule prod.exhaust)
  then have "manager_ok m1" using resolve_artifact_ok [OF ok, of W ?s] by simp
  then show ?thesis
    using ok l ra by (auto simp: ensure_extension_loaded_def Let_def split: option.split sum.split)
qed

lemma ensure_loaded:
  "ensure_extension_loaded W name m = (Inr True, m1) \<Longrightarrow> sanitize_extension_name name \<in> set (loaded_names m1)"
proof -
  assume a: "ensure_extension_loaded W name m = (Inr True, m1)"
  have l: "load_artifact W s p m' = (Inr True, m1) \<Longrightarrow> s \<in> set (loaded_names m1)" for s p and m' :: "'a manager"
    by (auto simp: load_artifact_def Let_def loaded_names_def [of "_\<lparr>m_sibling := _\<rparr>"]
        loaded_names_def [symmetric] capture_names split: prod.splits sum.splits if_splits)
      (simp add: loaded_names_def dom_update)
  show ?thesis
  proof (cases "map_of (m_extensions m) (sanitize_extension_name name)")
    case None
    then show ?thesis
      using a l by (auto simp: ensure_extension_loaded_def Let_def
          split: option.splits sum.splits prod.splits if_splits)
  next
    case (Some ws)
    then have "m1 = m" using a by (simp add: ensure_extension_loaded_def Let_def)
    then show ?thesis
      using Some unfolding loaded_names_def by (metis image_eqI fst_conv list.set_map map_of_SomeD)
  qed
qed

lemma set_names_fields [simp]:
  "loaded_names (m\<lparr>m_deferred_names := x\<rparr>) = loaded_names m"
  "distinct_tables (m\<lparr>m_deferred_names := x\<rparr>) = distinct_tables m"
  by (simp_all add: loaded_names_def distinct_tables_def)

lemma defer_name_ok:
  "manager_ok m \<Longrightarrow> s \<in> set (loaded_names m) \<Longrightarrow>
     manager_ok (if s \<in> set (m_deferred_names m) then m
       else m\<lparr>m_deferred_names := m_deferred_names m @ [s]\<rparr>)"
  by (simp add: manager_ok_def)

lemma native_load_ok: "manager_ok m \<Longrightarrow> manager_ok (snd (native_ducklink_load W args m))"
proof -
  assume ok: "manager_ok m"
  show ?thesis
  proof (cases "\<exists>name. text_argument args 0 (''ducklink_load: missing required VARCHAR argument '' @ quoted ''name'')
             ''ducklink_load: first argument must be VARCHAR'' = Inr name \<and> load_kind args = Inr ()")
    case False
    then show ?thesis using ok by (auto simp: native_ducklink_load_def split: sum.split)
  next
    case True
    then obtain name where args: "text_argument args 0 (''ducklink_load: missing required VARCHAR argument '' @ quoted ''name'')
             ''ducklink_load: first argument must be VARCHAR'' = Inr name" "load_kind args = Inr ()" by blast
    let ?s = "sanitize_extension_name name"
    obtain r m1 where e: "ensure_extension_loaded W ?s m = (r, m1)" by (rule prod.exhaust)
    have ok1: "manager_ok m1" using ensure_ok [OF ok, of W ?s] e by simp
    consider (err) x where "r = Inl x" | (no) "r = Inr False" | (yes) "r = Inr True"
      by (cases r) auto
    then show ?thesis
    proof cases
      case yes
      have l: "?s \<in> set (loaded_names m1)" using ensure_loaded [of W ?s m m1] e yes by simp
      have upd: "manager_ok (m1\<lparr>m_extensions := AList.update ?s i (m_extensions m1), m_deferred := d\<rparr>)" for i d
        using ok1 l by (simp add: manager_ok_def distinct_tables_def loaded_names_def update_keys_present)
      have add: "manager_ok (if ?s \<in> set (m_deferred_names m2) then m2
            else m2\<lparr>m_deferred_names := m_deferred_names m2 @ [?s]\<rparr>)"
        if "manager_ok m2" "loaded_names m2 = loaded_names m1" for m2
        using that l by (intro defer_name_ok) simp_all
      have nm: "loaded_names (m1\<lparr>m_extensions := AList.update ?s i (m_extensions m1), m_deferred := d\<rparr>)
          = loaded_names m1" for i d
        using l by (simp add: loaded_names_def update_keys_present)
      show ?thesis
      proof (cases "map_of (m_extensions m1) ?s")
        case None
        then show ?thesis using args e yes add [OF ok1 refl] by (simp add: native_ducklink_load_def Let_def)
      next
        case (Some ws)
        obtain w st where ws: "ws = (w, st)" by (rule prod.exhaust)
        obtain ks kt ka where o: "w_order W st = (ks, kt, ka)" using prod_cases3 by blast
        obtain p st' where d: "drain_pending ks kt ka st = (p, st')" by (rule prod.exhaust)
        show ?thesis
          using args e yes Some ws o d add [OF upd nm, of "append_registrations (m_deferred m1) p" "(w, st')"]
          by (simp add: native_ducklink_load_def Let_def)
      qed
    qed (use args e ok1 in \<open>simp_all add: native_ducklink_load_def Let_def\<close>)
  qed
qed

lemma prefix_common_ok: "manager_ok m \<Longrightarrow> manager_ok (snd (native_ducklink_prefix_common args m))"
proof -
  assume ok: "manager_ok m"
  have "manager_ok (m\<lparr>m_deferred_prefixes := m_deferred_prefixes m @ [(a, n)]\<rparr>)"
    if "(a, n) \<notin> set (m_deferred_prefixes m)" "is_safe_prefix_identifier a" "is_safe_prefix_identifier n" for a n
    using ok that by (auto simp: manager_ok_def distinct_tables_def loaded_names_def)
  then show ?thesis
    using ok by (auto simp: native_ducklink_prefix_common_def rbind_def split: sum.split if_splits)
qed

lemma prefix_ok:
  "manager_ok m \<Longrightarrow> manager_ok (snd (native_ducklink_prefix_table args m))"
  "manager_ok m \<Longrightarrow> manager_ok (snd (native_ducklink_prefix_scalar args m))"
  using prefix_common_ok by (simp_all add: native_ducklink_prefix_table_def native_ducklink_prefix_scalar_def)

lemma over_rows_ok:
  assumes "\<And>row m. manager_ok m \<Longrightarrow> manager_ok (snd (f row m))"
  shows "manager_ok m \<Longrightarrow> manager_ok (snd (over_rows f rows m))"
proof (induction rows arbitrary: m)
  case (Cons row rows)
  obtain r m1 where "f row m = (r, m1)" by (rule prod.exhaust)
  then show ?case using assms [OF Cons.prems, of row] Cons.IH by (cases r) simp_all
qed simp

lemma force_ok: "manager_ok m \<Longrightarrow> manager_ok (snd (set_forced_provider i m))"
  by (simp add: set_forced_provider_def manager_ok_def distinct_tables_def loaded_names_def)

lemma resolver_function_ok: "manager_ok m \<Longrightarrow> manager_ok (snd (resolver_function W h row m))"
  by (simp add: resolver_function_def Let_def force_ok)

lemma drain_names:
  "drain_instances ord es agg = (agg', es') \<Longrightarrow> map fst es' = map fst es"
  by (induction ord es agg arbitrary: agg' es' rule: drain_instances.induct)
    (auto split: prod.splits)

lemma drain_ok: "manager_ok m \<Longrightarrow> manager_ok (snd (drain_pending_registrations W m))"
proof -
  assume ok: "manager_ok m"
  obtain agg es where d: "drain_instances (w_order W) (m_extensions m)
      (append_registrations no_registrations (m_deferred m)) = (agg, es)" by (rule prod.exhaust)
  let ?m' = "snd (drain_pending_registrations W m)"
  have "loaded_names ?m' = loaded_names m"
    using d drain_names [OF d]
    by (cases "m_injected_load m"; cases "m_injected_prefix m")
      (simp_all add: drain_pending_registrations_def loaded_names_def Let_def)
  moreover have "distinct_tables ?m'"
    using ok d
    by (cases "m_injected_load m"; cases "m_injected_prefix m")
      (simp_all add: drain_pending_registrations_def manager_ok_def distinct_tables_def
        fold_update_distinct Let_def)
  moreover have "m_next_at5 ?m' = m_next_at5 m" "m_at5_targets ?m' = m_at5_targets m"
    "m_deferred_names ?m' = m_deferred_names m" "m_deferred_prefixes ?m' = m_deferred_prefixes m"
    using d
    by (cases "m_injected_load m"; cases "m_injected_prefix m";
        simp add: drain_pending_registrations_def Let_def)+
  ultimately show ?thesis using ok by (simp add: manager_ok_def)
qed

text \<open>The search for a free handle stays in the range.\<close>

lemma at5_find_range:
  assumes "at5_find targets handle nxt = Some (h, n)" "in_range handle" "in_range nxt"
  shows "in_range h \<and> in_range n"
proof -
  have "in_range handle \<and> in_range nxt \<longrightarrow> in_range (fst r) \<and> in_range (snd r)"
    if "at5_find targets handle nxt = Some r" for r
  proof (rule at5_find.raw_induct [where
      P = "\<lambda>targets handle nxt r. in_range handle \<and> in_range nxt \<longrightarrow> in_range (fst r) \<and> in_range (snd r)",
      OF _ that], goal_cases)
    case (1 f targets handle nxt r)
    then show ?case using at5_next_range by (auto split: if_splits)
  qed
  from this [OF assms(1)] assms show ?thesis by simp
qed

lemma register_scan_ok:
  "register_at5_scan ext sh ch t m = Some (h, m') \<Longrightarrow> manager_ok m \<Longrightarrow> manager_ok m'"
proof -
  assume r: "register_at5_scan ext sh ch t m = Some (h, m')" and ok: "manager_ok m"
  then obtain n where f: "at5_find (m_at5_targets m) (m_next_at5 m) (at5_next (m_next_at5 m)) = Some (h, n)"
    by (auto simp: register_at5_scan_def)
  then have "in_range h \<and> in_range n"
    using ok at5_next_range by (intro at5_find_range) (auto simp: manager_ok_def)
  then show ?thesis
    using r f ok by (auto simp: register_at5_scan_def manager_ok_def distinct_tables_def loaded_names_def
        split: if_splits)
qed

lemma scalar_ok: "manager_ok m \<Longrightarrow> manager_ok (snd (manager_dispatch_scalar W h args ctx m))"
  by (auto simp: manager_dispatch_scalar_def prefix_ok intro: same_ok [OF same_on_instance] split: option.split)

lemma batch_ok:
  "manager_dispatch_scalar_batch W h rows ctx m = Some (r, m') \<Longrightarrow> manager_ok m \<Longrightarrow> manager_ok m'"
proof -
  assume b: "manager_dispatch_scalar_batch W h rows ctx m = Some (r, m')" and ok: "manager_ok m"
  have native: "manager_ok m'" if "over_rows f rows m = (r, m')"
    and "\<And>row m. manager_ok m \<Longrightarrow> manager_ok (snd (f row m))" for f
    using over_rows_ok [of f m rows] that ok by simp
  have put: "manager_ok (put_instance ext g' m)" if "running m ext = Some g" for ext g g'
    using same_ok [OF same_put [OF that] ok] .
  show ?thesis
  proof (cases "h = ducklink_prefix_scalar_handle")
    case True
    then show ?thesis
      using b native [OF _ prefix_ok(2)] by (simp add: manager_dispatch_scalar_batch_def)
  next
    case p: False
    show ?thesis
    proof (cases "h = resolver_explain_handle \<or> h = resolver_set_handle")
      case True
      then show ?thesis
        using b p native [OF _ resolver_function_ok] by (auto simp: manager_dispatch_scalar_batch_def)
    next
      case False
      then show ?thesis
        using b p ok put by (auto simp: manager_dispatch_scalar_batch_def split: option.splits)
    qed
  qed
qed

lemma table_ok: "manager_dispatch_table W h args m = Some (r, m') \<Longrightarrow> manager_ok m \<Longrightarrow> manager_ok m'"
proof -
  assume t: "manager_dispatch_table W h args m = Some (r, m')" and ok: "manager_ok m"
  have sub: "manager_ok m'" if "f = (r, m')" "manager_ok (snd f)" for f :: "(duckerror + duckvalue list list) \<times> 'a manager"
    using that by simp
  show ?thesis
  proof (cases "is_at5_handle h")
    case True
    then have "native_at5_attach_scan W h m = Some (r, m')" using t by (simp add: manager_dispatch_table_def)
    then show ?thesis using same_ok [OF instance_step_same [OF Attached_Scan] ok] by blast
  next
    case False
    let ?c = "on_callback (unknown_handle ''table callback'' h) Table h
             (\<lambda>ext h. dispatch_table (w_fmt W) (w_guest W ext) h args) m"
    have "manager_ok (snd ?c)" by (rule same_ok [OF same_on_callback ok])
    then show ?thesis
      using t False sub native_load_ok [OF ok, of W args] prefix_ok(1) [OF ok, of args]
      by (simp add: manager_dispatch_table_def split: if_splits)
  qed
qed

lemma manager_step_ok: "manager_step W m m' \<Longrightarrow> manager_ok m \<Longrightarrow> manager_ok m'"
proof (induction rule: manager_step.induct)
  case (Instance m m')
  then show ?case using same_ok instance_step_same by blast
next
  case (Attach_Core m)
  then show ?case by (simp add: attach_core_def manager_ok_def distinct_tables_def loaded_names_def)
next
  case (Attach_Sibling loaded m)
  then show ?case by (simp add: attach_sibling_state_def manager_ok_def distinct_tables_def loaded_names_def)
next
  case (Take_Names m)
  then show ?case by (simp add: take_deferred_drain_names_def manager_ok_def)
next
  case (Take_Prefixes m)
  then show ?case
    by (simp add: take_deferred_prefix_declarations_def manager_ok_def distinct_tables_def loaded_names_def)
next
  case (Insert_Direct c t rows m)
  then show ?case unfolding dispatch_storage_insert_direct_def
    by (intro same_ok [OF same_direct]) (simp_all add: dispatch_storage_insert_rows_def)
next
  case (Update_Direct c t ids rows m)
  then show ?case unfolding dispatch_storage_update_direct_def
    by (intro same_ok [OF same_direct]) (simp_all add: dispatch_storage_update_rows_def)
next
  case (Delete_Direct c t ids m)
  then show ?case unfolding dispatch_storage_delete_direct_def
    by (intro same_ok [OF same_direct]) (simp_all add: dispatch_storage_delete_rows_def)
next
  case (Create_Direct c t cs m)
  then show ?case unfolding dispatch_storage_create_table_direct_def
    by (intro same_ok [OF same_direct]) (simp_all add: dispatch_storage_create_table_def)
qed (blast intro: scalar_ok batch_ok table_ok ensure_ok drain_ok register_scan_ok force_ok)+

lemma new_manager_ok: "manager_ok (new_manager f d)"
  by (simp add: manager_ok_def distinct_tables_def new_manager_def loaded_names_def in_range_def
      at5_handle_min_def at5_handle_max_def)

text \<open>
  C16. Every state that the manager reaches, by any sequence of loads, drains, attaches, scans,
  direct writes and callbacks, is well formed: no two entries of a table share a name, every
  extension is loaded under its sanitized name, the handles of attached tables are in the range
  reserved for them, a name waits for its drain at most once and only if it is loaded, and a prefix
  declaration that waits is made of safe identifiers.
\<close>

theorem manager_invariant:
  assumes "reached W m"
  shows "manager_ok m"
  using assms
proof induction
  case (Start f d)
  show ?case by (rule new_manager_ok)
next
  case (Step m m')
  then show ?case by (blast intro: manager_step_ok)
qed

theorem manager_invariant_witness:
  "manager_ok (attach_core (new_manager None (Some ''a, b'')) :: unit manager)"
  by (rule manager_invariant [OF reached.Step [OF reached.Start manager_step.Attach_Core]])

end
