(* ===== verification/Host_Codec.thy ===== *)
theory Host_Codec
  imports Marshal Extension_State
begin

text \<open>
  The codecs between the host and the core component (\<open>crates/ducklink-host/src/lib.rs\<close>, the
  functions after \<open>value_list_to_bytes\<close>): values, types, rows, query results and the records of
  the database interface. A runtime error is its message; the \<open>Debug\<close> output of a value is the
  parameter \<open>fmt\<close>. The decoders scan the fields of a record: the last field of a name wins.
\<close>

section \<open>Records\<close>

text \<open>The value of the last field of that name whose value has the right form.\<close>

fun last_field :: "string \<Rightarrow> (wvalue \<Rightarrow> 'a option) \<Rightarrow> (string \<times> wvalue) list \<Rightarrow> 'a option" where
  "last_field key sel [] = None"
| "last_field key sel ((k, v) # fs) =
     (case last_field key sel fs of
        Some x \<Rightarrow> Some x
      | None \<Rightarrow> if k = key then sel v else None)"

text \<open>A scan that may fail, field by field.\<close>

fun scan_fields ::
  "('s \<Rightarrow> string \<Rightarrow> wvalue \<Rightarrow> string + 's) \<Rightarrow> (string \<times> wvalue) list \<Rightarrow> 's \<Rightarrow> string + 's" where
  "scan_fields f [] s = Inr s"
| "scan_fields f ((k, v) # fs) s = rbind (f s k v) (scan_fields f fs)"

definition the_or :: "'a option \<Rightarrow> 'a \<Rightarrow> 'a" where
  "the_or o1 d = (case o1 of Some x \<Rightarrow> x | None \<Rightarrow> d)"

lemma the_or_simps [simp]: "the_or (Some x) d = x" "the_or None d = d"
  by (simp_all add: the_or_def)

definition dbg_slice :: "fmt \<Rightarrow> wvalue list \<Rightarrow> string" where
  "dbg_slice fm vs = ''['' @ join '', '' (map (dbg fm) vs) @ '']''"

section \<open>Bytes, strings and resources\<close>

definition value_list_to_bytes :: "fmt \<Rightarrow> wvalue list \<Rightarrow> string + u8 list" where
  "value_list_to_bytes fm items =
     rmap (\<lambda>v. case v of
         V_U8 b \<Rightarrow> Inr b
       | other \<Rightarrow> Inl (''expected Value::U8 in list<u8>, got '' @ dbg fm other)) items"

definition bytes_to_value_list :: "u8 list \<Rightarrow> wvalue" where
  "bytes_to_value_list bytes = V_List (map V_U8 bytes)"

definition option_value_to_string :: "fmt \<Rightarrow> wvalue option \<Rightarrow> string + string option" where
  "option_value_to_string fm v =
     (case v of
        None \<Rightarrow> Inr None
      | Some (V_String s) \<Rightarrow> Inr (Some s)
      | Some other \<Rightarrow> Inl (''expected option<string>: inner should be String, got '' @ dbg fm other))"

definition cli_db_iface :: string where
  "cli_db_iface = ''duckdb:component/database''"

definition expect_single_resource :: "fmt \<Rightarrow> wvalue list \<Rightarrow> string \<Rightarrow> string + wvalue" where
  "expect_single_resource fm args method =
     (case args of
        [V_Resource s h] \<Rightarrow> Inr (V_Resource s h)
      | other \<Rightarrow> Inl (cli_db_iface @ ''.'' @ method @ '': expected [Value::Resource], got ''
                  @ dbg_slice fm other))"

definition expect_resource_and_string ::
  "fmt \<Rightarrow> wvalue list \<Rightarrow> string \<Rightarrow> string + (wvalue \<times> string)" where
  "expect_resource_and_string fm args method =
     (case args of
        [V_Resource s h, V_String t] \<Rightarrow> Inr (V_Resource s h, t)
      | other \<Rightarrow> Inl (cli_db_iface @ ''.'' @ method
                  @ '': expected [Value::Resource, Value::String], got '' @ dbg_slice fm other))"

section \<open>Errors\<close>

definition cli_duckerror_to_value :: "duckerror \<Rightarrow> wvalue" where
  "cli_duckerror_to_value err =
     (let (name, msg) = (case err of
            Invalidargument m \<Rightarrow> (''invalidargument'', m)
          | Unsupported m \<Rightarrow> (''unsupported'', m)
          | Invalidstate m \<Rightarrow> (''invalidstate'', m)
          | Io m \<Rightarrow> (''io'', m)
          | Internal m \<Rightarrow> (''internal'', m))
      in V_Variant name (Some (V_String msg)))"

definition value_to_duckerror :: "fmt \<Rightarrow> wvalue \<Rightarrow> string \<Rightarrow> duckerror" where
  "value_to_duckerror fm v ctx =
     (case v of
        V_Variant disc payload \<Rightarrow>
          (case payload of
             Some (V_String msg) \<Rightarrow>
               (if disc = ''invalidargument'' then Invalidargument msg
                else if disc = ''unsupported'' then Unsupported msg
                else if disc = ''invalidstate'' then Invalidstate msg
                else if disc = ''io'' then Io msg
                else if disc = ''internal'' then Internal msg
                else Internal (ctx @ '': unknown duckerror arm '' @ dbg_str fm disc))
           | other \<Rightarrow> Internal (ctx @ '': duckerror.'' @ disc @ '' expected string payload, got ''
                       @ dbg_opt fm other))
      | other \<Rightarrow> Internal (ctx @ '': expected duckerror Value::Variant, got '' @ dbg fm other))"

definition cli_duckerror_message :: "duckerror \<Rightarrow> string" where
  "cli_duckerror_message err =
     (case err of
        Invalidargument m \<Rightarrow> m | Unsupported m \<Rightarrow> m | Invalidstate m \<Rightarrow> m | Io m \<Rightarrow> m | Internal m \<Rightarrow> m)"

section \<open>Capabilities\<close>

datatype capabilitykind =
    Cap_Scalar | Cap_Table | Cap_Aggregate | Cap_Pragma | Cap_Macro | Cap_Catalog | Cap_FileFormat

definition describe_cli_capability :: "capabilitykind \<Rightarrow> string" where
  "describe_cli_capability kind =
     (case kind of
        Cap_Scalar \<Rightarrow> ''scalar'' | Cap_Table \<Rightarrow> ''table'' | Cap_Aggregate \<Rightarrow> ''aggregate''
      | Cap_Pragma \<Rightarrow> ''pragma'' | Cap_Macro \<Rightarrow> ''macro'' | Cap_Catalog \<Rightarrow> ''catalog''
      | Cap_FileFormat \<Rightarrow> ''file-format'')"

definition summarize_cli_capabilities :: "capabilitykind list \<Rightarrow> string" where
  "summarize_cli_capabilities caps =
     (if caps = [] then ''none'' else join '', '' (map describe_cli_capability caps))"

definition capabilitykind_to_value :: "capabilitykind \<Rightarrow> wvalue" where
  "capabilitykind_to_value k = V_Enum (describe_cli_capability k)"

definition value_to_capabilitykind :: "fmt \<Rightarrow> wvalue \<Rightarrow> string + capabilitykind" where
  "value_to_capabilitykind fm v =
     rbind (case v of
         V_Enum d \<Rightarrow> Inr d
       | V_Variant d None \<Rightarrow> Inr d
       | other \<Rightarrow> Inl (''expected capabilitykind enum, got '' @ dbg fm other)) (\<lambda>disc.
     if disc = ''scalar'' then Inr Cap_Scalar
     else if disc = ''table'' then Inr Cap_Table
     else if disc = ''aggregate'' then Inr Cap_Aggregate
     else if disc = ''pragma'' then Inr Cap_Pragma
     else if disc = ''macro'' then Inr Cap_Macro
     else if disc = ''catalog'' then Inr Cap_Catalog
     else if disc = ''file-format'' then Inr Cap_FileFormat
     else Inl (''unknown capabilitykind discriminant '' @ dbg_str fm disc))"

section \<open>Types\<close>

definition fieldless_logicaltype :: "string \<Rightarrow> logicaltype option" where
  "fieldless_logicaltype d =
     map_of [(''boolean'', L_Boolean), (''int64'', L_Int64), (''uint64'', L_Uint64),
       (''float64'', L_Float64), (''text'', L_Text), (''blob'', L_Blob), (''int32'', L_Int32),
       (''timestamp'', L_Timestamp), (''int8'', L_Int8), (''int16'', L_Int16),
       (''uint8'', L_Uint8), (''uint16'', L_Uint16), (''uint32'', L_Uint32),
       (''float32'', L_Float32), (''date'', L_Date), (''time'', L_Time),
       (''timestamptz'', L_Timestamptz), (''interval'', L_Interval), (''uuid'', L_Uuid),
       (''hugeint'', L_Hugeint), (''uhugeint'', L_Uhugeint)] d"

definition cli_value_to_logicaltype :: "fmt \<Rightarrow> wvalue \<Rightarrow> string + logicaltype" where
  "cli_value_to_logicaltype fm v =
     (let fieldless = (\<lambda>d. case fieldless_logicaltype d of
            Some t \<Rightarrow> Inr t
          | None \<Rightarrow> Inl (''unknown fieldless logicaltype '' @ dbg_str fm d))
      in case v of
        V_Enum d \<Rightarrow> fieldless d
      | V_Variant d None \<Rightarrow> fieldless d
      | V_Variant d (Some p) \<Rightarrow>
          (case (d = ''decimal'', d = ''complex'', p) of
             (True, _, V_Record fs) \<Rightarrow>
               rbind (ok_or (last_field ''width'' as_u8 fs) ''decimalshape.width'') (\<lambda>w.
               rbind (ok_or (last_field ''scale'' as_u8 fs) ''decimalshape.scale'') (\<lambda>s.
                 Inr (L_Decimal \<lparr>shape_width = w, shape_scale = s\<rparr>)))
           | (_, True, V_String s) \<Rightarrow> Inr (L_Complex s)
           | _ \<Rightarrow> Inl (''unknown payload-carrying logicaltype '' @ dbg_str fm d @ '': '' @ dbg fm p))
      | other \<Rightarrow> Inl (''expected logicaltype variant, got '' @ dbg fm other))"

definition cli_logicaltype_to_value :: "logicaltype \<Rightarrow> wvalue" where
  "cli_logicaltype_to_value t =
     (let (name, payload) = (case t of
        L_Boolean \<Rightarrow> (''boolean'', None)
      | L_Int64 \<Rightarrow> (''int64'', None)
      | L_Uint64 \<Rightarrow> (''uint64'', None)
      | L_Float64 \<Rightarrow> (''float64'', None)
      | L_Text \<Rightarrow> (''text'', None)
      | L_Blob \<Rightarrow> (''blob'', None)
      | L_Int32 \<Rightarrow> (''int32'', None)
      | L_Timestamp \<Rightarrow> (''timestamp'', None)
      | L_Int8 \<Rightarrow> (''int8'', None)
      | L_Int16 \<Rightarrow> (''int16'', None)
      | L_Uint8 \<Rightarrow> (''uint8'', None)
      | L_Uint16 \<Rightarrow> (''uint16'', None)
      | L_Uint32 \<Rightarrow> (''uint32'', None)
      | L_Float32 \<Rightarrow> (''float32'', None)
      | L_Date \<Rightarrow> (''date'', None)
      | L_Time \<Rightarrow> (''time'', None)
      | L_Timestamptz \<Rightarrow> (''timestamptz'', None)
      | L_Interval \<Rightarrow> (''interval'', None)
      | L_Uuid \<Rightarrow> (''uuid'', None)
      | L_Hugeint \<Rightarrow> (''hugeint'', None)
      | L_Uhugeint \<Rightarrow> (''uhugeint'', None)
      | L_Decimal shape \<Rightarrow> (''decimal'', Some (V_Record [(''width'', V_U8 (shape_width shape)),
          (''scale'', V_U8 (shape_scale shape))]))
      | L_Complex expr \<Rightarrow> (''complex'', Some (V_String expr)))
      in V_Variant name payload)"

definition cli_columndef_to_value :: "columndef \<Rightarrow> wvalue" where
  "cli_columndef_to_value c =
     V_Record [(''name'', V_String (cd_name c)), (''logical'', cli_logicaltype_to_value (cd_logical c))]"

text \<open>A column, a column descriptor: a name and, under \<open>key\<close>, a type.\<close>

definition named_type ::
  "fmt \<Rightarrow> string \<Rightarrow> string \<Rightarrow> wvalue \<Rightarrow> string + (string \<times> logicaltype)" where
  "named_type fm what key v =
     (case v of
        V_Record fs \<Rightarrow>
          rbind (scan_fields (\<lambda>(n, t) k x.
              case (k = ''name'', as_string x) of
                (True, Some s) \<Rightarrow> Inr (Some s, t)
              | _ \<Rightarrow> if k = key then rbind (cli_value_to_logicaltype fm x) (\<lambda>l. Inr (n, Some l))
                     else Inr (n, t)) fs (None, None)) (\<lambda>(n, t).
          rbind (ok_or n (what @ ''.name missing'')) (\<lambda>name.
          rbind (ok_or t (what @ ''.'' @ key @ '' missing'')) (\<lambda>ty. Inr (name, ty))))
      | other \<Rightarrow> Inl (''expected '' @ what @ '' Record, got '' @ dbg fm other))"

definition cli_value_to_columndef :: "fmt \<Rightarrow> wvalue \<Rightarrow> string + columndef" where
  "cli_value_to_columndef fm v =
     rbind (named_type fm ''columndef'' ''logical'' v) (\<lambda>(n, t). Inr \<lparr>cd_name = n, cd_logical = t\<rparr>)"

record column_descriptor =
  desc_name :: string
  desc_ty :: logicaltype

definition column_descriptor_to_value :: "column_descriptor \<Rightarrow> wvalue" where
  "column_descriptor_to_value c =
     V_Record [(''name'', V_String (desc_name c)), (''ty'', cli_logicaltype_to_value (desc_ty c))]"

definition value_to_column_descriptor :: "fmt \<Rightarrow> wvalue \<Rightarrow> string + column_descriptor" where
  "value_to_column_descriptor fm v =
     rbind (named_type fm ''column-descriptor'' ''ty'' v) (\<lambda>(n, t). Inr \<lparr>desc_name = n, desc_ty = t\<rparr>)"

section \<open>Values\<close>

definition cli_duckvalue_to_value :: "duckvalue \<Rightarrow> wvalue" where
  "cli_duckvalue_to_value v =
     (let (name, payload) = (case v of
        D_Null \<Rightarrow> (''null'', None)
      | D_Boolean b \<Rightarrow> (''boolean'', Some (V_Bool b))
      | D_Int64 n \<Rightarrow> (''int64'', Some (V_S64 n))
      | D_Uint64 n \<Rightarrow> (''uint64'', Some (V_U64 n))
      | D_Float64 n \<Rightarrow> (''float64'', Some (V_F64 n))
      | D_Text s \<Rightarrow> (''text'', Some (V_String s))
      | D_Blob bs \<Rightarrow> (''blob'', Some (bytes_to_value_list bs))
      | D_Int32 n \<Rightarrow> (''int32'', Some (V_S32 n))
      | D_Timestamp n \<Rightarrow> (''timestamp'', Some (V_S64 n))
      | D_Int8 n \<Rightarrow> (''int8'', Some (V_S8 n))
      | D_Int16 n \<Rightarrow> (''int16'', Some (V_S16 n))
      | D_Uint8 n \<Rightarrow> (''uint8'', Some (V_U8 n))
      | D_Uint16 n \<Rightarrow> (''uint16'', Some (V_U16 n))
      | D_Uint32 n \<Rightarrow> (''uint32'', Some (V_U32 n))
      | D_Float32 n \<Rightarrow> (''float32'', Some (V_F32 n))
      | D_Date n \<Rightarrow> (''date'', Some (V_S32 n))
      | D_Time n \<Rightarrow> (''time'', Some (V_S64 n))
      | D_Timestamptz n \<Rightarrow> (''timestamptz'', Some (V_S64 n))
      | D_Decimal d \<Rightarrow> (''decimal'', Some (V_Record [(''lower'', V_U64 (dec_lower d)),
          (''upper'', V_U64 (dec_upper d)), (''width'', V_U8 (dec_width d)), (''scale'', V_U8 (dec_scale d))]))
      | D_Interval iv \<Rightarrow> (''interval'', Some (V_Record [(''months'', V_S32 (iv_months iv)),
          (''days'', V_S32 (iv_days iv)), (''micros'', V_S64 (iv_micros iv))]))
      | D_Uuid u \<Rightarrow> (''uuid'', Some (V_Record [(''hi'', V_U64 (uuid_hi u)), (''lo'', V_U64 (uuid_lo u))]))
      | D_Hugeint h \<Rightarrow> (''hugeint'', Some (V_Record [(''lower'', V_U64 (huge_lower h)),
          (''upper'', V_S64 (huge_upper h))]))
      | D_Uhugeint h \<Rightarrow> (''uhugeint'', Some (V_Record [(''lower'', V_U64 (uhuge_lower h)),
          (''upper'', V_U64 (uhuge_upper h))]))
      | D_Complex c \<Rightarrow> (''complex'', Some (V_Record [(''type-expr'', V_String (cx_type_expr c)),
          (''json'', V_String (cx_json c))])))
      in V_Variant name payload)"

text \<open>The arms with a plain payload: the payload has to have exactly the form of the arm.\<close>

definition plain_arm :: "string \<Rightarrow> wvalue \<Rightarrow> duckvalue option" where
  "plain_arm disc p =
     (case p of
        V_Bool b \<Rightarrow> if disc = ''boolean'' then Some (D_Boolean b) else None
      | V_S64 n \<Rightarrow> map_option (\<lambda>f. f n) (map_of [(''int64'', D_Int64), (''timestamp'', D_Timestamp),
          (''time'', D_Time), (''timestamptz'', D_Timestamptz)] disc)
      | V_U64 n \<Rightarrow> if disc = ''uint64'' then Some (D_Uint64 n) else None
      | V_F64 n \<Rightarrow> if disc = ''float64'' then Some (D_Float64 n) else None
      | V_String s \<Rightarrow> if disc = ''text'' then Some (D_Text s) else None
      | V_S32 n \<Rightarrow> map_option (\<lambda>f. f n) (map_of [(''int32'', D_Int32), (''date'', D_Date)] disc)
      | V_S8 n \<Rightarrow> if disc = ''int8'' then Some (D_Int8 n) else None
      | V_S16 n \<Rightarrow> if disc = ''int16'' then Some (D_Int16 n) else None
      | V_U8 n \<Rightarrow> if disc = ''uint8'' then Some (D_Uint8 n) else None
      | V_U16 n \<Rightarrow> if disc = ''uint16'' then Some (D_Uint16 n) else None
      | V_U32 n \<Rightarrow> if disc = ''uint32'' then Some (D_Uint32 n) else None
      | V_F32 n \<Rightarrow> if disc = ''float32'' then Some (D_Float32 n) else None
      | _ \<Rightarrow> None)"

text \<open>The arms with a record: a field that is missing or has another form is zero, or empty.\<close>

definition record_arm :: "string \<Rightarrow> (string \<times> wvalue) list \<Rightarrow> duckvalue option" where
  "record_arm disc f =
     (let u64 = (\<lambda>k. the_or (last_field k as_u64 f) 0);
          s64 = (\<lambda>k. the_or (last_field k as_s64 f) 0);
          s32 = (\<lambda>k. the_or (last_field k as_s32 f) 0);
          u8 = (\<lambda>k. the_or (last_field k as_u8 f) 0);
          str = (\<lambda>k. the_or (last_field k as_string f) [])
      in if disc = ''decimal'' then Some (D_Decimal \<lparr>dec_lower = u64 ''lower'', dec_upper = u64 ''upper'',
                 dec_width = u8 ''width'', dec_scale = u8 ''scale''\<rparr>)
         else if disc = ''interval'' then Some (D_Interval \<lparr>iv_months = s32 ''months'',
                 iv_days = s32 ''days'', iv_micros = s64 ''micros''\<rparr>)
         else if disc = ''uuid'' then Some (D_Uuid \<lparr>uuid_hi = u64 ''hi'', uuid_lo = u64 ''lo''\<rparr>)
         else if disc = ''hugeint'' then Some (D_Hugeint \<lparr>huge_lower = u64 ''lower'', huge_upper = s64 ''upper''\<rparr>)
         else if disc = ''uhugeint'' then
           Some (D_Uhugeint \<lparr>uhuge_lower = u64 ''lower'', uhuge_upper = u64 ''upper''\<rparr>)
         else if disc = ''complex'' then
           Some (D_Complex \<lparr>cx_type_expr = str ''type-expr'', cx_json = str ''json''\<rparr>)
         else None)"

definition cli_value_to_duckvalue :: "fmt \<Rightarrow> wvalue \<Rightarrow> string + duckvalue" where
  "cli_value_to_duckvalue fm v =
     (case v of
        V_Variant disc payload \<Rightarrow>
          (let bad = Inl (''unrecognized duckvalue arm '' @ dbg_str fm disc @ '' with payload ''
                 @ dbg_opt fm payload)
           in case payload of
                None \<Rightarrow> if disc = ''null'' then Inr D_Null else bad
              | Some (V_List items) \<Rightarrow>
                  if disc = ''blob'' then rbind (value_list_to_bytes fm items) (\<lambda>b. Inr (D_Blob b))
                  else bad
              | Some (V_Record f) \<Rightarrow> (case record_arm disc f of Some d \<Rightarrow> Inr d | None \<Rightarrow> bad)
              | Some p \<Rightarrow> (case plain_arm disc p of Some d \<Rightarrow> Inr d | None \<Rightarrow> bad))
      | other \<Rightarrow> Inl (''expected duckvalue variant, got '' @ dbg fm other))"

section \<open>Rows and query results\<close>

type_synonym row = "duckvalue list"

record query_result =
  qr_columns :: "columndef list"
  qr_rows :: "row list"

definition empty_query_result :: query_result where
  "empty_query_result = \<lparr>qr_columns = [], qr_rows = []\<rparr>"

definition value_to_row :: "fmt \<Rightarrow> wvalue \<Rightarrow> string + row" where
  "value_to_row fm v =
     (case v of
        V_List items \<Rightarrow> rmap (cli_value_to_duckvalue fm) items
      | other \<Rightarrow> Inl (''expected row list, got '' @ dbg fm other))"

definition query_result_to_value :: "query_result \<Rightarrow> wvalue" where
  "query_result_to_value qr =
     V_Record [(''columns'', V_List (map cli_columndef_to_value (qr_columns qr))),
       (''rows'', V_List (map (\<lambda>row. V_List (map cli_duckvalue_to_value row)) (qr_rows qr)))]"

definition value_to_query_result :: "fmt \<Rightarrow> wvalue \<Rightarrow> string + query_result" where
  "value_to_query_result fm v =
     (case v of
        V_Record fs \<Rightarrow>
          rbind (scan_fields (\<lambda>(cs, rs) k x.
              case x of
                V_List items \<Rightarrow>
                  if k = ''columns'' then rbind (rmap (cli_value_to_columndef fm) items) (\<lambda>c. Inr (Some c, rs))
                  else if k = ''rows'' then rbind (rmap (value_to_row fm) items) (\<lambda>r. Inr (cs, Some r))
                  else Inr (cs, rs)
              | _ \<Rightarrow> Inr (cs, rs)) fs (None, None)) (\<lambda>(cs, rs).
          rbind (ok_or cs ''query-result.columns missing'') (\<lambda>c.
          rbind (ok_or rs ''query-result.rows missing'') (\<lambda>r. Inr \<lparr>qr_columns = c, qr_rows = r\<rparr>)))
      | other \<Rightarrow> Inl (''expected query-result Record, got '' @ dbg fm other))"

record extension_info =
  info_name :: string
  info_requires :: "capabilitykind list"

definition extension_info_to_value :: "extension_info \<Rightarrow> wvalue" where
  "extension_info_to_value info =
     V_Record [(''name'', V_String (info_name info)),
       (''requires'', V_List (map capabilitykind_to_value (info_requires info)))]"

definition value_to_extension_info :: "fmt \<Rightarrow> wvalue \<Rightarrow> string + extension_info" where
  "value_to_extension_info fm v =
     (case v of
        V_Record fs \<Rightarrow>
          rbind (scan_fields (\<lambda>(n, rs) k x.
              case x of
                V_String s \<Rightarrow> if k = ''name'' then Inr (Some s, rs) else Inr (n, rs)
              | V_List items \<Rightarrow>
                  if k = ''requires'' then rbind (rmap (value_to_capabilitykind fm) items) (\<lambda>r. Inr (n, Some r))
                  else Inr (n, rs)
              | _ \<Rightarrow> Inr (n, rs)) fs (None, None)) (\<lambda>(n, rs).
          rbind (ok_or n ''extension-info.name missing'') (\<lambda>name.
          rbind (ok_or rs ''extension-info.requires missing'') (\<lambda>r.
            Inr \<lparr>info_name = name, info_requires = r\<rparr>)))
      | other \<Rightarrow> Inl (''expected extension-info Record, got '' @ dbg fm other))"

record ui_response =
  ui_status :: u16
  ui_headers :: string
  ui_body :: "u8 list"

definition ui_response_to_value :: "ui_response \<Rightarrow> wvalue" where
  "ui_response_to_value r =
     V_Record [(''status'', V_U16 (ui_status r)), (''headers'', V_String (ui_headers r)),
       (''body'', bytes_to_value_list (ui_body r))]"

section \<open>Round trips\<close>

lemma value_list_bytes [simp]: "value_list_to_bytes fm (map V_U8 b) = Inr b"
  by (simp add: value_list_to_bytes_def rmap_map_id)

lemma capabilitykind_value [simp]: "value_to_capabilitykind fm (capabilitykind_to_value k) = Inr k"
  by (cases k) (simp_all add: value_to_capabilitykind_def capabilitykind_to_value_def describe_cli_capability_def)

lemma cli_logicaltype_value [simp]:
  "cli_value_to_logicaltype fm (cli_logicaltype_to_value t) = Inr t"
  by (cases t)
    (simp_all add: cli_value_to_logicaltype_def cli_logicaltype_to_value_def fieldless_logicaltype_def as_defs)

lemma cli_columndef_value [simp]: "cli_value_to_columndef fm (cli_columndef_to_value c) = Inr c"
  by (simp add: cli_value_to_columndef_def cli_columndef_to_value_def named_type_def as_defs)

lemma cli_duckvalue_value [simp]: "cli_value_to_duckvalue fm (cli_duckvalue_to_value v) = Inr v"
  by (cases v)
    (simp_all add: cli_value_to_duckvalue_def cli_duckvalue_to_value_def plain_arm_def record_arm_def
      bytes_to_value_list_def as_defs Let_def)

lemma row_value [simp]: "value_to_row fm (V_List (map cli_duckvalue_to_value r)) = Inr r"
  by (simp add: value_to_row_def rmap_map_id)

text \<open>
  What the core returns reaches the caller as it was: a query result, its column types
  (decimals with their shape) and every value of every row included, decodes from its encoding
  as the same result; so do column descriptors, extension records and errors.
\<close>

theorem query_result_roundtrip:
  "value_to_query_result fm (query_result_to_value qr) = Inr qr
   \<and> value_to_column_descriptor fm (column_descriptor_to_value c) = Inr c
   \<and> value_to_extension_info fm (extension_info_to_value info) = Inr info
   \<and> value_to_duckerror fm (cli_duckerror_to_value err) ctx = err"
proof (intro conjI)
  show "value_to_query_result fm (query_result_to_value qr) = Inr qr"
    by (simp add: value_to_query_result_def query_result_to_value_def rmap_map_id)
  show "value_to_column_descriptor fm (column_descriptor_to_value c) = Inr c"
    by (simp add: value_to_column_descriptor_def column_descriptor_to_value_def named_type_def as_defs)
  show "value_to_extension_info fm (extension_info_to_value info) = Inr info"
    by (simp add: value_to_extension_info_def extension_info_to_value_def rmap_map_id)
  show "value_to_duckerror fm (cli_duckerror_to_value err) ctx = err"
    by (cases err) (simp_all add: value_to_duckerror_def cli_duckerror_to_value_def)
qed

text \<open>
  The host speaks one encoding to the core and to the extensions, although it has two
  codecs for it: they encode every value, type and column alike.
\<close>

lemma one_encoding:
  "cli_duckvalue_to_value v = duckvalue_to_value v"
  "cli_logicaltype_to_value t = logicaltype_to_value t"
  "cli_columndef_to_value c = columndef_to_value c"
  "cli_duckerror_to_value e = duckerror_to_value e"
proof -
  show "cli_duckvalue_to_value v = duckvalue_to_value v"
    by (cases v) (simp_all add: cli_duckvalue_to_value_def duckvalue_to_value_def record_defs
        bytes_to_value_list_def bytes_to_value_def)
  show t: "cli_logicaltype_to_value t = logicaltype_to_value t" for t
    by (cases t) (simp_all add: cli_logicaltype_to_value_def logicaltype_to_value_def)
  show "cli_columndef_to_value c = columndef_to_value c"
    by (simp add: cli_columndef_to_value_def columndef_to_value_def t)
  show "cli_duckerror_to_value e = duckerror_to_value e"
    by (cases e) (simp_all add: cli_duckerror_to_value_def duckerror_to_value_def)
qed

text \<open>
  The decoders differ on malformed records: the extension's decimal without a scale is an error
  at the one and scale 0 at the other.
\<close>

lemma lenient_decimal:
  "cli_value_to_duckvalue fm (V_Variant ''decimal'' (Some (V_Record [(''lower'', V_U64 5)])))
     = Inr (D_Decimal \<lparr>dec_lower = 5, dec_upper = 0, dec_width = 0, dec_scale = 0\<rparr>)
   \<and> (\<exists>e. value_to_duckvalue fm (V_Variant ''decimal'' (Some (V_Record [(''lower'', V_U64 5)]))) = Inl e)"
  by (simp add: cli_value_to_duckvalue_def record_arm_def as_defs Let_def value_to_duckvalue_def
      value_to_prim_def need_def decimal_from_def field_defs)

end
