(* ===== verification/Host_Values.thy ===== *)
theory Host_Values
  imports Host_Codec Sql_Write Resolver
begin

text \<open>
  The conversions of the host (\<open>crates/ducklink-host/src/lib.rs\<close>): text forms of values, SQL types,
  identifiers and row identities, and the values of the embedded SQLite connection. The \<open>Display\<close>
  of floats and the derived \<open>Debug\<close> output of a value are parameters (\<open>printers\<close>).
\<close>

record printers =
  show_f64 :: "f64 \<Rightarrow> string"
  show_f32 :: "f32 \<Rightarrow> string"
  debug_duckvalue :: "duckvalue \<Rightarrow> string"

section \<open>Values as text\<close>

definition show_signed :: "'a::len word \<Rightarrow> string" where
  "show_signed w = show_int (sint w)"

definition wide :: "u64 \<Rightarrow> u64 \<Rightarrow> 128 word" where
  "wide up lo = or (push_bit 64 (ucast up)) (ucast lo)"

definition format_hugeint :: "u64 \<Rightarrow> i64 \<Rightarrow> string" where
  "format_hugeint lo up = show_signed (wide up lo)"

definition format_uhugeint :: "u64 \<Rightarrow> u64 \<Rightarrow> string" where
  "format_uhugeint lo up = show_word (wide up lo)"

definition format_decimal :: "u64 \<Rightarrow> u64 \<Rightarrow> u8 \<Rightarrow> u8 \<Rightarrow> string" where
  "format_decimal lo up width scale =
     (let raw = sint (wide up lo);
          digits = show_nat (nat \<bar>raw\<bar>);
          n = unat scale;
          s = (if n = 0 then digits
               else (let ds = pad0 (n + 1) digits;
                         point = length ds - n
                     in take point ds @ ''.'' @ drop point ds))
      in if raw < 0 then CHR ''-'' # s else s)"

definition hex32 :: "128 word \<Rightarrow> string" where
  "hex32 v = map (\<lambda>i. hex_digit_lower (unat (drop_bit (4 * (31 - i)) v) mod 16)) [0..<32]"

definition format_uuid :: "u64 \<Rightarrow> u64 \<Rightarrow> string" where
  "format_uuid hi lo =
     (let h = hex32 (wide hi lo)
      in take 8 h @ ''-'' @ take 4 (drop 8 h) @ ''-'' @ take 4 (drop 12 h) @ ''-''
         @ take 4 (drop 16 h) @ ''-'' @ take 12 (drop 20 h))"

definition spi_value_text :: "printers \<Rightarrow> duckvalue \<Rightarrow> string" where
  "spi_value_text pr v =
     (case v of
        D_Null \<Rightarrow> []
      | D_Boolean b \<Rightarrow> if b then ''true'' else ''false''
      | D_Int64 n \<Rightarrow> show_signed n
      | D_Uint64 n \<Rightarrow> show_word n
      | D_Float64 f \<Rightarrow> show_f64 pr f
      | D_Text s \<Rightarrow> s
      | D_Blob b \<Rightarrow> ''<blob '' @ show_nat (length b) @ '' bytes>''
      | D_Int32 n \<Rightarrow> show_signed n
      | D_Timestamp n \<Rightarrow> show_signed n
      | D_Int8 n \<Rightarrow> show_signed n
      | D_Int16 n \<Rightarrow> show_signed n
      | D_Uint8 n \<Rightarrow> show_word n
      | D_Uint16 n \<Rightarrow> show_word n
      | D_Uint32 n \<Rightarrow> show_word n
      | D_Float32 f \<Rightarrow> show_f32 pr f
      | D_Date n \<Rightarrow> show_signed n
      | D_Time n \<Rightarrow> show_signed n
      | D_Timestamptz n \<Rightarrow> show_signed n
      | D_Decimal d \<Rightarrow> format_decimal (dec_lower d) (dec_upper d) (dec_width d) (dec_scale d)
      | D_Interval iv \<Rightarrow> show_signed (iv_months iv) @ '' months '' @ show_signed (iv_days iv)
          @ '' days '' @ show_signed (iv_micros iv) @ '' us''
      | D_Uuid u \<Rightarrow> format_uuid (uuid_hi u) (uuid_lo u)
      | D_Hugeint h \<Rightarrow> format_hugeint (huge_lower h) (huge_upper h)
      | D_Uhugeint h \<Rightarrow> format_uhugeint (uhuge_lower h) (uhuge_upper h)
      | D_Complex c \<Rightarrow> cx_json c)"

text \<open>
  The views that the host, the core and the extensions have of a value are one type. Two of the
  conversions between them are the identity; the arms for wide integers that would print them come
  after the arms that keep them. The third prints them.
\<close>

definition convert_cli_duckvalue :: "duckvalue \<Rightarrow> duckvalue" where
  "convert_cli_duckvalue v =
     (case v of
        D_Null \<Rightarrow> D_Null | D_Boolean b \<Rightarrow> D_Boolean b
      | D_Int64 n \<Rightarrow> D_Int64 n | D_Uint64 n \<Rightarrow> D_Uint64 n
      | D_Float64 f \<Rightarrow> D_Float64 f | D_Text s \<Rightarrow> D_Text s
      | D_Blob b \<Rightarrow> D_Blob b | D_Int32 n \<Rightarrow> D_Int32 n
      | D_Timestamp n \<Rightarrow> D_Timestamp n | D_Int8 n \<Rightarrow> D_Int8 n
      | D_Int16 n \<Rightarrow> D_Int16 n | D_Uint8 n \<Rightarrow> D_Uint8 n
      | D_Uint16 n \<Rightarrow> D_Uint16 n | D_Uint32 n \<Rightarrow> D_Uint32 n
      | D_Float32 f \<Rightarrow> D_Float32 f | D_Date n \<Rightarrow> D_Date n
      | D_Time n \<Rightarrow> D_Time n | D_Timestamptz n \<Rightarrow> D_Timestamptz n
      | D_Decimal d \<Rightarrow> D_Decimal \<lparr>dec_lower = dec_lower d, dec_upper = dec_upper d, dec_width = dec_width d, dec_scale = dec_scale d\<rparr>
      | D_Interval iv \<Rightarrow> D_Interval \<lparr>iv_months = iv_months iv, iv_days = iv_days iv, iv_micros = iv_micros iv\<rparr>
      | D_Uuid u \<Rightarrow> D_Uuid \<lparr>uuid_hi = uuid_hi u, uuid_lo = uuid_lo u\<rparr>
      | D_Hugeint h \<Rightarrow> D_Hugeint \<lparr>huge_lower = huge_lower h, huge_upper = huge_upper h\<rparr>
      | D_Uhugeint h \<Rightarrow> D_Uhugeint \<lparr>uhuge_lower = uhuge_lower h, uhuge_upper = uhuge_upper h\<rparr>
      | D_Complex c \<Rightarrow> D_Complex \<lparr>cx_type_expr = cx_type_expr c, cx_json = cx_json c\<rparr>)"

definition convert_core_duckvalue_to_extension :: "duckvalue \<Rightarrow> duckvalue" where
  "convert_core_duckvalue_to_extension v =
     (case v of
        D_Null \<Rightarrow> D_Null | D_Boolean b \<Rightarrow> D_Boolean b
      | D_Int64 n \<Rightarrow> D_Int64 n | D_Uint64 n \<Rightarrow> D_Uint64 n
      | D_Float64 f \<Rightarrow> D_Float64 f | D_Text s \<Rightarrow> D_Text s
      | D_Blob b \<Rightarrow> D_Blob b | D_Int32 n \<Rightarrow> D_Int32 n
      | D_Timestamp n \<Rightarrow> D_Timestamp n | D_Int8 n \<Rightarrow> D_Int8 n
      | D_Int16 n \<Rightarrow> D_Int16 n | D_Uint8 n \<Rightarrow> D_Uint8 n
      | D_Uint16 n \<Rightarrow> D_Uint16 n | D_Uint32 n \<Rightarrow> D_Uint32 n
      | D_Float32 f \<Rightarrow> D_Float32 f | D_Date n \<Rightarrow> D_Date n
      | D_Time n \<Rightarrow> D_Time n | D_Timestamptz n \<Rightarrow> D_Timestamptz n
      | D_Decimal d \<Rightarrow> D_Decimal \<lparr>dec_lower = dec_lower d, dec_upper = dec_upper d, dec_width = dec_width d, dec_scale = dec_scale d\<rparr>
      | D_Interval iv \<Rightarrow> D_Interval \<lparr>iv_months = iv_months iv, iv_days = iv_days iv, iv_micros = iv_micros iv\<rparr>
      | D_Uuid u \<Rightarrow> D_Uuid \<lparr>uuid_hi = uuid_hi u, uuid_lo = uuid_lo u\<rparr>
      | D_Hugeint h \<Rightarrow> D_Hugeint \<lparr>huge_lower = huge_lower h, huge_upper = huge_upper h\<rparr>
      | D_Uhugeint h \<Rightarrow> D_Uhugeint \<lparr>uhuge_lower = uhuge_lower h, uhuge_upper = uhuge_upper h\<rparr>
      | D_Complex c \<Rightarrow> D_Complex \<lparr>cx_type_expr = cx_type_expr c, cx_json = cx_json c\<rparr>)"

definition convert_extension_duckvalue_to_core :: "duckvalue \<Rightarrow> duckvalue" where
  "convert_extension_duckvalue_to_core v =
     (case v of
        D_Null \<Rightarrow> D_Null | D_Boolean b \<Rightarrow> D_Boolean b
      | D_Int64 n \<Rightarrow> D_Int64 n | D_Uint64 n \<Rightarrow> D_Uint64 n
      | D_Float64 f \<Rightarrow> D_Float64 f | D_Text s \<Rightarrow> D_Text s
      | D_Blob b \<Rightarrow> D_Blob b | D_Int32 n \<Rightarrow> D_Int32 n
      | D_Timestamp n \<Rightarrow> D_Timestamp n | D_Int8 n \<Rightarrow> D_Int8 n
      | D_Int16 n \<Rightarrow> D_Int16 n | D_Uint8 n \<Rightarrow> D_Uint8 n
      | D_Uint16 n \<Rightarrow> D_Uint16 n | D_Uint32 n \<Rightarrow> D_Uint32 n
      | D_Float32 f \<Rightarrow> D_Float32 f | D_Date n \<Rightarrow> D_Date n
      | D_Time n \<Rightarrow> D_Time n | D_Timestamptz n \<Rightarrow> D_Timestamptz n
      | D_Decimal d \<Rightarrow> D_Decimal \<lparr>dec_lower = dec_lower d, dec_upper = dec_upper d, dec_width = dec_width d, dec_scale = dec_scale d\<rparr>
      | D_Interval iv \<Rightarrow> D_Interval \<lparr>iv_months = iv_months iv, iv_days = iv_days iv, iv_micros = iv_micros iv\<rparr>
      | D_Uuid u \<Rightarrow> D_Uuid \<lparr>uuid_hi = uuid_hi u, uuid_lo = uuid_lo u\<rparr>
      | D_Hugeint h \<Rightarrow> D_Complex \<lparr>cx_type_expr = ''HUGEINT'', cx_json = format_hugeint (huge_lower h) (huge_upper h)\<rparr>
      | D_Uhugeint h \<Rightarrow> D_Complex \<lparr>cx_type_expr = ''UHUGEINT'', cx_json = format_uhugeint (uhuge_lower h) (uhuge_upper h)\<rparr>
      | D_Complex c \<Rightarrow> D_Complex \<lparr>cx_type_expr = cx_type_expr c, cx_json = cx_json c\<rparr>)"

lemma conversions_identity [simp]:
  "convert_cli_duckvalue v = v"
  "convert_core_duckvalue_to_extension v = v"
  by (cases v; simp add: convert_cli_duckvalue_def convert_core_duckvalue_to_extension_def)+

definition cli_spi_render_rows :: "printers \<Rightarrow> query_result \<Rightarrow> string" where
  "cli_spi_render_rows pr qr =
     concat (map (\<lambda>row. join [CHR 0x09] (map (\<lambda>v. spi_value_text pr (convert_cli_duckvalue v)) row)
       @ [CHR 0x0A]) (qr_rows qr))"

section \<open>Prefix aliases\<close>

definition build_prefix_alias_macro ::
  "string \<Rightarrow> string \<Rightarrow> string \<Rightarrow> string \<Rightarrow> string list \<Rightarrow> string option" where
  "build_prefix_alias_macro ftype alias name ns params =
     (let safe = (\<lambda>s. s \<noteq> [] \<and> list_all (\<lambda>c. is_ascii_alnum c \<or> c = CHR ''_'') s);
          arg_names = map (\<lambda>(i, p). if safe p then p else ''_a'' @ show_nat i) (enumerate 0 params);
          arg_list = join '', '' arg_names
      in if ftype \<in> {''scalar'', ''scalar_macro'', ''macro''} then
           Some (''CREATE OR REPLACE MACRO '' @ alias @ ''.'' @ name @ ''('' @ arg_list @ '') AS ''
             @ ns @ ''.'' @ name @ ''('' @ arg_list @ '')'')
         else if ftype \<in> {''table'', ''table_macro''} then
           Some (''CREATE OR REPLACE MACRO '' @ alias @ ''.'' @ name @ ''('' @ arg_list
             @ '') AS TABLE SELECT * FROM '' @ ns @ ''.'' @ name @ ''('' @ arg_list @ '')'')
         else if ftype = ''aggregate'' then
           (case arg_names of
              [arg] \<Rightarrow> Some (''CREATE OR REPLACE MACRO '' @ alias @ ''.'' @ name @ ''('' @ arg
                @ '') AS list_aggregate(list('' @ arg @ ''), '' @ quoted (ns @ ''.'' @ name) @ '')'')
            | _ \<Rightarrow> None)
         else None)"

section \<open>Attached tables\<close>

definition at5_synth_fn_name :: "string \<Rightarrow> string \<Rightarrow> string" where
  "at5_synth_fn_name alias table = ''__'' @ alias @ ''_'' @ table"

definition resolve_attach_dsn_path :: "string \<Rightarrow> string option" where
  "resolve_attach_dsn_path s =
     (let raw = trim s
      in if raw = [] then None
         else (case strip_prefix ''file://'' raw of
             Some rest \<Rightarrow> Some rest
           | None \<Rightarrow> if contains ''://'' raw then None else Some raw))"

fun position :: "('a \<Rightarrow> bool) \<Rightarrow> 'a list \<Rightarrow> nat option" where
  "position p [] = None"
| "position p (x # xs) = (if p x then Some 0 else map_option Suc (position p xs))"

definition at5_locate_rowid_column :: "columndef list \<Rightarrow> string \<Rightarrow> string \<Rightarrow> duckerror + nat" where
  "at5_locate_rowid_column cols alias table =
     ok_or (position (\<lambda>c. eq_ignore_case (cd_name c) ''rowid'') cols)
       (Unsupported (''UPDATE/DELETE against '' @ alias @ ''.'' @ table
          @ '' requires the storage extension to expose a '' @ quoted ''rowid''
          @ '' column (ADR Amendment A5); the extension declared columns [''
          @ join '', '' (map cd_name cols) @ '']''))"

definition at5_duckvalue_to_i64 :: "printers \<Rightarrow> duckvalue \<Rightarrow> string + i64" where
  "at5_duckvalue_to_i64 pr v =
     (case v of
        D_Int64 n \<Rightarrow> Inr n
      | D_Int32 n \<Rightarrow> Inr (scast n)
      | D_Int16 n \<Rightarrow> Inr (scast n)
      | D_Int8 n \<Rightarrow> Inr (scast n)
      | D_Uint64 n \<Rightarrow> if unat n < 2 ^ 63 then Inr (ucast n)
                     else Inl (''u64 rowid '' @ show_word n @ '' overflows i64'')
      | D_Uint32 n \<Rightarrow> Inr (ucast n)
      | D_Uint16 n \<Rightarrow> Inr (ucast n)
      | D_Uint8 n \<Rightarrow> Inr (ucast n)
      | other \<Rightarrow> Inl (''rowid duckvalue arm '' @ debug_duckvalue pr other @ '' is not an integer''))"

definition literal_to_extension_duckvalue :: "value_literal \<Rightarrow> string + duckvalue" where
  "literal_to_extension_duckvalue lit =
     (case lit of
        VL_Null \<Rightarrow> Inr D_Null
      | VL_Integer n \<Rightarrow> Inr (D_Int64 n)
      | VL_Float f \<Rightarrow> Inr (D_Float64 f)
      | VL_String s \<Rightarrow> Inr (D_Text s)
      | VL_Blob b \<Rightarrow> Inr (D_Blob b)
      | VL_Raw expr \<Rightarrow> Inl (''unsupported expression `'' @ expr
          @ ''` in VALUES tuple (only literals NULL/int/float/'' @ quoted ''string'' @ ''/X''
          @ quoted ''hex'' @ '' are routed to the extension)''))"

definition cli_extension_duckerror :: "duckerror \<Rightarrow> duckerror" where
  "cli_extension_duckerror err =
     (case err of
        Invalidargument m \<Rightarrow> Invalidargument m
      | Unsupported m \<Rightarrow> Unsupported m
      | Invalidstate m \<Rightarrow> Invalidstate m
      | Io m \<Rightarrow> Io m
      | Internal m \<Rightarrow> Internal m)"

lemma cli_extension_duckerror_id [simp]: "cli_extension_duckerror e = e"
  by (cases e) (simp_all add: cli_extension_duckerror_def)

definition extension_duckerror_message :: "duckerror \<Rightarrow> string" where
  "extension_duckerror_message err =
     (case err of
        Invalidargument m \<Rightarrow> m | Unsupported m \<Rightarrow> m | Invalidstate m \<Rightarrow> m | Io m \<Rightarrow> m | Internal m \<Rightarrow> m)"

section \<open>SQL types\<close>

text \<open>\<open>str::split_whitespace\<close>.\<close>

function words_go :: "string \<Rightarrow> string \<Rightarrow> string list" where
  "words_go cur s =
     (if s = [] then (if cur = [] then [] else [rev cur])
      else if ws_len s = 0 then words_go (hd s # cur) (tl s)
      else (if cur = [] then [] else [rev cur]) @ words_go [] (drop (ws_len s) s))"
  by pat_completeness auto
termination
  by (relation "measure (\<lambda>(_, s). length s)") auto

declare words_go.simps [simp del]

definition split_whitespace :: "string \<Rightarrow> string list" where
  "split_whitespace s = words_go [] s"

definition parse_u8 :: "string \<Rightarrow> u8 option" where
  "parse_u8 s =
     (let ds = (case s of c # r \<Rightarrow> if c = CHR ''+'' then r else s | [] \<Rightarrow> [])
      in if ds = [] \<or> \<not> list_all is_ascii_digit ds then None
         else if decimal ds < 256 then Some (word_of_nat (decimal ds)) else None)"

definition type_names :: "(string \<times> logicaltype) list" where
  "type_names =
     [(''BOOLEAN'', L_Boolean), (''BOOL'', L_Boolean), (''TINYINT'', L_Int8), (''INT1'', L_Int8),
      (''SMALLINT'', L_Int16), (''INT2'', L_Int16), (''INT'', L_Int32), (''INTEGER'', L_Int32),
      (''INT4'', L_Int32), (''BIGINT'', L_Int64), (''INT8'', L_Int64), (''INT64'', L_Int64),
      (''HUGEINT'', L_Hugeint), (''INT128'', L_Hugeint), (''UTINYINT'', L_Uint8), (''UINT1'', L_Uint8),
      (''USMALLINT'', L_Uint16), (''UINT2'', L_Uint16), (''UINTEGER'', L_Uint32), (''UINT4'', L_Uint32),
      (''UBIGINT'', L_Uint64), (''UINT8'', L_Uint64), (''UHUGEINT'', L_Uhugeint), (''UINT128'', L_Uhugeint),
      (''REAL'', L_Float32), (''FLOAT'', L_Float32), (''FLOAT4'', L_Float32), (''DOUBLE'', L_Float64),
      (''DOUBLE PRECISION'', L_Float64), (''FLOAT8'', L_Float64), (''TEXT'', L_Text), (''VARCHAR'', L_Text),
      (''CHAR'', L_Text), (''CHARACTER'', L_Text), (''STRING'', L_Text), (''CLOB'', L_Text),
      (''BLOB'', L_Blob), (''BYTEA'', L_Blob), (''BYTES'', L_Blob), (''BINARY'', L_Blob),
      (''VARBINARY'', L_Blob), (''DATE'', L_Date), (''TIME'', L_Time), (''TIMESTAMP'', L_Timestamp),
      (''DATETIME'', L_Timestamp), (''TIMESTAMPTZ'', L_Timestamptz), (''TIMESTAMP_TZ'', L_Timestamptz),
      (''TIMESTAMP WITH TIME ZONE'', L_Timestamptz), (''INTERVAL'', L_Interval), (''UUID'', L_Uuid)]"

definition type_base :: "string \<Rightarrow> string + (string \<times> string option)" where
  "type_base s =
     (case find_sub ''('' s of
        None \<Rightarrow> Inr (s, None)
      | Some open \<Rightarrow>
          rbind (ok_or (rfind_char (CHR '')'') s) (''unbalanced parentheses in type '' @ quoted s)) (\<lambda>close.
            if close < open then Inl (''mismatched parentheses in type '' @ quoted s)
            else (let base = trim (take open s);
                      inside = trim (take (close - Suc open) (drop (Suc open) s));
                      tail = trim (drop (Suc close) s)
                  in Inr (if tail = [] then base else base @ '' '' @ tail, Some inside))))"

definition decimal_shape :: "string option \<Rightarrow> string + decimalshape" where
  "decimal_shape spec =
     (case spec of
        None \<Rightarrow> Inr \<lparr>shape_width = 18, shape_scale = 3\<rparr>
      | Some inside \<Rightarrow>
          (let small = (\<lambda>what p. ok_or (parse_u8 p)
                 (''DECIMAL '' @ what @ '' '' @ quoted p @ '' is not a small integer''))
           in case map trim (split_char (CHR '','') inside) of
                [w] \<Rightarrow> rbind (small ''width'' w) (\<lambda>width. Inr \<lparr>shape_width = width, shape_scale = 0\<rparr>)
              | [w, sc] \<Rightarrow> rbind (small ''width'' w) (\<lambda>width. rbind (small ''scale'' sc) (\<lambda>scale.
                  Inr \<lparr>shape_width = width, shape_scale = scale\<rparr>))
              | _ \<Rightarrow> Inl (''DECIMAL takes 1 or 2 args, got '' @ quoted inside)))"

definition sql_type_to_extension_logical :: "string \<Rightarrow> string + logicaltype" where
  "sql_type_to_extension_logical type_text =
     (let s = trim type_text
      in if s = [] then Inl ''empty type text''
         else rbind (type_base s) (\<lambda>(base, spec).
           (let up = upper (join '' '' (split_whitespace base))
            in case map_of type_names up of
                 Some t \<Rightarrow> Inr t
               | None \<Rightarrow>
                   if up = ''DECIMAL'' \<or> up = ''NUMERIC''
                   then rbind (decimal_shape spec) (\<lambda>sh. Inr (L_Decimal sh))
                   else Inl (''unrecognized SQL type '' @ quoted up
                     @ '' (add a mapping in sql_type_to_extension_logical if the storage backend supports it)''))))"

text \<open>The other reading of a type, in the branch of \<open>intercept_write\<close> that is never reached.\<close>

definition parse_sql_type_to_logical :: "string \<Rightarrow> logicaltype" where
  "parse_sql_type_to_logical ty =
     (let t0 = trim ty;
          t = (case find_sub ''('' t0 of Some p \<Rightarrow> trim (take p t0) | None \<Rightarrow> t0)
      in case map_of [(''INT'', L_Int32), (''INTEGER'', L_Int32), (''INT4'', L_Int32),
             (''BIGINT'', L_Int64), (''INT8'', L_Int64), (''SMALLINT'', L_Int16), (''INT2'', L_Int16),
             (''TINYINT'', L_Int8), (''UBIGINT'', L_Uint64), (''UINTEGER'', L_Uint32),
             (''USMALLINT'', L_Uint16), (''UTINYINT'', L_Uint8), (''REAL'', L_Float32),
             (''FLOAT4'', L_Float32), (''DOUBLE'', L_Float64), (''FLOAT'', L_Float64),
             (''FLOAT8'', L_Float64), (''DOUBLE PRECISION'', L_Float64), (''BOOL'', L_Boolean),
             (''BOOLEAN'', L_Boolean), (''TEXT'', L_Text), (''STRING'', L_Text), (''VARCHAR'', L_Text),
             (''CHAR'', L_Text), (''BLOB'', L_Blob), (''BYTEA'', L_Blob), (''BYTES'', L_Blob),
             (''DATE'', L_Date), (''TIME'', L_Time), (''TIMESTAMP'', L_Timestamp),
             (''DATETIME'', L_Timestamp), (''TIMESTAMPTZ'', L_Timestamptz), (''UUID'', L_Uuid)] (upper t) of
           Some l \<Rightarrow> l
         | None \<Rightarrow> L_Complex t)"

section \<open>SQLite values\<close>

datatype sqlite_value = SV_Null | SV_Integer i64 | SV_Real f64 | SV_Text string | SV_Blob "u8 list"

text \<open>\<open>f32 as f64\<close>: the same number, a NaN is quiet and keeps its payload.\<close>

definition f64_of_f32 :: "f32 \<Rightarrow> f64" where
  "f64_of_f32 w =
     (let n = unat w;
          sign = n div 2 ^ 31;
          ex = n div 2 ^ 23 mod 2 ^ 8;
          man = n mod 2 ^ 23;
          mag = (if ex = 255 then 2047 * 2 ^ 52
                     + (if man = 0 then 0 else (if man < 2 ^ 22 then man + 2 ^ 22 else man) * 2 ^ 29)
                 else if ex = 0 then
                   (if man = 0 then 0
                    else (let k = bit_length man - 1
                          in (k + 874) * 2 ^ 52 + (man - 2 ^ k) * 2 ^ (52 - k)))
                 else (ex + 896) * 2 ^ 52 + man * 2 ^ 29)
      in word_of_nat (sign * 2 ^ 63 + mag))"

definition duck_to_sqlite_value :: "printers \<Rightarrow> duckvalue \<Rightarrow> sqlite_value" where
  "duck_to_sqlite_value pr v =
     (case v of
        D_Null \<Rightarrow> SV_Null
      | D_Boolean b \<Rightarrow> SV_Integer (if b then 1 else 0)
      | D_Int64 n \<Rightarrow> SV_Integer n
      | D_Uint64 n \<Rightarrow> if unat n < 2 ^ 63 then SV_Integer (ucast n) else SV_Text (show_word n)
      | D_Float64 f \<Rightarrow> SV_Real f
      | D_Text s \<Rightarrow> SV_Text s
      | D_Blob b \<Rightarrow> SV_Blob b
      | D_Int32 n \<Rightarrow> SV_Integer (scast n)
      | D_Int16 n \<Rightarrow> SV_Integer (scast n)
      | D_Int8 n \<Rightarrow> SV_Integer (scast n)
      | D_Uint32 n \<Rightarrow> SV_Integer (ucast n)
      | D_Uint16 n \<Rightarrow> SV_Integer (ucast n)
      | D_Uint8 n \<Rightarrow> SV_Integer (ucast n)
      | D_Float32 f \<Rightarrow> SV_Real (f64_of_f32 f)
      | D_Timestamp n \<Rightarrow> SV_Integer n
      | D_Time n \<Rightarrow> SV_Integer n
      | D_Timestamptz n \<Rightarrow> SV_Integer n
      | D_Date n \<Rightarrow> SV_Integer (scast n)
      | other \<Rightarrow> SV_Text (debug_duckvalue pr other))"

definition sqlite_quote_ident :: "string \<Rightarrow> string" where
  "sqlite_quote_ident name =
     [CHR 0x22] @ concat (map (\<lambda>c. if c = CHR 0x22 then [c, c] else [c]) name) @ [CHR 0x22]"

section \<open>Properties\<close>

lemma decimal_zeros [simp]: "decimal (replicate k (CHR ''0'') @ s) = decimal s"
proof -
  have "decimal (CHR ''0'' # s) = decimal s" for s
    by (simp add: decimal_def digit_val_def byte_nat_def)
  then show ?thesis by (induction k) simp_all
qed

lemma show_nat_digits: "list_all is_ascii_digit (show_nat n)"
  using show_nat_decimal [of n] by simp

lemma pad0_digits: "list_all is_ascii_digit (pad0 k (show_nat n))" "decimal (pad0 k (show_nat n)) = n"
  using show_nat_decimal [of n] by (auto simp: pad0_def list_all_iff is_ascii_digit_def)

text \<open>
  A decimal is printed as the number it is: the digits before and after the point, read
  together, are the unscaled 128-bit integer, there are as many behind the point as the scale
  says and at least one before it, and the sign is the integer's.
\<close>

theorem decimal_text:
  "let raw = sint (wide up lo); n = unat scale; txt = format_decimal lo up width scale;
       body = (if raw < 0 then tl txt else txt)
   in (raw < 0 \<longleftrightarrow> hd txt = CHR ''-'')
      \<and> (if n = 0 then body = show_nat (nat \<bar>raw\<bar>)
         else \<exists>ip fp. body = ip @ ''.'' @ fp \<and> ip \<noteq> [] \<and> length fp = n
                \<and> list_all is_ascii_digit (ip @ fp) \<and> int (decimal (ip @ fp)) = \<bar>raw\<bar>)"
proof -
  let ?raw = "sint (wide up lo)" and ?n = "unat scale"
  let ?ds = "pad0 (?n + 1) (show_nat (nat \<bar>?raw\<bar>))"
  have len: "?n + 1 \<le> length ?ds" by (simp add: pad0_def)
  have ne: "take (length ?ds - ?n) ?ds \<noteq> []"
  proof -
    have "0 < length ?ds - ?n" "?ds \<noteq> []" using len by auto
    then show ?thesis by simp
  qed
  have dig: "list_all is_ascii_digit ?ds" "decimal ?ds = nat \<bar>?raw\<bar>" by (simp_all add: pad0_digits)
  have split: "take k ?ds @ drop k ?ds = ?ds" for k by simp
  have minus: "\<not> is_ascii_digit (CHR ''-'')" by (simp add: is_ascii_digit_def)
  have hd_nat: "hd (show_nat k) \<noteq> CHR ''-''" for k
    using show_nat_decimal [of k] minus by (cases "show_nat k") auto
  have hd_take: "hd (take (length ?ds - ?n) ?ds @ s) \<noteq> CHR ''-''" for s
  proof -
    obtain c cs where "take (length ?ds - ?n) ?ds = c # cs" using ne by (cases "take (length ?ds - ?n) ?ds") auto
    moreover from this have "c \<in> set ?ds" by (metis in_set_takeD list.set_intros(1))
    ultimately show ?thesis using dig(1) minus by (auto simp: list_all_iff)
  qed
  show ?thesis
  proof (cases "?n = 0")
    case True
    then show ?thesis using hd_nat by (simp add: format_decimal_def Let_def)
  next
    case False
    define ip fp where p: "ip = take (length ?ds - ?n) ?ds" "fp = drop (length ?ds - ?n) ?ds"
    have "int (decimal (ip @ fp)) = \<bar>?raw\<bar>" "list_all is_ascii_digit (ip @ fp)" "length fp = ?n"
      unfolding p using dig len by (simp_all only: split) simp_all
    moreover have "ip \<noteq> []" "hd (ip @ ''.'' @ fp) \<noteq> CHR ''-''" unfolding p using ne hd_take by simp_all
    moreover have "format_decimal lo up width scale =
        (if ?raw < 0 then CHR ''-'' # ip @ ''.'' @ fp else ip @ ''.'' @ fp)"
      using False by (simp only: format_decimal_def Let_def p if_False)
    ultimately show ?thesis using False by (cases "?raw < 0") (simp_all add: Let_def, blast+)
  qed
qed

text \<open>The integer that a value stands for.\<close>

definition integer_of :: "duckvalue \<Rightarrow> int option" where
  "integer_of v =
     (case v of
        D_Int64 n \<Rightarrow> Some (sint n) | D_Int32 n \<Rightarrow> Some (sint n) | D_Int16 n \<Rightarrow> Some (sint n)
      | D_Int8 n \<Rightarrow> Some (sint n) | D_Uint64 n \<Rightarrow> Some (uint n) | D_Uint32 n \<Rightarrow> Some (uint n)
      | D_Uint16 n \<Rightarrow> Some (uint n) | D_Uint8 n \<Rightarrow> Some (uint n) | _ \<Rightarrow> None)"

lemma sint_word_of_int: "- (2 ^ 63) \<le> k \<Longrightarrow> k < 2 ^ 63 \<Longrightarrow> sint (word_of_int k :: i64) = k"
  by (simp add: sint_sbintrunc' signed_take_bit_int_eq_self)

lemma i64_of_int: "- (2 ^ 63) \<le> k \<and> k < 2 ^ 63 \<and> w = word_of_int k \<longleftrightarrow> k = sint (w :: i64)"
  using sint_word_of_int [of k] sint_ge [of w] sint_lt [of w] by auto

lemma i64_inject:
  "- (2 ^ 63) \<le> k \<Longrightarrow> k < 2 ^ 63 \<Longrightarrow> n = word_of_int k \<longleftrightarrow> k = sint (n :: i64)"
  using i64_of_int [of k n] by auto

lemma narrow_signed:
  fixes w :: "'a::len word"
  assumes "LENGTH('a) \<le> 64"
  shows "- (2 ^ 63) \<le> sint w" "sint w < 2 ^ 63"
proof -
  have "(2 :: int) ^ (LENGTH('a) - 1) \<le> 2 ^ 63" using assms by (intro power_increasing) auto
  then show "- (2 ^ 63) \<le> sint w" "sint w < 2 ^ 63" using sint_ge [of w] sint_lt [of w] by linarith+
qed

lemma narrow_unsigned:
  fixes w :: "'a::len word"
  assumes "LENGTH('a) \<le> 63"
  shows "- (2 ^ 63) \<le> uint w" "uint w < 2 ^ 63"
proof -
  have "(2 :: int) ^ LENGTH('a) \<le> 2 ^ 63" using assms by (intro power_increasing) auto
  then show "- (2 ^ 63) \<le> uint w" "uint w < 2 ^ 63"
    using uint_lt2p [of w] uint_ge_0 [of w] by linarith+
qed

lemma i64_of_signed:
  "LENGTH('a) \<le> 64 \<Longrightarrow> scast (w :: 'a::len word) = (n :: i64) \<longleftrightarrow> sint w = sint n"
  unfolding scast_eq eq_commute [of _ n] by (rule i64_inject) (rule narrow_signed, assumption)+

lemma i64_of_unsigned:
  "LENGTH('a) \<le> 63 \<Longrightarrow> ucast (w :: 'a::len word) = (n :: i64) \<longleftrightarrow> uint w = sint n"
  unfolding ucast_eq eq_commute [of _ n] by (rule i64_inject) (rule narrow_unsigned, assumption)+

lemma i64_of_u64: "unat w < 2 ^ 63 \<and> ucast (w :: u64) = (n :: i64) \<longleftrightarrow> uint w = sint n"
proof (cases "unat w < 2 ^ 63")
  case True
  then have "int (unat w) < int (2 ^ 63)" by (simp only: of_nat_less_iff)
  then have "uint w < 2 ^ 63" by simp
  then have "n = word_of_int (uint w) \<longleftrightarrow> uint w = sint n"
    using uint_ge_0 [of w] by (intro i64_inject) linarith+
  then show ?thesis using True unfolding ucast_eq eq_commute [of _ n] by simp
next
  case False
  then have "int (2 ^ 63) \<le> int (unat w)" by (simp only: of_nat_le_iff not_less)
  then have "2 ^ 63 \<le> uint w" by simp
  then have "uint w \<noteq> sint n" using sint_lt [of n] by simp
  then show ?thesis using False by simp
qed

text \<open>
  A row identity is read exactly or not at all: the 64-bit identity is the integer that the
  value stands for, whatever its width and sign; an unsigned integer beyond the range and a value
  that is no integer are errors.
\<close>

lemma rowid_exact:
  "at5_duckvalue_to_i64 pr v = Inr n \<longleftrightarrow> integer_of v = Some (sint n)"
proof (cases v)
  case (D_Uint64 w)
  then show ?thesis using i64_of_u64 [of w n] by (auto simp: at5_duckvalue_to_i64_def integer_of_def)
next
  case (D_Int64 w)
  then show ?thesis using signed_word_eqI [of w n] by (auto simp add: at5_duckvalue_to_i64_def integer_of_def)
qed (simp_all add: at5_duckvalue_to_i64_def integer_of_def i64_of_signed i64_of_unsigned)

text \<open>Reading a quoted identifier, after its opening quote: two quotes are one.\<close>

fun read_ident :: "string \<Rightarrow> string \<times> string" where
  "read_ident [] = ([], [])"
| "read_ident [c] = (if c = CHR 0x22 then ([], []) else ([c], []))"
| "read_ident (c # d # s) =
     (if c = CHR 0x22 then (if d = CHR 0x22 then apfst (Cons c) (read_ident s) else ([], d # s))
      else apfst (Cons c) (read_ident (d # s)))"

lemma quoted_ident_read:
  "(s = [] \<or> hd s \<noteq> CHR 0x22) \<Longrightarrow> read_ident (tl (sqlite_quote_ident name @ s)) = (name, s)"
proof -
  assume s: "s = [] \<or> hd s \<noteq> CHR 0x22"
  have base: "read_ident (CHR 0x22 # s) = ([], s)" using s by (cases s) auto
  have plain: "c \<noteq> CHR 0x22 \<Longrightarrow> t \<noteq> [] \<Longrightarrow> read_ident (c # t) = apfst (Cons c) (read_ident t)" for c t
    by (cases t) auto
  have "read_ident (concat (map (\<lambda>c. if c = CHR 0x22 then [c, c] else [c]) name) @ CHR 0x22 # s) = (name, s)"
  proof (induction name)
    case (Cons c name)
    then show ?case using plain [of c] by simp
  qed (simp add: base)
  then show ?thesis by (simp add: sqlite_quote_ident_def)
qed

end
