(* ===== verification/Host_State.thy ===== *)
theory Host_State
  imports Host_Values Manager_Load Delta_Rewrite "HOL-Library.AList"
begin

text \<open>
  The state of the host process (\<open>HostState\<close> of \<open>crates/ducklink-host/src/lib.rs\<close>) and how it
  reaches the core: the extension manager, the resources it hands out to the command line, the
  attached catalogs, and everything outside, the state of the core component, the files and the
  embedded SQLite connections.

  A call into the core may run extensions, so it may change the manager. What the core, SQLite and
  the file system answer are parameters, the fields of \<open>host_world\<close>; so are the loaded components
  (\<open>world\<close>) and what the Delta rewrite reads.
\<close>

section \<open>State\<close>

type_synonym core_handle = "u64 \<times> u64"

record connection_entry =
  conn_handle :: core_handle
  conn_closed :: bool

record stream_entry =
  stream_handle :: core_handle
  stream_closed :: bool

record attached_catalog =
  ac_extension :: string
  ac_catalog_handle :: u32
  ac_callback_handle :: u32
  ac_type_name :: string
  ac_tables :: "string list"
  ac_table_callbacks :: "string \<rightharpoonup> u32"
  ac_dsn_path :: "string option"
  ac_read_only :: bool
  ac_persists :: bool
  ac_native :: "nat option"

record ('m, 'e) host =
  h_manager :: "'m manager"
  h_outside :: 'e
  h_current :: "core_handle option"
  h_next_id :: u32
  h_connections :: "u32 \<rightharpoonup> connection_entry"
  h_streams :: "u32 \<rightharpoonup> stream_entry"
  h_prepared :: "u32 \<rightharpoonup> core_handle"
  h_appenders :: "u32 \<rightharpoonup> core_handle"
  h_connection_drops :: "u32 list"
  h_stream_drops :: "u32 list"
  h_prepared_drops :: "u32 list"
  h_appender_drops :: "u32 list"
  h_did_autoload :: bool
  h_snapshot :: "string \<rightharpoonup> string list list"
  h_sibling_path :: "string option option"
  h_aliases :: "(string \<times> attached_catalog) list"

record ('m, 'e, 'j) host_world =
  hw_world :: "'m world"
  hw_printers :: printers
  hw_core :: "string \<Rightarrow> wvalue list \<Rightarrow> 'm manager \<times> 'e \<Rightarrow> (string + wvalue list) \<times> ('m manager \<times> 'e)"
  hw_drop :: "core_handle \<Rightarrow> 'm manager \<times> 'e \<Rightarrow> (string + unit) \<times> ('m manager \<times> 'e)"
  hw_sql_open :: "string \<Rightarrow> 'e \<Rightarrow> (string + nat) \<times> 'e"
  hw_sql_batch :: "nat \<Rightarrow> string \<Rightarrow> 'e \<Rightarrow> 'e"
  hw_sql_prepare :: "nat \<Rightarrow> string \<Rightarrow> 'e \<Rightarrow> (string + unit) \<times> 'e"
  hw_sql_execute :: "nat \<Rightarrow> string \<Rightarrow> sqlite_value list \<Rightarrow> 'e \<Rightarrow> (string + nat) \<times> 'e"
  hw_write_file :: "string \<Rightarrow> u8 list \<Rightarrow> 'e \<Rightarrow> (string + unit) \<times> 'e"
  hw_autoload :: "string option"
  hw_json :: "'j json"
  hw_parse :: "string \<Rightarrow> 'j option"
  hw_read_log :: "'e \<Rightarrow> string \<Rightarrow> string option"
  hw_preopens :: "(string \<times> string) list"

abbreviation hw_fmt :: "('m, 'e, 'j) host_world \<Rightarrow> fmt" where
  "hw_fmt W \<equiv> w_fmt (hw_world W)"

definition new_host :: "'m manager \<Rightarrow> 'e \<Rightarrow> ('m, 'e) host" where
  "new_host m e =
     \<lparr>h_manager = m, h_outside = e, h_current = None, h_next_id = 1, h_connections = Map.empty,
      h_streams = Map.empty, h_prepared = Map.empty, h_appenders = Map.empty,
      h_connection_drops = [], h_stream_drops = [], h_prepared_drops = [], h_appender_drops = [],
      h_did_autoload = False, h_snapshot = Map.empty, h_sibling_path = None, h_aliases = []\<rparr>"

section \<open>Sequencing\<close>

text \<open>The \<open>?\<close> operator in code that changes the state: the first error ends it.\<close>

definition hbind ::
  "('s \<Rightarrow> ('x + 'a) \<times> 's) \<Rightarrow> ('a \<Rightarrow> 's \<Rightarrow> ('x + 'b) \<times> 's) \<Rightarrow> 's \<Rightarrow> ('x + 'b) \<times> 's" where
  "hbind f g s =
     (case f s of
        (Inl e, s') \<Rightarrow> (Inl e, s')
      | (Inr a, s') \<Rightarrow> g a s')"

definition hpure :: "'x + 'a \<Rightarrow> 's \<Rightarrow> ('x + 'a) \<times> 's" where
  "hpure r s = (r, s)"

text \<open>A loop over a list, for its effects.\<close>

fun hfor :: "('a \<Rightarrow> 's \<Rightarrow> ('x + unit) \<times> 's) \<Rightarrow> 'a list \<Rightarrow> 's \<Rightarrow> ('x + unit) \<times> 's" where
  "hfor f [] s = (Inr (), s)"
| "hfor f (x # xs) s = hbind (f x) (\<lambda>_. hfor f xs) s"

lemma hpure_fst [simp]: "fst (hpure r s) = r" and hpure_snd [simp]: "snd (hpure r s) = s"
  by (simp_all add: hpure_def)

lemma hbind_pure [simp]:
  "hbind (hpure (Inl e)) g s = (Inl e, s)" "hbind (hpure (Inr a)) g s = g a s"
  by (simp_all add: hbind_def hpure_def)

lemma hbind_Inr: "hbind f g s = (Inr b, s') \<longleftrightarrow> (\<exists>a s1. f s = (Inr a, s1) \<and> g a s1 = (Inr b, s'))"
  by (auto simp: hbind_def split: prod.splits sum.splits)

definition on_manager ::
  "('m manager \<Rightarrow> 'a \<times> 'm manager) \<Rightarrow> ('m, 'e) host \<Rightarrow> 'a \<times> ('m, 'e) host" where
  "on_manager f h = (case f (h_manager h) of (r, m) \<Rightarrow> (r, h\<lparr>h_manager := m\<rparr>))"

definition on_outside :: "('e \<Rightarrow> 'a \<times> 'e) \<Rightarrow> ('m, 'e) host \<Rightarrow> 'a \<times> ('m, 'e) host" where
  "on_outside f h = (case f (h_outside h) of (r, e) \<Rightarrow> (r, h\<lparr>h_outside := e\<rparr>))"

section \<open>Calling the core\<close>

definition call_core ::
  "('m, 'e, 'j) host_world \<Rightarrow> string \<Rightarrow> wvalue list \<Rightarrow> ('m, 'e) host \<Rightarrow>
     (string + wvalue list) \<times> ('m, 'e) host" where
  "call_core W name args h =
     (case hw_core W name args (h_manager h, h_outside h) of
        (r, m, e) \<Rightarrow> (r, h\<lparr>h_manager := m, h_outside := e\<rparr>))"

definition drop_core ::
  "('m, 'e, 'j) host_world \<Rightarrow> core_handle \<Rightarrow> ('m, 'e) host \<Rightarrow> (string + unit) \<times> ('m, 'e) host" where
  "drop_core W handle h =
     (case hw_drop W handle (h_manager h, h_outside h) of
        (r, m, e) \<Rightarrow> (r, h\<lparr>h_manager := m, h_outside := e\<rparr>))"

definition handle_value :: "core_handle \<Rightarrow> wvalue" where
  "handle_value handle = V_Resource (fst handle) (snd handle)"

definition handle_from_value :: "wvalue \<Rightarrow> core_handle option" where
  "handle_from_value v = (case v of V_Resource s i \<Rightarrow> Some (s, i) | _ \<Rightarrow> None)"

definition call_export_on_resource ::
  "('m, 'e, 'j) host_world \<Rightarrow> string \<Rightarrow> string \<Rightarrow> core_handle \<Rightarrow> wvalue list \<Rightarrow> ('m, 'e) host \<Rightarrow>
     (string + wvalue list) \<times> ('m, 'e) host" where
  "call_export_on_resource W iface method handle args =
     call_core W (iface @ ''#'' @ method) (handle_value handle # args)"

definition unpack_unit_result :: "fmt \<Rightarrow> string \<Rightarrow> string \<Rightarrow> wvalue list \<Rightarrow> duckerror + unit" where
  "unpack_unit_result fm iface method ret =
     (case ret of
        [V_Result (Inr _)] \<Rightarrow> Inr ()
      | [V_Result (Inl (Some err))] \<Rightarrow> Inl (value_to_duckerror fm err method)
      | [V_Result (Inl None)] \<Rightarrow>
          Inl (Internal (iface @ ''.'' @ method @ '': Err arm carried no duckerror payload''))
      | other \<Rightarrow> Inl (Internal (iface @ ''.'' @ method
          @ '': expected [Value::Result(unit, duckerror)], got '' @ dbg_slice fm other)))"

definition call_export_unit_result ::
  "('m, 'e, 'j) host_world \<Rightarrow> string \<Rightarrow> string \<Rightarrow> core_handle \<Rightarrow> wvalue list \<Rightarrow> ('m, 'e) host \<Rightarrow>
     (duckerror + unit) \<times> ('m, 'e) host" where
  "call_export_unit_result W iface method handle args h =
     (case call_export_on_resource W iface method handle args h of
        (Inl e, h1) \<Rightarrow> (Inl (Internal e), h1)
      | (Inr ret, h1) \<Rightarrow> (unpack_unit_result (hw_fmt W) iface method ret, h1))"

definition call_export_no_return ::
  "('m, 'e, 'j) host_world \<Rightarrow> string \<Rightarrow> string \<Rightarrow> core_handle \<Rightarrow> wvalue list \<Rightarrow> ('m, 'e) host \<Rightarrow>
     (string + unit) \<times> ('m, 'e) host" where
  "call_export_no_return W iface method handle args h =
     (case call_export_on_resource W iface method handle args h of
        (Inl e, h1) \<Rightarrow> (Inl e, h1)
      | (Inr ret, h1) \<Rightarrow>
          (if ret = [] then Inr ()
           else Inl (iface @ ''.'' @ method @ '': expected no return values, got ''
                  @ dbg_slice (hw_fmt W) ret), h1))"

text \<open>The reply of a call that returns a result: what is in the \<open>Ok\<close>, or why there is nothing.\<close>

definition ok_payload ::
  "fmt \<Rightarrow> string \<Rightarrow> string \<Rightarrow> (string \<Rightarrow> 'x) \<Rightarrow> (wvalue \<Rightarrow> 'x + 'a) \<Rightarrow> (wvalue \<Rightarrow> 'x + 'a) \<Rightarrow>
     wvalue list \<Rightarrow> 'x + 'a" where
  "ok_payload fm what payload bad lift lift_err ret =
     (case ret of
        [V_Result (Inr (Some p))] \<Rightarrow> lift p
      | [V_Result (Inr None)] \<Rightarrow> Inl (bad (what @ '': Ok arm carried no '' @ payload))
      | [V_Result (Inl (Some p))] \<Rightarrow> lift_err p
      | [V_Result (Inl None)] \<Rightarrow> Inl (bad (what @ '': Err arm carried no duckerror payload''))
      | other \<Rightarrow> Inl (bad (what @ '': unexpected return shape '' @ dbg_slice fm other)))"

definition map_error :: "('x \<Rightarrow> 'y) \<Rightarrow> 'x + 'a \<Rightarrow> 'y + 'a" where
  "map_error f r = map_sum f (\<lambda>x. x) r"

lemma map_error_simps [simp]: "map_error f (Inl e) = Inl (f e)" "map_error f (Inr a) = Inr a"
  by (simp_all add: map_error_def)

text \<open>
  Two levels of failure: the outer one is a trap or a reply that cannot be read, the inner one the
  error that the core returned.
\<close>

definition execute_reply :: "fmt \<Rightarrow> wvalue list \<Rightarrow> string + (duckerror + query_result)" where
  "execute_reply fm ret =
     ok_payload fm ''database.execute'' ''query-result payload'' (\<lambda>s. s)
       (\<lambda>p. case value_to_query_result fm p of
            Inr qr \<Rightarrow> Inr (Inr qr)
          | Inl e \<Rightarrow> Inl (''database.execute: unpack query-result failed: '' @ e))
       (\<lambda>p. Inr (Inl (value_to_duckerror fm p ''database.execute''))) ret"

definition call_database_execute ::
  "('m, 'e, 'j) host_world \<Rightarrow> core_handle \<Rightarrow> string \<Rightarrow> ('m, 'e) host \<Rightarrow>
     (string + (duckerror + query_result)) \<times> ('m, 'e) host" where
  "call_database_execute W conn sql h =
     (case call_export_on_resource W cli_db_iface ''execute'' conn [V_String sql] h of
        (Inl trap, h1) \<Rightarrow> (Inl trap, h1)
      | (Inr ret, h1) \<Rightarrow> (execute_reply (hw_fmt W) ret, h1))"

text \<open>A statement whose trap is an internal error.\<close>

definition run_sql ::
  "('m, 'e, 'j) host_world \<Rightarrow> core_handle \<Rightarrow> string \<Rightarrow> ('m, 'e) host \<Rightarrow>
     (duckerror + query_result) \<times> ('m, 'e) host" where
  "run_sql W conn sql h =
     (case call_database_execute W conn sql h of
        (Inl trap, h1) \<Rightarrow> (Inl (Internal trap), h1)
      | (Inr r, h1) \<Rightarrow> (r, h1))"

datatype verb_err = Verb_Duck duckerror | Verb_Text string

text \<open>The reply of a call that makes a resource: its handle, or the error in the form of the call.\<close>

definition returned_resource :: "fmt \<Rightarrow> string \<Rightarrow> bool \<Rightarrow> wvalue list \<Rightarrow> string + (verb_err + core_handle)" where
  "returned_resource fm what duck ret =
     (case ret of
        [V_Result (Inr (Some p))] \<Rightarrow>
          (case handle_from_value p of
             Some handle \<Rightarrow> Inr (Inr handle)
           | None \<Rightarrow> Inl (what @ '': expected Value::Resource in Ok payload, got '' @ dbg fm p))
      | [V_Result (Inr None)] \<Rightarrow> Inl (what @ '': Ok arm carried no resource payload'')
      | [V_Result (Inl (Some p))] \<Rightarrow>
          (if duck then Inr (Inl (Verb_Duck (value_to_duckerror fm p what)))
           else (case p of
               V_String s \<Rightarrow> Inr (Inl (Verb_Text s))
             | other \<Rightarrow> Inl (what @ '': Err arm expected Value::String, got '' @ dbg fm other)))
      | [V_Result (Inl None)] \<Rightarrow> Inl (what @ '': Err arm carried no payload'')
      | other \<Rightarrow> Inl (what @ '': unexpected return shape '' @ dbg_slice fm other))"

definition call_database_returning_resource ::
  "('m, 'e, 'j) host_world \<Rightarrow> string \<Rightarrow> core_handle option \<Rightarrow> wvalue list \<Rightarrow> bool \<Rightarrow> ('m, 'e) host \<Rightarrow>
     (string + (verb_err + core_handle)) \<times> ('m, 'e) host" where
  "call_database_returning_resource W method input args duck h =
     (case call_core W (cli_db_iface @ ''#'' @ method)
         ((case input of Some i \<Rightarrow> [handle_value i] | None \<Rightarrow> []) @ args) h of
        (Inl trap, h1) \<Rightarrow> (Inl trap, h1)
      | (Inr ret, h1) \<Rightarrow> (returned_resource (hw_fmt W) (''database.'' @ method) duck ret, h1))"

section \<open>Queries of the catalog\<close>

definition text_rows :: "printers \<Rightarrow> query_result \<Rightarrow> string list list" where
  "text_rows pr qr = map (map (\<lambda>v. spi_value_text pr (convert_cli_duckvalue v))) (qr_rows qr)"

definition run_query_on_core ::
  "('m, 'e, 'j) host_world \<Rightarrow> string \<Rightarrow> ('m, 'e) host \<Rightarrow> (string + string list list) \<times> ('m, 'e) host" where
  "run_query_on_core W sql h =
     (case h_current h of
        None \<Rightarrow> (Inl ''query: no active database connection'', h)
      | Some conn \<Rightarrow>
          (case call_database_execute W conn sql h of
             (Inl trap, h1) \<Rightarrow> (Inl (''query trapped: '' @ trap), h1)
           | (Inr (Inl err), h1) \<Rightarrow> (Inl (cli_duckerror_message err), h1)
           | (Inr (Inr qr), h1) \<Rightarrow> (Inr (text_rows (hw_printers W) qr), h1)))"

definition catalog_queries :: "string list" where
  "catalog_queries =
     [''SELECT table_name FROM duckdb_tables()'',
      ''SELECT DISTINCT column_name FROM duckdb_columns()'']"

definition refresh_query ::
  "('m, 'e, 'j) host_world \<Rightarrow> string \<Rightarrow> ('m, 'e) host \<Rightarrow> ('m, 'e) host" where
  "refresh_query W sql h =
     (case run_query_on_core W sql h of
        (Inr rows, h1) \<Rightarrow> h1\<lparr>h_snapshot := (h_snapshot h1)(sql \<mapsto> rows)\<rparr>
      | (Inl _, h1) \<Rightarrow> h1)"

definition refresh_catalog_snapshot ::
  "('m, 'e, 'j) host_world \<Rightarrow> ('m, 'e) host \<Rightarrow> ('m, 'e) host" where
  "refresh_catalog_snapshot W h =
     (if \<not> m_snapshot_enabled (h_manager h) then h
      else fold (refresh_query W) catalog_queries h)"

definition alloc_resource_id :: "('m, 'e) host \<Rightarrow> u32 \<times> ('m, 'e) host" where
  "alloc_resource_id h = (h_next_id h, h\<lparr>h_next_id := max (h_next_id h + 1) 1\<rparr>)"

section \<open>A call into the core keeps the host's own tables\<close>

definition own_tables :: "('m, 'e) host \<Rightarrow> ('m, 'e) host \<Rightarrow> bool" where
  "own_tables h h' \<longleftrightarrow>
     h_connections h' = h_connections h \<and> h_streams h' = h_streams h \<and> h_prepared h' = h_prepared h
     \<and> h_appenders h' = h_appenders h \<and> h_aliases h' = h_aliases h \<and> h_next_id h' = h_next_id h
     \<and> h_current h' = h_current h"

named_theorems keeps \<open>operations that keep the host's own tables\<close>

lemma own_tables_refl [keeps]: "own_tables h h"
  by (simp add: own_tables_def)

lemma own_tables_trans: "own_tables h h1 \<Longrightarrow> own_tables h1 h2 \<Longrightarrow> own_tables h h2"
  by (simp add: own_tables_def)

lemma keeps_manager [keeps]: "own_tables h (snd (on_manager f h))"
  by (simp add: on_manager_def own_tables_def split: prod.split)

lemma keeps_outside [keeps]: "own_tables h (snd (on_outside f h))"
  by (simp add: on_outside_def own_tables_def split: prod.split)

lemma keeps_core [keeps]: "own_tables h (snd (call_core W name args h))"
  by (simp add: call_core_def own_tables_def split: prod.split)

lemma keeps_drop [keeps]: "own_tables h (snd (drop_core W handle h))"
  by (simp add: drop_core_def own_tables_def split: prod.split)

lemma keeps_bind:
  assumes "own_tables h (snd (f h))" "\<And>a h1. f h = (Inr a, h1) \<Longrightarrow> own_tables h1 (snd (g a h1))"
  shows "own_tables h (snd (hbind f g h))"
proof -
  obtain r h1 where f: "f h = (r, h1)" by (rule prod.exhaust)
  then show ?thesis
    using assms own_tables_trans [of h h1] by (cases r) (simp_all add: hbind_def)
qed

lemma keeps_call [keeps]: "own_tables h (snd (call_export_on_resource W iface method handle args h))"
  by (simp add: call_export_on_resource_def keeps_core)

lemma keeps_then:
  "own_tables h (snd r) \<Longrightarrow> own_tables h (snd (case r of (Inl e, h1) \<Rightarrow> (f e h1, h1) | (Inr a, h1) \<Rightarrow> (g a h1, h1)))"
  by (cases r; cases "fst r") auto

lemma keeps_execute [keeps]: "own_tables h (snd (call_database_execute W conn sql h))"
  using keeps_call [of h W cli_db_iface "''execute''" conn "[V_String sql]"]
  by (auto simp: call_database_execute_def split: prod.split sum.split)

lemma keeps_sql [keeps]: "own_tables h (snd (run_sql W conn sql h))"
  using keeps_execute [of h W conn sql] by (auto simp: run_sql_def split: prod.split sum.split)

lemma keeps_query: "own_tables h (snd (run_query_on_core W sql h))"
proof (cases "h_current h")
  case None
  then show ?thesis by (simp add: run_query_on_core_def own_tables_refl)
next
  case (Some conn)
  obtain r h1 where e: "call_database_execute W conn sql h = (r, h1)" by (rule prod.exhaust)
  then have "own_tables h h1" using keeps_execute [of h W conn sql] by simp
  then show ?thesis using Some e by (simp add: run_query_on_core_def split: sum.split)
qed

lemma keeps_refresh_query: "own_tables h (refresh_query W sql h)"
proof -
  obtain r h1 where e: "run_query_on_core W sql h = (r, h1)" by (rule prod.exhaust)
  then have "own_tables h h1" using keeps_query [of h W sql] by simp
  then show ?thesis using e by (simp add: refresh_query_def own_tables_def split: sum.split)
qed

lemma keeps_refresh [keeps]: "own_tables h (refresh_catalog_snapshot W h)"
proof -
  have "own_tables h (fold (refresh_query W) qs h)" for qs
  proof (induction qs arbitrary: h)
    case (Cons q qs)
    have "own_tables (refresh_query W q h) (fold (refresh_query W) qs (refresh_query W q h))"
      by (rule Cons.IH)
    then show ?case by (simp add: own_tables_trans [OF keeps_refresh_query])
  qed (simp add: own_tables_refl)
  then show ?thesis by (simp add: refresh_catalog_snapshot_def own_tables_refl)
qed

end
