(* ===== verification/Host_Write.thy ===== *)
theory Host_Write
  imports Host_State Manager_Dispatch
begin

text \<open>
  Writes to attached catalogs: the fast path over an embedded SQLite connection
  (\<open>at5_native_insert\<close>, \<open>at5_native_update\<close>, \<open>at5_native_delete\<close>), the pre-scan that finds the rows
  of an UPDATE or DELETE, the write-back of a backend that keeps its data in memory, and
  \<open>intercept_write\<close>.
\<close>

section \<open>The fast path\<close>

definition placeholders :: "nat \<Rightarrow> string" where
  "placeholders n = join '', '' (replicate n ''?'')"

definition native_insert_sql :: "string \<Rightarrow> string list \<Rightarrow> nat \<Rightarrow> string" where
  "native_insert_sql table named width =
     (if named = [] then ''INSERT INTO '' @ sqlite_quote_ident table @ '' VALUES ('' @ placeholders width @ '')''
      else ''INSERT INTO '' @ sqlite_quote_ident table @ '' (''
        @ join '', '' (map (\<lambda>c. sqlite_quote_ident (trim c)) named)
        @ '') VALUES ('' @ placeholders width @ '')'')"

definition sql_prepare ::
  "('m, 'e, 'j) host_world \<Rightarrow> nat \<Rightarrow> string \<Rightarrow> string \<Rightarrow> 'e \<Rightarrow> (duckerror + unit) \<times> 'e" where
  "sql_prepare W conn context sql e =
     apfst (map_error (\<lambda>m. Io (context @ '': '' @ m))) (hw_sql_prepare W conn sql e)"

text \<open>One execution of a statement per parameter row; the counts are added up.\<close>

fun sql_each ::
  "('m, 'e, 'j) host_world \<Rightarrow> nat \<Rightarrow> string \<Rightarrow> string \<Rightarrow> (nat \<Rightarrow> u64) \<Rightarrow> (duckerror + sqlite_value list) list \<Rightarrow>
     u64 \<Rightarrow> 'e \<Rightarrow> (duckerror + u64) \<times> 'e" where
  "sql_each W conn context sql cnt [] n e = (Inr n, e)"
| "sql_each W conn context sql cnt (Inl err # rows) n e = (Inl err, e)"
| "sql_each W conn context sql cnt (Inr params # rows) n e =
     (case hw_sql_execute W conn sql params e of
        (Inl m, e1) \<Rightarrow> (Inl (Io (context @ '': '' @ m)), e1)
      | (Inr k, e1) \<Rightarrow> sql_each W conn context sql cnt rows (n + cnt k) e1)"

definition at5_native_insert ::
  "('m, 'e, 'j) host_world \<Rightarrow> nat \<Rightarrow> string \<Rightarrow> string list \<Rightarrow> row list \<Rightarrow> 'e \<Rightarrow> (duckerror + u64) \<times> 'e" where
  "at5_native_insert W conn table named rows e =
     (if rows = [] then (Inr 0, e)
      else (let sql = native_insert_sql table named (length (hd rows))
            in hbind (sql_prepare W conn (''at5 native INSERT prepare '' @ quoted sql) sql) (\<lambda>_.
                 sql_each W conn (''at5 native INSERT into '' @ quoted table) sql (\<lambda>_. 1)
                   (map (\<lambda>row. Inr (map (duck_to_sqlite_value (hw_printers W)) row)) rows) 0) e))"

definition native_update_sql :: "string \<Rightarrow> string list \<Rightarrow> string" where
  "native_update_sql table names =
     ''UPDATE '' @ sqlite_quote_ident table @ '' SET ''
       @ join '', '' (map (\<lambda>n. sqlite_quote_ident n @ '' = ?'') names) @ '' WHERE rowid = ?''"

definition at5_native_update ::
  "('m, 'e, 'j) host_world \<Rightarrow> nat \<Rightarrow> string \<Rightarrow> columndef list \<Rightarrow> nat \<Rightarrow> i64 list \<Rightarrow> row list \<Rightarrow> 'e \<Rightarrow>
     (duckerror + u64) \<times> 'e" where
  "at5_native_update W conn table cols rowid_idx rowids rows e =
     (if rowids = [] then (Inr 0, e)
      else if length rowids \<noteq> length rows then
        (Inl (Internal (''at5 native UPDATE '' @ quoted table @ '': '' @ show_nat (length rowids)
           @ '' rowids vs '' @ show_nat (length rows) @ '' row payloads'')), e)
      else
        (let set_cols = filter (\<lambda>(i, _). i \<noteq> rowid_idx) (enumerate 0 cols);
             sql = native_update_sql table (map (\<lambda>(_, c). cd_name c) set_cols);
             params = (\<lambda>(rid, row).
               if length row < length cols then
                 Inl (Internal (''at5 native UPDATE '' @ quoted table @ '': row width ''
                   @ show_nat (length row) @ '' < declared '' @ show_nat (length cols)))
               else Inr (map (\<lambda>(i, _). duck_to_sqlite_value (hw_printers W) (row ! i)) set_cols
                      @ [SV_Integer rid]))
         in if set_cols = [] then (Inr 0, e)
            else hbind (sql_prepare W conn (''at5 native UPDATE prepare '' @ quoted sql) sql) (\<lambda>_.
                   sql_each W conn (''at5 native UPDATE on '' @ quoted table) sql word_of_nat
                     (map params (zip rowids rows)) 0) e))"

definition at5_native_delete ::
  "('m, 'e, 'j) host_world \<Rightarrow> nat \<Rightarrow> string \<Rightarrow> i64 list \<Rightarrow> 'e \<Rightarrow> (duckerror + u64) \<times> 'e" where
  "at5_native_delete W conn table rowids e =
     (if rowids = [] then (Inr 0, e)
      else (let sql = ''DELETE FROM '' @ sqlite_quote_ident table @ '' WHERE rowid = ?''
            in hbind (sql_prepare W conn (''at5 native DELETE prepare '' @ quoted sql) sql) (\<lambda>_.
                 sql_each W conn (''at5 native DELETE from '' @ quoted table) sql word_of_nat
                   (map (\<lambda>rid. Inr [SV_Integer rid]) rowids) 0) e))"

section \<open>Reading before writing\<close>

definition unknown_alias :: "string \<Rightarrow> duckerror" where
  "unknown_alias alias = Internal (''alias '' @ alias @ '' disappeared before dispatch'')"

definition dispatched ::
  "('m manager \<Rightarrow> (duckerror + 'a) \<times> 'm manager) \<Rightarrow> ('m, 'e) host \<Rightarrow> (duckerror + 'a) \<times> ('m, 'e) host" where
  "dispatched f h = apfst (map_error cli_extension_duckerror) (on_manager f h)"

definition at5_lookup_write_target ::
  "('m, 'e, 'j) host_world \<Rightarrow> string \<Rightarrow> string \<Rightarrow> ('m, 'e) host \<Rightarrow>
     (duckerror + (u32 \<times> columndef list)) \<times> ('m, 'e) host" where
  "at5_lookup_write_target W alias table =
     hbind (\<lambda>h. (ok_or (map_option ac_catalog_handle (map_of (h_aliases h) alias)) (unknown_alias alias), h)) (\<lambda>catalog.
     hbind (dispatched (dispatch_storage_table_columns (hw_world W) catalog table)) (\<lambda>cols.
       hpure (Inr (catalog, cols))))"

definition prescan_row ::
  "printers \<Rightarrow> string \<Rightarrow> nat \<Rightarrow> row \<Rightarrow> duckerror + (i64 \<times> row)" where
  "prescan_row pr what rowid_idx r =
     (let cells = map convert_cli_duckvalue r
      in if length cells \<le> rowid_idx then
           Inl (Internal (''pre-scan row for '' @ what @ '' lacks rowid column at index ''
             @ show_nat rowid_idx @ '' (row has '' @ show_nat (length cells) @ '' cells)''))
         else (case at5_duckvalue_to_i64 pr (cells ! rowid_idx) of
             Inl reason \<Rightarrow> Inl (Internal (''pre-scan row for '' @ what
                 @ '': rowid column is not an integer ('' @ reason @ '')''))
           | Inr rowid \<Rightarrow> Inr (rowid, map convert_core_duckvalue_to_extension cells)))"

definition prescan_sql :: "string \<Rightarrow> string \<Rightarrow> string option \<Rightarrow> string" where
  "prescan_sql alias table where_clause =
     ''SELECT * FROM '' @ alias @ ''.main.'' @ table
       @ (case where_clause of Some p \<Rightarrow> '' WHERE '' @ p | None \<Rightarrow> [])"

definition at5_prescan_rows ::
  "('m, 'e, 'j) host_world \<Rightarrow> core_handle \<Rightarrow> string \<Rightarrow> string \<Rightarrow> nat \<Rightarrow> string option \<Rightarrow> ('m, 'e) host \<Rightarrow>
     (duckerror + (i64 list \<times> row list)) \<times> ('m, 'e) host" where
  "at5_prescan_rows W conn alias table rowid_idx where_clause =
     hbind (run_sql W conn (prescan_sql alias table where_clause)) (\<lambda>qr.
       hpure (rbind (rmap (prescan_row (hw_printers W) (alias @ ''.'' @ table) rowid_idx) (qr_rows qr))
         (\<lambda>pairs. Inr (map fst pairs, map snd pairs))))"

section \<open>Writing back\<close>

definition at5_write_back ::
  "('m, 'e, 'j) host_world \<Rightarrow> string \<Rightarrow> u32 \<Rightarrow> ('m, 'e) host \<Rightarrow> (duckerror + unit) \<times> ('m, 'e) host" where
  "at5_write_back W alias catalog h =
     (case map_of (h_aliases h) alias of
        None \<Rightarrow> (Inr (), h)
      | Some c \<Rightarrow>
          if ac_read_only c \<or> ac_persists c then (Inr (), h)
          else (case ac_dsn_path c of
              None \<Rightarrow> (Inr (), h)
            | Some path \<Rightarrow>
                (case on_manager (dispatch_storage_serialize (hw_world W) catalog) h of
                   (Inl (Unsupported _), h1) \<Rightarrow> (Inr (), h1)
                 | (Inl err, h1) \<Rightarrow> (Inl (cli_extension_duckerror err), h1)
                 | (Inr bytes, h1) \<Rightarrow>
                     apfst (map_error (\<lambda>e. Io (''AT5 write-back to '' @ path @ '': '' @ e)))
                       (on_outside (hw_write_file W path bytes) h1))))"

section \<open>Intercepted writes\<close>

definition not_supported :: "string \<Rightarrow> duckerror" where
  "not_supported reason =
     Unsupported (''Operation not supported on @5 attached tables: '' @ reason
       @ ''. Use the native duckdb build if this pattern is required.'')"

definition insert_row ::
  "string \<Rightarrow> string list \<Rightarrow> value_literal list \<Rightarrow> duckerror + row" where
  "insert_row what named lits =
     (if named \<noteq> [] \<and> length lits \<noteq> length named then
        Inl (Invalidargument (''INSERT into '' @ what @ '': '' @ show_nat (length lits)
          @ '' values for '' @ show_nat (length named) @ '' named columns''))
      else rmap (\<lambda>l. map_error not_supported (literal_to_extension_duckvalue l)) lits)"

text \<open>After a write that the extension was asked to do.\<close>

definition finish_write ::
  "('m, 'e, 'j) host_world \<Rightarrow> string \<Rightarrow> u32 \<Rightarrow> ('m, 'e) host \<Rightarrow> (duckerror + query_result) \<times> ('m, 'e) host" where
  "finish_write W alias catalog =
     hbind (at5_write_back W alias catalog) (\<lambda>_. hpure (Inr empty_query_result))"

definition intercept_insert ::
  "('m, 'e, 'j) host_world \<Rightarrow> string \<Rightarrow> string \<Rightarrow> string list \<Rightarrow> value_literal list list \<Rightarrow> ('m, 'e) host \<Rightarrow>
     (duckerror + query_result) \<times> ('m, 'e) host" where
  "intercept_insert W alias table named rows h =
     (case map_of (h_aliases h) alias of
        None \<Rightarrow> (Inl (unknown_alias alias), h)
      | Some c \<Rightarrow>
          hbind (hpure (rmap (insert_row (alias @ ''.'' @ table) named) rows)) (\<lambda>ext_rows.
            case ac_native c of
              Some conn \<Rightarrow>
                hbind (on_outside (at5_native_insert W conn table named ext_rows)) (\<lambda>_.
                  hpure (Inr empty_query_result))
            | None \<Rightarrow>
                hbind (dispatched (dispatch_storage_insert_direct (hw_world W) (ac_catalog_handle c) table
                    ext_rows)) (\<lambda>_.
                  finish_write W alias (ac_catalog_handle c))) h)"

definition assignment_values :: "(string \<times> string) list \<Rightarrow> duckerror + (string \<times> duckvalue) list" where
  "assignment_values =
     rmap (\<lambda>(col, expr). rbind (map_error not_supported
         (literal_to_extension_duckvalue (parse_value_literal expr))) (\<lambda>v. Inr (col, v)))"

definition assignment_indices ::
  "string \<Rightarrow> columndef list \<Rightarrow> (string \<times> duckvalue) list \<Rightarrow> duckerror + (nat \<times> duckvalue) list" where
  "assignment_indices what cols =
     rmap (\<lambda>(col, v). rbind (ok_or (position (\<lambda>c. eq_ignore_case (cd_name c) col) cols)
         (Invalidargument (''UPDATE '' @ what @ '': column '' @ quoted col
            @ '' is not declared by the storage extension''))) (\<lambda>i. Inr (i, v)))"

text \<open>The values of the assignments, in their order, at their places in the row.\<close>

definition merge_row :: "(nat \<times> duckvalue) list \<Rightarrow> row \<Rightarrow> row" where
  "merge_row asgs r = fold (\<lambda>(i, v) r. r[i := v]) asgs r"

definition intercept_update ::
  "('m, 'e, 'j) host_world \<Rightarrow> core_handle \<Rightarrow> string \<Rightarrow> string \<Rightarrow> (string \<times> string) list \<Rightarrow> string option \<Rightarrow>
     ('m, 'e) host \<Rightarrow> (duckerror + query_result) \<times> ('m, 'e) host" where
  "intercept_update W conn alias table assignments where_clause =
     (let what = alias @ ''.'' @ table
      in hbind (at5_lookup_write_target W alias table) (\<lambda>(catalog, cols) h.
           let native = Option.bind (map_of (h_aliases h) alias) ac_native
           in hbind (hpure (at5_locate_rowid_column cols alias table)) (\<lambda>rowid_idx.
              hbind (hpure (rbind (assignment_values assignments) (assignment_indices what cols))) (\<lambda>asgs.
              hbind (at5_prescan_rows W conn alias table rowid_idx where_clause) (\<lambda>(rowids, current).
                if rowids = [] then hpure (Inr empty_query_result)
                else (let updated = map (merge_row asgs) current
                      in case native of
                           Some c \<Rightarrow>
                             hbind (on_outside (at5_native_update W c table cols rowid_idx rowids updated)) (\<lambda>_.
                               hpure (Inr empty_query_result))
                         | None \<Rightarrow>
                             hbind (dispatched (dispatch_storage_update_direct (hw_world W) catalog table
                                 rowids updated)) (\<lambda>_.
                               finish_write W alias catalog))))) h))"

definition intercept_delete ::
  "('m, 'e, 'j) host_world \<Rightarrow> core_handle \<Rightarrow> string \<Rightarrow> string \<Rightarrow> string option \<Rightarrow>
     ('m, 'e) host \<Rightarrow> (duckerror + query_result) \<times> ('m, 'e) host" where
  "intercept_delete W conn alias table where_clause =
     hbind (at5_lookup_write_target W alias table) (\<lambda>(catalog, cols) h.
       let native = Option.bind (map_of (h_aliases h) alias) ac_native
       in hbind (hpure (at5_locate_rowid_column cols alias table)) (\<lambda>rowid_idx.
          hbind (at5_prescan_rows W conn alias table rowid_idx where_clause) (\<lambda>(rowids, _).
            if rowids = [] then hpure (Inr empty_query_result)
            else (case native of
                Some c \<Rightarrow>
                  hbind (on_outside (at5_native_delete W c table rowids)) (\<lambda>_. hpure (Inr empty_query_result))
              | None \<Rightarrow>
                  hbind (dispatched (dispatch_storage_delete_direct (hw_world W) catalog table rowids)) (\<lambda>_.
                    finish_write W alias catalog)))) h)"

definition create_column :: "string \<Rightarrow> create_table_column \<Rightarrow> duckerror + columndef" where
  "create_column what col =
     (case sql_type_to_extension_logical (col_type col) of
        Inr logical \<Rightarrow> Inr \<lparr>cd_name = col_name col, cd_logical = logical\<rparr>
      | Inl reason \<Rightarrow> Inl (not_supported (''CREATE TABLE '' @ what @ '': column '' @ quoted (col_name col)
          @ '' type '' @ quoted (col_type col) @ '' -- '' @ reason)))"

definition intercept_create_table ::
  "('m, 'e, 'j) host_world \<Rightarrow> string \<Rightarrow> string \<Rightarrow> create_table_column list \<Rightarrow> bool \<Rightarrow>
     ('m, 'e) host \<Rightarrow> (duckerror + query_result) \<times> ('m, 'e) host" where
  "intercept_create_table W alias table cols if_not_exists h =
     (case map_of (h_aliases h) alias of
        None \<Rightarrow> (Inl (unknown_alias alias), h)
      | Some c \<Rightarrow>
          (let catalog = ac_catalog_handle c
           in hbind (if if_not_exists then dispatched (dispatch_storage_list_tables (hw_world W) catalog)
                     else hpure (Inr [])) (\<lambda>existing.
                if list_ex (\<lambda>t. eq_ignore_case t table) existing then hpure (Inr empty_query_result)
                else hbind (hpure (rmap (create_column (alias @ ''.'' @ table)) cols)) (\<lambda>ext_cols.
                  hbind (dispatched (dispatch_storage_create_table_direct (hw_world W) catalog table ext_cols)) (\<lambda>_.
                    finish_write W alias catalog))) h))"

definition intercept_write ::
  "('m, 'e, 'j) host_world \<Rightarrow> core_handle \<Rightarrow> write_route \<Rightarrow> ('m, 'e) host \<Rightarrow>
     (duckerror + query_result) \<times> ('m, 'e) host" where
  "intercept_write W conn route =
     (case route of
        Route_Unsupported reason \<Rightarrow> hpure (Inl (not_supported reason))
      | Insert alias table named rows \<Rightarrow> intercept_insert W alias table named rows
      | Update alias table asgs where_clause \<Rightarrow> intercept_update W conn alias table asgs where_clause
      | Create_Table alias table cols if_not_exists \<Rightarrow>
          intercept_create_table W alias table cols if_not_exists
      | Delete alias table where_clause \<Rightarrow> intercept_delete W conn alias table where_clause)"

end
