(* ===== verification/Host_Statements.thy ===== *)
theory Host_Statements
  imports Host_Write
begin

text \<open>
  What the host runs on its own behalf around the user's statements
  (\<open>crates/ducklink-host/src/lib.rs\<close>): the extensions it loads at the first connection
  (\<open>maybe_autoload\<close>), the discovery schema (\<open>create_ducklink_schema\<close>), the replay of deferred loads
  (\<open>flush_deferred_ducklink_loads\<close>) and of prefix declarations
  (\<open>flush_deferred_prefix_declarations\<close>). None of them can fail the user's statement: errors and
  traps are logged and skipped. The logged lines are not modelled.
\<close>

section \<open>Statements whose failure is only logged\<close>

definition run_logged ::
  "('m, 'e, 'j) host_world \<Rightarrow> core_handle \<Rightarrow> string \<Rightarrow> ('m, 'e) host \<Rightarrow> ('m, 'e) host" where
  "run_logged W conn sql h = snd (call_database_execute W conn sql h)"

definition load_name :: "string \<Rightarrow> bool" where
  "load_name name \<longleftrightarrow> list_all (\<lambda>c. is_ascii_alnum c \<or> c = CHR ''_'' \<or> c = CHR ''-'') name"

definition load_sql :: "string \<Rightarrow> string" where
  "load_sql name = ''LOAD '' @ name @ '';''"

section \<open>Deferred loads\<close>

definition flush_deferred_ducklink_loads ::
  "('m, 'e, 'j) host_world \<Rightarrow> core_handle \<Rightarrow> ('m, 'e) host \<Rightarrow> ('m, 'e) host" where
  "flush_deferred_ducklink_loads W conn h =
     (case on_manager take_deferred_drain_names h of
        (names, h1) \<Rightarrow> fold (\<lambda>name. if load_name name then run_logged W conn (load_sql name) else (\<lambda>h. h))
          names h1)"

section \<open>Prefix declarations\<close>

definition prefix_result :: "string + (duckerror + 'a) \<Rightarrow> string + 'a" where
  "prefix_result r =
     (case r of
        Inl trap \<Rightarrow> Inl (''trap: '' @ trap)
      | Inr (Inl err) \<Rightarrow> Inl (cli_duckerror_message err)
      | Inr (Inr a) \<Rightarrow> Inr a)"

definition run_prefix_ddl ::
  "('m, 'e, 'j) host_world \<Rightarrow> core_handle \<Rightarrow> string \<Rightarrow> ('m, 'e) host \<Rightarrow> (string + unit) \<times> ('m, 'e) host" where
  "run_prefix_ddl W conn sql h =
     (case call_database_execute W conn sql h of
        (r, h1) \<Rightarrow> (map_sum (\<lambda>e. e) (\<lambda>_. ()) (prefix_result r), h1))"

definition run_prefix_query ::
  "('m, 'e, 'j) host_world \<Rightarrow> core_handle \<Rightarrow> string \<Rightarrow> ('m, 'e) host \<Rightarrow>
     (string + string list list) \<times> ('m, 'e) host" where
  "run_prefix_query W conn sql h =
     (case call_database_execute W conn sql h of
        (r, h1) \<Rightarrow> (map_sum (\<lambda>e. e) (text_rows (hw_printers W)) (prefix_result r), h1))"

definition nth_or_empty :: "string list \<Rightarrow> nat \<Rightarrow> string" where
  "nth_or_empty row i = (if i < length row then row ! i else [])"

definition csv_params :: "string \<Rightarrow> string list" where
  "csv_params csv = (if csv = [] then [] else filter (\<lambda>s. s \<noteq> []) (map trim (split_char CHR '','' csv)))"

text \<open>
  The loop over the functions of the namespace: a name with an arity that was seen is skipped, and
  a macro that the core refuses is not counted.
\<close>

fun alias_functions ::
  "('m, 'e, 'j) host_world \<Rightarrow> core_handle \<Rightarrow> string \<Rightarrow> string \<Rightarrow> string list list \<Rightarrow>
     (string \<times> nat) set \<Rightarrow> nat \<Rightarrow> ('m, 'e) host \<Rightarrow> nat \<times> ('m, 'e) host" where
  "alias_functions W conn alias namespace [] done created h = (created, h)"
| "alias_functions W conn alias namespace (row # rows) done created h =
     (let name = nth_or_empty row 0;
          params = csv_params (nth_or_empty row 2);
          sig = (name, length params)
      in if \<not> is_safe_prefix_identifier name then
           alias_functions W conn alias namespace rows done created h
         else if sig \<in> done then alias_functions W conn alias namespace rows done created h
         else (case build_prefix_alias_macro (nth_or_empty row 1) alias name namespace params of
             None \<Rightarrow> alias_functions W conn alias namespace rows (insert sig done) created h
           | Some sql \<Rightarrow>
               (case run_prefix_ddl W conn sql h of
                  (Inr _, h1) \<Rightarrow>
                    alias_functions W conn alias namespace rows (insert sig done) (created + 1) h1
                | (Inl _, h1) \<Rightarrow>
                    alias_functions W conn alias namespace rows (insert sig done) created h1)))"

definition functions_sql :: "string \<Rightarrow> string" where
  "functions_sql namespace =
     ''SELECT DISTINCT function_name, function_type, COALESCE(array_to_string(parameters, '' @ quoted '',''
       @ ''), '' @ quoted [] @ '') AS param_csv FROM duckdb_functions() WHERE schema_name = ''
       @ quoted namespace @ '' AND function_type IN ('' @ quoted ''scalar'' @ '','' @ quoted ''aggregate''
       @ '','' @ quoted ''table_macro'' @ '','' @ quoted ''scalar_macro'' @ '','' @ quoted ''macro''
       @ '','' @ quoted ''table'' @ '')''"

definition escape_quotes :: "string \<Rightarrow> string" where
  "escape_quotes s = str_replace [CHR 0x27] [CHR 0x27, CHR 0x27] s"

definition persist_sql :: "string \<Rightarrow> string \<Rightarrow> string" where
  "persist_sql alias namespace =
     ''INSERT OR REPLACE INTO ducklink.prefixes (alias, namespace) VALUES (''
       @ quoted (escape_quotes alias) @ '', '' @ quoted (escape_quotes namespace) @ '')''"

definition apply_prefix_declaration ::
  "('m, 'e, 'j) host_world \<Rightarrow> core_handle \<Rightarrow> string \<Rightarrow> string \<Rightarrow> ('m, 'e) host \<Rightarrow>
     (string + nat) \<times> ('m, 'e) host" where
  "apply_prefix_declaration W conn alias namespace =
     hbind (run_prefix_ddl W conn (''CREATE SCHEMA IF NOT EXISTS '' @ alias)) (\<lambda>_.
     hbind (run_prefix_query W conn (functions_sql namespace)) (\<lambda>rows h.
       case alias_functions W conn alias namespace rows {} 0 h of
         (created, h1) \<Rightarrow>
           (Inr created, snd (run_prefix_ddl W conn (persist_sql alias namespace) h1))))"

definition flush_prefix ::
  "('m, 'e, 'j) host_world \<Rightarrow> core_handle \<Rightarrow> string \<times> string \<Rightarrow> ('m, 'e) host \<Rightarrow> ('m, 'e) host" where
  "flush_prefix W conn pair h =
     (if \<not> is_safe_prefix_identifier (fst pair) \<or> \<not> is_safe_prefix_identifier (snd pair) then h
      else snd (apply_prefix_declaration W conn (fst pair) (snd pair) h))"

definition flush_deferred_prefix_declarations ::
  "('m, 'e, 'j) host_world \<Rightarrow> core_handle \<Rightarrow> ('m, 'e) host \<Rightarrow> ('m, 'e) host" where
  "flush_deferred_prefix_declarations W conn h =
     (case on_manager take_deferred_prefix_declarations h of
        (pairs, h1) \<Rightarrow> fold (flush_prefix W conn) pairs h1)"

section \<open>The discovery schema\<close>

definition typed_null :: "string \<times> string \<Rightarrow> string" where
  "typed_null c = ''CAST(NULL AS '' @ snd c @ '') AS '' @ fst c"

text \<open>The columns of a view without rows; the literals of the source are indented continuation lines.\<close>

definition null_columns :: "(string \<times> string) list \<Rightarrow> string" where
  "null_columns cols = ''SELECT '' @ join '', '' (map typed_null cols) @ '' WHERE FALSE''"

definition null_view :: "string \<Rightarrow> (string \<times> string) list \<Rightarrow> string" where
  "null_view name cols = ''CREATE OR REPLACE VIEW ducklink.'' @ name @ '' AS '' @ null_columns cols"

abbreviation (input) varchar :: "string \<Rightarrow> string \<times> string" where
  "varchar n \<equiv> (n, ''VARCHAR'')"

definition discovery_ddl :: "string list" where
  "discovery_ddl =
     [''CREATE SCHEMA IF NOT EXISTS ducklink'',
      ''CREATE TABLE IF NOT EXISTS ducklink.prefixes ( alias VARCHAR PRIMARY KEY, namespace VARCHAR NOT NULL)'',
      null_view ''modules'' [varchar ''name'', varchar ''version'', varchar ''description'',
        varchar ''categories'', (''loaded'', ''BOOLEAN''), (''native_available'', ''BOOLEAN''),
        (''scalars'', ''INTEGER''), (''tables'', ''INTEGER''), (''aggregates'', ''INTEGER''),
        varchar ''capabilities'', (''compatible'', ''BOOLEAN'')],
      null_view ''functions'' [varchar ''module'', varchar ''name'', varchar ''kind'',
        varchar ''arguments'', varchar ''returns'', (''loaded'', ''BOOLEAN'')],
      null_view ''host'' [varchar ''wasm_abi'', varchar ''duckdb_version''],
      null_view ''host_capabilities'' [varchar ''name'', (''available'', ''BOOLEAN''), varchar ''detail''],
      null_view ''cache'' [varchar ''digest'', varchar ''name'', (''bytes'', ''BIGINT''),
        (''modified'', ''TIMESTAMP''), varchar ''path''],
      null_view ''module_compatibility'' [varchar ''module'', varchar ''module_generation'',
        varchar ''host_generation'', varchar ''lifecycle'', (''runnable'', ''BOOLEAN''),
        (''selected'', ''BOOLEAN'')],
      null_view ''events'' [(''seq'', ''BIGINT''), (''ts'', ''TIMESTAMP''), varchar ''kind'',
        varchar ''module'', varchar ''detail''],
      null_view ''docs'' [varchar ''module'', varchar ''function'', varchar ''kind'', varchar ''signature'',
        varchar ''summary'', varchar ''description'', varchar ''example'', varchar ''tags'',
        (''loaded'', ''BOOLEAN'')],
      ''CREATE OR REPLACE MACRO ducklink.search(query) AS TABLE ''
        @ null_columns [varchar ''module'', varchar ''function'', varchar ''kind'', varchar ''signature'',
            varchar ''summary'', varchar ''tags'', (''score'', ''BIGINT'')]]"

definition prefix_macro_ddl :: string where
  "prefix_macro_ddl =
     ''CREATE OR REPLACE MACRO PREFIX(alias, namespace) AS ducklink_prefix(alias, namespace)''"

definition ducklink_prefix_scalar_registered ::
  "('m, 'e, 'j) host_world \<Rightarrow> core_handle \<Rightarrow> ('m, 'e) host \<Rightarrow> bool \<times> ('m, 'e) host" where
  "ducklink_prefix_scalar_registered W conn h =
     (case call_database_execute W conn
             (''SELECT 1 FROM duckdb_functions() WHERE function_name = '' @ quoted ''ducklink_prefix''
                @ '' AND function_type = '' @ quoted ''scalar'' @ '' LIMIT 1'') h of
        (r, h1) \<Rightarrow> (case r of Inr (Inr qr) \<Rightarrow> qr_rows qr \<noteq> [] | _ \<Rightarrow> False, h1))"

definition create_ducklink_schema ::
  "('m, 'e, 'j) host_world \<Rightarrow> core_handle \<Rightarrow> ('m, 'e) host \<Rightarrow> ('m, 'e) host" where
  "create_ducklink_schema W conn h =
     (case ducklink_prefix_scalar_registered W conn (fold (run_logged W conn) discovery_ddl h) of
        (present, h1) \<Rightarrow> if present then run_logged W conn prefix_macro_ddl h1 else h1)"

section \<open>Autoload\<close>

text \<open>
  \<open>DUCKLINK_AUTOLOAD\<close>, split at commas and white space; empty pieces are skipped, so that is the
  words of the pieces between the commas.
\<close>

definition autoload_names :: "string option \<Rightarrow> string list" where
  "autoload_names var =
     concat (map split_whitespace (split_char CHR '',''
       (case var of Some s \<Rightarrow> s | None \<Rightarrow> ''jsonfns,ducklink_scalars'')))"

definition maybe_autoload :: "('m, 'e, 'j) host_world \<Rightarrow> ('m, 'e) host \<Rightarrow> ('m, 'e) host" where
  "maybe_autoload W h =
     (if h_did_autoload h then h
      else (let h1 = h\<lparr>h_did_autoload := True\<rparr>
            in case h_current h1 of
                 None \<Rightarrow> h1
               | Some conn \<Rightarrow>
                   create_ducklink_schema W conn
                     (fold (\<lambda>name. if load_name name then run_logged W conn (load_sql name) else (\<lambda>h. h))
                       (autoload_names (hw_autoload W)) h1)))"

section \<open>The host's own tables are kept\<close>

lemma keeps_logged [keeps]: "own_tables h (run_logged W conn sql h)"
  by (simp add: run_logged_def keeps_execute)

lemma keeps_fold:
  assumes "\<And>x h. own_tables h (f x h)"
  shows "own_tables h (fold f xs h)"
proof (induction xs arbitrary: h)
  case (Cons x xs)
  show ?case using own_tables_trans [OF assms [of h x] Cons.IH [of "f x h"]] by simp
qed (simp add: own_tables_refl)

lemma keeps_flush_loads [keeps]: "own_tables h (flush_deferred_ducklink_loads W conn h)"
proof -
  obtain names h1 where t: "on_manager take_deferred_drain_names h = (names, h1)" by (rule prod.exhaust)
  then have "own_tables h h1" using keeps_manager [of h take_deferred_drain_names] by simp
  moreover have "own_tables h1 (fold (\<lambda>name. if load_name name then run_logged W conn (load_sql name)
      else (\<lambda>h. h)) names h1)"
    by (rule keeps_fold) (simp add: keeps_logged own_tables_refl)
  ultimately show ?thesis using t own_tables_trans by (simp add: flush_deferred_ducklink_loads_def)
qed

lemma keeps_ddl [keeps]: "own_tables h (snd (run_prefix_ddl W conn sql h))"
  using keeps_execute [of h W conn sql] by (simp add: run_prefix_ddl_def split_beta)

lemma keeps_prefix_query [keeps]: "own_tables h (snd (run_prefix_query W conn sql h))"
  using keeps_execute [of h W conn sql] by (simp add: run_prefix_query_def split_beta)

lemma keeps_alias_functions: "own_tables h (snd (alias_functions W conn alias ns rows seen n h))"
proof (induction rows arbitrary: seen n h)
  case (Cons row rows)
  have "own_tables h (snd (alias_functions W conn alias ns rows d k (snd (run_prefix_ddl W conn sql h))))"
    for sql d k
    using own_tables_trans [OF keeps_ddl Cons.IH] .
  then show ?case
    using Cons.IH
    by (simp add: Let_def split: option.split prod.split sum.split) (metis snd_conv)
qed (simp add: own_tables_refl)

lemma keeps_prefix_declaration: "own_tables h (snd (apply_prefix_declaration W conn alias ns h))"
  unfolding apply_prefix_declaration_def
proof (intro keeps_bind keeps)
  fix rows :: "string list list" and h1 :: "('a, 'b) host"
  obtain n h2 where a: "alias_functions W conn alias ns rows {} 0 h1 = (n, h2)" by (rule prod.exhaust)
  then have "own_tables h1 h2" using keeps_alias_functions [of h1 W conn "alias" ns rows "{}" 0] by simp
  then show "own_tables h1 (snd (case alias_functions W conn alias ns rows {} 0 h1 of
      (created, h2) \<Rightarrow> (Inr created, snd (run_prefix_ddl W conn (persist_sql alias ns) h2))))"
    using own_tables_trans [OF _ keeps_ddl] a by simp
qed

lemma keeps_flush_prefixes [keeps]: "own_tables h (flush_deferred_prefix_declarations W conn h)"
proof -
  obtain ps h1 where t: "on_manager take_deferred_prefix_declarations h = (ps, h1)" by (rule prod.exhaust)
  then have "own_tables h h1" using keeps_manager [of h take_deferred_prefix_declarations] by simp
  moreover have "own_tables h1 (fold (flush_prefix W conn) ps h1)"
    by (rule keeps_fold) (simp add: flush_prefix_def keeps_prefix_declaration own_tables_refl)
  ultimately show ?thesis using t own_tables_trans by (simp add: flush_deferred_prefix_declarations_def)
qed

lemma keeps_schema: "own_tables h (create_ducklink_schema W conn h)"
proof -
  let ?h = "fold (run_logged W conn) discovery_ddl h"
  obtain b h1 where p: "ducklink_prefix_scalar_registered W conn ?h = (b, h1)" by (rule prod.exhaust)
  have "own_tables h ?h" by (rule keeps_fold) (rule keeps_logged)
  moreover have "own_tables ?h (snd (ducklink_prefix_scalar_registered W conn ?h))"
    unfolding ducklink_prefix_scalar_registered_def
    using keeps_execute by (simp add: split_beta)
  ultimately have "own_tables h h1" using p own_tables_trans [of h ?h h1] by simp
  then show ?thesis
    using p own_tables_trans [OF \<open>own_tables h h1\<close> keeps_logged [of h1 W]]
    by (simp add: create_ducklink_schema_def)
qed

lemma keeps_autoload [keeps]: "own_tables h (maybe_autoload W h)"
proof (cases "h_did_autoload h \<or> h_current h = None")
  case True
  then show ?thesis by (auto simp: maybe_autoload_def own_tables_def Let_def)
next
  case False
  then obtain conn where c: "h_current h = Some conn" by auto
  let ?step = "\<lambda>name. if load_name name then run_logged W conn (load_sql name) else (\<lambda>h. h)"
  have "own_tables (h\<lparr>h_did_autoload := True\<rparr>)
      (fold ?step (autoload_names (hw_autoload W)) (h\<lparr>h_did_autoload := True\<rparr>))"
    by (rule keeps_fold) (simp add: keeps_logged own_tables_refl)
  then have a: "own_tables h (fold ?step (autoload_names (hw_autoload W)) (h\<lparr>h_did_autoload := True\<rparr>))"
    by (simp add: own_tables_def)
  then show ?thesis
    using False c own_tables_trans [OF a keeps_schema [of _ W conn]] by (simp add: maybe_autoload_def Let_def)
qed

end
