(* ===== verification/Host_Attach.thy ===== *)
theory Host_Attach
  imports Host_Statements
begin

text \<open>
  Attaching a foreign database (\<open>intercept_attach\<close> of \<open>crates/ducklink-host/src/lib.rs\<close>): the
  extension opens the catalog and lists its tables, every table becomes a table function of the core
  that scans it, and a view of the attached name reads from that function.

  The search for a free scan handle runs forever when none is left, so attaching is \<^const>\<open>None\<close>
  then; \<open>attach_returns\<close> says that this is the only way.
\<close>

section \<open>The catalog of the extension\<close>

record table_shape =
  shape_name :: string
  shape_columns :: "column_descriptor list"
  shape_callback :: u32

definition convert_extension_logicaltype_to_cli :: "logicaltype \<Rightarrow> logicaltype" where
  "convert_extension_logicaltype_to_cli ty =
     (case ty of
        L_Boolean \<Rightarrow> L_Boolean | L_Int64 \<Rightarrow> L_Int64 | L_Uint64 \<Rightarrow> L_Uint64 | L_Float64 \<Rightarrow> L_Float64
      | L_Text \<Rightarrow> L_Text | L_Blob \<Rightarrow> L_Blob | L_Int32 \<Rightarrow> L_Int32 | L_Timestamp \<Rightarrow> L_Timestamp
      | L_Int8 \<Rightarrow> L_Int8 | L_Int16 \<Rightarrow> L_Int16 | L_Uint8 \<Rightarrow> L_Uint8 | L_Uint16 \<Rightarrow> L_Uint16
      | L_Uint32 \<Rightarrow> L_Uint32 | L_Float32 \<Rightarrow> L_Float32 | L_Date \<Rightarrow> L_Date | L_Time \<Rightarrow> L_Time
      | L_Timestamptz \<Rightarrow> L_Timestamptz
      | L_Decimal shape \<Rightarrow> L_Decimal shape
      | L_Interval \<Rightarrow> L_Interval | L_Uuid \<Rightarrow> L_Uuid | L_Hugeint \<Rightarrow> L_Hugeint | L_Uhugeint \<Rightarrow> L_Uhugeint
      | L_Complex expr \<Rightarrow> L_Complex expr)"

lemma same_logicaltype [simp]: "convert_extension_logicaltype_to_cli ty = ty"
  by (simp add: convert_extension_logicaltype_to_cli_def split: logicaltype.split)

definition descriptors :: "columndef list \<Rightarrow> column_descriptor list" where
  "descriptors cols =
     map (\<lambda>c. \<lparr>desc_name = cd_name c, desc_ty = convert_extension_logicaltype_to_cli (cd_logical c)\<rparr>) cols"

fun capture_shapes ::
  "'m world \<Rightarrow> string \<Rightarrow> u32 \<Rightarrow> u32 \<Rightarrow> string list \<Rightarrow> 'm manager \<Rightarrow>
     ((duckerror + table_shape list) \<times> 'm manager) option" where
  "capture_shapes W ext callback catalog [] m = Some (Inr [], m)"
| "capture_shapes W ext callback catalog (table # tables) m =
     (case dispatch_storage_table_columns W catalog table m of
        (Inl e, m1) \<Rightarrow> Some (Inl e, m1)
      | (Inr cols, m1) \<Rightarrow>
          (case register_at5_scan ext callback catalog table m1 of
             None \<Rightarrow> None
           | Some (handle, m2) \<Rightarrow>
               map_option (\<lambda>(r, m3).
                   (map_sum (\<lambda>e. e) (\<lambda>shapes. \<lparr>shape_name = table, shape_columns = descriptors cols,
                        shape_callback = handle\<rparr> # shapes) r, m3))
                 (capture_shapes W ext callback catalog tables m2)))"

definition capture_catalog ::
  "'m world \<Rightarrow> string \<Rightarrow> u32 \<Rightarrow> string \<Rightarrow> 'm manager \<Rightarrow>
     ((duckerror + (u32 \<times> string list \<times> table_shape list)) \<times> 'm manager) option" where
  "capture_catalog W ext callback d m =
     (case dispatch_storage_attach W d m of
        (Inl e, m1) \<Rightarrow> Some (Inl e, m1)
      | (Inr catalog, m1) \<Rightarrow>
          (case dispatch_storage_list_tables W catalog m1 of
             (Inl e, m2) \<Rightarrow> Some (Inl e, m2)
           | (Inr tables, m2) \<Rightarrow>
               map_option (\<lambda>(r, m3). (map_sum (\<lambda>e. e) (\<lambda>shapes. (catalog, tables, shapes)) r, m3))
                 (capture_shapes W ext callback catalog tables m2)))"

section \<open>The read path of the core\<close>

definition register_reply :: "fmt \<Rightarrow> string \<Rightarrow> wvalue list \<Rightarrow> duckerror + unit" where
  "register_reply fm fn_name ret =
     (case ret of
        [V_Result (Inr _)] \<Rightarrow> Inr ()
      | [V_Result (Inl (Some (V_String msg)))] \<Rightarrow>
          Inl (Internal (''register_table_function for '' @ quoted fn_name @ '' failed: '' @ msg))
      | [V_Result (Inl (Some other))] \<Rightarrow>
          Inl (Internal (''register-table-function: Err arm expected Value::String, got '' @ dbg fm other))
      | [V_Result (Inl None)] \<Rightarrow> Inl (Internal ''register-table-function: Err arm carried no payload'')
      | other \<Rightarrow> Inl (Internal (''register-table-function: unexpected return shape '' @ dbg_slice fm other)))"

definition register_shape ::
  "('m, 'e, 'j) host_world \<Rightarrow> core_handle \<Rightarrow> string \<Rightarrow> table_shape \<Rightarrow> ('m, 'e) host \<Rightarrow>
     (duckerror + unit) \<times> ('m, 'e) host" where
  "register_shape W conn alias shape h =
     (let fn_name = at5_synth_fn_name alias (shape_name shape)
      in case call_export_on_resource W cli_db_iface ''register-table-function'' conn
             [V_String fn_name, V_List (map column_descriptor_to_value (shape_columns shape)),
              V_U32 (shape_callback shape)] h of
           (Inl trap, h1) \<Rightarrow> (Inl (Internal trap), h1)
         | (Inr ret, h1) \<Rightarrow> (register_reply (hw_fmt W) fn_name ret, h1))"

definition run_ddl ::
  "('m, 'e, 'j) host_world \<Rightarrow> core_handle \<Rightarrow> string \<Rightarrow> ('m, 'e) host \<Rightarrow> (duckerror + unit) \<times> ('m, 'e) host" where
  "run_ddl W conn sql = hbind (run_sql W conn sql) (\<lambda>_. hpure (Inr ()))"

definition attach_memory_sql :: "string \<Rightarrow> string" where
  "attach_memory_sql alias = ''ATTACH '' @ quoted '':memory:'' @ '' AS '' @ alias"

definition view_sql :: "string \<Rightarrow> string \<Rightarrow> string" where
  "view_sql alias table =
     ''CREATE OR REPLACE VIEW '' @ alias @ ''.main.'' @ table @ '' AS SELECT * FROM ''
       @ at5_synth_fn_name alias table @ ''()''"

definition materialize ::
  "('m, 'e, 'j) host_world \<Rightarrow> core_handle \<Rightarrow> string \<Rightarrow> table_shape list \<Rightarrow> ('m, 'e) host \<Rightarrow>
     (duckerror + unit) \<times> ('m, 'e) host" where
  "materialize W conn alias shapes =
     hbind (hfor (register_shape W conn alias) shapes) (\<lambda>_.
     hbind (\<lambda>h. if map_of (h_aliases h) alias = None then run_ddl W conn (attach_memory_sql alias) h
                else (Inr (), h)) (\<lambda>_.
       hfor (\<lambda>shape. run_ddl W conn (view_sql alias (shape_name shape))) shapes))"

section \<open>Durability\<close>

definition probe_persists ::
  "('m, 'e, 'j) host_world \<Rightarrow> attach_spec \<Rightarrow> ('m, 'e) host \<Rightarrow> bool \<times> ('m, 'e) host" where
  "probe_persists W spec h =
     (if read_only spec then (False, h)
      else (case on_manager (dispatch_storage_writes_persist_directly (hw_world W)) h of
          (r, h1) \<Rightarrow> (r = Inr True, h1)))"

definition fast_path_pragmas :: string where
  "fast_path_pragmas = ''PRAGMA journal_mode = MEMORY; PRAGMA synchronous = OFF;''"

definition open_fast_path ::
  "('m, 'e, 'j) host_world \<Rightarrow> attach_spec \<Rightarrow> bool \<Rightarrow> string option \<Rightarrow> ('m, 'e) host \<Rightarrow>
     nat option \<times> ('m, 'e) host" where
  "open_fast_path W spec persists path h =
     (if persists \<and> eq_ignore_case (attach_type spec) ''sqlitewasm'' then
        (case path of
           None \<Rightarrow> (None, h)
         | Some p \<Rightarrow>
             (case on_outside (hw_sql_open W p) h of
                (Inl _, h1) \<Rightarrow> (None, h1)
              | (Inr conn, h1) \<Rightarrow>
                  (Some conn, h1\<lparr>h_outside := hw_sql_batch W conn fast_path_pragmas (h_outside h1)\<rparr>)))
      else (None, h))"

section \<open>Attaching\<close>

definition record_alias ::
  "('m, 'e, 'j) host_world \<Rightarrow> attach_spec \<Rightarrow> string \<Rightarrow> u32 \<Rightarrow> u32 \<Rightarrow> string list \<Rightarrow> table_shape list \<Rightarrow>
     ('m, 'e) host \<Rightarrow> ('m, 'e) host" where
  "record_alias W spec ext callback catalog tables shapes h =
     (let path = resolve_attach_dsn_path (dsn spec);
          (persists, h1) = probe_persists W spec h;
          (native, h2) = open_fast_path W spec persists path h1
      in h2\<lparr>h_aliases := AList.update (attach_alias spec)
           \<lparr>ac_extension = ext, ac_catalog_handle = catalog, ac_callback_handle = callback,
            ac_type_name = attach_type spec, ac_tables = tables,
            ac_table_callbacks = map_of (rev (map (\<lambda>s. (shape_name s, shape_callback s)) shapes)),
            ac_dsn_path = path, ac_read_only = read_only spec, ac_persists = persists,
            ac_native = native\<rparr> (h_aliases h2)\<rparr>)"

definition intercept_attach ::
  "('m, 'e, 'j) host_world \<Rightarrow> core_handle \<Rightarrow> attach_spec \<Rightarrow> ('m, 'e) host \<Rightarrow>
     ((duckerror + query_result) \<times> ('m, 'e) host) option" where
  "intercept_attach W conn spec h =
     (case storage_backend_for (h_manager h) (attach_type spec) of
        None \<Rightarrow> Some (Inl (Invalidargument (''No storage extension registered for TYPE '' @ attach_type spec
            @ '' (attach '' @ quoted (dsn spec) @ '' AS '' @ attach_alias spec @ '')'')), h)
      | Some (ext, callback) \<Rightarrow>
          if attach_if_not_exists spec \<and> map_of (h_aliases h) (attach_alias spec) \<noteq> None
          then Some (Inr empty_query_result, h)
          else map_option (\<lambda>(r, m).
              hbind (hpure (map_error cli_extension_duckerror r)) (\<lambda>(catalog, tables, shapes).
              hbind (materialize W conn (attach_alias spec) shapes) (\<lambda>_ h1.
                (Inr empty_query_result, record_alias W spec ext callback catalog tables shapes h1)))
              (h\<lparr>h_manager := m\<rparr>))
            (capture_catalog (hw_world W) ext callback (dsn spec) (h_manager h)))"

end
