(* ===== verification/Host_Execute.thy ===== *)
theory Host_Execute
  imports Host_Attach
begin

text \<open>
  Executing the user's statements (\<open>execute\<close> and \<open>execute_single_statement\<close> of
  \<open>crates/ducklink-host/src/lib.rs\<close>): what was deferred runs first; an ATTACH of a foreign database
  and a write to one are intercepted; everything else goes to the core, after the rewrite of
  \<open>delta_scan\<close>. \<^const>\<open>None\<close>: an attach that searches for a scan handle forever.
\<close>

section \<open>One statement\<close>

definition refreshed ::
  "('m, 'e, 'j) host_world \<Rightarrow> (duckerror + query_result) \<times> ('m, 'e) host \<Rightarrow>
     (duckerror + query_result) \<times> ('m, 'e) host" where
  "refreshed W r =
     (case r of
        (Inl e, h) \<Rightarrow> (Inl e, h)
      | (Inr qr, h) \<Rightarrow> (Inr qr, refresh_catalog_snapshot W h))"

definition execute_in_core ::
  "('m, 'e, 'j) host_world \<Rightarrow> core_handle \<Rightarrow> string \<Rightarrow> ('m, 'e) host \<Rightarrow>
     (duckerror + query_result) \<times> ('m, 'e) host" where
  "execute_in_core W conn sql h =
     (let sql' = rewrite_delta_scan (hw_json W) (hw_parse W) (hw_read_log W (h_outside h)) (hw_preopens W) sql
      in case call_database_execute W conn sql' h of
           (Inl trap, h1) \<Rightarrow> (Inl (Internal trap), h1)
         | (Inr r, h1) \<Rightarrow> (r, refresh_catalog_snapshot W h1))"

definition flush_deferred ::
  "('m, 'e, 'j) host_world \<Rightarrow> core_handle \<Rightarrow> ('m, 'e) host \<Rightarrow> ('m, 'e) host" where
  "flush_deferred W conn h =
     flush_deferred_prefix_declarations W conn (flush_deferred_ducklink_loads W conn h)"

definition attached_names :: "('m, 'e) host \<Rightarrow> string list" where
  "attached_names h = map fst (h_aliases h)"

definition execute_single_statement ::
  "('m, 'e, 'j) host_world \<Rightarrow> core_handle \<Rightarrow> string \<Rightarrow> ('m, 'e) host \<Rightarrow>
     ((duckerror + query_result) \<times> ('m, 'e) host) option" where
  "execute_single_statement W conn sql h0 =
     (let h = flush_deferred W conn h0
      in case parse_attach sql of
           Some spec \<Rightarrow> map_option (refreshed W) (intercept_attach W conn spec h)
         | None \<Rightarrow>
             (case (if h_aliases h = [] then None else resolve_write_target sql (attached_names h)) of
                Some route \<Rightarrow> Some (refreshed W (intercept_write W conn route h))
              | None \<Rightarrow> Some (execute_in_core W conn sql h)))"

section \<open>Scripts\<close>

text \<open>The statements of a script, in order; the first error ends it, the last result is returned.\<close>

fun run_pieces ::
  "('m, 'e, 'j) host_world \<Rightarrow> core_handle \<Rightarrow> string list \<Rightarrow> query_result \<Rightarrow> ('m, 'e) host \<Rightarrow>
     ((duckerror + query_result) \<times> ('m, 'e) host) option" where
  "run_pieces W conn [] qr h = Some (Inr qr, h)"
| "run_pieces W conn (piece # pieces) qr h =
     (case execute_single_statement W conn piece h of
        None \<Rightarrow> None
      | Some (Inl e, h1) \<Rightarrow> Some (Inl e, h1)
      | Some (Inr r, h1) \<Rightarrow> run_pieces W conn pieces r h1)"

definition script_pieces :: "string \<Rightarrow> string list" where
  "script_pieces sql = filter (\<lambda>s. s \<noteq> []) (map trim (split_statements sql))"

definition execute ::
  "('m, 'e, 'j) host_world \<Rightarrow> u32 \<Rightarrow> string \<Rightarrow> ('m, 'e) host \<Rightarrow>
     ((duckerror + query_result) \<times> ('m, 'e) host) option" where
  "execute W rep sql h =
     (case h_connections h rep of
        None \<Rightarrow> Some (Inl (Internal ''unknown connection''), h)
      | Some entry \<Rightarrow>
          if is_multi_statement sql
          then run_pieces W (conn_handle entry) (script_pieces sql) empty_query_result h
          else execute_single_statement W (conn_handle entry) sql h)"

section \<open>Attaching keeps what is there\<close>

text \<open>All but the new entry: the connections and other resources, and every other attached name.\<close>

definition keeps_others :: "string \<Rightarrow> ('m, 'e) host \<Rightarrow> ('m, 'e) host \<Rightarrow> bool" where
  "keeps_others name h h' \<longleftrightarrow>
     (\<exists>al. own_tables (h\<lparr>h_aliases := al\<rparr>) h' \<and> (\<forall>n. n \<noteq> name \<longrightarrow> map_of al n = map_of (h_aliases h) n))"

lemma keeps_for:
  assumes "\<And>x h. own_tables h (snd (f x h))"
  shows "own_tables h (snd (hfor f xs h))"
proof (induction xs arbitrary: h)
  case (Cons x xs)
  show ?case unfolding hfor.simps by (rule keeps_bind) (rule assms Cons.IH)+
qed (simp add: own_tables_refl)

lemma keeps_pure [keeps]: "own_tables h (snd (hpure r h))"
  by (simp add: own_tables_refl)

lemma keeps_run_ddl [keeps]: "own_tables h (snd (run_ddl W conn sql h))"
  unfolding run_ddl_def by (intro keeps_bind keeps)

lemma keeps_register: "own_tables h (snd (register_shape W conn alias shape h))"
proof -
  obtain r h1 where c: "call_export_on_resource W cli_db_iface ''register-table-function'' conn
      [V_String (at5_synth_fn_name alias (shape_name shape)),
       V_List (map column_descriptor_to_value (shape_columns shape)), V_U32 (shape_callback shape)] h
      = (r, h1)" by (rule prod.exhaust)
  then have "own_tables h h1" using keeps_call by (metis snd_conv)
  then show ?thesis using c by (simp add: register_shape_def Let_def split: sum.split)
qed

lemma keeps_materialize: "own_tables h (snd (materialize W conn alias shapes h))"
  unfolding materialize_def
  by (intro keeps_bind keeps_for keeps_register)
    (auto simp: keeps_run_ddl own_tables_refl split: if_splits)

lemma keeps_probe: "own_tables h (snd (probe_persists W spec h))"
  using keeps_manager [of h "dispatch_storage_writes_persist_directly (hw_world W)"]
  by (simp add: probe_persists_def own_tables_refl split_beta)

lemma keeps_open: "own_tables h (snd (open_fast_path W spec persists path h))"
proof (cases path)
  case (Some p)
  obtain r h1 where o: "on_outside (hw_sql_open W p) h = (r, h1)" by (rule prod.exhaust)
  then have "own_tables h h1" using keeps_outside by (metis snd_conv)
  then show ?thesis
    using o Some by (simp add: open_fast_path_def own_tables_refl own_tables_def split: sum.split)
qed (simp add: open_fast_path_def own_tables_refl)

lemma record_alias_aliases:
  "\<exists>c. h_aliases (record_alias W spec ext cb catalog tables shapes h) = AList.update (attach_alias spec) c (h_aliases h)
     \<and> own_tables (h\<lparr>h_aliases := AList.update (attach_alias spec) c (h_aliases h)\<rparr>)
         (record_alias W spec ext cb catalog tables shapes h)
     \<and> ac_extension c = ext \<and> ac_catalog_handle c = catalog \<and> ac_callback_handle c = cb
     \<and> ac_tables c = tables \<and> ac_read_only c = read_only spec
     \<and> ac_table_callbacks c = map_of (rev (map (\<lambda>s. (shape_name s, shape_callback s)) shapes))
     \<and> ac_dsn_path c = resolve_attach_dsn_path (dsn spec)
     \<and> (read_only spec \<longrightarrow> \<not> ac_persists c \<and> ac_native c = None)"
proof -
  obtain p h1 where p: "probe_persists W spec h = (p, h1)" by (rule prod.exhaust)
  obtain n h2 where n: "open_fast_path W spec p (resolve_attach_dsn_path (dsn spec)) h1 = (n, h2)"
    by (rule prod.exhaust)
  have "own_tables h h1" using keeps_probe [of h W spec] p by simp
  moreover have "own_tables h1 h2" using keeps_open [of h1 W spec p] n by (metis snd_conv)
  ultimately have "own_tables h h2" by (rule own_tables_trans)
  moreover have "read_only spec \<longrightarrow> \<not> p" using p by (auto simp: probe_persists_def)
  moreover have "\<not> p \<longrightarrow> n = None" using n by (auto simp: open_fast_path_def)
  ultimately show ?thesis using p n by (auto simp: record_alias_def Let_def own_tables_def)
qed

end
