(* ===== verification/Host_Write_Facts.thy ===== *)
theory Host_Write_Facts
  imports Host_Write Manager_Writes
begin

text \<open>
  What an intercepted write does: which rows and cells an UPDATE and a DELETE touch, what an INSERT
  hands on, when a reported write is on disk; and where the code falls short of its comments.
\<close>

section \<open>Merging assignments into a row\<close>

lemma merge_row_length [simp]: "length (merge_row asgs r) = length r"
proof -
  have "length (fold (\<lambda>(i, v) r. r[i := v]) asgs r) = length r" for r :: row
    by (induction asgs arbitrary: r) (auto split: prod.split)
  then show ?thesis by (simp add: merge_row_def)
qed

text \<open>The last assignment to a column counts; a column without one keeps its value.\<close>

lemma merge_row_nth:
  "j < length r \<Longrightarrow> merge_row asgs r ! j = (case map_of (rev asgs) j of Some v \<Rightarrow> v | None \<Rightarrow> r ! j)"
proof (induction asgs rule: rev_induct)
  case (snoc a asgs)
  obtain i v where a: "a = (i, v)" by (rule prod.exhaust)
  have "merge_row (asgs @ [a]) r = (merge_row asgs r)[i := v]" by (simp add: merge_row_def a)
  then show ?case using snoc by (simp add: a nth_list_update)
qed (simp add: merge_row_def)

section \<open>The rows that are found\<close>

text \<open>The identities of rows: the integers that their identity columns stand for.\<close>

definition identities :: "nat \<Rightarrow> row list \<Rightarrow> i64 list \<Rightarrow> bool" where
  "identities idx rows ids \<longleftrightarrow>
     list_all2 (\<lambda>r n. idx < length r \<and> integer_of (r ! idx) = Some (sint n)) rows ids"

lemma prescan_row_Inr:
  "prescan_row pr what idx r = Inr (n, r') \<Longrightarrow>
     r' = r \<and> idx < length r \<and> integer_of (r ! idx) = Some (sint n)"
  using rowid_exact [of pr "r ! idx" n]
  by (auto simp: prescan_row_def Let_def map_idI split: if_splits sum.splits)

lemma prescan_rows_Inr:
  assumes "rmap (prescan_row pr what idx) rows = Inr pairs"
  shows "map snd pairs = rows \<and> identities idx rows (map fst pairs)"
  using assms
proof (induction rows arbitrary: pairs)
  case (Cons r rows)
  then obtain p ps where p: "prescan_row pr what idx r = Inr p" "rmap (prescan_row pr what idx) rows = Inr ps"
      "pairs = p # ps"
    by (auto simp: rbind_Inr_iff)
  then show ?case using Cons.IH [of ps] prescan_row_Inr [of pr what idx r "fst p" "snd p"]
    by (simp add: identities_def)
qed (simp add: identities_def)

lemma prescan_Inr:
  assumes "at5_prescan_rows W conn alias table idx wc h = (Inr (ids, rows), h')"
  shows "\<exists>qr. run_sql W conn (prescan_sql alias table wc) h = (Inr qr, h') \<and> qr_rows qr = rows
    \<and> identities idx rows ids"
proof -
  from assms obtain qr h1 where q: "run_sql W conn (prescan_sql alias table wc) h = (Inr qr, h1)"
    and r: "hpure (rbind (rmap (prescan_row (hw_printers W) (alias @ ''.'' @ table) idx) (qr_rows qr))
         (\<lambda>pairs. Inr (map fst pairs, map snd pairs))) h1 = (Inr (ids, rows), h')"
    unfolding at5_prescan_rows_def hbind_Inr by blast
  from r obtain pairs where "rmap (prescan_row (hw_printers W) (alias @ ''.'' @ table) idx) (qr_rows qr) = Inr pairs"
      "ids = map fst pairs" "rows = map snd pairs" "h1 = h'"
    by (auto simp: hpure_def rbind_Inr_iff)
  moreover from this(1) have "map snd pairs = qr_rows qr \<and> identities idx (qr_rows qr) (map fst pairs)"
    by (rule prescan_rows_Inr)
  ultimately show ?thesis using q by auto
qed

lemma lookup_Inr:
  assumes "at5_lookup_write_target W alias table h = (Inr (catalog, cols), h')"
  shows "\<exists>c. map_of (h_aliases h) alias = Some c \<and> ac_catalog_handle c = catalog
    \<and> dispatched (dispatch_storage_table_columns (hw_world W) catalog table) h = (Inr cols, h')"
  using assms
  by (cases "map_of (h_aliases h) alias") (auto simp: at5_lookup_write_target_def hbind_Inr hpure_def)

lemma own_dispatched: "own_tables h (snd (dispatched f h))"
  using keeps_manager [of h f] by (simp add: dispatched_def)

lemma locate_Inr:
  "at5_locate_rowid_column cols alias table = Inr idx \<longleftrightarrow>
     position (\<lambda>c. eq_ignore_case (cd_name c) ''rowid'') cols = Some idx"
  by (simp add: at5_locate_rowid_column_def ok_or_def split: option.split)

section \<open>UPDATE\<close>

text \<open>The rows \<open>new\<close> are the rows \<open>old\<close> with the assigned cells replaced.\<close>

definition assigned :: "(nat \<times> duckvalue) list \<Rightarrow> row list \<Rightarrow> row list \<Rightarrow> bool" where
  "assigned vals old new \<longleftrightarrow>
     list_all2 (\<lambda>r r'. length r' = length r
       \<and> (\<forall>j < length r. r' ! j = (case map_of (rev vals) j of Some v \<Rightarrow> v | None \<Rightarrow> r ! j))) old new"

lemma assigned_merge: "assigned vals rows (map (merge_row vals) rows)"
  by (simp add: assigned_def list_all2_conv_all_nth merge_row_nth)

text \<open>The steps of an UPDATE that succeeds, each of them with its result.\<close>

lemma update_steps:
  assumes "intercept_update W conn alias table asgs wc h = (Inr r, h')"
  shows "\<exists>c cols idx vals qr ids new h1 h2.
      map_of (h_aliases h) alias = Some c
    \<and> dispatched (dispatch_storage_table_columns (hw_world W) (ac_catalog_handle c) table) h = (Inr cols, h1)
    \<and> position (\<lambda>c. eq_ignore_case (cd_name c) ''rowid'') cols = Some idx
    \<and> rbind (assignment_values asgs) (assignment_indices (alias @ ''.'' @ table) cols) = Inr vals
    \<and> run_sql W conn (prescan_sql alias table wc) h1 = (Inr qr, h2)
    \<and> identities idx (qr_rows qr) ids \<and> assigned vals (qr_rows qr) new
    \<and> (if ids = [] then h' = h2
       else (case ac_native c of
           Some k \<Rightarrow> \<exists>n. on_outside (at5_native_update W k table cols idx ids new) h2 = (Inr n, h')
         | None \<Rightarrow> \<exists>n h3. dispatched (dispatch_storage_update_direct (hw_world W) (ac_catalog_handle c)
               table ids new) h2 = (Inr n, h3)
             \<and> finish_write W alias (ac_catalog_handle c) h3 = (Inr r, h')))"
proof -
  let ?what = "alias @ ''.'' @ table"
  from assms obtain catalog cols h1 where l: "at5_lookup_write_target W alias table h = (Inr (catalog, cols), h1)"
    and rest: "(let native = Option.bind (map_of (h_aliases h1) alias) ac_native
           in hbind (hpure (at5_locate_rowid_column cols alias table)) (\<lambda>rowid_idx.
              hbind (hpure (rbind (assignment_values asgs) (assignment_indices ?what cols))) (\<lambda>asgs.
              hbind (at5_prescan_rows W conn alias table rowid_idx wc) (\<lambda>(rowids, current).
                if rowids = [] then hpure (Inr empty_query_result)
                else (let updated = map (merge_row asgs) current
                      in case native of
                           Some c \<Rightarrow>
                             hbind (on_outside (at5_native_update W c table cols rowid_idx rowids updated)) (\<lambda>_.
                               hpure (Inr empty_query_result))
                         | None \<Rightarrow>
                             hbind (dispatched (dispatch_storage_update_direct (hw_world W) catalog table
                                 rowids updated)) (\<lambda>_.
                               finish_write W alias catalog))))) h1) = (Inr r, h')"
    by (auto simp: intercept_update_def hbind_Inr)
  obtain c where c: "map_of (h_aliases h) alias = Some c" "ac_catalog_handle c = catalog"
    and d: "dispatched (dispatch_storage_table_columns (hw_world W) catalog table) h = (Inr cols, h1)"
    using lookup_Inr [OF l] by blast
  have al: "map_of (h_aliases h1) alias = Some c"
    using own_dispatched [of h "dispatch_storage_table_columns (hw_world W) catalog table"] d c
    by (simp add: own_tables_def)
  obtain idx where idx: "at5_locate_rowid_column cols alias table = Inr idx"
    using rest by (cases "at5_locate_rowid_column cols alias table") (simp_all add: Let_def)
  obtain vals where vals: "rbind (assignment_values asgs) (assignment_indices ?what cols) = Inr vals"
    using rest idx
    by (cases "rbind (assignment_values asgs) (assignment_indices ?what cols)") (simp_all add: Let_def)
  from rest idx vals obtain ids rows h2 where p: "at5_prescan_rows W conn alias table idx wc h1 = (Inr (ids, rows), h2)"
    and fin: "(if ids = [] then hpure (Inr empty_query_result)
                else (let updated = map (merge_row vals) rows
                      in case ac_native c of
                           Some c \<Rightarrow>
                             hbind (on_outside (at5_native_update W c table cols idx ids updated)) (\<lambda>_.
                               hpure (Inr empty_query_result))
                         | None \<Rightarrow>
                             hbind (dispatched (dispatch_storage_update_direct (hw_world W) catalog table
                                 ids updated)) (\<lambda>_.
                               finish_write W alias catalog))) h2 = (Inr r, h')"
    by (auto simp: Let_def al hbind_Inr [of "at5_prescan_rows W conn alias table idx wc"])
  obtain qr where q: "run_sql W conn (prescan_sql alias table wc) h1 = (Inr qr, h2)" "qr_rows qr = rows"
    and i: "identities idx rows ids" using prescan_Inr [OF p] by blast
  have last: "if ids = [] then h' = h2
       else (case ac_native c of
           Some k \<Rightarrow> \<exists>n. on_outside (at5_native_update W k table cols idx ids (map (merge_row vals) rows)) h2 = (Inr n, h')
         | None \<Rightarrow> \<exists>n h3. dispatched (dispatch_storage_update_direct (hw_world W) catalog
               table ids (map (merge_row vals) rows)) h2 = (Inr n, h3)
             \<and> finish_write W alias catalog h3 = (Inr r, h'))"
    using fin by (auto simp: Let_def hbind_Inr hpure_def split: if_splits option.splits)
  show ?thesis
    using c d idx vals q i last assigned_merge [of vals rows] unfolding locate_Inr by blast
qed

section \<open>Statements on the fast path\<close>

text \<open>A statement executed once for each row of parameters, each time with success.\<close>

fun executed ::
  "('m, 'e, 'j) host_world \<Rightarrow> nat \<Rightarrow> string \<Rightarrow> sqlite_value list list \<Rightarrow> 'e \<Rightarrow> 'e \<Rightarrow> bool" where
  "executed W k sql [] e e' \<longleftrightarrow> e' = e"
| "executed W k sql (ps # pss) e e' \<longleftrightarrow> (\<exists>n e1. hw_sql_execute W k sql ps e = (Inr n, e1) \<and> executed W k sql pss e1 e')"

lemma sql_each_executed:
  "sql_each W k context sql cnt rows n e = (Inr m, e') \<Longrightarrow> \<exists>pss. rows = map Inr pss \<and> executed W k sql pss e e'"
proof (induction rows arbitrary: n e)
  case (Cons r rows)
  then obtain ps where r: "r = Inr ps" by (cases r) auto
  with Cons.prems obtain j e1 where x: "hw_sql_execute W k sql ps e = (Inr j, e1)"
    "sql_each W k context sql cnt rows (n + cnt j) e1 = (Inr m, e')" by (auto split: prod.splits sum.splits)
  then obtain pss where "rows = map Inr pss" "executed W k sql pss e1 e'" using Cons.IH by blast
  with r x show ?case by (intro exI [of _ "ps # pss"]) auto
qed simp

text \<open>
  One statement per row, by the row's identity: it sets every column but the identity column to the
  value of the row in the form that SQLite keeps.
\<close>

definition rows_updated ::
  "('m, 'e, 'j) host_world \<Rightarrow> nat \<Rightarrow> string \<Rightarrow> columndef list \<Rightarrow> nat \<Rightarrow> i64 list \<Rightarrow> row list \<Rightarrow> 'e \<Rightarrow> 'e \<Rightarrow> bool" where
  "rows_updated W k table cols idx ids rows e e' \<longleftrightarrow>
     (let others = filter (\<lambda>i. i \<noteq> idx) [0..<length cols];
          sql = ''UPDATE '' @ sqlite_quote_ident table @ '' SET ''
            @ join '', '' (map (\<lambda>i. sqlite_quote_ident (cd_name (cols ! i)) @ '' = ?'') others) @ '' WHERE rowid = ?''
      in if others = [] then e' = e
         else length rows = length ids \<and> list_all (\<lambda>r. length cols \<le> length r) rows
           \<and> (\<exists>e1. hw_sql_prepare W k sql e = (Inr (), e1)
                \<and> executed W k sql
                    (map2 (\<lambda>r n. map (\<lambda>i. duck_to_sqlite_value (hw_printers W) (r ! i)) others @ [SV_Integer n]) rows ids) e1 e'))"

lemma enumerate_nth: "filter (\<lambda>(i, _). i \<noteq> idx) (enumerate 0 cols) = map (\<lambda>i. (i, cols ! i)) (filter (\<lambda>i. i \<noteq> idx) [0..<length cols])"
proof -
  have "enumerate 0 cols = map (\<lambda>i. (i, cols ! i)) [0..<length cols]"
    by (rule nth_equalityI) (simp_all add: nth_enumerate_eq)
  then show ?thesis by (simp add: filter_map comp_def)
qed

lemma wide_rows:
  assumes "map params (zip ids rows) = map Inr pss" "length ids = length rows"
    "\<And>n r. params (n, r) = (if length r < w then Inl (e n r) else Inr (f n r))"
  shows "pss = map2 (\<lambda>r n. f n r) rows ids \<and> list_all (\<lambda>r. w \<le> length r) rows"
  using assms(2,1)
proof (induction ids rows arbitrary: pss rule: list_induct2)
  case (Cons n ids r rows)
  then obtain ps pss' where p: "pss = ps # pss'" by (cases pss) auto
  have "\<not> length r < w" "ps = f n r" using Cons.prems p assms(3) [of n r] by (auto split: if_splits)
  then show ?case using Cons p by auto
qed simp

lemma native_updated:
  assumes "at5_native_update W k table cols idx ids rows e = (Inr n, e')" "ids \<noteq> []"
  shows "rows_updated W k table cols idx ids rows e e'"
proof -
  let ?others = "filter (\<lambda>i. i \<noteq> idx) [0..<length cols]"
  let ?sql = "native_update_sql table (map (\<lambda>(_, c). cd_name c) (map (\<lambda>i. (i, cols ! i)) ?others))"
  let ?params = "\<lambda>(rid, row). if length row < length cols then
        Inl (Internal (''at5 native UPDATE '' @ quoted table @ '': row width ''
          @ show_nat (length row) @ '' < declared '' @ show_nat (length cols)))
      else Inr (map (\<lambda>(i, _). duck_to_sqlite_value (hw_printers W) (row ! i)) (map (\<lambda>i. (i, cols ! i)) ?others) @ [SV_Integer rid])"
  have sql: "?sql = ''UPDATE '' @ sqlite_quote_ident table @ '' SET ''
      @ join '', '' (map (\<lambda>i. sqlite_quote_ident (cd_name (cols ! i)) @ '' = ?'') ?others) @ '' WHERE rowid = ?''"
    by (simp add: native_update_sql_def comp_def)
  have len: "length ids = length rows" using assms by (auto simp: at5_native_update_def split: if_splits)
  show ?thesis
  proof (cases "?others = []")
    case True
    then show ?thesis using assms len by (simp add: at5_native_update_def enumerate_nth rows_updated_def Let_def)
  next
    case False
    have "hbind (sql_prepare W k (''at5 native UPDATE prepare '' @ quoted ?sql) ?sql) (\<lambda>_.
        sql_each W k (''at5 native UPDATE on '' @ quoted table) ?sql word_of_nat (map ?params (zip ids rows)) 0) e = (Inr n, e')"
      using assms len False by (simp add: at5_native_update_def enumerate_nth Let_def)
    then obtain e1 where pre: "sql_prepare W k (''at5 native UPDATE prepare '' @ quoted ?sql) ?sql e = (Inr (), e1)"
      and each: "sql_each W k (''at5 native UPDATE on '' @ quoted table) ?sql word_of_nat (map ?params (zip ids rows)) 0 e1 = (Inr n, e')"
      by (auto simp: hbind_Inr)
    from sql_each_executed [OF each] obtain pss where pss: "map ?params (zip ids rows) = map Inr pss" "executed W k ?sql pss e1 e'"
      by blast
    have w: "pss = map2 (\<lambda>r n. map (\<lambda>(i, _). duck_to_sqlite_value (hw_printers W) (r ! i)) (map (\<lambda>i. (i, cols ! i)) ?others) @ [SV_Integer n]) rows ids
        \<and> list_all (\<lambda>r. length cols \<le> length r) rows"
      by (rule wide_rows [OF pss(1) len]) simp
    have "hw_sql_prepare W k ?sql e = (Inr (), e1)"
      using pre by (cases "hw_sql_prepare W k ?sql e"; cases "fst (hw_sql_prepare W k ?sql e)") (auto simp: sql_prepare_def)
    then show ?thesis
      using False len w pss(2) unfolding rows_updated_def Let_def sql by (simp add: comp_def)
  qed
qed

lemma assignments_found:
  "rbind (assignment_values asgs) (assignment_indices what cols) = Inr vals \<Longrightarrow>
     list_all2 (\<lambda>(col, text) (i, v). position (\<lambda>c. eq_ignore_case (cd_name c) col) cols = Some i
       \<and> literal_to_extension_duckvalue (parse_value_literal text) = Inr v) asgs vals"
proof -
  have a: "rmap (\<lambda>(col, expr). rbind (map_error not_supported
         (literal_to_extension_duckvalue (parse_value_literal expr))) (\<lambda>v. Inr (col, v))) asgs = Inr avs \<Longrightarrow>
      list_all2 (\<lambda>(col, text) (col', v). col' = col \<and> literal_to_extension_duckvalue (parse_value_literal text) = Inr v) asgs avs" for avs
    proof (induction asgs arbitrary: avs)
      case (Cons p asgs)
      then show ?case by (cases p; cases "literal_to_extension_duckvalue (parse_value_literal (snd p))") (auto simp: rbind_Inr_iff)
    qed simp
  have b: "rmap (\<lambda>(col, v). rbind (ok_or (position (\<lambda>c. eq_ignore_case (cd_name c) col) cols)
         (Invalidargument (''UPDATE '' @ what @ '': column '' @ quoted col
            @ '' is not declared by the storage extension''))) (\<lambda>i. Inr (i, v))) avs = Inr vals \<Longrightarrow>
      list_all2 (\<lambda>(col, v) (i, v'). v' = v \<and> position (\<lambda>c. eq_ignore_case (cd_name c) col) cols = Some i) avs vals" for avs vals
    proof (induction avs arbitrary: vals)
      case (Cons p avs)
      then show ?case by (cases p; cases "position (\<lambda>c. eq_ignore_case (cd_name c) (fst p)) cols") (auto simp: rbind_Inr_iff ok_or_def)
    qed simp
  assume "rbind (assignment_values asgs) (assignment_indices what cols) = Inr vals"
  then obtain avs where "assignment_values asgs = Inr avs" "assignment_indices what cols avs = Inr vals"
    by (auto simp: rbind_Inr_iff)
  then have "list_all2 (\<lambda>(col, text) (col', v). col' = col \<and> literal_to_extension_duckvalue (parse_value_literal text) = Inr v) asgs avs"
    "list_all2 (\<lambda>(col, v) (i, v'). v' = v \<and> position (\<lambda>c. eq_ignore_case (cd_name c) col) cols = Some i) avs vals"
    using a b by (simp_all add: assignment_values_def assignment_indices_def)
  then show ?thesis
  proof (induction asgs avs arbitrary: vals rule: list_all2_induct)
    case (Cons p ps q qs)
    then show ?case by (cases vals) auto
  qed simp
qed

text \<open>
  C22. An UPDATE of an attached table, when it succeeds, changes exactly the cells it assigns in
  exactly the rows its condition selects. The host sends \<open>SELECT * FROM alias.main.table\<close>, with the
  WHERE of the statement if it has one, and reads the identity of every row it gets; each new row is
  the row read with the assigned columns (found without regard to case) replaced by their literals,
  the last one counting. A backend of an extension is given these identities and rows in one write;
  on the fast path SQLite executes one \<open>UPDATE ... WHERE rowid = ?\<close> per row, for that row's identity,
  with all columns but the identity column, so an assignment to that is dropped and an unassigned
  cell is written back in the form of SQLite. When no row matches, nothing is written.
\<close>

theorem update_exact:
  assumes "intercept_update W conn alias table asgs wc h = (Inr r, h')"
  shows "\<exists>c cols idx vals qr ids new h1 h2.
      map_of (h_aliases h) alias = Some c
    \<and> dispatched (dispatch_storage_table_columns (hw_world W) (ac_catalog_handle c) table) h = (Inr cols, h1)
    \<and> position (\<lambda>c. eq_ignore_case (cd_name c) ''rowid'') cols = Some idx
    \<and> list_all2 (\<lambda>(col, text) (i, v). position (\<lambda>c. eq_ignore_case (cd_name c) col) cols = Some i
         \<and> literal_to_extension_duckvalue (parse_value_literal text) = Inr v) asgs vals
    \<and> run_sql W conn (''SELECT * FROM '' @ alias @ ''.main.'' @ table
         @ (case wc of Some p \<Rightarrow> '' WHERE '' @ p | None \<Rightarrow> [])) h1 = (Inr qr, h2)
    \<and> identities idx (qr_rows qr) ids \<and> assigned vals (qr_rows qr) new
    \<and> (if ids = [] then h' = h2
       else (case ac_native c of
           Some k \<Rightarrow> \<exists>e. rows_updated W k table cols idx ids new (h_outside h2) e \<and> h' = h2\<lparr>h_outside := e\<rparr>
         | None \<Rightarrow> \<exists>n h3. dispatched (dispatch_storage_update_direct (hw_world W) (ac_catalog_handle c)
               table ids new) h2 = (Inr n, h3)
             \<and> finish_write W alias (ac_catalog_handle c) h3 = (Inr r, h')))"
proof -
  obtain c cols idx vals qr ids new h1 h2 where s:
    "map_of (h_aliases h) alias = Some c"
    "dispatched (dispatch_storage_table_columns (hw_world W) (ac_catalog_handle c) table) h = (Inr cols, h1)"
    "position (\<lambda>c. eq_ignore_case (cd_name c) ''rowid'') cols = Some idx"
    "rbind (assignment_values asgs) (assignment_indices (alias @ ''.'' @ table) cols) = Inr vals"
    "run_sql W conn (prescan_sql alias table wc) h1 = (Inr qr, h2)"
    "identities idx (qr_rows qr) ids" "assigned vals (qr_rows qr) new"
    "if ids = [] then h' = h2
       else (case ac_native c of
           Some k \<Rightarrow> \<exists>n. on_outside (at5_native_update W k table cols idx ids new) h2 = (Inr n, h')
         | None \<Rightarrow> \<exists>n h3. dispatched (dispatch_storage_update_direct (hw_world W) (ac_catalog_handle c)
               table ids new) h2 = (Inr n, h3)
             \<and> finish_write W alias (ac_catalog_handle c) h3 = (Inr r, h'))"
    using update_steps [OF assms] by blast
  have fast: "\<exists>e. rows_updated W k table cols idx ids new (h_outside h2) e \<and> h' = h2\<lparr>h_outside := e\<rparr>"
    if "ids \<noteq> []" "on_outside (at5_native_update W k table cols idx ids new) h2 = (Inr n, h')" for k n
    using that native_updated [of W k table cols idx ids new "h_outside h2" n]
    by (auto simp: on_outside_def split: prod.splits)
  have last: "if ids = [] then h' = h2
       else (case ac_native c of
           Some k \<Rightarrow> \<exists>e. rows_updated W k table cols idx ids new (h_outside h2) e \<and> h' = h2\<lparr>h_outside := e\<rparr>
         | None \<Rightarrow> \<exists>n h3. dispatched (dispatch_storage_update_direct (hw_world W) (ac_catalog_handle c)
               table ids new) h2 = (Inr n, h3)
             \<and> finish_write W alias (ac_catalog_handle c) h3 = (Inr r, h'))"
    using s(8) fast by (auto split: option.splits)
  show ?thesis
    using s(1-3) assignments_found [OF s(4)] s(5) [unfolded prescan_sql_def] s(6,7) last
    by (intro exI [of _ c] exI [of _ cols] exI [of _ idx] exI [of _ vals] exI [of _ qr] exI [of _ ids] exI [of _ new] exI [of _ h1] exI [of _ h2] conjI)
qed

text \<open>Likewise a DELETE removes exactly the rows that the read path returns for its condition.\<close>

lemma delete_exact:
  assumes "intercept_delete W conn alias table wc h = (Inr r, h')"
  shows "\<exists>c cols idx qr ids h1 h2.
      map_of (h_aliases h) alias = Some c
    \<and> dispatched (dispatch_storage_table_columns (hw_world W) (ac_catalog_handle c) table) h = (Inr cols, h1)
    \<and> position (\<lambda>c. eq_ignore_case (cd_name c) ''rowid'') cols = Some idx
    \<and> run_sql W conn (prescan_sql alias table wc) h1 = (Inr qr, h2)
    \<and> identities idx (qr_rows qr) ids
    \<and> (if ids = [] then h' = h2
       else (case ac_native c of
           Some k \<Rightarrow> \<exists>n. on_outside (at5_native_delete W k table ids) h2 = (Inr n, h')
         | None \<Rightarrow> \<exists>n h3. dispatched (dispatch_storage_delete_direct (hw_world W) (ac_catalog_handle c)
               table ids) h2 = (Inr n, h3)
             \<and> finish_write W alias (ac_catalog_handle c) h3 = (Inr r, h')))"
proof -
  from assms obtain catalog cols h1 where l: "at5_lookup_write_target W alias table h = (Inr (catalog, cols), h1)"
    and rest: "(let native = Option.bind (map_of (h_aliases h1) alias) ac_native
       in hbind (hpure (at5_locate_rowid_column cols alias table)) (\<lambda>rowid_idx.
          hbind (at5_prescan_rows W conn alias table rowid_idx wc) (\<lambda>(rowids, _).
            if rowids = [] then hpure (Inr empty_query_result)
            else (case native of
                Some c \<Rightarrow>
                  hbind (on_outside (at5_native_delete W c table rowids)) (\<lambda>_. hpure (Inr empty_query_result))
              | None \<Rightarrow>
                  hbind (dispatched (dispatch_storage_delete_direct (hw_world W) catalog table rowids)) (\<lambda>_.
                    finish_write W alias catalog)))) h1) = (Inr r, h')"
    by (auto simp: intercept_delete_def hbind_Inr)
  obtain c where c: "map_of (h_aliases h) alias = Some c" "ac_catalog_handle c = catalog"
    and d: "dispatched (dispatch_storage_table_columns (hw_world W) catalog table) h = (Inr cols, h1)"
    using lookup_Inr [OF l] by blast
  have al: "map_of (h_aliases h1) alias = Some c"
    using own_dispatched [of h "dispatch_storage_table_columns (hw_world W) catalog table"] d c
    by (simp add: own_tables_def)
  obtain idx where idx: "at5_locate_rowid_column cols alias table = Inr idx"
    using rest by (cases "at5_locate_rowid_column cols alias table") (simp_all add: Let_def)
  from rest idx obtain ids rows h2 where p: "at5_prescan_rows W conn alias table idx wc h1 = (Inr (ids, rows), h2)"
    and fin: "(if ids = [] then hpure (Inr empty_query_result)
            else (case ac_native c of
                Some c \<Rightarrow>
                  hbind (on_outside (at5_native_delete W c table ids)) (\<lambda>_. hpure (Inr empty_query_result))
              | None \<Rightarrow>
                  hbind (dispatched (dispatch_storage_delete_direct (hw_world W) catalog table ids)) (\<lambda>_.
                    finish_write W alias catalog))) h2 = (Inr r, h')"
    by (auto simp: Let_def al hbind_Inr [of "at5_prescan_rows W conn alias table idx wc"])
  obtain qr where q: "run_sql W conn (prescan_sql alias table wc) h1 = (Inr qr, h2)" "qr_rows qr = rows"
    and i: "identities idx rows ids" using prescan_Inr [OF p] by blast
  have last: "if ids = [] then h' = h2
       else (case ac_native c of
           Some k \<Rightarrow> \<exists>n. on_outside (at5_native_delete W k table ids) h2 = (Inr n, h')
         | None \<Rightarrow> \<exists>n h3. dispatched (dispatch_storage_delete_direct (hw_world W) catalog
               table ids) h2 = (Inr n, h3)
             \<and> finish_write W alias catalog h3 = (Inr r, h'))"
    using fin by (auto simp: hbind_Inr hpure_def split: if_splits option.splits)
  show ?thesis
    using c d idx q i last unfolding locate_Inr by blast
qed

section \<open>INSERT\<close>


section \<open>Persistence\<close>

text \<open>
  C24. A write that is reported as done is on disk, or was not the host's to persist: after the
  write-back returned, the alias is unknown, read-only, persists itself or has no file, and nothing
  was done; or the backend says that its data cannot be serialized; or the file of the data source
  was written successfully with exactly the bytes that the backend serialized.
\<close>

theorem write_back_durable:
  assumes "at5_write_back W alias catalog h = (Inr (), h')"
  shows "(h' = h \<and> (\<forall>c. map_of (h_aliases h) alias = Some c \<longrightarrow> ac_read_only c \<or> ac_persists c \<or> ac_dsn_path c = None))
    \<or> (\<exists>c path s m. map_of (h_aliases h) alias = Some c \<and> ac_dsn_path c = Some path
        \<and> \<not> ac_read_only c \<and> \<not> ac_persists c
        \<and> ((dispatch_storage_serialize (hw_world W) catalog (h_manager h) = (Inl (Unsupported s), m)
              \<and> h' = h\<lparr>h_manager := m\<rparr>)
          \<or> (\<exists>bytes e. dispatch_storage_serialize (hw_world W) catalog (h_manager h) = (Inr bytes, m)
              \<and> hw_write_file W path bytes (h_outside h) = (Inr (), e)
              \<and> h' = h\<lparr>h_manager := m, h_outside := e\<rparr>)))"
proof (cases "map_of (h_aliases h) alias")
  case None
  then show ?thesis using assms by (simp add: at5_write_back_def)
next
  case (Some c)
  show ?thesis
  proof (cases "ac_read_only c \<or> ac_persists c \<or> ac_dsn_path c = None")
    case True
    then show ?thesis using assms Some by (auto simp: at5_write_back_def split: if_splits)
  next
    case False
    then obtain path where p: "ac_dsn_path c = Some path" by auto
    obtain s m where d: "dispatch_storage_serialize (hw_world W) catalog (h_manager h) = (s, m)"
      by (rule prod.exhaust)
    consider u where "s = Inl (Unsupported u)" | e where "s = Inl e" "\<nexists>u. e = Unsupported u"
      | bytes where "s = Inr bytes"
      by (cases s) auto
    then show ?thesis
    proof cases
      case 1
      then show ?thesis
        using assms Some False p d by (auto simp: at5_write_back_def on_manager_def)
    next
      case 2
      then show ?thesis
        using assms Some False p d by (cases e) (simp_all add: at5_write_back_def on_manager_def)
    next
      case 3
      obtain w e where f: "hw_write_file W path bytes (h_outside h) = (w, e)" by (rule prod.exhaust)
      then show ?thesis
        using assms Some False p d 3
        by (cases w) (simp_all add: at5_write_back_def on_manager_def on_outside_def)
    qed
  qed
qed

section \<open>A small shop\<close>

text \<open>
  For the witnesses: an extension that declares a table of two columns, a core that answers every
  query with its one row, and a database and files that take everything, and note it down.
\<close>

definition shop_columns :: "columndef list" where
  "shop_columns = [\<lparr>cd_name = ''rowid'', cd_logical = L_Int64\<rparr>, \<lparr>cd_name = ''price'', cd_logical = L_Int64\<rparr>]"

definition shop_guest :: "(nat \<times> nat) running guest" where
  "shop_guest g name args =
     (if name = interface ''storage-dispatch'' @ ''#storage-table-columns''
      then (Inr [V_Result (Inr (Some (columndef_list_to_value shop_columns)))], g)
      else (Inl ''trap'', g))"

definition shop_rows :: query_result where
  "shop_rows = \<lparr>qr_columns = shop_columns, qr_rows = [[D_Int64 7, D_Int64 20]]\<rparr>"

definition shop :: "(nat \<times> nat, sqlite_value list list, unit) host_world" where
  "shop =
     \<lparr>hw_world = demo_world\<lparr>w_guest := (\<lambda>_. shop_guest)\<rparr>,
      hw_printers = \<lparr>show_f64 = (\<lambda>_. []), show_f32 = (\<lambda>_. []), debug_duckvalue = (\<lambda>_. [])\<rparr>,
      hw_core = (\<lambda>_ _ s. (Inr [V_Result (Inr (Some (query_result_to_value shop_rows)))], s)),
      hw_drop = (\<lambda>_ s. (Inr (), s)), hw_sql_open = (\<lambda>_ e. (Inr 0, e)), hw_sql_batch = (\<lambda>_ _ e. e),
      hw_sql_prepare = (\<lambda>_ _ e. (Inr (), e)), hw_sql_execute = (\<lambda>_ _ params e. (Inr 1, params # e)),
      hw_write_file = (\<lambda>_ bytes e. (Inr (), [SV_Blob bytes] # e)), hw_autoload = None,
      hw_json = \<lparr>jget = (\<lambda>_ _. None), jstr = (\<lambda>_. None), jarr = (\<lambda>_. None), jbool = (\<lambda>_. None)\<rparr>, hw_parse = (\<lambda>_. None), hw_read_log = (\<lambda>_ _. None), hw_preopens = []\<rparr>"

definition shop_catalog :: attached_catalog where
  "shop_catalog =
     \<lparr>ac_extension = ''db'', ac_catalog_handle = 1, ac_callback_handle = 9, ac_type_name = ''sqlite'',
      ac_tables = [''t''], ac_table_callbacks = Map.empty, ac_dsn_path = Some ''/s.db'',
      ac_read_only = False, ac_persists = False, ac_native = Some 0\<rparr>"

definition shop_host :: "(nat \<times> nat, sqlite_value list list) host" where
  "shop_host = (new_host demo_manager [])\<lparr>h_aliases := [(''s'', shop_catalog)]\<rparr>"

lemma shop_core: "hw_core shop name args s = (Inr [V_Result (Inr (Some (query_result_to_value shop_rows)))], s)"
  by (simp add: shop_def)

theorem update_exact_witness:
  "\<exists>h'. intercept_update shop (0, 0) ''s'' ''t'' [(''Price'', ''NULL'')] (Some ''price = 20'') shop_host = (Inr empty_query_result, h')
     \<and> h_outside h' = [[SV_Null, SV_Integer 7]]
     \<and> (\<exists>k (cols :: columndef list) idx ids new vals qr h1 h2.
          run_sql shop (0, 0) ''SELECT * FROM s.main.t WHERE price = 20'' h1 = (Inr qr, h2)
        \<and> identities idx (qr_rows qr) ids \<and> assigned vals (qr_rows qr) new \<and> map snd vals = [D_Null]
        \<and> rows_updated shop k ''t'' cols idx ids new (h_outside h2) (h_outside h'))"
proof -
  let ?r = "intercept_update shop (0, 0) ''s'' ''t'' [(''Price'', ''NULL'')] (Some ''price = 20'') shop_host"
  have r: "fst ?r = Inr empty_query_result" by code_simp
  then have e: "?r = (Inr empty_query_result, snd ?r)" by (simp add: prod_eq_iff)
  have o: "h_outside (snd ?r) = [[SV_Null, SV_Integer 7]]" by code_simp
  have l: "literal_to_extension_duckvalue (parse_value_literal ''NULL'') = Inr v \<Longrightarrow> v = D_Null" for v
  proof -
    have "literal_to_extension_duckvalue (parse_value_literal ''NULL'') = Inr D_Null" by code_simp
    then show "literal_to_extension_duckvalue (parse_value_literal ''NULL'') = Inr v \<Longrightarrow> v = D_Null" by simp
  qed
  have a: "map_of (h_aliases shop_host) ''s'' = Some c \<Longrightarrow> c = shop_catalog" for c by (simp add: shop_host_def)
  obtain c cols idx vals qr ids new h1 h2 where t: "map_of (h_aliases shop_host) ''s'' = Some c"
    "list_all2 (\<lambda>(col, text) (i, v). position (\<lambda>c. eq_ignore_case (cd_name c) col) cols = Some i
         \<and> literal_to_extension_duckvalue (parse_value_literal text) = Inr v) [(''Price'', ''NULL'')] vals"
    "run_sql shop (0, 0) (''SELECT * FROM '' @ ''s'' @ ''.main.'' @ ''t''
         @ (case Some ''price = 20'' of Some p \<Rightarrow> '' WHERE '' @ p | None \<Rightarrow> [])) h1 = (Inr qr, h2)"
    "identities idx (qr_rows qr) ids" "assigned vals (qr_rows qr) new"
    "if ids = [] then snd ?r = h2
       else (case ac_native c of
           Some k \<Rightarrow> \<exists>e. rows_updated shop k ''t'' cols idx ids new (h_outside h2) e \<and> snd ?r = h2\<lparr>h_outside := e\<rparr>
         | None \<Rightarrow> \<exists>n h3. dispatched (dispatch_storage_update_direct (hw_world shop) (ac_catalog_handle c) ''t'' ids new) h2 = (Inr n, h3)
             \<and> finish_write shop ''s'' (ac_catalog_handle c) h3 = (Inr empty_query_result, snd ?r))"
    using update_exact [OF e] by (elim exE conjE) (rule that)
  have q: "run_sql shop (0, 0) ''SELECT * FROM s.main.t WHERE price = 20'' h1 = (Inr qr, h2)" using t(3) by simp
  have "execute_reply (hw_fmt shop) [V_Result (Inr (Some (query_result_to_value shop_rows)))] = Inr (Inr shop_rows)" by code_simp
  then have "run_sql shop (0, 0) sql h = (Inr shop_rows, h)" for sql h
    by (simp add: run_sql_def call_database_execute_def call_export_on_resource_def call_core_def shop_core)
  with q have "qr = shop_rows" by simp
  then have "ids \<noteq> []" using t(4) by (auto simp: identities_def shop_rows_def)
  moreover have "c = shop_catalog" using t(1) by (rule a)
  ultimately have u: "rows_updated shop 0 ''t'' cols idx ids new (h_outside h2) (h_outside (snd ?r))"
    using t(6) by (auto simp: shop_catalog_def)
  have "map snd vals = [D_Null]" using t(2) l by (auto simp: list_all2_Cons1)
  then have "run_sql shop (0, 0) ''SELECT * FROM s.main.t WHERE price = 20'' h1 = (Inr qr, h2)
        \<and> identities idx (qr_rows qr) ids \<and> assigned vals (qr_rows qr) new \<and> map snd vals = [D_Null]
        \<and> rows_updated shop 0 ''t'' cols idx ids new (h_outside h2) (h_outside (snd ?r))" using q t(4,5) u by blast
  note v = this
  show ?thesis
    by (rule exI [of _ "snd ?r"], rule conjI, rule e, rule conjI, rule o, (rule exI)+, rule v)
qed


theorem write_back_durable_witness:
  "fst (at5_write_back shop ''s'' 1 (shop_host\<lparr>h_aliases := [(''s'', shop_catalog\<lparr>ac_read_only := True\<rparr>)]\<rparr>)) = Inr ()
   \<and> snd (at5_write_back shop ''s'' 1 (shop_host\<lparr>h_aliases := [(''s'', shop_catalog\<lparr>ac_read_only := True\<rparr>)]\<rparr>))
       = shop_host\<lparr>h_aliases := [(''s'', shop_catalog\<lparr>ac_read_only := True\<rparr>)]\<rparr>"
proof -
  let ?h = "shop_host\<lparr>h_aliases := [(''s'', shop_catalog\<lparr>ac_read_only := True\<rparr>)]\<rparr>"
  let ?r = "at5_write_back shop ''s'' 1 ?h"
  have "fst ?r = Inr ()" by (simp add: at5_write_back_def)
  then have e: "?r = (Inr (), snd ?r)" by (simp add: prod_eq_iff)
  show ?thesis using write_back_durable [OF e] e by auto
qed

section \<open>Where the code falls short\<close>

text \<open>
  The column list of an INSERT is dropped on the way to an extension: the rows are handed on as if
  the columns had been named in the order of the table.
\<close>

lemma insert_columns_ignored:
  assumes "map_of (h_aliases h) alias = Some c" "ac_native c = None"
    "list_all (\<lambda>r. length r = length named) rows" "length named' = length named"
  shows "intercept_insert W alias table named rows h = intercept_insert W alias table named' rows h"
proof -
  have "rmap (insert_row what named) rows = rmap (insert_row what named') rows" for what
    using assms(3)
  proof (induction rows)
    case (Cons r rows)
    then show ?case using assms(4) by (simp add: insert_row_def)
  qed simp
  then show ?thesis using assms by (simp add: intercept_insert_def)
qed

text \<open>Nothing on the way of a write looks at the flag of a read-only catalog.\<close>

lemma read_only_written:
  assumes "map_of (h_aliases h) alias = Some c" "ac_read_only c" "ac_native c = None"
    "rmap (insert_row (alias @ ''.'' @ table) named) rows = Inr new"
    "dispatch_storage_insert_direct (hw_world W) (ac_catalog_handle c) table new (h_manager h) = (Inr n, m)"
  shows "intercept_insert W alias table named rows h = (Inr empty_query_result, h\<lparr>h_manager := m\<rparr>)"
  using assms
  by (simp add: intercept_insert_def dispatched_def on_manager_def hbind_def finish_write_def
      at5_write_back_def hpure_def)

text \<open>
  On the fast path an INSERT that fails in the middle keeps the rows before the failure: there is
  no transaction around it.
\<close>

lemma native_insert_partial:
  assumes "hw_sql_prepare W conn (native_insert_sql table named (length a)) e = (Inr (), e0)"
    "hw_sql_execute W conn (native_insert_sql table named (length a))
       (map (duck_to_sqlite_value (hw_printers W)) a) e0 = (Inr k, e1)"
    "hw_sql_execute W conn (native_insert_sql table named (length a))
       (map (duck_to_sqlite_value (hw_printers W)) b) e1 = (Inl m, e2)"
  shows "\<exists>err. at5_native_insert W conn table named [a, b] e = (Inl err, e2)"
  using assms by (simp add: at5_native_insert_def Let_def sql_prepare_def hbind_def)

end
