(* ===== verification/Sql_Lexemes.thy ===== *)
theory Sql_Lexemes
  imports Sql_Lex
begin

text \<open>
  A specification of the lexical structure of a script, apart from the scanners of
  \<open>crates/ducklink-host/src/at5_intercept.rs\<close>: a text is one sequence of lexemes, a statement ends at a
  lexeme that is a semicolon, and \<open>split_statements\<close> and \<open>is_multi_statement\<close> agree with that.
\<close>

section \<open>Lexemes\<close>

text \<open>
  A literal, a quoted identifier or a block comment may be left open at the end of the text; a line
  comment ends before the line feed. A doubled quote is the end of one literal and the start of
  another.
\<close>

datatype lexeme =
    Byte char | Semicolon | Literal string | Quoted string | Line_comment string | Block_comment string
  | Open_literal string | Open_quoted string | Open_block string

fun lexeme_text :: "lexeme \<Rightarrow> string" where
  "lexeme_text (Byte c) = [c]"
| "lexeme_text Semicolon = '';''"
| "lexeme_text (Literal t) = CHR 0x27 # t @ [CHR 0x27]"
| "lexeme_text (Quoted t) = CHR 0x22 # t @ [CHR 0x22]"
| "lexeme_text (Line_comment t) = ''--'' @ t"
| "lexeme_text (Block_comment t) = ''/*'' @ t @ ''*/''"
| "lexeme_text (Open_literal t) = CHR 0x27 # t"
| "lexeme_text (Open_quoted t) = CHR 0x22 # t"
| "lexeme_text (Open_block t) = ''/*'' @ t"

definition script_text :: "lexeme list \<Rightarrow> string" where
  "script_text ls = concat (map lexeme_text ls)"

text \<open>What a lexeme may hold and what may follow it.\<close>

fun lexeme_ok :: "lexeme \<Rightarrow> string \<Rightarrow> bool" where
  "lexeme_ok (Byte c) r \<longleftrightarrow> c \<noteq> CHR '';'' \<and> c \<noteq> CHR 0x27 \<and> c \<noteq> CHR 0x22
     \<and> \<not> starts_with ''--'' (c # r) \<and> \<not> starts_with ''/*'' (c # r)"
| "lexeme_ok Semicolon r \<longleftrightarrow> True"
| "lexeme_ok (Literal t) r \<longleftrightarrow> CHR 0x27 \<notin> set t"
| "lexeme_ok (Quoted t) r \<longleftrightarrow> CHR 0x22 \<notin> set t"
| "lexeme_ok (Line_comment t) r \<longleftrightarrow> CHR 0x0A \<notin> set t \<and> (r = [] \<or> hd r = CHR 0x0A)"
| "lexeme_ok (Block_comment t) r \<longleftrightarrow> \<not> contains ''*/'' (t @ ''*'')"
| "lexeme_ok (Open_literal t) r \<longleftrightarrow> CHR 0x27 \<notin> set t \<and> r = []"
| "lexeme_ok (Open_quoted t) r \<longleftrightarrow> CHR 0x22 \<notin> set t \<and> r = []"
| "lexeme_ok (Open_block t) r \<longleftrightarrow> \<not> contains ''*/'' t \<and> r = []"

fun lexed :: "lexeme list \<Rightarrow> bool" where
  "lexed [] \<longleftrightarrow> True"
| "lexed (l # ls) \<longleftrightarrow> lexeme_ok l (script_text ls) \<and> lexed ls"

text \<open>The statements: the lexemes between the semicolons.\<close>

fun at_semicolons :: "lexeme list \<Rightarrow> lexeme list list" where
  "at_semicolons [] = [[]]"
| "at_semicolons (l # ls) =
     (if l = Semicolon then [] # at_semicolons ls
      else (case at_semicolons ls of [] \<Rightarrow> [[l]] | p # ps \<Rightarrow> (l # p) # ps))"

lemma script_text_simps [simp]: "script_text [] = []" "script_text (l # ls) = lexeme_text l @ script_text ls"
  by (simp_all add: script_text_def)

lemma script_text_append [simp]: "script_text (a @ b) = script_text a @ script_text b"
  by (simp add: script_text_def)

lemma at_semicolons_not_Nil [simp]: "at_semicolons ls \<noteq> []"
  by (cases ls) (simp_all split: list.split)

declare at_semicolons.simps(2) [simp del]

lemma at_semicolons_Cons [simp]:
  "at_semicolons (l # ls)
     = (if l = Semicolon then [] # at_semicolons ls else (l # hd (at_semicolons ls)) # tl (at_semicolons ls))"
  by (cases "at_semicolons ls") (simp_all add: at_semicolons.simps(2))

section \<open>The scanners on lexemes\<close>

lemma contains_shift: "contains p s \<Longrightarrow> contains p (c # s)"
  unfolding contains_iff by (metis append_Cons)

lemma block_len_closed: "\<not> contains ''*/'' (t @ ''*'') \<Longrightarrow> block_len (t @ CHR ''*'' # CHR ''/'' # r) = length t + 2"
proof (induction t)
  case (Cons c t)
  then have "\<not> contains ''*/'' (t @ ''*'')" using contains_shift [of "''*/''" "t @ ''*''" c] by (metis append_Cons)
  moreover have "\<not> (c = CHR ''*'' \<and> t \<noteq> [] \<and> hd t = CHR ''/'')"
    using Cons.prems contains_append [of "''*/''" "[]" "tl t @ ''*''"] by (cases t) auto
  ultimately show ?case using Cons.IH by (cases t) auto
qed simp

lemma block_len_open: "\<not> contains ''*/'' t \<Longrightarrow> block_len t = length t"
proof (induction t)
  case (Cons c t)
  then have "\<not> contains ''*/'' t" using contains_shift [of "''*/''" t c] by blast
  moreover have "\<not> (c = CHR ''*'' \<and> t \<noteq> [] \<and> hd t = CHR ''/'')"
    using Cons.prems contains_append [of "''*/''" "[]" "tl t"] by (cases t) auto
  ultimately show ?case using Cons.IH by (cases t) auto
qed simp

lemma skip_byte: "lexeme_ok (Byte c) r \<Longrightarrow> skip_comment (c # r) = 0"
  by (cases r) (auto simp: skip_comment_def starts_with_def)

lemma skip_none [simp]:
  "skip_comment (CHR '';'' # r) = 0" "skip_comment (CHR 0x27 # r) = 0" "skip_comment (CHR 0x22 # r) = 0"
  by (simp_all add: skip_comment_def split: list.split)

lemma skip_line:
  assumes "lexeme_ok (Line_comment t) r"
  shows "skip_comment (CHR ''-'' # CHR ''-'' # t @ r) = length t + 2"
proof -
  have "takeWhile (\<lambda>c. c \<noteq> CHR 0x0A) r = []" using assms by (cases r) auto
  moreover have "takeWhile (\<lambda>c. c \<noteq> CHR 0x0A) t = t" using assms by (auto simp: takeWhile_eq_all_conv)
  ultimately show ?thesis
    using assms by (subst skip_comment_def) (simp add: takeWhile_append)
qed

lemma skip_block: "lexeme_ok (Block_comment t) r \<Longrightarrow>
   skip_comment (CHR ''/'' # CHR ''*'' # t @ CHR ''*'' # CHR ''/'' # r) = length t + 4"
  by (simp add: skip_comment_def block_len_closed)

lemma skip_open: "lexeme_ok (Open_block t) r \<Longrightarrow> skip_comment (CHR ''/'' # CHR ''*'' # t) = length t + 2"
  by (simp add: skip_comment_def block_len_open)

lemma split_single: "CHR 0x27 \<notin> set t \<Longrightarrow> split_go In_single cur (t @ r) = split_go In_single (cur @ t) r"
  by (induction t arbitrary: cur) auto

lemma split_double: "CHR 0x22 \<notin> set t \<Longrightarrow> split_go In_double cur (t @ r) = split_go In_double (cur @ t) r"
  by (induction t arbitrary: cur) auto

lemmas split_to_end = split_single [where r = "[]"] split_double [where r = "[]"]

lemma split_go_lexeme:
  assumes "lexeme_ok l (script_text ls)" "l \<noteq> Semicolon"
  shows "split_go Plain cur (script_text (l # ls)) = split_go Plain (cur @ lexeme_text l) (script_text ls)"
  using assms
proof (cases l)
  case (Byte c)
  then show ?thesis using assms skip_byte by auto
next
  case (Line_comment t)
  then show ?thesis using assms(1) skip_line [of t "script_text ls"] by simp
next
  case (Block_comment t)
  then show ?thesis using assms(1) skip_block [of t "script_text ls"] by (simp add: Let_def take_Cons' drop_Cons')
next
  case (Open_block t)
  then show ?thesis using assms(1) skip_open [of t "script_text ls"] by simp
next
  case (Open_literal t)
  then show ?thesis using assms(1) split_single [of t "cur @ [CHR 0x27]" "[]"] by simp
next
  case (Open_quoted t)
  then show ?thesis using assms(1) split_double [of t "cur @ [CHR 0x22]" "[]"] by simp
qed (use assms in \<open>simp_all add: split_single split_double\<close>)

lemma split_go_lexed:
  "lexed ls \<Longrightarrow> split_go Plain cur (script_text ls)
     = filter (\<lambda>p. trim p \<noteq> []) ((cur @ script_text (hd (at_semicolons ls))) # map script_text (tl (at_semicolons ls)))"
proof (induction ls arbitrary: cur)
  case Nil
  then show ?case by (simp add: push_piece_def)
next
  case (Cons l ls)
  show ?case
  proof (cases "l = Semicolon")
    case True
    have "hd (at_semicolons ls) # tl (at_semicolons ls) = at_semicolons ls" by simp
    then have "map script_text (at_semicolons ls) = script_text (hd (at_semicolons ls)) # map script_text (tl (at_semicolons ls))" by (metis list.map(2))
    then show ?thesis using Cons True by (simp add: push_piece_def)
  next
    case False
    then show ?thesis
      using Cons split_go_lexeme [of l ls cur] by (simp del: script_text_simps(2)) simp
  qed
qed

section \<open>Every text has one sequence of lexemes\<close>

lemma split_at_char:
  "c \<in> set s \<Longrightarrow> \<exists>t r. s = t @ c # r \<and> c \<notin> set t"
  using split_list_first by fastforce

lemma split_at_close:
  "contains ''*/'' s \<Longrightarrow> \<exists>t r. s = t @ ''*/'' @ r \<and> \<not> contains ''*/'' (t @ ''*'')"
proof (induction s)
  case Nil
  then show ?case by (simp add: contains_def)
next
  case (Cons c s)
  show ?case
  proof (cases "starts_with ''*/'' (c # s)")
    case True
    then have "c # s = [] @ ''*/'' @ tl s" by (cases s) (auto simp: starts_with_def)
    moreover have "\<not> contains ''*/'' ([] @ ''*'')" by code_simp
    ultimately show ?thesis by blast
  next
    case False
    then have "contains ''*/'' s" using Cons.prems by (simp add: contains_def)
    then obtain t r where t: "s = t @ ''*/'' @ r" "\<not> contains ''*/'' (t @ ''*'')" using Cons.IH by blast
    have "\<not> starts_with ''*/'' (c # t @ ''*'')"
      using False t(1) by (cases t) (auto simp: starts_with_def)
    then have "\<not> contains ''*/'' ((c # t) @ ''*'')" using t(2) by (simp add: contains_def)
    then show ?thesis using t(1) by (metis append_Cons)
  qed
qed

lemma starts_rest: "starts_with p s \<Longrightarrow> (\<And>r. s = p @ r \<Longrightarrow> thesis) \<Longrightarrow> thesis"
  unfolding starts_with_def by (metis append_take_drop_id)

lemma lexed_exists: "\<exists>ls. lexed ls \<and> script_text ls = s"
proof (induction s rule: length_induct)
  case (1 s)
  have more: "\<exists>ls. lexed ls \<and> script_text ls = s" if "s = lexeme_text l @ r" "lexeme_ok l r" for l r
  proof -
    have "length r < length s" using that(1) by (cases l) simp_all
    then obtain ls where "lexed ls" "script_text ls = r" using "1.IH" by blast
    then show ?thesis using that by (intro exI [of _ "l # ls"]) simp
  qed
  show ?case
  proof (cases s)
    case Nil
    then show ?thesis by (intro exI [of _ "[]"]) simp
  next
    case (Cons c r)
    consider "c = CHR '';''" | "c = CHR 0x27" "CHR 0x27 \<in> set r" | "c = CHR 0x27" "CHR 0x27 \<notin> set r"
      | "c = CHR 0x22" "CHR 0x22 \<in> set r" | "c = CHR 0x22" "CHR 0x22 \<notin> set r"
      | (line) "starts_with ''--'' s" | (block) "starts_with ''/*'' s" | "lexeme_ok (Byte c) r"
      unfolding lexeme_ok.simps Cons by blast
    then show ?thesis
    proof cases
      case line
      then obtain r' where r: "s = ''--'' @ r'" by (rule starts_rest)
      let ?P = "\<lambda>c. c \<noteq> CHR 0x0A"
      have "lexeme_ok (Line_comment (takeWhile ?P r')) (dropWhile ?P r')"
        using hd_dropWhile [of ?P r'] set_takeWhileD [of _ ?P r'] by auto
      moreover have "s = lexeme_text (Line_comment (takeWhile ?P r')) @ dropWhile ?P r'" using r by simp
      ultimately show ?thesis using more by blast
    next
      case block
      then obtain r' where r: "s = ''/*'' @ r'" by (rule starts_rest)
      show ?thesis
      proof (cases "contains ''*/'' r'")
        case True
        then obtain t r'' where "r' = t @ ''*/'' @ r''" "\<not> contains ''*/'' (t @ ''*'')" using split_at_close by blast
        with r show ?thesis by (intro more [of "Block_comment t" r'']) simp_all
      next
        case False
        with r show ?thesis by (intro more [of "Open_block r'" "[]"]) simp_all
      qed
    next
      case 2
      obtain t r' where "r = t @ CHR 0x27 # r'" "CHR 0x27 \<notin> set t"
        using split_at_char [OF 2(2)] by blast
      show ?thesis
      proof (rule more)
        show "s = lexeme_text (Literal t) @ r'" unfolding Cons 2(1) \<open>r = _\<close> by simp
        show "lexeme_ok (Literal t) r'" using \<open>CHR 0x27 \<notin> set t\<close> by simp
      qed
    next
      case 4
      obtain t r' where "r = t @ CHR 0x22 # r'" "CHR 0x22 \<notin> set t"
        using split_at_char [OF 4(2)] by blast
      show ?thesis
      proof (rule more)
        show "s = lexeme_text (Quoted t) @ r'" unfolding Cons 4(1) \<open>r = _\<close> by simp
        show "lexeme_ok (Quoted t) r'" using \<open>CHR 0x22 \<notin> set t\<close> by simp
      qed
    next
      case 1
      with Cons show ?thesis by (intro more [of Semicolon r]) simp_all
    next
      case 3
      with Cons show ?thesis by (intro more [of "Open_literal r" "[]"]) simp_all
    next
      case 5
      with Cons show ?thesis by (intro more [of "Open_quoted r" "[]"]) simp_all
    next
      case 8
      with Cons show ?thesis by (intro more [of "Byte c" r]) simp_all
    qed
  qed
qed

lemma quote_unique:
  "t @ c # r = t' @ c # r' \<Longrightarrow> c \<notin> set t \<Longrightarrow> c \<notin> set t' \<Longrightarrow> t = t' \<and> r = r'"
  by (induction t arbitrary: t') (auto simp: Cons_eq_append_conv append_eq_Cons_conv)

lemma line_unique:
  assumes "t @ r = t' @ r'" "lexeme_ok (Line_comment t) r" "lexeme_ok (Line_comment t') r'"
  shows "t = t' \<and> r = r'"
proof -
  have "length t = length t'" using skip_line [OF assms(2)] skip_line [OF assms(3)] assms(1) by simp
  then show ?thesis using assms(1) by simp
qed

lemma block_unique:
  assumes "t @ CHR ''*'' # CHR ''/'' # r = t' @ CHR ''*'' # CHR ''/'' # r'"
    "\<not> contains ''*/'' (t @ ''*'')" "\<not> contains ''*/'' (t' @ ''*'')"
  shows "t = t' \<and> r = r'"
proof -
  have "length t = length t'"
    using block_len_closed [OF assms(2)] block_len_closed [OF assms(3)] assms(1) by (metis add_right_cancel)
  then show ?thesis using assms(1) by simp
qed

lemma block_not_open: "\<not> contains ''*/'' t \<Longrightarrow> t \<noteq> a @ CHR ''*'' # CHR ''/'' # b"
  using contains_append [of "''*/''" a b] by auto

lemma lexeme_unique:
  assumes "lexeme_text l @ r = lexeme_text l' @ r'" "lexeme_ok l r" "lexeme_ok l' r'"
  shows "l = l' \<and> r = r'"
proof (cases l)
  case (Byte c)
  then show ?thesis using assms by (cases l') (auto simp: starts_with_def)
next
  case Semicolon
  then show ?thesis using assms by (cases l') (auto simp: starts_with_def)
next
  case (Literal t)
  then show ?thesis using assms quote_unique [of t _ r] by (cases l') (auto simp: starts_with_def)
next
  case (Quoted t)
  then show ?thesis using assms quote_unique [of t _ r] by (cases l') (auto simp: starts_with_def)
next
  case (Line_comment t)
  then show ?thesis using assms line_unique [of t r _ r'] by (cases l') (auto simp: starts_with_def)
next
  case (Block_comment t)
  then show ?thesis using assms block_unique [of t r] block_not_open by (cases l') (auto simp: starts_with_def)
next
  case (Open_literal t)
  then show ?thesis using assms by (cases l') (auto simp: starts_with_def)
next
  case (Open_quoted t)
  then show ?thesis using assms by (cases l') (auto simp: starts_with_def)
next
  case (Open_block t)
  then show ?thesis using assms block_not_open by (cases l') (auto simp: starts_with_def)
qed

lemma lexed_unique: "lexed ls \<Longrightarrow> lexed ls' \<Longrightarrow> script_text ls = script_text ls' \<Longrightarrow> ls = ls'"
proof (induction ls arbitrary: ls')
  case Nil
  then show ?case by (cases ls'; cases "hd ls'") auto
next
  case (Cons l ls)
  then obtain l' ls'' where l: "ls' = l' # ls''" by (cases ls'; cases l) auto
  then have "l = l' \<and> script_text ls = script_text ls''" using Cons.prems lexeme_unique [of l "script_text ls" l' "script_text ls''"] by simp
  then show ?case using Cons l by simp
qed

section \<open>The splitter\<close>

lemma split_lexed:
  assumes "lexed ls"
  shows "split_statements (script_text ls) = filter (\<lambda>p. trim p \<noteq> []) (map script_text (at_semicolons ls))"
proof -
  have "hd (at_semicolons ls) # tl (at_semicolons ls) = at_semicolons ls" by simp
  then have "map script_text (at_semicolons ls)
      = script_text (hd (at_semicolons ls)) # map script_text (tl (at_semicolons ls))" by (metis list.map(2))
  then show ?thesis
    using split_go_lexed [OF assms, of "[]"] by (simp add: split_statements_def)
qed

text \<open>
  C10. The statement splitter follows the lexical structure: every text is one sequence of lexemes,
  literals, quoted identifiers, line and block comments, semicolons and single bytes, and no other
  one; the statements it returns are the texts between the lexemes that are semicolons, in
  order, without those that are blank. A statement of comments only is returned as well.
\<close>

theorem split_statements_lexical:
  assumes "lexed ls"
  shows "split_statements (script_text ls) = filter (\<lambda>p. trim p \<noteq> []) (map script_text (at_semicolons ls))
    \<and> (\<exists>!ls'. lexed ls' \<and> script_text ls' = sql)"
proof
  show "split_statements (script_text ls) = filter (\<lambda>p. trim p \<noteq> []) (map script_text (at_semicolons ls))"
    by (rule split_lexed [OF assms])
  show "\<exists>!ls'. lexed ls' \<and> script_text ls' = sql"
    using lexed_exists [of sql] lexed_unique by (auto intro!: ex_ex1I)
qed

text \<open>\<open>SELECT ';' -- ;\<close>, a line feed, \<open>; /* ; */\<close>\<close>

definition demo_script :: "lexeme list" where
  "demo_script = map Byte ''SELECT '' @ [Literal '';'', Byte (CHR '' ''), Line_comment '' ;'', Byte (CHR 0x0A), Semicolon,
     Byte (CHR '' ''), Block_comment '' ; '', Semicolon, Byte (CHR '' '')]"

theorem split_statements_lexical_witness:
  "split_statements (''SELECT '' @ [CHR 0x27] @ '';'' @ [CHR 0x27] @ '' -- ;'' @ [CHR 0x0A] @ ''; /* ; */; '')
     = [''SELECT '' @ [CHR 0x27] @ '';'' @ [CHR 0x27] @ '' -- ;'' @ [CHR 0x0A], '' /* ; */'']"
proof -
  have "lexed demo_script" by code_simp
  moreover have "script_text demo_script = ''SELECT '' @ [CHR 0x27] @ '';'' @ [CHR 0x27] @ '' -- ;'' @ [CHR 0x0A] @ ''; /* ; */; ''"
    by code_simp
  moreover have "filter (\<lambda>p. trim p \<noteq> []) (map script_text (at_semicolons demo_script))
      = [''SELECT '' @ [CHR 0x27] @ '';'' @ [CHR 0x27] @ '' -- ;'' @ [CHR 0x0A], '' /* ; */'']"
    by code_simp
  ultimately show ?thesis using split_statements_lexical [of demo_script "[]"] by simp
qed

section \<open>The test for several statements\<close>

text \<open>What counts after the first semicolon: another one, or a byte that is no white space.\<close>

fun counts :: "lexeme \<Rightarrow> bool" where
  "counts (Byte c) \<longleftrightarrow> \<not> is_ascii_ws c"
| "counts l \<longleftrightarrow> l = Semicolon"

fun several :: "lexeme list \<Rightarrow> bool" where
  "several [] \<longleftrightarrow> False"
| "several (l # ls) \<longleftrightarrow> (if l = Semicolon then list_ex counts ls else several ls)"

lemma multi_single: "CHR 0x27 \<notin> set t \<Longrightarrow> multi_go In_single seen (t @ r) = multi_go In_single seen r"
  by (induction t) auto

lemma multi_double: "CHR 0x22 \<notin> set t \<Longrightarrow> multi_go In_double seen (t @ r) = multi_go In_double seen r"
  by (induction t) auto

lemma multi_go_lexeme:
  assumes "lexeme_ok l (script_text ls)" "l \<noteq> Semicolon"
  shows "multi_go Plain seen (script_text (l # ls)) \<longleftrightarrow> (seen \<and> counts l) \<or> multi_go Plain seen (script_text ls)"
  using assms
proof (cases l)
  case (Byte c)
  then show ?thesis using assms skip_byte by auto
next
  case (Line_comment t)
  then show ?thesis using assms(1) skip_line [of t "script_text ls"] by simp
next
  case (Block_comment t)
  then show ?thesis using assms(1) skip_block [of t "script_text ls"] by (simp add: Let_def drop_Cons')
next
  case (Open_block t)
  then show ?thesis using assms(1) skip_open [of t "script_text ls"] by simp
next
  case (Open_literal t)
  then show ?thesis using assms(1) multi_single [of t seen "[]"] by simp
next
  case (Open_quoted t)
  then show ?thesis using assms(1) multi_double [of t seen "[]"] by simp
qed (use assms in \<open>simp_all add: multi_single multi_double\<close>)

lemma multi_go_seen: "lexed ls \<Longrightarrow> multi_go Plain True (script_text ls) \<longleftrightarrow> list_ex counts ls"
proof (induction ls)
  case (Cons l ls)
  then show ?case
    using multi_go_lexeme [of l ls True] by (cases "l = Semicolon") (simp_all del: script_text_simps(2), simp)
qed simp

lemma is_multi_lexed: "lexed ls \<Longrightarrow> is_multi_statement (script_text ls) \<longleftrightarrow> several ls"
  unfolding is_multi_statement_def
proof (induction ls)
  case (Cons l ls)
  then show ?case
    using multi_go_lexeme [of l ls False] multi_go_seen [of ls]
    by (cases "l = Semicolon") (simp_all del: script_text_simps(2), simp)
qed simp

section \<open>Single statements\<close>

lemma script_text_cut: "\<exists>r. script_text ls = script_text (hd (at_semicolons ls)) @ r \<and> (r = [] \<or> hd r = CHR '';'')"
  by (induction ls) auto

lemma lexeme_ok_prefix: "lexeme_ok l (a @ r) \<Longrightarrow> r = [] \<or> hd r = CHR '';'' \<Longrightarrow> lexeme_ok l a"
  by (cases l; cases a; cases r) (auto simp: starts_with_def)

lemma at_semicolons_lexed: "lexed ls \<Longrightarrow> p \<in> set (at_semicolons ls) \<Longrightarrow> lexed p \<and> Semicolon \<notin> set p"
proof (induction ls arbitrary: p)
  case (Cons l ls)
  have m: "hd (at_semicolons ls) \<in> set (at_semicolons ls)" by simp
  have t: "x \<in> set (tl (at_semicolons ls)) \<Longrightarrow> x \<in> set (at_semicolons ls)" for x by (rule list.set_sel(2)) simp_all
  show ?case
  proof (cases "p = l # hd (at_semicolons ls) \<and> l \<noteq> Semicolon")
    case True
    obtain r where r: "script_text ls = script_text (hd (at_semicolons ls)) @ r" "r = [] \<or> hd r = CHR '';''" using script_text_cut by blast
    have "lexeme_ok l (script_text ls)" using Cons.prems(1) by simp
    then have "lexeme_ok l (script_text (hd (at_semicolons ls)))" unfolding r(1) using r(2) by (rule lexeme_ok_prefix)
    then show ?thesis using Cons.IH [OF _ m] Cons.prems(1) True by auto
  next
    case False
    then have "p = [] \<or> p \<in> set (at_semicolons ls)" using Cons.prems(2) t by (auto split: if_splits)
    then show ?thesis using Cons.IH Cons.prems(1) by auto
  qed
qed simp

lemma single_not_several: "Semicolon \<notin> set p \<Longrightarrow> \<not> several p"
  by (induction p) auto

text \<open>White space around a statement makes no difference to the test.\<close>

definition neutral :: "char \<Rightarrow> bool" where
  "neutral c \<longleftrightarrow> c \<notin> {CHR '';'', CHR 0x27, CHR 0x22, CHR ''-'', CHR ''/'', CHR ''*''}"

lemma ws_neutral: "ws1 c \<Longrightarrow> neutral c" "ws2 a b \<Longrightarrow> neutral a \<and> neutral b"
  "wide_ws a b c \<Longrightarrow> neutral a \<and> neutral b \<and> neutral c"
  by (auto simp: ws1_def ws2_def wide_ws_def neutral_def byte_le_iff byte_nat_def)

lemma ws_len_neutral: "list_all neutral (take (ws_len s) s)"
  by (cases s rule: ws_len.cases) (auto simp: ws_neutral)

lemma ws_len_rev_neutral: "list_all neutral (take (ws_len_rev s) s)"
  by (cases s rule: ws_len_rev.cases) (auto simp: ws_neutral)

lemma trim_start_neutral: "\<exists>w. list_all neutral w \<and> s = w @ trim_start s"
proof (induction s rule: trim_start.induct)
  case (1 s)
  show ?case
  proof (cases "ws_len s = 0 \<or> s = []")
    case True
    then show ?thesis by (intro exI [of _ "[]"]) (simp add: trim_start.simps [of s])
  next
    case False
    from "1.IH" [OF this] obtain w where "list_all neutral w" "drop (ws_len s) s = w @ trim_start (drop (ws_len s) s)"
      by blast
    then have "list_all neutral (take (ws_len s) s @ w)" "s = (take (ws_len s) s @ w) @ trim_start s"
      using ws_len_neutral [of s] trim_start.simps [of s] False by (simp, metis append.assoc append_take_drop_id)
    then show ?thesis by blast
  qed
qed

lemma trim_rev_neutral: "\<exists>w. list_all neutral w \<and> s = w @ trim_rev s"
proof (induction s rule: trim_rev.induct)
  case (1 s)
  show ?case
  proof (cases "ws_len_rev s = 0 \<or> s = []")
    case True
    then show ?thesis by (intro exI [of _ "[]"]) (simp add: trim_rev.simps [of s])
  next
    case False
    from "1.IH" [OF this] obtain w where "list_all neutral w"
        "drop (ws_len_rev s) s = w @ trim_rev (drop (ws_len_rev s) s)" by blast
    then have "list_all neutral (take (ws_len_rev s) s @ w)" "s = (take (ws_len_rev s) s @ w) @ trim_rev s"
      using ws_len_rev_neutral [of s] trim_rev.simps [of s] False by (simp, metis append.assoc append_take_drop_id)
    then show ?thesis by blast
  qed
qed

lemma trim_end_neutral: "\<exists>w. list_all neutral w \<and> s = trim_end s @ w"
proof -
  obtain w where w: "list_all neutral w" "rev s = w @ trim_rev (rev s)" using trim_rev_neutral by blast
  then have "s = trim_end s @ rev w" unfolding trim_end_def by (metis rev_append rev_rev_ident)
  then show ?thesis using w(1) by (intro exI [of _ "rev w"]) (simp add: list_all_iff)
qed

lemma multi_go_before: "list_all neutral w \<Longrightarrow> multi_go Plain False (w @ s) = multi_go Plain False s"
proof (induction w)
  case (Cons c w)
  then have "skip_comment (c # w @ s) = 0" by (cases "w @ s") (auto simp: skip_comment_def neutral_def)
  then show ?case using Cons by (simp add: neutral_def)
qed simp

lemma block_len_more:
  assumes "list_all neutral w"
  shows "(block_len (r @ w) = block_len r \<and> block_len r \<le> length r) \<or> (block_len r = length r \<and> block_len (r @ w) \<ge> length r)"
proof (induction r rule: block_len.induct)
  case (1 a b s)
  then show ?case by auto
next
  case (2 a)
  have "block_len (a # w) \<ge> 1" by (cases w) auto
  then show ?case by simp
qed simp

text \<open>A comment of the shorter text is one of the longer text, which may reach further.\<close>

lemma skip_more:
  assumes "list_all neutral w"
  shows "\<exists>w'. list_all neutral w' \<and> drop (skip_comment (s @ w)) (s @ w) = drop (skip_comment s) s @ w'
    \<and> (s \<noteq> [] \<longrightarrow> (skip_comment (s @ w) = 0 \<longleftrightarrow> skip_comment s = 0))"
proof -
  have suffix: "list_all neutral (drop n w)" for n using assms by (simp add: list_all_iff) (meson in_set_dropD)
  show ?thesis
  proof (cases "skip_comment s = 0")
    case True
    then have "s \<noteq> [] \<longrightarrow> skip_comment (s @ w) = 0"
      using assms by (cases s; cases "tl s"; cases w) (auto simp: skip_comment_def neutral_def split: if_splits)
    moreover have "s = [] \<longrightarrow> skip_comment (s @ w) = 0"
      using assms by (cases w; cases "tl w") (auto simp: skip_comment_def neutral_def split: if_splits)
    ultimately show ?thesis using True assms by (intro exI [of _ w]) (cases "s = []"; simp)
  next
    case False
    then obtain a b r where s: "s = a # b # r" by (auto simp: skip_comment_def split: list.splits)
    show ?thesis
    proof (cases "a = CHR ''-'' \<and> b = CHR ''-''")
      case True
      let ?P = "\<lambda>c. c \<noteq> CHR 0x0A"
      have k: "drop (length (takeWhile ?P t)) t = dropWhile ?P t" for t by (metis dropWhile_eq_drop)
      have "list_all neutral (dropWhile ?P w)" using suffix by (simp add: dropWhile_eq_drop)
      moreover have "dropWhile ?P (r @ w) = dropWhile ?P r @ (if dropWhile ?P r = [] then dropWhile ?P w else w)"
        by (auto simp: dropWhile_append dropWhile_eq_Nil_conv)
      moreover have "skip_comment (s @ w) = 2 + length (takeWhile ?P (r @ w))" "skip_comment s = 2 + length (takeWhile ?P r)"
        using True by (simp_all add: s skip_comment_def)
      then have "drop (skip_comment (s @ w)) (s @ w) = dropWhile ?P (r @ w)" "drop (skip_comment s) s = dropWhile ?P r"
        "skip_comment (s @ w) \<noteq> 0" "skip_comment s \<noteq> 0"
        by (simp_all add: s k del: drop_append)
      ultimately show ?thesis
        using assms by (intro exI [of _ "if dropWhile ?P r = [] then dropWhile ?P w else w"]) simp
    next
      case block: False
      then have ab: "a = CHR ''/''" "b = CHR ''*''" using False by (auto simp: skip_comment_def s split: if_splits)
      have d: "drop (block_len (r @ w)) (r @ w) = drop (block_len r) r @ drop (block_len (r @ w) - length r) w"
          if "\<not> block_len (r @ w) = block_len r"
        using block_len_more [OF assms, of r] that by auto
      show ?thesis
      proof (cases "block_len (r @ w) = block_len r")
        case True
        then show ?thesis
          using ab assms suffix by (intro exI [of _ "drop (block_len r - length r) w"]) (simp add: s skip_comment_def)
      next
        case False
        then show ?thesis
          using ab suffix d by (intro exI [of _ "drop (block_len (r @ w) - length r) w"]) (simp add: s skip_comment_def)
      qed
    qed
  qed
qed

lemma multi_go_after: "list_all neutral w \<Longrightarrow> multi_go m seen s \<Longrightarrow> multi_go m seen (s @ w)"
proof (induction m seen s arbitrary: w rule: multi_go.induct)
  case (4 seen c s)
  obtain w' where w': "list_all neutral w'"
    "drop (skip_comment (c # s @ w)) (c # s @ w) = drop (skip_comment (c # s)) (c # s) @ w'"
    "skip_comment (c # s @ w) = 0 \<longleftrightarrow> skip_comment (c # s) = 0"
    using skip_more [OF "4.prems"(1), of "c # s"] by auto
  show ?case
  proof (cases "skip_comment (c # s) = 0")
    case False
    then have "multi_go Plain seen (drop (skip_comment (c # s)) (c # s) @ w')"
      using "4.IH"(1) [OF refl False w'(1)] "4.prems"(2) by simp
    then show ?thesis using False w'(2,3) by (simp add: Let_def)
  next
    case True
    then show ?thesis using "4.IH"(2-) [OF refl] "4.prems" w'(3) by (auto simp: Let_def split: if_splits)
  qed
qed auto

lemma multi_trim: "is_multi_statement (trim s) \<Longrightarrow> is_multi_statement s"
proof -
  obtain w where w: "list_all neutral w" "s = w @ trim_start s" using trim_start_neutral by blast
  obtain v where v: "list_all neutral v" "trim_start s = trim s @ v" using trim_end_neutral unfolding trim_def by blast
  show "is_multi_statement (trim s) \<Longrightarrow> ?thesis"
    unfolding is_multi_statement_def by (subst w(2)) (simp add: multi_go_before [OF w(1)] v(2) multi_go_after [OF v(1)])
qed

text \<open>The pieces of a script, trimmed, are single statements.\<close>

lemma pieces_single:
  assumes "p \<in> set (split_statements sql)"
  shows "\<not> is_multi_statement (trim p)"
proof -
  obtain ls where ls: "lexed ls" "script_text ls = sql" using lexed_exists by blast
  have "split_statements sql = filter (\<lambda>p. trim p \<noteq> []) (map script_text (at_semicolons ls))"
    using split_lexed [OF ls(1)] by (simp add: ls(2))
  then obtain q where q: "p = script_text q" "q \<in> set (at_semicolons ls)" using assms by auto
  then have "\<not> is_multi_statement p" using at_semicolons_lexed [OF ls(1)] is_multi_lexed single_not_several by blast
  then show ?thesis using multi_trim by blast
qed

end
