(* ===== verification/Host_Execute_Facts.thy ===== *)
theory Host_Execute_Facts
  imports Host_Execute Host_Write_Facts Sql_Lexemes
begin

text \<open>
  What the host may send to the core on its own behalf, and what a script of several statements is.
\<close>

section \<open>Single statements only\<close>

text \<open>No semicolon but at the very end.\<close>

definition one_statement :: "string \<Rightarrow> bool" where
  "one_statement sql \<longleftrightarrow> CHR '';'' \<notin> set (butlast sql)"

text \<open>
  Two worlds that differ in nothing but the core, and there only in what it does when it is asked to
  execute something else than a single statement.
\<close>

definition alike :: "('m, 'e, 'j) host_world \<Rightarrow> ('m, 'e, 'j) host_world \<Rightarrow> bool" where
  "alike W W' \<longleftrightarrow> W' = W\<lparr>hw_core := hw_core W'\<rparr>
     \<and> (\<forall>conn sql s. one_statement sql \<longrightarrow>
          hw_core W (cli_db_iface @ ''#'' @ ''execute'') [handle_value conn, V_String sql] s
            = hw_core W' (cli_db_iface @ ''#'' @ ''execute'') [handle_value conn, V_String sql] s)"

lemma alike_fields:
  assumes "alike W W'"
  shows "hw_world W' = hw_world W" "hw_printers W' = hw_printers W" "hw_autoload W' = hw_autoload W"
proof -
  have w: "W' = W\<lparr>hw_core := hw_core W'\<rparr>" using assms by (simp add: alike_def)
  show "hw_world W' = hw_world W" "hw_printers W' = hw_printers W" "hw_autoload W' = hw_autoload W"
    by (subst w, simp)+
qed

lemma alike_execute:
  assumes "alike W W'" "one_statement sql"
  shows "call_database_execute W conn sql h = call_database_execute W' conn sql h"
proof -
  have "hw_core W (cli_db_iface @ ''#'' @ ''execute'') [handle_value conn, V_String sql] (h_manager h, h_outside h)
      = hw_core W' (cli_db_iface @ ''#'' @ ''execute'') [handle_value conn, V_String sql] (h_manager h, h_outside h)"
    using assms unfolding alike_def by blast
  then show ?thesis
    unfolding call_database_execute_def call_export_on_resource_def call_core_def alike_fields [OF assms(1)]
    by simp
qed

lemma no_semicolon: "CHR '';'' \<notin> set sql \<Longrightarrow> one_statement sql"
  by (auto simp: one_statement_def dest: in_set_butlastD)

lemma alike_logged: "alike W W' \<Longrightarrow> one_statement sql \<Longrightarrow> run_logged W conn sql h = run_logged W' conn sql h"
  by (simp add: run_logged_def alike_execute)

lemma hbind_cong2:
  assumes "f s = f' s" "\<And>a s1. g a s1 = g' a s1"
  shows "hbind f g s = hbind f' g' s"
  using assms by (simp add: hbind_def split: prod.split sum.split)

lemma alike_ddl:
  "alike W W' \<Longrightarrow> one_statement sql \<Longrightarrow> run_prefix_ddl W conn sql h = run_prefix_ddl W' conn sql h"
  by (simp add: run_prefix_ddl_def alike_execute)

lemma alike_query:
  "alike W W' \<Longrightarrow> one_statement sql \<Longrightarrow> run_prefix_query W conn sql h = run_prefix_query W' conn sql h"
  by (simp add: run_prefix_query_def alike_execute alike_fields)

section \<open>Texts without a semicolon\<close>

lemma load_name_plain: "load_name name \<Longrightarrow> one_statement (load_sql name)"
  by (auto simp: load_name_def load_sql_def one_statement_def butlast_append list_all_iff
      is_ascii_alnum_def is_ascii_alpha_def is_ascii_lower_def is_ascii_upper_def is_ascii_digit_def)

lemma safe_plain: "is_safe_prefix_identifier s \<Longrightarrow> CHR '';'' \<notin> set s"
  by (auto simp: is_safe_prefix_identifier_def list_all_iff
      is_ascii_alnum_def is_ascii_alpha_def is_ascii_lower_def is_ascii_upper_def is_ascii_digit_def)

lemma show_nat_plain: "CHR '';'' \<notin> set (show_nat n)"
  using show_nat_digits [of n] by (auto simp: list_all_iff is_ascii_digit_def)

lemma join_set: "set (join sep xs) \<subseteq> set sep \<union> (\<Union>x \<in> set xs. set x)"
  by (induction sep xs rule: join.induct) auto

lemma str_replace_set: "set (str_replace p r s) \<subseteq> set r \<union> set s"
proof (induction p r s rule: str_replace.induct)
  case (2 p r c s)
  then show ?case
    using set_drop_subset [of "length p" "c # s"] by (auto simp: subset_iff)
qed simp

lemma escape_plain: "CHR '';'' \<notin> set s \<Longrightarrow> CHR '';'' \<notin> set (escape_quotes s)"
  using str_replace_set [of "[CHR 0x27]" "[CHR 0x27, CHR 0x27]" s] by (auto simp: escape_quotes_def)

lemma functions_plain: "is_safe_prefix_identifier ns \<Longrightarrow> one_statement (functions_sql ns)"
  by (rule no_semicolon) (simp add: functions_sql_def quoted_def safe_plain)

lemma persist_plain:
  "is_safe_prefix_identifier a \<Longrightarrow> is_safe_prefix_identifier ns \<Longrightarrow> one_statement (persist_sql a ns)"
  by (rule no_semicolon) (simp add: persist_sql_def quoted_def safe_plain escape_plain)

lemma macro_plain:
  assumes "build_prefix_alias_macro ftype a name ns params = Some sql"
    "is_safe_prefix_identifier a" "is_safe_prefix_identifier name" "is_safe_prefix_identifier ns"
  shows "one_statement sql"
proof (rule no_semicolon)
  define args where "args = map (\<lambda>(i, p). if p \<noteq> [] \<and> list_all (\<lambda>c. is_ascii_alnum c \<or> c = CHR ''_'') p
    then p else ''_a'' @ show_nat i) (enumerate 0 params)"
  have one: "CHR '';'' \<notin> set x" if "x \<in> set args" for x
    using that safe_plain show_nat_plain
    by (auto simp: args_def is_safe_prefix_identifier_def split: if_splits)
  then have "CHR '';'' \<notin> set (join '', '' args)" using join_set [of "'', ''" args] by auto
  moreover have "build_prefix_alias_macro ftype a name ns params =
      (if ftype \<in> {''scalar'', ''scalar_macro'', ''macro''} then
           Some (''CREATE OR REPLACE MACRO '' @ a @ ''.'' @ name @ ''('' @ join '', '' args @ '') AS ''
             @ ns @ ''.'' @ name @ ''('' @ join '', '' args @ '')'')
         else if ftype \<in> {''table'', ''table_macro''} then
           Some (''CREATE OR REPLACE MACRO '' @ a @ ''.'' @ name @ ''('' @ join '', '' args
             @ '') AS TABLE SELECT * FROM '' @ ns @ ''.'' @ name @ ''('' @ join '', '' args @ '')'')
         else if ftype = ''aggregate'' then
           (case args of
              [arg] \<Rightarrow> Some (''CREATE OR REPLACE MACRO '' @ a @ ''.'' @ name @ ''('' @ arg
                @ '') AS list_aggregate(list('' @ arg @ ''), '' @ quoted (ns @ ''.'' @ name) @ '')'')
            | _ \<Rightarrow> None)
         else None)"
    unfolding build_prefix_alias_macro_def Let_def args_def ..
  ultimately show "CHR '';'' \<notin> set sql"
    using assms one safe_plain by (auto simp: quoted_def split: if_splits list.splits)
qed

lemma discovery_plain: "list_all one_statement (prefix_macro_ddl # discovery_ddl)"
  by code_simp

section \<open>What the host sends\<close>

lemma alike_loads:
  assumes "alike W W'"
  shows "fold (\<lambda>name. if load_name name then run_logged W conn (load_sql name) else (\<lambda>h. h)) names h
    = fold (\<lambda>name. if load_name name then run_logged W' conn (load_sql name) else (\<lambda>h. h)) names h"
  using alike_logged [OF assms load_name_plain] by (intro fold_cong) (auto simp: fun_eq_iff)

lemma alike_functions:
  assumes "alike W W'" "is_safe_prefix_identifier a" "is_safe_prefix_identifier ns"
  shows "alias_functions W conn a ns rows done n h = alias_functions W' conn a ns rows done n h"
proof (induction rows arbitrary: "done" n h)
  case (Cons row rows)
  show ?case
  proof (cases "is_safe_prefix_identifier (nth_or_empty row 0)")
    case True
    have "run_prefix_ddl W conn sql h = run_prefix_ddl W' conn sql h"
      if "build_prefix_alias_macro (nth_or_empty row 1) a (nth_or_empty row 0) ns
        (csv_params (nth_or_empty row 2)) = Some sql" for sql
      using alike_ddl [OF assms(1) macro_plain [OF that assms(2) True assms(3)]] .
    then show ?thesis using True Cons.IH by (simp add: Let_def split: option.split prod.split sum.split)
  qed (simp add: Let_def Cons.IH)
qed simp

lemma alike_prefix:
  assumes "alike W W'"
  shows "flush_prefix W conn pair h = flush_prefix W' conn pair h"
proof (cases "is_safe_prefix_identifier (fst pair) \<and> is_safe_prefix_identifier (snd pair)")
  case True
  then have schema: "one_statement (''CREATE SCHEMA IF NOT EXISTS '' @ fst pair)"
    by (intro no_semicolon) (simp add: safe_plain)
  have "apply_prefix_declaration W conn (fst pair) (snd pair) h
      = apply_prefix_declaration W' conn (fst pair) (snd pair) h"
    unfolding apply_prefix_declaration_def
  proof (intro hbind_cong2)
    show "run_prefix_ddl W conn (''CREATE SCHEMA IF NOT EXISTS '' @ fst pair) h
        = run_prefix_ddl W' conn (''CREATE SCHEMA IF NOT EXISTS '' @ fst pair) h"
      by (rule alike_ddl [OF assms schema])
    show "run_prefix_query W conn (functions_sql (snd pair)) s1
        = run_prefix_query W' conn (functions_sql (snd pair)) s1" for s1
      using True by (simp add: alike_query [OF assms functions_plain])
    have "run_prefix_ddl W conn (persist_sql (fst pair) (snd pair)) s1
        = run_prefix_ddl W' conn (persist_sql (fst pair) (snd pair)) s1" for s1
      using True by (simp add: alike_ddl [OF assms persist_plain])
    then show "(case alias_functions W conn (fst pair) (snd pair) rows {} 0 s1 of
          (created, h1) \<Rightarrow> (Inr created, snd (run_prefix_ddl W conn (persist_sql (fst pair) (snd pair)) h1)))
        = (case alias_functions W' conn (fst pair) (snd pair) rows {} 0 s1 of
          (created, h1) \<Rightarrow> (Inr created, snd (run_prefix_ddl W' conn (persist_sql (fst pair) (snd pair)) h1)))"
      for rows s1
      using True by (simp add: alike_functions [OF assms])
  qed
  then show ?thesis by (simp add: flush_prefix_def)
qed (auto simp: flush_prefix_def)

text \<open>
  C27. Whatever an extension, a user or the catalog names, the host itself sends the core nothing but
  single statements: the replay of deferred loads, the statements of prefix declarations, the
  automatic loads and the discovery schema do not depend on what the core would do with a text that
  has a semicolon before its end.
\<close>

theorem host_sends_single_statements:
  assumes "alike W W'"
  shows "flush_deferred W conn h = flush_deferred W' conn h \<and> maybe_autoload W h = maybe_autoload W' h"
proof (rule conjI)
  have flush: "fold (flush_prefix W conn) ps k = fold (flush_prefix W' conn) ps k" for ps k
    using alike_prefix [OF assms] by (intro fold_cong) (auto simp: fun_eq_iff)
  have "flush_deferred_ducklink_loads W conn h = flush_deferred_ducklink_loads W' conn h"
    by (simp add: flush_deferred_ducklink_loads_def alike_loads [OF assms])
  then show "flush_deferred W conn h = flush_deferred W' conn h"
    by (simp add: flush_deferred_def flush_deferred_prefix_declarations_def flush)
next
  have "fold (run_logged W conn) discovery_ddl k = fold (run_logged W' conn) discovery_ddl k" for conn k
    using discovery_plain alike_logged [OF assms] by (intro fold_cong) (auto simp: list_all_iff fun_eq_iff)
  moreover have "run_logged W conn prefix_macro_ddl k = run_logged W' conn prefix_macro_ddl k" for conn k
    using discovery_plain alike_logged [OF assms] by simp
  moreover have "ducklink_prefix_scalar_registered W conn k = ducklink_prefix_scalar_registered W' conn k"
    for conn k
    by (simp add: ducklink_prefix_scalar_registered_def quoted_def
        alike_execute [OF assms no_semicolon])
  ultimately have "create_ducklink_schema W conn k = create_ducklink_schema W' conn k" for conn k
    by (simp add: create_ducklink_schema_def split_beta)
  then show "maybe_autoload W h = maybe_autoload W' h"
    by (cases "h_current h")
      (simp_all add: maybe_autoload_def Let_def alike_loads [OF assms] alike_fields [OF assms])
qed

text \<open>
  Attaching is different: the name of a table is the extension's, and it is spliced into the statement
  that creates the view without a check and without quotes.
\<close>

lemma attach_splices_table_names:
  "is_multi_statement (view_sql ''s'' ''t AS SELECT 1; DROP TABLE x; --'')"
  by code_simp

section \<open>Statements keep the resources\<close>

definition same_resources :: "('m, 'e) host \<Rightarrow> ('m, 'e) host \<Rightarrow> bool" where
  "same_resources h h' \<longleftrightarrow>
     h_connections h' = h_connections h \<and> h_streams h' = h_streams h \<and> h_prepared h' = h_prepared h
     \<and> h_appenders h' = h_appenders h \<and> h_next_id h' = h_next_id h \<and> h_current h' = h_current h"

lemma own_same: "own_tables h h' \<Longrightarrow> same_resources h h'"
  by (simp add: own_tables_def same_resources_def)

lemma resources_trans: "same_resources h h1 \<Longrightarrow> same_resources h1 h2 \<Longrightarrow> same_resources h h2"
  by (simp add: same_resources_def)

lemma keeps_dispatched [keeps]: "own_tables h (snd (dispatched f h))"
  by (rule own_dispatched)

lemma keeps_write_back [keeps]: "own_tables h (snd (at5_write_back W alias catalog h))"
proof -
  obtain r h1 where s: "on_manager (dispatch_storage_serialize (hw_world W) catalog) h = (r, h1)"
    by (rule prod.exhaust)
  have o: "own_tables h h1" using keeps_manager [of h] s by (metis snd_conv)
  have "own_tables h (snd (on_outside f h1))" for f :: "'b \<Rightarrow> (string + unit) \<times> 'b"
    by (rule own_tables_trans [OF o keeps_outside])
  then show ?thesis
    using s o by (auto simp: at5_write_back_def own_tables_refl split: option.split sum.split duckerror.split)
qed

lemma keeps_finish [keeps]: "own_tables h (snd (finish_write W alias catalog h))"
  unfolding finish_write_def by (intro keeps_bind keeps)

lemma keeps_lookup [keeps]: "own_tables h (snd (at5_lookup_write_target W alias table h))"
  unfolding at5_lookup_write_target_def by (intro keeps_bind keeps) (simp add: own_tables_refl)

lemma keeps_prescan [keeps]: "own_tables h (snd (at5_prescan_rows W conn alias table idx wc h))"
  unfolding at5_prescan_rows_def by (intro keeps_bind keeps)

text \<open>Branches of a step.\<close>

lemma keeps_branch [keeps]:
  "\<lbrakk>b \<Longrightarrow> own_tables h (snd (f h)); \<not> b \<Longrightarrow> own_tables h (snd (g h))\<rbrakk> \<Longrightarrow>
     own_tables h (snd ((if b then f else g) h))"
  "\<lbrakk>b \<Longrightarrow> own_tables h (snd p); \<not> b \<Longrightarrow> own_tables h (snd q)\<rbrakk> \<Longrightarrow>
     own_tables h (snd (if b then p else q))"
  "\<lbrakk>m = None \<Longrightarrow> own_tables h (snd (f h)); \<And>x. m = Some x \<Longrightarrow> own_tables h (snd (k x h))\<rbrakk> \<Longrightarrow>
     own_tables h (snd ((case m of None \<Rightarrow> f | Some x \<Rightarrow> k x) h))"
  "\<lbrakk>m = None \<Longrightarrow> own_tables h (snd p); \<And>x. m = Some x \<Longrightarrow> own_tables h (snd (r x))\<rbrakk> \<Longrightarrow>
     own_tables h (snd (case m of None \<Rightarrow> p | Some x \<Rightarrow> r x))"
  "(\<And>a c. t = (a, c) \<Longrightarrow> own_tables h (snd (l a c h))) \<Longrightarrow> own_tables h (snd ((case t of (a, c) \<Rightarrow> l a c) h))"
  "own_tables h (snd (e, h))"
  by (auto simp: own_tables_refl split: option.split prod.split)

lemma keeps_insert [keeps]: "own_tables h (snd (intercept_insert W a t named rows h))"
  unfolding intercept_insert_def by (intro keeps_bind keeps)

lemma keeps_update [keeps]: "own_tables h (snd (intercept_update W conn a t asgs wc h))"
  unfolding intercept_update_def Let_def by (intro keeps_bind keeps)

lemma keeps_delete [keeps]: "own_tables h (snd (intercept_delete W conn a t wc h))"
  unfolding intercept_delete_def Let_def by (intro keeps_bind keeps)

lemma keeps_create [keeps]: "own_tables h (snd (intercept_create_table W a t cols ine h))"
  unfolding intercept_create_table_def Let_def by (intro keeps_bind keeps)

lemma keeps_write [keeps]: "own_tables h (snd (intercept_write W conn route h))"
  by (cases route) (simp_all add: intercept_write_def keeps)

lemma keeps_flush: "own_tables h (flush_deferred W conn h)"
  unfolding flush_deferred_def by (rule own_tables_trans [OF keeps_flush_loads keeps_flush_prefixes])

lemma keeps_in_core: "own_tables h (snd (execute_in_core W conn sql h))"
proof -
  obtain r h1 where c: "call_database_execute W conn (rewrite_delta_scan (hw_json W) (hw_parse W)
      (hw_read_log W (h_outside h)) (hw_preopens W) sql) h = (r, h1)" by (rule prod.exhaust)
  then have "own_tables h h1" using keeps_execute by (metis snd_conv)
  then show ?thesis
    using c own_tables_trans [OF \<open>own_tables h h1\<close> keeps_refresh [of h1 W]]
    by (simp add: execute_in_core_def split: sum.split)
qed

lemma keeps_refreshed: "own_tables h (snd p) \<Longrightarrow> own_tables h (snd (refreshed W p))"
  using own_tables_trans [OF _ keeps_refresh] by (cases p; cases "fst p") (auto simp: refreshed_def)

lemma attach_resources:
  assumes "intercept_attach W conn spec h = Some p"
  shows "same_resources h (snd p)"
proof (cases "storage_backend_for (h_manager h) (attach_type spec)")
  case None
  then show ?thesis using assms by (auto simp: intercept_attach_def same_resources_def)
next
  case (Some b)
  obtain ext cb where b: "b = (ext, cb)" by (rule prod.exhaust)
  let ?skip = "attach_if_not_exists spec \<and> map_of (h_aliases h) (attach_alias spec) \<noteq> None"
  show ?thesis
  proof (cases ?skip)
    case True
    then show ?thesis using assms Some b by (auto simp: intercept_attach_def same_resources_def)
  next
    case False
    note body = assms [unfolded intercept_attach_def Some b option.case prod.case if_not_P [OF False]]
    obtain q m where c: "capture_catalog (hw_world W) ext cb (dsn spec) (h_manager h) = Some (q, m)"
      using body by (cases "capture_catalog (hw_world W) ext cb (dsn spec) (h_manager h)") auto
    show ?thesis
    proof (cases q)
      case (Inl e)
      then show ?thesis using body c by (auto simp: same_resources_def)
    next
      case (Inr t)
      obtain catalog tables shapes where t: "t = (catalog, tables, shapes)" by (metis surj_pair)
      have p: "p = hbind (materialize W conn (attach_alias spec) shapes) (\<lambda>_ h1. (Inr empty_query_result,
          record_alias W spec ext cb catalog tables shapes h1)) (h\<lparr>h_manager := m\<rparr>)"
        using body c Inr t by simp
      obtain u h1 where mat: "materialize W conn (attach_alias spec) shapes (h\<lparr>h_manager := m\<rparr>) = (u, h1)"
        by (rule prod.exhaust)
      have h1: "same_resources h h1"
        using keeps_materialize [of "h\<lparr>h_manager := m\<rparr>" W conn "attach_alias spec" shapes] mat
        by (simp add: own_tables_def same_resources_def)
      have "same_resources h1 (record_alias W spec ext cb catalog tables shapes h1)"
        using record_alias_aliases [of W spec ext cb catalog tables shapes h1]
        by (auto simp: own_tables_def same_resources_def)
      then show ?thesis using h1 resources_trans p mat by (cases u) (auto simp: hbind_def)
    qed
  qed
qed

lemma single_resources:
  assumes "execute_single_statement W conn sql h = Some p"
  shows "same_resources h (snd p)"
proof -
  let ?h = "flush_deferred W conn h"
  have f: "same_resources h ?h" by (rule own_same [OF keeps_flush])
  have "same_resources ?h (snd p)"
  proof (cases "parse_attach sql")
    case (Some spec)
    then obtain q where q: "intercept_attach W conn spec ?h = Some q" "p = refreshed W q"
      using assms by (auto simp: execute_single_statement_def Let_def)
    have "same_resources (snd q) (snd (refreshed W q))"
      by (rule own_same [OF keeps_refreshed [OF own_tables_refl]])
    then show ?thesis using resources_trans [OF attach_resources [OF q(1)]] q(2) by simp
  next
    case None
    have r: "own_tables ?h (snd (refreshed W (intercept_write W conn route ?h)))" for route
      by (rule keeps_refreshed [OF keeps_write])
    show ?thesis
      using assms None own_same [OF r] own_same [OF keeps_in_core [of ?h W conn sql]]
      by (auto simp: execute_single_statement_def Let_def split: if_splits option.splits)
  qed
  then show ?thesis by (rule resources_trans [OF f])
qed

section \<open>Scripts\<close>

text \<open>The statements sent one by one by the client: the first error ends it, the last result counts.\<close>

fun one_by_one ::
  "('m, 'e, 'j) host_world \<Rightarrow> u32 \<Rightarrow> string list \<Rightarrow> query_result \<Rightarrow> ('m, 'e) host \<Rightarrow>
     ((duckerror + query_result) \<times> ('m, 'e) host) option" where
  "one_by_one W rep [] qr h = Some (Inr qr, h)"
| "one_by_one W rep (piece # pieces) qr h =
     (case execute W rep piece h of
        None \<Rightarrow> None
      | Some (Inl e, h1) \<Rightarrow> Some (Inl e, h1)
      | Some (Inr r, h1) \<Rightarrow> one_by_one W rep pieces r h1)"

lemma pieces_one_by_one:
  assumes "h_connections h rep = Some entry" "list_all (\<lambda>p. \<not> is_multi_statement p) ps"
  shows "run_pieces W (conn_handle entry) ps qr h = one_by_one W rep ps qr h"
  using assms
proof (induction ps arbitrary: qr h)
  case (Cons p ps)
  have e: "execute W rep p h = execute_single_statement W (conn_handle entry) p h"
    using Cons.prems by (simp add: execute_def)
  show ?case
  proof (cases "execute_single_statement W (conn_handle entry) p h")
    case (Some x)
    obtain r h1 where x: "x = (r, h1)" by (rule prod.exhaust)
    have "h_connections h1 rep = Some entry"
      using single_resources [OF Some] Cons.prems(1) x by (simp add: same_resources_def)
    then show ?thesis using e Some x Cons by (simp split: sum.split)
  qed (simp add: e)
qed simp

text \<open>
  C26. A script runs statement by statement: when lexemes follow a semicolon, blanks, comments and
  quoted texts aside, then executing the text is executing, one call each over the same connection,
  the texts between its semicolons (of the specification of the lexical structure), trimmed and
  without the blank ones, pieces of comments only included; the first error ends the script, what
  was done before stays done, and the last result is its result.
\<close>

theorem script_is_sequential:
  assumes "h_connections h rep = Some entry" "lexed ls" "several ls"
  shows "execute W rep (script_text ls) h
    = one_by_one W rep (filter (\<lambda>s. s \<noteq> []) (map (\<lambda>p. trim (script_text p)) (at_semicolons ls))) empty_query_result h"
proof -
  let ?ps = "filter (\<lambda>s. s \<noteq> []) (map (\<lambda>p. trim (script_text p)) (at_semicolons ls))"
  have s: "split_statements (script_text ls) = filter (\<lambda>p. trim p \<noteq> []) (map script_text (at_semicolons ls))"
    using split_lexed [OF assms(2)] .
  have "filter (\<lambda>s. s \<noteq> []) (map trim (filter (\<lambda>p. trim p \<noteq> []) ps)) = filter (\<lambda>s. s \<noteq> []) (map trim ps)"
    for ps :: "string list" by (induction ps) simp_all
  then have p: "script_pieces (script_text ls) = ?ps" by (simp add: script_pieces_def s comp_def)
  have "list_all (\<lambda>p. \<not> is_multi_statement p) (script_pieces (script_text ls))"
    using pieces_single by (auto simp: script_pieces_def list_all_iff)
  with assms(1) have "run_pieces W (conn_handle entry) ?ps empty_query_result h = one_by_one W rep ?ps empty_query_result h"
    unfolding p by (rule pieces_one_by_one)
  then show ?thesis
    using assms is_multi_lexed [OF assms(2)] by (simp add: execute_def p)
qed

definition connected_shop :: "(nat \<times> nat, sqlite_value list list) host" where
  "connected_shop = shop_host\<lparr>h_connections := [1 \<mapsto> \<lparr>conn_handle = (0, 0), conn_closed = False\<rparr>]\<rparr>"

theorem script_is_sequential_witness:
  "execute shop 1 (''SELECT '' @ [CHR 0x27] @ '';'' @ [CHR 0x27] @ '' ; SELECT 2 -- ;'') connected_shop
     = one_by_one shop 1 [''SELECT '' @ [CHR 0x27] @ '';'' @ [CHR 0x27], ''SELECT 2 -- ;''] empty_query_result connected_shop"
proof -
  let ?ls = "map Byte ''SELECT '' @ [Literal '';'', Byte (CHR '' ''), Semicolon] @ map Byte '' SELECT 2 '' @ [Line_comment '' ;'']"
  have c: "h_connections connected_shop 1 = Some \<lparr>conn_handle = (0, 0), conn_closed = False\<rparr>" by (simp add: connected_shop_def)
  have l: "lexed ?ls" and m: "several ?ls" by code_simp+
  have t: "script_text ?ls = ''SELECT '' @ [CHR 0x27] @ '';'' @ [CHR 0x27] @ '' ; SELECT 2 -- ;''" by code_simp
  let ?a = "''SELECT '' @ [CHR 0x27] @ '';'' @ [CHR 0x27]"
  have q: "map script_text (at_semicolons ?ls) = [?a @ '' '', '' SELECT 2 -- ;'']" by code_simp
  have "trim (?a @ '' '') = ?a" "trim '' SELECT 2 -- ;'' = ''SELECT 2 -- ;''" by code_simp+
  then have "map trim (map script_text (at_semicolons ?ls)) = [?a, ''SELECT 2 -- ;'']" unfolding q by (simp only: list.map)
  then have p: "map (\<lambda>p. trim (script_text p)) (at_semicolons ?ls) = [?a, ''SELECT 2 -- ;'']"
    by (simp only: map_map comp_def)
  show ?thesis using script_is_sequential [OF c l m, of shop] unfolding t p by simp
qed

text \<open>A core that does something else with two statements in one text is alike.\<close>

theorem host_sends_single_statements_witness:
  "let W' = shop\<lparr>hw_core := (\<lambda>name args s. case args of
        [r, V_String sql] \<Rightarrow> if one_statement sql then hw_core shop name args s else (Inl ''injected'', s)
      | _ \<Rightarrow> hw_core shop name args s)\<rparr>
   in flush_deferred shop (0, 0) shop_host = flush_deferred W' (0, 0) shop_host
    \<and> hw_core W' ''x'' [V_Bool True, V_String ''a;b''] \<noteq> hw_core shop ''x'' [V_Bool True, V_String ''a;b'']"
proof -
  let ?W' = "shop\<lparr>hw_core := (\<lambda>name args s. case args of
        [r, V_String sql] \<Rightarrow> if one_statement sql then hw_core shop name args s else (Inl ''injected'', s)
      | _ \<Rightarrow> hw_core shop name args s)\<rparr>"
  have "alike shop ?W'" by (simp add: alike_def)
  note a = conjunct1 [OF host_sends_single_statements [OF this, of "(0, 0)" shop_host]]
  have n: "\<not> one_statement ''a;b''" by code_simp
  have "hw_core ?W' ''x'' [V_Bool True, V_String ''a;b''] \<noteq> hw_core shop ''x'' [V_Bool True, V_String ''a;b'']"
  proof
    assume "hw_core ?W' ''x'' [V_Bool True, V_String ''a;b''] = hw_core shop ''x'' [V_Bool True, V_String ''a;b'']"
    from arg_cong [OF fun_cong [OF this], of fst "(demo_manager, [])"] n show False by (simp add: shop_def)
  qed
  then show ?thesis unfolding Let_def by (rule conjI [OF a])
qed

end
