(* ===== verification/Host_Resources.thy ===== *)
theory Host_Resources
  imports Host_Execute
begin

text \<open>
  The resources that the host hands out over the database interface
  (\<open>crates/ducklink-host/src/lib.rs\<close>): connections, result streams, prepared statements and
  appenders, each a number that stands for a resource of the core. Opening, using, closing and
  dropping them; drops are queued and run when the command line has ended. \<^const>\<open>None\<close>: a panic of
  the host.
\<close>

section \<open>Opening\<close>

definition sanitize_sibling_open_path :: "string option \<Rightarrow> string option" where
  "sanitize_sibling_open_path primary =
     (case primary of
        None \<Rightarrow> None
      | Some p \<Rightarrow> if p = '':memory:'' \<or> trim p = [] then None else Some p)"

definition option_string :: "string option \<Rightarrow> wvalue" where
  "option_string s = V_Option (map_option V_String s)"

definition adopt_connection ::
  "('m, 'e, 'j) host_world \<Rightarrow> string option \<Rightarrow> core_handle \<Rightarrow> ('m, 'e) host \<Rightarrow> u32 \<times> ('m, 'e) host" where
  "adopt_connection W path handle h =
     (case alloc_resource_id h of
        (rid, h1) \<Rightarrow>
          (rid, maybe_autoload W (h1\<lparr>h_current := Some handle,
                h_sibling_path := Some (sanitize_sibling_open_path path),
                h_connections := (h_connections h1)(rid \<mapsto> \<lparr>conn_handle = handle, conn_closed = False\<rparr>)\<rparr>)))"

definition opened ::
  "('m, 'e, 'j) host_world \<Rightarrow> string option \<Rightarrow> (string + (verb_err + core_handle)) \<times> ('m, 'e) host \<Rightarrow>
     (string + u32) \<times> ('m, 'e) host" where
  "opened W path r =
     (case r of
        (Inl trap, h) \<Rightarrow> (Inl trap, h)
      | (Inr (Inr handle), h) \<Rightarrow> apfst Inr (adopt_connection W path handle h)
      | (Inr (Inl (Verb_Text s)), h) \<Rightarrow> (Inl s, h)
      | (Inr (Inl (Verb_Duck err)), h) \<Rightarrow> (Inl (cli_duckerror_message err), h))"

definition open_db ::
  "('m, 'e, 'j) host_world \<Rightarrow> string option \<Rightarrow> ('m, 'e) host \<Rightarrow> (string + u32) \<times> ('m, 'e) host" where
  "open_db W path h =
     opened W path (call_database_returning_resource W ''open'' None [option_string path] False h)"

definition open_with_config ::
  "('m, 'e, 'j) host_world \<Rightarrow> string option \<Rightarrow> (string \<times> string) list \<Rightarrow> ('m, 'e) host \<Rightarrow>
     (string + u32) \<times> ('m, 'e) host" where
  "open_with_config W path options h =
     opened W path (call_database_returning_resource W ''open-with-config'' None
       [option_string path, V_List (map (\<lambda>(k, v). V_Tuple [V_String k, V_String v]) options)] False h)"

section \<open>Resources of a connection\<close>

text \<open>The handle behind a number, or the error that it is unknown.\<close>

definition handle_of :: "(u32 \<rightharpoonup> 'a) \<Rightarrow> ('a \<Rightarrow> core_handle) \<Rightarrow> string \<Rightarrow> u32 \<Rightarrow> duckerror + core_handle" where
  "handle_of table get what rep = ok_or (map_option get (table rep)) (Internal (''unknown '' @ what))"

definition minted ::
  "(u32 \<Rightarrow> core_handle \<Rightarrow> ('m, 'e) host \<Rightarrow> ('m, 'e) host) \<Rightarrow>
     (string + (verb_err + core_handle)) \<times> ('m, 'e) host \<Rightarrow> (duckerror + u32) \<times> ('m, 'e) host" where
  "minted record r =
     (case r of
        (Inl trap, h) \<Rightarrow> (Inl (Internal trap), h)
      | (Inr (Inr handle), h) \<Rightarrow>
          (case alloc_resource_id h of (rid, h1) \<Rightarrow> (Inr rid, record rid handle h1))
      | (Inr (Inl (Verb_Duck err)), h) \<Rightarrow> (Inl err, h)
      | (Inr (Inl (Verb_Text s)), h) \<Rightarrow> (Inl (Internal s), h))"

definition on_connection ::
  "u32 \<Rightarrow> (core_handle \<Rightarrow> ('m, 'e) host \<Rightarrow> (duckerror + 'a) \<times> ('m, 'e) host) \<Rightarrow> ('m, 'e) host \<Rightarrow>
     (duckerror + 'a) \<times> ('m, 'e) host" where
  "on_connection rep f h = hbind (hpure (handle_of (h_connections h) conn_handle ''connection'' rep)) f h"

definition open_stream ::
  "('m, 'e, 'j) host_world \<Rightarrow> u32 \<Rightarrow> string \<Rightarrow> ('m, 'e) host \<Rightarrow> (duckerror + u32) \<times> ('m, 'e) host" where
  "open_stream W rep sql =
     on_connection rep (\<lambda>conn h.
       minted (\<lambda>rid handle h. h\<lparr>h_streams := (h_streams h)(rid \<mapsto> \<lparr>stream_handle = handle, stream_closed = False\<rparr>)\<rparr>)
         (call_database_returning_resource W ''open-stream'' (Some conn) [V_String sql] True h))"

definition prepare ::
  "('m, 'e, 'j) host_world \<Rightarrow> u32 \<Rightarrow> string \<Rightarrow> ('m, 'e) host \<Rightarrow> (duckerror + u32) \<times> ('m, 'e) host" where
  "prepare W rep sql =
     on_connection rep (\<lambda>conn h.
       minted (\<lambda>rid handle h. h\<lparr>h_prepared := (h_prepared h)(rid \<mapsto> handle)\<rparr>)
         (call_database_returning_resource W ''prepare'' (Some conn) [V_String sql] True h))"

definition create_appender ::
  "('m, 'e, 'j) host_world \<Rightarrow> u32 \<Rightarrow> string option \<Rightarrow> string \<Rightarrow> ('m, 'e) host \<Rightarrow>
     (duckerror + u32) \<times> ('m, 'e) host" where
  "create_appender W rep schema table =
     on_connection rep (\<lambda>conn h.
       minted (\<lambda>rid handle h. h\<lparr>h_appenders := (h_appenders h)(rid \<mapsto> handle)\<rparr>)
         (call_database_returning_resource W ''create-appender'' (Some conn)
            [option_string schema, V_String table] True h))"

section \<open>Calls on resources\<close>

text \<open>A method of a resource: a trap is an internal error, the reply is read by \<open>f\<close>.\<close>

definition method_call ::
  "('m, 'e, 'j) host_world \<Rightarrow> string \<Rightarrow> core_handle \<Rightarrow> wvalue list \<Rightarrow> (wvalue list \<Rightarrow> duckerror + 'a) \<Rightarrow>
     ('m, 'e) host \<Rightarrow> (duckerror + 'a) \<times> ('m, 'e) host" where
  "method_call W method handle args f h =
     (case call_export_on_resource W cli_db_iface method handle args h of
        (Inl trap, h1) \<Rightarrow> (Inl (Internal trap), h1)
      | (Inr ret, h1) \<Rightarrow> (f ret, h1))"

definition arrow_bytes :: "fmt \<Rightarrow> wvalue \<Rightarrow> duckerror + u8 list" where
  "arrow_bytes fm v =
     (case v of
        V_Bytes bytes \<Rightarrow> Inr bytes
      | V_List items \<Rightarrow>
          rmap (\<lambda>it. case it of
              V_U8 b \<Rightarrow> Inr b
            | other \<Rightarrow> Inl (Internal (''query-arrow: expected u8 in list, got '' @ dbg fm other))) items
      | other \<Rightarrow> Inl (Internal (''query-arrow: expected Value::Bytes/List<u8>, got '' @ dbg fm other)))"

definition query_arrow ::
  "('m, 'e, 'j) host_world \<Rightarrow> u32 \<Rightarrow> string \<Rightarrow> ('m, 'e) host \<Rightarrow> (duckerror + u8 list) \<times> ('m, 'e) host" where
  "query_arrow W rep sql =
     on_connection rep (\<lambda>conn.
       method_call W ''query-arrow'' conn [V_String sql]
         (ok_payload (hw_fmt W) ''query-arrow'' ''payload'' Internal (arrow_bytes (hw_fmt W))
           (\<lambda>p. Inl (value_to_duckerror (hw_fmt W) p ''database.query-arrow''))))"

definition stream_schema ::
  "('m, 'e, 'j) host_world \<Rightarrow> u32 \<Rightarrow> ('m, 'e) host \<Rightarrow> columndef list \<times> ('m, 'e) host" where
  "stream_schema W rep h =
     (case h_streams h rep of
        None \<Rightarrow> ([], h)
      | Some entry \<Rightarrow>
          (case call_export_on_resource W cli_db_iface ''[method]result-stream.schema'' (stream_handle entry) [] h of
             (Inl _, h1) \<Rightarrow> ([], h1)
           | (Inr [V_List items], h1) \<Rightarrow>
               (List.map_filter (\<lambda>v. case cli_value_to_columndef (hw_fmt W) v of Inr c \<Rightarrow> Some c | Inl _ \<Rightarrow> None)
                  items, h1)
           | (Inr _, h1) \<Rightarrow> ([], h1)))"

definition stream_rows :: "fmt \<Rightarrow> wvalue \<Rightarrow> duckerror + row list option" where
  "stream_rows fm v =
     (case v of
        V_Option None \<Rightarrow> Inr None
      | V_Option (Some (V_List rows)) \<Rightarrow> map_sum Internal Some (rmap (value_to_row fm) rows)
      | V_Option (Some other) \<Rightarrow>
          Inl (Internal (''result-stream.next: expected Value::List inside Some, got '' @ dbg fm other))
      | other \<Rightarrow>
          Inl (Internal (''result-stream.next: expected Value::Option in Ok payload, got '' @ dbg fm other)))"

definition stream_next ::
  "('m, 'e, 'j) host_world \<Rightarrow> u32 \<Rightarrow> u32 \<Rightarrow> ('m, 'e) host \<Rightarrow> (duckerror + row list option) \<times> ('m, 'e) host" where
  "stream_next W rep max_rows h =
     hbind (hpure (handle_of (h_streams h) stream_handle ''stream'' rep)) (\<lambda>handle.
       method_call W ''[method]result-stream.next'' handle [V_U32 max_rows]
         (ok_payload (hw_fmt W) ''result-stream.next'' ''option payload'' Internal (stream_rows (hw_fmt W))
           (\<lambda>p. Inl (value_to_duckerror (hw_fmt W) p ''[method]result-stream.next'')))) h"

definition stream_close :: "('m, 'e, 'j) host_world \<Rightarrow> u32 \<Rightarrow> ('m, 'e) host \<Rightarrow> ('m, 'e) host" where
  "stream_close W rep h =
     (case h_streams h rep of
        None \<Rightarrow> h
      | Some entry \<Rightarrow>
          if stream_closed entry then h
          else (case call_export_no_return W cli_db_iface ''[method]result-stream.close'' (stream_handle entry) [] h of
              (_, h1) \<Rightarrow> h1\<lparr>h_streams := (h_streams h1)(rep := map_option (stream_closed_update (\<lambda>_. True))
                (h_streams h1 rep))\<rparr>))"

definition prepared_parameter_count ::
  "('m, 'e, 'j) host_world \<Rightarrow> u32 \<Rightarrow> ('m, 'e) host \<Rightarrow> (u32 \<times> ('m, 'e) host) option" where
  "prepared_parameter_count W rep h =
     (case h_prepared h rep of
        None \<Rightarrow> Some (0, h)
      | Some handle \<Rightarrow>
          (case call_export_on_resource W cli_db_iface ''[method]prepared-statement.parameter-count'' handle [] h of
             (Inr [V_U32 n], h1) \<Rightarrow> Some (n, h1)
           | _ \<Rightarrow> None))"

definition prepared_execute ::
  "('m, 'e, 'j) host_world \<Rightarrow> u32 \<Rightarrow> duckvalue list \<Rightarrow> ('m, 'e) host \<Rightarrow>
     (duckerror + query_result) \<times> ('m, 'e) host" where
  "prepared_execute W rep params h =
     hbind (hpure (handle_of (h_prepared h) (\<lambda>x. x) ''prepared statement'' rep)) (\<lambda>handle.
       method_call W ''[method]prepared-statement.execute'' handle [V_List (map cli_duckvalue_to_value params)]
         (ok_payload (hw_fmt W) ''prepared-statement.execute'' ''query-result payload'' Internal
           (\<lambda>p. map_error Internal (value_to_query_result (hw_fmt W) p))
           (\<lambda>p. Inl (value_to_duckerror (hw_fmt W) p ''[method]prepared-statement.execute'')))) h"

definition on_appender ::
  "('m, 'e, 'j) host_world \<Rightarrow> string \<Rightarrow> u32 \<Rightarrow> wvalue list \<Rightarrow> ('m, 'e) host \<Rightarrow>
     (duckerror + unit) \<times> ('m, 'e) host" where
  "on_appender W method rep args h =
     hbind (hpure (handle_of (h_appenders h) (\<lambda>x. x) ''appender'' rep)) (\<lambda>handle.
       call_export_unit_result W cli_db_iface method handle args) h"

definition appender_append_row ::
  "('m, 'e, 'j) host_world \<Rightarrow> u32 \<Rightarrow> duckvalue list \<Rightarrow> ('m, 'e) host \<Rightarrow> (duckerror + unit) \<times> ('m, 'e) host" where
  "appender_append_row W rep vs =
     on_appender W ''[method]appender.append-row'' rep [V_List (map cli_duckvalue_to_value vs)]"

definition appender_flush ::
  "('m, 'e, 'j) host_world \<Rightarrow> u32 \<Rightarrow> ('m, 'e) host \<Rightarrow> (duckerror + unit) \<times> ('m, 'e) host" where
  "appender_flush W rep = on_appender W ''[method]appender.flush'' rep []"

definition appender_close ::
  "('m, 'e, 'j) host_world \<Rightarrow> u32 \<Rightarrow> ('m, 'e) host \<Rightarrow> (duckerror + unit) \<times> ('m, 'e) host" where
  "appender_close W rep = on_appender W ''[method]appender.close'' rep []"

section \<open>Closing\<close>

definition close_connection ::
  "('m, 'e, 'j) host_world \<Rightarrow> u32 \<Rightarrow> ('m, 'e) host \<Rightarrow> ('m, 'e) host option" where
  "close_connection W rep h =
     (case h_connections h rep of
        None \<Rightarrow> Some h
      | Some entry \<Rightarrow>
          if conn_closed entry then Some h
          else (case call_export_no_return W cli_db_iface ''close'' (conn_handle entry) [] h of
              (Inl _, _) \<Rightarrow> None
            | (Inr _, h1) \<Rightarrow> Some (h1\<lparr>h_connections := (h_connections h1)(rep :=
                map_option (conn_closed_update (\<lambda>_. True)) (h_connections h1 rep))\<rparr>)))"

definition interrupt :: "('m, 'e, 'j) host_world \<Rightarrow> u32 \<Rightarrow> ('m, 'e) host \<Rightarrow> ('m, 'e) host option" where
  "interrupt W rep h =
     (case h_connections h rep of
        None \<Rightarrow> Some h
      | Some entry \<Rightarrow>
          (case call_export_no_return W cli_db_iface ''interrupt'' (conn_handle entry) [] h of
             (Inl _, _) \<Rightarrow> None
           | (Inr _, h1) \<Rightarrow> Some h1))"

section \<open>Dropping\<close>

text \<open>What is left of a table once an entry is taken out, and the release of the entry.\<close>

definition drop_connection_resource ::
  "('m, 'e, 'j) host_world \<Rightarrow> u32 \<Rightarrow> ('m, 'e) host \<Rightarrow> (duckerror + unit) \<times> ('m, 'e) host" where
  "drop_connection_resource W rep h =
     (case h_connections h rep of
        None \<Rightarrow> (Inr (), h)
      | Some entry \<Rightarrow>
          (let h1 = h\<lparr>h_connections := (h_connections h)(rep := None)\<rparr>
           in if conn_closed entry then (Inr (), h1)
              else apfst (map_error Internal)
                (call_export_no_return W cli_db_iface ''close'' (conn_handle entry) [] h1)))"

definition drop_stream_resource ::
  "('m, 'e, 'j) host_world \<Rightarrow> u32 \<Rightarrow> ('m, 'e) host \<Rightarrow> (duckerror + unit) \<times> ('m, 'e) host" where
  "drop_stream_resource W rep h =
     (case h_streams h rep of
        None \<Rightarrow> (Inr (), h)
      | Some entry \<Rightarrow>
          (let h1 = h\<lparr>h_streams := (h_streams h)(rep := None)\<rparr>
           in if stream_closed entry then (Inr (), h1)
              else apfst (map_error Internal)
                (call_export_no_return W cli_db_iface ''[method]result-stream.close'' (stream_handle entry) [] h1)))"

definition drop_prepared_resource ::
  "('m, 'e, 'j) host_world \<Rightarrow> u32 \<Rightarrow> ('m, 'e) host \<Rightarrow> (duckerror + unit) \<times> ('m, 'e) host" where
  "drop_prepared_resource W rep h =
     (case h_prepared h rep of
        None \<Rightarrow> (Inr (), h)
      | Some handle \<Rightarrow>
          apfst (map_error Internal) (drop_core W handle (h\<lparr>h_prepared := (h_prepared h)(rep := None)\<rparr>)))"

definition drop_appender_resource ::
  "('m, 'e, 'j) host_world \<Rightarrow> u32 \<Rightarrow> ('m, 'e) host \<Rightarrow> (duckerror + unit) \<times> ('m, 'e) host" where
  "drop_appender_resource W rep h =
     (case h_appenders h rep of
        None \<Rightarrow> (Inr (), h)
      | Some handle \<Rightarrow>
          apfst (map_error Internal) (drop_core W handle (h\<lparr>h_appenders := (h_appenders h)(rep := None)\<rparr>)))"

definition schedule_connection_drop :: "u32 \<Rightarrow> ('m, 'e) host \<Rightarrow> ('m, 'e) host" where
  "schedule_connection_drop rep h = h\<lparr>h_connection_drops := h_connection_drops h @ [rep]\<rparr>"

definition schedule_stream_drop :: "u32 \<Rightarrow> ('m, 'e) host \<Rightarrow> ('m, 'e) host" where
  "schedule_stream_drop rep h = h\<lparr>h_stream_drops := h_stream_drops h @ [rep]\<rparr>"

definition schedule_prepared_drop :: "u32 \<Rightarrow> ('m, 'e) host \<Rightarrow> ('m, 'e) host" where
  "schedule_prepared_drop rep h = h\<lparr>h_prepared_drops := h_prepared_drops h @ [rep]\<rparr>"

definition schedule_appender_drop :: "u32 \<Rightarrow> ('m, 'e) host \<Rightarrow> ('m, 'e) host" where
  "schedule_appender_drop rep h = h\<lparr>h_appender_drops := h_appender_drops h @ [rep]\<rparr>"

text \<open>Each queue is taken as a whole; the first failing drop ends everything.\<close>

definition drain_pending_resource_drops ::
  "('m, 'e, 'j) host_world \<Rightarrow> ('m, 'e) host \<Rightarrow> (duckerror + unit) \<times> ('m, 'e) host" where
  "drain_pending_resource_drops W =
     hbind (\<lambda>h. hfor (drop_connection_resource W) (h_connection_drops h) (h\<lparr>h_connection_drops := []\<rparr>)) (\<lambda>_.
     hbind (\<lambda>h. hfor (drop_stream_resource W) (h_stream_drops h) (h\<lparr>h_stream_drops := []\<rparr>)) (\<lambda>_.
     hbind (\<lambda>h. hfor (drop_prepared_resource W) (h_prepared_drops h) (h\<lparr>h_prepared_drops := []\<rparr>)) (\<lambda>_ h.
       hfor (drop_appender_resource W) (h_appender_drops h) (h\<lparr>h_appender_drops := []\<rparr>))))"

section \<open>Extensions and table functions\<close>

definition register_extension ::
  "('m, 'e, 'j) host_world \<Rightarrow> string \<Rightarrow> capabilitykind list \<Rightarrow> ('m, 'e) host \<Rightarrow>
     (string + bool) \<times> ('m, 'e) host" where
  "register_extension W name requires h =
     (let fm = hw_fmt W
      in case call_core W (cli_db_iface @ ''#register-extension'')
             [V_String name, V_List (map capabilitykind_to_value requires)] h of
           (Inl trap, h1) \<Rightarrow> (Inl trap, h1)
         | (Inr ret, h1) \<Rightarrow>
             (case ret of
                [V_Result (Inr (Some (V_Bool v)))] \<Rightarrow> Inr v
              | [V_Result (Inr (Some other))] \<Rightarrow>
                  Inl (''register-extension: expected Value::Bool in Ok, got '' @ dbg fm other)
              | [V_Result (Inr None)] \<Rightarrow>
                  Inl (''register-extension: Ok arm carried no payload for '' @ quoted name)
              | [V_Result (Inl (Some (V_String s)))] \<Rightarrow> Inl s
              | [V_Result (Inl (Some other))] \<Rightarrow>
                  Inl (''register-extension: Err arm expected Value::String, got '' @ dbg fm other)
              | [V_Result (Inl None)] \<Rightarrow>
                  Inl (''register-extension: Err arm carried no payload for '' @ quoted name)
              | other \<Rightarrow> Inl (''register-extension: unexpected return shape '' @ dbg_slice fm other), h1))"

definition list_registered_extensions ::
  "('m, 'e, 'j) host_world \<Rightarrow> ('m, 'e) host \<Rightarrow> (extension_info list \<times> ('m, 'e) host) option" where
  "list_registered_extensions W h =
     (case call_core W (cli_db_iface @ ''#list-registered-extensions'') [] h of
        (Inl _, _) \<Rightarrow> None
      | (Inr [V_List items], h1) \<Rightarrow>
          Some (List.map_filter (\<lambda>v. case value_to_extension_info (hw_fmt W) v of Inr i \<Rightarrow> Some i | Inl _ \<Rightarrow> None)
            items, h1)
      | (Inr _, h1) \<Rightarrow> Some ([], h1))"

definition table_function_reply :: "fmt \<Rightarrow> wvalue list \<Rightarrow> string + unit" where
  "table_function_reply fm ret =
     (case ret of
        [V_Result (Inr _)] \<Rightarrow> Inr ()
      | [V_Result (Inl (Some (V_String s)))] \<Rightarrow> Inl s
      | [V_Result (Inl (Some other))] \<Rightarrow>
          Inl (''register-table-function: Err arm expected Value::String, got '' @ dbg fm other)
      | [V_Result (Inl None)] \<Rightarrow> Inl ''register-table-function: Err arm carried no payload''
      | other \<Rightarrow> Inl (''register-table-function: unexpected return shape '' @ dbg_slice fm other))"

definition register_table_function ::
  "('m, 'e, 'j) host_world \<Rightarrow> u32 \<Rightarrow> string \<Rightarrow> column_descriptor list \<Rightarrow> u32 \<Rightarrow> ('m, 'e) host \<Rightarrow>
     (string + unit) \<times> ('m, 'e) host" where
  "register_table_function W rep name cols callback h =
     (case h_connections h rep of
        None \<Rightarrow> (Inl ''register_table_function: unknown connection resource'', h)
      | Some entry \<Rightarrow>
          (case call_export_on_resource W cli_db_iface ''register-table-function'' (conn_handle entry)
               [V_String name, V_List (map column_descriptor_to_value cols), V_U32 callback] h of
             (Inl trap, h1) \<Rightarrow> (Inl trap, h1)
           | (Inr ret, h1) \<Rightarrow> (table_function_reply (hw_fmt W) ret, h1)))"

text \<open>The command line never serves these two itself.\<close>

definition handle_ui_request :: "string \<Rightarrow> string \<Rightarrow> string \<Rightarrow> u8 list \<Rightarrow> ui_response option" where
  "handle_ui_request method path headers body = None"

definition handle_quack_request :: "u8 list \<Rightarrow> u8 list option" where
  "handle_quack_request body = None"

section \<open>Loading\<close>

definition request_extension_load ::
  "('m, 'e, 'j) host_world \<Rightarrow> string \<Rightarrow> ('m, 'e) host \<Rightarrow> (string + bool) \<times> ('m, 'e) host" where
  "request_extension_load W name h = on_manager (ensure_extension_loaded (hw_world W) name) h"

definition preload_extension ::
  "('m, 'e, 'j) host_world \<Rightarrow> string \<Rightarrow> ('m, 'e) host \<Rightarrow> (string + unit) \<times> ('m, 'e) host" where
  "preload_extension W name h =
     apfst (map_sum (\<lambda>e. e) (\<lambda>_. ())) (on_manager (ensure_extension_loaded (hw_world W) name) h)"

end
