(* ===== verification/Wit_Types.thy ===== *)
theory Wit_Types
  imports Marshal
begin

text \<open>
  Types of the component interfaces and what it means that a value of the runtime has one
  (\<open>src/wit\<close>): the yardstick for the codecs, which build and take apart values by hand.
\<close>

datatype wit =
    W_Bool | W_S8 | W_S16 | W_S32 | W_S64 | W_U8 | W_U16 | W_U32 | W_U64 | W_F32 | W_F64
  | W_String | W_List wit | W_Record "(string \<times> wit) list" | W_Variant "(string \<times> wit option) list"
  | W_Enum "string list" | W_Tuple "wit list" | W_Option wit | W_Result "wit option" "wit option" | W_Resource
  | W_Flags "string list"

fun typed :: "wvalue \<Rightarrow> wit \<Rightarrow> bool"
  and fields_typed :: "(string \<times> wvalue) list \<Rightarrow> (string \<times> wit) list \<Rightarrow> bool"
  and payload_typed :: "wvalue option \<Rightarrow> wit option \<Rightarrow> bool"
  and items_typed :: "wvalue list \<Rightarrow> wit list \<Rightarrow> bool" where
  "typed (V_Bool x) t = (t = W_Bool)"
| "typed (V_S8 x) t = (t = W_S8)"
| "typed (V_S16 x) t = (t = W_S16)"
| "typed (V_S32 x) t = (t = W_S32)"
| "typed (V_S64 x) t = (t = W_S64)"
| "typed (V_U8 x) t = (t = W_U8)"
| "typed (V_U16 x) t = (t = W_U16)"
| "typed (V_U32 x) t = (t = W_U32)"
| "typed (V_U64 x) t = (t = W_U64)"
| "typed (V_F32 x) t = (t = W_F32)"
| "typed (V_F64 x) t = (t = W_F64)"
| "typed (V_String x) t = (t = W_String)"
| "typed (V_Bytes x) t = False"
| "typed (V_List vs) t = (case t of W_List e \<Rightarrow> list_all (\<lambda>v. typed v e) vs | _ \<Rightarrow> False)"
| "typed (V_Record fs) t = (case t of W_Record ts \<Rightarrow> fields_typed fs ts | _ \<Rightarrow> False)"
| "typed (V_Variant n p) t =
     (case t of W_Variant cs \<Rightarrow> (case map_of cs n of Some u \<Rightarrow> payload_typed p u | None \<Rightarrow> False) | _ \<Rightarrow> False)"
| "typed (V_Option p) t = (case t of W_Option u \<Rightarrow> p = None \<or> payload_typed p (Some u) | _ \<Rightarrow> False)"
| "typed (V_Result r) t =
     (case t of W_Result a b \<Rightarrow> (case r of Inr p \<Rightarrow> payload_typed p a | Inl p \<Rightarrow> payload_typed p b) | _ \<Rightarrow> False)"
| "typed (V_Tuple vs) t = (case t of W_Tuple ts \<Rightarrow> items_typed vs ts | _ \<Rightarrow> False)"
| "typed (V_Enum n) t = (case t of W_Enum ns \<Rightarrow> n \<in> set ns | _ \<Rightarrow> False)"
| "typed (V_Flags ns) t = (case t of W_Flags fs \<Rightarrow> set ns \<subseteq> set fs | _ \<Rightarrow> False)"
| "typed (V_Resource a b) t = (t = W_Resource)"
| "fields_typed [] ts = (ts = [])"
| "fields_typed ((n, v) # fs) ts =
     (case ts of [] \<Rightarrow> False | (k, t) # ts' \<Rightarrow> n = k \<and> typed v t \<and> fields_typed fs ts')"
| "payload_typed None t = (t = None)"
| "payload_typed (Some v) t = (case t of Some u \<Rightarrow> typed v u | None \<Rightarrow> False)"
| "items_typed [] ts = (ts = [])"
| "items_typed (v # vs) ts = (case ts of [] \<Rightarrow> False | t # ts' \<Rightarrow> typed v t \<and> items_typed vs ts')"

section \<open>The types of the interfaces\<close>

definition wit_bytes :: wit where
  "wit_bytes = W_List W_U8"

definition wit_logicaltype :: wit where
  "wit_logicaltype = W_Variant
     [(''boolean'', None), (''int64'', None), (''uint64'', None), (''float64'', None), (''text'', None),
      (''blob'', None), (''int32'', None), (''timestamp'', None), (''int8'', None), (''int16'', None),
      (''uint8'', None), (''uint16'', None), (''uint32'', None), (''float32'', None), (''date'', None),
      (''time'', None), (''timestamptz'', None),
      (''decimal'', Some (W_Record [(''width'', W_U8), (''scale'', W_U8)])), (''interval'', None),
      (''uuid'', None), (''hugeint'', None), (''uhugeint'', None), (''complex'', Some W_String)]"

definition wit_duckvalue :: wit where
  "wit_duckvalue = W_Variant
     [(''null'', None), (''boolean'', Some W_Bool), (''int64'', Some W_S64), (''uint64'', Some W_U64),
      (''float64'', Some W_F64), (''text'', Some W_String), (''blob'', Some wit_bytes),
      (''int32'', Some W_S32), (''timestamp'', Some W_S64), (''int8'', Some W_S8), (''int16'', Some W_S16),
      (''uint8'', Some W_U8), (''uint16'', Some W_U16), (''uint32'', Some W_U32), (''float32'', Some W_F32),
      (''date'', Some W_S32), (''time'', Some W_S64), (''timestamptz'', Some W_S64),
      (''decimal'', Some (W_Record [(''lower'', W_U64), (''upper'', W_U64), (''width'', W_U8), (''scale'', W_U8)])),
      (''interval'', Some (W_Record [(''months'', W_S32), (''days'', W_S32), (''micros'', W_S64)])),
      (''uuid'', Some (W_Record [(''hi'', W_U64), (''lo'', W_U64)])),
      (''hugeint'', Some (W_Record [(''lower'', W_U64), (''upper'', W_S64)])),
      (''uhugeint'', Some (W_Record [(''lower'', W_U64), (''upper'', W_U64)])),
      (''complex'', Some (W_Record [(''type-expr'', W_String), (''json'', W_String)]))]"

definition wit_duckerror :: wit where
  "wit_duckerror = W_Variant
     [(''invalidargument'', Some W_String), (''unsupported'', Some W_String),
      (''invalidstate'', Some W_String), (''io'', Some W_String), (''internal'', Some W_String)]"

definition wit_columndef :: wit where
  "wit_columndef = W_Record [(''name'', W_String), (''logical'', wit_logicaltype)]"

definition wit_row :: wit where
  "wit_row = W_List wit_duckvalue"

definition wit_query_result :: wit where
  "wit_query_result = W_Record [(''columns'', W_List wit_columndef), (''rows'', W_List wit_row)]"

definition wit_capability :: wit where
  "wit_capability = W_Enum [''scalar'', ''table'', ''aggregate'', ''pragma'', ''macro'', ''catalog'', ''file-format'']"

definition wit_extension_info :: wit where
  "wit_extension_info = W_Record [(''name'', W_String), (''requires'', W_List wit_capability)]"

definition wit_ui_response :: wit where
  "wit_ui_response = W_Record [(''status'', W_U16), (''headers'', W_String), (''body'', wit_bytes)]"

end
