(* ===== verification/Host_Cli.thy ===== *)
theory Host_Cli
  imports Host_Resources Wit_Types
begin

text \<open>
  The database interface as the command line sees it (\<open>CliDatabaseHost\<close> and the \<open>cli_db_*\<close>
  functions of \<open>crates/ducklink-host/src/lib.rs\<close>): every call is a name and a list of untyped
  values, which are taken apart by hand, and so is the reply. The table that turns numbers into
  resource values belongs to the wasmos runtime and is a parameter. \<^const>\<open>None\<close>: a panic of the host
  or an attach that never ends.
\<close>

record 't cli_ctx =
  cx_new :: "string \<Rightarrow> u32 \<Rightarrow> 't \<Rightarrow> (string + wvalue) \<times> 't"
  cx_rep :: "wvalue \<Rightarrow> 't \<Rightarrow> string + u32"

type_synonym ('t, 'm, 'e) cli = "'t \<times> ('m, 'e) host"
type_synonym ('t, 'm, 'e) cli_reply = "((string + wvalue list) \<times> ('t, 'm, 'e) cli) option"

definition conn_resource :: string where "conn_resource = ''connection''"
definition stream_resource :: string where "stream_resource = ''result-stream''"
definition prepared_resource :: string where "prepared_resource = ''prepared-statement''"
definition appender_resource :: string where "appender_resource = ''appender''"

section \<open>Arguments and replies\<close>

definition bad_args :: "fmt \<Rightarrow> string \<Rightarrow> wvalue list \<Rightarrow> string" where
  "bad_args fm method args = cli_db_iface @ ''.'' @ method @ '': bad args '' @ dbg_slice fm args"

text \<open>Arguments that were read, and the number behind a resource.\<close>

definition with_args :: "string + 'a \<Rightarrow> ('a \<Rightarrow> ('t, 'm, 'e) cli \<Rightarrow> ('t, 'm, 'e) cli_reply) \<Rightarrow>
    ('t, 'm, 'e) cli \<Rightarrow> ('t, 'm, 'e) cli_reply" where
  "with_args r k s = (case r of Inl e \<Rightarrow> Some (Inl e, s) | Inr a \<Rightarrow> k a s)"

definition with_rep :: "'t cli_ctx \<Rightarrow> wvalue \<Rightarrow> (u32 \<Rightarrow> ('t, 'm, 'e) cli \<Rightarrow> ('t, 'm, 'e) cli_reply) \<Rightarrow>
    ('t, 'm, 'e) cli \<Rightarrow> ('t, 'm, 'e) cli_reply" where
  "with_rep C v k s = with_args (cx_rep C v (fst s)) k s"

text \<open>A reply that is a result: the value, or the error as a value.\<close>

definition result_value :: "('a \<Rightarrow> wvalue option) \<Rightarrow> ('x \<Rightarrow> wvalue) \<Rightarrow> 'x + 'a \<Rightarrow> wvalue list" where
  "result_value ok err r =
     [V_Result (case r of Inr a \<Rightarrow> Inr (ok a) | Inl e \<Rightarrow> Inl (Some (err e)))]"

definition reply :: "wvalue list \<times> ('m, 'e) host \<Rightarrow> 't \<Rightarrow> ('t, 'm, 'e) cli_reply" where
  "reply r t = Some (Inr (fst r), (t, snd r))"

definition duck_reply ::
  "('a \<Rightarrow> wvalue option) \<Rightarrow> (duckerror + 'a) \<times> ('m, 'e) host \<Rightarrow> 't \<Rightarrow> ('t, 'm, 'e) cli_reply" where
  "duck_reply ok r = reply (result_value ok cli_duckerror_to_value (fst r), snd r)"

definition text_reply ::
  "('a \<Rightarrow> wvalue option) \<Rightarrow> (string + 'a) \<times> ('m, 'e) host \<Rightarrow> 't \<Rightarrow> ('t, 'm, 'e) cli_reply" where
  "text_reply ok r = reply (result_value ok V_String (fst r), snd r)"

text \<open>A reply that is a new resource.\<close>

definition resource_reply ::
  "'t cli_ctx \<Rightarrow> string \<Rightarrow> ('x \<Rightarrow> wvalue) \<Rightarrow> ('x + u32) \<times> ('m, 'e) host \<Rightarrow> 't \<Rightarrow> ('t, 'm, 'e) cli_reply" where
  "resource_reply C kind err r t =
     (case r of
        (Inl e, h) \<Rightarrow> Some (Inr (result_value (\<lambda>_ :: unit. None) err (Inl e)), (t, h))
      | (Inr rep, h) \<Rightarrow>
          (case cx_new C kind rep t of
             (Inl e, t1) \<Rightarrow> Some (Inl e, (t1, h))
           | (Inr v, t1) \<Rightarrow> Some (Inr [V_Result (Inr (Some v))], (t1, h))))"

section \<open>Methods\<close>

definition cli_db_handle_ui_request where
  "cli_db_handle_ui_request fm args =
     with_args (case args of
         [V_String m, V_String p, V_String hd1, V_List bs] \<Rightarrow>
           rbind (value_list_to_bytes fm bs) (\<lambda>b. Inr (m, p, hd1, b))
       | other \<Rightarrow> Inl (bad_args fm ''handle-ui-request'' other))
       (\<lambda>(m, p, hd1, b) (t, h). reply ([V_Option (map_option ui_response_to_value (handle_ui_request m p hd1 b))], h) t)"

definition cli_db_handle_quack_request where
  "cli_db_handle_quack_request fm args =
     with_args (case args of
         [V_List bs] \<Rightarrow> value_list_to_bytes fm bs
       | other \<Rightarrow> Inl (bad_args fm ''handle-quack-request'' other))
       (\<lambda>b (t, h). reply ([V_Option (map_option bytes_to_value_list (handle_quack_request b))], h) t)"

definition cli_db_open where
  "cli_db_open W C args =
     with_args (case args of
         [V_Option p] \<Rightarrow> option_value_to_string (hw_fmt W) p
       | other \<Rightarrow> Inl (bad_args (hw_fmt W) ''open'' other))
       (\<lambda>path (t, h). resource_reply C conn_resource V_String (open_db W path h) t)"

definition config_option :: "fmt \<Rightarrow> wvalue \<Rightarrow> string + (string \<times> string)" where
  "config_option fm item =
     (case item of
        V_Tuple [V_String k, V_String v] \<Rightarrow> Inr (k, v)
      | V_Tuple [k, v] \<Rightarrow> Inl (cli_db_iface @ ''.open-with-config: option tuple elements must be (String, String), got (''
          @ dbg fm k @ '', '' @ dbg fm v @ '')'')
      | other \<Rightarrow> Inl (cli_db_iface @ ''.open-with-config: options must be Tuple(String,String), got ''
          @ dbg fm other))"

definition cli_db_open_with_config where
  "cli_db_open_with_config W C args =
     with_args (case args of
         [V_Option p, V_List opts] \<Rightarrow>
           rbind (option_value_to_string (hw_fmt W) p) (\<lambda>path.
           rbind (rmap (config_option (hw_fmt W)) opts) (\<lambda>kvs. Inr (path, kvs)))
       | other \<Rightarrow> Inl (bad_args (hw_fmt W) ''open-with-config'' other))
       (\<lambda>(path, kvs) (t, h). resource_reply C conn_resource V_String (open_with_config W path kvs h) t)"

definition cli_db_close where
  "cli_db_close W C args =
     with_args (expect_single_resource (hw_fmt W) args ''close'') (\<lambda>v. with_rep C v (\<lambda>rep (t, h).
       Option.bind (close_connection W rep h) (\<lambda>h1. reply ([], h1) t)))"

definition cli_db_interrupt where
  "cli_db_interrupt W C args =
     with_args (expect_single_resource (hw_fmt W) args ''interrupt'') (\<lambda>v. with_rep C v (\<lambda>rep (t, h).
       Option.bind (interrupt W rep h) (\<lambda>h1. reply ([], h1) t)))"

definition cli_db_execute where
  "cli_db_execute W C args =
     with_args (expect_resource_and_string (hw_fmt W) args ''execute'') (\<lambda>(v, sql). with_rep C v (\<lambda>rep (t, h).
       Option.bind (execute W rep sql h) (\<lambda>r. duck_reply (\<lambda>qr. Some (query_result_to_value qr)) r t)))"

definition cli_db_query_arrow where
  "cli_db_query_arrow W C args =
     with_args (expect_resource_and_string (hw_fmt W) args ''query-arrow'') (\<lambda>(v, sql). with_rep C v (\<lambda>rep (t, h).
       duck_reply (\<lambda>bs. Some (bytes_to_value_list bs)) (query_arrow W rep sql h) t))"

definition cli_db_open_stream where
  "cli_db_open_stream W C args =
     with_args (expect_resource_and_string (hw_fmt W) args ''open-stream'') (\<lambda>(v, sql). with_rep C v (\<lambda>rep (t, h).
       resource_reply C stream_resource cli_duckerror_to_value (open_stream W rep sql h) t))"

definition cli_db_prepare where
  "cli_db_prepare W C args =
     with_args (expect_resource_and_string (hw_fmt W) args ''prepare'') (\<lambda>(v, sql). with_rep C v (\<lambda>rep (t, h).
       resource_reply C prepared_resource cli_duckerror_to_value (prepare W rep sql h) t))"

definition cli_db_create_appender where
  "cli_db_create_appender W C args =
     with_args (case args of
         [V_Resource a b, V_Option s, V_String table] \<Rightarrow>
           rbind (option_value_to_string (hw_fmt W) s) (\<lambda>schema. Inr (V_Resource a b, schema, table))
       | other \<Rightarrow> Inl (bad_args (hw_fmt W) ''create-appender'' other))
       (\<lambda>(v, schema, table). with_rep C v (\<lambda>rep (t, h).
         resource_reply C appender_resource cli_duckerror_to_value (create_appender W rep schema table h) t))"

definition cli_db_register_extension where
  "cli_db_register_extension W args =
     with_args (case args of
         [V_String n, V_List caps] \<Rightarrow> rbind (rmap (value_to_capabilitykind (hw_fmt W)) caps) (\<lambda>rs. Inr (n, rs))
       | other \<Rightarrow> Inl (bad_args (hw_fmt W) ''register-extension'' other))
       (\<lambda>(n, rs) (t, h). text_reply (\<lambda>b. Some (V_Bool b)) (register_extension W n rs h) t)"

definition cli_db_list_registered_extensions where
  "cli_db_list_registered_extensions W args =
     with_args (if args = [] then Inr () else Inl (cli_db_iface
         @ ''.list-registered-extensions: expected no args, got '' @ dbg_slice (hw_fmt W) args))
       (\<lambda>_ (t, h). Option.bind (list_registered_extensions W h) (\<lambda>(infos, h1).
         reply ([V_List (map extension_info_to_value infos)], h1) t))"

definition cli_db_register_table_function where
  "cli_db_register_table_function W C args =
     with_args (case args of
         [V_Resource a b, V_String n, V_List cs, V_U32 cb] \<Rightarrow>
           rbind (rmap (value_to_column_descriptor (hw_fmt W)) cs) (\<lambda>cols. Inr (V_Resource a b, n, cols, cb))
       | other \<Rightarrow> Inl (bad_args (hw_fmt W) ''register-table-function'' other))
       (\<lambda>(v, n, cols, cb). with_rep C v (\<lambda>rep (t, h).
         text_reply (\<lambda>_. None) (register_table_function W rep n cols cb h) t))"

definition cli_db_stream_schema where
  "cli_db_stream_schema W C args =
     with_args (expect_single_resource (hw_fmt W) args ''[method]result-stream.schema'') (\<lambda>v. with_rep C v (\<lambda>rep (t, h).
       case stream_schema W rep h of (cols, h1) \<Rightarrow> reply ([V_List (map cli_columndef_to_value cols)], h1) t))"

definition rows_value :: "row list option \<Rightarrow> wvalue" where
  "rows_value rows = V_Option (map_option (\<lambda>rs. V_List (map (\<lambda>row. V_List (map cli_duckvalue_to_value row)) rs)) rows)"

definition cli_db_stream_next where
  "cli_db_stream_next W C args =
     with_args (case args of
         [V_Resource a b, V_U32 n] \<Rightarrow> Inr (V_Resource a b, n)
       | other \<Rightarrow> Inl (bad_args (hw_fmt W) ''[method]result-stream.next'' other))
       (\<lambda>(v, n). with_rep C v (\<lambda>rep (t, h).
         duck_reply (\<lambda>rows. Some (rows_value rows)) (stream_next W rep n h) t))"

definition cli_db_stream_close where
  "cli_db_stream_close W C args =
     with_args (expect_single_resource (hw_fmt W) args ''[method]result-stream.close'') (\<lambda>v. with_rep C v (\<lambda>rep (t, h).
       reply ([], stream_close W rep h) t))"

definition cli_db_prepared_parameter_count where
  "cli_db_prepared_parameter_count W C args =
     with_args (expect_single_resource (hw_fmt W) args ''[method]prepared-statement.parameter-count'')
       (\<lambda>v. with_rep C v (\<lambda>rep (t, h).
         Option.bind (prepared_parameter_count W rep h) (\<lambda>(n, h1). reply ([V_U32 n], h1) t)))"

text \<open>A resource and a list of values.\<close>

definition resource_and_values :: "fmt \<Rightarrow> string \<Rightarrow> wvalue list \<Rightarrow> string + (wvalue \<times> duckvalue list)" where
  "resource_and_values fm method args =
     (case args of
        [V_Resource a b, V_List items] \<Rightarrow>
          rbind (rmap (cli_value_to_duckvalue fm) items) (\<lambda>vs. Inr (V_Resource a b, vs))
      | other \<Rightarrow> Inl (bad_args fm method other))"

definition cli_db_prepared_execute where
  "cli_db_prepared_execute W C args =
     with_args (resource_and_values (hw_fmt W) ''[method]prepared-statement.execute'' args)
       (\<lambda>(v, params). with_rep C v (\<lambda>rep (t, h).
         duck_reply (\<lambda>qr. Some (query_result_to_value qr)) (prepared_execute W rep params h) t))"

definition cli_db_appender_append_row where
  "cli_db_appender_append_row W C args =
     with_args (resource_and_values (hw_fmt W) ''[method]appender.append-row'' args)
       (\<lambda>(v, vs). with_rep C v (\<lambda>rep (t, h). duck_reply (\<lambda>_. None) (appender_append_row W rep vs h) t))"

definition cli_db_appender_flush where
  "cli_db_appender_flush W C args =
     with_args (expect_single_resource (hw_fmt W) args ''[method]appender.flush'') (\<lambda>v. with_rep C v (\<lambda>rep (t, h).
       duck_reply (\<lambda>_. None) (appender_flush W rep h) t))"

definition cli_db_appender_close where
  "cli_db_appender_close W C args =
     with_args (expect_single_resource (hw_fmt W) args ''[method]appender.close'') (\<lambda>v. with_rep C v (\<lambda>rep (t, h).
       duck_reply (\<lambda>_. None) (appender_close W rep h) t))"

definition cli_db_call ::
  "('m, 'e, 'j) host_world \<Rightarrow> 't cli_ctx \<Rightarrow> string \<Rightarrow> wvalue list \<Rightarrow> ('t, 'm, 'e) cli \<Rightarrow>
     ('t, 'm, 'e) cli_reply" where
  "cli_db_call W C m args =
     (if m = ''handle-ui-request'' then cli_db_handle_ui_request (hw_fmt W) args
      else if m = ''handle-quack-request'' then cli_db_handle_quack_request (hw_fmt W) args
      else if m = ''open'' then cli_db_open W C args
      else if m = ''open-with-config'' then cli_db_open_with_config W C args
      else if m = ''close'' then cli_db_close W C args
      else if m = ''interrupt'' then cli_db_interrupt W C args
      else if m = ''execute'' then cli_db_execute W C args
      else if m = ''query-arrow'' then cli_db_query_arrow W C args
      else if m = ''open-stream'' then cli_db_open_stream W C args
      else if m = ''prepare'' then cli_db_prepare W C args
      else if m = ''create-appender'' then cli_db_create_appender W C args
      else if m = ''register-extension'' then cli_db_register_extension W args
      else if m = ''list-registered-extensions'' then cli_db_list_registered_extensions W args
      else if m = ''register-table-function'' then cli_db_register_table_function W C args
      else if m = ''[method]result-stream.schema'' then cli_db_stream_schema W C args
      else if m = ''[method]result-stream.next'' then cli_db_stream_next W C args
      else if m = ''[method]result-stream.close'' then cli_db_stream_close W C args
      else if m = ''[method]prepared-statement.parameter-count'' then cli_db_prepared_parameter_count W C args
      else if m = ''[method]prepared-statement.execute'' then cli_db_prepared_execute W C args
      else if m = ''[method]appender.append-row'' then cli_db_appender_append_row W C args
      else if m = ''[method]appender.flush'' then cli_db_appender_flush W C args
      else if m = ''[method]appender.close'' then cli_db_appender_close W C args
      else (\<lambda>s. Some (Inl (cli_db_iface @ '': unknown method '' @ dbg_str (hw_fmt W) m), s)))"

definition on_resource_drop :: "fmt \<Rightarrow> string \<Rightarrow> u32 \<Rightarrow> ('m, 'e) host \<Rightarrow> (string + unit) \<times> ('m, 'e) host" where
  "on_resource_drop fm kind rep h =
     (if kind = conn_resource then (Inr (), schedule_connection_drop rep h)
      else if kind = stream_resource then (Inr (), schedule_stream_drop rep h)
      else if kind = prepared_resource then (Inr (), schedule_prepared_drop rep h)
      else if kind = appender_resource then (Inr (), schedule_appender_drop rep h)
      else (Inl (cli_db_iface @ '': unexpected resource drop for '' @ dbg_str fm kind), h))"

definition extension_loader_call ::
  "('m, 'e, 'j) host_world \<Rightarrow> string \<Rightarrow> wvalue list \<Rightarrow> ('m, 'e) host \<Rightarrow>
     (string + wvalue list) \<times> ('m, 'e) host" where
  "extension_loader_call W m args h =
     (let iface = ''duckdb:component/host-extension-loader''
      in if m = ''request-load'' then
           (case args of
              [V_String s] \<Rightarrow>
                (case request_extension_load W s h of
                   (Inl e, h1) \<Rightarrow> (Inl (''request-load: '' @ e), h1)
                 | (Inr b, h1) \<Rightarrow> (Inr [V_Bool b], h1))
            | other \<Rightarrow> (Inl (iface @ ''.request-load: bad args '' @ dbg_slice (hw_fmt W) other), h))
         else (Inl (iface @ '': unknown method '' @ dbg_str (hw_fmt W) m), h))"

end
