(* ===== verification/Host_Cli_Facts.thy ===== *)
theory Host_Cli_Facts
  imports Host_Cli Host_Execute_Facts
begin

text \<open>
  The hand-written codecs and the database interface against the interface types: every reply has
  the declared type, and the values of the type of a query result are exactly the encodings.
\<close>

section \<open>Values of a type\<close>

named_theorems wit_defs \<open>the types of the interfaces\<close>

lemmas [wit_defs] = wit_bytes_def wit_logicaltype_def wit_duckvalue_def wit_duckerror_def
  wit_columndef_def wit_row_def wit_query_result_def wit_capability_def wit_extension_info_def
  wit_ui_response_def

lemma typed_iff:
  "typed v W_Bool \<longleftrightarrow> (\<exists>x. v = V_Bool x)" "typed v W_S8 \<longleftrightarrow> (\<exists>x. v = V_S8 x)"
  "typed v W_S16 \<longleftrightarrow> (\<exists>x. v = V_S16 x)" "typed v W_S32 \<longleftrightarrow> (\<exists>x. v = V_S32 x)"
  "typed v W_S64 \<longleftrightarrow> (\<exists>x. v = V_S64 x)" "typed v W_U8 \<longleftrightarrow> (\<exists>x. v = V_U8 x)"
  "typed v W_U16 \<longleftrightarrow> (\<exists>x. v = V_U16 x)" "typed v W_U32 \<longleftrightarrow> (\<exists>x. v = V_U32 x)"
  "typed v W_U64 \<longleftrightarrow> (\<exists>x. v = V_U64 x)" "typed v W_F32 \<longleftrightarrow> (\<exists>x. v = V_F32 x)"
  "typed v W_F64 \<longleftrightarrow> (\<exists>x. v = V_F64 x)" "typed v W_String \<longleftrightarrow> (\<exists>x. v = V_String x)"
  "typed v (W_List e) \<longleftrightarrow> (\<exists>vs. v = V_List vs \<and> list_all (\<lambda>v. typed v e) vs)"
  "typed v (W_Record ts) \<longleftrightarrow> (\<exists>fs. v = V_Record fs \<and> fields_typed fs ts)"
  "typed v (W_Variant cs) \<longleftrightarrow> (\<exists>n p u. v = V_Variant n p \<and> map_of cs n = Some u \<and> payload_typed p u)"
  by (cases v; auto split: option.splits)+

lemma fields_typed_iff:
  "fields_typed fs [] \<longleftrightarrow> fs = []"
  "fields_typed fs ((k, t) # ts) \<longleftrightarrow> (\<exists>v gs. fs = (k, v) # gs \<and> typed v t \<and> fields_typed gs ts)"
  by (cases fs; auto)+

lemma payload_typed_iff:
  "payload_typed p None \<longleftrightarrow> p = None" "payload_typed p (Some t) \<longleftrightarrow> (\<exists>v. p = Some v \<and> typed v t)"
  by (cases p; auto)+

lemma bytes_typed: "list_all (\<lambda>v. \<exists>x. v = V_U8 x) vs \<longleftrightarrow> (\<exists>b. vs = map V_U8 b)"
proof (induction vs)
  case (Cons v vs)
  show ?case
  proof
    assume "list_all (\<lambda>v. \<exists>x. v = V_U8 x) (v # vs)"
    then obtain x b where "v = V_U8 x" "vs = map V_U8 b" using Cons by auto
    then show "\<exists>b. v # vs = map V_U8 b" by (intro exI [of _ "x # b"]) simp
  qed (use Cons in \<open>auto simp: Cons_eq_map_conv\<close>)
qed simp

section \<open>The encodings have their types\<close>

lemma bytes_value_typed [simp]: "typed (bytes_to_value_list b) wit_bytes"
  by (simp add: bytes_to_value_list_def wit_bytes_def list_all_iff)

lemma logicaltype_typed [simp]: "typed (cli_logicaltype_to_value t) wit_logicaltype"
  by (cases t) (simp_all add: cli_logicaltype_to_value_def wit_logicaltype_def)

lemma columndef_typed [simp]: "typed (cli_columndef_to_value c) wit_columndef"
  by (simp add: cli_columndef_to_value_def wit_columndef_def)

lemma duckvalue_typed [simp]: "typed (cli_duckvalue_to_value v) wit_duckvalue"
  by (cases v) (simp_all add: cli_duckvalue_to_value_def wit_duckvalue_def Let_def)

lemma duckerror_typed [simp]: "typed (cli_duckerror_to_value e) wit_duckerror"
  by (cases e) (simp_all add: cli_duckerror_to_value_def wit_duckerror_def)

lemma row_typed [simp]: "typed (V_List (map cli_duckvalue_to_value row)) wit_row"
  by (simp add: wit_row_def list_all_iff)

lemma query_result_typed [simp]: "typed (query_result_to_value qr) wit_query_result"
  by (simp add: query_result_to_value_def wit_query_result_def wit_row_def list_all_iff)

lemma capability_typed [simp]: "typed (capabilitykind_to_value k) wit_capability"
  by (cases k) (simp_all add: capabilitykind_to_value_def describe_cli_capability_def wit_capability_def)

lemma extension_info_typed [simp]: "typed (extension_info_to_value i) wit_extension_info"
  by (simp add: extension_info_to_value_def wit_extension_info_def list_all_iff)

section \<open>The typed values are the encodings\<close>

text \<open>\<open>v\<close> is what \<open>enc\<close> makes of what \<open>dec\<close> reads from it.\<close>

definition coded :: "(wvalue \<Rightarrow> string + 'a) \<Rightarrow> ('a \<Rightarrow> wvalue) \<Rightarrow> wvalue \<Rightarrow> bool" where
  "coded dec enc v \<longleftrightarrow> (\<exists>a. dec v = Inr a \<and> enc a = v)"

lemma coded_list:
  "list_all (coded dec enc) vs \<Longrightarrow> \<exists>xs. rmap dec vs = Inr xs \<and> map enc xs = vs"
  by (induction vs) (auto simp: coded_def)

lemma logicaltype_coded:
  "typed v wit_logicaltype \<Longrightarrow> coded (cli_value_to_logicaltype fm) cli_logicaltype_to_value v"
  by (auto simp: wit_logicaltype_def typed_iff fields_typed_iff payload_typed_iff coded_def
      cli_value_to_logicaltype_def cli_logicaltype_to_value_def fieldless_logicaltype_def as_defs
      split: if_splits)

lemma columndef_coded:
  assumes "typed v wit_columndef"
  shows "coded (cli_value_to_columndef fm) cli_columndef_to_value v"
proof -
  obtain n t where v: "v = V_Record [(''name'', V_String n), (''logical'', t)]" "typed t wit_logicaltype"
    using assms by (auto simp: wit_columndef_def typed_iff fields_typed_iff)
  obtain l where "cli_value_to_logicaltype fm t = Inr l" "cli_logicaltype_to_value l = t"
    using logicaltype_coded [OF v(2)] by (auto simp: coded_def)
  then show ?thesis
    unfolding v(1) coded_def
    by (intro exI [of _ "\<lparr>cd_name = n, cd_logical = l\<rparr>"])
      (simp add: cli_value_to_columndef_def cli_columndef_to_value_def named_type_def as_defs)
qed

lemma duckvalue_coded:
  "typed v wit_duckvalue \<Longrightarrow> coded (cli_value_to_duckvalue fm) cli_duckvalue_to_value v"
  by (auto simp: wit_duckvalue_def wit_bytes_def typed_iff fields_typed_iff payload_typed_iff bytes_typed
      coded_def cli_value_to_duckvalue_def cli_duckvalue_to_value_def plain_arm_def record_arm_def Let_def
      bytes_to_value_list_def as_defs split: if_splits)

lemma row_coded:
  assumes "typed v wit_row"
  shows "coded (value_to_row fm) (\<lambda>row. V_List (map cli_duckvalue_to_value row)) v"
proof -
  obtain vs where v: "v = V_List vs" "list_all (coded (cli_value_to_duckvalue fm) cli_duckvalue_to_value) vs"
    using assms duckvalue_coded by (auto simp: wit_row_def typed_iff list_all_iff)
  then show ?thesis using coded_list [OF v(2)] by (auto simp: coded_def value_to_row_def)
qed

text \<open>
  The values of the interface type of a query result are exactly the encodings of query results:
  every encoding has the type, and every value of the type decodes to a query result that encodes to
  that value, so that nothing that crosses the boundary is lost, and nothing is accepted that the
  interface does not know how to say.
\<close>

theorem query_result_wire_type:
  "typed v wit_query_result \<longleftrightarrow> (\<exists>qr. value_to_query_result fm v = Inr qr \<and> query_result_to_value qr = v)"
proof
  assume "typed v wit_query_result"
  then obtain cs rs where v: "v = V_Record [(''columns'', V_List cs), (''rows'', V_List rs)]"
    "list_all (coded (cli_value_to_columndef fm) cli_columndef_to_value) cs"
    "list_all (coded (value_to_row fm) (\<lambda>row. V_List (map cli_duckvalue_to_value row))) rs"
    using columndef_coded row_coded by (auto simp: wit_query_result_def typed_iff fields_typed_iff list_all_iff)
  obtain cols where c: "rmap (cli_value_to_columndef fm) cs = Inr cols" "map cli_columndef_to_value cols = cs"
    using coded_list [OF v(2)] by blast
  obtain rows where r: "rmap (value_to_row fm) rs = Inr rows"
      "map (\<lambda>row. V_List (map cli_duckvalue_to_value row)) rows = rs"
    using coded_list [OF v(3)] by blast
  show "\<exists>qr. value_to_query_result fm v = Inr qr \<and> query_result_to_value qr = v"
    using c r by (intro exI [of _ "\<lparr>qr_columns = cols, qr_rows = rows\<rparr>"])
      (simp add: v(1) value_to_query_result_def query_result_to_value_def)
qed auto

section \<open>Replies\<close>

text \<open>The declared results of the database interface (\<open>src/wit/core/duckdb-core.wit\<close>).\<close>

definition reply_types :: "string \<Rightarrow> wit list option" where
  "reply_types = map_of
     [(''handle-ui-request'', [W_Option wit_ui_response]),
      (''handle-quack-request'', [W_Option wit_bytes]),
      (''open'', [W_Result (Some W_Resource) (Some W_String)]),
      (''open-with-config'', [W_Result (Some W_Resource) (Some W_String)]),
      (''close'', []),
      (''interrupt'', []),
      (''execute'', [W_Result (Some wit_query_result) (Some wit_duckerror)]),
      (''query-arrow'', [W_Result (Some wit_bytes) (Some wit_duckerror)]),
      (''open-stream'', [W_Result (Some W_Resource) (Some wit_duckerror)]),
      (''prepare'', [W_Result (Some W_Resource) (Some wit_duckerror)]),
      (''create-appender'', [W_Result (Some W_Resource) (Some wit_duckerror)]),
      (''register-extension'', [W_Result (Some W_Bool) (Some W_String)]),
      (''list-registered-extensions'', [W_List wit_extension_info]),
      (''register-table-function'', [W_Result None (Some W_String)]),
      (''[method]result-stream.schema'', [W_List wit_columndef]),
      (''[method]result-stream.next'', [W_Result (Some (W_Option (W_List wit_row))) (Some wit_duckerror)]),
      (''[method]result-stream.close'', []),
      (''[method]prepared-statement.parameter-count'', [W_U32]),
      (''[method]prepared-statement.execute'', [W_Result (Some wit_query_result) (Some wit_duckerror)]),
      (''[method]appender.append-row'', [W_Result None (Some wit_duckerror)]),
      (''[method]appender.flush'', [W_Result None (Some wit_duckerror)]),
      (''[method]appender.close'', [W_Result None (Some wit_duckerror)])]"

text \<open>Every value it returns, if it returns, has these types.\<close>

definition yields :: "wit list \<Rightarrow> ('t, 'm, 'e) cli_reply \<Rightarrow> bool" where
  "yields ts r \<longleftrightarrow> (\<forall>vs s. r = Some (Inr vs, s) \<longrightarrow> list_all2 typed vs ts)"

lemma yields_args: "(\<And>a s. yields ts (k a s)) \<Longrightarrow> yields ts (with_args r k s)"
  by (cases r) (simp_all add: with_args_def yields_def)

lemma yields_rep: "(\<And>a s. yields ts (k a s)) \<Longrightarrow> yields ts (with_rep C v k s)"
  unfolding with_rep_def by (rule yields_args)

lemma yields_reply: "list_all2 typed (fst r) ts \<Longrightarrow> yields ts (reply r t)"
  by (simp add: yields_def reply_def)

lemma yields_result:
  assumes "\<And>a. payload_typed (ok a) t" "\<And>e. typed (err e) u"
  shows "list_all2 typed (result_value ok err r) [W_Result t (Some u)]"
  using assms by (simp add: result_value_def split: sum.split)

lemma yields_duck: "(\<And>a. payload_typed (ok a) t) \<Longrightarrow> yields [W_Result t (Some wit_duckerror)] (duck_reply ok r s)"
  unfolding duck_reply_def by (rule yields_reply) (simp only: fst_conv, rule yields_result, simp_all)

lemma yields_text: "(\<And>a. payload_typed (ok a) t) \<Longrightarrow> yields [W_Result t (Some W_String)] (text_reply ok r s)"
  unfolding text_reply_def by (rule yields_reply) (simp only: fst_conv, rule yields_result, simp_all)

lemma yields_bind: "(\<And>a. yields ts (k a)) \<Longrightarrow> yields ts (Option.bind m k)"
  by (cases m) (simp_all add: yields_def)

lemma yields_resource:
  assumes "\<And>k rep t v t'. cx_new C k rep t = (Inr v, t') \<Longrightarrow> typed v W_Resource" "\<And>e. typed (err e) u"
  shows "yields [W_Result (Some W_Resource) (Some u)] (resource_reply C kind err r t)"
proof (cases r)
  case (Pair x h)
  show ?thesis
  proof (cases x)
    case (Inl e)
    then show ?thesis using Pair assms(2) by (simp add: resource_reply_def yields_def result_value_def)
  next
    case (Inr rep)
    obtain v t1 where "cx_new C kind rep t = (v, t1)" by (rule prod.exhaust)
    then show ?thesis using Pair Inr assms(1) by (cases v) (auto simp: resource_reply_def yields_def)
  qed
qed

lemma yields_prod:
  "(\<And>a b. yields ts (f a b)) \<Longrightarrow> yields ts (case p of (a, b) \<Rightarrow> f a b)"
  "(\<And>a b. yields ts (g a b s)) \<Longrightarrow> yields ts ((case p of (a, b) \<Rightarrow> g a b) s)"
  by (cases p; simp)+

lemma ui_response_typed [simp]: "typed (ui_response_to_value r) wit_ui_response"
  by (simp add: ui_response_to_value_def wit_ui_response_def)

lemma rows_typed [simp]: "typed (rows_value rows) (W_Option (W_List wit_row))"
  by (cases rows) (simp_all add: rows_value_def wit_row_def list_all_iff)

lemmas yields_intros = yields_args yields_rep yields_prod yields_bind yields_duck yields_text yields_reply

lemma value_replies:
    "yields [W_Option wit_ui_response] (cli_db_handle_ui_request (hw_fmt W) args s)"
    "yields [W_Option wit_bytes] (cli_db_handle_quack_request (hw_fmt W) args s)"
    "yields [] (cli_db_close W C args s)"
    "yields [] (cli_db_interrupt W C args s)"
    "yields [W_Result (Some wit_query_result) (Some wit_duckerror)] (cli_db_execute W C args s)"
    "yields [W_Result (Some wit_bytes) (Some wit_duckerror)] (cli_db_query_arrow W C args s)"
    "yields [W_Result (Some W_Bool) (Some W_String)] (cli_db_register_extension W args s)"
    "yields [W_List wit_extension_info] (cli_db_list_registered_extensions W args s)"
    "yields [W_Result None (Some W_String)] (cli_db_register_table_function W C args s)"
    "yields [W_List wit_columndef] (cli_db_stream_schema W C args s)"
    "yields [W_Result (Some (W_Option (W_List wit_row))) (Some wit_duckerror)] (cli_db_stream_next W C args s)"
    "yields [] (cli_db_stream_close W C args s)"
    "yields [W_U32] (cli_db_prepared_parameter_count W C args s)"
    "yields [W_Result (Some wit_query_result) (Some wit_duckerror)] (cli_db_prepared_execute W C args s)"
    "yields [W_Result None (Some wit_duckerror)] (cli_db_appender_append_row W C args s)"
    "yields [W_Result None (Some wit_duckerror)] (cli_db_appender_flush W C args s)"
    "yields [W_Result None (Some wit_duckerror)] (cli_db_appender_close W C args s)"
  unfolding
  cli_db_handle_ui_request_def cli_db_handle_quack_request_def cli_db_close_def
    cli_db_interrupt_def cli_db_execute_def cli_db_query_arrow_def cli_db_register_extension_def
    cli_db_list_registered_extensions_def cli_db_register_table_function_def
    cli_db_stream_schema_def cli_db_stream_next_def cli_db_stream_close_def
    cli_db_prepared_parameter_count_def cli_db_prepared_execute_def cli_db_appender_append_row_def
    cli_db_appender_flush_def cli_db_appender_close_def
  by (intro yields_intros; simp add: list_all_iff handle_ui_request_def handle_quack_request_def; fail)+

lemma resource_replies:
  assumes "\<And>k rep t v t'. cx_new C k rep t = (Inr v, t') \<Longrightarrow> typed v W_Resource"
  shows
    "yields [W_Result (Some W_Resource) (Some W_String)] (cli_db_open W C args s)"
    "yields [W_Result (Some W_Resource) (Some W_String)] (cli_db_open_with_config W C args s)"
    "yields [W_Result (Some W_Resource) (Some wit_duckerror)] (cli_db_open_stream W C args s)"
    "yields [W_Result (Some W_Resource) (Some wit_duckerror)] (cli_db_prepare W C args s)"
    "yields [W_Result (Some W_Resource) (Some wit_duckerror)] (cli_db_create_appender W C args s)"
  unfolding
  cli_db_open_def cli_db_open_with_config_def cli_db_open_stream_def cli_db_prepare_def
    cli_db_create_appender_def
  by (intro yields_intros yields_resource [OF assms]; simp)+

lemma declared_reply:
  assumes "\<And>k rep t v t'. cx_new C k rep t = (Inr v, t') \<Longrightarrow> typed v W_Resource"
    "reply_types m = Some ts"
  shows "yields ts (cli_db_call W C m args s)"
  using assms(2) unfolding reply_types_def
  by (simp split: if_split_asm)
    (hypsubst, simp add: cli_db_call_def value_replies resource_replies [OF assms(1)])+

lemma undeclared_method:
  "reply_types m = None \<Longrightarrow>
     cli_db_call W C m args s = Some (Inl (cli_db_iface @ '': unknown method '' @ dbg_str (hw_fmt W) m), s)"
  unfolding reply_types_def by (simp add: cli_db_call_def split: if_split_asm)

text \<open>
  C28. Every reply of the database interface has the type that the interface declares for the method:
  for every method, all arguments, every state and every core, as long as the runtime makes resources
  of numbers; a method that is not declared has no reply.
\<close>

theorem cli_replies_typed:
  assumes "\<And>k rep t v t'. cx_new C k rep t = (Inr v, t') \<Longrightarrow> typed v W_Resource"
    "cli_db_call W C method args s = Some (Inr vs, s')"
  shows "\<exists>ts. reply_types method = Some ts \<and> list_all2 typed vs ts"
proof (cases "reply_types method")
  case None
  then show ?thesis using assms(2) undeclared_method [OF None, where W = W and C = C and args = args and s = s] by simp
next
  case (Some ts)
  then show ?thesis using assms(2) declared_reply [OF assms(1) Some, where W = W and args = args and s = s] by (simp add: yields_def)
qed

end
