(* ===== verification/Host_Resource_Facts.thy ===== *)
theory Host_Resource_Facts
  imports Host_Cli_Facts
begin

text \<open>
  The life of the numbers that the host hands out over the database interface: what one call of the
  command line, one drop and the final drain do to the tables of connections, result streams,
  prepared statements and appenders, and what follows for a whole session.
\<close>

section \<open>What a number stands for\<close>

datatype resource_kind = R_Connection | R_Stream | R_Prepared | R_Appender

fun bound :: "('m, 'e) host \<Rightarrow> resource_kind \<Rightarrow> u32 \<Rightarrow> core_handle option" where
  "bound h R_Connection rep = map_option conn_handle (h_connections h rep)"
| "bound h R_Stream rep = map_option stream_handle (h_streams h rep)"
| "bound h R_Prepared rep = h_prepared h rep"
| "bound h R_Appender rep = h_appenders h rep"

definition bump :: "u32 \<Rightarrow> u32" where
  "bump n = max (n + 1) 1"

text \<open>
  One event binds at most one number, the next one; every other number keeps its handle or loses it.
\<close>

definition evolves :: "('m, 'e) host \<Rightarrow> ('m, 'e) host \<Rightarrow> bool" where
  "evolves h h' \<longleftrightarrow>
     (h_next_id h' = h_next_id h
        \<and> (\<forall>k rep. bound h' k rep = bound h k rep \<or> bound h' k rep = None))
     \<or> (h_next_id h' = bump (h_next_id h)
        \<and> (\<exists>k0. \<forall>k rep. rep \<noteq> h_next_id h \<or> k \<noteq> k0 \<longrightarrow>
            bound h' k rep = bound h k rep \<or> bound h' k rep = None))"

lemma all_kinds: "(\<forall>k. P k) \<longleftrightarrow> P R_Connection \<and> P R_Stream \<and> P R_Prepared \<and> P R_Appender"
  by (metis resource_kind.exhaust)

lemma ex_kinds: "(\<exists>k. P k) \<longleftrightarrow> P R_Connection \<or> P R_Stream \<or> P R_Prepared \<or> P R_Appender"
  by (metis resource_kind.exhaust)

lemma evolves_same: "same_resources h h' \<Longrightarrow> evolves h h'"
  by (simp add: same_resources_def evolves_def all_kinds ex_kinds)

lemma evolves_own: "own_tables h h' \<Longrightarrow> evolves h h'"
  by (rule evolves_same [OF own_same])

lemma evolves_refl [simp]: "evolves h h"
  by (rule evolves_own [OF own_tables_refl])

lemma evolves_after: "own_tables h h1 \<Longrightarrow> evolves h1 h' \<Longrightarrow> evolves h h'"
  by (simp add: own_tables_def evolves_def all_kinds ex_kinds)

lemma evolves_then: "evolves h h1 \<Longrightarrow> own_tables h1 h' \<Longrightarrow> evolves h h'"
  by (simp add: own_tables_def evolves_def all_kinds ex_kinds)

section \<open>One call\<close>

named_theorems evolving \<open>what the operations of the interface do to the tables\<close>

lemma keeps_returning [keeps]:
  "own_tables h (snd (call_database_returning_resource W mth i args duck h))"
  using keeps_core [of h W]
  by (simp add: call_database_returning_resource_def Let_def split_beta split: sum.split)

lemma keeps_no_return [keeps]: "own_tables h (snd (call_export_no_return W iface mth handle args h))"
  using keeps_call [of h W] by (simp add: call_export_no_return_def split_beta split: sum.split)

lemma keeps_unit_result [keeps]: "own_tables h (snd (call_export_unit_result W iface mth handle args h))"
  using keeps_call [of h W] by (simp add: call_export_unit_result_def split_beta split: sum.split)

lemma keeps_method [keeps]: "own_tables h (snd (method_call W mth handle args f h))"
  using keeps_call [of h W] by (simp add: method_call_def split_beta split: sum.split)

lemma evolves_adopt: "evolves h (snd (adopt_connection W path handle h))"
proof -
  let ?h = "(snd (alloc_resource_id h))\<lparr>h_current := Some handle,
      h_sibling_path := Some (sanitize_sibling_open_path path),
      h_connections := (h_connections h)(h_next_id h \<mapsto> \<lparr>conn_handle = handle, conn_closed = False\<rparr>)\<rparr>"
  have "evolves h ?h" by (simp add: alloc_resource_id_def evolves_def all_kinds ex_kinds bump_def)
  then show ?thesis
    using evolves_then [OF _ keeps_autoload [of ?h W]] by (simp add: adopt_connection_def alloc_resource_id_def)
qed

lemma evolves_opened:
  assumes "own_tables h (snd r)"
  shows "evolves h (snd (opened W path r))"
proof -
  obtain x h1 where r: "r = (x, h1)" by (rule prod.exhaust)
  have "evolves h (snd (adopt_connection W path handle h1))" for handle
    using evolves_after [OF _ evolves_adopt] assms r by simp
  then show ?thesis
    using assms r evolves_own by (auto simp: opened_def split: sum.split verb_err.split)
qed

lemma evolves_open [evolving]: "evolves h (snd (open_db W path h))"
  unfolding open_db_def by (rule evolves_opened [OF keeps_returning])

lemma evolves_open_with_config [evolving]: "evolves h (snd (open_with_config W path options h))"
  unfolding open_with_config_def by (rule evolves_opened [OF keeps_returning])

lemma evolves_minted:
  assumes "own_tables h (snd r)"
    "\<And>rid handle h. evolves h (record rid handle (h\<lparr>h_next_id := bump rid\<rparr>)) \<or> rid \<noteq> h_next_id h"
  shows "evolves h (snd (minted record r))"
proof -
  obtain x h1 where r: "r = (x, h1)" by (rule prod.exhaust)
  have "evolves h (record (h_next_id h1) handle (h1\<lparr>h_next_id := bump (h_next_id h1)\<rparr>))" for handle
    using evolves_after [of h h1] assms(2) [of h1 "h_next_id h1"] assms(1) r by simp
  then show ?thesis
    using assms(1) r evolves_own
    by (auto simp: minted_def alloc_resource_id_def bump_def split: sum.split verb_err.split)
qed

lemma evolves_bind:
  "(\<And>a. evolves h (snd (g a h))) \<Longrightarrow> evolves h (snd (hbind (hpure r) g h))"
  by (cases r) simp_all

lemma evolves_on_connection:
  "(\<And>conn. evolves h (snd (f conn h))) \<Longrightarrow> evolves h (snd (on_connection rep f h))"
  unfolding on_connection_def by (rule evolves_bind)

lemma evolves_open_stream [evolving]: "evolves h (snd (open_stream W rep sql h))"
  unfolding open_stream_def
  by (intro evolves_on_connection evolves_minted keeps) (auto simp: evolves_def all_kinds ex_kinds)

lemma evolves_prepare [evolving]: "evolves h (snd (prepare W rep sql h))"
  unfolding prepare_def
  by (intro evolves_on_connection evolves_minted keeps) (auto simp: evolves_def all_kinds ex_kinds)

lemma evolves_create_appender [evolving]: "evolves h (snd (create_appender W rep schema table h))"
  unfolding create_appender_def
  by (intro evolves_on_connection evolves_minted keeps) (auto simp: evolves_def all_kinds ex_kinds)

lemma evolves_query_arrow [evolving]: "evolves h (snd (query_arrow W rep sql h))"
  unfolding query_arrow_def by (intro evolves_on_connection evolves_own keeps)

lemma evolves_stream_schema [evolving]: "evolves h (snd (stream_schema W rep h))"
proof (cases "h_streams h rep")
  case (Some entry)
  obtain r h1 where c: "call_export_on_resource W cli_db_iface ''[method]result-stream.schema''
      (stream_handle entry) [] h = (r, h1)" by (rule prod.exhaust)
  then have "evolves h h1" using evolves_own [OF keeps_call] by (metis snd_conv)
  then show ?thesis
    using Some c by (auto simp: stream_schema_def split: sum.split list.split wvalue.split)
qed (simp add: stream_schema_def)

lemma evolves_stream_next [evolving]: "evolves h (snd (stream_next W rep n h))"
  unfolding stream_next_def by (intro evolves_bind evolves_own keeps)

lemma evolves_prepared_execute [evolving]: "evolves h (snd (prepared_execute W rep params h))"
  unfolding prepared_execute_def by (intro evolves_bind evolves_own keeps)

lemma evolves_appender [evolving]:
  "evolves h (snd (appender_append_row W rep vs h))" "evolves h (snd (appender_flush W rep h))"
  "evolves h (snd (appender_close W rep h))"
  unfolding appender_append_row_def appender_flush_def appender_close_def on_appender_def
  by (intro evolves_bind evolves_own keeps)+

lemma evolves_register [evolving]:
  "evolves h (snd (register_extension W name requires h))"
  "evolves h (snd (register_table_function W rep name cols callback h))"
  using evolves_own [OF keeps_core [of h W]] evolves_own [OF keeps_call [of h W]]
  by (simp_all add: register_extension_def register_table_function_def Let_def split_beta
      split: sum.split option.split)

lemma evolves_stream_close [evolving]: "evolves h (stream_close W rep h)"
proof (cases "h_streams h rep")
  case (Some entry)
  obtain r h1 where c: "call_export_no_return W cli_db_iface ''[method]result-stream.close''
      (stream_handle entry) [] h = (r, h1)" by (rule prod.exhaust)
  then have "own_tables h h1" using keeps_no_return by (metis snd_conv)
  moreover have "evolves h1 (h1\<lparr>h_streams := (h_streams h1)(rep := map_option (stream_closed_update (\<lambda>_. True))
                (h_streams h1 rep))\<rparr>)"
    by (auto simp: evolves_def all_kinds ex_kinds option.map_comp comp_def)
  ultimately show ?thesis
    using Some c evolves_after [of h h1] by (simp add: stream_close_def)
qed (simp add: stream_close_def)

lemma evolves_close_connection [evolving]:
  assumes "close_connection W rep h = Some h'"
  shows "evolves h h'"
proof (cases "h_connections h rep")
  case (Some entry)
  obtain r h1 where c: "call_export_no_return W cli_db_iface ''close'' (conn_handle entry) [] h = (r, h1)"
    by (rule prod.exhaust)
  then have "own_tables h h1" using keeps_no_return by (metis snd_conv)
  moreover have "evolves h1 (h1\<lparr>h_connections := (h_connections h1)(rep := map_option (conn_closed_update (\<lambda>_. True))
                (h_connections h1 rep))\<rparr>)"
    by (auto simp: evolves_def all_kinds ex_kinds option.map_comp comp_def)
  ultimately show ?thesis
    using Some c evolves_after [of h h1] assms by (auto simp: close_connection_def split: if_splits sum.splits)
qed (use assms in \<open>simp add: close_connection_def\<close>)

lemma evolves_interrupt [evolving]:
  assumes "interrupt W rep h = Some h'"
  shows "evolves h h'"
proof (cases "h_connections h rep")
  case (Some entry)
  obtain r h1 where c: "call_export_no_return W cli_db_iface ''interrupt'' (conn_handle entry) [] h = (r, h1)"
    by (rule prod.exhaust)
  then have "own_tables h h1" using keeps_no_return by (metis snd_conv)
  then show ?thesis
    using Some c evolves_own assms by (auto simp: interrupt_def split: sum.splits)
qed (use assms in \<open>simp add: interrupt_def\<close>)

text \<open>Every reply, and every message that the call could not be made, leaves such a state.\<close>

definition moves :: "('m, 'e) host \<Rightarrow> ('t, 'm, 'e) cli_reply \<Rightarrow> bool" where
  "moves h r \<longleftrightarrow> (\<forall>x s. r = Some (x, s) \<longrightarrow> evolves h (snd s))"

lemma moves_args: "(\<And>a. moves (snd s) (k a s)) \<Longrightarrow> moves (snd s) (with_args r k s)"
  by (cases r) (simp_all add: with_args_def moves_def)

lemma moves_rep: "(\<And>a. moves (snd s) (k a s)) \<Longrightarrow> moves (snd s) (with_rep C v k s)"
  unfolding with_rep_def by (rule moves_args)

lemma moves_prod:
  "(\<And>t h. s = (t, h) \<Longrightarrow> moves h (f t h)) \<Longrightarrow> moves (snd s) (case s of (t, h) \<Rightarrow> f t h)"
  "(\<And>a b. moves h (g a b s)) \<Longrightarrow> moves h ((case p of (a, b) \<Rightarrow> g a b) s)"
  by (cases s; simp) (cases p; simp)

lemma moves_reply:
  "evolves h (snd r) \<Longrightarrow> moves h (reply r t)" "evolves h (snd q) \<Longrightarrow> moves h (duck_reply ok q t)"
  "evolves h (snd p) \<Longrightarrow> moves h (text_reply ok' p t)"
  by (simp_all add: moves_def reply_def duck_reply_def text_reply_def)

lemma moves_bind: "(\<And>a. m = Some a \<Longrightarrow> moves h (k a)) \<Longrightarrow> moves h (Option.bind m k)"
  by (cases m) (simp_all add: moves_def)

lemma moves_resource: "evolves h (snd r) \<Longrightarrow> moves h (resource_reply C kind err r t)"
  by (auto simp: moves_def resource_reply_def split: prod.splits sum.splits)

lemmas moves_intros = moves_args moves_rep moves_prod moves_reply moves_resource moves_bind

lemma method_moves:
    "moves (snd s) (cli_db_handle_ui_request fm args s)"
    "moves (snd s) (cli_db_handle_quack_request fm args s)"
    "moves (snd s) (cli_db_open W C args s)"
    "moves (snd s) (cli_db_open_with_config W C args s)"
    "moves (snd s) (cli_db_open_stream W C args s)"
    "moves (snd s) (cli_db_prepare W C args s)"
    "moves (snd s) (cli_db_create_appender W C args s)"
    "moves (snd s) (cli_db_query_arrow W C args s)"
    "moves (snd s) (cli_db_register_extension W args s)"
    "moves (snd s) (cli_db_register_table_function W C args s)"
    "moves (snd s) (cli_db_stream_next W C args s)"
    "moves (snd s) (cli_db_stream_close W C args s)"
    "moves (snd s) (cli_db_prepared_execute W C args s)"
    "moves (snd s) (cli_db_appender_append_row W C args s)"
    "moves (snd s) (cli_db_appender_flush W C args s)"
    "moves (snd s) (cli_db_appender_close W C args s)"
  unfolding
  cli_db_handle_ui_request_def cli_db_handle_quack_request_def cli_db_open_def cli_db_open_with_config_def
    cli_db_open_stream_def cli_db_prepare_def cli_db_create_appender_def cli_db_query_arrow_def
    cli_db_register_extension_def cli_db_register_table_function_def cli_db_stream_next_def
    cli_db_stream_close_def cli_db_prepared_execute_def cli_db_appender_append_row_def
    cli_db_appender_flush_def cli_db_appender_close_def
  by (intro moves_intros; simp add: evolving; fail)+

lemma pieces_resources:
  "run_pieces W conn pieces qr h = Some p \<Longrightarrow> same_resources h (snd p)"
proof (induction pieces arbitrary: qr h)
  case (Cons piece pieces)
  obtain x h1 where e: "execute_single_statement W conn piece h = Some (x, h1)"
    using Cons.prems by (auto split: option.splits)
  have h1: "same_resources h h1" using single_resources [OF e] by simp
  show ?case
  proof (cases x)
    case (Inl err)
    then show ?thesis using Cons.prems e h1 by auto
  next
    case (Inr r)
    then show ?thesis using Cons.IH [of r h1] Cons.prems e resources_trans [OF h1] by simp
  qed
qed (auto simp: same_resources_def)

lemma evolves_execute:
  assumes "execute W rep sql h = Some p"
  shows "evolves h (snd p)"
  using assms by (auto simp: execute_def split: option.splits if_splits
    dest!: pieces_resources single_resources intro: evolves_same)

lemma evolves_list:
  assumes "list_registered_extensions W h = Some p"
  shows "evolves h (snd p)"
proof -
  obtain r h1 where c: "call_core W (cli_db_iface @ ''#list-registered-extensions'') [] h = (r, h1)"
    by (rule prod.exhaust)
  then have "evolves h h1" using evolves_own [OF keeps_core] by (metis snd_conv)
  then show ?thesis
    using assms c by (auto simp: list_registered_extensions_def split: sum.splits list.splits wvalue.splits)
qed

lemma evolves_parameter_count:
  assumes "prepared_parameter_count W rep h = Some p"
  shows "evolves h (snd p)"
proof (cases "h_prepared h rep")
  case (Some handle)
  obtain r h1 where c: "call_export_on_resource W cli_db_iface ''[method]prepared-statement.parameter-count''
      handle [] h = (r, h1)" by (rule prod.exhaust)
  then have "evolves h h1" using evolves_own [OF keeps_call] by (metis snd_conv)
  then show ?thesis
    using assms c Some
    by (auto simp: prepared_parameter_count_def split: sum.splits list.splits wvalue.splits)
qed (use assms in \<open>auto simp: prepared_parameter_count_def\<close>)

lemma option_moves:
    "moves (snd s) (cli_db_close W C args s)"
    "moves (snd s) (cli_db_interrupt W C args s)"
    "moves (snd s) (cli_db_execute W C args s)"
    "moves (snd s) (cli_db_prepared_parameter_count W C args s)"
    "moves (snd s) (cli_db_list_registered_extensions W args s)"
    "moves (snd s) (cli_db_stream_schema W C args s)"
  unfolding cli_db_close_def cli_db_interrupt_def cli_db_execute_def cli_db_prepared_parameter_count_def
    cli_db_list_registered_extensions_def cli_db_stream_schema_def split_beta
  by (intro moves_args moves_rep moves_reply moves_bind,
      simp add: evolving evolves_close_connection evolves_interrupt evolves_execute evolves_parameter_count
        evolves_list; fail)+

lemma call_moves: "moves (snd s) (cli_db_call W C mth args s)"
  by (simp add: cli_db_call_def method_moves option_moves) (simp add: moves_def)

section \<open>Drops\<close>

text \<open>A drop takes its number out of its table, whatever the core says; the queues stay.\<close>

fun queues :: "('m, 'e) host \<Rightarrow> resource_kind \<Rightarrow> u32 list" where
  "queues h R_Connection = h_connection_drops h"
| "queues h R_Stream = h_stream_drops h"
| "queues h R_Prepared = h_prepared_drops h"
| "queues h R_Appender = h_appender_drops h"

definition forgets :: "resource_kind \<Rightarrow> u32 set \<Rightarrow> ('m, 'e) host \<Rightarrow> ('m, 'e) host \<Rightarrow> bool" where
  "forgets k reps h h' \<longleftrightarrow>
     h_next_id h' = h_next_id h \<and> queues h' = queues h
     \<and> (\<forall>k' rep. bound h' k' rep = (if k' = k \<and> rep \<in> reps then None else bound h k' rep))"

lemma queues_core [simp]: "queues (snd (call_core W name args h)) = queues h"
  by (simp add: call_core_def split_beta fun_eq_iff all_kinds)

lemma queues_drop_core [simp]: "queues (snd (drop_core W handle h)) = queues h"
  by (simp add: drop_core_def split_beta fun_eq_iff all_kinds)

lemma queues_no_return [simp]: "queues (snd (call_export_no_return W iface mth handle args h)) = queues h"
  using queues_core [of W _ _ h]
  by (simp add: call_export_no_return_def call_export_on_resource_def split_beta split: sum.split)

lemma forgets_own: "forgets k reps h h1 \<Longrightarrow> own_tables h1 h' \<Longrightarrow> queues h' = queues h1 \<Longrightarrow> forgets k reps h h'"
  by (simp add: own_tables_def forgets_def all_kinds)

lemma forgets_unbound: "bound h k rep = None \<Longrightarrow> forgets k {rep} h h"
  by (simp add: forgets_def)

lemma drop_forgets:
  "forgets R_Connection {rep} h (snd (drop_connection_resource W rep h))"
  "forgets R_Stream {rep} h (snd (drop_stream_resource W rep h))"
  "forgets R_Prepared {rep} h (snd (drop_prepared_resource W rep h))"
  "forgets R_Appender {rep} h (snd (drop_appender_resource W rep h))"
proof -
  have c: "forgets R_Connection {rep} h (h\<lparr>h_connections := (h_connections h)(rep := None)\<rparr>)"
    and s: "forgets R_Stream {rep} h (h\<lparr>h_streams := (h_streams h)(rep := None)\<rparr>)"
    and p: "forgets R_Prepared {rep} h (h\<lparr>h_prepared := (h_prepared h)(rep := None)\<rparr>)"
    and a: "forgets R_Appender {rep} h (h\<lparr>h_appenders := (h_appenders h)(rep := None)\<rparr>)"
    by (auto simp: forgets_def all_kinds fun_eq_iff)
  have closed: "forgets k {rep} h (snd (call_export_no_return W iface m handle args h1))"
    if "forgets k {rep} h h1" for k h1 iface m handle args
    by (rule forgets_own [OF that keeps_no_return queues_no_return])
  have released: "forgets k {rep} h (snd (drop_core W handle h1))" if "forgets k {rep} h h1" for k h1 handle
    by (rule forgets_own [OF that keeps_drop queues_drop_core])
  show "forgets R_Connection {rep} h (snd (drop_connection_resource W rep h))"
    by (simp add: drop_connection_resource_def Let_def closed c forgets_unbound split: option.split)
  show "forgets R_Stream {rep} h (snd (drop_stream_resource W rep h))"
    by (simp add: drop_stream_resource_def Let_def closed s forgets_unbound split: option.split)
  show "forgets R_Prepared {rep} h (snd (drop_prepared_resource W rep h))"
    by (simp add: drop_prepared_resource_def released p forgets_unbound split: option.split)
  show "forgets R_Appender {rep} h (snd (drop_appender_resource W rep h))"
    by (simp add: drop_appender_resource_def released a forgets_unbound split: option.split)
qed

lemma hfor_forgets:
  assumes "\<And>rep h. forgets k {rep} h (snd (f rep h))"
  shows "\<exists>reps \<subseteq> set xs. forgets k reps h (snd (hfor f xs h))
           \<and> (fst (hfor f xs h) = Inr () \<longrightarrow> reps = set xs)"
proof (induction xs arbitrary: h)
  case Nil
  then show ?case by (simp add: forgets_def)
next
  case (Cons x xs)
  obtain r h1 where f: "f x h = (r, h1)" by (rule prod.exhaust)
  have one: "forgets k {x} h h1" using assms [of x h] f by simp
  show ?case
  proof (cases r)
    case (Inl e)
    then show ?thesis using f one by (auto simp: hbind_def)
  next
    case (Inr u)
    obtain reps where reps: "reps \<subseteq> set xs" "forgets k reps h1 (snd (hfor f xs h1))"
        "fst (hfor f xs h1) = Inr () \<longrightarrow> reps = set xs"
      using Cons.IH by blast
    have "forgets k (insert x reps) h (snd (hfor f xs h1))"
      using one reps(2) by (auto simp: forgets_def)
    then show ?thesis using Inr f reps by (intro exI [of _ "insert x reps"]) (auto simp: hbind_def)
  qed
qed

section \<open>The final drain\<close>

text \<open>
  After a drain that succeeds all four queues are empty, and exactly the numbers that were queued
  are gone from their tables: every other number still has its handle, and the counter is as before.
\<close>

theorem drain_exact:
  assumes "drain_pending_resource_drops W h = (Inr (), h')"
  shows "(\<forall>k. queues h' k = []) \<and> h_next_id h' = h_next_id h
    \<and> (\<forall>k rep. bound h' k rep = (if rep \<in> set (queues h k) then None else bound h k rep))"
proof -
  obtain h1 h2 h3 where
      d1: "hfor (drop_connection_resource W) (h_connection_drops h) (h\<lparr>h_connection_drops := []\<rparr>) = (Inr (), h1)"
    and d2: "hfor (drop_stream_resource W) (h_stream_drops h1) (h1\<lparr>h_stream_drops := []\<rparr>) = (Inr (), h2)"
    and d3: "hfor (drop_prepared_resource W) (h_prepared_drops h2) (h2\<lparr>h_prepared_drops := []\<rparr>) = (Inr (), h3)"
    and d4: "hfor (drop_appender_resource W) (h_appender_drops h3) (h3\<lparr>h_appender_drops := []\<rparr>) = (Inr (), h')"
    using assms by (auto simp: drain_pending_resource_drops_def hbind_Inr)
  have f1: "forgets R_Connection (set (h_connection_drops h)) (h\<lparr>h_connection_drops := []\<rparr>) h1"
    using hfor_forgets [where f = "drop_connection_resource W" and xs = "h_connection_drops h" and h = "h\<lparr>h_connection_drops := []\<rparr>", OF drop_forgets(1)] d1 by auto
  have f2: "forgets R_Stream (set (h_stream_drops h1)) (h1\<lparr>h_stream_drops := []\<rparr>) h2"
    using hfor_forgets [where f = "drop_stream_resource W" and xs = "h_stream_drops h1" and h = "h1\<lparr>h_stream_drops := []\<rparr>", OF drop_forgets(2)] d2 by auto
  have f3: "forgets R_Prepared (set (h_prepared_drops h2)) (h2\<lparr>h_prepared_drops := []\<rparr>) h3"
    using hfor_forgets [where f = "drop_prepared_resource W" and xs = "h_prepared_drops h2" and h = "h2\<lparr>h_prepared_drops := []\<rparr>", OF drop_forgets(3)] d3 by auto
  have f4: "forgets R_Appender (set (h_appender_drops h3)) (h3\<lparr>h_appender_drops := []\<rparr>) h'"
    using hfor_forgets [where f = "drop_appender_resource W" and xs = "h_appender_drops h3" and h = "h3\<lparr>h_appender_drops := []\<rparr>", OF drop_forgets(4)] d4 by auto
  show ?thesis using f1 f2 f3 f4 by (simp add: forgets_def fun_eq_iff all_kinds)
qed

section \<open>A session\<close>

text \<open>
  The events of a session: a call of the database interface, the drop of a resource, a request to load
  an extension, and the drain. What the runtime does to its own table is left open.
\<close>

inductive client_step ::
  "('m, 'e, 'j) host_world \<Rightarrow> 't cli_ctx \<Rightarrow> ('t, 'm, 'e) cli \<Rightarrow> ('t, 'm, 'e) cli \<Rightarrow> bool" for W C where
  call: "cli_db_call W C mth args s = Some (r, s') \<Longrightarrow> client_step W C s s'"
| drop: "on_resource_drop (hw_fmt W) kind rep h = (r, h') \<Longrightarrow> client_step W C (t, h) (t', h')"
| load: "extension_loader_call W mth args h = (r, h') \<Longrightarrow> client_step W C (t, h) (t, h')"
| drain: "drain_pending_resource_drops W h = (r, h') \<Longrightarrow> client_step W C (t, h) (t, h')"

lemma forgets_evolves: "forgets k reps h h' \<Longrightarrow> evolves h h'"
  by (simp add: forgets_def evolves_def)

definition shrinks :: "('m, 'e) host \<Rightarrow> ('m, 'e) host \<Rightarrow> bool" where
  "shrinks h h' \<longleftrightarrow> h_next_id h' = h_next_id h
     \<and> (\<forall>k rep. bound h' k rep = bound h k rep \<or> bound h' k rep = None)"

lemma shrinks_for:
  assumes "\<And>rep h. forgets k {rep} h (snd (f rep h))" "shrinks h h1"
  shows "shrinks h (snd (hfor f xs h1))"
  using hfor_forgets [where f = f and k = k and xs = xs and h = h1, OF assms(1)] assms(2)
  by (auto simp: shrinks_def forgets_def) (metis option.distinct(1))+

lemma shrinks_bind:
  assumes "shrinks h (snd (f h1))" "\<And>a h2. shrinks h h2 \<Longrightarrow> shrinks h (snd (g a h2))"
  shows "shrinks h (snd (hbind f g h1))"
proof -
  obtain r h2 where "f h1 = (r, h2)" by (rule prod.exhaust)
  then show ?thesis using assms by (cases r) (simp_all add: hbind_def)
qed

lemma shrinks_queue [simp]:
  "shrinks h (h1\<lparr>h_connection_drops := q\<rparr>) = shrinks h h1" "shrinks h (h1\<lparr>h_stream_drops := q\<rparr>) = shrinks h h1"
  "shrinks h (h1\<lparr>h_prepared_drops := q\<rparr>) = shrinks h h1" "shrinks h (h1\<lparr>h_appender_drops := q\<rparr>) = shrinks h h1"
  by (simp_all add: shrinks_def all_kinds)

lemmas shrinks_drops = shrinks_for [OF drop_forgets(1)] shrinks_for [OF drop_forgets(2)]
  shrinks_for [OF drop_forgets(3)] shrinks_for [OF drop_forgets(4)]

lemma drain_shrinks: "shrinks h (snd (drain_pending_resource_drops W h))"
  unfolding drain_pending_resource_drops_def
  by (intro shrinks_bind shrinks_drops) (simp_all, simp add: shrinks_def)

lemma step_evolves: "client_step W C s s' \<Longrightarrow> evolves (snd s) (snd s')"
proof (induction rule: client_step.induct)
  case (call mth args s r s')
  then show ?case using call_moves [of s W C mth args] by (simp add: moves_def del: split_paired_All)
next
  case (drop kind rep h r h' t t')
  then have "own_tables h h'"
    by (auto simp: on_resource_drop_def schedule_connection_drop_def schedule_stream_drop_def
        schedule_prepared_drop_def schedule_appender_drop_def own_tables_def split: if_splits)
  then show ?case by (simp add: evolves_own)
next
  case (load mth args h r h' t)
  have "own_tables h (snd (extension_loader_call W mth args h))"
    by (simp add: extension_loader_call_def request_extension_load_def keeps_manager own_tables_refl Let_def split_beta
        split: list.split wvalue.split sum.split)
  then show ?case using load evolves_own by (metis snd_conv)
next
  case (drain h r h' t)
  then show ?case using drain_shrinks [of h W] by (simp add: shrinks_def evolves_def)
qed

definition well_numbered :: "('m, 'e) host \<Rightarrow> bool" where
  "well_numbered h \<longleftrightarrow>
     (\<forall>k rep. bound h k rep \<noteq> None \<longrightarrow> rep < h_next_id h)
     \<and> (\<forall>k k' rep. bound h k rep \<noteq> None \<longrightarrow> bound h k' rep \<noteq> None \<longrightarrow> k = k')"

lemma bump_next: "unat n + 1 < 2 ^ 32 \<Longrightarrow> unat (bump n) = unat n + 1"
proof -
  assume "unat n + 1 < 2 ^ 32"
  then have "unat (n + 1) = unat n + 1" by (simp add: unat_word_ariths)
  then show ?thesis by (simp add: bump_def max_def word_le_nat_alt)
qed

lemma evolves_numbered:
  assumes "evolves h h'" "well_numbered h" "unat (h_next_id h) + 1 < 2 ^ 32"
  shows "well_numbered h' \<and> h_next_id h \<le> h_next_id h' \<and> unat (h_next_id h') \<le> unat (h_next_id h) + 1
    \<and> (\<forall>k rep x. rep < h_next_id h \<longrightarrow> bound h' k rep = Some x \<longrightarrow> bound h k rep = Some x)"
proof -
  have b: "h_next_id h < bump (h_next_id h)"
    using bump_next [OF assms(3)] by (simp add: word_less_nat_alt)
  show ?thesis
    using assms(1) unfolding evolves_def
  proof (elim disjE conjE exE)
    assume n: "h_next_id h' = h_next_id h"
      and k: "\<forall>k rep. bound h' k rep = bound h k rep \<or> bound h' k rep = None"
    have "bound h k rep \<noteq> None" if "bound h' k rep \<noteq> None" for k rep using k that by metis
    then have "well_numbered h'" using assms(2) n unfolding well_numbered_def by metis
    then show ?thesis using n k by (metis (no_types) le_add1 option.distinct(1) order_refl)
  next
    fix k0
    assume n: "h_next_id h' = bump (h_next_id h)"
      and k: "\<forall>k rep. rep \<noteq> h_next_id h \<or> k \<noteq> k0 \<longrightarrow> bound h' k rep = bound h k rep \<or> bound h' k rep = None"
    have "well_numbered h'"
      unfolding well_numbered_def
    proof (intro conjI allI impI)
      fix k rep assume "bound h' k rep \<noteq> None"
      then have "rep = h_next_id h \<or> bound h k rep \<noteq> None" using k by metis
      then show "rep < h_next_id h'"
        using b n assms(2) unfolding well_numbered_def by (metis less_trans)
    next
      fix k k' rep assume p: "bound h' k rep \<noteq> None" "bound h' k' rep \<noteq> None"
      have "bound h j (h_next_id h) = None" for j
        using assms(2) unfolding well_numbered_def by (metis less_irrefl)
      then have "j = k0 \<or> rep \<noteq> h_next_id h" if "bound h' j rep \<noteq> None" for j
        using that k by metis
      then show "k = k'" using p k assms(2) unfolding well_numbered_def by metis
    qed
    moreover have "rep < h_next_id h \<longrightarrow> bound h' k rep = Some x \<longrightarrow> bound h k rep = Some x" for k rep x
      using k by (metis less_irrefl option.distinct(1))
    ultimately show ?thesis using b n bump_next [OF assms(3)] by simp
  qed
qed

lemma run_numbered:
  assumes "(client_step W C ^^ n) s s'" "well_numbered (snd s)" "unat (h_next_id (snd s)) + n < 2 ^ 32"
  shows "well_numbered (snd s') \<and> h_next_id (snd s) \<le> h_next_id (snd s')
    \<and> unat (h_next_id (snd s')) \<le> unat (h_next_id (snd s)) + n
    \<and> (\<forall>k rep x. rep < h_next_id (snd s) \<longrightarrow> bound (snd s') k rep = Some x \<longrightarrow> bound (snd s) k rep = Some x)"
  using assms
proof (induction n arbitrary: s')
  case (Suc n)
  obtain s1 where r: "(client_step W C ^^ n) s s1" "client_step W C s1 s'" using Suc.prems(1) by auto
  have i: "well_numbered (snd s1) \<and> h_next_id (snd s) \<le> h_next_id (snd s1)
    \<and> unat (h_next_id (snd s1)) \<le> unat (h_next_id (snd s)) + n
    \<and> (\<forall>k rep x. rep < h_next_id (snd s) \<longrightarrow> bound (snd s1) k rep = Some x \<longrightarrow> bound (snd s) k rep = Some x)"
    using Suc.IH [OF r(1)] Suc.prems by simp
  have "unat (h_next_id (snd s1)) + 1 < 2 ^ 32" using i Suc.prems(3) by simp
  from evolves_numbered [OF step_evolves [OF r(2)] _ this] i
  show ?case by (auto intro: order_trans less_le_trans)
qed simp

text \<open>
  C29. In a session, numbers never change their meaning: from the start of the host, as long as fewer
  than two to the thirty-two events have happened, a number that stands for a connection, stream,
  statement or appender of the core either keeps standing for it or stands for nothing, a number that
  was dropped is never handed out again, and no number stands for resources of two kinds.
\<close>

theorem numbers_never_rebound:
  assumes "(client_step W C ^^ m) (t, new_host g e) s" "(client_step W C ^^ n) s s'" "m + n + 1 < 2 ^ 32"
  shows "(\<forall>k rep x. bound (snd s) k rep = Some x \<longrightarrow> bound (snd s') k rep = Some x \<or> bound (snd s') k rep = None)
    \<and> (\<forall>k rep. rep < h_next_id (snd s) \<and> bound (snd s) k rep = None \<longrightarrow> bound (snd s') k rep = None)
    \<and> (\<forall>k k' rep. bound (snd s') k rep \<noteq> None \<and> bound (snd s') k' rep \<noteq> None \<longrightarrow> k = k')"
proof -
  have "well_numbered (new_host g e)" by (simp add: well_numbered_def new_host_def all_kinds)
  then have s: "well_numbered (snd s) \<and> unat (h_next_id (snd s)) \<le> 1 + m"
    using run_numbered [OF assms(1)] assms(3) by (simp add: new_host_def)
  then have "unat (h_next_id (snd s)) + n < 2 ^ 32" using assms(3) by simp
  note run = run_numbered [OF assms(2) conjunct1 [OF s] this]
  have keep: "bound (snd s) k rep = Some x" if "rep < h_next_id (snd s)" "bound (snd s') k rep = Some x" for k rep x
    using run that by blast
  have below: "rep < h_next_id (snd s)" if "bound (snd s) k rep = Some x" for k rep x
    using s that unfolding well_numbered_def by (metis option.distinct(1))
  show ?thesis
  proof (intro conjI allI impI)
    fix k rep x assume "bound (snd s) k rep = Some x"
    then have b: "bound (snd s) k rep = Some x" "rep < h_next_id (snd s)" using below by blast+
    show "bound (snd s') k rep = Some x \<or> bound (snd s') k rep = None"
    proof (cases "bound (snd s') k rep")
      case (Some y)
      then show ?thesis using keep [OF b(2) Some] b(1) by simp
    qed simp
  next
    fix k rep assume "rep < h_next_id (snd s) \<and> bound (snd s) k rep = None"
    then have b: "rep < h_next_id (snd s)" "bound (snd s) k rep = None" by blast+
    show "bound (snd s') k rep = None"
    proof (cases "bound (snd s') k rep")
      case (Some y)
      then show ?thesis using keep [OF b(1) Some] b(2) by simp
    qed
  next
    fix k k' rep assume "bound (snd s') k rep \<noteq> None \<and> bound (snd s') k' rep \<noteq> None"
    then show "k = k'" using run unfolding well_numbered_def by blast
  qed
qed

section \<open>Refusals\<close>

text \<open>
  A number that stands for nothing is refused before the core is asked: whatever the world, every
  operation of the interface that takes a connection, stream, statement or appender answers that it is
  unknown, or that there is nothing to do, and leaves the host as it was.
\<close>

theorem unknown_numbers_refused:
  "bound h R_Connection rep = None \<Longrightarrow>
     execute W rep sql h = Some (Inl (Internal ''unknown connection''), h)
     \<and> query_arrow W rep sql h = (Inl (Internal ''unknown connection''), h)
     \<and> open_stream W rep sql h = (Inl (Internal ''unknown connection''), h)
     \<and> prepare W rep sql h = (Inl (Internal ''unknown connection''), h)
     \<and> create_appender W rep schema table h = (Inl (Internal ''unknown connection''), h)
     \<and> (\<exists>e. register_table_function W rep name cols callback h = (Inl e, h))
     \<and> close_connection W rep h = Some h \<and> interrupt W rep h = Some h
     \<and> drop_connection_resource W rep h = (Inr (), h)
     \<and> (bound h R_Stream rep = None \<longrightarrow>
          stream_next W rep n h = (Inl (Internal ''unknown stream''), h) \<and> stream_schema W rep h = ([], h)
          \<and> stream_close W rep h = h \<and> drop_stream_resource W rep h = (Inr (), h))
     \<and> (bound h R_Prepared rep = None \<longrightarrow>
          prepared_execute W rep params h = (Inl (Internal ''unknown prepared statement''), h)
          \<and> prepared_parameter_count W rep h = Some (0, h) \<and> drop_prepared_resource W rep h = (Inr (), h))
     \<and> (bound h R_Appender rep = None \<longrightarrow>
          appender_append_row W rep params h = (Inl (Internal ''unknown appender''), h)
          \<and> appender_flush W rep h = (Inl (Internal ''unknown appender''), h)
          \<and> appender_close W rep h = (Inl (Internal ''unknown appender''), h)
          \<and> drop_appender_resource W rep h = (Inr (), h))"
  by (simp add: execute_def query_arrow_def open_stream_def prepare_def create_appender_def on_connection_def
      handle_of_def ok_or_def register_table_function_def close_connection_def interrupt_def
      drop_connection_resource_def stream_next_def stream_schema_def stream_close_def drop_stream_resource_def
      prepared_execute_def prepared_parameter_count_def drop_prepared_resource_def appender_append_row_def
      appender_flush_def appender_close_def on_appender_def drop_appender_resource_def)

section \<open>A short session\<close>

text \<open>For the witnesses: a core that opens one resource and refuses to close it.\<close>

definition counter_ctx :: "unit cli_ctx" where
  "counter_ctx = \<lparr>cx_new = (\<lambda>_ rep t. (Inr (V_Resource 0 (ucast rep)), t)),
     cx_rep = (\<lambda>v _. case v of V_Resource _ i \<Rightarrow> Inr (ucast i) | _ \<Rightarrow> Inl ''not a resource'')\<rparr>"

definition opening_shop :: "(nat \<times> nat, sqlite_value list list, unit) host_world" where
  "opening_shop = shop\<lparr>hw_core := (\<lambda>_ _ s. (Inr [V_Result (Inr (Some (V_Resource 0 7)))], s))\<rparr>"

definition fresh_shop :: "(unit, nat \<times> nat, sqlite_value list list) cli" where
  "fresh_shop = ((), new_host demo_manager [])"

definition one_open :: "(unit, nat \<times> nat, sqlite_value list list) cli" where
  "one_open = (case cli_db_call opening_shop counter_ctx ''open'' [V_Option (Some (V_String ''/db''))] fresh_shop of
       Some (r, s) \<Rightarrow> s | None \<Rightarrow> fresh_shop)"

lemma opens:
  "map_option fst (cli_db_call opening_shop counter_ctx ''open'' [V_Option (Some (V_String ''/db''))] fresh_shop)
     = Some (Inr [V_Result (Inr (Some (V_Resource 0 1)))])"
  by code_simp

theorem cli_replies_typed_witness:
  "\<exists>s'. cli_db_call opening_shop counter_ctx ''open'' [V_Option (Some (V_String ''/db''))] fresh_shop
     = Some (Inr [V_Result (Inr (Some (V_Resource 0 1)))], s')
     \<and> (\<exists>ts. reply_types ''open'' = Some ts \<and> list_all2 typed [V_Result (Inr (Some (V_Resource 0 1)))] ts)"
proof -
  obtain s' where s: "cli_db_call opening_shop counter_ctx ''open'' [V_Option (Some (V_String ''/db''))] fresh_shop
      = Some (Inr [V_Result (Inr (Some (V_Resource 0 1)))], s')"
    using opens by auto
  moreover have "typed v W_Resource" if "cx_new counter_ctx k rep t = (Inr v, t')" for k rep t v t'
    using that by (auto simp: counter_ctx_def)
  ultimately show ?thesis using cli_replies_typed [OF _ s] by blast
qed

theorem numbers_never_rebound_witness:
  "\<exists>s'. (client_step opening_shop counter_ctx ^^ 1) one_open s'
     \<and> bound (snd one_open) R_Connection 1 = Some (0, 7)
     \<and> (bound (snd s') R_Connection 1 = Some (0, 7) \<or> bound (snd s') R_Connection 1 = None)"
proof -
  obtain r where "cli_db_call opening_shop counter_ctx ''open'' [V_Option (Some (V_String ''/db''))] fresh_shop
      = Some (r, one_open)"
    using opens by (auto simp: one_open_def)
  then have m: "(client_step opening_shop counter_ctx ^^ 1) ((), new_host demo_manager []) one_open"
    using client_step.call by (fastforce simp: fresh_shop_def)
  have b: "bound (snd one_open) R_Connection 1 = Some (0, 7)" by code_simp
  have "((), snd one_open) = one_open" by (simp add: prod_eq_iff)
  then have "client_step opening_shop counter_ctx one_open ((), schedule_connection_drop 1 (snd one_open))"
    using client_step.drop [of opening_shop conn_resource 1 "snd one_open" "Inr ()" _ counter_ctx "()"]
    by (simp add: on_resource_drop_def)
  then have n: "(client_step opening_shop counter_ctx ^^ 1) one_open ((), schedule_connection_drop 1 (snd one_open))"
    by (auto simp: relcompp_apply)
  have "(1::nat) + 1 + 1 < 2 ^ 32" by simp
  note keep = conjunct1 [OF numbers_never_rebound [OF m n this], rule_format, OF b]
  then show ?thesis using n b by (intro exI [of _ "((), schedule_connection_drop 1 (snd one_open))"]) blast
qed

definition dropped_shop :: "(nat \<times> nat, sqlite_value list list) host" where
  "dropped_shop = (new_host demo_manager [])\<lparr>h_prepared := [3 \<mapsto> (0, 7), 4 \<mapsto> (0, 8)], h_prepared_drops := [3]\<rparr>"

theorem drain_exact_witness:
  "\<exists>h'. drain_pending_resource_drops shop dropped_shop = (Inr (), h')
     \<and> bound h' R_Prepared 3 = None \<and> bound h' R_Prepared 4 = Some (0, 8)"
proof -
  have "fst (drain_pending_resource_drops shop dropped_shop) = Inr ()" by code_simp
  then obtain h' where d: "drain_pending_resource_drops shop dropped_shop = (Inr (), h')" by (metis prod.collapse)
  have e: "bound h' k rep = (if rep \<in> set (queues dropped_shop k) then None else bound dropped_shop k rep)" for k rep
    using drain_exact [OF d] by blast
  show ?thesis using d e [of R_Prepared 3] e [of R_Prepared 4] by (simp add: dropped_shop_def)
qed

theorem unknown_numbers_refused_witness:
  "execute shop 9 ''SELECT 1'' (new_host demo_manager []) = Some (Inl (Internal ''unknown connection''), new_host demo_manager [])"
proof -
  have "bound (new_host demo_manager []) R_Connection 9 = None" by (simp add: new_host_def)
  from unknown_numbers_refused [OF this, where W = shop] show ?thesis by simp
qed

text \<open>
  A drop that the core refuses ends the drain, and what was queued behind it is forgotten but not
  dropped: of two connections that are to be closed the first fails, and the second is neither queued
  nor closed.
\<close>

lemma failed_drop_loses_queue:
  "let h = (new_host demo_manager [])\<lparr>h_connections := [1 \<mapsto> \<lparr>conn_handle = (0, 7), conn_closed = False\<rparr>,
        2 \<mapsto> \<lparr>conn_handle = (0, 8), conn_closed = False\<rparr>], h_connection_drops := [1, 2]\<rparr>;
       (r, h') = drain_pending_resource_drops opening_shop h
   in r \<noteq> Inr () \<and> h_connection_drops h' = [] \<and> bound h' R_Connection 2 = Some (0, 8)"
  by code_simp

end
