(* ===== verification/Utf8.thy ===== *)
theory Utf8
  imports Prelude
begin

text \<open>
  What the standard library does with bytes that may be no UTF-8: \<open>str::from_utf8\<close>,
  \<open>String::from_utf8_lossy\<close> and the code points of a string. A string of the model is a list of
  bytes; a \<open>str\<close> of the program is one that is \<open>utf8\<close>.
\<close>

section \<open>Sequences\<close>

text \<open>The length of the sequence a lead byte announces, 0 for a byte that leads none.\<close>

definition width :: "char \<Rightarrow> nat" where
  "width a =
     (if a < CHR 0x80 then 1
      else if CHR 0xC2 \<le> a \<and> a \<le> CHR 0xDF then 2
      else if CHR 0xE0 \<le> a \<and> a \<le> CHR 0xEF then 3
      else if CHR 0xF0 \<le> a \<and> a \<le> CHR 0xF4 then 4
      else 0)"

text \<open>The second byte excludes overlong forms, surrogates and code points above U+10FFFF.\<close>

definition second_ok :: "char \<Rightarrow> char \<Rightarrow> bool" where
  "second_ok a b \<longleftrightarrow>
     is_cont b
     \<and> (a = CHR 0xE0 \<longrightarrow> CHR 0xA0 \<le> b) \<and> (a = CHR 0xED \<longrightarrow> b \<le> CHR 0x9F)
     \<and> (a = CHR 0xF0 \<longrightarrow> CHR 0x90 \<le> b) \<and> (a = CHR 0xF4 \<longrightarrow> b \<le> CHR 0x8F)"

text \<open>How many bytes from a lead byte on fit its sequence.\<close>

definition accepted :: "char \<Rightarrow> string \<Rightarrow> nat" where
  "accepted a s =
     (if width a \<le> 1 then width a
      else if s = [] \<or> \<not> second_ok a (hd s) then 1
      else 2 + length (takeWhile is_cont (take (width a - 2) (tl s))))"

definition whole :: "char \<Rightarrow> string \<Rightarrow> bool" where
  "whole a s \<longleftrightarrow> 0 < width a \<and> accepted a s = width a"

function utf8 :: "string \<Rightarrow> bool" where
  "utf8 [] \<longleftrightarrow> True"
| "utf8 (a # s) \<longleftrightarrow> whole a s \<and> utf8 (drop (accepted a s - 1) s)"
  by pat_completeness auto
termination by (relation "measure length") auto

definition from_utf8 :: "string \<Rightarrow> string option" where
  "from_utf8 s = (if utf8 s then Some s else None)"

text \<open>Each maximal piece of a sequence that is broken off becomes one U+FFFD.\<close>

definition replacement :: string where
  "replacement = [CHR 0xEF, CHR 0xBF, CHR 0xBD]"

function from_utf8_lossy :: "string \<Rightarrow> string" where
  "from_utf8_lossy [] = []"
| "from_utf8_lossy (a # s) =
     (let n = accepted a s - 1
      in (if whole a s then a # take n s else replacement) @ from_utf8_lossy (drop n s))"
  by pat_completeness auto
termination by (relation "measure length") auto

section \<open>Code points\<close>

function utf8_chars :: "string \<Rightarrow> string list" where
  "utf8_chars [] = []"
| "utf8_chars (a # s) = (a # take (width a - 1) s) # utf8_chars (drop (width a - 1) s)"
  by pat_completeness auto
termination by (relation "measure length") auto

definition lead_bits :: "char \<Rightarrow> nat" where
  "lead_bits a =
     (let n = byte_nat a in if width a = 2 then n - 192 else if width a = 3 then n - 224 else if width a = 4 then n - 240 else n)"

definition code_point :: "string \<Rightarrow> nat" where
  "code_point c = (case c of [] \<Rightarrow> 0 | a # r \<Rightarrow> foldl (\<lambda>n b. 64 * n + (byte_nat b - 128)) (lead_bits a) r)"

text \<open>\<open>char::is_alphanumeric\<close>; beyond ASCII it is a table of the Unicode standard.\<close>

definition char_alnum :: "(nat \<Rightarrow> bool) \<Rightarrow> string \<Rightarrow> bool" where
  "char_alnum table c \<longleftrightarrow> (case c of [a] \<Rightarrow> is_ascii_alnum a | _ \<Rightarrow> table (code_point c))"

section \<open>What they have in common\<close>

lemma lossy_utf8: "utf8 s \<Longrightarrow> from_utf8_lossy s = s"
  by (induction s rule: utf8.induct) (simp_all add: Let_def)

lemma width_ascii: "byte_nat a < 128 \<Longrightarrow> width a = 1"
  by (simp add: width_def less_char_def byte_nat_def)

lemma whole_ascii: "byte_nat a < 128 \<Longrightarrow> whole a s"
  by (simp add: whole_def accepted_def width_ascii)

lemma utf8_ascii: "list_all (\<lambda>c. byte_nat c < 128) s \<Longrightarrow> utf8 s"
  by (induction s) (simp_all add: whole_ascii accepted_def width_ascii)

lemma whole_take: "whole a s \<Longrightarrow> whole a (take (accepted a s - 1) s @ t) \<and> accepted a (take (accepted a s - 1) s @ t) = accepted a s"
proof -
  assume w: "whole a s"
  show ?thesis
  proof (cases "width a \<le> 1")
    case True
    then show ?thesis using w by (simp add: whole_def accepted_def)
  next
    case False
    then have s: "s \<noteq> []" "second_ok a (hd s)" and len: "length (takeWhile is_cont (take (width a - 2) (tl s))) = width a - 2"
      using w by (auto simp: whole_def accepted_def split: if_splits)
    have k: "accepted a s - 1 = width a - 1" using w by (simp add: whole_def)
    obtain b r where b: "s = b # r" using s(1) by (cases s) auto
    have l2: "width a - 2 \<le> length r"
      using len b length_takeWhile_le [of is_cont "take (width a - 2) r"] by simp
    have "take (width a - 1) s = b # take (width a - 2) r"
      using False b by (simp add: take_Cons' numeral_2_eq_2)
    moreover have "take (width a - 2) (take (width a - 2) r @ t) = take (width a - 2) r" using l2 by simp
    ultimately have "accepted a (take (width a - 1) s @ t) = accepted a s"
      using False s b by (simp add: accepted_def min_absorb2 [OF l2])
    then show ?thesis using w k by (simp add: whole_def)
  qed
qed

lemma utf8_whole_append:
  assumes "whole a s" "utf8 t"
  shows "utf8 (a # take (accepted a s - 1) s @ t)"
proof -
  have l: "accepted a s - 1 \<le> length s"
    using assms(1) length_takeWhile_le [of is_cont "take (width a - 2) (tl s)"]
    by (cases s) (auto simp: whole_def accepted_def split: if_splits)
  then have "drop (accepted a s - 1) (take (accepted a s - 1) s @ t) = t" by simp
  then show ?thesis using whole_take [OF assms(1), of t] assms(2) by simp
qed

lemma utf8_append: "utf8 s \<Longrightarrow> utf8 t \<Longrightarrow> utf8 (s @ t)"
proof (induction s rule: utf8.induct)
  case (2 a s)
  let ?n = "accepted a s - 1"
  have "utf8 (a # take ?n s @ (drop ?n s @ t))"
    using 2 by (intro utf8_whole_append) auto
  then show ?case by (metis append.assoc append_Cons append_take_drop_id)
qed simp

lemma utf8_replacement: "utf8 replacement"
  by (simp add: replacement_def) code_simp

lemma utf8_lossy: "utf8 (from_utf8_lossy s)"
proof (induction s rule: from_utf8_lossy.induct)
  case (2 a s)
  then show ?case
    using utf8_whole_append [of a s] utf8_append [OF utf8_replacement] by (simp add: Let_def)
qed simp

lemma chars_concat: "concat (utf8_chars s) = s"
  by (induction s rule: utf8_chars.induct) simp_all

end
