(* ===== verification/Json_Text.thy ===== *)
theory Json_Text
  imports Host_Values Utf8
begin

text \<open>
  JSON as the servers write it by hand: \<open>json_string\<close>, \<open>json_value\<close>, \<open>json_error\<close> of
  \<open>crates/ducklink-host/src/ui_server.rs\<close> and \<open>row_to_json_object\<close>, \<open>rows_to_result_json\<close> of
  \<open>crates/ducklink-host/src/httpd.rs\<close>. Beside them a reader of JSON texts that knows nothing of the
  writers: what it reads is what was written.
\<close>

section \<open>The writers\<close>

definition json_char :: "char \<Rightarrow> string" where
  "json_char c =
     (if c = CHR 0x22 then [CHR 0x5C, CHR 0x22]
      else if c = CHR 0x5C then [CHR 0x5C, CHR 0x5C]
      else if c = CHR 0x0A then [CHR 0x5C, CHR ''n'']
      else if c = CHR 0x0D then [CHR 0x5C, CHR ''r'']
      else if c = CHR 0x09 then [CHR 0x5C, CHR ''t'']
      else if byte_nat c < 32 then [CHR 0x5C, CHR ''u'', CHR ''0'', CHR ''0''] @ hex2_lower (byte_nat c)
      else [c])"

definition json_string :: "string \<Rightarrow> string" where
  "json_string s = CHR 0x22 # concat (map json_char s) @ [CHR 0x22]"

definition f64_is_finite :: "f64 \<Rightarrow> bool" where
  "f64_is_finite f \<longleftrightarrow> and (drop_bit 52 f) 0x7FF \<noteq> 0x7FF"

definition interval_text :: "i32 \<Rightarrow> i32 \<Rightarrow> i64 \<Rightarrow> string" where
  "interval_text months days micros =
     show_signed months @ ''mon '' @ show_signed days @ ''d '' @ show_signed micros @ ''us''"

definition json_value :: "printers \<Rightarrow> duckvalue \<Rightarrow> string" where
  "json_value pr v =
     (case v of
        D_Null \<Rightarrow> ''null''
      | D_Boolean b \<Rightarrow> if b then ''true'' else ''false''
      | D_Int64 n \<Rightarrow> show_signed n
      | D_Uint64 n \<Rightarrow> show_word n
      | D_Float64 f \<Rightarrow> if f64_is_finite f then show_f64 pr f else json_string (show_f64 pr f)
      | D_Text s \<Rightarrow> json_string s
      | D_Blob b \<Rightarrow> json_string (CHR 0x5C # ''x'' @ show_nat (length b) @ '' bytes'')
      | D_Int32 n \<Rightarrow> show_signed n
      | D_Timestamp n \<Rightarrow> show_signed n
      | D_Int8 n \<Rightarrow> show_signed n
      | D_Int16 n \<Rightarrow> show_signed n
      | D_Uint8 n \<Rightarrow> show_word n
      | D_Uint16 n \<Rightarrow> show_word n
      | D_Uint32 n \<Rightarrow> show_word n
      | D_Float32 f \<Rightarrow> show_f32 pr f
      | D_Date n \<Rightarrow> show_signed n
      | D_Time n \<Rightarrow> show_signed n
      | D_Timestamptz n \<Rightarrow> show_signed n
      | D_Decimal d \<Rightarrow> format_decimal (dec_lower d) (dec_upper d) (dec_width d) (dec_scale d)
      | D_Interval iv \<Rightarrow> json_string (interval_text (iv_months iv) (iv_days iv) (iv_micros iv))
      | D_Uuid u \<Rightarrow> json_string (format_uuid (uuid_hi u) (uuid_lo u))
      | D_Hugeint h \<Rightarrow> format_hugeint (huge_lower h) (huge_upper h)
      | D_Uhugeint h \<Rightarrow> format_uhugeint (uhuge_lower h) (uhuge_upper h)
      | D_Complex c \<Rightarrow> cx_json c)"

definition json_error :: "string \<Rightarrow> string" where
  "json_error msg = ''{'' @ json_string ''error'' @ '':'' @ json_string msg @ ''}''"

record rows_t =
  rs_cols :: "string list"
  rs_rows :: "duckvalue list list"

definition row_member :: "printers \<Rightarrow> duckvalue list \<Rightarrow> nat \<times> string \<Rightarrow> string" where
  "row_member pr row p =
     json_string (snd p) @ '':''
       @ (if fst p < length row then json_value pr (row ! fst p) else ''null'')"

definition row_to_json_object :: "printers \<Rightarrow> string list \<Rightarrow> duckvalue list \<Rightarrow> string" where
  "row_to_json_object pr cols row = ''{'' @ join '','' (map (row_member pr row) (enumerate 0 cols)) @ ''}''"

definition json_row :: "printers \<Rightarrow> duckvalue list \<Rightarrow> string" where
  "json_row pr row = ''['' @ join '','' (map (json_value pr) row) @ '']''"

definition rows_to_result_json :: "printers \<Rightarrow> rows_t \<Rightarrow> string" where
  "rows_to_result_json pr rows =
     ''{'' @ json_string ''columns'' @ '':['' @ join '','' (map json_string (rs_cols rows))
       @ ''],'' @ json_string ''rows'' @ '':['' @ join '','' (map (json_row pr) (rs_rows rows))
       @ ''],'' @ json_string ''rowcount'' @ '':'' @ show_nat (length (rs_rows rows)) @ ''}''"

section \<open>Documents\<close>

datatype doc =
    Doc_Null | Doc_Bool bool | Doc_Num string | Doc_Str string
  | Doc_Arr "doc list" | Doc_Obj "(string \<times> doc) list"

fun doc_text :: "doc \<Rightarrow> string" where
  "doc_text Doc_Null = ''null''"
| "doc_text (Doc_Bool b) = (if b then ''true'' else ''false'')"
| "doc_text (Doc_Num s) = s"
| "doc_text (Doc_Str s) = json_string s"
| "doc_text (Doc_Arr vs) = ''['' @ join '','' (map doc_text vs) @ '']''"
| "doc_text (Doc_Obj fs) = ''{'' @ join '','' (map (\<lambda>(k, v). json_string k @ '':'' @ doc_text v) fs) @ ''}''"

section \<open>A reader\<close>

definition hex_val :: "char \<Rightarrow> nat option" where
  "hex_val c =
     (let n = byte_nat c
      in if 48 \<le> n \<and> n \<le> 57 then Some (n - 48) else if 97 \<le> n \<and> n \<le> 102 then Some (n - 87)
         else if 65 \<le> n \<and> n \<le> 70 then Some (n - 55) else None)"

definition escapes :: "(char \<times> char) list" where
  "escapes =
     [(CHR 0x22, CHR 0x22), (CHR 0x5C, CHR 0x5C), (CHR ''/'', CHR ''/''), (CHR ''b'', CHR 0x08),
      (CHR ''f'', CHR 0x0C), (CHR ''n'', CHR 0x0A), (CHR ''r'', CHR 0x0D), (CHR ''t'', CHR 0x09)]"

text \<open>
  One character of a string literal and what follows it; of the escapes with a code point only those
  below U+0080 are read, as one byte.
\<close>

definition read_hex :: "string \<Rightarrow> (char \<times> string) option" where
  "read_hex s =
     (if length s < 4 \<or> take 2 s \<noteq> ''00'' then None
      else (case (hex_val (s ! 2), hex_val (s ! 3)) of
          (Some h, Some l) \<Rightarrow> if h < 8 then Some (nat_byte (16 * h + l), drop 4 s) else None
        | _ \<Rightarrow> None))"

definition read_unit :: "string \<Rightarrow> (char \<times> string) option" where
  "read_unit s =
     (case s of
        [] \<Rightarrow> None
      | c # r \<Rightarrow>
          if c = CHR 0x22 \<or> byte_nat c < 32 then None
          else if c \<noteq> CHR 0x5C then Some (c, r)
          else (case r of
              [] \<Rightarrow> None
            | d # q \<Rightarrow>
                (case map_of escapes d of
                   Some e \<Rightarrow> Some (e, q)
                 | None \<Rightarrow> if d = CHR ''u'' then read_hex q else None)))"

lemma read_unit_shorter: "read_unit s = Some (c, r) \<Longrightarrow> length r < length s"
  by (auto simp: read_unit_def read_hex_def split: list.splits if_splits option.splits)

text \<open>The characters up to the closing quote.\<close>

function read_chars :: "string \<Rightarrow> (string \<times> string) option" where
  "read_chars s =
     (case s of
        [] \<Rightarrow> None
      | c # r \<Rightarrow>
          if c = CHR 0x22 then Some ([], r)
          else (case read_unit s of
              None \<Rightarrow> None
            | Some (x, q) \<Rightarrow> map_option (apfst (Cons x)) (read_chars q)))"
  by pat_completeness auto
termination by (relation "measure length") (auto dest: read_unit_shorter)

declare read_chars.simps [simp del]

definition number_char :: "char \<Rightarrow> bool" where
  "number_char c \<longleftrightarrow> is_ascii_digit c \<or> c \<in> set ''+-.eE''"

definition number_text :: "string \<Rightarrow> bool" where
  "number_text s \<longleftrightarrow> s \<noteq> [] \<and> list_all number_char s"

text \<open>The steps are bounded; a document needs no more of them than it has characters.\<close>

fun read_doc :: "nat \<Rightarrow> string \<Rightarrow> (doc \<times> string) option"
  and read_items :: "nat \<Rightarrow> string \<Rightarrow> (doc list \<times> string) option"
  and read_members :: "nat \<Rightarrow> string \<Rightarrow> ((string \<times> doc) list \<times> string) option" where
  "read_doc 0 s = None"
| "read_doc (Suc n) s =
     (case s of
        [] \<Rightarrow> None
      | c # r \<Rightarrow>
          if c = CHR 0x22 then map_option (apfst Doc_Str) (read_chars r)
          else if c = CHR ''['' then
            (if r \<noteq> [] \<and> hd r = CHR '']'' then Some (Doc_Arr [], tl r)
             else map_option (apfst Doc_Arr) (read_items n r))
          else if c = CHR ''{'' then
            (if r \<noteq> [] \<and> hd r = CHR ''}'' then Some (Doc_Obj [], tl r)
             else map_option (apfst Doc_Obj) (read_members n r))
          else if take 4 s = ''null'' then Some (Doc_Null, drop 4 s)
          else if take 4 s = ''true'' then Some (Doc_Bool True, drop 4 s)
          else if take 5 s = ''false'' then Some (Doc_Bool False, drop 5 s)
          else if number_char c then
            Some (Doc_Num (takeWhile number_char s), dropWhile number_char s)
          else None)"
| "read_items 0 s = None"
| "read_items (Suc n) s =
     (case read_doc n s of
        Some (v, c # r) \<Rightarrow>
          if c = CHR '','' then map_option (apfst (Cons v)) (read_items n r)
          else if c = CHR '']'' then Some ([v], r)
          else None
      | _ \<Rightarrow> None)"
| "read_members 0 s = None"
| "read_members (Suc n) s =
     (case s of
        [] \<Rightarrow> None
      | q # s1 \<Rightarrow>
          if q \<noteq> CHR 0x22 then None
          else (case read_chars s1 of
              Some (k, d # s2) \<Rightarrow>
                if d \<noteq> CHR '':'' then None
                else (case read_doc n s2 of
                    Some (v, c # r) \<Rightarrow>
                      if c = CHR '','' then map_option (apfst (Cons (k, v))) (read_members n r)
                      else if c = CHR ''}'' then Some ([(k, v)], r)
                      else None
                  | _ \<Rightarrow> None)
            | _ \<Rightarrow> None))"

definition read_document :: "string \<Rightarrow> doc option" where
  "read_document s =
     (case read_doc (Suc (length s)) s of Some (d, []) \<Rightarrow> Some d | _ \<Rightarrow> None)"

section \<open>Reading what was written\<close>

lemma hex_val_lower: "d < 16 \<Longrightarrow> hex_val (hex_digit_lower d) = Some d"
  by (auto simp: hex_val_def hex_digit_lower_def Let_def)

lemma read_unit_char: "read_unit (json_char c @ s) = Some (c, s)"
proof -
  have n: "byte_nat (CHR 0x5C) = 92" "byte_nat (CHR 0x22) = 34" by (simp_all add: byte_nat_def)
  have h: "read_hex (''00'' @ hex2_lower (byte_nat c) @ s) = Some (c, s)" if "byte_nat c < 32"
    using that by (simp add: read_hex_def hex2_lower_def hex_val_lower nth_Cons numeral_2_eq_2 numeral_3_eq_3)
  have u: "map_of escapes (CHR ''u'') = None" by (simp add: escapes_def)
  show ?thesis
    using h u n by (auto simp: json_char_def read_unit_def escapes_def)
qed

lemma json_char_head: "\<exists>d r. json_char c = d # r \<and> d \<noteq> CHR 0x22"
  by (simp add: json_char_def)

lemma read_chars_written: "read_chars (concat (map json_char s) @ CHR 0x22 # rest) = Some (s, rest)"
proof (induction s)
  case Nil
  then show ?case by (simp add: read_chars.simps)
next
  case (Cons c s)
  obtain d r where d: "json_char c = d # r" "d \<noteq> CHR 0x22" using json_char_head by blast
  have "read_unit (d # r @ concat (map json_char s) @ CHR 0x22 # rest)
      = Some (c, concat (map json_char s) @ CHR 0x22 # rest)"
    using read_unit_char [of c "concat (map json_char s) @ CHR 0x22 # rest"] d(1) by simp
  then show ?case using Cons d by (simp add: read_chars.simps [of "d # _"])
qed

fun doc_ok :: "doc \<Rightarrow> bool" where
  "doc_ok (Doc_Num s) = number_text s"
| "doc_ok (Doc_Arr vs) = list_all doc_ok vs"
| "doc_ok (Doc_Obj fs) = list_all (\<lambda>(k, v). doc_ok v) fs"
| "doc_ok _ = True"

fun doc_steps :: "doc \<Rightarrow> nat" where
  "doc_steps (Doc_Arr vs) = Suc (sum_list (map (\<lambda>v. Suc (doc_steps v)) vs))"
| "doc_steps (Doc_Obj fs) = Suc (sum_list (map (\<lambda>(k, v). Suc (doc_steps v)) fs))"
| "doc_steps _ = 1"

lemma doc_steps_pos [simp]: "0 < doc_steps d" "doc_steps d \<noteq> 0"
  by (cases d; simp)+

definition closed_by :: "string \<Rightarrow> bool" where
  "closed_by rest \<longleftrightarrow> (rest = [] \<or> \<not> number_char (hd rest))"

lemma not_number [simp]: "\<not> number_char (CHR '','')" "\<not> number_char (CHR '']'')" "\<not> number_char (CHR ''}'')"
  "\<not> number_char (CHR 0x22)" "\<not> number_char (CHR ''['')" "\<not> number_char (CHR ''{'')"
  "\<not> number_char (CHR ''n'')" "\<not> number_char (CHR ''t'')" "\<not> number_char (CHR ''f'')"
  by (simp_all add: number_char_def is_ascii_digit_def less_eq_char_def)

lemma doc_text_head: "doc_ok d \<Longrightarrow> \<exists>c r. doc_text d = c # r \<and> c \<noteq> CHR '']'' \<and> c \<noteq> CHR ''}''"
proof (cases d)
  case (Doc_Num s)
  assume "doc_ok d"
  then show ?thesis using Doc_Num not_number by (cases s) (auto simp: number_text_def)
qed (auto simp: json_string_def)

lemma join_text: "join sep (x # xs) = x @ (if xs = [] then [] else sep @ join sep xs)"
  by (cases xs) simp_all

lemma read_number:
  assumes "number_text s" "closed_by rest"
  shows "read_doc (Suc n) (s @ rest) = Some (Doc_Num s, rest)"
proof -
  obtain c r where s: "s = c # r" "number_char c" using assms(1) by (cases s) (auto simp: number_text_def)
  have "takeWhile number_char rest = []" "dropWhile number_char rest = rest"
    using assms(2) by (cases rest; simp add: closed_by_def)+
  then have split: "takeWhile number_char (s @ rest) = s" "dropWhile number_char (s @ rest) = rest"
    using assms(1) by (simp_all add: number_text_def list_all_iff)
  have "c \<noteq> CHR 0x22" "c \<noteq> CHR ''[''" "c \<noteq> CHR ''{''" "c \<noteq> CHR ''n''" "c \<noteq> CHR ''t''" "c \<noteq> CHR ''f''"
    using s(2) not_number by metis+
  then show ?thesis using s split by (simp add: numeral_eq_Suc)
qed

lemma read_string: "read_doc (Suc n) (json_string s @ rest) = Some (Doc_Str s, rest)"
  using read_chars_written by (simp add: json_string_def)

lemma read_written:
  "(\<forall>d rest. doc_ok d \<longrightarrow> doc_steps d \<le> n \<longrightarrow> closed_by rest \<longrightarrow>
      read_doc n (doc_text d @ rest) = Some (d, rest))
   \<and> (\<forall>vs rest. vs \<noteq> [] \<longrightarrow> list_all doc_ok vs \<longrightarrow> sum_list (map (\<lambda>v. Suc (doc_steps v)) vs) \<le> n \<longrightarrow>
      read_items n (join '','' (map doc_text vs) @ CHR '']'' # rest) = Some (vs, rest))
   \<and> (\<forall>fs rest. fs \<noteq> [] \<longrightarrow> list_all (\<lambda>(k, v). doc_ok v) fs \<longrightarrow>
      sum_list (map (\<lambda>(k, v). Suc (doc_steps v)) fs) \<le> n \<longrightarrow>
      read_members n (join '','' (map (\<lambda>(k, v). json_string k @ '':'' @ doc_text v) fs) @ CHR ''}'' # rest)
        = Some (fs, rest))"
proof (induction n)
  case 0
  show ?case by (auto simp: neq_Nil_conv)
next
  case (Suc n)
  have doc: "read_doc n (doc_text d @ rest) = Some (d, rest)"
    if "doc_ok d" "doc_steps d \<le> n" "closed_by rest" for d rest
    using Suc that by blast
  have items: "read_items n (join '','' (map doc_text vs) @ CHR '']'' # rest) = Some (vs, rest)"
    if "vs \<noteq> []" "list_all doc_ok vs" "sum_list (map (\<lambda>v. Suc (doc_steps v)) vs) \<le> n" for vs rest
    using Suc that by blast
  have members: "read_members n (join '','' (map (\<lambda>(k, v). json_string k @ '':'' @ doc_text v) fs) @ CHR ''}'' # rest)
      = Some (fs, rest)"
    if "fs \<noteq> []" "list_all (\<lambda>(k, v). doc_ok v) fs" "sum_list (map (\<lambda>(k, v). Suc (doc_steps v)) fs) \<le> n" for fs rest
    using Suc that by blast
  have "read_doc (Suc n) (doc_text d @ rest) = Some (d, rest)"
    if ok: "doc_ok d" and steps: "doc_steps d \<le> Suc n" and rest: "closed_by rest" for d rest
  proof (cases d)
    case (Doc_Arr vs)
    show ?thesis
    proof (cases vs)
      case (Cons v ws)
      obtain c r where h: "doc_text v = c # r" "c \<noteq> CHR '']''" using doc_text_head [of v] ok Doc_Arr Cons by auto
      show ?thesis
        using items [of vs rest] ok steps Doc_Arr Cons h by (simp add: join_text)
    qed (simp add: Doc_Arr)
  next
    case (Doc_Obj fs)
    show ?thesis
    proof (cases fs)
      case (Cons f ws)
      then show ?thesis
        using members [of fs rest] ok steps Doc_Obj by (simp add: join_text json_string_def split_beta)
    qed (simp add: Doc_Obj)
  qed (use ok rest read_number read_string in \<open>auto simp: numeral_eq_Suc\<close>)
  moreover have "read_items (Suc n) (join '','' (map doc_text vs) @ CHR '']'' # rest) = Some (vs, rest)"
    if q: "vs \<noteq> []" "list_all doc_ok vs" "sum_list (map (\<lambda>v. Suc (doc_steps v)) vs) \<le> Suc n" for vs rest
  proof -
    obtain v ws where vs: "vs = v # ws" using q(1) by (cases vs) auto
    show ?thesis
    proof (cases ws)
      case Nil
      then show ?thesis using doc [of v "CHR '']'' # rest"] q vs by (simp add: closed_by_def)
    next
      case (Cons w us)
      then show ?thesis
        using doc [of v "CHR '','' # join '','' (map doc_text ws) @ CHR '']'' # rest"] items [of ws rest] q vs
        by (simp add: closed_by_def)
    qed
  qed
  moreover have "read_members (Suc n) (join '','' (map (\<lambda>(k, v). json_string k @ '':'' @ doc_text v) fs) @ CHR ''}'' # rest)
      = Some (fs, rest)"
    if q: "fs \<noteq> []" "list_all (\<lambda>(k, v). doc_ok v) fs" "sum_list (map (\<lambda>(k, v). Suc (doc_steps v)) fs) \<le> Suc n" for fs rest
  proof -
    obtain k v ws where fs: "fs = (k, v) # ws" using q(1) by (cases fs) auto
    show ?thesis
    proof (cases ws)
      case Nil
      then show ?thesis using doc [of v "CHR ''}'' # rest"] q fs read_chars_written
        by (simp add: closed_by_def json_string_def)
    next
      case (Cons w us)
      then show ?thesis
        using doc [of v "CHR '','' # join '','' (map (\<lambda>(k, v). json_string k @ '':'' @ doc_text v) ws) @ CHR ''}'' # rest"]
          members [of ws rest] q fs read_chars_written
        by (simp add: closed_by_def json_string_def)
    qed
  qed
  ultimately show ?case by blast
qed

lemma join_length: "sum_list (map f xs) \<le> sum_list (map length ys) \<Longrightarrow> length ys = length xs \<Longrightarrow>
    sum_list (map (\<lambda>x. Suc (f x)) xs) \<le> Suc (length (join '','' ys))"
proof -
  have j: "length (join '','' ys) = sum_list (map length ys) + (length ys - 1)"
    by (induction ys rule: induct_list012) simp_all
  have s: "sum_list (map (\<lambda>x. Suc (f x)) xs) = sum_list (map f xs) + length xs"
    by (induction xs) simp_all
  assume "sum_list (map f xs) \<le> sum_list (map length ys)" "length ys = length xs"
  then show ?thesis using j s by simp
qed

lemma doc_steps_length: "doc_ok d \<Longrightarrow> doc_steps d \<le> length (doc_text d)"
proof (induction d)
  case (Doc_Num s)
  then show ?case by (cases s) (auto simp: number_text_def)
next
  case (Doc_Arr vs)
  have "sum_list (map doc_steps vs) \<le> sum_list (map length (map doc_text vs))"
    using Doc_Arr by (simp add: list_all_iff comp_def) (rule sum_list_mono, simp)
  then have "sum_list (map (\<lambda>v. Suc (doc_steps v)) vs) \<le> Suc (length (join '','' (map doc_text vs)))"
    by (intro join_length) simp_all
  then show ?case by simp
next
  case (Doc_Obj fs)
  have "sum_list (map (\<lambda>(k, v). doc_steps v) fs)
      \<le> sum_list (map length (map (\<lambda>(k, v). json_string k @ '':'' @ doc_text v) fs))"
    unfolding map_map comp_def
  proof (rule sum_list_mono)
    fix p assume "p \<in> set fs"
    then have "doc_ok (snd p)" using Doc_Obj.prems by (auto simp: list_all_iff)
    then have "doc_steps (snd p) \<le> length (doc_text (snd p))"
      using Doc_Obj.IH [OF \<open>p \<in> set fs\<close>, of "snd p"] by (cases p) simp
    then show "(case p of (k, v) \<Rightarrow> doc_steps v) \<le> length (case p of (k, v) \<Rightarrow> json_string k @ '':'' @ doc_text v)"
      by (cases p) simp
  qed
  then have "sum_list (map (\<lambda>p. Suc (case p of (k, v) \<Rightarrow> doc_steps v)) fs)
      \<le> Suc (length (join '','' (map (\<lambda>(k, v). json_string k @ '':'' @ doc_text v) fs)))"
    by (intro join_length) simp_all
  then show ?case by (simp add: case_prod_unfold)
qed (simp_all add: json_string_def)

lemma read_document_text:
  assumes "doc_ok d"
  shows "read_document (doc_text d) = Some d"
proof -
  have "doc_steps d \<le> Suc (length (doc_text d))" using doc_steps_length [OF assms] by simp
  then have "read_doc (Suc (length (doc_text d))) (doc_text d @ []) = Some (d, [])"
    using conjunct1 [OF read_written] assms by (simp only: closed_by_def simp_thms)
  then show ?thesis by (simp add: read_document_def)
qed

end
