(* ===== verification/Core_Codec.thy ===== *)
theory Core_Codec
  imports Host_Values Columnar Dispatch
begin

text \<open>
  The codecs between the host and the core for the callbacks of the core
  (\<open>crates/ducklink-host/src/lib.rs\<close>, the functions after \<open>CallbackDispatchHost\<close>): values, errors,
  result sets, and the columns of the batch calls. A runtime error is its message.
\<close>

section \<open>Values, errors, result sets\<close>

definition backquoted :: "string \<Rightarrow> string" where
  "backquoted s = CHR 0x60 # s @ [CHR 0x60]"

text \<open>A value of the core as the command line writes it; every arm keeps the value.\<close>

definition convert_core_duckvalue :: "duckvalue \<Rightarrow> duckvalue" where
  "convert_core_duckvalue v =
     (case v of
        D_Null \<Rightarrow> D_Null | D_Boolean b \<Rightarrow> D_Boolean b
      | D_Int64 n \<Rightarrow> D_Int64 n | D_Uint64 n \<Rightarrow> D_Uint64 n
      | D_Float64 f \<Rightarrow> D_Float64 f | D_Text s \<Rightarrow> D_Text s
      | D_Blob b \<Rightarrow> D_Blob b | D_Int32 n \<Rightarrow> D_Int32 n
      | D_Timestamp n \<Rightarrow> D_Timestamp n | D_Int8 n \<Rightarrow> D_Int8 n
      | D_Int16 n \<Rightarrow> D_Int16 n | D_Uint8 n \<Rightarrow> D_Uint8 n
      | D_Uint16 n \<Rightarrow> D_Uint16 n | D_Uint32 n \<Rightarrow> D_Uint32 n
      | D_Float32 f \<Rightarrow> D_Float32 f | D_Date n \<Rightarrow> D_Date n
      | D_Time n \<Rightarrow> D_Time n | D_Timestamptz n \<Rightarrow> D_Timestamptz n
      | D_Decimal d \<Rightarrow> D_Decimal \<lparr>dec_lower = dec_lower d, dec_upper = dec_upper d, dec_width = dec_width d, dec_scale = dec_scale d\<rparr>
      | D_Interval iv \<Rightarrow> D_Interval \<lparr>iv_months = iv_months iv, iv_days = iv_days iv, iv_micros = iv_micros iv\<rparr>
      | D_Uuid u \<Rightarrow> D_Uuid \<lparr>uuid_hi = uuid_hi u, uuid_lo = uuid_lo u\<rparr>
      | D_Hugeint h \<Rightarrow> D_Hugeint \<lparr>huge_lower = huge_lower h, huge_upper = huge_upper h\<rparr>
      | D_Uhugeint h \<Rightarrow> D_Uhugeint \<lparr>uhuge_lower = uhuge_lower h, uhuge_upper = uhuge_upper h\<rparr>
      | D_Complex c \<Rightarrow> D_Complex \<lparr>cx_type_expr = cx_type_expr c, cx_json = cx_json c\<rparr>)"

lemma convert_core_duckvalue_id [simp]: "convert_core_duckvalue v = v"
  by (cases v) (simp_all add: convert_core_duckvalue_def)

definition value_to_core_duckvalue :: "fmt \<Rightarrow> wvalue \<Rightarrow> string + duckvalue" where
  "value_to_core_duckvalue fm v = rbind (cli_value_to_duckvalue fm v) (\<lambda>d. Inr (convert_cli_duckvalue d))"

definition core_duckvalue_to_value :: "duckvalue \<Rightarrow> wvalue" where
  "core_duckvalue_to_value v = cli_duckvalue_to_value (convert_core_duckvalue v)"

text \<open>A field scan keeps the last field of the right form.\<close>

definition invokeinfo_field ::
  "fmt \<Rightarrow> u64 option \<times> bool option \<Rightarrow> string \<Rightarrow> wvalue \<Rightarrow> string + (u64 option \<times> bool option)" where
  "invokeinfo_field fm st k v =
     (case v of
        V_Option inner \<Rightarrow>
          if k = ''rowindex'' then
            (case inner of
               None \<Rightarrow> Inr (None, snd st)
             | Some (V_U64 n) \<Rightarrow> Inr (Some n, snd st)
             | Some other \<Rightarrow> Inl (''invokeinfo.rowindex: expected u64 inside option, got '' @ dbg fm other))
          else Inr st
      | V_Bool b \<Rightarrow> if k = ''iswindow'' then Inr (fst st, Some b) else Inr st
      | _ \<Rightarrow> Inr st)"

definition value_to_core_invokeinfo :: "fmt \<Rightarrow> wvalue \<Rightarrow> string + invokeinfo" where
  "value_to_core_invokeinfo fm v =
     (case v of
        V_Record fs \<Rightarrow>
          rbind (scan_fields (invokeinfo_field fm) fs (None, None)) (\<lambda>(row, window).
            case window of
              Some w \<Rightarrow> Inr \<lparr>rowindex = row, iswindow = w\<rparr>
            | None \<Rightarrow> Inl (''invokeinfo: missing '' @ backquoted ''iswindow: bool''))
      | other \<Rightarrow> Inl (''invokeinfo: expected Value::Record, got '' @ dbg fm other))"

definition core_duckerror_to_value :: "duckerror \<Rightarrow> wvalue" where
  "core_duckerror_to_value err =
     (let (disc, msg) = (case err of
        Invalidargument m \<Rightarrow> (''invalidargument'', m)
      | Unsupported m \<Rightarrow> (''unsupported'', m)
      | Invalidstate m \<Rightarrow> (''invalidstate'', m)
      | Io m \<Rightarrow> (''io'', m)
      | Internal m \<Rightarrow> (''internal'', m))
      in V_Variant disc (Some (V_String msg)))"

definition core_resultset_to_value :: "duckvalue list list \<Rightarrow> wvalue" where
  "core_resultset_to_value rs = V_List (map (\<lambda>row. V_List (map core_duckvalue_to_value row)) rs)"

section \<open>Lists of one form\<close>

text \<open>The items of a list, or the message about the first one of another form.\<close>

fun list_items :: "(nat \<Rightarrow> wvalue \<Rightarrow> string) \<Rightarrow> (wvalue \<Rightarrow> 'a option) \<Rightarrow> nat \<Rightarrow> wvalue list \<Rightarrow> string + 'a list" where
  "list_items bad sel i [] = Inr []"
| "list_items bad sel i (v # vs) =
     (case sel v of
        None \<Rightarrow> Inl (bad i v)
      | Some x \<Rightarrow> rbind (list_items bad sel (Suc i) vs) (\<lambda>xs. Inr (x # xs)))"

definition list_of :: "fmt \<Rightarrow> string \<Rightarrow> string \<Rightarrow> (wvalue \<Rightarrow> 'a option) \<Rightarrow> wvalue list \<Rightarrow> string + 'a list" where
  "list_of fm name variant sel =
     list_items (\<lambda>i v. ''column.'' @ name @ ''['' @ show_nat i @ '']: expected '' @ variant @ '', got '' @ dbg fm v) sel 0"

definition bytes_from_value_list :: "fmt \<Rightarrow> string \<Rightarrow> wvalue list \<Rightarrow> string + u8 list" where
  "bytes_from_value_list fm context_name =
     list_items (\<lambda>i v. context_name @ ''['' @ show_nat i @ '']: expected u8, got '' @ dbg fm v) as_u8 0"

section \<open>Records\<close>

definition unpack_decimalvalue :: "fmt \<Rightarrow> wvalue \<Rightarrow> string + decimalvalue" where
  "unpack_decimalvalue fm v =
     (case v of
        V_Record f \<Rightarrow> Inr \<lparr>dec_lower = the_or (last_field ''lower'' as_u64 f) 0,
          dec_upper = the_or (last_field ''upper'' as_u64 f) 0,
          dec_width = the_or (last_field ''width'' as_u8 f) 0, dec_scale = the_or (last_field ''scale'' as_u8 f) 0\<rparr>
      | other \<Rightarrow> Inl (''decimalvalue: expected Value::Record, got '' @ dbg fm other))"

definition pack_decimalvalue :: "decimalvalue \<Rightarrow> wvalue" where
  "pack_decimalvalue d =
     V_Record [(''lower'', V_U64 (dec_lower d)), (''upper'', V_U64 (dec_upper d)),
       (''width'', V_U8 (dec_width d)), (''scale'', V_U8 (dec_scale d))]"

definition unpack_intervalvalue :: "fmt \<Rightarrow> wvalue \<Rightarrow> string + intervalvalue" where
  "unpack_intervalvalue fm v =
     (case v of
        V_Record f \<Rightarrow> Inr \<lparr>iv_months = the_or (last_field ''months'' as_s32 f) 0,
          iv_days = the_or (last_field ''days'' as_s32 f) 0, iv_micros = the_or (last_field ''micros'' as_s64 f) 0\<rparr>
      | other \<Rightarrow> Inl (''intervalvalue: expected Value::Record, got '' @ dbg fm other))"

definition pack_intervalvalue :: "intervalvalue \<Rightarrow> wvalue" where
  "pack_intervalvalue d =
     V_Record [(''months'', V_S32 (iv_months d)), (''days'', V_S32 (iv_days d)), (''micros'', V_S64 (iv_micros d))]"

definition unpack_uuidvalue :: "fmt \<Rightarrow> wvalue \<Rightarrow> string + uuidvalue" where
  "unpack_uuidvalue fm v =
     (case v of
        V_Record f \<Rightarrow> Inr \<lparr>uuid_hi = the_or (last_field ''hi'' as_u64 f) 0, uuid_lo = the_or (last_field ''lo'' as_u64 f) 0\<rparr>
      | other \<Rightarrow> Inl (''uuidvalue: expected Value::Record, got '' @ dbg fm other))"

definition pack_uuidvalue :: "uuidvalue \<Rightarrow> wvalue" where
  "pack_uuidvalue d = V_Record [(''hi'', V_U64 (uuid_hi d)), (''lo'', V_U64 (uuid_lo d))]"

definition unpack_duck_int128 :: "fmt \<Rightarrow> wvalue \<Rightarrow> string + duck_int128" where
  "unpack_duck_int128 fm v =
     (case v of
        V_Record f \<Rightarrow> Inr \<lparr>i128_lower = the_or (last_field ''lower'' as_u64 f) 0,
          i128_upper = the_or (last_field ''upper'' as_s64 f) 0\<rparr>
      | other \<Rightarrow> Inl (''duck-int128: expected Value::Record, got '' @ dbg fm other))"

definition pack_duck_int128 :: "duck_int128 \<Rightarrow> wvalue" where
  "pack_duck_int128 d = V_Record [(''lower'', V_U64 (i128_lower d)), (''upper'', V_S64 (i128_upper d))]"

definition unpack_duck_uint128 :: "fmt \<Rightarrow> wvalue \<Rightarrow> string + duck_uint128" where
  "unpack_duck_uint128 fm v =
     (case v of
        V_Record f \<Rightarrow> Inr \<lparr>u128_lower = the_or (last_field ''lower'' as_u64 f) 0,
          u128_upper = the_or (last_field ''upper'' as_u64 f) 0\<rparr>
      | other \<Rightarrow> Inl (''duck-uint128: expected Value::Record, got '' @ dbg fm other))"

definition pack_duck_uint128 :: "duck_uint128 \<Rightarrow> wvalue" where
  "pack_duck_uint128 d = V_Record [(''lower'', V_U64 (u128_lower d)), (''upper'', V_U64 (u128_upper d))]"

definition unpack_complexvalue :: "fmt \<Rightarrow> wvalue \<Rightarrow> string + complexvalue" where
  "unpack_complexvalue fm v =
     (case v of
        V_Record f \<Rightarrow> Inr \<lparr>cx_type_expr = the_or (last_field ''type-expr'' as_string f) [],
          cx_json = the_or (last_field ''json'' as_string f) []\<rparr>
      | other \<Rightarrow> Inl (''complexvalue: expected Value::Record, got '' @ dbg fm other))"

definition pack_complexvalue :: "complexvalue \<Rightarrow> wvalue" where
  "pack_complexvalue c = V_Record [(''type-expr'', V_String (cx_type_expr c)), (''json'', V_String (cx_json c))]"

section \<open>Nested columns\<close>

text \<open>A buffer of bytes under one name; a list that holds anything but bytes is an error at once.\<close>

definition bytes_scan :: "fmt \<Rightarrow> string \<Rightarrow> string \<Rightarrow> u8 list option \<Rightarrow> string \<Rightarrow> wvalue \<Rightarrow> string + u8 list option" where
  "bytes_scan fm what key st k v =
     (if k \<noteq> key then Inr st
      else (case v of
          V_Bytes b \<Rightarrow> Inr (Some b)
        | V_List items \<Rightarrow> rbind (bytes_from_value_list fm (what @ ''.'' @ key) items) (\<lambda>b. Inr (Some b))
        | _ \<Rightarrow> Inr st))"

definition unpack_nested_column :: "fmt \<Rightarrow> wvalue \<Rightarrow> string + nested_column" where
  "unpack_nested_column fm v =
     (case v of
        V_Record fs \<Rightarrow>
          rbind (scan_fields (bytes_scan fm ''nested-column'' ''encoded'') fs None) (\<lambda>r.
            case r of Some b \<Rightarrow> Inr \<lparr>nc_encoded = b\<rparr>
                    | None \<Rightarrow> Inl (''nested-column: missing '' @ backquoted ''encoded: list<u8>''))
      | other \<Rightarrow> Inl (''nested-column: expected Value::Record, got '' @ dbg fm other))"

definition pack_nested_column :: "nested_column \<Rightarrow> wvalue" where
  "pack_nested_column n = V_Record [(''encoded'', bytes_to_value_list (nc_encoded n))]"

definition map_column_field ::
  "fmt \<Rightarrow> u8 list option \<times> u8 list option \<Rightarrow> string \<Rightarrow> wvalue \<Rightarrow> string + (u8 list option \<times> u8 list option)" where
  "map_column_field fm st k v =
     (if k = ''keys-encoded'' then rbind (bytes_scan fm ''map-column'' ''keys-encoded'' (fst st) k v) (\<lambda>a. Inr (a, snd st))
      else rbind (bytes_scan fm ''map-column'' ''vals-encoded'' (snd st) k v) (\<lambda>b. Inr (fst st, b)))"

definition unpack_map_column :: "fmt \<Rightarrow> wvalue \<Rightarrow> string + map_column" where
  "unpack_map_column fm v =
     (case v of
        V_Record fs \<Rightarrow>
          rbind (scan_fields (map_column_field fm) fs (None, None)) (\<lambda>r.
            case r of
              (None, _) \<Rightarrow> Inl (''map-column: missing '' @ backquoted ''keys-encoded'')
            | (Some a, None) \<Rightarrow> Inl (''map-column: missing '' @ backquoted ''vals-encoded'')
            | (Some a, Some b) \<Rightarrow> Inr \<lparr>mc_keys_encoded = a, mc_vals_encoded = b\<rparr>)
      | other \<Rightarrow> Inl (''map-column: expected Value::Record, got '' @ dbg fm other))"

definition pack_map_column :: "map_column \<Rightarrow> wvalue" where
  "pack_map_column m =
     V_Record [(''keys-encoded'', bytes_to_value_list (mc_keys_encoded m)),
       (''vals-encoded'', bytes_to_value_list (mc_vals_encoded m))]"

definition array_column_field ::
  "fmt \<Rightarrow> u32 option \<times> u8 list option \<Rightarrow> string \<Rightarrow> wvalue \<Rightarrow> string + (u32 option \<times> u8 list option)" where
  "array_column_field fm st k v =
     (if k = ''size'' then (case v of V_U32 n \<Rightarrow> Inr (Some n, snd st) | _ \<Rightarrow> Inr st)
      else rbind (bytes_scan fm ''array-column'' ''encoded'' (snd st) k v) (\<lambda>b. Inr (fst st, b)))"

definition unpack_array_column :: "fmt \<Rightarrow> wvalue \<Rightarrow> string + array_column" where
  "unpack_array_column fm v =
     (case v of
        V_Record fs \<Rightarrow>
          rbind (scan_fields (array_column_field fm) fs (None, None)) (\<lambda>r.
            case r of
              (None, _) \<Rightarrow> Inl (''array-column: missing '' @ backquoted ''size: u32'')
            | (Some n, None) \<Rightarrow> Inl (''array-column: missing '' @ backquoted ''encoded: list<u8>'')
            | (Some n, Some b) \<Rightarrow> Inr \<lparr>ac_size = n, ac_encoded = b\<rparr>)
      | other \<Rightarrow> Inl (''array-column: expected Value::Record, got '' @ dbg fm other))"

definition pack_array_column :: "array_column \<Rightarrow> wvalue" where
  "pack_array_column a =
     V_Record [(''size'', V_U32 (ac_size a)), (''encoded'', bytes_to_value_list (ac_encoded a))]"

section \<open>Columns\<close>

text \<open>The arms whose payload is a list of one form, and those whose payload is a list of records.\<close>

definition list_arm :: "fmt \<Rightarrow> string \<Rightarrow> wvalue list \<Rightarrow> (string + column) option" where
  "list_arm fm disc items =
     (let s64 = (\<lambda>c. Some (map_sum (\<lambda>e. e) c (list_of fm ''list_of_s64'' ''S64'' as_s64 items)));
          s32 = (\<lambda>c. Some (map_sum (\<lambda>e. e) c (list_of fm ''list_of_s32'' ''S32'' as_s32 items)))
      in if disc = ''boolean'' then Some (map_sum (\<lambda>e. e) C_Boolean (list_of fm ''boolean'' ''bool'' as_bool items))
         else if disc = ''int64'' then s64 C_Int64
         else if disc = ''uint64'' then Some (map_sum (\<lambda>e. e) C_Uint64 (list_of fm ''list_of_u64'' ''U64'' as_u64 items))
         else if disc = ''float64'' then Some (map_sum (\<lambda>e. e) C_Float64 (list_of fm ''list_of_f64'' ''F64'' as_f64 items))
         else if disc = ''int32'' then s32 C_Int32
         else if disc = ''timestamp'' then s64 C_Timestamp
         else if disc = ''int8'' then Some (map_sum (\<lambda>e. e) C_Int8 (list_of fm ''list_of_s8'' ''S8'' as_s8 items))
         else if disc = ''int16'' then Some (map_sum (\<lambda>e. e) C_Int16 (list_of fm ''list_of_s16'' ''S16'' as_s16 items))
         else if disc = ''uint8'' then Some (map_sum (\<lambda>e. e) C_Uint8 (list_of fm ''list_of_u8'' ''U8'' as_u8 items))
         else if disc = ''uint16'' then Some (map_sum (\<lambda>e. e) C_Uint16 (list_of fm ''list_of_u16'' ''U16'' as_u16 items))
         else if disc = ''uint32'' then Some (map_sum (\<lambda>e. e) C_Uint32 (list_of fm ''list_of_u32'' ''U32'' as_u32 items))
         else if disc = ''float32'' then Some (map_sum (\<lambda>e. e) C_Float32 (list_of fm ''list_of_f32'' ''F32'' as_f32 items))
         else if disc = ''date'' then s32 C_Date
         else if disc = ''time'' then s64 C_Time
         else if disc = ''timestamptz'' then s64 C_Timestamptz
         else if disc = ''text'' then Some (map_sum (\<lambda>e. e) C_Text (list_of fm ''text'' ''string'' as_string items))
         else None)"

fun blob_items :: "fmt \<Rightarrow> nat \<Rightarrow> wvalue list \<Rightarrow> string + u8 list list" where
  "blob_items fm i [] = Inr []"
| "blob_items fm i (v # vs) =
     rbind (case v of
        V_Bytes b \<Rightarrow> Inr b
      | V_List inner \<Rightarrow> bytes_from_value_list fm (''column.blob['' @ show_nat i @ '']'') inner
      | other \<Rightarrow> Inl (''column.blob['' @ show_nat i @ '']: expected list<u8>/bytes, got '' @ dbg fm other)) (\<lambda>b.
     rbind (blob_items fm (Suc i) vs) (\<lambda>bs. Inr (b # bs)))"

definition record_list_arm :: "fmt \<Rightarrow> string \<Rightarrow> wvalue list \<Rightarrow> (string + column) option" where
  "record_list_arm fm disc items =
     (if disc = ''decimal'' then Some (map_sum (\<lambda>e. e) C_Decimal (rmap (unpack_decimalvalue fm) items))
      else if disc = ''interval'' then Some (map_sum (\<lambda>e. e) C_Interval (rmap (unpack_intervalvalue fm) items))
      else if disc = ''uuid'' then Some (map_sum (\<lambda>e. e) C_Uuid (rmap (unpack_uuidvalue fm) items))
      else if disc = ''blob'' then Some (map_sum (\<lambda>e. e) C_Blob (blob_items fm 0 items))
      else if disc = ''hugeint'' then Some (map_sum (\<lambda>e. e) C_Hugeint (rmap (unpack_duck_int128 fm) items))
      else if disc = ''uhugeint'' then Some (map_sum (\<lambda>e. e) C_Uhugeint (rmap (unpack_duck_uint128 fm) items))
      else if disc = ''complex'' then Some (map_sum (\<lambda>e. e) C_Complex (rmap (unpack_complexvalue fm) items))
      else None)"

definition nested_arm :: "fmt \<Rightarrow> string \<Rightarrow> wvalue \<Rightarrow> (string + column) option" where
  "nested_arm fm disc p =
     (if disc = ''list-col'' then Some (map_sum (\<lambda>e. e) C_ListCol (unpack_nested_column fm p))
      else if disc = ''struct-col'' then Some (map_sum (\<lambda>e. e) C_StructCol (unpack_nested_column fm p))
      else if disc = ''map-col'' then Some (map_sum (\<lambda>e. e) C_MapCol (unpack_map_column fm p))
      else if disc = ''array-col'' then Some (map_sum (\<lambda>e. e) C_ArrayCol (unpack_array_column fm p))
      else None)"

text \<open>The first of several arms that applies.\<close>

definition first_arm :: "'a option \<Rightarrow> 'a option \<Rightarrow> 'a option" where
  "first_arm a b = (case a of Some x \<Rightarrow> Some x | None \<Rightarrow> b)"

definition column_arm :: "fmt \<Rightarrow> string \<Rightarrow> wvalue \<Rightarrow> (string + column) option" where
  "column_arm fm disc p =
     (case p of
        V_List items \<Rightarrow> first_arm (list_arm fm disc items) (first_arm (record_list_arm fm disc items) (nested_arm fm disc p))
      | V_Bytes b \<Rightarrow> if disc = ''uint8'' then Some (Inr (C_Uint8 b)) else nested_arm fm disc p
      | _ \<Rightarrow> nested_arm fm disc p)"

definition value_to_core_column :: "fmt \<Rightarrow> wvalue \<Rightarrow> string + column" where
  "value_to_core_column fm v =
     (case v of
        V_Variant disc payload \<Rightarrow>
          (case Option.bind payload (column_arm fm disc) of
             Some r \<Rightarrow> r
           | None \<Rightarrow> Inl (''column: unknown or mistyped arm ('' @ dbg_str fm disc @ '', '' @ dbg_opt fm payload @ '')''))
      | other \<Rightarrow> Inl (''column: expected Value::Variant, got '' @ dbg fm other))"

definition core_column_to_value :: "column \<Rightarrow> wvalue" where
  "core_column_to_value c =
     (let (disc, payload) = (case c of
        C_Boolean v \<Rightarrow> (''boolean'', V_List (map V_Bool v))
      | C_Int64 v \<Rightarrow> (''int64'', V_List (map V_S64 v))
      | C_Uint64 v \<Rightarrow> (''uint64'', V_List (map V_U64 v))
      | C_Float64 v \<Rightarrow> (''float64'', V_List (map V_F64 v))
      | C_Int32 v \<Rightarrow> (''int32'', V_List (map V_S32 v))
      | C_Timestamp v \<Rightarrow> (''timestamp'', V_List (map V_S64 v))
      | C_Int8 v \<Rightarrow> (''int8'', V_List (map V_S8 v))
      | C_Int16 v \<Rightarrow> (''int16'', V_List (map V_S16 v))
      | C_Uint8 v \<Rightarrow> (''uint8'', V_List (map V_U8 v))
      | C_Uint16 v \<Rightarrow> (''uint16'', V_List (map V_U16 v))
      | C_Uint32 v \<Rightarrow> (''uint32'', V_List (map V_U32 v))
      | C_Float32 v \<Rightarrow> (''float32'', V_List (map V_F32 v))
      | C_Date v \<Rightarrow> (''date'', V_List (map V_S32 v))
      | C_Time v \<Rightarrow> (''time'', V_List (map V_S64 v))
      | C_Timestamptz v \<Rightarrow> (''timestamptz'', V_List (map V_S64 v))
      | C_Decimal v \<Rightarrow> (''decimal'', V_List (map pack_decimalvalue v))
      | C_Interval v \<Rightarrow> (''interval'', V_List (map pack_intervalvalue v))
      | C_Uuid v \<Rightarrow> (''uuid'', V_List (map pack_uuidvalue v))
      | C_Text v \<Rightarrow> (''text'', V_List (map V_String v))
      | C_Blob v \<Rightarrow> (''blob'', V_List (map bytes_to_value_list v))
      | C_Hugeint v \<Rightarrow> (''hugeint'', V_List (map pack_duck_int128 v))
      | C_Uhugeint v \<Rightarrow> (''uhugeint'', V_List (map pack_duck_uint128 v))
      | C_ListCol n \<Rightarrow> (''list-col'', pack_nested_column n)
      | C_StructCol n \<Rightarrow> (''struct-col'', pack_nested_column n)
      | C_MapCol m \<Rightarrow> (''map-col'', pack_map_column m)
      | C_ArrayCol a \<Rightarrow> (''array-col'', pack_array_column a)
      | C_Complex v \<Rightarrow> (''complex'', V_List (map pack_complexvalue v)))
      in V_Variant disc (Some payload))"

section \<open>Column vectors\<close>

definition colvec_field ::
  "fmt \<Rightarrow> column option \<times> u8 list option \<times> u32 option \<Rightarrow> string \<Rightarrow> wvalue \<Rightarrow>
     string + (column option \<times> u8 list option \<times> u32 option)" where
  "colvec_field fm st k v =
     (if k = ''data'' then rbind (value_to_core_column fm v) (\<lambda>c. Inr (Some c, snd st))
      else if k = ''validity'' then rbind (bytes_scan fm ''colvec'' ''validity'' (fst (snd st)) k v) (\<lambda>b. Inr (fst st, b, snd (snd st)))
      else if k = ''rows'' then (case v of V_U32 n \<Rightarrow> Inr (fst st, fst (snd st), Some n) | _ \<Rightarrow> Inr st)
      else Inr st)"

definition value_to_core_colvec :: "fmt \<Rightarrow> wvalue \<Rightarrow> string + colvec" where
  "value_to_core_colvec fm v =
     (case v of
        V_Record fs \<Rightarrow>
          rbind (scan_fields (colvec_field fm) fs (None, None, None)) (\<lambda>r.
            case r of
              (None, _, _) \<Rightarrow> Inl (''colvec: missing '' @ backquoted ''data: column'')
            | (Some c, None, _) \<Rightarrow> Inl (''colvec: missing '' @ backquoted ''validity: list<u8>'')
            | (Some c, Some b, None) \<Rightarrow> Inl (''colvec: missing '' @ backquoted ''rows: u32'')
            | (Some c, Some b, Some n) \<Rightarrow> Inr \<lparr>cv_data = c, cv_validity = b, cv_rows = n\<rparr>)
      | other \<Rightarrow> Inl (''colvec: expected Value::Record, got '' @ dbg fm other))"

definition core_colvec_to_value :: "colvec \<Rightarrow> wvalue" where
  "core_colvec_to_value c =
     V_Record [(''data'', core_column_to_value (cv_data c)), (''validity'', bytes_to_value_list (cv_validity c)),
       (''rows'', V_U32 (cv_rows c))]"

end
