(* ===== verification/Httpd.thy ===== *)
theory Httpd
  imports Json_Text Host_State Core_Codec
begin

text \<open>
  The HTTP server (\<open>crates/ducklink-host/src/httpd.rs\<close>): reading a request from a connection, the
  built-in endpoints, the routes that live in a table of the database, and the response. A connection
  is the list of bytes that the peer sends; the core, the handler components and the JSON parser are
  parameters. \<^const>\<open>None\<close>: a panic of the server.
\<close>

section \<open>Calls into the core\<close>

text \<open>\<open>'s\<close> is the state of the core and of everything behind it.\<close>

record 's core_port =
  cp_call :: "string \<Rightarrow> wvalue list \<Rightarrow> 's \<Rightarrow> (string + wvalue list) \<times> 's"
  cp_drop :: "core_handle \<Rightarrow> 's \<Rightarrow> (string + unit) \<times> 's"
  cp_fmt :: fmt
  cp_printers :: printers

definition port_export ::
  "'s core_port \<Rightarrow> string \<Rightarrow> core_handle \<Rightarrow> wvalue list \<Rightarrow> 's \<Rightarrow> (string + wvalue list) \<times> 's" where
  "port_export C mth handle args = cp_call C (cli_db_iface @ ''#'' @ mth) (handle_value handle # args)"

definition execute_on_handle ::
  "'s core_port \<Rightarrow> core_handle \<Rightarrow> string \<Rightarrow> 's \<Rightarrow> (string + (duckerror + query_result)) \<times> 's" where
  "execute_on_handle C conn sql s =
     (case port_export C ''execute'' conn [V_String sql] s of
        (Inl trap, s1) \<Rightarrow> (Inl trap, s1)
      | (Inr ret, s1) \<Rightarrow> (execute_reply (cp_fmt C) ret, s1))"

definition prepare_on_handle ::
  "'s core_port \<Rightarrow> core_handle \<Rightarrow> string \<Rightarrow> 's \<Rightarrow> (string + (verb_err + core_handle)) \<times> 's" where
  "prepare_on_handle C conn sql s =
     (case cp_call C (cli_db_iface @ ''#prepare'') [handle_value conn, V_String sql] s of
        (Inl trap, s1) \<Rightarrow> (Inl trap, s1)
      | (Inr ret, s1) \<Rightarrow> (returned_resource (cp_fmt C) ''database.prepare'' True ret, s1))"

definition rows_of :: "query_result \<Rightarrow> rows_t" where
  "rows_of qr = \<lparr>rs_cols = map cd_name (qr_columns qr), rs_rows = map (map convert_cli_duckvalue) (qr_rows qr)\<rparr>"

definition db_query :: "'s core_port \<Rightarrow> core_handle \<Rightarrow> string \<Rightarrow> 's \<Rightarrow> (string + rows_t) \<times> 's" where
  "db_query C conn sql s =
     (case execute_on_handle C conn sql s of
        (Inr (Inr qr), s1) \<Rightarrow> (Inr (rows_of qr), s1)
      | (Inr (Inl e), s1) \<Rightarrow> (Inl (cli_duckerror_message e), s1)
      | (Inl trap, s1) \<Rightarrow> (Inl trap, s1))"

definition bound_params :: "nat \<Rightarrow> duckvalue list \<Rightarrow> duckvalue list" where
  "bound_params n params = map (\<lambda>i. if i < length params then params ! i else D_Null) [0..<n]"

definition prepared_rows :: "fmt \<Rightarrow> wvalue list \<Rightarrow> string + rows_t" where
  "prepared_rows fm ret =
     (case ret of
        [V_Result (Inr (Some p))] \<Rightarrow>
          (case value_to_query_result fm p of
             Inr qr \<Rightarrow> Inr (rows_of qr)
           | Inl e \<Rightarrow> Inl (''execute unpack: '' @ e))
      | [V_Result (Inl (Some p))] \<Rightarrow> Inl (cli_duckerror_message (value_to_duckerror fm p ''prepared.execute''))
      | other \<Rightarrow> Inl (''prepared.execute unexpected shape: '' @ dbg_slice fm other))"

definition run_prepared ::
  "'s core_port \<Rightarrow> core_handle \<Rightarrow> nat \<Rightarrow> duckvalue list \<Rightarrow> 's \<Rightarrow> (string + rows_t) \<times> 's" where
  "run_prepared C prepared n params s =
     (case port_export C ''[method]prepared-statement.execute'' prepared
         [V_List (map (\<lambda>v. cli_duckvalue_to_value (convert_core_duckvalue v)) (bound_params n params))] s of
        (result, s1) \<Rightarrow>
          (rbind result (prepared_rows (cp_fmt C)), snd (cp_drop C prepared s1)))"

definition parameter_count :: "fmt \<Rightarrow> wvalue list \<Rightarrow> string + nat" where
  "parameter_count fm ret =
     (case ret of
        [V_U32 n] \<Rightarrow> Inr (unat n)
      | other \<Rightarrow> Inl (''parameter-count unexpected: '' @ dbg_slice fm other))"

definition db_query_params ::
  "'s core_port \<Rightarrow> core_handle \<Rightarrow> string \<Rightarrow> duckvalue list \<Rightarrow> 's \<Rightarrow> (string + rows_t) \<times> 's" where
  "db_query_params C conn sql params s =
     (case prepare_on_handle C conn sql s of
        (Inl trap, s1) \<Rightarrow> (Inl trap, s1)
      | (Inr (Inl (Verb_Duck e)), s1) \<Rightarrow> (Inl (cli_duckerror_message e), s1)
      | (Inr (Inl (Verb_Text t)), s1) \<Rightarrow> (Inl t, s1)
      | (Inr (Inr prepared), s1) \<Rightarrow>
          (case port_export C ''[method]prepared-statement.parameter-count'' prepared [] s1 of
             (Inl trap, s2) \<Rightarrow> (Inl trap, s2)
           | (Inr ret, s2) \<Rightarrow>
               (case parameter_count (cp_fmt C) ret of
                  Inl e \<Rightarrow> (Inl e, s2)
                | Inr n \<Rightarrow> run_prepared C prepared n params s2)))"

section \<open>Values\<close>

definition opt_text :: "string option \<Rightarrow> duckvalue" where
  "opt_text v = (case v of Some s \<Rightarrow> D_Text s | None \<Rightarrow> D_Null)"

definition dv_as_str :: "duckvalue \<Rightarrow> string option" where
  "dv_as_str v = (case v of D_Text s \<Rightarrow> Some s | _ \<Rightarrow> None)"

definition dv_as_i64 :: "duckvalue \<Rightarrow> i64 option" where
  "dv_as_i64 v = (case v of D_Int64 i \<Rightarrow> Some i | D_Uint64 u \<Rightarrow> Some u | _ \<Rightarrow> None)"

definition dv_to_body_bytes :: "printers \<Rightarrow> duckvalue \<Rightarrow> string" where
  "dv_to_body_bytes pr v =
     (case v of
        D_Null \<Rightarrow> []
      | D_Boolean b \<Rightarrow> if b then ''true'' else ''false''
      | D_Int64 n \<Rightarrow> show_signed n
      | D_Uint64 n \<Rightarrow> show_word n
      | D_Float64 f \<Rightarrow> show_f64 pr f
      | D_Text s \<Rightarrow> s
      | D_Blob b \<Rightarrow> map (\<lambda>x. nat_byte (unat x)) b
      | D_Int32 n \<Rightarrow> show_signed n
      | D_Timestamp n \<Rightarrow> show_signed n
      | D_Int8 n \<Rightarrow> show_signed n
      | D_Int16 n \<Rightarrow> show_signed n
      | D_Uint8 n \<Rightarrow> show_word n
      | D_Uint16 n \<Rightarrow> show_word n
      | D_Uint32 n \<Rightarrow> show_word n
      | D_Float32 f \<Rightarrow> show_f32 pr f
      | D_Date n \<Rightarrow> show_signed n
      | D_Time n \<Rightarrow> show_signed n
      | D_Timestamptz n \<Rightarrow> show_signed n
      | D_Decimal d \<Rightarrow> format_decimal (dec_lower d) (dec_upper d) (dec_width d) (dec_scale d)
      | D_Interval iv \<Rightarrow> interval_text (iv_months iv) (iv_days iv) (iv_micros iv)
      | D_Uuid u \<Rightarrow> format_uuid (uuid_hi u) (uuid_lo u)
      | D_Hugeint h \<Rightarrow> format_hugeint (huge_lower h) (huge_upper h)
      | D_Uhugeint h \<Rightarrow> format_uhugeint (uhuge_lower h) (uhuge_upper h)
      | D_Complex c \<Rightarrow> cx_json c)"

definition clamp_status :: "i64 \<Rightarrow> u16" where
  "clamp_status s = (if 100 \<le> sint s \<and> sint s \<le> 599 then ucast s else 200)"

section \<open>Responses\<close>

record http_response =
  hr_status :: u16
  hr_ctype :: string
  hr_body :: string

definition http_text :: "u16 \<Rightarrow> string \<Rightarrow> http_response" where
  "http_text status body = \<lparr>hr_status = status, hr_ctype = ''text/plain; charset=utf-8'', hr_body = body\<rparr>"

definition http_json :: "u16 \<Rightarrow> string \<Rightarrow> http_response" where
  "http_json status body = \<lparr>hr_status = status, hr_ctype = ''application/json'', hr_body = body\<rparr>"

definition http_error :: "u16 \<Rightarrow> string \<Rightarrow> http_response" where
  "http_error status msg = http_json status (''{'' @ json_string ''error'' @ '':'' @ json_string msg @ ''}'')"

definition reason_phrase :: "u16 \<Rightarrow> string" where
  "reason_phrase status =
     (if status = 200 then ''OK'' else if status = 201 then ''Created'' else if status = 204 then ''No Content''
      else if status = 400 then ''Bad Request'' else if status = 404 then ''Not Found''
      else if status = 422 then ''Unprocessable Entity'' else if status = 500 then ''Internal Server Error''
      else if status = 501 then ''Not Implemented'' else ''OK'')"

definition crlf :: string where "crlf = [CHR 0x0D, CHR 0x0A]"

definition write_response :: "u16 \<Rightarrow> string \<Rightarrow> string \<Rightarrow> string" where
  "write_response status ctype body =
     ''HTTP/1.1 '' @ show_word status @ '' '' @ reason_phrase status @ crlf
       @ ''Content-Type: '' @ ctype @ crlf
       @ ''Content-Length: '' @ show_nat (length body) @ crlf
       @ ''Connection: close'' @ crlf @ ''Access-Control-Allow-Origin: *'' @ crlf @ crlf @ body"

section \<open>Requests\<close>

record http_request =
  rq_method :: string
  rq_path :: string
  rq_query :: "string option"
  rq_headers :: "(string \<times> string) list"
  rq_body :: string

text \<open>\<open>BufRead::read_line\<close>: up to and with the line feed, or to the end; a line that is no UTF-8 is an error.\<close>

definition take_line :: "string \<Rightarrow> string \<times> string" where
  "take_line s =
     (let l = takeWhile (\<lambda>c. c \<noteq> CHR 0x0A) s
      in if length l = length s then (s, []) else (l @ [CHR 0x0A], drop (Suc (length l)) s))"

definition read_line :: "string \<Rightarrow> string + (string \<times> string)" where
  "read_line s =
     (case take_line s of
        (l, r) \<Rightarrow> if utf8 l then Inr (l, r) else Inl ''stream did not contain valid UTF-8'')"

lemma take_line_shorter: "s \<noteq> [] \<Longrightarrow> take_line s = (l, r) \<Longrightarrow> length r < length s"
  by (cases s) (auto simp: take_line_def Let_def split: if_splits)

text \<open>\<open>parse::<usize>()\<close>, 64 bits wide.\<close>

definition parse_usize :: "string \<Rightarrow> nat option" where
  "parse_usize s =
     (let ds = (case s of c # r \<Rightarrow> if c = CHR ''+'' then r else s | [] \<Rightarrow> [])
      in if ds = [] \<or> \<not> list_all is_ascii_digit ds then None
         else if decimal ds < 2 ^ 64 then Some (decimal ds) else None)"

definition header_line :: "string \<Rightarrow> nat \<Rightarrow> (string \<times> string) list \<Rightarrow> nat \<times> (string \<times> string) list" where
  "header_line trimmed len hs =
     (case split_once (CHR '':'') trimmed of
        None \<Rightarrow> (len, hs)
      | Some (k, v) \<Rightarrow>
          (if eq_ignore_case (trim k) ''content-length''
           then (case parse_usize (trim v) of Some n \<Rightarrow> n | None \<Rightarrow> 0) else len,
           hs @ [(lower (trim k), trim v)]))"

function read_headers ::
  "string \<Rightarrow> nat \<Rightarrow> (string \<times> string) list \<Rightarrow> string + (nat \<times> (string \<times> string) list \<times> string)" where
  "read_headers s len hs =
     (if s = [] then Inr (len, hs, s)
      else (case read_line s of
          Inl e \<Rightarrow> Inl e
        | Inr (l, r) \<Rightarrow>
            if trim_end l = [] then Inr (len, hs, r)
            else (case header_line (trim_end l) len hs of (len1, hs1) \<Rightarrow> read_headers r len1 hs1)))"
  by pat_completeness auto
termination
  by (relation "measure (\<lambda>(s, _). length s)") (auto simp: read_line_def dest: take_line_shorter split: prod.splits if_splits)

declare read_headers.simps [simp del]

definition nth_word :: "nat \<Rightarrow> string list \<Rightarrow> string" where
  "nth_word i ws = (if i < length ws then ws ! i else [])"

definition request_target :: "string \<Rightarrow> string \<times> string option" where
  "request_target target =
     (case split_once (CHR ''?'') target of Some (p, q) \<Rightarrow> (p, Some q) | None \<Rightarrow> (target, None))"

definition read_request :: "string \<Rightarrow> (string + http_request option) option" where
  "read_request s =
     (if s = [] then Some (Inr None)
      else (case read_line s of
          Inl e \<Rightarrow> Some (Inl e)
        | Inr (l, r) \<Rightarrow>
            (let ws = split_whitespace l; target = request_target (nth_word 1 ws)
             in case read_headers r 0 [] of
                  Inl e \<Rightarrow> Some (Inl e)
                | Inr (len, hs, rest) \<Rightarrow>
                    if 2 ^ 63 \<le> len then None
                    else if length rest < len then Some (Inl ''failed to fill whole buffer'')
                    else Some (Inr (Some \<lparr>rq_method = nth_word 0 ws, rq_path = fst target, rq_query = snd target,
                        rq_headers = hs, rq_body = take len rest\<rparr>)))))"

text \<open>A byte of a percent escape, else the byte itself; a plus sign is a space.\<close>

function percent_go :: "string \<Rightarrow> string" where
  "percent_go [] = []"
| "percent_go (c # s) =
     (if c = CHR ''%'' \<and> 2 \<le> length s then
        (case (hex_val (s ! 0), hex_val (s ! 1)) of
           (Some h, Some l) \<Rightarrow> nat_byte (16 * h + l) # percent_go (drop 2 s)
         | _ \<Rightarrow> c # percent_go s)
      else if c = CHR ''+'' then CHR '' '' # percent_go s
      else c # percent_go s)"
  by pat_completeness auto
termination by (relation "measure length") auto

definition percent_decode :: "string \<Rightarrow> string" where
  "percent_decode s = from_utf8_lossy (percent_go s)"

fun q_param :: "string list \<Rightarrow> string option" where
  "q_param [] = None"
| "q_param (pair # pairs) =
     (case split_once (CHR ''='') pair of
        Some (k, v) \<Rightarrow> if k = ''q'' then Some (percent_decode v) else q_param pairs
      | None \<Rightarrow> if pair = ''q'' then None else q_param pairs)"

definition parse_q :: "string \<Rightarrow> string option" where
  "parse_q query = q_param (split_char (CHR ''&'') query)"

section \<open>Handler components\<close>

text \<open>
  \<open>HandlerRegistry\<close> (\<open>crates/ducklink-host/src/handler.rs\<close>): the components by name. Each call has a
  fresh instance; starting it and calling its export are the runtime's.
\<close>

record 's registry =
  hg_known :: "string \<Rightarrow> bool"
  hg_start :: "string \<Rightarrow> 's \<Rightarrow> (string + unit) \<times> 's"
  hg_call :: "string \<Rightarrow> string \<Rightarrow> wvalue list \<Rightarrow> 's \<Rightarrow> (string + wvalue list) \<times> 's"

definition em_dash :: string where "em_dash = [CHR 0xE2, CHR 0x80, CHR 0x94]"

definition handler_reply :: "fmt \<Rightarrow> string \<Rightarrow> wvalue list \<Rightarrow> string + (string + string)" where
  "handler_reply fm name ret =
     (let what = ''handler `'' @ name @ ''`: ''
      in case ret of
           [V_Result (Inr (Some (V_String s)))] \<Rightarrow> Inr (Inr s)
         | [V_Result (Inr (Some other))] \<Rightarrow> Inl (what @ ''expected Value::String in Ok payload, got '' @ dbg fm other)
         | [V_Result (Inl (Some (V_String s)))] \<Rightarrow> Inr (Inl s)
         | [V_Result (Inl (Some other))] \<Rightarrow> Inl (what @ ''expected Value::String in Err payload, got '' @ dbg fm other)
         | [V_Result _] \<Rightarrow> Inl (what @ ''result<string, string> payload was None '' @ em_dash @ '' contract violation'')
         | other \<Rightarrow> Inl (what @ ''expected exactly one Value::Result return, got '' @ dbg_slice fm other))"

definition invoke ::
  "fmt \<Rightarrow> 's registry \<Rightarrow> string \<Rightarrow> string \<Rightarrow> 's \<Rightarrow> (string + (string + string)) \<times> 's" where
  "invoke fm R name request s =
     (if \<not> hg_known R name
      then (Inl (''no handler named `'' @ name @ ''` (pass --load '' @ name @ ''=PATH)''), s)
      else (case hg_start R name s of
          (Inl e, s1) \<Rightarrow> (Inl (''handler `'' @ name @ ''` instantiate: '' @ e), s1)
        | (Inr _, s1) \<Rightarrow>
            (case hg_call R name ''duckdb:handler/handler#handle'' [V_String request] s1 of
               (Inl e, s2) \<Rightarrow> (Inl (''handler `'' @ name @ ''` call: '' @ e), s2)
             | (Inr ret, s2) \<Rightarrow> (handler_reply fm name ret, s2))))"

section \<open>Routes\<close>

datatype route_kind = K_Sql | K_Static | K_Wasm | K_Blob

definition route_kind_parse :: "string \<Rightarrow> route_kind" where
  "route_kind_parse s =
     (if lower s = ''static'' then K_Static else if lower s = ''wasm'' then K_Wasm
      else if lower s = ''blob'' then K_Blob else K_Sql)"

record route_match =
  rm_kind :: route_kind
  rm_handler :: string
  rm_status :: i64
  rm_ctype :: "string option"

text \<open>What the server needs of the JSON parser: objects, integers, strings, null and the printed form.\<close>

record 'j reply_json =
  rj_object :: "'j \<Rightarrow> (string \<rightharpoonup> 'j) option"
  rj_i64 :: "'j \<Rightarrow> i64 option"
  rj_str :: "'j \<Rightarrow> string option"
  rj_null :: "'j \<Rightarrow> bool"
  rj_text :: "'j \<Rightarrow> string"

record ('s, 'j) httpd =
  hd_core :: "'s core_port"
  hd_conn :: core_handle
  hd_routes :: string
  hd_handlers :: "'s registry option"
  hd_json :: "'j reply_json"
  hd_parse :: "string \<Rightarrow> 'j option"
  hd_alnum :: "nat \<Rightarrow> bool"

abbreviation hd_printers :: "('s, 'j) httpd \<Rightarrow> printers" where
  "hd_printers S \<equiv> cp_printers (hd_core S)"

definition ident_chars :: "(nat \<Rightarrow> bool) \<Rightarrow> string \<Rightarrow> bool" where
  "ident_chars table s \<longleftrightarrow> list_all (\<lambda>c. char_alnum table c \<or> c = ''_'') (utf8_chars s)"

definition is_safe_ident :: "(nat \<Rightarrow> bool) \<Rightarrow> string \<Rightarrow> bool" where
  "is_safe_ident table s \<longleftrightarrow> s \<noteq> [] \<and> ident_chars table s"

definition lookup_sql :: "string \<Rightarrow> string \<Rightarrow> string" where
  "lookup_sql kind table =
     ''SELECT handler, COALESCE(status, 200), ctype, '' @ kind @ '' FROM '' @ table
       @ '' WHERE (method = $1 OR method = '' @ quoted ''*'' @ '') AND $2 GLOB pattern''
       @ '' ORDER BY priority DESC, length(pattern) DESC LIMIT 1''"

definition kind_column :: string where
  "kind_column = ''COALESCE(kind, '' @ quoted ''sql'' @ '')''"

definition nth_value :: "nat \<Rightarrow> duckvalue list \<Rightarrow> duckvalue option" where
  "nth_value i row = (if i < length row then Some (row ! i) else None)"

definition route_of_row :: "duckvalue list \<Rightarrow> route_match option" where
  "route_of_row row =
     (let handler = (case Option.bind (nth_value 0 row) dv_as_str of Some s \<Rightarrow> s | None \<Rightarrow> [])
      in if handler = [] then None
         else Some \<lparr>rm_kind = (case Option.bind (nth_value 3 row) dv_as_str of
                                 Some k \<Rightarrow> route_kind_parse k | None \<Rightarrow> K_Sql),
                    rm_handler = handler,
                    rm_status = (case Option.bind (nth_value 1 row) dv_as_i64 of Some n \<Rightarrow> n | None \<Rightarrow> 200),
                    rm_ctype = Option.bind (nth_value 2 row) dv_as_str\<rparr>)"

definition first_route :: "rows_t \<Rightarrow> route_match option" where
  "first_route rows = (case rs_rows rows of [] \<Rightarrow> None | row # _ \<Rightarrow> route_of_row row)"

definition lookup_route ::
  "('s, 'j) httpd \<Rightarrow> string \<Rightarrow> string \<Rightarrow> 's \<Rightarrow> (string + route_match option) \<times> 's" where
  "lookup_route S mth path s =
     (let C = hd_core S; conn = hd_conn S; table = hd_routes S; params = [D_Text mth, D_Text path]
      in if \<not> is_safe_ident (hd_alnum S) table then (Inl ''bad routes table name'', s)
         else (case db_query_params C conn (lookup_sql kind_column table) params s of
             (Inr rows, s1) \<Rightarrow> (Inr (first_route rows), s1)
           | (Inl e, s1) \<Rightarrow>
               if contains ''kind'' e
               then (case db_query_params C conn (lookup_sql (quoted ''sql'') table) params s1 of
                   (r, s2) \<Rightarrow> (map_sum (\<lambda>e. e) first_route r, s2))
               else (Inl e, s1)))"

section \<open>Route handlers\<close>

text \<open>The request as the JSON text that a handler component receives.\<close>

definition body_json :: "string \<Rightarrow> string" where
  "body_json body =
     (case from_utf8 body of
        Some s \<Rightarrow> ''{'' @ json_string ''text'' @ '':'' @ json_string s @ ''}''
      | None \<Rightarrow> ''{'' @ json_string ''bytes_hex'' @ '':'' @ [CHR 0x22]
          @ concat (map (\<lambda>b. hex2_lower (byte_nat b)) body) @ [CHR 0x22] @ ''}'')"

definition build_request_json :: "http_request \<Rightarrow> string \<Rightarrow> string" where
  "build_request_json req peer =
     ''{'' @ json_string ''method'' @ '':'' @ json_string (rq_method req)
       @ '','' @ json_string ''path'' @ '':'' @ json_string (rq_path req)
       @ '','' @ json_string ''query'' @ '':'' @ (case rq_query req of Some q \<Rightarrow> json_string q | None \<Rightarrow> ''null'')
       @ '','' @ json_string ''remote'' @ '':'' @ json_string peer
       @ '','' @ json_string ''headers'' @ '':{''
       @ join '','' (map (\<lambda>(k, v). json_string k @ '':'' @ json_string v) (rq_headers req))
       @ ''},'' @ json_string ''body'' @ '':'' @ body_json (rq_body req) @ ''}''"

definition parse_structured_response ::
  "('s, 'j) httpd \<Rightarrow> string \<Rightarrow> (u16 option \<times> string option \<times> string) option" where
  "parse_structured_response S text =
     (let J = hd_json S
      in Option.bind (hd_parse S text) (\<lambda>v. Option.bind (rj_object J v) (\<lambda>obj.
           if obj ''status'' = None \<and> obj ''body'' = None \<and> obj ''ctype'' = None then None
           else Some (map_option clamp_status (Option.bind (obj ''status'') (rj_i64 J)),
                      Option.bind (obj ''ctype'') (rj_str J),
                      (case obj ''body'' of
                         None \<Rightarrow> []
                       | Some b \<Rightarrow> (case rj_str J b of Some t \<Rightarrow> t | None \<Rightarrow> if rj_null J b then [] else rj_text J b))))))"

definition or_default :: "'a option \<Rightarrow> 'a \<Rightarrow> 'a" where
  "or_default m d = (case m of Some a \<Rightarrow> a | None \<Rightarrow> d)"

definition parse_handler_response :: "('s, 'j) httpd \<Rightarrow> route_match \<Rightarrow> string \<Rightarrow> http_response" where
  "parse_handler_response S m body =
     (case parse_structured_response S body of
        Some (status, ctype, bytes) \<Rightarrow>
          \<lparr>hr_status = or_default status (clamp_status (rm_status m)),
           hr_ctype = or_default ctype (or_default (rm_ctype m) ''application/json''), hr_body = bytes\<rparr>
      | None \<Rightarrow> \<lparr>hr_status = clamp_status (rm_status m),
           hr_ctype = or_default (rm_ctype m) ''application/json'', hr_body = body\<rparr>)"

definition execute_wasm ::
  "('s, 'j) httpd \<Rightarrow> route_match \<Rightarrow> http_request \<Rightarrow> string \<Rightarrow> 's \<Rightarrow> http_response \<times> 's" where
  "execute_wasm S m req peer s =
     (case hd_handlers S of
        None \<Rightarrow> (http_error 501 ''wasm route hit but no handlers loaded (pass --load NAME=PATH)'', s)
      | Some R \<Rightarrow>
          (case invoke (cp_fmt (hd_core S)) R (rm_handler m) (build_request_json req peer) s of
             (Inr (Inr body), s1) \<Rightarrow> (parse_handler_response S m body, s1)
           | (Inr (Inl e), s1) \<Rightarrow> (http_error 500 (''handler `'' @ rm_handler m @ ''`: '' @ e), s1)
           | (Inl e, s1) \<Rightarrow> (http_error 500 (''handler `'' @ rm_handler m @ ''` dispatch: '' @ e), s1)))"

text \<open>The names after a dollar sign, in order.\<close>

definition name_char :: "char \<Rightarrow> bool" where
  "name_char c \<longleftrightarrow> is_ascii_alnum c \<or> c = CHR ''_''"

function dollar_names :: "string \<Rightarrow> string list" where
  "dollar_names [] = []"
| "dollar_names (c # s) =
     (if c = CHR ''$'' then takeWhile name_char s # dollar_names (dropWhile name_char s) else dollar_names s)"
  by pat_completeness auto
termination by (relation "measure length") (auto simp: length_dropWhile_le le_imp_less_Suc)

definition known_params :: "http_request \<Rightarrow> string \<Rightarrow> (string \<times> duckvalue) list" where
  "known_params req peer =
     [(''method'', D_Text (rq_method req)), (''path'', D_Text (rq_path req)), (''query'', opt_text (rq_query req)),
      (''body'', opt_text (from_utf8 (rq_body req))), (''remote'', D_Text peer)]"

fun pick_params :: "string set \<Rightarrow> (string \<times> duckvalue) list \<Rightarrow> string list \<Rightarrow> duckvalue list" where
  "pick_params seen known [] = []"
| "pick_params seen known (n # ns) =
     (case map_of known n of
        Some v \<Rightarrow> if n \<in> seen then pick_params seen known ns else v # pick_params (insert n seen) known ns
      | None \<Rightarrow> pick_params seen known ns)"

definition ordered_handler_params :: "string \<Rightarrow> http_request \<Rightarrow> string \<Rightarrow> duckvalue list" where
  "ordered_handler_params sql req peer = pick_params {} (known_params req peer) (dollar_names sql)"

section \<open>Results of a route\<close>

definition structured_row :: "printers \<Rightarrow> route_match \<Rightarrow> string list \<Rightarrow> duckvalue list \<Rightarrow> http_response" where
  "structured_row pr m cols row =
     (let at_col = (\<lambda>c. Option.bind c (\<lambda>i. nth_value i row));
          column = (\<lambda>name. position (\<lambda>c. c = name) cols);
          ctype_idx = (case column ''ctype'' of Some i \<Rightarrow> Some i | None \<Rightarrow> column ''content_type'')
      in \<lparr>hr_status = or_default (map_option clamp_status (Option.bind (at_col (column ''status'')) dv_as_i64))
            (clamp_status (rm_status m)),
          hr_ctype = or_default (Option.bind (at_col ctype_idx) dv_as_str)
            (or_default (rm_ctype m) ''application/json''),
          hr_body = or_default (map_option (dv_to_body_bytes pr) (at_col (column ''body''))) []\<rparr>)"

definition build_route_response :: "printers \<Rightarrow> route_match \<Rightarrow> rows_t \<Rightarrow> http_response option" where
  "build_route_response pr m rows =
     (let cols = rs_cols rows;
          plain = (\<lambda>body. \<lparr>hr_status = clamp_status (rm_status m),
                     hr_ctype = or_default (rm_ctype m) ''application/json'', hr_body = body\<rparr>)
      in case rs_rows rows of
           [] \<Rightarrow> Some \<lparr>hr_status = 204, hr_ctype = or_default (rm_ctype m) ''application/json'', hr_body = []\<rparr>
         | [row] \<Rightarrow>
             if \<exists>c \<in> set cols. c \<in> {''body'', ''status'', ''ctype'', ''content_type''}
             then Some (structured_row pr m cols row)
             else if length cols = 1
             then (case row of [] \<Rightarrow> None | v # _ \<Rightarrow> Some (plain (dv_to_body_bytes pr v)))
             else Some (plain (row_to_json_object pr cols row))
         | many \<Rightarrow> Some (plain (''['' @ join '','' (map (row_to_json_object pr cols) many) @ '']'')))"

definition execute_sql_route ::
  "('s, 'j) httpd \<Rightarrow> route_match \<Rightarrow> http_request \<Rightarrow> string \<Rightarrow> 's \<Rightarrow> (http_response \<times> 's) option" where
  "execute_sql_route S m req peer s =
     (case db_query_params (hd_core S) (hd_conn S) (rm_handler m)
         (ordered_handler_params (rm_handler m) req peer) s of
        (Inr rows, s1) \<Rightarrow> map_option (\<lambda>r. (r, s1)) (build_route_response (hd_printers S) m rows)
      | (Inl e, s1) \<Rightarrow> Some (http_error 500 e, s1))"

definition blob_response :: "printers \<Rightarrow> route_match \<Rightarrow> rows_t \<Rightarrow> http_response" where
  "blob_response pr m rows =
     (case rs_rows rows of
        [] \<Rightarrow> http_text 404 ''not found''
      | row # _ \<Rightarrow> \<lparr>hr_status = clamp_status (rm_status m),
          hr_ctype = or_default (rm_ctype m) ''application/octet-stream'',
          hr_body = (case row of [] \<Rightarrow> [] | v # _ \<Rightarrow> dv_to_body_bytes pr v)\<rparr>)"

definition execute_blob ::
  "('s, 'j) httpd \<Rightarrow> route_match \<Rightarrow> http_request \<Rightarrow> string \<Rightarrow> 's \<Rightarrow> http_response \<times> 's" where
  "execute_blob S m req peer s =
     (case db_query_params (hd_core S) (hd_conn S) (rm_handler m)
         (ordered_handler_params (rm_handler m) req peer) s of
        (Inr rows, s1) \<Rightarrow> (blob_response (hd_printers S) m rows, s1)
      | (Inl e, s1) \<Rightarrow> (http_error 500 e, s1))"

definition execute_route ::
  "('s, 'j) httpd \<Rightarrow> route_match \<Rightarrow> http_request \<Rightarrow> string \<Rightarrow> 's \<Rightarrow> (http_response \<times> 's) option" where
  "execute_route S m req peer s =
     (case rm_kind m of
        K_Static \<Rightarrow> Some (\<lparr>hr_status = clamp_status (rm_status m),
            hr_ctype = or_default (rm_ctype m) ''text/plain; charset=utf-8'', hr_body = rm_handler m\<rparr>, s)
      | K_Wasm \<Rightarrow> Some (execute_wasm S m req peer s)
      | K_Sql \<Rightarrow> execute_sql_route S m req peer s
      | K_Blob \<Rightarrow> Some (execute_blob S m req peer s))"

section \<open>Handling a request\<close>

definition run_admin_sql :: "('s, 'j) httpd \<Rightarrow> string \<Rightarrow> 's \<Rightarrow> http_response \<times> 's" where
  "run_admin_sql S sql s =
     (if sql = [] then (http_json 200 (rows_to_result_json (hd_printers S) \<lparr>rs_cols = [], rs_rows = []\<rparr>), s)
      else (case db_query (hd_core S) (hd_conn S) sql s of
          (Inr rows, s1) \<Rightarrow> (http_json 200 (rows_to_result_json (hd_printers S) rows), s1)
        | (Inl e, s1) \<Rightarrow> (http_error 422 e, s1)))"

definition tables_sql :: string where
  "tables_sql = ''SELECT table_name FROM information_schema.tables WHERE table_schema = '' @ quoted ''main''
     @ '' ORDER BY table_name''"

definition schema_sql :: "string \<Rightarrow> string" where
  "schema_sql name = ''SELECT * FROM pragma_table_info('' @ quoted name @ '')''"

definition is_builtin :: "string \<Rightarrow> string \<Rightarrow> bool" where
  "is_builtin mth path \<longleftrightarrow>
     (mth, path) \<in> {(''GET'', ''/health''), (''GET'', ''/sql''), (''POST'', ''/sql''), (''GET'', ''/tables'')}
     \<or> starts_with ''/schema/'' path"

definition handle_builtin :: "('s, 'j) httpd \<Rightarrow> http_request \<Rightarrow> 's \<Rightarrow> http_response \<times> 's" where
  "handle_builtin S req s =
     (let mth = rq_method req; path = rq_path req
      in if mth = ''GET'' \<and> path = ''/health'' then (http_text 200 ''ok'', s)
         else if mth = ''GET'' \<and> path = ''/tables'' then run_admin_sql S tables_sql s
         else if mth = ''GET'' \<and> starts_with ''/schema/'' path then
           (let name = drop 8 path
            in if name = [] \<or> \<not> ident_chars (hd_alnum S) name then (http_error 400 ''bad table name'', s)
               else run_admin_sql S (schema_sql name) s)
         else if mth = ''POST'' \<and> path = ''/sql'' then
           (case from_utf8 (rq_body req) of
              Some sql \<Rightarrow> run_admin_sql S (trim sql) s
            | None \<Rightarrow> (http_error 400 ''body not UTF-8'', s))
         else if mth = ''GET'' \<and> path = ''/sql'' then
           (case Option.bind (rq_query req) parse_q of
              Some sql \<Rightarrow> run_admin_sql S sql s
            | None \<Rightarrow> (http_error 400 ''missing q parameter'', s))
         else (http_error 404 ''no such route'', s))"

definition handle_request ::
  "('s, 'j) httpd \<Rightarrow> http_request \<Rightarrow> string \<Rightarrow> 's \<Rightarrow> (http_response \<times> 's) option" where
  "handle_request S req peer s =
     (if is_builtin (rq_method req) (rq_path req) then Some (handle_builtin S req s)
      else (case lookup_route S (rq_method req) (rq_path req) s of
          (Inr (Some m), s1) \<Rightarrow> execute_route S m req peer s1
        | (_, s1) \<Rightarrow> Some (handle_builtin S req s1)))"

text \<open>A connection: the bytes it sends, and the bytes it is sent; an error of the connection is its text.\<close>

definition serve_conn ::
  "('s, 'j) httpd \<Rightarrow> string \<Rightarrow> string \<Rightarrow> 's \<Rightarrow> ((string + string) \<times> 's) option" where
  "serve_conn S peer input s =
     (case read_request input of
        None \<Rightarrow> None
      | Some (Inl e) \<Rightarrow> Some (Inl e, s)
      | Some (Inr None) \<Rightarrow> Some (Inr [], s)
      | Some (Inr (Some req)) \<Rightarrow>
          map_option (\<lambda>(r, s1). (Inr (write_response (hr_status r) (hr_ctype r) (hr_body r)), s1))
            (handle_request S req peer s))"

text \<open>The table of routes at startup.\<close>

definition ddl_column :: "string \<Rightarrow> string" where
  "ddl_column text = CHR 0x0A # replicate 12 (CHR 0x20) @ text"

definition routes_ddl :: "string \<Rightarrow> string" where
  "routes_ddl table =
     ''CREATE TABLE IF NOT EXISTS '' @ table @ '' (''
     @ ddl_column ''method   VARCHAR NOT NULL,''
     @ ddl_column ''pattern  VARCHAR NOT NULL,''
     @ ddl_column ''handler  VARCHAR NOT NULL,''
     @ ddl_column (''kind     VARCHAR NOT NULL DEFAULT '' @ quoted ''sql'' @ '','')
     @ ddl_column ''status   INTEGER DEFAULT 200,''
     @ ddl_column ''ctype    VARCHAR,''
     @ ddl_column ''priority INTEGER DEFAULT 0''
     @ CHR 0x0A # replicate 9 (CHR 0x20) @ '')''"

definition routes_seed :: "string \<Rightarrow> string" where
  "routes_seed table =
     (let q = CHR 0x27
      in ''INSERT INTO '' @ table @ '' (method, pattern, handler, kind, ctype) VALUES (''
         @ quoted ''GET'' @ '', '' @ quoted ''/hello'' @ '', ''
         @ quoted (''SELECT '' @ [q, q] @ ''{}'' @ [q, q] @ '' AS body'') @ '', '' @ quoted ''sql'' @ '', ''
         @ quoted ''application/json'' @ '')'')"

definition init_routes_table :: "('s, 'j) httpd \<Rightarrow> 's \<Rightarrow> (string + unit) \<times> 's" where
  "init_routes_table S s =
     (let C = hd_core S; conn = hd_conn S; table = hd_routes S
      in if \<not> is_safe_ident (hd_alnum S) table then (Inl ''bad routes table name'', s)
         else hbind (db_query C conn (routes_ddl table)) (\<lambda>_.
              hbind (db_query C conn (''SELECT count(*) FROM '' @ table)) (\<lambda>rows.
              let n = (case rs_rows rows of (v # _) # _ \<Rightarrow> or_default (dv_as_i64 v) 0 | _ \<Rightarrow> 0)
              in if n = 0 then hbind (db_query C conn (routes_seed table)) (\<lambda>_. hpure (Inr ()))
                 else hpure (Inr ()))) s)"

end
