(* ===== verification/Httpd_Json.thy ===== *)
theory Httpd_Json
  imports Httpd
begin

text \<open>
  The JSON of the server as documents: what \<open>rows_to_result_json\<close> and \<open>build_request_json\<close> of
  \<open>crates/ducklink-host/src/httpd.rs\<close> write, a reader of JSON gets back exactly.
\<close>

section \<open>Numbers\<close>

lemma digits_number_text:
  assumes "s \<noteq> []" "list_all is_ascii_digit s"
  shows "number_text s" "number_text (CHR ''-'' # s)"
  using assms by (auto simp: number_text_def number_char_def list_all_iff)

lemma show_nat_number [simp]: "number_text (show_nat n)" "number_text (CHR ''-'' # show_nat n)"
  using digits_number_text show_nat_decimal by blast+

lemma show_word_number [simp]: "number_text (show_word w)"
  by (simp add: show_word_def)

lemma show_signed_number [simp]: "number_text (show_signed w)"
  by (simp add: show_signed_def show_int_def)

lemma format_decimal_number [simp]: "number_text (format_decimal lo up wd scale)"
proof -
  define s where "s = (let digits = show_nat (nat \<bar>sint (wide up lo)\<bar>); n = unat scale
    in if n = 0 then digits
       else (let ds = pad0 (n + 1) digits; point = length ds - n in take point ds @ ''.'' @ drop point ds))"
  have point: "number_char (CHR ''.'')" by (simp add: number_char_def)
  have ds: "list_all number_char (pad0 k (show_nat m))" for k m
    using pad0_digits(1) [of k m] by (auto simp: list_all_iff number_char_def)
  have "list_all number_char (take i (pad0 k (show_nat m)) @ ''.'' @ drop i (pad0 k (show_nat m)))" for i k m
    using ds [of k m] point by (auto simp: list_all_iff dest: in_set_takeD in_set_dropD)
  then have "number_text s"
    using show_nat_number(1) by (auto simp: s_def Let_def number_text_def)
  then have "number_text s" "number_text (CHR ''-'' # s)"
    by (simp_all add: number_text_def number_char_def)
  moreover have "format_decimal lo up wd scale = (if sint (wide up lo) < 0 then CHR ''-'' # s else s)"
    by (simp add: format_decimal_def s_def Let_def)
  ultimately show ?thesis by simp
qed

section \<open>Results\<close>

text \<open>
  The document of a value. A value that is JSON text of a component already (\<open>D_Complex\<close>) has
  none of its own, and the printers of floats have to print numbers; a double that is not finite is
  written as a string, a float is not.
\<close>

definition value_doc :: "printers \<Rightarrow> duckvalue \<Rightarrow> doc" where
  "value_doc pr v =
     (case v of
        D_Null \<Rightarrow> Doc_Null
      | D_Boolean b \<Rightarrow> Doc_Bool b
      | D_Text s \<Rightarrow> Doc_Str s
      | D_Blob b \<Rightarrow> Doc_Str (CHR 0x5C # ''x'' @ show_nat (length b) @ '' bytes'')
      | D_Interval iv \<Rightarrow> Doc_Str (interval_text (iv_months iv) (iv_days iv) (iv_micros iv))
      | D_Uuid u \<Rightarrow> Doc_Str (format_uuid (uuid_hi u) (uuid_lo u))
      | D_Float64 f \<Rightarrow> if f64_is_finite f then Doc_Num (show_f64 pr f) else Doc_Str (show_f64 pr f)
      | _ \<Rightarrow> Doc_Num (json_value pr v))"

definition plain_value :: "printers \<Rightarrow> duckvalue \<Rightarrow> bool" where
  "plain_value pr v \<longleftrightarrow>
     (case v of
        D_Complex c \<Rightarrow> False
      | D_Float64 f \<Rightarrow> f64_is_finite f \<longrightarrow> number_text (show_f64 pr f)
      | D_Float32 f \<Rightarrow> number_text (show_f32 pr f)
      | _ \<Rightarrow> True)"

lemma value_doc_text: "plain_value pr v \<Longrightarrow> doc_text (value_doc pr v) = json_value pr v"
  by (cases v) (auto simp: value_doc_def json_value_def plain_value_def)

lemma value_doc_ok: "plain_value pr v \<Longrightarrow> doc_ok (value_doc pr v)"
  by (cases v) (auto simp: value_doc_def json_value_def plain_value_def format_hugeint_def format_uhugeint_def)

definition result_doc :: "printers \<Rightarrow> rows_t \<Rightarrow> doc" where
  "result_doc pr rows =
     Doc_Obj
       [(''columns'', Doc_Arr (map Doc_Str (rs_cols rows))),
        (''rows'', Doc_Arr (map (\<lambda>row. Doc_Arr (map (value_doc pr) row)) (rs_rows rows))),
        (''rowcount'', Doc_Num (show_nat (length (rs_rows rows))))]"

lemma result_doc_text:
  assumes "\<forall>row \<in> set (rs_rows rows). list_all (plain_value pr) row"
  shows "doc_text (result_doc pr rows) = rows_to_result_json pr rows"
proof -
  have row: "doc_text (Doc_Arr (map (value_doc pr) row)) = json_row pr row" if "row \<in> set (rs_rows rows)" for row
  proof -
    have "map doc_text (map (value_doc pr) row) = map (json_value pr) row"
      using assms that by (simp add: list_all_iff value_doc_text)
    then show ?thesis by (simp only: json_row_def doc_text.simps)
  qed
  have "map doc_text (map (\<lambda>row. Doc_Arr (map (value_doc pr) row)) (rs_rows rows)) = map (json_row pr) (rs_rows rows)"
    using row by (simp del: doc_text.simps)
  moreover have "map doc_text (map Doc_Str (rs_cols rows)) = map json_string (rs_cols rows)" by simp
  ultimately show ?thesis
    by (simp only: result_doc_def rows_to_result_json_def doc_text.simps list.map prod.case) simp
qed

section \<open>What a document says of a value\<close>

text \<open>The number that a numeral of JSON without an exponent stands for: its digits as an integer, and how many of them follow the point.\<close>

definition read_numeral :: "string \<Rightarrow> (int \<times> nat) option" where
  "read_numeral s =
     (let neg = (s \<noteq> [] \<and> hd s = CHR ''-''); t = (if neg then tl s else s);
          ip = takeWhile is_ascii_digit t; r = dropWhile is_ascii_digit t; sign = (if neg then -1 else 1)
      in if ip = [] then None
         else if r = [] then Some (sign * int (decimal ip), 0)
         else if hd r = CHR ''.'' \<and> tl r \<noteq> [] \<and> list_all is_ascii_digit (tl r)
         then Some (sign * int (decimal (ip @ tl r)), length (tl r))
         else None)"

text \<open>The number that a value is, likewise.\<close>

definition number_of :: "duckvalue \<Rightarrow> (int \<times> nat) option" where
  "number_of v =
     (case v of
        D_Int64 n \<Rightarrow> Some (sint n, 0) | D_Int32 n \<Rightarrow> Some (sint n, 0) | D_Int16 n \<Rightarrow> Some (sint n, 0)
      | D_Int8 n \<Rightarrow> Some (sint n, 0) | D_Uint64 n \<Rightarrow> Some (uint n, 0) | D_Uint32 n \<Rightarrow> Some (uint n, 0)
      | D_Uint16 n \<Rightarrow> Some (uint n, 0) | D_Uint8 n \<Rightarrow> Some (uint n, 0)
      | D_Timestamp n \<Rightarrow> Some (sint n, 0) | D_Timestamptz n \<Rightarrow> Some (sint n, 0)
      | D_Date n \<Rightarrow> Some (sint n, 0) | D_Time n \<Rightarrow> Some (sint n, 0)
      | D_Hugeint h \<Rightarrow> Some (sint (huge_upper h) * 2 ^ 64 + uint (huge_lower h), 0)
      | D_Uhugeint h \<Rightarrow> Some (uint (uhuge_upper h) * 2 ^ 64 + uint (uhuge_lower h), 0)
      | D_Decimal d \<Rightarrow> Some (sint (dec_upper d) * 2 ^ 64 + uint (dec_lower d), unat (dec_scale d))
      | _ \<Rightarrow> None)"

definition hex_number :: "string \<Rightarrow> nat" where
  "hex_number s = foldl (\<lambda>n c. 16 * n + (case hex_val c of Some d \<Rightarrow> d | None \<Rightarrow> 0)) 0 s"

definition shows_uuid :: "int \<Rightarrow> string \<Rightarrow> bool" where
  "shows_uuid k s \<longleftrightarrow>
     (\<exists>a b c d e. s = a @ ''-'' @ b @ ''-'' @ c @ ''-'' @ d @ ''-'' @ e
        \<and> length a = 8 \<and> length b = 4 \<and> length c = 4 \<and> length d = 4 \<and> length e = 12
        \<and> int (hex_number (a @ b @ c @ d @ e)) = k)"

definition shows_interval :: "int \<Rightarrow> int \<Rightarrow> int \<Rightarrow> string \<Rightarrow> bool" where
  "shows_interval months days micros s \<longleftrightarrow>
     (\<exists>a b c. s = a @ ''mon '' @ b @ ''d '' @ c @ ''us''
        \<and> read_numeral a = Some (months, 0) \<and> read_numeral b = Some (days, 0) \<and> read_numeral c = Some (micros, 0))"

text \<open>
  A float is the text of its printer; a double that is not finite is that text as a string. A value
  that is JSON text of a component already (\<open>D_Complex\<close>) has no document of its own.
\<close>

definition shows_value :: "printers \<Rightarrow> duckvalue \<Rightarrow> doc \<Rightarrow> bool" where
  "shows_value pr v d \<longleftrightarrow>
     (case v of
        D_Null \<Rightarrow> d = Doc_Null
      | D_Boolean b \<Rightarrow> d = Doc_Bool b
      | D_Text s \<Rightarrow> d = Doc_Str s
      | D_Blob b \<Rightarrow> \<exists>t. d = Doc_Str (CHR 0x5C # ''x'' @ t @ '' bytes'') \<and> read_numeral t = Some (int (length b), 0)
      | D_Interval iv \<Rightarrow> \<exists>t. d = Doc_Str t \<and> shows_interval (sint (iv_months iv)) (sint (iv_days iv)) (sint (iv_micros iv)) t
      | D_Uuid u \<Rightarrow> \<exists>t. d = Doc_Str t \<and> shows_uuid (uint (uuid_hi u) * 2 ^ 64 + uint (uuid_lo u)) t
      | D_Float64 f \<Rightarrow> d = (if f64_is_finite f then Doc_Num (show_f64 pr f) else Doc_Str (show_f64 pr f))
      | D_Float32 f \<Rightarrow> d = Doc_Num (show_f32 pr f)
      | D_Complex c \<Rightarrow> False
      | _ \<Rightarrow> \<exists>t. d = Doc_Num t \<and> read_numeral t = number_of v)"

section \<open>Numerals\<close>

lemma digits_read:
  assumes "ip \<noteq> []" "list_all is_ascii_digit ip"
  shows "read_numeral ip = Some (int (decimal ip), 0)" "read_numeral (CHR ''-'' # ip) = Some (- int (decimal ip), 0)"
proof -
  have t: "takeWhile is_ascii_digit ip = ip" "dropWhile is_ascii_digit ip = []"
    using assms(2) by (auto simp: list_all_iff takeWhile_eq_all_conv dropWhile_eq_Nil_conv)
  have "hd ip \<noteq> CHR ''-''" using assms by (cases ip) (auto simp: is_ascii_digit_def)
  then show "read_numeral ip = Some (int (decimal ip), 0)" "read_numeral (CHR ''-'' # ip) = Some (- int (decimal ip), 0)"
    using assms(1) by (simp_all add: read_numeral_def Let_def t)
qed

lemma point_read:
  assumes "ip \<noteq> []" "fp \<noteq> []" "list_all is_ascii_digit (ip @ fp)"
  shows "read_numeral (ip @ ''.'' @ fp) = Some (int (decimal (ip @ fp)), length fp)"
    "read_numeral (CHR ''-'' # ip @ ''.'' @ fp) = Some (- int (decimal (ip @ fp)), length fp)"
proof -
  have p: "\<not> is_ascii_digit (CHR ''.'')" by (simp add: is_ascii_digit_def)
  have "takeWhile is_ascii_digit (ip @ CHR ''.'' # fp) = ip" "dropWhile is_ascii_digit (ip @ CHR ''.'' # fp) = CHR ''.'' # fp"
    using assms(3) p by (auto simp: list_all_iff takeWhile_append dropWhile_append)
  moreover have "hd (ip @ CHR ''.'' # fp) \<noteq> CHR ''-''" using assms(1,3) by (cases ip) (auto simp: is_ascii_digit_def)
  ultimately show "read_numeral (ip @ ''.'' @ fp) = Some (int (decimal (ip @ fp)), length fp)"
    "read_numeral (CHR ''-'' # ip @ ''.'' @ fp) = Some (- int (decimal (ip @ fp)), length fp)"
    using assms by (simp_all add: read_numeral_def Let_def)
qed

lemma nat_read [simp]: "read_numeral (show_nat n) = Some (int n, 0)"
  using digits_read(1) [of "show_nat n"] show_nat_decimal [of n] by simp

lemma int_read [simp]: "read_numeral (show_int i) = Some (i, 0)"
  using digits_read(2) [of "show_nat (nat (- i))"] show_nat_decimal [of "nat (- i)"] by (simp add: show_int_def)

lemma signed_read [simp]: "read_numeral (show_signed w) = Some (sint w, 0)"
  by (simp add: show_signed_def)

lemma word_read [simp]: "read_numeral (show_word w) = Some (uint w, 0)"
  by (simp add: show_word_def)

lemma decimal_read: "read_numeral (format_decimal lo up wd scale) = Some (sint (wide up lo), unat scale)"
proof -
  let ?raw = "sint (wide up lo)" and ?n = "unat scale"
  let ?ds = "pad0 (?n + 1) (show_nat (nat \<bar>?raw\<bar>))"
  have dig: "list_all is_ascii_digit ?ds" "decimal ?ds = nat \<bar>?raw\<bar>" by (simp_all add: pad0_digits)
  have len: "?n + 1 \<le> length ?ds" by (simp add: pad0_def)
  show ?thesis
  proof (cases "?n = 0")
    case True
    have "read_numeral (show_nat k) = Some (int k, 0)" "read_numeral (CHR ''-'' # show_nat k) = Some (- int k, 0)" for k
      using digits_read [of "show_nat k"] show_nat_decimal [of k] by simp_all
    then show ?thesis using True by (simp add: format_decimal_def Let_def)
  next
    case False
    define ip fp where p: "ip = take (length ?ds - ?n) ?ds" "fp = drop (length ?ds - ?n) ?ds"
    have ds: "ip @ fp = ?ds" by (simp add: p)
    have "ip \<noteq> []" "fp \<noteq> []" "length fp = ?n" using len False unfolding p by (auto simp del: length_0_conv simp flip: length_0_conv)
    moreover have "list_all is_ascii_digit (ip @ fp)" "int (decimal (ip @ fp)) = \<bar>?raw\<bar>" using dig unfolding ds by simp_all
    ultimately have "read_numeral (ip @ ''.'' @ fp) = Some (\<bar>?raw\<bar>, ?n)"
      "read_numeral (CHR ''-'' # ip @ ''.'' @ fp) = Some (- \<bar>?raw\<bar>, ?n)"
      using point_read [of ip fp] by simp_all
    moreover have "format_decimal lo up wd scale = (if ?raw < 0 then CHR ''-'' # ip @ ''.'' @ fp else ip @ ''.'' @ fp)"
      using False by (simp only: format_decimal_def Let_def p if_False)
    ultimately show ?thesis by simp
  qed
qed

section \<open>Words of 128 bits\<close>

lemma uint_wide: "uint (wide up lo) = uint up * 2 ^ 64 + uint lo"
proof -
  have u: "uint up < 2 ^ 64" "uint lo < 2 ^ 64" using uint_lt2p [of up] uint_lt2p [of lo] by simp_all
  then have "uint up \<le> 2 ^ 64 - 1" by simp
  then have b: "uint up * 2 ^ 64 < 2 ^ 128" by simp
  have c: "uint (ucast x :: 128 word) = uint x" for x :: u64
    by (simp add: unsigned_ucast_eq take_bit_int_eq_self_iff) (use uint_lt2p [of x] in simp)
  have "uint (push_bit 64 (ucast up :: 128 word)) = push_bit 64 (uint up)"
    unfolding unsigned_push_bit_eq c using b by (simp add: take_bit_int_eq_self_iff push_bit_eq_mult)
  then have "uint (wide up lo) = concat_bit 64 (uint lo) (uint up)"
    unfolding wide_def unsigned_or_eq c concat_bit_def take_bit_int_eq_self [OF unsigned_greater_eq u(2)]
    by (simp only: or.commute)
  then show ?thesis using u by (simp add: concat_bit_eq take_bit_int_eq_self_iff push_bit_eq_mult)
qed

lemma sint_wide: "sint (wide up lo) = sint up * 2 ^ 64 + uint lo"
proof -
  have l: "uint lo < 2 ^ 64" "0 \<le> uint lo" using uint_lt2p [of lo] by simp_all
  have s: "- (2 ^ 63) \<le> sint up" "sint up \<le> 2 ^ 63 - 1" using sint_ge [of up] sint_lt [of up] by simp_all
  have "(word_of_int (sint up * 2 ^ 64 + uint lo) :: 128 word) = word_of_int (uint up * 2 ^ 64 + uint lo)"
  proof -
    have "sint up mod 2 ^ 64 = uint up" using uint_sint [of up] by (simp add: take_bit_eq_mod)
    then obtain k where "sint up = uint up + 2 ^ 64 * k" by (metis mult.commute mod_mult_div_eq)
    then have "sint up * 2 ^ 64 + uint lo = uint up * 2 ^ 64 + uint lo + 2 ^ 128 * k" by simp
    then have e: "sint up * 2 ^ 64 + uint lo = uint up * 2 ^ 64 + uint lo + 2 ^ 128 * k" .
    show ?thesis unfolding word_of_int_eq_iff e by (simp add: take_bit_eq_mod)
  qed
  also have "\<dots> = wide up lo" by (metis uint_wide word_of_int_uint)
  finally have w: "wide up lo = word_of_int (sint up * 2 ^ 64 + uint lo)" by simp
  have p: "- (2 ^ 63) * 2 ^ 64 \<le> sint up * 2 ^ 64" "sint up * 2 ^ 64 \<le> (2 ^ 63 - 1) * 2 ^ 64"
    by (rule mult_right_mono; use s in simp)+
  have "- (2 ^ 63) * 2 ^ 64 + 0 \<le> sint up * 2 ^ 64 + uint lo" by (rule add_mono [OF p(1) l(2)])
  moreover have "sint up * 2 ^ 64 + uint lo < (2 ^ 63 - 1) * 2 ^ 64 + 2 ^ 64" by (rule add_le_less_mono [OF p(2) l(1)])
  ultimately have b: "- (2 ^ 127) \<le> sint up * 2 ^ 64 + uint lo" "sint up * 2 ^ 64 + uint lo < 2 ^ 127" by simp_all
  have "signed_take_bit 127 (sint up * 2 ^ 64 + uint lo) = sint up * 2 ^ 64 + uint lo"
    by (rule signed_take_bit_int_eq_self) (use b in simp_all)
  then show ?thesis unfolding w signed_of_int by simp
qed

section \<open>UUIDs\<close>

lemma hex_number_snoc: "d < 16 \<Longrightarrow> hex_number (s @ [hex_digit_lower d]) = 16 * hex_number s + d"
  by (simp add: hex_number_def hex_val_lower)

lemma hex32_number: "hex_number (hex32 v) = unat v"
proof -
  have "k \<le> 32 \<Longrightarrow> hex_number (map (\<lambda>i. hex_digit_lower (unat (drop_bit (4 * (31 - i)) v) mod 16)) [0..<k])
      = unat v div 2 ^ (4 * (32 - k))" for k
  proof (induction k)
    case 0
    have "unat v < 2 ^ LENGTH(128)" by (rule unsigned_less)
    then have "unat v < 2 ^ 128" by simp
    then show ?case by (simp add: hex_number_def)
  next
    case (Suc k)
    have e: "4 * (32 - k) = 4 * (31 - k) + 4" using Suc.prems by simp
    have "unat v div 2 ^ (4 * (32 - k)) = unat v div 2 ^ (4 * (31 - k)) div 16"
      unfolding e by (simp add: power_add div_mult2_eq)
    moreover have "unat (drop_bit (4 * (31 - k)) v) = unat v div 2 ^ (4 * (31 - k))"
      unfolding unat_drop_bit_eq by (simp add: drop_bit_eq_div)
    ultimately show ?case
      using Suc by (simp add: hex_number_snoc)
  qed
  from this [of 32] show ?thesis by (simp add: hex32_def)
qed

lemma uuid_shown: "shows_uuid (uint hi * 2 ^ 64 + uint lo) (format_uuid hi lo)"
proof -
  let ?h = "hex32 (wide hi lo)"
  have len: "length ?h = 32" by (simp add: hex32_def)
  have "?h = take 8 ?h @ take 4 (drop 8 ?h) @ take 4 (drop 12 ?h) @ take 4 (drop 16 ?h) @ take 12 (drop 20 ?h)"
  proof -
    have "take 12 (drop 20 ?h) = drop 20 ?h" using len by simp
    moreover have "take 4 (drop (n + 4) ?h) @ drop (n + 8) ?h = drop (n + 4) ?h" for n
      by (metis append_take_drop_id drop_drop add.commute add.assoc numeral_Bit0)
    ultimately show ?thesis
      using append_take_drop_id [of 8 ?h] append_take_drop_id [of 4 "drop 8 ?h"] append_take_drop_id [of 4 "drop 12 ?h"]
        append_take_drop_id [of 4 "drop 16 ?h"] by simp
  qed
  moreover have "int (hex_number ?h) = uint hi * 2 ^ 64 + uint lo"
    by (simp add: hex32_number uint_wide flip: uint_nat)
  ultimately show ?thesis
    unfolding shows_uuid_def format_uuid_def Let_def using len
    by (intro exI [of _ "take 8 ?h"] exI [of _ "take 4 (drop 8 ?h)"] exI [of _ "take 4 (drop 12 ?h)"]
        exI [of _ "take 4 (drop 16 ?h)"] exI [of _ "take 12 (drop 20 ?h)"]) simp
qed

lemma value_doc_shows: "plain_value pr v \<Longrightarrow> shows_value pr v (value_doc pr v)"
proof (cases v)
  case (D_Interval iv)
  have "shows_interval (sint (iv_months iv)) (sint (iv_days iv)) (sint (iv_micros iv))
      (interval_text (iv_months iv) (iv_days iv) (iv_micros iv))"
    unfolding shows_interval_def interval_text_def by (intro exI conjI; (rule refl)?) simp_all
  then show ?thesis by (simp add: D_Interval shows_value_def value_doc_def)
next
  case (D_Blob b)
  then show ?thesis by (simp add: shows_value_def value_doc_def)
next
  case (D_Uuid u)
  then show ?thesis using uuid_shown [of "uuid_hi u" "uuid_lo u"] by (simp add: shows_value_def value_doc_def)
qed (auto simp: shows_value_def value_doc_def json_value_def plain_value_def number_of_def decimal_read sint_wide uint_wide
    format_hugeint_def format_uhugeint_def uuid_shown)

text \<open>
  C33. The answer of \<open>/sql\<close>, \<open>/tables\<close> and \<open>/schema\<close> is one JSON document, whatever quotes, backslashes and
  control characters the names and texts contain: it holds the names of the columns, every row with a
  document for each of its values in order, and the number of rows. The document of an integer, a
  date, a time, a 128-bit integer or a decimal is a numeral that reads as exactly this number with
  this scale; of a text the text; of a UUID its 32 hexadecimal digits; of an interval its three
  numbers; of a BLOB only its length. Values that are JSON already (\<open>D_Complex\<close>) and floats whose
  printer does not print a number, such as a \<open>Float32\<close> that is not finite, are excluded.
\<close>

theorem result_json_reads_back:
  assumes "\<forall>row \<in> set (rs_rows rows). list_all (plain_value pr) row"
  shows "\<exists>docs n. read_document (rows_to_result_json pr rows) =
        Some (Doc_Obj [(''columns'', Doc_Arr (map Doc_Str (rs_cols rows))), (''rows'', Doc_Arr (map Doc_Arr docs)), (''rowcount'', Doc_Num n)])
      \<and> list_all2 (list_all2 (shows_value pr)) (rs_rows rows) docs
      \<and> read_numeral n = Some (int (length (rs_rows rows)), 0)"
proof -
  have "doc_ok (result_doc pr rows)"
    using assms by (auto simp: result_doc_def list_all_iff value_doc_ok)
  then have "read_document (rows_to_result_json pr rows) = Some (result_doc pr rows)"
    using read_document_text result_doc_text [OF assms] by metis
  moreover have "list_all2 (list_all2 (shows_value pr)) (rs_rows rows) (map (map (value_doc pr)) (rs_rows rows))"
    using assms by (auto simp: list.rel_map list_all_iff value_doc_shows intro!: list.rel_refl_strong)
  ultimately show ?thesis
    by (intro exI [of _ "map (map (value_doc pr)) (rs_rows rows)"] exI [of _ "show_nat (length (rs_rows rows))"])
      (simp add: result_doc_def comp_def)
qed

theorem result_json_reads_back_witness:
  "\<exists>pr t a b. read_document (rows_to_result_json pr
        \<lparr>rs_cols = [[CHR 0x22]], rs_rows = [[D_Text [CHR 0x5C, CHR 0x0A]], [D_Int64 (- 7)], [D_Uint8 250]]\<rparr>)
      = Some (Doc_Obj [(''columns'', Doc_Arr [Doc_Str [CHR 0x22]]),
          (''rows'', Doc_Arr [Doc_Arr [Doc_Str [CHR 0x5C, CHR 0x0A]], Doc_Arr [Doc_Num a], Doc_Arr [Doc_Num b]]),
          (''rowcount'', Doc_Num t)])
    \<and> read_numeral a = Some (-7, 0) \<and> read_numeral b = Some (250, 0) \<and> read_numeral t = Some (3, 0)"
proof -
  let ?pr = "\<lparr>show_f64 = \<lambda>f. ''0'', show_f32 = \<lambda>f. ''0'', debug_duckvalue = \<lambda>v. []\<rparr> :: printers"
  let ?rows = "\<lparr>rs_cols = [[CHR 0x22]], rs_rows = [[D_Text [CHR 0x5C, CHR 0x0A]], [D_Int64 (- 7)], [D_Uint8 250]]\<rparr> :: rows_t"
  have "\<forall>row \<in> set (rs_rows ?rows). list_all (plain_value ?pr) row" by (simp add: plain_value_def)
  from result_json_reads_back [OF this] show ?thesis
    by (intro exI [of _ ?pr]) (auto simp: list_all2_Cons1 shows_value_def number_of_def)
qed

section \<open>Requests\<close>

definition request_doc :: "http_request \<Rightarrow> string \<Rightarrow> doc" where
  "request_doc req peer =
     Doc_Obj
       [(''method'', Doc_Str (rq_method req)),
        (''path'', Doc_Str (rq_path req)),
        (''query'', case rq_query req of Some q \<Rightarrow> Doc_Str q | None \<Rightarrow> Doc_Null),
        (''remote'', Doc_Str peer),
        (''headers'', Doc_Obj (map (\<lambda>(k, v). (k, Doc_Str v)) (rq_headers req))),
        (''body'', if utf8 (rq_body req) then Doc_Obj [(''text'', Doc_Str (rq_body req))]
           else Doc_Obj [(''bytes_hex'', Doc_Str (concat (map (\<lambda>b. hex2_lower (byte_nat b)) (rq_body req))))])]"

lemma json_char_hex: "d < 16 \<Longrightarrow> json_char (hex_digit_lower d) = [hex_digit_lower d]"
proof -
  have "list_all (\<lambda>d. json_char (hex_digit_lower d) = [hex_digit_lower d]) [0..<16]" by code_simp
  then show "d < 16 \<Longrightarrow> ?thesis" by (simp add: list_all_iff)
qed

lemma json_string_hex:
  "json_string (concat (map (\<lambda>b. hex2_lower (byte_nat b)) body))
     = CHR 0x22 # concat (map (\<lambda>b. hex2_lower (byte_nat b)) body) @ [CHR 0x22]"
proof -
  have "byte_nat b div 16 < 16" for b by (rule less_mult_imp_div_less) simp
  then have "concat (map json_char (concat (map (\<lambda>b. hex2_lower (byte_nat b)) body)))
      = concat (map (\<lambda>b. hex2_lower (byte_nat b)) body)"
    by (induction body) (simp_all add: hex2_lower_def json_char_hex)
  then show ?thesis by (simp add: json_string_def)
qed

lemma request_doc_text: "doc_text (request_doc req peer) = build_request_json req peer"
proof -
  have "map (\<lambda>(k, v). json_string k @ '':'' @ doc_text v) (map (\<lambda>(k, v). (k, Doc_Str v)) (rq_headers req))
      = map (\<lambda>(k, v). json_string k @ '':'' @ json_string v) (rq_headers req)"
    by (simp add: split_beta)
  moreover have "body_json (rq_body req)
      = doc_text (if utf8 (rq_body req) then Doc_Obj [(''text'', Doc_Str (rq_body req))]
          else Doc_Obj [(''bytes_hex'', Doc_Str (concat (map (\<lambda>b. hex2_lower (byte_nat b)) (rq_body req))))])"
    by (simp add: body_json_def from_utf8_def json_string_hex)
  moreover have "(case rq_query req of Some q \<Rightarrow> json_string q | None \<Rightarrow> ''null'')
      = doc_text (case rq_query req of Some q \<Rightarrow> Doc_Str q | None \<Rightarrow> Doc_Null)"
    by (simp split: option.split)
  ultimately show ?thesis
    by (simp only: request_doc_def build_request_json_def doc_text.simps list.map prod.case) simp
qed

text \<open>
  A handler component is told the request as it is: the JSON it receives is one document, whose
  members are the request's; nothing that a client sends can end a string early or add a member.
\<close>

theorem request_json_reads_back:
  "read_document (build_request_json req peer) = Some (request_doc req peer)"
proof -
  have "doc_ok (request_doc req peer)"
    by (simp add: request_doc_def list_all_iff split_beta split: option.split)
  then show ?thesis using read_document_text request_doc_text by metis
qed

end
