(* ===== verification/Httpd_Wire.thy ===== *)
theory Httpd_Wire
  imports Httpd Text_Lines
begin

text \<open>
  Requests and responses as bytes on the connection (\<open>read_request\<close> and \<open>write_response\<close> of
  \<open>crates/ducklink-host/src/httpd.rs\<close>): what a well-formed client writes is what the server reads, and
  what the server writes is what such a reader gets back.
\<close>

section \<open>Lines and tokens\<close>

text \<open>A printable ASCII character that is no space, and a word of them.\<close>

definition visible :: "char \<Rightarrow> bool" where
  "visible c \<longleftrightarrow> 33 \<le> byte_nat c \<and> byte_nat c \<le> 126"

definition token :: "string \<Rightarrow> bool" where
  "token s \<longleftrightarrow> s \<noteq> [] \<and> list_all visible s"

lemma byte_nat_ctl [simp]: "byte_nat (CHR 0x0A) = 10" "byte_nat (CHR 0x0D) = 13" "byte_nat (CHR 0x20) = 32"
    "byte_nat (CHR 0x09) = 9" "byte_nat (CHR '':'') = 58" "byte_nat (CHR ''?'') = 63"
  by (simp_all add: byte_nat_def)

lemma visible_not: "visible c \<Longrightarrow> \<not> ws1 c \<and> byte_nat c < 128 \<and> c \<noteq> CHR 0x0A \<and> c \<noteq> CHR 0x0D \<and> c \<noteq> CHR 0x20"
  by (auto simp: visible_def ws1_def byte_le_iff)

lemma ws1_ctl [simp]: "ws1 (CHR 0x0A)" "ws1 (CHR 0x0D)" "ws1 (CHR 0x20)"
  by (simp_all add: ws1_def byte_le_iff)

lemma ws1_ws_len: "ws1 c \<Longrightarrow> ws_len (c # s) = 1"
  by (cases "c # s" rule: ws_len.cases) auto

lemma token_ascii: "list_all visible s \<Longrightarrow> list_all (\<lambda>c. byte_nat c < 128) s"
  by (auto simp: list_all_iff dest: visible_not)

lemma token_utf8: "list_all visible s \<Longrightarrow> utf8 s"
  by (intro utf8_ascii token_ascii)

lemma token_no_lf: "list_all visible s \<Longrightarrow> CHR 0x0A \<notin> set s"
  by (auto simp: list_all_iff dest: visible_not)

lemma trim_start_ws: "ws1 c \<Longrightarrow> trim_start (c # s) = trim_start s"
  by (subst trim_start.simps) (simp add: ws1_ws_len)

lemma trim_token: "token s \<Longrightarrow> trim s = s"
proof -
  assume t: "token s"
  then have "visible (hd s)" "visible (last s)" by (simp_all add: token_def list_all_iff)
  then show "trim s = s" using t by (intro trim_plain) (auto simp: token_def dest: visible_not)
qed

lemma trim_end_crlf: "trim_end (s @ crlf) = trim_end s"
  using trim_end_snoc [of "CHR 0x0A" "s @ [CHR 0x0D]"] trim_end_snoc [of "CHR 0x0D" s] by (simp add: crlf_def)

lemma crlf_utf8: "utf8 crlf"
  by (rule utf8_ascii) (simp add: crlf_def)

lemma read_line_crlf:
  assumes "utf8 l" "CHR 0x0A \<notin> set l"
  shows "read_line (l @ crlf @ rest) = Inr (l @ crlf, rest)"
proof -
  have "takeWhile (\<lambda>c. c \<noteq> CHR 0x0A) (l @ crlf @ rest) = l @ [CHR 0x0D]"
    using assms(2) by (induction l) (auto simp: crlf_def)
  then have "take_line (l @ crlf @ rest) = (l @ crlf, rest)"
    by (simp add: take_line_def Let_def crlf_def)
  then show ?thesis using utf8_append [OF assms(1) crlf_utf8] by (simp add: read_line_def)
qed

lemma find_char: "d \<notin> set a \<Longrightarrow> find_sub [d] (a @ d # b) = Some (length a)"
  by (induction a) (auto simp: starts_with_def)

lemma find_no_char: "d \<notin> set a \<Longrightarrow> find_sub [d] a = None"
  by (induction a) (auto simp: starts_with_def)

lemma split_once_at: "d \<notin> set a \<Longrightarrow> split_once d (a @ d # b) = Some (a, b)"
  by (simp add: split_once_def find_char)

lemma split_once_absent: "d \<notin> set a \<Longrightarrow> split_once d a = None"
  by (simp add: split_once_def find_no_char)

section \<open>White space between words\<close>

lemma words_go_visible: "list_all visible w \<Longrightarrow> words_go cur (w @ s) = words_go (rev w @ cur) s"
proof (induction w arbitrary: cur)
  case (Cons c w)
  then have "ws_len (c # w @ s) = 0" by (intro ws_len_plain) (auto dest: visible_not)
  then show ?case using Cons by (simp add: words_go.simps [of cur "c # w @ s"])
qed simp

lemma words_go_space: "ws1 c \<Longrightarrow> words_go cur (c # s) = (if cur = [] then [] else [rev cur]) @ words_go [] s"
  by (simp add: words_go.simps [of cur "c # s"] ws1_ws_len)

lemma split_request_line:
  assumes "token m" "token t" "token v"
  shows "split_whitespace (m @ CHR 0x20 # t @ CHR 0x20 # v @ crlf) = [m, t, v]"
proof -
  have "words_go [] [] = []" by (simp add: words_go.simps)
  moreover have "rev m \<noteq> []" "rev t \<noteq> []" "rev v \<noteq> []" using assms by (auto simp: token_def)
  ultimately show ?thesis
    using assms by (simp add: split_whitespace_def token_def words_go_visible words_go_space crlf_def)
qed

section \<open>Headers\<close>

definition header_ok :: "string \<times> string \<Rightarrow> bool" where
  "header_ok h \<longleftrightarrow>
     token (fst h) \<and> CHR '':'' \<notin> set (fst h)
     \<and> utf8 (snd h) \<and> CHR 0x0A \<notin> set (snd h)
     \<and> (snd h = [] \<or> visible (hd (snd h)) \<and> visible (last (snd h)))"

definition header_wire :: "string \<times> string \<Rightarrow> string" where
  "header_wire h = fst h @ '': '' @ snd h @ crlf"

definition stated_length :: "nat \<Rightarrow> (string \<times> string) list \<Rightarrow> nat" where
  "stated_length n hs =
     (case filter (\<lambda>h. eq_ignore_case (fst h) ''content-length'') hs of
        [] \<Rightarrow> n
      | ls \<Rightarrow> (case parse_usize (snd (last ls)) of Some k \<Rightarrow> k | None \<Rightarrow> 0))"

lemma stated_length_Cons:
  "stated_length n (h # hs) =
     stated_length (if eq_ignore_case (fst h) ''content-length''
       then (case parse_usize (snd h) of Some k \<Rightarrow> k | None \<Rightarrow> 0) else n) hs"
  by (simp add: stated_length_def split: list.split)

lemma trim_header_value:
  assumes "v = [] \<or> visible (hd v) \<and> visible (last v)"
  shows "trim (CHR 0x20 # v) = v" "trim v = v"
proof -
  have "trim (CHR 0x20 # v) = trim v" by (simp add: trim_def trim_start_ws)
  moreover show "trim v = v"
    using assms by (cases "v = []") (auto intro!: trim_plain dest: visible_not)
  ultimately show "trim (CHR 0x20 # v) = v" by simp
qed

lemma header_line_read:
  assumes "header_ok h"
  shows "trim_end (header_wire h) \<noteq> []"
    and "header_line (trim_end (header_wire h)) n acc =
      (if eq_ignore_case (fst h) ''content-length'' then (case parse_usize (snd h) of Some k \<Rightarrow> k | None \<Rightarrow> 0) else n,
       acc @ [(lower (fst h), snd h)])"
proof -
  obtain k v where h: "h = (k, v)" by force
  have ok: "token k" "CHR '':'' \<notin> set k" "v = [] \<or> visible (hd v) \<and> visible (last v)"
    using assms h by (simp_all add: header_ok_def)
  have strip: "trim_end (header_wire h) = k @ CHR '':'' # (if v = [] then [] else CHR 0x20 # v)"
  proof (cases "v = []")
    case True
    have "trim_end (k @ [CHR '':'']) = k @ [CHR '':'']"
      by (rule trim_end_plain) (simp_all add: ws1_def byte_le_iff)
    then show ?thesis
      using True trim_end_crlf [of "k @ '': ''"] trim_end_snoc [of "CHR 0x20" "k @ [CHR '':'']"]
      by (simp add: header_wire_def h)
  next
    case False
    have "trim_end (k @ '': '' @ v) = k @ '': '' @ v"
      using ok False by (intro trim_end_plain) (auto dest: visible_not)
    then show ?thesis
      using False trim_end_crlf [of "k @ '': '' @ v"] by (simp add: header_wire_def h)
  qed
  show "trim_end (header_wire h) \<noteq> []" using strip by simp
  have "trim (if v = [] then [] else CHR 0x20 # v) = v" using trim_header_value [OF ok(3)] by simp
  then show "header_line (trim_end (header_wire h)) n acc =
      (if eq_ignore_case (fst h) ''content-length'' then (case parse_usize (snd h) of Some k \<Rightarrow> k | None \<Rightarrow> 0) else n,
       acc @ [(lower (fst h), snd h)])"
    unfolding strip header_line_def using ok(1,2) by (simp add: split_once_at trim_token h)
qed

lemma read_header:
  assumes "header_ok h"
  shows "read_line (header_wire h @ rest) = Inr (header_wire h, rest)"
proof -
  have "list_all visible (fst h)" "utf8 (snd h)" "CHR 0x0A \<notin> set (snd h)"
    using assms by (auto simp: header_ok_def token_def)
  moreover have "utf8 '': ''" by code_simp
  ultimately have "utf8 (fst h @ '': '' @ snd h)" by (simp only: utf8_append token_utf8)
  moreover have "CHR 0x0A \<notin> set (fst h @ '': '' @ snd h)"
    using token_no_lf \<open>list_all visible (fst h)\<close> \<open>CHR 0x0A \<notin> set (snd h)\<close> by simp
  ultimately show ?thesis using read_line_crlf [of "fst h @ '': '' @ snd h" rest] by (simp add: header_wire_def)
qed

definition lower_name :: "string \<times> string \<Rightarrow> string \<times> string" where
  "lower_name h = (lower (fst h), snd h)"

lemma read_headers_wire:
  assumes "list_all header_ok hs"
  shows "read_headers (concat (map header_wire hs) @ crlf @ rest) n acc
      = Inr (stated_length n hs, acc @ map lower_name hs, rest)"
  using assms
proof (induction hs arbitrary: n acc)
  case Nil
  have "read_line (crlf @ rest) = Inr (crlf, rest)" using read_line_crlf [of "[]" rest] by simp
  moreover have "trim_end crlf = []" using trim_end_crlf [of "[]"] by simp
  moreover have "crlf @ rest \<noteq> []" by (simp add: crlf_def)
  ultimately show ?case by (simp add: read_headers.simps stated_length_def)
next
  case (Cons h hs)
  have "header_wire h @ s \<noteq> []" for s by (simp add: header_wire_def crlf_def)
  then show ?case
    using Cons read_header [of h] header_line_read [of h]
    by (simp add: read_headers.simps [of "header_wire h @ _"] stated_length_Cons lower_name_def)
qed

section \<open>Requests\<close>

definition target_wire :: "string \<Rightarrow> string option \<Rightarrow> string" where
  "target_wire path query = (case query of None \<Rightarrow> path | Some q \<Rightarrow> path @ CHR ''?'' # q)"

definition request_wire :: "string \<Rightarrow> string \<Rightarrow> string option \<Rightarrow> (string \<times> string) list \<Rightarrow> string \<Rightarrow> string" where
  "request_wire mth path query hs body =
     mth @ CHR 0x20 # target_wire path query @ CHR 0x20 # ''HTTP/1.1'' @ crlf
       @ concat (map header_wire hs) @ crlf @ body"

lemma token_target:
  assumes "token path" "case query of None \<Rightarrow> True | Some q \<Rightarrow> list_all visible q"
  shows "token (target_wire path query)"
  using assms by (auto simp: target_wire_def token_def visible_def split: option.splits)

lemma request_target_wire:
  assumes "CHR ''?'' \<notin> set path"
  shows "request_target (target_wire path query) = (path, query)"
  using assms by (simp add: request_target_def target_wire_def split_once_at split_once_absent split: option.split)

lemma read_request_wire:
  assumes "token mth" "token path" "CHR ''?'' \<notin> set path"
    and "case query of None \<Rightarrow> True | Some q \<Rightarrow> list_all visible q"
    and "list_all header_ok hs"
  shows "read_request (request_wire mth path query hs body @ rest)
     = (let n = stated_length 0 hs
        in if 2 ^ 63 \<le> n then None
           else if length (body @ rest) < n then Some (Inl ''failed to fill whole buffer'')
           else Some (Inr (Some \<lparr>rq_method = mth, rq_path = path, rq_query = query,
             rq_headers = map lower_name hs, rq_body = take n (body @ rest)\<rparr>)))"
proof -
  let ?line = "mth @ CHR 0x20 # target_wire path query @ CHR 0x20 # ''HTTP/1.1''"
  have v: "token ''HTTP/1.1''" by code_simp
  note t = token_target [OF assms(2,4)]
  have vis: "list_all visible mth" "list_all visible (target_wire path query)" "list_all visible ''HTTP/1.1''"
    using assms(1) t v by (simp_all only: token_def)
  have "list_all (\<lambda>c. byte_nat c < 128) ?line"
    using vis [THEN token_ascii] by (simp only: list_all_append list.pred_inject byte_nat_ctl) simp
  then have u: "utf8 ?line" by (rule utf8_ascii)
  have lf: "CHR 0x0A \<notin> set ?line" using vis [THEN token_no_lf] by simp
  have line: "read_line (?line @ crlf @ s) = Inr (?line @ crlf, s)" for s by (rule read_line_crlf [OF u lf])
  have ws: "split_whitespace (?line @ crlf) = [mth, target_wire path query, ''HTTP/1.1'']"
    using split_request_line [OF assms(1) t v] by simp
  have wire: "request_wire mth path query hs body @ rest
      = ?line @ crlf @ concat (map header_wire hs) @ crlf @ body @ rest"
    by (simp add: request_wire_def)
  have ne: "request_wire mth path query hs body @ rest \<noteq> []" using assms(1) by (simp add: wire token_def)
  show ?thesis
    unfolding read_request_def
    using ne ws
    by (simp add: wire line read_headers_wire [OF assms(5)] nth_word_def request_target_wire [OF assms(3)] Let_def
        del: append_assoc append_Cons)
qed

text \<open>
  C31. The server reads the request that the client wrote: the method, the path, the query, every
  header in order under its name in lower case, and as many bytes of the body as the last
  Content-Length header says; what follows on the connection is not looked at.
\<close>

theorem request_read_back:
  assumes "token mth" "token path" "CHR ''?'' \<notin> set path"
    and "case query of None \<Rightarrow> True | Some q \<Rightarrow> list_all visible q"
    and "list_all header_ok hs" "stated_length 0 hs = length body" "length body < 2 ^ 63"
  shows "read_request (request_wire mth path query hs body @ rest)
     = Some (Inr (Some \<lparr>rq_method = mth, rq_path = path, rq_query = query,
         rq_headers = map lower_name hs, rq_body = body\<rparr>))"
  using read_request_wire [OF assms(1-5), of body rest] assms(6,7) by simp

theorem request_read_back_witness:
  "read_request (request_wire ''POST'' ''/sql'' None [(''Host'', ''db''), (''Content-Length'', ''8'')] ''SELECT 1'' @ ''GET'')
     = Some (Inr (Some \<lparr>rq_method = ''POST'', rq_path = ''/sql'', rq_query = None,
         rq_headers = [(''host'', ''db''), (''content-length'', ''8'')], rq_body = ''SELECT 1''\<rparr>))"
proof -
  have ok: "token ''POST''" "token ''/sql''" "CHR ''?'' \<notin> set ''/sql''"
    "list_all header_ok [(''Host'', ''db''), (''Content-Length'', ''8'')]" by code_simp+
  have low: "map lower_name [(''Host'', ''db''), (''Content-Length'', ''8'')] = [(''host'', ''db''), (''content-length'', ''8'')]"
    by code_simp
  have "eq_ignore_case ''Host'' ''content-length'' = False" "eq_ignore_case ''Content-Length'' ''content-length''" by code_simp+
  moreover have "parse_usize ''8'' = Some 8"
    by (simp add: parse_usize_def decimal_def digit_val_def byte_nat_def is_ascii_digit_def less_eq_char_def)
  ultimately have len: "stated_length 0 [(''Host'', ''db''), (''Content-Length'', ''8'')] = length ''SELECT 1''"
    by (simp add: stated_length_def)
  have query: "case None of None \<Rightarrow> True | Some q \<Rightarrow> list_all visible q" by simp
  show ?thesis
    using request_read_back [OF ok(1-3) query ok(4) len, of "''GET''"] unfolding low by simp
qed

section \<open>Responses\<close>

definition response_headers :: "string \<Rightarrow> string \<Rightarrow> (string \<times> string) list" where
  "response_headers ctype body =
     [(''Content-Type'', ctype), (''Content-Length'', show_nat (length body)), (''Connection'', ''close''),
      (''Access-Control-Allow-Origin'', ''*'')]"

definition response_bytes :: "u16 \<Rightarrow> (string \<times> string) list \<Rightarrow> string \<Rightarrow> string" where
  "response_bytes status hs body =
     ''HTTP/1.1 '' @ show_word status @ CHR 0x20 # reason_phrase status @ crlf
       @ concat (map header_wire hs) @ crlf @ body"

lemma write_response_bytes: "write_response status ctype body = response_bytes status (response_headers ctype body) body"
  by (simp add: write_response_def response_bytes_def response_headers_def header_wire_def)

lemma parse_usize_show: "n < 2 ^ 64 \<Longrightarrow> parse_usize (show_nat n) = Some n"
proof -
  assume n: "n < 2 ^ 64"
  obtain c r where s: "show_nat n = c # r" using show_nat_decimal [of n] by (cases "show_nat n") auto
  have d: "list_all is_ascii_digit (show_nat n)" "decimal (show_nat n) = n" using show_nat_decimal [of n] by auto
  have "c \<noteq> CHR ''+''" using d(1) s by (auto simp: is_ascii_digit_def less_eq_char_def)
  then show ?thesis using n d s by (simp add: parse_usize_def Let_def)
qed

lemma digit_visible: "is_ascii_digit c \<Longrightarrow> visible c"
  by (auto simp: is_ascii_digit_def visible_def byte_le_iff) (simp_all add: byte_nat_def)

lemma show_nat_token: "token (show_nat n)"
  using show_nat_decimal [of n] by (auto simp: token_def list_all_iff intro: digit_visible)

definition reasons :: "string list" where
  "reasons =
     [''OK'', ''Created'', ''No Content'', ''Bad Request'', ''Not Found'', ''Unprocessable Entity'',
      ''Internal Server Error'', ''Not Implemented'']"

lemma reason_phrase_reasons: "reason_phrase status \<in> set reasons"
  by (simp add: reason_phrase_def reasons_def)

lemma reason_phrase_ascii: "list_all (\<lambda>c. 32 \<le> byte_nat c \<and> byte_nat c < 127) (reason_phrase status)"
proof -
  have "list_all (list_all (\<lambda>c. 32 \<le> byte_nat c \<and> byte_nat c < 127)) reasons" by code_simp
  then show ?thesis using reason_phrase_reasons [of status] unfolding list_all_iff by blast
qed

lemma reason_phrase_words: "words_go [] (reason_phrase status @ crlf) = split_whitespace (reason_phrase status)"
proof -
  have "list_all (\<lambda>r. words_go [] (r @ crlf) = split_whitespace r) reasons" by code_simp
  then show ?thesis using reason_phrase_reasons [of status] unfolding list_all_iff by blast
qed

lemma fixed_headers:
  "list_all header_ok [(''Content-Length'', show_nat (length body)), (''Connection'', ''close''), (''Access-Control-Allow-Origin'', ''*'')]"
proof -
  have "token ''Content-Length''" "CHR '':'' \<notin> set ''Content-Length''" by code_simp+
  moreover have "visible (hd (show_nat n))" "visible (last (show_nat n))" "list_all visible (show_nat n)" for n
    using show_nat_token [of n] by (auto simp: token_def list_all_iff)
  ultimately have "header_ok (''Content-Length'', show_nat (length body))"
    by (simp only: header_ok_def fst_conv snd_conv token_utf8 token_no_lf) simp
  moreover have "list_all header_ok [(''Connection'', ''close''), (''Access-Control-Allow-Origin'', ''*'')]" by code_simp
  ultimately show ?thesis by (simp only: list.pred_inject simp_thms)
qed

definition status_words :: "u16 \<Rightarrow> string list" where
  "status_words status = ''HTTP/1.1'' # show_word status # split_whitespace (reason_phrase status)"

definition read_back :: "string \<Rightarrow> (string list \<times> nat \<times> (string \<times> string) list \<times> string) option" where
  "read_back bytes =
     (case read_line bytes of
        Inl e \<Rightarrow> None
      | Inr (line, rest) \<Rightarrow>
          (case read_headers rest 0 [] of Inl e \<Rightarrow> None | Inr r \<Rightarrow> Some (split_whitespace line, r)))"

lemma response_bytes_read:
  assumes "list_all header_ok hs"
  shows "read_back (response_bytes status hs body)
     = Some (status_words status, stated_length 0 hs, map lower_name hs, body)"
proof -
  let ?line = "''HTTP/1.1 '' @ show_word status @ CHR 0x20 # reason_phrase status"
  have st: "list_all visible (show_word status)" using show_nat_token by (simp add: show_word_def token_def)
  have ver: "list_all visible ''HTTP/1.1''" by code_simp
  have reason: "list_all (\<lambda>c. byte_nat c < 128 \<and> c \<noteq> CHR 0x0A) (reason_phrase status)"
    using reason_phrase_ascii [of status] by (auto simp: list_all_iff)
  have "list_all (\<lambda>c. byte_nat c < 128) (''HTTP/1.1'' @ CHR 0x20 # show_word status @ CHR 0x20 # reason_phrase status)"
    using token_ascii [OF st] token_ascii [OF ver] reason
    by (simp only: list_all_append list.pred_inject byte_nat_ctl) (auto simp: list_all_iff)
  then have u: "utf8 ?line" by (intro utf8_ascii) simp
  have lf: "CHR 0x0A \<notin> set ?line" using token_no_lf [OF st] reason by (auto simp: list_all_iff)
  have "split_whitespace (?line @ crlf) = status_words status"
    using ver st words_go_visible [of "''HTTP/1.1''" "[]"] words_go_visible [of "show_word status" "[]"]
      show_nat_token [of "unat status"]
    by (simp add: split_whitespace_def words_go_space reason_phrase_words token_def show_word_def status_words_def)
  then show ?thesis
    using read_line_crlf [OF u lf] read_headers_wire [OF assms, of body 0 "[]"]
    by (simp add: response_bytes_def read_back_def)
qed

text \<open>
  C32. Every response can be taken apart again: a reader that knows lines and headers only gets the
  status line, the four headers with the content type, and by the stated length exactly the body,
  as long as the content type, which routes and handlers may choose, is one line.
\<close>

theorem response_read_back:
  assumes "header_ok (''Content-Type'', ctype)" "length body < 2 ^ 64"
  shows "read_back (write_response status ctype body)
     = Some (status_words status, length body,
         [(''content-type'', ctype), (''content-length'', show_nat (length body)), (''connection'', ''close''),
          (''access-control-allow-origin'', ''*'')], body)"
proof -
  have hs: "list_all header_ok (response_headers ctype body)"
    using assms(1) fixed_headers [of body] by (simp only: response_headers_def list.pred_inject simp_thms)
  have names: "map (\<lambda>k. eq_ignore_case k ''content-length'')
      [''Content-Type'', ''Content-Length'', ''Connection'', ''Access-Control-Allow-Origin'']
      = [False, True, False, False]"
    by code_simp
  have len: "stated_length 0 (response_headers ctype body) = length body"
    using names parse_usize_show [OF assms(2)] by (simp add: stated_length_def response_headers_def)
  have "map lower [''Content-Type'', ''Content-Length'', ''Connection'', ''Access-Control-Allow-Origin'']
      = [''content-type'', ''content-length'', ''connection'', ''access-control-allow-origin'']"
    by code_simp
  then have "map lower_name (response_headers ctype body)
      = [(''content-type'', ctype), (''content-length'', show_nat (length body)), (''connection'', ''close''),
         (''access-control-allow-origin'', ''*'')]"
    by (simp add: response_headers_def lower_name_def)
  then show ?thesis using response_bytes_read [OF hs] len by (simp add: write_response_bytes)
qed

theorem response_read_back_witness:
  "read_back (write_response 200 ''text/plain; charset=utf-8'' ''ok'')
     = Some (status_words 200, 2,
         [(''content-type'', ''text/plain; charset=utf-8''), (''content-length'', show_nat 2), (''connection'', ''close''),
          (''access-control-allow-origin'', ''*'')], ''ok'')"
proof -
  have h: "header_ok (''Content-Type'', ''text/plain; charset=utf-8'')" by code_simp
  have l: "length ''ok'' = 2" by simp
  then have "length ''ok'' < 2 ^ 64" by (simp only:) simp
  then show ?thesis using response_read_back [OF h, of "''ok''" 200] by (simp only: l)
qed

text \<open>A content type with a line end in it, which a route or a handler may have, adds a header of its own.\<close>

lemma ctype_splits_response:
  assumes "list_all header_ok [(''Content-Type'', ctype), h]"
  shows "\<exists>n hs. read_back (write_response status (ctype @ crlf @ fst h @ '': '' @ snd h) body)
      = Some (status_words status, n, (''content-type'', ctype) # lower_name h # hs, body)"
proof -
  let ?rest = "[(''Content-Length'', show_nat (length body)), (''Connection'', ''close''), (''Access-Control-Allow-Origin'', ''*'')]"
  have ok: "list_all header_ok ((''Content-Type'', ctype) # h # ?rest)"
    using assms fixed_headers [of body] by (simp only: list.pred_inject simp_thms)
  have "write_response status (ctype @ crlf @ fst h @ '': '' @ snd h) body
      = response_bytes status ((''Content-Type'', ctype) # h # ?rest) body"
    by (simp add: write_response_def response_bytes_def header_wire_def)
  moreover have "lower ''Content-Type'' = ''content-type''" by code_simp
  ultimately show ?thesis using response_bytes_read [OF ok] by (simp add: lower_name_def)
qed

end
