(* ===== verification/Httpd_Facts.thy ===== *)
theory Httpd_Facts
  imports Httpd_Json Httpd_Wire Sigv4
begin

text \<open>
  What a client can make the HTTP server (\<open>crates/ducklink-host/src/httpd.rs\<close>) do: the two forms of
  the \<open>/sql\<close> endpoint are one, no other request brings a statement of its own to the core, a handler
  gets its parameters in the order of the core, and no request ends the server but one.
\<close>

section \<open>The query string\<close>

lemma hex_val_upper: "d < 16 \<Longrightarrow> hex_val (hex_digit_upper d) = Some d"
  by (auto simp: hex_val_def hex_digit_upper_def Let_def)

lemma reserved_table:
  "list_all (\<lambda>c. \<not> is_unreserved c) [CHR ''%'', CHR ''+'', CHR ''&'', CHR ''='']"
  "list_all (\<lambda>d. hex_digit_upper d \<noteq> CHR ''&'') [0..<16]"
  by code_simp+

lemma percent_go_encode: "percent_go (encode_byte b @ s) = b # percent_go s"
proof -
  have n: "byte_nat b div 16 < 16" "byte_nat b mod 16 < 16"
    by (simp_all add: less_mult_imp_div_less)
  have "16 * (byte_nat b div 16) + byte_nat b mod 16 = byte_nat b" by simp
  then show ?thesis
    using n reserved_table(1) hex_val_upper by (auto simp: encode_byte_def hex2_upper_def)
qed

lemma percent_go_uri: "percent_go (uri_encode_path s) = s"
proof -
  have "percent_go (concat (map encode_byte s)) = s"
    by (induction s) (simp_all only: list.map concat.simps percent_go_encode percent_go.simps(1))
  then show ?thesis by (simp add: uri_encode_bytes)
qed

lemma percent_decode_uri: "utf8 s \<Longrightarrow> percent_decode (uri_encode_path s) = s"
  by (simp add: percent_decode_def percent_go_uri lossy_utf8)

lemma uri_no_amp: "CHR ''&'' \<notin> set (uri_encode_path s)"
proof -
  have "CHR ''&'' \<notin> set (encode_byte b)" for b
  proof -
    have "byte_nat b div 16 < 16" "byte_nat b mod 16 < 16" by (simp_all add: less_mult_imp_div_less)
    then have "hex_digit_upper (byte_nat b div 16) \<noteq> CHR ''&''" "hex_digit_upper (byte_nat b mod 16) \<noteq> CHR ''&''"
      using reserved_table(2) by (simp_all add: list_all_iff)
    then show ?thesis using reserved_table(1) by (auto simp: encode_byte_def hex2_upper_def)
  qed
  then show ?thesis by (simp add: uri_encode_bytes)
qed

definition other_pair :: "string \<Rightarrow> bool" where
  "other_pair p \<longleftrightarrow> CHR ''&'' \<notin> set p \<and> p \<noteq> ''q'' \<and> \<not> starts_with ''q='' p"

lemma q_param_skip: "other_pair p \<Longrightarrow> q_param (p # ps) = q_param ps"
proof -
  assume o: "other_pair p"
  have "k \<noteq> ''q''" if "split_once (CHR ''='') p = Some (k, v)" for k v
    using split_once_Some [OF that] o by (auto simp: other_pair_def starts_with_def)
  then show "q_param (p # ps) = q_param ps" using o by (simp add: other_pair_def split: option.split)
qed

lemma parse_q_uri:
  assumes "utf8 sql" "list_all other_pair ps"
  shows "parse_q (concat (map (\<lambda>p. p @ ''&'') ps) @ ''q='' @ uri_encode_path sql) = Some sql"
  using assms(2)
proof (induction ps)
  case Nil
  have "split_once (CHR ''='') (CHR ''q'' # CHR ''='' # uri_encode_path sql) = Some (''q'', uri_encode_path sql)"
    using split_once_at [of "CHR ''=''" "''q''" "uri_encode_path sql"] by simp
  then show ?case
    using uri_no_amp [of sql] by (simp add: parse_q_def split_char_none percent_decode_uri [OF assms(1)])
next
  case (Cons p ps)
  then have p: "other_pair p" "CHR ''&'' \<notin> set p" by (auto simp: other_pair_def)
  have "parse_q (p @ CHR ''&'' # rest) = parse_q rest" for rest
    unfolding parse_q_def split_char_append [OF p(2)] by (rule q_param_skip [OF p(1)])
  then show ?case using Cons by simp
qed

text \<open>
  The two forms of the \<open>/sql\<close> endpoint are one: a statement sent percent-encoded as the parameter
  \<open>q\<close>, among whatever other parameters, does exactly what the same statement does as the body of a
  POST, and both run exactly that statement.
\<close>

theorem sql_endpoints_agree:
  assumes "utf8 sql" "trim sql = sql" "list_all other_pair ps"
    and "rq_method get = ''GET''" "rq_path get = ''/sql''"
    and "rq_query get = Some (concat (map (\<lambda>p. p @ ''&'') ps) @ ''q='' @ uri_encode_path sql)"
    and "rq_method post = ''POST''" "rq_path post = ''/sql''" "rq_body post = sql"
  shows "handle_request S get peer s = Some (run_admin_sql S sql s)
    \<and> handle_request S post peer' s = Some (run_admin_sql S sql s)"
  using assms(1,2,4-9) parse_q_uri [OF assms(1,3)]
  by (simp add: handle_request_def is_builtin_def handle_builtin_def Let_def from_utf8_def starts_with_def)

theorem sql_endpoints_agree_witness:
  "\<exists>(S :: (nat, unit) httpd) get post.
     rq_query get = Some (''x=1&q='' @ uri_encode_path ''SELECT 1'') \<and> rq_body post = ''SELECT 1''
     \<and> handle_request S get ''a'' 0 = Some (run_admin_sql S ''SELECT 1'' 0)
     \<and> handle_request S post ''b'' 0 = Some (run_admin_sql S ''SELECT 1'' 0)"
proof -
  let ?get = "\<lparr>rq_method = ''GET'', rq_path = ''/sql'', rq_query = Some (concat (map (\<lambda>p. p @ ''&'') [''x=1'']) @ ''q='' @ uri_encode_path ''SELECT 1''),
    rq_headers = [], rq_body = []\<rparr> :: http_request"
  let ?post = "\<lparr>rq_method = ''POST'', rq_path = ''/sql'', rq_query = None, rq_headers = [], rq_body = ''SELECT 1''\<rparr> :: http_request"
  have "utf8 ''SELECT 1''" "trim ''SELECT 1'' = ''SELECT 1''" "list_all other_pair [''x=1'']" by code_simp+
  then have "handle_request S ?get ''a'' 0 = Some (run_admin_sql S ''SELECT 1'' 0)
      \<and> handle_request S ?post ''b'' 0 = Some (run_admin_sql S ''SELECT 1'' 0)" for S :: "(nat, unit) httpd"
    by (rule sql_endpoints_agree) simp_all
  then show ?thesis by (intro exI [of _ undefined] exI [of _ ?get] exI [of _ ?post]) simp
qed

section \<open>The statements that reach the core\<close>

text \<open>
  The statement that a call hands to the core, and two cores that answer alike except, perhaps, to
  statements that are not \<open>ok\<close>.
\<close>

definition statement_text :: "string \<Rightarrow> wvalue list \<Rightarrow> string option" where
  "statement_text mth args =
     (if mth = cli_db_iface @ ''#execute'' \<or> mth = cli_db_iface @ ''#prepare''
      then (case args of [_, V_String t] \<Rightarrow> Some t | _ \<Rightarrow> None) else None)"

definition alike :: "(string \<Rightarrow> bool) \<Rightarrow> 's core_port \<Rightarrow> 's core_port \<Rightarrow> bool" where
  "alike ok C C' \<longleftrightarrow>
     (\<forall>mth args s. (\<forall>t. statement_text mth args = Some t \<longrightarrow> ok t) \<longrightarrow> cp_call C' mth args s = cp_call C mth args s)
     \<and> cp_drop C' = cp_drop C \<and> cp_fmt C' = cp_fmt C \<and> cp_printers C' = cp_printers C"

lemma http_alike_same: "alike ok C C' \<Longrightarrow> cp_drop C' = cp_drop C \<and> cp_fmt C' = cp_fmt C \<and> cp_printers C' = cp_printers C"
  by (simp add: alike_def)

lemma http_alike_weaken: "alike ok C C' \<Longrightarrow> (\<And>t. p t \<Longrightarrow> ok t) \<Longrightarrow> alike p C C'"
  unfolding alike_def by blast

lemma http_alike_call: "alike ok C C' \<Longrightarrow> (\<And>t. statement_text mth args = Some t \<Longrightarrow> ok t) \<Longrightarrow>
    cp_call C' mth args s = cp_call C mth args s"
  unfolding alike_def by blast

lemma http_alike_export:
  assumes "alike ok C C'" "mth \<notin> {''execute'', ''prepare''}"
  shows "port_export C' mth h args s = port_export C mth h args s"
  unfolding port_export_def
  by (rule http_alike_call [OF assms(1)]) (use assms(2) in \<open>auto simp: statement_text_def split: if_splits\<close>)

lemma http_alike_execute: "alike ok C C' \<Longrightarrow> ok t \<Longrightarrow> execute_on_handle C' conn t s = execute_on_handle C conn t s"
  using http_alike_call [of ok C C' "cli_db_iface @ ''#'' @ ''execute''" "[handle_value conn, V_String t]" s] http_alike_same [of ok C C']
  by (simp add: execute_on_handle_def port_export_def statement_text_def split: prod.split sum.split)

lemma http_alike_prepare: "alike ok C C' \<Longrightarrow> ok t \<Longrightarrow> prepare_on_handle C' conn t s = prepare_on_handle C conn t s"
  using http_alike_call [of ok C C' "cli_db_iface @ ''#prepare''" "[handle_value conn, V_String t]" s] http_alike_same [of ok C C']
  by (simp add: prepare_on_handle_def statement_text_def split: prod.split sum.split)

lemma http_alike_query: "alike ok C C' \<Longrightarrow> ok t \<Longrightarrow> db_query C' conn t s = db_query C conn t s"
  by (simp add: db_query_def http_alike_execute)

lemma http_alike_run:
  assumes "alike ok C C'"
  shows "run_prepared C' h n params s = run_prepared C h n params s"
proof -
  have "port_export C' ''[method]prepared-statement.execute'' h args s
      = port_export C ''[method]prepared-statement.execute'' h args s" for args
    by (rule http_alike_export [OF assms]) simp
  then show ?thesis using http_alike_same [OF assms] by (simp add: run_prepared_def)
qed

lemma http_alike_query_params:
  assumes "alike ok C C'" "ok t"
  shows "db_query_params C' conn t params s = db_query_params C conn t params s"
proof -
  have "port_export C' ''[method]prepared-statement.parameter-count'' h [] s1
      = port_export C ''[method]prepared-statement.parameter-count'' h [] s1" for h s1
    by (rule http_alike_export [OF assms(1)]) simp
  then show ?thesis
    using http_alike_same [OF assms(1)]
    by (simp add: db_query_params_def http_alike_prepare [OF assms] http_alike_run [OF assms(1)]
        split: prod.split sum.split verb_err.split)
qed

text \<open>
  What a server sends for a request that is not for \<open>/sql\<close>: its own look-ups, the handler of the
  route found for the path, and the description of a table whose name is made of letters, digits
  and underscores.
\<close>

definition routed_text :: "('s, 'j) httpd \<Rightarrow> string \<Rightarrow> string \<Rightarrow> 's \<Rightarrow> string \<Rightarrow> bool" where
  "routed_text S mth path s t \<longleftrightarrow>
     t \<in> {lookup_sql kind_column (hd_routes S), lookup_sql (quoted ''sql'') (hd_routes S), tables_sql}
     \<or> (\<exists>m s1. lookup_route S mth path s = (Inr (Some m), s1) \<and> t = rm_handler m)
     \<or> (\<exists>name. path = ''/schema/'' @ name \<and> name \<noteq> [] \<and> ident_chars (hd_alnum S) name \<and> t = schema_sql name)"

lemma lookup_alike:
  assumes "alike ok (hd_core S) C'" "ok (lookup_sql kind_column (hd_routes S))"
    and "ok (lookup_sql (quoted ''sql'') (hd_routes S))"
  shows "lookup_route (S\<lparr>hd_core := C'\<rparr>) mth path s = lookup_route S mth path s"
  by (simp add: lookup_route_def Let_def http_alike_query_params [OF assms(1,2)] http_alike_query_params [OF assms(1,3)] split: prod.split sum.split)

lemma run_admin_alike:
  assumes "alike ok (hd_core S) C'" "ok t"
  shows "run_admin_sql (S\<lparr>hd_core := C'\<rparr>) t s = run_admin_sql S t s"
  using http_alike_same [OF assms(1)] by (simp add: run_admin_sql_def http_alike_query [OF assms] split: prod.split sum.split)

lemma wasm_alike:
  assumes "alike ok (hd_core S) C'"
  shows "execute_wasm (S\<lparr>hd_core := C'\<rparr>) m req peer s = execute_wasm S m req peer s"
proof -
  have "parse_handler_response (S\<lparr>hd_core := C'\<rparr>) = parse_handler_response S"
    by (intro ext) (simp add: parse_handler_response_def parse_structured_response_def Let_def)
  then show ?thesis
    using http_alike_same [OF assms] by (simp add: execute_wasm_def split: option.split prod.split sum.split)
qed

lemma route_alike:
  assumes "alike ok (hd_core S) C'" "ok (rm_handler m)"
  shows "execute_route (S\<lparr>hd_core := C'\<rparr>) m req peer s = execute_route S m req peer s"
proof -
  have "execute_sql_route (S\<lparr>hd_core := C'\<rparr>) m req peer s = execute_sql_route S m req peer s"
    using http_alike_same [OF assms(1)]
    by (simp add: execute_sql_route_def http_alike_query_params [OF assms] split: prod.split sum.split)
  moreover have "execute_blob (S\<lparr>hd_core := C'\<rparr>) m req peer s = execute_blob S m req peer s"
    using http_alike_same [OF assms(1)]
    by (simp add: execute_blob_def http_alike_query_params [OF assms] split: prod.split sum.split)
  ultimately show ?thesis
    by (simp add: execute_route_def wasm_alike [OF assms(1)] split: route_kind.split)
qed

lemma schema_path: "starts_with ''/schema/'' p \<Longrightarrow> p = ''/schema/'' @ drop 8 p"
proof -
  assume "starts_with ''/schema/'' p"
  then have "take (length ''/schema/'') p = ''/schema/''" unfolding starts_with_def .
  moreover have "length ''/schema/'' = 8" by simp
  ultimately show ?thesis by (metis append_take_drop_id)
qed

text \<open>
  C30. No request but one for \<open>/sql\<close> can bring a statement of its own to the core, whatever stands in its
  method, path, query, headers and body and whoever sends it: a core that answers arbitrarily
  to every statement other than the server's own, the handler that the routes table names for the
  path and the description of a table with a plain name, makes no difference.
\<close>

theorem requests_cannot_inject:
  assumes "\<not> (rq_path req = ''/sql'' \<and> rq_method req \<in> {''GET'', ''POST''})"
    and "alike (routed_text S (rq_method req) (rq_path req) s) (hd_core S) C'"
  shows "handle_request (S\<lparr>hd_core := C'\<rparr>) req peer s = handle_request S req peer s"
proof -
  let ?ok = "routed_text S (rq_method req) (rq_path req) s"
  have own: "?ok (lookup_sql kind_column (hd_routes S))" "?ok (lookup_sql (quoted ''sql'') (hd_routes S))" "?ok tables_sql"
    by (simp_all add: routed_text_def)
  have schema: "?ok (schema_sql (drop 8 (rq_path req)))"
    if "starts_with ''/schema/'' (rq_path req)" "drop 8 (rq_path req) \<noteq> []"
      "ident_chars (hd_alnum S) (drop 8 (rq_path req))"
    unfolding routed_text_def using schema_path [OF that(1)] that(2,3) by blast
  let ?S = "S\<lparr>hd_core := C'\<rparr>"
  have tables: "run_admin_sql ?S tables_sql s1 = run_admin_sql S tables_sql s1" for s1
    by (rule run_admin_alike [OF assms(2) own(3)])
  have describe: "run_admin_sql ?S (schema_sql (drop 8 (rq_path req))) s1 = run_admin_sql S (schema_sql (drop 8 (rq_path req))) s1"
    if "starts_with ''/schema/'' (rq_path req)" "drop 8 (rq_path req) \<noteq> []"
      "ident_chars (hd_alnum S) (drop 8 (rq_path req))" for s1
    by (rule run_admin_alike [OF assms(2) schema [OF that]])
  have no_sql: "(rq_method req = ''POST'' \<and> rq_path req = ''/sql'') = False" "(rq_method req = ''GET'' \<and> rq_path req = ''/sql'') = False"
    using assms(1) by blast+
  have builtin: "handle_builtin ?S req s1 = handle_builtin S req s1" for s1
    unfolding handle_builtin_def Let_def no_sql tables if_False using describe by simp
  have route: "execute_route (S\<lparr>hd_core := C'\<rparr>) m req peer s1 = execute_route S m req peer s1"
    if "lookup_route S (rq_method req) (rq_path req) s = (Inr (Some m), s1)" for m s1
    by (rule route_alike [OF assms(2)]) (use that in \<open>auto simp: routed_text_def\<close>)
  show ?thesis
    using builtin route
    by (auto simp: handle_request_def lookup_alike [OF assms(2) own(1,2)] split: prod.split sum.split option.split)
qed

definition down :: "nat core_port" where
  "down = \<lparr>cp_call = \<lambda>mth args s. (Inl ''down'', s), cp_drop = \<lambda>h s. (Inl ''down'', s),
     cp_fmt = \<lparr>dbg = \<lambda>v. [], dbg_str = \<lambda>t. []\<rparr>,
     cp_printers = \<lparr>show_f64 = \<lambda>f. [], show_f32 = \<lambda>f. [], debug_duckvalue = \<lambda>v. []\<rparr>\<rparr>"

definition plain_server :: "(nat, unit) httpd" where
  "plain_server = \<lparr>hd_core = down, hd_conn = (0, 0), hd_routes = ''routes'', hd_handlers = None,
     hd_json = \<lparr>rj_object = \<lambda>j. None, rj_i64 = \<lambda>j. None, rj_str = \<lambda>j. None, rj_null = \<lambda>j. True, rj_text = \<lambda>j. []\<rparr>,
     hd_parse = \<lambda>t. None, hd_alnum = \<lambda>n. False\<rparr>"

definition dropping :: "nat core_port" where
  "dropping = down\<lparr>cp_call := \<lambda>mth args s.
     if statement_text mth args = Some ''DROP TABLE t'' then (Inr [], Suc s) else (Inl ''down'', s)\<rparr>"

theorem requests_cannot_inject_witness:
  "handle_request (plain_server\<lparr>hd_core := dropping\<rparr>)
       \<lparr>rq_method = ''GET'', rq_path = ''/schema/t'', rq_query = Some ''q=DROP+TABLE+t'', rq_headers = [], rq_body = ''DROP TABLE t''\<rparr> ''x'' 0
     = handle_request plain_server
       \<lparr>rq_method = ''GET'', rq_path = ''/schema/t'', rq_query = Some ''q=DROP+TABLE+t'', rq_headers = [], rq_body = ''DROP TABLE t''\<rparr> ''x'' 0"
proof (rule requests_cannot_inject)
  let ?req = "\<lparr>rq_method = ''GET'', rq_path = ''/schema/t'', rq_query = Some ''q=DROP+TABLE+t'', rq_headers = [], rq_body = ''DROP TABLE t''\<rparr> :: http_request"
  show "\<not> (rq_path ?req = ''/sql'' \<and> rq_method ?req \<in> {''GET'', ''POST''})" by simp
  have "lookup_route plain_server mth path s \<noteq> (Inr (Some m), s1)" for mth path s m s1
  proof -
    have "db_query_params down c t ps s2 = (Inl ''down'', s2)" for c t ps s2
      by (simp add: db_query_params_def prepare_on_handle_def down_def)
    then show ?thesis by (simp add: lookup_route_def plain_server_def Let_def)
  qed
  then have "\<not> routed_text plain_server mth path s ''DROP TABLE t''" for mth path s
    by (simp add: routed_text_def lookup_sql_def schema_sql_def tables_sql_def)
  then show "alike (routed_text plain_server (rq_method ?req) (rq_path ?req) 0) (hd_core plain_server) dropping"
    by (auto simp: alike_def plain_server_def dropping_def down_def)
qed

section \<open>The parameters of a handler\<close>

text \<open>The core numbers named parameters by first appearance.\<close>

definition first_uses :: "'a list \<Rightarrow> 'a list" where
  "first_uses xs = rev (remdups (rev xs))"

lemma remdups_snoc: "remdups (xs @ [x]) = remdups (filter (\<lambda>y. y \<noteq> x) xs) @ [x]"
  by (induction xs) auto

lemma first_uses_Cons: "first_uses (x # xs) = x # filter (\<lambda>y. y \<noteq> x) (first_uses xs)"
  by (simp add: first_uses_def remdups_snoc rev_filter remdups_filter)

lemma pick_params_first:
  "pick_params seen known ns
     = map (\<lambda>n. the (map_of known n))
         (filter (\<lambda>n. n \<notin> seen) (first_uses (filter (\<lambda>n. n \<in> fst ` set known) ns)))"
proof (induction ns arbitrary: seen)
  case Nil
  then show ?case by (simp add: first_uses_def)
next
  case (Cons n ns)
  show ?case
  proof (cases "map_of known n")
    case None
    then have "n \<notin> fst ` set known" by (simp add: map_of_eq_None_iff)
    then show ?thesis using Cons None by simp
  next
    case (Some v)
    then have n: "n \<in> fst ` set known" by (metis map_of_eq_None_iff option.distinct(1))
    have "filter (\<lambda>m. m \<notin> insert n seen) ms = filter (\<lambda>m. m \<notin> seen) (filter (\<lambda>m. m \<noteq> n) ms)" for ms
      by (induction ms) auto
    moreover have "filter (\<lambda>m. m \<notin> seen) (filter (\<lambda>m. m \<noteq> n) ms) = filter (\<lambda>m. m \<notin> seen) ms" if "n \<in> seen" for ms
      using that by (induction ms) auto
    ultimately show ?thesis using Cons Some n by (simp add: first_uses_Cons)
  qed
qed

definition request_value :: "http_request \<Rightarrow> string \<Rightarrow> string \<Rightarrow> duckvalue" where
  "request_value req peer n = the (map_of (known_params req peer) n)"

definition request_names :: "string list" where
  "request_names = [''method'', ''path'', ''query'', ''body'', ''remote'']"

lemma known_names: "fst ` set (known_params req peer) = set request_names"
  by (simp add: known_params_def request_names_def)

text \<open>
  A handler that names only what a request has gets, at the position that the core gives to each
  name, the value of that name; a name that the request does not have is skipped, so that the
  names behind it get the values of others.
\<close>

lemma handler_params_exact:
  assumes "set (dollar_names sql) \<subseteq> set request_names"
  shows "ordered_handler_params sql req peer = map (request_value req peer) (first_uses (dollar_names sql))"
proof -
  have "filter (\<lambda>n. n \<in> fst ` set (known_params req peer)) (dollar_names sql) = dollar_names sql"
    using assms by (simp add: known_names subset_code(1))
  then show ?thesis by (simp add: ordered_handler_params_def pick_params_first request_value_def)
qed

lemma unknown_name_shifts:
  "dollar_names ''SELECT $user, $path'' = [''user'', ''path'']
   \<and> ordered_handler_params ''SELECT $user, $path'' req peer = [D_Text (rq_path req)]"
proof -
  have n: "dollar_names ''SELECT $user, $path'' = [''user'', ''path'']" by code_simp
  have "(''user'' = ''method'') = False" "(''user'' = ''path'') = False" "(''user'' = ''query'') = False"
    "(''user'' = ''body'') = False" "(''user'' = ''remote'') = False" by code_simp+
  then show ?thesis by (simp add: n ordered_handler_params_def known_params_def del: dollar_names.simps)
qed

section \<open>Every request is answered\<close>

definition full_rows :: "rows_t \<Rightarrow> bool" where
  "full_rows rows \<longleftrightarrow> (\<forall>row \<in> set (rs_rows rows). length row = length (rs_cols rows))"

text \<open>A core whose results have as many values in a row as columns.\<close>

definition tidy :: "'s core_port \<Rightarrow> bool" where
  "tidy C \<longleftrightarrow>
     (\<forall>mth args s rows. rbind (fst (cp_call C mth args s)) (prepared_rows (cp_fmt C)) = Inr rows \<longrightarrow> full_rows rows)"

lemma tidy_rows:
  assumes "tidy C" "db_query_params C conn sql params s = (Inr rows, s1)"
  shows "full_rows rows"
proof -
  have "full_rows rows" if "run_prepared C h n params s2 = (Inr rows, s1)" for h n s2
    using assms(1) that unfolding tidy_def run_prepared_def port_export_def
    by (auto split: prod.splits) (metis fst_conv)
  then show ?thesis
    using assms(2) by (auto simp: db_query_params_def split: prod.splits sum.splits verb_err.splits)
qed

lemma full_response: "full_rows rows \<Longrightarrow> build_route_response pr m rows \<noteq> None"
  by (auto simp: build_route_response_def full_rows_def Let_def split: list.split)

lemma handled:
  assumes "tidy (hd_core S)"
  shows "handle_request S req peer s \<noteq> None"
proof -
  have "execute_route S m req peer s1 \<noteq> None" for m s1
    using tidy_rows [OF assms] full_response
    by (auto simp: execute_route_def execute_sql_route_def split: route_kind.split prod.split sum.split)
  then show ?thesis
    by (auto simp: handle_request_def split: prod.split sum.split option.split)
qed

definition status_ok :: "u16 \<Rightarrow> bool" where
  "status_ok st \<longleftrightarrow> 100 \<le> unat st \<and> unat st \<le> 599"

lemma status_ok_clamp [simp]: "status_ok (clamp_status n)"
proof (cases "100 \<le> sint n \<and> sint n \<le> 599")
  case True
  then have "uint n = sint n"
    using uint_sint [of n] by (simp add: take_bit_eq_mod)
  then have "unat n = nat (sint n)" by (simp add: unat_eq_nat_uint)
  moreover have "unat (ucast n :: u16) = take_bit 16 (unat n)" by (simp add: unsigned_ucast_eq)
  moreover have "nat (sint n) \<le> 599" using True by (simp add: nat_le_iff)
  then have "nat (sint n) < 2 ^ 16" by simp
  ultimately have "unat (ucast n :: u16) = nat (sint n)" by (simp only: take_bit_eq_mod mod_less)
  then show ?thesis using True by (simp add: clamp_status_def status_ok_def nat_le_iff le_nat_iff)
qed (auto simp: clamp_status_def status_ok_def)


lemma status_default: "(\<And>st. m = Some st \<Longrightarrow> status_ok st) \<Longrightarrow> status_ok d \<Longrightarrow> status_ok (or_default m d)"
  by (simp add: or_default_def split: option.split)

lemma status_literals [simp]: "status_ok 200" "status_ok 204" "status_ok 400" "status_ok 404" "status_ok 422"
    "status_ok 500" "status_ok 501"
  by (simp_all add: status_ok_def)

lemma status_http [simp]: "hr_status (http_error st msg) = st" "hr_status (http_text st msg) = st"
    "hr_status (http_json st msg) = st"
  by (simp_all add: http_error_def http_json_def http_text_def)

lemma status_wasm: "status_ok (hr_status (fst (execute_wasm S m req peer s)))"
proof -
  have "status_ok st" if "parse_structured_response S reply = Some (Some st, ct, b)" for reply st ct b
    using that by (auto simp: parse_structured_response_def Let_def split: if_splits Option.bind_splits)
  then have "status_ok (hr_status (parse_handler_response S m body))" for body
    by (auto simp: parse_handler_response_def intro!: status_default split: option.split)
  then show ?thesis
    by (simp add: execute_wasm_def split: option.split prod.split sum.split)
qed

lemma status_row: "status_ok (hr_status (structured_row pr m cols row))"
  by (auto simp: structured_row_def Let_def intro!: status_default)

lemma status_rows: "build_route_response pr m rows = Some r \<Longrightarrow> status_ok (hr_status r)"
  unfolding build_route_response_def Let_def
  by (simp split: list.splits if_splits) (use status_row in auto)

lemma status_route: "execute_route S m req peer s = Some (r, s1) \<Longrightarrow> status_ok (hr_status r)"
  using status_wasm [of S m req peer s] status_rows
  by (auto simp: execute_route_def execute_sql_route_def execute_blob_def blob_response_def
      split: route_kind.splits prod.splits sum.splits list.splits)

lemma status_builtin: "status_ok (hr_status (fst (handle_builtin S req s)))"
  by (simp add: handle_builtin_def run_admin_sql_def Let_def split: option.split prod.split sum.split)

lemma status_handled: "handle_request S req peer s = Some (r, s1) \<Longrightarrow> status_ok (hr_status r)"
  using status_route [of S _ req peer] status_builtin [of S req s] status_builtin [of S req "snd (lookup_route S (rq_method req) (rq_path req) s)"]
  by (auto simp: handle_request_def split: if_splits prod.splits sum.splits option.splits)

text \<open>
  C34. Every request that can be read is answered, whatever it asks for and whatever routes, handlers and
  the core do, with a response whose status is a number from 100 to 599, as long as the rows of the
  core have as many values as there are columns.
\<close>

theorem every_request_answered:
  assumes "tidy (hd_core S)" "read_request input = Some (Inr (Some req))"
  shows "\<exists>r s1. handle_request S req peer s = Some (r, s1) \<and> status_ok (hr_status r)
    \<and> serve_conn S peer input s = Some (Inr (write_response (hr_status r) (hr_ctype r) (hr_body r)), s1)"
proof -
  obtain r s1 where "handle_request S req peer s = Some (r, s1)" using handled [OF assms(1)] by fast
  then show ?thesis using status_handled assms(2) by (auto simp: serve_conn_def)
qed

theorem every_request_answered_witness:
  "\<exists>(r :: http_response) s1. serve_conn plain_server ''x'' (request_wire ''GET'' ''/tables'' None [] []) 0
      = Some (Inr (write_response (hr_status r) (hr_ctype r) (hr_body r)), s1) \<and> status_ok (hr_status r)"
proof -
  have t: "tidy (hd_core plain_server)" by (simp add: tidy_def plain_server_def down_def)
  have "token ''GET''" "token ''/tables''" "CHR ''?'' \<notin> set ''/tables''" by code_simp+
  then have "read_request (request_wire ''GET'' ''/tables'' None [] [])
      = Some (Inr (Some \<lparr>rq_method = ''GET'', rq_path = ''/tables'', rq_query = None, rq_headers = [], rq_body = []\<rparr>))"
    using read_request_wire [of "''GET''" "''/tables''" None "[]" "[]" "[]"] by (simp add: stated_length_def)
  from every_request_answered [OF t this, of "''x''" 0] show ?thesis by blast
qed

text \<open>
  The one request that ends the server: the buffer for the body is allocated as long as the client
  says, and 2 to the power of 63 bytes and more are a panic.
\<close>

lemma huge_length_ends_server:
  "serve_conn S peer (request_wire ''GET'' ''/health'' None [(''Content-Length'', ''9223372036854775808'')] []) s = None"
proof -
  have "token ''GET''" "token ''/health''" "CHR ''?'' \<notin> set ''/health''"
    "list_all header_ok [(''Content-Length'', ''9223372036854775808'')]"
    "eq_ignore_case ''Content-Length'' ''content-length''" by code_simp+
  moreover have "parse_usize ''9223372036854775808'' = Some (2 ^ 63)"
    by (simp add: parse_usize_def Let_def decimal_def digit_val_def byte_nat_def is_ascii_digit_def less_eq_char_def)
  ultimately show ?thesis
    using read_request_wire [of "''GET''" "''/health''" None "[(''Content-Length'', ''9223372036854775808'')]" "[]" "[]"]
    by (simp add: serve_conn_def stated_length_def)
qed

text \<open>A status of the routes table, which the column holds as 32 bits, is not read.\<close>

lemma integer_status_ignored:
  "h \<noteq> [] \<Longrightarrow> map_option rm_status (route_of_row [D_Text h, D_Int32 404, D_Null, D_Text ''static'']) = Some 200"
  by (simp add: route_of_row_def nth_value_def dv_as_i64_def Let_def dv_as_str_def)

end
