(* ===== verification/Core_Callbacks.thy ===== *)
theory Core_Callbacks
  imports Core_Codec Manager_Load
begin

text \<open>
  What the core asks of the host (\<open>crates/ducklink-host/src/lib.rs\<close>): the callbacks of the functions
  that extensions registered (\<open>CallbackDispatchHost\<close>), the request to load an extension
  (\<open>CoreHostExtensionLoaderHost\<close>) and the registrations to install (\<open>ExtensionLoaderHooksHost\<close>). The
  arguments and results are untyped values. \<^const>\<open>None\<close>: a panic, which the host has when a column is
  shorter than the vector says, or a call that never returns.
\<close>

section \<open>Columns and rows\<close>

definition at_row :: "nat \<Rightarrow> ('a \<Rightarrow> duckvalue) \<Rightarrow> 'a list \<Rightarrow> duckvalue option" where
  "at_row r f v = (if r < length v then Some (f (v ! r)) else None)"

definition escaped :: "string \<Rightarrow> nat \<Rightarrow> string \<Rightarrow> duckvalue" where
  "escaped name r json = D_Complex \<lparr>cx_type_expr = name @ ''(row '' @ show_nat r @ '')'', cx_json = json\<rparr>"

definition core_colvec_value_at :: "colvec \<Rightarrow> nat \<Rightarrow> duckvalue option" where
  "core_colvec_value_at c r =
     (if \<not> is_valid (cv_validity c) r then Some D_Null
      else (case cv_data c of
        C_Boolean v \<Rightarrow> at_row r D_Boolean v
      | C_Int64 v \<Rightarrow> at_row r D_Int64 v
      | C_Uint64 v \<Rightarrow> at_row r D_Uint64 v
      | C_Float64 v \<Rightarrow> at_row r D_Float64 v
      | C_Int32 v \<Rightarrow> at_row r D_Int32 v
      | C_Int16 v \<Rightarrow> at_row r D_Int16 v
      | C_Int8 v \<Rightarrow> at_row r D_Int8 v
      | C_Uint32 v \<Rightarrow> at_row r D_Uint32 v
      | C_Uint16 v \<Rightarrow> at_row r D_Uint16 v
      | C_Uint8 v \<Rightarrow> at_row r D_Uint8 v
      | C_Float32 v \<Rightarrow> at_row r D_Float32 v
      | C_Timestamp v \<Rightarrow> at_row r D_Timestamp v
      | C_Time v \<Rightarrow> at_row r D_Time v
      | C_Timestamptz v \<Rightarrow> at_row r D_Timestamptz v
      | C_Date v \<Rightarrow> at_row r D_Date v
      | C_Text v \<Rightarrow> at_row r D_Text v
      | C_Blob v \<Rightarrow> at_row r D_Blob v
      | C_Decimal v \<Rightarrow> at_row r D_Decimal v
      | C_Interval v \<Rightarrow> at_row r D_Interval v
      | C_Uuid v \<Rightarrow> at_row r D_Uuid v
      | C_Hugeint v \<Rightarrow> at_row r (\<lambda>h. D_Hugeint \<lparr>huge_lower = i128_lower h, huge_upper = i128_upper h\<rparr>) v
      | C_Uhugeint v \<Rightarrow> at_row r (\<lambda>h. D_Uhugeint \<lparr>uhuge_lower = u128_lower h, uhuge_upper = u128_upper h\<rparr>) v
      | C_ListCol n \<Rightarrow> Some (escaped ''LIST'' r
          (''{\"kind\":\"list\",\"bytes\":'' @ show_nat (length (nc_encoded n)) @ ''}''))
      | C_StructCol n \<Rightarrow> Some (escaped ''STRUCT'' r
          (''{\"kind\":\"struct\",\"bytes\":'' @ show_nat (length (nc_encoded n)) @ ''}''))
      | C_MapCol m \<Rightarrow> Some (escaped ''MAP'' r
          (''{\"kind\":\"map\",\"keys_bytes\":'' @ show_nat (length (mc_keys_encoded m))
            @ '',\"vals_bytes\":'' @ show_nat (length (mc_vals_encoded m)) @ ''}''))
      | C_ArrayCol a \<Rightarrow> Some (escaped ''ARRAY'' r
          (''{\"kind\":\"array\",\"size\":'' @ show_word (ac_size a) @ '',\"bytes\":''
            @ show_nat (length (ac_encoded a)) @ ''}''))
      | C_Complex v \<Rightarrow> at_row r D_Complex v))"

text \<open>The first column says how many rows there are.\<close>

definition core_colvecs_to_ext_rows :: "colvec list \<Rightarrow> duckvalue list list option" where
  "core_colvecs_to_ext_rows args =
     (let n = (case args of [] \<Rightarrow> 0 | c # _ \<Rightarrow> unat (cv_rows c))
      in those (map (\<lambda>r. those (map (\<lambda>c. map_option convert_core_duckvalue_to_extension (core_colvec_value_at c r)) args)) [0..<n]))"

definition core_column_of :: "duckvalue list \<Rightarrow> colvec" where
  "core_column_of vals = (case representative vals of
      D_Null \<Rightarrow> all_null vals
    | D_Boolean _ \<Rightarrow> build_arm C_Boolean False (\<lambda>v. case v of D_Boolean x \<Rightarrow> Some x | _ \<Rightarrow> None) vals
    | D_Int64 _ \<Rightarrow> build_arm C_Int64 0 (\<lambda>v. case v of D_Int64 x \<Rightarrow> Some x | _ \<Rightarrow> None) vals
    | D_Uint64 _ \<Rightarrow> build_arm C_Uint64 0 (\<lambda>v. case v of D_Uint64 x \<Rightarrow> Some x | _ \<Rightarrow> None) vals
    | D_Float64 _ \<Rightarrow> build_arm C_Float64 0 (\<lambda>v. case v of D_Float64 x \<Rightarrow> Some x | _ \<Rightarrow> None) vals
    | D_Int32 _ \<Rightarrow> build_arm C_Int32 0 (\<lambda>v. case v of D_Int32 x \<Rightarrow> Some x | _ \<Rightarrow> None) vals
    | D_Int16 _ \<Rightarrow> build_arm C_Int16 0 (\<lambda>v. case v of D_Int16 x \<Rightarrow> Some x | _ \<Rightarrow> None) vals
    | D_Int8 _ \<Rightarrow> build_arm C_Int8 0 (\<lambda>v. case v of D_Int8 x \<Rightarrow> Some x | _ \<Rightarrow> None) vals
    | D_Uint32 _ \<Rightarrow> build_arm C_Uint32 0 (\<lambda>v. case v of D_Uint32 x \<Rightarrow> Some x | _ \<Rightarrow> None) vals
    | D_Uint16 _ \<Rightarrow> build_arm C_Uint16 0 (\<lambda>v. case v of D_Uint16 x \<Rightarrow> Some x | _ \<Rightarrow> None) vals
    | D_Uint8 _ \<Rightarrow> build_arm C_Uint8 0 (\<lambda>v. case v of D_Uint8 x \<Rightarrow> Some x | _ \<Rightarrow> None) vals
    | D_Float32 _ \<Rightarrow> build_arm C_Float32 0 (\<lambda>v. case v of D_Float32 x \<Rightarrow> Some x | _ \<Rightarrow> None) vals
    | D_Timestamp _ \<Rightarrow> build_arm C_Timestamp 0 (\<lambda>v. case v of D_Timestamp x \<Rightarrow> Some x | _ \<Rightarrow> None) vals
    | D_Time _ \<Rightarrow> build_arm C_Time 0 (\<lambda>v. case v of D_Time x \<Rightarrow> Some x | _ \<Rightarrow> None) vals
    | D_Timestamptz _ \<Rightarrow> build_arm C_Timestamptz 0 (\<lambda>v. case v of D_Timestamptz x \<Rightarrow> Some x | _ \<Rightarrow> None) vals
    | D_Date _ \<Rightarrow> build_arm C_Date 0 (\<lambda>v. case v of D_Date x \<Rightarrow> Some x | _ \<Rightarrow> None) vals
    | D_Text _ \<Rightarrow> build_arm C_Text [] (\<lambda>v. case v of D_Text x \<Rightarrow> Some x | _ \<Rightarrow> None) vals
    | D_Blob _ \<Rightarrow> build_arm C_Blob [] (\<lambda>v. case v of D_Blob x \<Rightarrow> Some x | _ \<Rightarrow> None) vals
    | D_Decimal _ \<Rightarrow> build_arm C_Decimal \<lparr>dec_lower = 0, dec_upper = 0, dec_width = 0, dec_scale = 0\<rparr>
        (\<lambda>v. case v of D_Decimal x \<Rightarrow> Some x | _ \<Rightarrow> None) vals
    | D_Interval _ \<Rightarrow> build_arm C_Interval \<lparr>iv_months = 0, iv_days = 0, iv_micros = 0\<rparr>
        (\<lambda>v. case v of D_Interval x \<Rightarrow> Some x | _ \<Rightarrow> None) vals
    | D_Uuid _ \<Rightarrow> build_arm C_Uuid \<lparr>uuid_hi = 0, uuid_lo = 0\<rparr>
        (\<lambda>v. case v of D_Uuid x \<Rightarrow> Some x | _ \<Rightarrow> None) vals
    | D_Hugeint _ \<Rightarrow> build_arm C_Hugeint \<lparr>i128_lower = 0, i128_upper = 0\<rparr>
        (\<lambda>v. case v of D_Hugeint h \<Rightarrow> Some \<lparr>i128_lower = huge_lower h, i128_upper = huge_upper h\<rparr> | _ \<Rightarrow> None) vals
    | D_Uhugeint _ \<Rightarrow> build_arm C_Uhugeint \<lparr>u128_lower = 0, u128_upper = 0\<rparr>
        (\<lambda>v. case v of D_Uhugeint h \<Rightarrow> Some \<lparr>u128_lower = uhuge_lower h, u128_upper = uhuge_upper h\<rparr> | _ \<Rightarrow> None) vals
    | D_Complex _ \<Rightarrow> build_arm C_Complex \<lparr>cx_type_expr = [], cx_json = ''null''\<rparr>
        (\<lambda>v. case v of D_Complex x \<Rightarrow> Some x | _ \<Rightarrow> None) vals)"

definition ext_values_to_core_colvec :: "duckvalue list \<Rightarrow> colvec" where
  "ext_values_to_core_colvec vals = core_column_of (map convert_extension_duckvalue_to_core vals)"

section \<open>Smaller conversions\<close>

definition convert_core_invokeinfo :: "invokeinfo \<Rightarrow> invokeinfo" where
  "convert_core_invokeinfo c = \<lparr>rowindex = rowindex c, iswindow = iswindow c\<rparr>"

definition convert_extension_resultset_to_core :: "duckvalue list list \<Rightarrow> duckvalue list list" where
  "convert_extension_resultset_to_core rs = map (map convert_extension_duckvalue_to_core) rs"

definition convert_extension_duckerror_to_core :: "duckerror \<Rightarrow> duckerror" where
  "convert_extension_duckerror_to_core err =
     (case err of
        Invalidargument m \<Rightarrow> Invalidargument m
      | Unsupported m \<Rightarrow> Unsupported m
      | Invalidstate m \<Rightarrow> Invalidstate m
      | Io m \<Rightarrow> Io m
      | Internal m \<Rightarrow> Internal m)"

lemma convert_extension_duckerror_id [simp]: "convert_extension_duckerror_to_core e = e"
  by (cases e) (simp_all add: convert_extension_duckerror_to_core_def)

lemma convert_core_invokeinfo_id [simp]: "convert_core_invokeinfo c = c"
  by (simp add: convert_core_invokeinfo_def)

section \<open>Callbacks\<close>

definition core_callback_iface :: string where
  "core_callback_iface = ''duckdb:extension/callback-dispatch@5.0.0''"

definition callback_reply :: "('a \<Rightarrow> wvalue) \<Rightarrow> duckerror + 'a \<Rightarrow> wvalue list" where
  "callback_reply enc r =
     [V_Result (case r of
        Inr a \<Rightarrow> Inr (Some (enc a))
      | Inl e \<Rightarrow> Inl (Some (core_duckerror_to_value (convert_extension_duckerror_to_core e))))]"

definition expected_args :: "fmt \<Rightarrow> string \<Rightarrow> string \<Rightarrow> wvalue list \<Rightarrow> string" where
  "expected_args fm mth types other = core_callback_iface @ ''.'' @ mth @ '': expected '' @ types @ '', got '' @ dbg_slice fm other"

definition core_args :: "fmt \<Rightarrow> wvalue list \<Rightarrow> string + duckvalue list" where
  "core_args fm vs = rmap (\<lambda>v. rbind (value_to_core_duckvalue fm v) (\<lambda>d. Inr (convert_core_duckvalue_to_extension d))) vs"

definition ext_reply :: "duckvalue \<Rightarrow> wvalue" where
  "ext_reply v = core_duckvalue_to_value (convert_extension_duckvalue_to_core v)"

type_synonym 'm core_outcome = "((string + wvalue list) \<times> 'm manager) option"

definition callback_scalar :: "fmt \<Rightarrow> 'm world \<Rightarrow> wvalue list \<Rightarrow> 'm manager \<Rightarrow> 'm core_outcome" where
  "callback_scalar fm W args m =
     (case args of
        [V_U32 h, V_List a, c] \<Rightarrow>
          (case rbind (value_to_core_invokeinfo fm c) (\<lambda>info. rbind (core_args fm a) (\<lambda>xs. Inr (info, xs))) of
             Inl e \<Rightarrow> Some (Inl e, m)
           | Inr (info, xs) \<Rightarrow>
               (case manager_dispatch_scalar W h xs (convert_core_invokeinfo info) m of
                  (r, m1) \<Rightarrow> Some (Inr (callback_reply ext_reply r), m1)))
      | other \<Rightarrow> Some (Inl (expected_args fm ''call-scalar'' ''[u32, list<duckvalue>, invokeinfo]'' other), m))"

definition callback_scalar_batch :: "fmt \<Rightarrow> 'm world \<Rightarrow> wvalue list \<Rightarrow> 'm manager \<Rightarrow> 'm core_outcome" where
  "callback_scalar_batch fm W args m =
     (case args of
        [V_U32 h, V_List a, c] \<Rightarrow>
          (case rbind (value_to_core_invokeinfo fm c) (\<lambda>info. rbind (rmap (value_to_core_colvec fm) a) (\<lambda>cs. Inr (info, cs))) of
             Inl e \<Rightarrow> Some (Inl e, m)
           | Inr (info, cs) \<Rightarrow>
               Option.bind (core_colvecs_to_ext_rows cs) (\<lambda>rows.
               map_option (\<lambda>(r, m1). (Inr (callback_reply (\<lambda>vs. core_colvec_to_value (ext_values_to_core_colvec vs)) r), m1))
                 (manager_dispatch_scalar_batch W h rows (convert_core_invokeinfo info) m)))
      | other \<Rightarrow> Some (Inl (expected_args fm ''call-scalar-batch-col'' ''[u32, list<colvec>, invokeinfo]'' other), m))"

definition callback_table :: "fmt \<Rightarrow> 'm world \<Rightarrow> wvalue list \<Rightarrow> 'm manager \<Rightarrow> 'm core_outcome" where
  "callback_table fm W args m =
     (case args of
        [V_U32 h, V_List a] \<Rightarrow>
          (case core_args fm a of
             Inl e \<Rightarrow> Some (Inl e, m)
           | Inr xs \<Rightarrow>
               map_option (\<lambda>(r, m1).
                   (Inr (callback_reply (\<lambda>rs. core_resultset_to_value (convert_extension_resultset_to_core rs)) r), m1))
                 (manager_dispatch_table W h xs m))
      | other \<Rightarrow> Some (Inl (expected_args fm ''call-table'' ''[u32, list<duckvalue>]'' other), m))"

definition callback_aggregate :: "fmt \<Rightarrow> 'm world \<Rightarrow> wvalue list \<Rightarrow> 'm manager \<Rightarrow> 'm core_outcome" where
  "callback_aggregate fm W args m =
     (case args of
        [V_U32 h, V_List a] \<Rightarrow>
          (case rmap (value_to_core_colvec fm) a of
             Inl e \<Rightarrow> Some (Inl e, m)
           | Inr cs \<Rightarrow>
               Option.bind (core_colvecs_to_ext_rows cs) (\<lambda>rows.
               map_option (\<lambda>(r, m1). (Inr (callback_reply ext_reply r), m1))
                 (manager_dispatch_aggregate W h rows m)))
      | other \<Rightarrow> Some (Inl (expected_args fm ''call-aggregate-col'' ''[u32, list<colvec>]'' other), m))"

text \<open>The first error ends the rows.\<close>

fun cast_rows :: "'m world \<Rightarrow> u32 \<Rightarrow> duckvalue list list \<Rightarrow> 'm manager \<Rightarrow> (duckerror + duckvalue list) \<times> 'm manager" where
  "cast_rows W h [] m = (Inr [], m)"
| "cast_rows W h (row # rows) m =
     (case manager_dispatch_cast W h (case row of [] \<Rightarrow> D_Null | v # _ \<Rightarrow> v) m of
        (Inl e, m1) \<Rightarrow> (Inl e, m1)
      | (Inr d, m1) \<Rightarrow>
          (case cast_rows W h rows m1 of
             (Inl e, m2) \<Rightarrow> (Inl e, m2)
           | (Inr ds, m2) \<Rightarrow> (Inr (d # ds), m2)))"

definition callback_cast_batch :: "fmt \<Rightarrow> 'm world \<Rightarrow> wvalue list \<Rightarrow> 'm manager \<Rightarrow> 'm core_outcome" where
  "callback_cast_batch fm W args m =
     (case args of
        [V_U32 h, c] \<Rightarrow>
          (case value_to_core_colvec fm c of
             Inl e \<Rightarrow> Some (Inl e, m)
           | Inr cv \<Rightarrow>
               map_option (\<lambda>rows. case cast_rows W h rows m of
                   (r, m1) \<Rightarrow> (Inr (callback_reply (\<lambda>vs. core_colvec_to_value (ext_values_to_core_colvec vs)) r), m1))
                 (core_colvecs_to_ext_rows [cv]))
      | other \<Rightarrow> Some (Inl (expected_args fm ''call-cast-col'' ''[u32, colvec]'' other), m))"

definition callback_pragma :: "fmt \<Rightarrow> 'm world \<Rightarrow> wvalue list \<Rightarrow> 'm manager \<Rightarrow> 'm core_outcome" where
  "callback_pragma fm W args m =
     (case args of
        [V_U32 h, V_List a] \<Rightarrow>
          (case core_args fm a of
             Inl e \<Rightarrow> Some (Inl e, m)
           | Inr xs \<Rightarrow>
               (case manager_dispatch_pragma W h xs m of
                  (r, m1) \<Rightarrow> Some (Inr (callback_reply (\<lambda>d. V_Option (map_option ext_reply d)) r), m1)))
      | other \<Rightarrow> Some (Inl (expected_args fm ''call-pragma'' ''[u32, list<duckvalue>]'' other), m))"

definition callback_cast :: "fmt \<Rightarrow> 'm world \<Rightarrow> wvalue list \<Rightarrow> 'm manager \<Rightarrow> 'm core_outcome" where
  "callback_cast fm W args m =
     (case args of
        [V_U32 h, v] \<Rightarrow>
          (case value_to_core_duckvalue fm v of
             Inl e \<Rightarrow> Some (Inl e, m)
           | Inr d \<Rightarrow>
               (case manager_dispatch_cast W h (convert_core_duckvalue_to_extension d) m of
                  (r, m1) \<Rightarrow> Some (Inr (callback_reply ext_reply r), m1)))
      | other \<Rightarrow> Some (Inl (expected_args fm ''call-cast'' ''[u32, duckvalue]'' other), m))"

definition callback_dispatch :: "fmt \<Rightarrow> 'm world \<Rightarrow> string \<Rightarrow> wvalue list \<Rightarrow> 'm manager \<Rightarrow> 'm core_outcome" where
  "callback_dispatch fm W mth args m =
     (if mth = ''call-scalar'' then callback_scalar fm W args m
      else if mth = ''call-scalar-batch-col'' then callback_scalar_batch fm W args m
      else if mth = ''call-table'' then callback_table fm W args m
      else if mth = ''call-aggregate-col'' then callback_aggregate fm W args m
      else if mth = ''call-cast-col'' then callback_cast_batch fm W args m
      else if mth = ''call-pragma'' then callback_pragma fm W args m
      else if mth = ''call-cast'' then callback_cast fm W args m
      else Some (Inl (core_callback_iface @ '': unknown method '' @ dbg_str fm mth), m))"

end
