(* ===== verification/Core_Columns.thy ===== *)
theory Core_Columns
  imports Core_Callbacks Host_Cli_Facts
begin

text \<open>
  The columns of the callbacks: the encodings read back, have the types of the interface, and the
  rows that reach an extension are those of the columns.
\<close>

section \<open>The encodings read back\<close>

lemma list_items_map: "(\<And>x. sel (f x) = Some x) \<Longrightarrow> list_items bad sel i (map f xs) = Inr xs"
  by (induction xs arbitrary: i) simp_all

lemma list_of_map: "(\<And>x. sel (f x) = Some x) \<Longrightarrow> list_of fm name variant sel (map f xs) = Inr xs"
  by (simp add: list_of_def list_items_map)

lemma blob_items_map: "blob_items fm i (map bytes_to_value_list bs) = Inr bs"
  by (induction bs arbitrary: i) (simp_all add: bytes_to_value_list_def bytes_from_value_list_def list_items_map as_defs)

lemma rmap_pack: "(\<And>x. f (g x) = Inr x) \<Longrightarrow> rmap f (map g xs) = Inr xs"
  using rmap_map_Inr [of xs f g "\<lambda>x. x"] by simp

lemma record_packs:
  "unpack_decimalvalue fm (pack_decimalvalue d) = Inr d"
  "unpack_intervalvalue fm (pack_intervalvalue v) = Inr v"
  "unpack_uuidvalue fm (pack_uuidvalue u) = Inr u"
  "unpack_duck_int128 fm (pack_duck_int128 i) = Inr i"
  "unpack_duck_uint128 fm (pack_duck_uint128 n) = Inr n"
  "unpack_complexvalue fm (pack_complexvalue c) = Inr c"
  by (simp_all add: unpack_decimalvalue_def pack_decimalvalue_def unpack_intervalvalue_def pack_intervalvalue_def
      unpack_uuidvalue_def pack_uuidvalue_def unpack_duck_int128_def pack_duck_int128_def unpack_duck_uint128_def
      pack_duck_uint128_def unpack_complexvalue_def pack_complexvalue_def as_defs)

lemma bytes_scan_list: "bytes_scan fm what key st key (bytes_to_value_list b) = Inr (Some b)"
  by (simp add: bytes_scan_def bytes_to_value_list_def bytes_from_value_list_def list_items_map as_defs)

lemma bytes_scan_other: "k \<noteq> key \<Longrightarrow> bytes_scan fm what key st k v = Inr st"
  by (simp add: bytes_scan_def)

lemma nested_packs:
  "unpack_nested_column fm (pack_nested_column n) = Inr n"
  "unpack_map_column fm (pack_map_column m) = Inr m"
  "unpack_array_column fm (pack_array_column a) = Inr a"
  by (simp_all add: unpack_nested_column_def pack_nested_column_def unpack_map_column_def pack_map_column_def
      unpack_array_column_def pack_array_column_def map_column_field_def array_column_field_def
      bytes_scan_list bytes_scan_other)

lemma column_arm_packs:
  "column_arm fm disc (pack_nested_column n) = nested_arm fm disc (pack_nested_column n)"
  "column_arm fm disc (pack_map_column m) = nested_arm fm disc (pack_map_column m)"
  "column_arm fm disc (pack_array_column a) = nested_arm fm disc (pack_array_column a)"
  by (simp_all add: column_arm_def pack_nested_column_def pack_map_column_def pack_array_column_def)

lemma list_column_arm:
  "column_arm fm disc (V_List items) =
     first_arm (list_arm fm disc items) (first_arm (record_list_arm fm disc items) (nested_arm fm disc (V_List items)))"
  by (simp add: column_arm_def)

lemma core_column_value: "value_to_core_column fm (core_column_to_value c) = Inr c"
  by (cases c)
    (simp_all add: core_column_to_value_def value_to_core_column_def column_arm_packs list_column_arm list_arm_def
      record_list_arm_def nested_arm_def first_arm_def list_of_map rmap_pack record_packs nested_packs
      blob_items_map as_defs)

lemma core_colvec_value [simp]: "value_to_core_colvec fm (core_colvec_to_value c) = Inr c"
  by (simp add: value_to_core_colvec_def core_colvec_to_value_def colvec_field_def core_column_value bytes_scan_list)

section \<open>The encodings have the types of the interface\<close>

definition wit_nested_column :: wit where
  "wit_nested_column = W_Record [(''encoded'', wit_bytes)]"

definition wit_column :: wit where
  "wit_column = W_Variant
     [(''boolean'', Some (W_List W_Bool)), (''int64'', Some (W_List W_S64)), (''uint64'', Some (W_List W_U64)),
      (''float64'', Some (W_List W_F64)), (''int32'', Some (W_List W_S32)), (''timestamp'', Some (W_List W_S64)),
      (''int8'', Some (W_List W_S8)), (''int16'', Some (W_List W_S16)), (''uint8'', Some (W_List W_U8)),
      (''uint16'', Some (W_List W_U16)), (''uint32'', Some (W_List W_U32)), (''float32'', Some (W_List W_F32)),
      (''date'', Some (W_List W_S32)), (''time'', Some (W_List W_S64)), (''timestamptz'', Some (W_List W_S64)),
      (''decimal'', Some (W_List (W_Record [(''lower'', W_U64), (''upper'', W_U64), (''width'', W_U8), (''scale'', W_U8)]))),
      (''interval'', Some (W_List (W_Record [(''months'', W_S32), (''days'', W_S32), (''micros'', W_S64)]))),
      (''uuid'', Some (W_List (W_Record [(''hi'', W_U64), (''lo'', W_U64)]))),
      (''text'', Some (W_List W_String)), (''blob'', Some (W_List wit_bytes)),
      (''hugeint'', Some (W_List (W_Record [(''lower'', W_U64), (''upper'', W_S64)]))),
      (''uhugeint'', Some (W_List (W_Record [(''lower'', W_U64), (''upper'', W_U64)]))),
      (''list-col'', Some wit_nested_column), (''struct-col'', Some wit_nested_column),
      (''map-col'', Some (W_Record [(''keys-encoded'', wit_bytes), (''vals-encoded'', wit_bytes)])),
      (''array-col'', Some (W_Record [(''size'', W_U32), (''encoded'', wit_bytes)])),
      (''complex'', Some (W_List (W_Record [(''type-expr'', W_String), (''json'', W_String)])))]"

definition wit_colvec :: wit where
  "wit_colvec = W_Record [(''data'', wit_column), (''validity'', wit_bytes), (''rows'', W_U32)]"

lemma pack_typed [simp]:
  "typed (pack_decimalvalue d) (W_Record [(''lower'', W_U64), (''upper'', W_U64), (''width'', W_U8), (''scale'', W_U8)])"
  "typed (pack_intervalvalue v) (W_Record [(''months'', W_S32), (''days'', W_S32), (''micros'', W_S64)])"
  "typed (pack_uuidvalue u) (W_Record [(''hi'', W_U64), (''lo'', W_U64)])"
  "typed (pack_duck_int128 i) (W_Record [(''lower'', W_U64), (''upper'', W_S64)])"
  "typed (pack_duck_uint128 n) (W_Record [(''lower'', W_U64), (''upper'', W_U64)])"
  "typed (pack_complexvalue c) (W_Record [(''type-expr'', W_String), (''json'', W_String)])"
  "typed (pack_nested_column nc) wit_nested_column"
  "typed (pack_map_column mc) (W_Record [(''keys-encoded'', wit_bytes), (''vals-encoded'', wit_bytes)])"
  "typed (pack_array_column ac) (W_Record [(''size'', W_U32), (''encoded'', wit_bytes)])"
  by (simp_all add: pack_decimalvalue_def pack_intervalvalue_def pack_uuidvalue_def pack_duck_int128_def
      pack_duck_uint128_def pack_complexvalue_def pack_nested_column_def pack_map_column_def pack_array_column_def
      wit_nested_column_def)

lemma core_column_typed: "typed (core_column_to_value c) wit_column"
  by (cases c) (simp_all add: core_column_to_value_def wit_column_def list_all_iff del: typed.simps(15))

lemma core_colvec_typed [simp]: "typed (core_colvec_to_value c) wit_colvec"
  by (simp add: core_colvec_to_value_def wit_colvec_def core_column_typed)

lemma core_duckvalue_typed [simp]: "typed (core_duckvalue_to_value v) wit_duckvalue"
  by (simp add: core_duckvalue_to_value_def)

lemma core_duckerror_eq: "core_duckerror_to_value e = cli_duckerror_to_value e"
  by (cases e) (simp_all add: core_duckerror_to_value_def cli_duckerror_to_value_def)

lemma core_resultset_typed [simp]: "typed (core_resultset_to_value rs) (W_List (W_List wit_duckvalue))"
  by (simp add: core_resultset_to_value_def list_all_iff)

section \<open>The rows that reach an extension\<close>

text \<open>A column of full length: no arm but the nested ones says its length.\<close>

definition column_rows :: "column \<Rightarrow> nat option" where
  "column_rows c =
     (case c of
        C_Boolean v \<Rightarrow> Some (length v) | C_Int64 v \<Rightarrow> Some (length v) | C_Uint64 v \<Rightarrow> Some (length v)
      | C_Float64 v \<Rightarrow> Some (length v) | C_Int32 v \<Rightarrow> Some (length v) | C_Timestamp v \<Rightarrow> Some (length v)
      | C_Int8 v \<Rightarrow> Some (length v) | C_Int16 v \<Rightarrow> Some (length v) | C_Uint8 v \<Rightarrow> Some (length v)
      | C_Uint16 v \<Rightarrow> Some (length v) | C_Uint32 v \<Rightarrow> Some (length v) | C_Float32 v \<Rightarrow> Some (length v)
      | C_Date v \<Rightarrow> Some (length v) | C_Time v \<Rightarrow> Some (length v) | C_Timestamptz v \<Rightarrow> Some (length v)
      | C_Decimal v \<Rightarrow> Some (length v) | C_Interval v \<Rightarrow> Some (length v) | C_Uuid v \<Rightarrow> Some (length v)
      | C_Text v \<Rightarrow> Some (length v) | C_Blob v \<Rightarrow> Some (length v) | C_Hugeint v \<Rightarrow> Some (length v)
      | C_Uhugeint v \<Rightarrow> Some (length v) | C_Complex v \<Rightarrow> Some (length v)
      | _ \<Rightarrow> None)"

definition flat_colvec :: "colvec \<Rightarrow> bool" where
  "flat_colvec c = (column_rows (cv_data c) = Some (unat (cv_rows c)))"

lemma nth_emit: "r < length v \<Longrightarrow> emit val f v ! r = (if is_valid val r then f (v ! r) else D_Null)"
  by (simp add: emit_def enumerate_eq_zip)

lemma flat_value_at:
  "column_rows (cv_data c) = Some n \<Longrightarrow> r < n \<Longrightarrow> core_colvec_value_at c r = Some (colvec_to_values c ! r)"
  unfolding core_colvec_value_at_def colvec_to_values_def column_rows_def at_row_def Let_def
  by (cases "cv_data c") (simp_all add: nth_emit)

lemma those_map_Some: "(\<And>x. x \<in> set xs \<Longrightarrow> f x = Some (g x)) \<Longrightarrow> those (map f xs) = Some (map g xs)"
  by (induction xs) simp_all

lemma flat_rows:
  assumes "\<forall>c \<in> set cs. flat_colvec c \<and> cv_rows c = n"
  shows "core_colvecs_to_ext_rows cs =
    Some (map (\<lambda>r. map (\<lambda>c. colvec_to_values c ! r) cs) [0..<if cs = [] then 0 else unat n])"
proof -
  have "those (map (\<lambda>c. map_option convert_core_duckvalue_to_extension (core_colvec_value_at c r)) cs)
      = Some (map (\<lambda>c. colvec_to_values c ! r) cs)" if "r < unat n" for r
    by (rule those_map_Some) (use assms that flat_value_at in \<open>auto simp: flat_colvec_def\<close>)
  then have rows: "those (map (\<lambda>r. those (map (\<lambda>c. map_option convert_core_duckvalue_to_extension (core_colvec_value_at c r)) cs)) [0..<k])
      = Some (map (\<lambda>r. map (\<lambda>c. colvec_to_values c ! r) cs) [0..<k])" if "k \<le> unat n" for k
    by (rule those_map_Some) (use that in simp)
  have e: "(case cs of [] \<Rightarrow> 0 | c # _ \<Rightarrow> unat (cv_rows c)) = (if cs = [] then 0 else unat n)"
    using assms by (cases cs) auto
  have le: "(if cs = [] then 0 else unat n) \<le> unat n" by simp
  show ?thesis by (simp only: core_colvecs_to_ext_rows_def Let_def e rows [OF le])
qed

text \<open>The columns that the host builds are those that the runtime builds.\<close>

lemma core_column_of_eq: "core_column_of vals = column_from_values vals"
  unfolding core_column_of_def column_from_values_def by (rule refl)

lemma ext_values_to_core_colvec_eq:
  "ext_values_to_core_colvec vals = column_from_values (map convert_extension_duckvalue_to_core vals)"
  by (simp add: ext_values_to_core_colvec_def core_column_of_eq)

section \<open>What the columns do not carry\<close>

text \<open>A field that is missing or of another type is zero in the small records, and an error in the others.\<close>

lemma missing_fields:
  "unpack_decimalvalue fm (V_Record []) = Inr \<lparr>dec_lower = 0, dec_upper = 0, dec_width = 0, dec_scale = 0\<rparr>"
  "unpack_intervalvalue fm (V_Record [(''months'', V_S64 3)]) = Inr \<lparr>iv_months = 0, iv_days = 0, iv_micros = 0\<rparr>"
  "unpack_array_column fm (V_Record []) = Inl (''array-column: missing '' @ backquoted ''size: u32'')"
  by (simp_all add: unpack_decimalvalue_def unpack_intervalvalue_def unpack_array_column_def as_defs)

text \<open>Two nested columns with as many bytes are the same to an extension.\<close>

lemma nested_values_lost:
  "length b = length b' \<Longrightarrow>
     core_colvec_value_at \<lparr>cv_data = C_ListCol \<lparr>nc_encoded = b\<rparr>, cv_validity = v, cv_rows = n\<rparr> r
     = core_colvec_value_at \<lparr>cv_data = C_ListCol \<lparr>nc_encoded = b'\<rparr>, cv_validity = v, cv_rows = n\<rparr> r"
  by (simp add: core_colvec_value_at_def)

text \<open>An answer without a value is a column of integers, whatever the function returns.\<close>

lemma null_column_type:
  "cv_data (ext_values_to_core_colvec (replicate n D_Null)) = C_Int64 (replicate n 0)"
proof -
  have "convert_extension_duckvalue_to_core D_Null = D_Null" by (simp add: convert_extension_duckvalue_to_core_def)
  moreover have "representative (replicate n D_Null) = D_Null" by (simp add: representative_def)
  ultimately show ?thesis by (simp add: ext_values_to_core_colvec_eq column_from_values_def all_null_def)
qed

text \<open>A column shorter than the vector says is a panic.\<close>

lemma short_column_panics:
  "core_colvecs_to_ext_rows [\<lparr>cv_data = C_Int64 [], cv_validity = [], cv_rows = 1\<rparr>] = None"
  by code_simp

end
