(* ===== verification/Core_Loader.thy ===== *)
theory Core_Loader
  imports Manager_Load Host_Codec
begin

text \<open>
  What the core asks of the host about extensions (\<open>crates/ducklink-host/src/lib.rs\<close>): to load one
  (\<open>CoreHostExtensionLoaderHost\<close>), and the registrations to install (\<open>ExtensionLoaderHooksHost\<close>), which
  go through an archive so that further instances of the core install what the first one did.
\<close>

section \<open>Stores and the archive\<close>

text \<open>
  The manager and the archive are shared; a store of an instance knows whether it belongs to a
  further instance, and whether it has the archive.
\<close>

record 'm core_shared =
  sh_manager :: "'m manager"
  sh_archive :: pending_registrations

record core_store =
  st_sibling :: bool
  st_archive :: bool

definition drain_pending_registrations_for_replay ::
  "'m world \<Rightarrow> core_store \<Rightarrow> 'm core_shared \<Rightarrow> pending_registrations \<times> 'm core_shared" where
  "drain_pending_registrations_for_replay W st sh =
     (if st_sibling st
      then (if st_archive st then (sh_archive sh, sh) else (no_registrations, sh))
      else
        (case drain_pending_registrations W (sh_manager sh) of
           (drained, m1) \<Rightarrow>
             (drained, sh\<lparr>sh_manager := m1,
                sh_archive := (if st_archive st then append_registrations (sh_archive sh) drained else sh_archive sh)\<rparr>)))"

section \<open>Types as the core reads them\<close>

fun neutral_logicaltype_to_type_expr :: "reg_logical_type \<Rightarrow> string" where
  "neutral_logicaltype_to_type_expr R_Boolean = ''BOOLEAN''"
| "neutral_logicaltype_to_type_expr R_Int64 = ''BIGINT''"
| "neutral_logicaltype_to_type_expr R_Uint64 = ''UBIGINT''"
| "neutral_logicaltype_to_type_expr R_Float64 = ''DOUBLE''"
| "neutral_logicaltype_to_type_expr R_Text = ''VARCHAR''"
| "neutral_logicaltype_to_type_expr R_Blob = ''BLOB''"
| "neutral_logicaltype_to_type_expr R_Int32 = ''INTEGER''"
| "neutral_logicaltype_to_type_expr R_Timestamp = ''TIMESTAMP''"
| "neutral_logicaltype_to_type_expr R_Int8 = ''TINYINT''"
| "neutral_logicaltype_to_type_expr R_Int16 = ''SMALLINT''"
| "neutral_logicaltype_to_type_expr R_Uint8 = ''UTINYINT''"
| "neutral_logicaltype_to_type_expr R_Uint16 = ''USMALLINT''"
| "neutral_logicaltype_to_type_expr R_Uint32 = ''UINTEGER''"
| "neutral_logicaltype_to_type_expr R_Float32 = ''FLOAT''"
| "neutral_logicaltype_to_type_expr R_Date = ''DATE''"
| "neutral_logicaltype_to_type_expr R_Time = ''TIME''"
| "neutral_logicaltype_to_type_expr R_Timestamptz = ''TIMESTAMPTZ''"
| "neutral_logicaltype_to_type_expr (R_Decimal w s) = ''DECIMAL('' @ show_word w @ '', '' @ show_word s @ '')''"
| "neutral_logicaltype_to_type_expr R_Interval = ''INTERVAL''"
| "neutral_logicaltype_to_type_expr R_Uuid = ''UUID''"
| "neutral_logicaltype_to_type_expr R_Hugeint = ''HUGEINT''"
| "neutral_logicaltype_to_type_expr R_UHugeint = ''UHUGEINT''"
| "neutral_logicaltype_to_type_expr (R_List e) = neutral_logicaltype_to_type_expr e @ ''[]''"
| "neutral_logicaltype_to_type_expr (R_Struct fs) =
     ''STRUCT('' @ join '', '' (map (\<lambda>(n, t). n @ '' '' @ neutral_logicaltype_to_type_expr t) fs) @ '')''"
| "neutral_logicaltype_to_type_expr (R_Map k v) =
     ''MAP('' @ neutral_logicaltype_to_type_expr k @ '', '' @ neutral_logicaltype_to_type_expr v @ '')''"
| "neutral_logicaltype_to_type_expr (R_Array n e) = neutral_logicaltype_to_type_expr e @ ''['' @ show_word n @ '']''"
| "neutral_logicaltype_to_type_expr (R_Complex expr) = expr"

definition complex_type :: "string \<Rightarrow> wvalue" where
  "complex_type expr = V_Variant ''complex'' (Some (V_String expr))"

definition native_logicaltype_to_value :: "reg_logical_type \<Rightarrow> wvalue" where
  "native_logicaltype_to_value ty =
     (case ty of
        R_Boolean \<Rightarrow> V_Variant ''boolean'' None
      | R_Int64 \<Rightarrow> V_Variant ''int64'' None
      | R_Uint64 \<Rightarrow> V_Variant ''uint64'' None
      | R_Float64 \<Rightarrow> V_Variant ''float64'' None
      | R_Text \<Rightarrow> V_Variant ''text'' None
      | R_Blob \<Rightarrow> V_Variant ''blob'' None
      | R_Int32 \<Rightarrow> V_Variant ''int32'' None
      | R_Timestamp \<Rightarrow> V_Variant ''timestamp'' None
      | R_Int8 \<Rightarrow> V_Variant ''int8'' None
      | R_Int16 \<Rightarrow> V_Variant ''int16'' None
      | R_Uint8 \<Rightarrow> V_Variant ''uint8'' None
      | R_Uint16 \<Rightarrow> V_Variant ''uint16'' None
      | R_Uint32 \<Rightarrow> V_Variant ''uint32'' None
      | R_Float32 \<Rightarrow> V_Variant ''float32'' None
      | R_Date \<Rightarrow> V_Variant ''date'' None
      | R_Time \<Rightarrow> V_Variant ''time'' None
      | R_Timestamptz \<Rightarrow> V_Variant ''timestamptz'' None
      | R_Decimal w s \<Rightarrow> V_Variant ''decimal'' (Some (V_Record [(''width'', V_U8 w), (''scale'', V_U8 s)]))
      | R_Interval \<Rightarrow> V_Variant ''interval'' None
      | R_Uuid \<Rightarrow> V_Variant ''uuid'' None
      | R_Hugeint \<Rightarrow> V_Variant ''hugeint'' None
      | R_UHugeint \<Rightarrow> V_Variant ''uhugeint'' None
      | R_List e \<Rightarrow> complex_type (''LIST('' @ neutral_logicaltype_to_type_expr e @ '')'')
      | R_Struct fs \<Rightarrow>
          complex_type (''STRUCT('' @ join '', '' (map (\<lambda>(n, t). n @ '' '' @ neutral_logicaltype_to_type_expr t) fs) @ '')'')
      | R_Map k v \<Rightarrow>
          complex_type (''MAP('' @ neutral_logicaltype_to_type_expr k @ '', '' @ neutral_logicaltype_to_type_expr v @ '')'')
      | R_Array n e \<Rightarrow> complex_type (neutral_logicaltype_to_type_expr e @ ''['' @ show_word n @ '']'')
      | R_Complex expr \<Rightarrow> complex_type expr)"

section \<open>Registrations as the core reads them\<close>

definition native_funcflags_to_value :: "reg_func_flags \<Rightarrow> wvalue" where
  "native_funcflags_to_value f =
     V_Flags ((if rff_deterministic f then [''deterministic''] else []) @
       (if rff_commutative f then [''commutative''] else []) @
       (if rff_stateless f then [''stateless''] else []) @
       (if rff_side_effecting f then [''sideeffecting''] else []) @
       (if rff_deprecated f then [''deprecated''] else []))"

definition opt_string :: "string option \<Rightarrow> wvalue" where
  "opt_string s = V_Option (map_option V_String s)"

definition native_func_arg_to_value :: "reg_func_arg \<Rightarrow> wvalue" where
  "native_func_arg_to_value a =
     V_Record [(''name'', opt_string (rfa_name a)), (''logical'', native_logicaltype_to_value (rfa_logical a))]"

definition native_func_opts_to_value :: "reg_func_opts \<Rightarrow> wvalue" where
  "native_func_opts_to_value p =
     V_Record [(''description'', opt_string (rfo_description p)), (''tags'', V_List (map V_String (rfo_tags p))),
       (''attributes'', native_funcflags_to_value (rfo_attributes p))]"

definition native_ext_opts_to_value :: "reg_ext_opts \<Rightarrow> wvalue" where
  "native_ext_opts_to_value p =
     V_Record [(''description'', opt_string (reo_description p)), (''tags'', V_List (map V_String (reo_tags p)))]"

definition native_columndef_to_value :: "reg_column_def \<Rightarrow> wvalue" where
  "native_columndef_to_value c =
     V_Record [(''name'', V_String (rcd_name c)), (''logical'', native_logicaltype_to_value (rcd_logical c))]"

definition native_scalar_registration_to_value :: "scalar_reg \<Rightarrow> wvalue" where
  "native_scalar_registration_to_value e =
     V_Record [(''name'', V_String (scalar_name e)),
       (''arguments'', V_List (map native_func_arg_to_value (scalar_arguments e))),
       (''returns'', native_logicaltype_to_value (scalar_returns e)),
       (''callback-handle'', V_U32 (scalar_callback e)),
       (''options'', V_Option (map_option native_func_opts_to_value (scalar_options e)))]"

definition native_table_registration_to_value :: "table_reg \<Rightarrow> wvalue" where
  "native_table_registration_to_value e =
     V_Record [(''name'', V_String (table_name e)),
       (''arguments'', V_List (map native_func_arg_to_value (table_arguments e))),
       (''columns'', V_List (map native_columndef_to_value (table_columns e))),
       (''callback-handle'', V_U32 (table_callback e)),
       (''options'', V_Option (map_option native_ext_opts_to_value (table_options e)))]"

definition native_aggregate_registration_to_value :: "aggregate_reg \<Rightarrow> wvalue" where
  "native_aggregate_registration_to_value e =
     V_Record [(''name'', V_String (aggregate_name e)),
       (''arguments'', V_List (map native_func_arg_to_value (aggregate_arguments e))),
       (''returns'', native_logicaltype_to_value (aggregate_returns e)),
       (''callback-handle'', V_U32 (aggregate_callback e)),
       (''options'', V_Option (map_option native_func_opts_to_value (aggregate_options e)))]"

definition native_macro_registration_to_value :: "macro_reg \<Rightarrow> wvalue" where
  "native_macro_registration_to_value e =
     V_Record [(''schema'', V_String (macro_schema e)), (''name'', V_String (macro_name e)),
       (''parameters'', V_List (map V_String (macro_parameters e))),
       (''definition-sql'', V_String (macro_definition_sql e))]"

definition native_table_macro_registration_to_value :: "table_macro_reg \<Rightarrow> wvalue" where
  "native_table_macro_registration_to_value e =
     V_Record [(''schema'', V_String (tmacro_schema e)), (''name'', V_String (tmacro_name e)),
       (''parameters'', V_List (map V_String (tmacro_parameters e))), (''body-sql'', V_String (tmacro_body_sql e))]"

definition native_replacement_scan_registration_to_value :: "replacement_scan_reg \<Rightarrow> wvalue" where
  "native_replacement_scan_registration_to_value e =
     V_Record [(''extensions'', V_List (map V_String (scan_extensions e))),
       (''function-name'', V_String (scan_function_name e))]"

definition native_logical_type_registration_to_value :: "logical_type_reg \<Rightarrow> wvalue" where
  "native_logical_type_registration_to_value e =
     V_Record [(''name'', V_String (ltype_name e)), (''physical'', V_String (ltype_physical e))]"

definition native_cast_registration_to_value :: "cast_reg \<Rightarrow> wvalue" where
  "native_cast_registration_to_value e =
     V_Record [(''source'', V_String (cast_source e)), (''target'', V_String (cast_target e)),
       (''callback-handle'', V_U32 (cast_callback e))]"

definition native_pending_registrations_to_value :: "pending_registrations \<Rightarrow> wvalue" where
  "native_pending_registrations_to_value d =
     V_Record [(''scalars'', V_List (map native_scalar_registration_to_value (pr_scalars d))),
       (''tables'', V_List (map native_table_registration_to_value (pr_tables d))),
       (''aggregates'', V_List (map native_aggregate_registration_to_value (pr_aggregates d))),
       (''macros'', V_List (map native_macro_registration_to_value (pr_macros d))),
       (''table-macros'', V_List (map native_table_macro_registration_to_value (pr_table_macros d))),
       (''replacement-scans'', V_List (map native_replacement_scan_registration_to_value (pr_replacement_scans d))),
       (''logical-types'', V_List (map native_logical_type_registration_to_value (pr_logical_types d))),
       (''casts'', V_List (map native_cast_registration_to_value (pr_casts d)))]"

section \<open>The interfaces\<close>

definition loader_iface :: string where
  "loader_iface = ''duckdb:component/host-extension-loader''"

definition loader_call ::
  "fmt \<Rightarrow> 'm world \<Rightarrow> string \<Rightarrow> wvalue list \<Rightarrow> 'm core_shared \<Rightarrow> (string + wvalue list) \<times> 'm core_shared" where
  "loader_call fm W mth args sh =
     (if mth = ''request-load'' then
        (case args of
           [V_String name] \<Rightarrow>
             (case ensure_extension_loaded W name (sh_manager sh) of
                (r, m1) \<Rightarrow>
                  (Inr [V_Bool (case r of Inr loaded \<Rightarrow> loaded | Inl err \<Rightarrow> False)], sh\<lparr>sh_manager := m1\<rparr>))
         | other \<Rightarrow> (Inl (loader_iface @ ''.request-load: expected [string], got '' @ dbg_slice fm other), sh))
      else (Inl (loader_iface @ '': unknown method '' @ dbg_str fm mth), sh))"

definition hooks_iface :: string where
  "hooks_iface = ''duckdb:component/extension-loader-hooks''"

definition hooks_call ::
  "fmt \<Rightarrow> 'm world \<Rightarrow> core_store \<Rightarrow> string \<Rightarrow> wvalue list \<Rightarrow> 'm core_shared \<Rightarrow> (string + wvalue list) \<times> 'm core_shared" where
  "hooks_call fm W st mth args sh =
     (if mth = ''get-pending-registrations'' then
        (if args \<noteq> [] then
           (Inl (hooks_iface @ ''.get-pending-registrations: expected [] args, got '' @ show_nat (length args) @ '' elements''), sh)
         else
           (case drain_pending_registrations_for_replay W st sh of
              (d, sh1) \<Rightarrow> (Inr [native_pending_registrations_to_value d], sh1)))
      else (Inl (hooks_iface @ '': unknown method '' @ dbg_str fm mth), sh))"

end
