(* ===== verification/Tvm_Host.thy ===== *)
theory Tvm_Host
  imports Host_Codec
begin

text \<open>
  The memory the core spills to (\<open>crates/ducklink-host/src/lib.rs\<close>, \<open>TvmManagerHost\<close> and
  \<open>TvmBytesHost\<close>): regions of the crate \<open>tvm_core\<close> behind handles of the host, which carry a
  generation for every place of a region, so that a handle of a freed block is refused. The
  crate is a parameter, a record of its operations on a directory of regions; its types
  \<open>Handle\<close>, \<open>TvmError\<close> and \<open>RegionKind\<close> are those the host builds and takes apart.
\<close>

record tvm_handle =
  th_region :: u16
  th_generation :: u16
  th_offset :: u32

datatype tvm_error =
    Region_Not_Found u16 | Stale_Handle | Out_Of_Bounds | Not_Resident | Allocation_Failed
  | Backing_Store string | Pinned | Unsupported_Allocator | Policy_Violation

datatype region_kind =
    Hot_Heap | Object_Arena | Blob_Arena | Page_Store | Scratch | Device_State | Code_Cache

text \<open>The operations of the directory of regions, and the \<open>Debug\<close> text of its errors.\<close>

record 't tvm_core =
  tc_create :: "region_kind \<Rightarrow> u32 \<Rightarrow> 't \<Rightarrow> (tvm_error + u16) \<times> 't"
  tc_destroy :: "u16 \<Rightarrow> 't \<Rightarrow> (tvm_error + unit) \<times> 't"
  tc_alloc :: "u16 \<Rightarrow> u32 \<Rightarrow> 't \<Rightarrow> (tvm_error + tvm_handle) \<times> 't"
  tc_dealloc :: "tvm_handle \<Rightarrow> 't \<Rightarrow> (tvm_error + unit) \<times> 't"
  tc_slice :: "tvm_handle \<Rightarrow> u32 \<Rightarrow> 't \<Rightarrow> (tvm_error + u8 list) \<times> 't"
  tc_write :: "tvm_handle \<Rightarrow> u8 list \<Rightarrow> 't \<Rightarrow> (tvm_error + unit) \<times> 't"
  tc_debug :: "tvm_error \<Rightarrow> string"

text \<open>The slots: the generation of every place, and its block unless it is freed.\<close>

type_synonym tvm_slots = "(u16 \<times> u32) \<rightharpoonup> (u16 \<times> tvm_handle option)"

record 't tvm_state =
  ts_dir :: 't
  ts_slots :: tvm_slots

section \<open>Handles and their slots\<close>

definition tvm_err_to_wit :: "'t tvm_core \<Rightarrow> tvm_error \<Rightarrow> tvm_error" where
  "tvm_err_to_wit C e = Backing_Store (tc_debug C e)"

definition tvm_kind_to_core :: "region_kind \<Rightarrow> region_kind" where
  "tvm_kind_to_core k =
     (case k of
        Hot_Heap \<Rightarrow> Hot_Heap
      | Object_Arena \<Rightarrow> Object_Arena
      | Blob_Arena \<Rightarrow> Blob_Arena
      | Page_Store \<Rightarrow> Page_Store
      | Scratch \<Rightarrow> Scratch
      | Device_State \<Rightarrow> Device_State
      | Code_Cache \<Rightarrow> Code_Cache)"

definition tvm_register :: "u16 \<Rightarrow> tvm_handle \<Rightarrow> 't tvm_state \<Rightarrow> tvm_handle \<times> 't tvm_state" where
  "tvm_register region th s =
     (let slot = the_or (ts_slots s (region, th_offset th)) (0, None);
          g = fst slot + 1
      in (\<lparr>th_region = region, th_generation = g, th_offset = th_offset th\<rparr>,
          s\<lparr>ts_slots := (ts_slots s)((region, th_offset th) \<mapsto> (g, Some th))\<rparr>))"

definition tvm_resolve :: "tvm_handle \<Rightarrow> bool \<Rightarrow> 't tvm_state \<Rightarrow> (tvm_error + tvm_handle) \<times> 't tvm_state" where
  "tvm_resolve ptr free s =
     (case ts_slots s (th_region ptr, th_offset ptr) of
        None \<Rightarrow> (Inl Stale_Handle, s)
      | Some (g, block) \<Rightarrow>
          if g \<noteq> th_generation ptr then (Inl Stale_Handle, s)
          else (case block of
              None \<Rightarrow> (Inl Stale_Handle, s)
            | Some th \<Rightarrow>
                (Inr th, if free then s\<lparr>ts_slots := (ts_slots s)((th_region ptr, th_offset ptr) \<mapsto> (g, None))\<rparr> else s)))"

section \<open>Encodings\<close>

definition unpack_region_kind :: "fmt \<Rightarrow> wvalue \<Rightarrow> string + region_kind" where
  "unpack_region_kind fm v =
     (case v of
        V_Enum tag \<Rightarrow>
          if tag = ''hot-heap'' then Inr Hot_Heap
          else if tag = ''object-arena'' then Inr Object_Arena
          else if tag = ''blob-arena'' then Inr Blob_Arena
          else if tag = ''page-store'' then Inr Page_Store
          else if tag = ''scratch'' then Inr Scratch
          else if tag = ''device-state'' then Inr Device_State
          else if tag = ''code-cache'' then Inr Code_Cache
          else Inl (''region-kind: unknown tag '' @ dbg_str fm tag)
      | other \<Rightarrow> Inl (''region-kind: expected Value::Enum, got '' @ dbg fm other))"

definition pack_tvm_handle :: "tvm_handle \<Rightarrow> wvalue" where
  "pack_tvm_handle h =
     V_Record [(''region-id'', V_U16 (th_region h)), (''generation'', V_U16 (th_generation h)),
       (''offset'', V_U32 (th_offset h))]"

definition unpack_tvm_handle :: "fmt \<Rightarrow> wvalue \<Rightarrow> string + tvm_handle" where
  "unpack_tvm_handle fm v =
     (case v of
        V_Record fs \<Rightarrow>
          (case last_field ''region-id'' as_u16 fs of
             None \<Rightarrow> Inl (''tvm handle: missing '' @ CHR 0x60 # ''region-id: u16'' @ [CHR 0x60])
           | Some r \<Rightarrow>
          (case last_field ''generation'' as_u16 fs of
             None \<Rightarrow> Inl (''tvm handle: missing '' @ CHR 0x60 # ''generation: u16'' @ [CHR 0x60])
           | Some g \<Rightarrow>
          (case last_field ''offset'' as_u32 fs of
             None \<Rightarrow> Inl (''tvm handle: missing '' @ CHR 0x60 # ''offset: u32'' @ [CHR 0x60])
           | Some off \<Rightarrow> Inr \<lparr>th_region = r, th_generation = g, th_offset = off\<rparr>)))
      | other \<Rightarrow> Inl (''tvm handle: expected Value::Record, got '' @ dbg fm other))"

definition bindgen_tvm_error_to_value :: "tvm_error \<Rightarrow> wvalue" where
  "bindgen_tvm_error_to_value e =
     (let (disc, payload) = (case e of
        Region_Not_Found i \<Rightarrow> (''region-not-found'', Some (V_U16 i))
      | Stale_Handle \<Rightarrow> (''stale-handle'', None)
      | Out_Of_Bounds \<Rightarrow> (''out-of-bounds'', None)
      | Not_Resident \<Rightarrow> (''not-resident'', None)
      | Allocation_Failed \<Rightarrow> (''allocation-failed'', None)
      | Backing_Store msg \<Rightarrow> (''backing-store'', Some (V_String msg))
      | Pinned \<Rightarrow> (''pinned'', None)
      | Unsupported_Allocator \<Rightarrow>
          (''backing-store'', Some (V_String ''unsupported allocator (tvm_core::TvmError::UnsupportedAllocator)''))
      | Policy_Violation \<Rightarrow>
          (''backing-store'', Some (V_String ''policy violation (tvm_core::TvmError::PolicyViolation)'')))
      in V_Variant disc payload)"

section \<open>The manager interface\<close>

definition tvm_manager_iface :: string where
  "tvm_manager_iface = ''tvm:memory/manager@0.1.0''"

definition tvm_expected :: "fmt \<Rightarrow> string \<Rightarrow> string \<Rightarrow> string \<Rightarrow> wvalue list \<Rightarrow> string" where
  "tvm_expected fm iface mth types other = iface @ ''.'' @ mth @ '': expected '' @ types @ '', got '' @ dbg_slice fm other"

text \<open>An answer: the error of the host, or of the crate after its mapping, or the result.\<close>

definition tvm_reply :: "('a \<Rightarrow> wvalue option) \<Rightarrow> tvm_error + 'a \<Rightarrow> wvalue list" where
  "tvm_reply enc r =
     [V_Result (case r of Inr a \<Rightarrow> Inr (enc a) | Inl e \<Rightarrow> Inl (Some (bindgen_tvm_error_to_value e)))]"

text \<open>An operation of the directory, with the mapping of its errors.\<close>

definition on_dir ::
  "'t tvm_core \<Rightarrow> ('t \<Rightarrow> (tvm_error + 'a) \<times> 't) \<Rightarrow> 't tvm_state \<Rightarrow> (tvm_error + 'a) \<times> 't tvm_state" where
  "on_dir C f s =
     (case f (ts_dir s) of (r, d) \<Rightarrow> (map_sum (tvm_err_to_wit C) (\<lambda>a. a) r, s\<lparr>ts_dir := d\<rparr>))"

type_synonym 't tvm_outcome = "(string + wvalue list) \<times> 't tvm_state"

definition tvm_create_region :: "'t tvm_core \<Rightarrow> fmt \<Rightarrow> wvalue list \<Rightarrow> 't tvm_state \<Rightarrow> 't tvm_outcome" where
  "tvm_create_region C fm args s =
     (case args of
        [k, V_U32 cap] \<Rightarrow>
          (case unpack_region_kind fm k of
             Inl e \<Rightarrow> (Inl e, s)
           | Inr kind \<Rightarrow>
               (case on_dir C (tc_create C (tvm_kind_to_core kind) cap) s of
                  (r, s1) \<Rightarrow> (Inr (tvm_reply (\<lambda>i. Some (V_U16 i)) r), s1)))
      | other \<Rightarrow> (Inl (tvm_expected fm tvm_manager_iface ''create-region'' ''[region-kind, u32]'' other), s))"

definition tvm_destroy_region :: "'t tvm_core \<Rightarrow> fmt \<Rightarrow> wvalue list \<Rightarrow> 't tvm_state \<Rightarrow> 't tvm_outcome" where
  "tvm_destroy_region C fm args s =
     (case args of
        [V_U16 i] \<Rightarrow>
          (case on_dir C (tc_destroy C i) s of (r, s1) \<Rightarrow> (Inr (tvm_reply (\<lambda>_. None) r), s1))
      | other \<Rightarrow> (Inl (tvm_expected fm tvm_manager_iface ''destroy-region'' ''[u16]'' other), s))"

definition tvm_alloc :: "'t tvm_core \<Rightarrow> fmt \<Rightarrow> wvalue list \<Rightarrow> 't tvm_state \<Rightarrow> 't tvm_outcome" where
  "tvm_alloc C fm args s =
     (case args of
        [V_U16 i, V_U32 sz] \<Rightarrow>
          (case on_dir C (tc_alloc C i sz) s of
             (Inr th, s1) \<Rightarrow>
               (case tvm_register i th s1 of (h, s2) \<Rightarrow> (Inr (tvm_reply (\<lambda>h. Some (pack_tvm_handle h)) (Inr h)), s2))
           | (Inl e, s1) \<Rightarrow> (Inr (tvm_reply (\<lambda>h. Some (pack_tvm_handle h)) (Inl e)), s1))
      | other \<Rightarrow> (Inl (tvm_expected fm tvm_manager_iface ''alloc'' ''[u16, u32]'' other), s))"

definition tvm_dealloc :: "'t tvm_core \<Rightarrow> fmt \<Rightarrow> wvalue list \<Rightarrow> 't tvm_state \<Rightarrow> 't tvm_outcome" where
  "tvm_dealloc C fm args s =
     (case args of
        [v] \<Rightarrow>
          (case unpack_tvm_handle fm v of
             Inl e \<Rightarrow> (Inl e, s)
           | Inr h \<Rightarrow>
               (case tvm_resolve h True s of
                  (Inl e, s1) \<Rightarrow> (Inr (tvm_reply (\<lambda>_. None) (Inl e :: tvm_error + unit)), s1)
                | (Inr th, s1) \<Rightarrow>
                    (case on_dir C (tc_dealloc C th) s1 of (r, s2) \<Rightarrow> (Inr (tvm_reply (\<lambda>_. None) r), s2))))
      | other \<Rightarrow> (Inl (tvm_expected fm tvm_manager_iface ''dealloc'' ''[handle-record]'' other), s))"

definition tvm_describe_region :: "fmt \<Rightarrow> wvalue list \<Rightarrow> 't tvm_state \<Rightarrow> 't tvm_outcome" where
  "tvm_describe_region fm args s =
     (case args of
        [V_U16 i] \<Rightarrow>
          (Inr (tvm_reply (\<lambda>_. None) (Inl (Backing_Store ''describe-region not implemented'') :: tvm_error + unit)), s)
      | other \<Rightarrow> (Inl (tvm_expected fm tvm_manager_iface ''describe-region'' ''[u16]'' other), s))"

definition tvm_manager_call ::
  "'t tvm_core \<Rightarrow> fmt \<Rightarrow> string \<Rightarrow> wvalue list \<Rightarrow> 't tvm_state \<Rightarrow> 't tvm_outcome" where
  "tvm_manager_call C fm mth args s =
     (if mth = ''create-region'' then tvm_create_region C fm args s
      else if mth = ''destroy-region'' then tvm_destroy_region C fm args s
      else if mth = ''alloc'' then tvm_alloc C fm args s
      else if mth = ''dealloc'' then tvm_dealloc C fm args s
      else if mth = ''describe-region'' then tvm_describe_region fm args s
      else (Inl (tvm_manager_iface @ '': unknown method '' @ dbg_str fm mth), s))"

section \<open>The bytes interface\<close>

definition tvm_bytes_iface :: string where
  "tvm_bytes_iface = ''tvm:memory/bytes@0.1.0''"

definition tvm_read :: "'t tvm_core \<Rightarrow> fmt \<Rightarrow> wvalue list \<Rightarrow> 't tvm_state \<Rightarrow> 't tvm_outcome" where
  "tvm_read C fm args s =
     (case args of
        [v, V_U32 n] \<Rightarrow>
          (case unpack_tvm_handle fm v of
             Inl e \<Rightarrow> (Inl e, s)
           | Inr h \<Rightarrow>
               (case tvm_resolve h False s of
                  (Inl e, s1) \<Rightarrow> (Inr (tvm_reply (\<lambda>_. None) (Inl e :: tvm_error + unit)), s1)
                | (Inr th, s1) \<Rightarrow>
                    (case on_dir C (tc_slice C th n) s1 of
                       (r, s2) \<Rightarrow> (Inr (tvm_reply (\<lambda>buf. Some (V_List (map V_U8 buf))) r), s2))))
      | other \<Rightarrow> (Inl (tvm_expected fm tvm_bytes_iface ''read'' ''[handle-record, u32]'' other), s))"

text \<open>The bytes are looked at before the handle when they come as a list.\<close>

fun tvm_data :: "fmt \<Rightarrow> nat \<Rightarrow> wvalue list \<Rightarrow> string + u8 list" where
  "tvm_data fm i [] = Inr []"
| "tvm_data fm i (v # vs) =
     (case v of
        V_U8 b \<Rightarrow> rbind (tvm_data fm (Suc i) vs) (\<lambda>bs. Inr (b # bs))
      | other \<Rightarrow> Inl (tvm_bytes_iface @ ''.write: list element ['' @ show_nat i @ ''] is not U8: '' @ dbg fm other))"

definition tvm_write_args :: "fmt \<Rightarrow> wvalue list \<Rightarrow> string + tvm_handle \<times> u8 list" where
  "tvm_write_args fm args =
     (case args of
        [v, V_Bytes b] \<Rightarrow> rbind (unpack_tvm_handle fm v) (\<lambda>h. Inr (h, b))
      | [v, V_List items] \<Rightarrow> rbind (tvm_data fm 0 items) (\<lambda>b. rbind (unpack_tvm_handle fm v) (\<lambda>h. Inr (h, b)))
      | other \<Rightarrow> Inl (tvm_expected fm tvm_bytes_iface ''write'' ''[handle-record, list<u8>/bytes]'' other))"

definition tvm_write :: "'t tvm_core \<Rightarrow> fmt \<Rightarrow> wvalue list \<Rightarrow> 't tvm_state \<Rightarrow> 't tvm_outcome" where
  "tvm_write C fm args s =
     (case tvm_write_args fm args of
        Inl e \<Rightarrow> (Inl e, s)
      | Inr (h, data) \<Rightarrow>
          (case tvm_resolve h False s of
             (Inl e, s1) \<Rightarrow> (Inr (tvm_reply (\<lambda>_. None) (Inl e :: tvm_error + unit)), s1)
           | (Inr th, s1) \<Rightarrow>
               (case on_dir C (tc_write C th data) s1 of (r, s2) \<Rightarrow> (Inr (tvm_reply (\<lambda>_. None) r), s2))))"

definition tvm_bytes_call ::
  "'t tvm_core \<Rightarrow> fmt \<Rightarrow> string \<Rightarrow> wvalue list \<Rightarrow> 't tvm_state \<Rightarrow> 't tvm_outcome" where
  "tvm_bytes_call C fm mth args s =
     (if mth = ''read'' then tvm_read C fm args s
      else if mth = ''write'' then tvm_write C fm args s
      else (Inl (tvm_bytes_iface @ '': unknown method '' @ dbg_str fm mth), s))"

end
