(* ===== verification/Core_Imports.thy ===== *)
theory Core_Imports
  imports Core_Callbacks Core_Loader Tvm_Host
begin

text \<open>
  The host behind the imports of an instance of the core (\<open>instantiate_core\<close> of
  \<open>crates/ducklink-host/src/lib.rs\<close>): its state and the five interfaces it is linked with.
\<close>

record ('m, 't) core_inner =
  ci_shared :: "'m core_shared"
  ci_store :: core_store
  ci_tvm :: "'t tvm_state"

definition fresh_core_inner :: "'m core_shared \<Rightarrow> 't \<Rightarrow> ('m, 't) core_inner" where
  "fresh_core_inner sh empty_dir =
     \<lparr>ci_shared = sh, ci_store = \<lparr>st_sibling = False, st_archive = False\<rparr>,
      ci_tvm = \<lparr>ts_dir = empty_dir, ts_slots = Map.empty\<rparr>\<rparr>"

definition attach_replay_archive :: "bool \<Rightarrow> ('m, 't) core_inner \<Rightarrow> ('m, 't) core_inner" where
  "attach_replay_archive sibling s = s\<lparr>ci_store := \<lparr>st_sibling = sibling, st_archive = True\<rparr>\<rparr>"

text \<open>
  A call of an import; the outer \<^const>\<open>None\<close>: an interface that is not linked, with which the
  core does not start. The inner one is a panic or a call that does not return.
\<close>

definition core_import_call ::
  "fmt \<Rightarrow> 'm world \<Rightarrow> 't tvm_core \<Rightarrow> string \<Rightarrow> string \<Rightarrow> wvalue list \<Rightarrow> ('m, 't) core_inner \<Rightarrow>
     ((string + wvalue list) \<times> ('m, 't) core_inner) option option" where
  "core_import_call fm W C iface mth args s =
     (if iface = tvm_bytes_iface then
        Some (Some (apsnd (\<lambda>t. s\<lparr>ci_tvm := t\<rparr>) (tvm_bytes_call C fm mth args (ci_tvm s))))
      else if iface = tvm_manager_iface then
        Some (Some (apsnd (\<lambda>t. s\<lparr>ci_tvm := t\<rparr>) (tvm_manager_call C fm mth args (ci_tvm s))))
      else if iface = loader_iface then
        Some (Some (apsnd (\<lambda>sh. s\<lparr>ci_shared := sh\<rparr>) (loader_call fm W mth args (ci_shared s))))
      else if iface = hooks_iface then
        Some (Some (apsnd (\<lambda>sh. s\<lparr>ci_shared := sh\<rparr>) (hooks_call fm W (ci_store s) mth args (ci_shared s))))
      else if iface = core_callback_iface then
        Some (map_option (apsnd (\<lambda>m. s\<lparr>ci_shared := (ci_shared s)\<lparr>sh_manager := m\<rparr>\<rparr>))
          (callback_dispatch fm W mth args (sh_manager (ci_shared s))))
      else None)"

end
