(* ===== verification/Tvm_Facts.thy ===== *)
theory Tvm_Facts
  imports Tvm_Host Wit_Types
begin

text \<open>
  What the spill memory promises: an allocated handle reaches its block until it is freed, and
  a freed handle is refused however the memory is used, as long as its place is given out
  fewer than $2^{16}$ times.
\<close>

section \<open>Sessions\<close>

datatype tvm_request = Manager_Call string "wvalue list" | Bytes_Call string "wvalue list"

fun tvm_serve :: "'t tvm_core \<Rightarrow> fmt \<Rightarrow> tvm_request \<Rightarrow> 't tvm_state \<Rightarrow> 't tvm_outcome" where
  "tvm_serve C fm (Manager_Call mth args) s = tvm_manager_call C fm mth args s"
| "tvm_serve C fm (Bytes_Call mth args) s = tvm_bytes_call C fm mth args s"

text \<open>The handle that an answer gives out.\<close>

definition granted_handle :: "fmt \<Rightarrow> string + wvalue list \<Rightarrow> tvm_handle option" where
  "granted_handle fm r =
     (case r of
        Inr [V_Result (Inr (Some v))] \<Rightarrow> (case unpack_tvm_handle fm v of Inr h \<Rightarrow> Some h | Inl _ \<Rightarrow> None)
      | _ \<Rightarrow> None)"

definition granted_at :: "fmt \<Rightarrow> u16 \<times> u32 \<Rightarrow> string + wvalue list \<Rightarrow> bool" where
  "granted_at fm p r =
     (case granted_handle fm r of Some h \<Rightarrow> (th_region h, th_offset h) = p | None \<Rightarrow> False)"

fun tvm_session :: "'t tvm_core \<Rightarrow> fmt \<Rightarrow> tvm_request list \<Rightarrow> 't tvm_state \<Rightarrow> 't tvm_state" where
  "tvm_session C fm [] s = s"
| "tvm_session C fm (r # rs) s = tvm_session C fm rs (snd (tvm_serve C fm r s))"

text \<open>How often a place is given out in a session.\<close>

fun grants :: "'t tvm_core \<Rightarrow> fmt \<Rightarrow> u16 \<times> u32 \<Rightarrow> tvm_request list \<Rightarrow> 't tvm_state \<Rightarrow> nat" where
  "grants C fm p [] s = 0"
| "grants C fm p (r # rs) s =
     (case tvm_serve C fm r s of (a, s1) \<Rightarrow> (if granted_at fm p a then 1 else 0) + grants C fm p rs s1)"

text \<open>A request to free the block of a handle.\<close>

fun frees :: "fmt \<Rightarrow> tvm_handle \<Rightarrow> tvm_request \<Rightarrow> bool" where
  "frees fm h (Manager_Call mth [v]) = (mth = ''dealloc'' \<and> unpack_tvm_handle fm v = Inr h)"
| "frees fm h _ = False"

section \<open>One request\<close>

lemma unpack_pack_handle [simp]: "unpack_tvm_handle fm (pack_tvm_handle h) = Inr h"
  by (simp add: unpack_tvm_handle_def pack_tvm_handle_def as_u16_def as_u32_def)

lemma unpack_list_handle [simp]: "unpack_tvm_handle fm (V_List vs) = Inl (''tvm handle: expected Value::Record, got '' @ dbg fm (V_List vs))"
  by (simp add: unpack_tvm_handle_def)

lemma on_dir_slots [simp]: "ts_slots (snd (on_dir C f s)) = ts_slots s"
  by (simp add: on_dir_def split: prod.split)

lemma on_dir_slots_eq: "on_dir C f s = (r, s1) \<Longrightarrow> ts_slots s1 = ts_slots s"
  using on_dir_slots [of C f s] by simp

text \<open>The slots after a resolved handle.\<close>

lemma resolve_slots:
  "ts_slots (snd (tvm_resolve h free s)) p =
     (if free \<and> (th_region h, th_offset h) = p \<and> isl (fst (tvm_resolve h free s)) = False
      then Some (th_generation h, None) else ts_slots s p)"
  by (auto simp: tvm_resolve_def split: option.split)

lemma resolve_keeps_slots [simp]: "snd (tvm_resolve h False s) = s"
  by (auto simp: tvm_resolve_def split: option.split)

lemma granted_handle_none [simp]:
  "granted_handle fm (Inr (tvm_reply (\<lambda>_. None) r)) = None"
  "granted_handle fm (Inl e) = None"
  "granted_handle fm (Inr (tvm_reply (\<lambda>i. Some (V_U16 i)) r16)) = None"
  "granted_handle fm (Inr (tvm_reply (\<lambda>b. Some (V_List (map V_U8 b))) rb)) = None"
  "granted_handle fm (Inr (tvm_reply (\<lambda>h. Some (pack_tvm_handle h)) (Inl e'))) = None"
  by (simp_all add: granted_handle_def tvm_reply_def unpack_tvm_handle_def split: sum.split)

lemma granted_handle_alloc [simp]:
  "granted_handle fm (Inr (tvm_reply (\<lambda>h. Some (pack_tvm_handle h)) (Inr h))) = Some h"
  by (simp add: granted_handle_def tvm_reply_def)

lemmas tvm_calls = tvm_manager_call_def tvm_bytes_call_def tvm_create_region_def tvm_destroy_region_def
  tvm_dealloc_def tvm_describe_region_def tvm_read_def tvm_write_def

lemma granted_at_none [simp]: "granted_handle fm a = None \<Longrightarrow> \<not> granted_at fm p a"
  by (simp add: granted_at_def)

text \<open>What one request does to the slot of a place: it gives the place out, frees it, or leaves it.\<close>

definition slot_after :: "fmt \<Rightarrow> u16 \<times> u32 \<Rightarrow> tvm_request \<Rightarrow> (string + wvalue list) \<Rightarrow> tvm_slots \<Rightarrow> tvm_slots \<Rightarrow> bool" where
  "slot_after fm p r a sl sl' =
     (if granted_at fm p a then \<exists>th. sl' p = Some (fst (the_or (sl p) (0, None)) + 1, Some th)
      else sl' p = sl p \<or> (\<exists>g th. sl p = Some (g, Some th) \<and> sl' p = Some (g, None) \<and>
             frees fm \<lparr>th_region = fst p, th_generation = g, th_offset = snd p\<rparr> r))"

lemma alloc_args:
  "(\<exists>i sz. args = [V_U16 i, V_U32 sz]) \<or> (\<exists>e. tvm_alloc C fm args s = (Inl e, s))"
  unfolding tvm_alloc_def by (simp split: list.split wvalue.split)

lemma alloc_slot: "slot_after fm p (Manager_Call ''alloc'' args) (fst (tvm_alloc C fm args s)) (ts_slots s) (ts_slots (snd (tvm_alloc C fm args s)))"
proof (cases "\<exists>i sz. args = [V_U16 i, V_U32 sz]")
  case True
  then obtain i sz where a: "args = [V_U16 i, V_U32 sz]" by blast
  obtain r s1 where e: "on_dir C (tc_alloc C i sz) s = (r, s1)" by (rule prod.exhaust)
  from on_dir_slots_eq [OF e] show ?thesis
    using e by (cases r) (auto simp: a tvm_alloc_def slot_after_def granted_at_def tvm_register_def Let_def)
next
  case False
  then obtain e where "tvm_alloc C fm args s = (Inl e, s)" using alloc_args by blast
  then show ?thesis by (simp add: slot_after_def)
qed

text \<open>A request that leaves the slots alone and gives nothing out.\<close>

definition quiet :: "fmt \<Rightarrow> u16 \<times> u32 \<Rightarrow> 't tvm_state \<Rightarrow> 't tvm_outcome \<Rightarrow> bool" where
  "quiet fm p s out = (\<not> granted_at fm p (fst out) \<and> ts_slots (snd out) = ts_slots s)"

lemma quiet_error [simp]: "quiet fm p s (Inl e, s)"
  by (simp add: quiet_def)

lemma quiet_dir [simp]:
  "quiet fm p s (case on_dir C f s of (r, s1) \<Rightarrow> (Inr (tvm_reply (\<lambda>_. None) r), s1))"
  "quiet fm p s (case on_dir C g s of (r, s1) \<Rightarrow> (Inr (tvm_reply (\<lambda>i. Some (V_U16 i)) r), s1))"
  "quiet fm p s (case on_dir C k s of (r, s1) \<Rightarrow> (Inr (tvm_reply (\<lambda>b. Some (V_List (map V_U8 b))) r), s1))"
  by (simp_all add: quiet_def case_prod_unfold)

lemma quiet_reply [simp]: "quiet fm p s (Inr (tvm_reply (\<lambda>_. None) r), s)"
  by (simp add: quiet_def)

lemma resolve_False: "tvm_resolve h False s = (fst (tvm_resolve h False s), s)"
  using resolve_keeps_slots [of h s] by (metis prod.collapse)

lemma quiet_use:
  "(\<And>th. quiet fm p s (f th s)) \<Longrightarrow>
     quiet fm p s (case tvm_resolve h False s of
        (Inl e, s1) \<Rightarrow> (Inr (tvm_reply (\<lambda>_. None) (Inl e :: tvm_error + unit)), s1) | (Inr th, s1) \<Rightarrow> f th s1)"
  by (subst resolve_False) (auto split: sum.split)

lemma dealloc_args:
  "(\<exists>v h. args = [v] \<and> unpack_tvm_handle fm v = Inr h) \<or> (\<exists>e. tvm_dealloc C fm args s = (Inl e, s))"
  unfolding tvm_dealloc_def by (simp split: list.split sum.split)

lemma dealloc_slot: "slot_after fm p (Manager_Call ''dealloc'' args) (fst (tvm_dealloc C fm args s)) (ts_slots s) (ts_slots (snd (tvm_dealloc C fm args s)))"
proof (cases "\<exists>v h. args = [v] \<and> unpack_tvm_handle fm v = Inr h")
  case True
  then obtain v h where a: "args = [v]" "unpack_tvm_handle fm v = Inr h" by blast
  obtain r s1 where e: "tvm_resolve h True s = (r, s1)" by (rule prod.exhaust)
  show ?thesis
  proof (cases r)
    case (Inl x)
    then have "s1 = s" using e by (auto simp: tvm_resolve_def split: option.splits if_splits)
    then show ?thesis using Inl e by (simp add: a tvm_dealloc_def slot_after_def)
  next
    case (Inr th)
    then have "ts_slots s (th_region h, th_offset h) = Some (th_generation h, Some th)"
      "ts_slots s1 = (ts_slots s)((th_region h, th_offset h) \<mapsto> (th_generation h, None))"
      using e by (auto simp: tvm_resolve_def split: option.splits if_splits)
    then show ?thesis using Inr e by (auto simp: a tvm_dealloc_def slot_after_def case_prod_unfold)
  qed
next
  case False
  then obtain e where "tvm_dealloc C fm args s = (Inl e, s)" using dealloc_args by blast
  then show ?thesis by (simp add: slot_after_def)
qed

lemma create_quiet: "quiet fm p s (tvm_create_region C fm args s)"
  unfolding tvm_create_region_def by (simp split: list.split wvalue.split sum.split)

lemma destroy_quiet: "quiet fm p s (tvm_destroy_region C fm args s)"
  unfolding tvm_destroy_region_def by (simp split: list.split wvalue.split)

lemma describe_quiet: "quiet fm p s (tvm_describe_region fm args s)"
  unfolding tvm_describe_region_def by (simp split: list.split wvalue.split)

lemma other_manager_slots:
  "mth \<noteq> ''alloc'' \<Longrightarrow> mth \<noteq> ''dealloc'' \<Longrightarrow> quiet fm p s (tvm_manager_call C fm mth args s)"
  by (simp add: tvm_manager_call_def create_quiet destroy_quiet describe_quiet)

lemma read_quiet: "quiet fm p s (tvm_read C fm args s)"
  unfolding tvm_read_def by (simp add: quiet_use split: list.split wvalue.split sum.split)

lemma write_quiet: "quiet fm p s (tvm_write C fm args s)"
  unfolding tvm_write_def by (simp add: quiet_use split: sum.split prod.split)

lemma bytes_slots: "quiet fm p s (tvm_bytes_call C fm mth args s)"
  by (simp add: tvm_bytes_call_def read_quiet write_quiet)

lemma serve_slot: "slot_after fm p r (fst (tvm_serve C fm r s)) (ts_slots s) (ts_slots (snd (tvm_serve C fm r s)))"
proof (cases r)
  case (Manager_Call mth args)
  consider "mth = ''alloc''" | "mth = ''dealloc''" | "mth \<noteq> ''alloc''" "mth \<noteq> ''dealloc''" by blast
  then show ?thesis
  proof cases
    case 1
    then show ?thesis using alloc_slot [of fm p args C s] Manager_Call by (simp add: tvm_manager_call_def)
  next
    case 2
    then show ?thesis using dealloc_slot [of fm p args C s] Manager_Call by (simp add: tvm_manager_call_def)
  next
    case 3
    then show ?thesis using other_manager_slots [OF 3, of fm p s C args] Manager_Call by (simp add: slot_after_def quiet_def)
  qed
next
  case (Bytes_Call mth args)
  then show ?thesis using bytes_slots [of fm p s C mth args] by (simp add: slot_after_def quiet_def)
qed

section \<open>Freed handles\<close>

text \<open>A dead handle: its place went \<open>k\<close> generations further, or is free.\<close>

definition dead :: "tvm_handle \<Rightarrow> nat \<Rightarrow> tvm_slots \<Rightarrow> bool" where
  "dead h k sl = (\<exists>g c. sl (th_region h, th_offset h) = Some (g, c) \<and> unat (g - th_generation h) = k \<and> (k = 0 \<longrightarrow> c = None))"

lemma unat_next: "unat (g - h) + 1 < 2 ^ 16 \<Longrightarrow> unat (g + 1 - h) = unat (g - h) + 1" for g h :: u16
proof -
  assume a: "unat (g - h) + 1 < 2 ^ 16"
  have e: "g + 1 - h = (g - h) + 1" by simp
  show ?thesis unfolding e using a unat_add_lem [of "g - h" 1] by simp
qed

lemma dead_step:
  assumes "dead h k sl" "slot_after fm (th_region h, th_offset h) r a sl sl'"
    "k + (if granted_at fm (th_region h, th_offset h) a then 1 else 0) < 2 ^ 16"
  shows "dead h (k + (if granted_at fm (th_region h, th_offset h) a then 1 else 0)) sl'"
  using assms unat_next by (auto simp: dead_def slot_after_def)

lemma dead_session:
  "dead h k (ts_slots s) \<Longrightarrow> k + grants C fm (th_region h, th_offset h) rs s < 2 ^ 16 \<Longrightarrow>
     dead h (k + grants C fm (th_region h, th_offset h) rs s) (ts_slots (tvm_session C fm rs s))"
proof (induction rs arbitrary: k s)
  case (Cons r rs)
  obtain a s1 where e: "tvm_serve C fm r s = (a, s1)" by (rule prod.exhaust)
  let ?n = "(if granted_at fm (th_region h, th_offset h) a then 1 else 0) :: nat"
  have "dead h (k + ?n) (ts_slots s1)"
    by (rule dead_step [OF Cons.prems(1), of fm r]) (use serve_slot [of fm _ r C s] Cons.prems(2) e in auto)
  then show ?case using Cons.IH [of "k + ?n" s1] Cons.prems(2) e by (simp add: add.assoc)
qed simp

lemma dead_resolve: "dead h k (ts_slots s) \<Longrightarrow> tvm_resolve h free s = (Inl Stale_Handle, s)"
  by (auto simp: dead_def tvm_resolve_def)

definition stale_reply :: "wvalue list" where
  "stale_reply = [V_Result (Inl (Some (V_Variant ''stale-handle'' None)))]"

lemma stale_reply_eq: "tvm_reply enc (Inl Stale_Handle) = stale_reply"
  by (simp add: tvm_reply_def stale_reply_def bindgen_tvm_error_to_value_def)

lemma tvm_data_bytes [simp]: "tvm_data fm i (map V_U8 b) = Inr b"
  by (induction b arbitrary: i) simp_all

lemma freed_dead:
  assumes "tvm_manager_call C fm ''dealloc'' [v] s = (Inr a, s1)" "unpack_tvm_handle fm v = Inr h" "a \<noteq> stale_reply"
  shows "dead h 0 (ts_slots s1)"
proof -
  have "\<exists>th. tvm_resolve h True s = (Inr th, snd (tvm_resolve h True s))"
    using assms by (auto simp: tvm_manager_call_def tvm_dealloc_def tvm_resolve_def stale_reply_eq split: option.splits if_splits)
  then obtain th s0 where r: "tvm_resolve h True s = (Inr th, s0)" by blast
  then have "ts_slots s1 = ts_slots s0"
    using assms by (auto simp: tvm_manager_call_def tvm_dealloc_def dest!: on_dir_slots_eq split: prod.splits)
  then show ?thesis using resolve_slots [of h True s "(th_region h, th_offset h)"] r by (simp add: dead_def)
qed

text \<open>
  C35. Use after free. Once the host freed the block of a handle, whether or not the crate then
  reports an error, and whatever requests follow (allocations, frees, regions destroyed and
  created, forged handles), every later use of the handle is answered as stale and changes
  nothing, as long as the place of the block was given out fewer than 65536 times since.
\<close>

theorem freed_handle_refused:
  assumes "tvm_manager_call C fm ''dealloc'' [v] s = (Inr a, s1)" and "unpack_tvm_handle fm v = Inr h"
    and "a \<noteq> stale_reply"
    and "grants C fm (th_region h, th_offset h) rs s1 < 2 ^ 16"
  shows "let s2 = tvm_session C fm rs s1 in
     tvm_manager_call C fm ''dealloc'' [v] s2 = (Inr stale_reply, s2) \<and>
     (\<forall>n. tvm_bytes_call C fm ''read'' [v, V_U32 n] s2 = (Inr stale_reply, s2)) \<and>
     (\<forall>b. tvm_bytes_call C fm ''write'' [v, V_Bytes b] s2 = (Inr stale_reply, s2)) \<and>
     (\<forall>b. tvm_bytes_call C fm ''write'' [v, V_List (map V_U8 b)] s2 = (Inr stale_reply, s2))"
proof -
  have "dead h (0 + grants C fm (th_region h, th_offset h) rs s1) (ts_slots (tvm_session C fm rs s1))"
    by (rule dead_session [OF freed_dead [OF assms(1-3)]]) (use assms(4) in simp)
  from dead_resolve [OF this] show ?thesis
    using assms(2) by (simp add: Let_def tvm_calls tvm_write_args_def stale_reply_eq)
qed

text \<open>The bound is sharp: a place given out 65536 times takes the old handle for the new block.\<close>

lemma register_generation:
  "ts_slots s (r, th_offset th) = Some (g, c) \<Longrightarrow> 0 < n \<Longrightarrow>
     ts_slots (((\<lambda>s. snd (tvm_register r th s)) ^^ n) s) (r, th_offset th) = Some (g + of_nat n, Some th)"
proof (induction n)
  case (Suc n)
  then show ?case by (cases "n = 0") (simp_all add: tvm_register_def Let_def)
qed simp

lemma reused_place_takes_old_handle:
  assumes "ts_slots s (th_region h, th_offset th) = Some (th_generation h, None)" "th_offset h = th_offset th"
  defines "s1 \<equiv> ((\<lambda>s. snd (tvm_register (th_region h) th s)) ^^ (2 ^ 16)) s"
  shows "tvm_resolve h False s1 = (Inr th, s1)"
proof -
  have w: "of_nat (2 ^ 16) = (0 :: u16)" by (simp add: word_of_nat_eq_0_iff)
  have "ts_slots s1 (th_region h, th_offset h) = Some (th_generation h + of_nat (2 ^ 16), Some th)"
    unfolding s1_def assms(2) by (rule register_generation [OF assms(1)]) simp
  then show ?thesis unfolding w by (simp add: tvm_resolve_def)
qed

section \<open>Live handles\<close>

definition live :: "tvm_handle \<Rightarrow> tvm_handle \<Rightarrow> tvm_slots \<Rightarrow> bool" where
  "live h th sl = (sl (th_region h, th_offset h) = Some (th_generation h, Some th))"

lemma live_session:
  "live h th (ts_slots s) \<Longrightarrow> grants C fm (th_region h, th_offset h) rs s = 0 \<Longrightarrow>
     list_all (\<lambda>r. \<not> frees fm h r) rs \<Longrightarrow> live h th (ts_slots (tvm_session C fm rs s))"
proof (induction rs arbitrary: s)
  case (Cons r rs)
  obtain a s1 where e: "tvm_serve C fm r s = (a, s1)" by (rule prod.exhaust)
  have "live h th (ts_slots s1)"
    using serve_slot [of fm "(th_region h, th_offset h)" r C s] e Cons.prems
    by (cases h) (auto simp: slot_after_def live_def split: if_splits)
  then show ?case using Cons e by (auto split: if_splits)
qed simp

text \<open>
  C36. An allocated block is reached by its handle alone. When the crate allocates a block,
  the core gets a handle, and whatever requests follow that neither free this handle nor give
  its place out again, a read or a write with the handle is exactly that operation of the
  crate on this block: its bytes, or its error as a backing store error.
\<close>

theorem allocated_handle_reaches_block:
  assumes "tc_alloc C i sz (ts_dir s) = (Inr th, d)"
  shows "\<exists>h s1. tvm_manager_call C fm ''alloc'' [V_U16 i, V_U32 sz] s = (Inr [V_Result (Inr (Some (pack_tvm_handle h)))], s1) \<and>
     th_region h = i \<and> th_offset h = th_offset th \<and> ts_dir s1 = d \<and>
     (\<forall>rs. grants C fm (i, th_offset th) rs s1 = 0 \<longrightarrow> list_all (\<lambda>r. \<not> frees fm h r) rs \<longrightarrow>
        (let s2 = tvm_session C fm rs s1 in
          (\<forall>n. tvm_bytes_call C fm ''read'' [pack_tvm_handle h, V_U32 n] s2 =
             (case tc_slice C th n (ts_dir s2) of
                (Inr b, d2) \<Rightarrow> (Inr [V_Result (Inr (Some (V_List (map V_U8 b))))], s2\<lparr>ts_dir := d2\<rparr>)
              | (Inl e, d2) \<Rightarrow> (Inr [V_Result (Inl (Some (V_Variant ''backing-store'' (Some (V_String (tc_debug C e))))))], s2\<lparr>ts_dir := d2\<rparr>))) \<and>
          (\<forall>b. tvm_bytes_call C fm ''write'' [pack_tvm_handle h, V_List (map V_U8 b)] s2 =
             (case tc_write C th b (ts_dir s2) of
                (Inr _, d2) \<Rightarrow> (Inr [V_Result (Inr None)], s2\<lparr>ts_dir := d2\<rparr>)
              | (Inl e, d2) \<Rightarrow> (Inr [V_Result (Inl (Some (V_Variant ''backing-store'' (Some (V_String (tc_debug C e))))))], s2\<lparr>ts_dir := d2\<rparr>)))))"
proof -
  obtain h s1 where reg: "tvm_register i th (s\<lparr>ts_dir := d\<rparr>) = (h, s1)" by (rule prod.exhaust)
  then have h: "th_region h = i" "th_offset h = th_offset th" "live h th (ts_slots s1)" "ts_dir s1 = d"
    by (auto simp: tvm_register_def Let_def live_def)
  have a: "tvm_manager_call C fm ''alloc'' [V_U16 i, V_U32 sz] s = (Inr [V_Result (Inr (Some (pack_tvm_handle h)))], s1)"
    using assms reg by (simp add: tvm_manager_call_def tvm_alloc_def on_dir_def tvm_reply_def)
  have r: "tvm_resolve h False (tvm_session C fm rs s1) = (Inr th, tvm_session C fm rs s1)"
    if "grants C fm (i, th_offset th) rs s1 = 0" "list_all (\<lambda>r. \<not> frees fm h r) rs" for rs
    using live_session [OF h(3), of C fm rs] h(1,2) that by (simp add: live_def tvm_resolve_def)
  show ?thesis
    by (rule exI [of _ h], rule exI [of _ s1])
      (auto simp: a h(1,2,4) r Let_def tvm_bytes_call_def tvm_read_def tvm_write_def tvm_write_args_def on_dir_def
        tvm_reply_def tvm_err_to_wit_def bindgen_tvm_error_to_value_def split: prod.split sum.split)
qed

section \<open>A concrete memory\<close>

text \<open>Blocks in one list, the first free place is used again.\<close>

definition block_tvm :: "u8 list option list tvm_core" where
  "block_tvm =
     \<lparr>tc_create = (\<lambda>k cap d. (Inr 0, d)),
      tc_destroy = (\<lambda>i d. (Inr (), [])),
      tc_alloc = (\<lambda>i sz d.
        let n = length (takeWhile (\<lambda>b. b \<noteq> None) d); b = Some (replicate (unat sz) 0)
        in (Inr \<lparr>th_region = i, th_generation = 1, th_offset = word_of_nat n\<rparr>, if n < length d then d[n := b] else d @ [b])),
      tc_dealloc = (\<lambda>h d. (Inr (), d[unat (th_offset h) := None])),
      tc_slice = (\<lambda>h n d. (case d ! unat (th_offset h) of
          Some b \<Rightarrow> if unat n \<le> length b then Inr (take (unat n) b) else Inl Out_Of_Bounds | None \<Rightarrow> Inl Stale_Handle, d)),
      tc_write = (\<lambda>h b d. (Inr (), d[unat (th_offset h) := Some b])),
      tc_debug = (\<lambda>e. ''error'')\<rparr>"

definition empty_tvm :: "u8 list option list tvm_state" where
  "empty_tvm = \<lparr>ts_dir = [], ts_slots = Map.empty\<rparr>"

definition block_request :: tvm_request where
  "block_request = Manager_Call ''alloc'' [V_U16 0, V_U32 2]"

definition first_handle :: wvalue where
  "first_handle = pack_tvm_handle \<lparr>th_region = 0, th_generation = 1, th_offset = 0\<rparr>"

text \<open>After an allocation, a free and a second allocation at the same place.\<close>

definition freed_tvm :: "u8 list option list tvm_state" where
  "freed_tvm = snd (tvm_manager_call block_tvm plain_fmt ''dealloc'' [first_handle] (tvm_session block_tvm plain_fmt [block_request] empty_tvm))"

theorem freed_handle_refused_witness:
  "tvm_bytes_call block_tvm plain_fmt ''read'' [first_handle, V_U32 2] (tvm_session block_tvm plain_fmt [block_request] freed_tvm)
     = (Inr stale_reply, tvm_session block_tvm plain_fmt [block_request] freed_tvm)"
proof -
  have c: "tvm_manager_call block_tvm plain_fmt ''dealloc'' [first_handle] (tvm_session block_tvm plain_fmt [block_request] empty_tvm)
      = (Inr [V_Result (Inr None)], freed_tvm)"
    unfolding freed_tvm_def by (rule prod_eqI) (code_simp, simp)
  have g: "grants block_tvm plain_fmt (0, 0) [block_request] freed_tvm = 1"
    by code_simp
  show ?thesis
    using freed_handle_refused [OF c, of "\<lparr>th_region = 0, th_generation = 1, th_offset = 0\<rparr>" "[block_request]"] g
    by (simp add: first_handle_def stale_reply_def Let_def)
qed

theorem allocated_handle_reaches_block_witness:
  "\<exists>h s1. tvm_manager_call block_tvm plain_fmt ''alloc'' [V_U16 0, V_U32 2] empty_tvm
       = (Inr [V_Result (Inr (Some (pack_tvm_handle h)))], s1) \<and>
     tvm_bytes_call block_tvm plain_fmt ''read'' [pack_tvm_handle h, V_U32 2] s1
       = (Inr [V_Result (Inr (Some (V_List [V_U8 0, V_U8 0])))], s1)"
proof -
  have a: "tc_alloc block_tvm 0 2 (ts_dir empty_tvm) = (Inr \<lparr>th_region = 0, th_generation = 1, th_offset = 0\<rparr>, [Some [0, 0]])"
    by code_simp
  obtain h s1 where c: "tvm_manager_call block_tvm plain_fmt ''alloc'' [V_U16 0, V_U32 2] empty_tvm
       = (Inr [V_Result (Inr (Some (pack_tvm_handle h)))], s1)" and d: "ts_dir s1 = [Some [0, 0]]"
    and r: "tvm_bytes_call block_tvm plain_fmt ''read'' [pack_tvm_handle h, V_U32 2] s1
       = (case tc_slice block_tvm \<lparr>th_region = 0, th_generation = 1, th_offset = 0\<rparr> 2 (ts_dir s1) of
            (Inr b, d2) \<Rightarrow> (Inr [V_Result (Inr (Some (V_List (map V_U8 b))))], s1\<lparr>ts_dir := d2\<rparr>)
          | (Inl e, d2) \<Rightarrow> (Inr [V_Result (Inl (Some (V_Variant ''backing-store'' (Some (V_String (tc_debug block_tvm e))))))], s1\<lparr>ts_dir := d2\<rparr>))"
    using allocated_handle_reaches_block [OF a, of plain_fmt] by (fastforce simp: Let_def dest!: spec [of _ "[]"])
  have "tc_slice block_tvm \<lparr>th_region = 0, th_generation = 1, th_offset = 0\<rparr> 2 (ts_dir s1) = (Inr [0, 0], ts_dir s1)"
    unfolding d by code_simp
  then show ?thesis using c r by auto
qed

end
