(* ===== verification/Core_Facts.thy ===== *)
theory Core_Facts
  imports Core_Columns Core_Imports Tvm_Facts Manager_Drain
begin

text \<open>
  The interfaces that the core imports from the host: every reply has the declared type, the
  callbacks pass arguments and results unchanged, and a further instance of the core installs
  what the first one did.
\<close>

section \<open>Callbacks by value\<close>

definition invokeinfo_value :: "invokeinfo \<Rightarrow> wvalue" where
  "invokeinfo_value i =
     V_Record [(''rowindex'', V_Option (map_option V_U64 (rowindex i))), (''iswindow'', V_Bool (iswindow i))]"

lemma invokeinfo_back [simp]: "value_to_core_invokeinfo fm (invokeinfo_value i) = Inr i"
  by (cases "rowindex i") (simp_all add: value_to_core_invokeinfo_def invokeinfo_value_def invokeinfo_field_def)

lemma core_duckvalue_eq [simp]: "core_duckvalue_to_value = cli_duckvalue_to_value"
  by (simp add: fun_eq_iff core_duckvalue_to_value_def)

lemma core_duckvalue_back [simp]: "value_to_core_duckvalue fm (cli_duckvalue_to_value v) = Inr v"
  by (simp add: value_to_core_duckvalue_def)

lemma core_args_back [simp]: "core_args fm (map cli_duckvalue_to_value xs) = Inr xs"
  unfolding core_args_def by (rule rmap_pack) simp

text \<open>The reply to a callback: what the extension answered, in the encoding of the interface.\<close>

definition answered :: "('a \<Rightarrow> wvalue) \<Rightarrow> duckerror + 'a \<Rightarrow> string + wvalue list" where
  "answered enc r =
     Inr [V_Result (case r of Inr a \<Rightarrow> Inr (Some (enc a)) | Inl e \<Rightarrow> Inl (Some (cli_duckerror_to_value e)))]"

lemma callback_reply_eq: "Inr (callback_reply enc r) = answered enc r"
  by (simp add: callback_reply_def answered_def core_duckerror_eq split: sum.split)

lemma ext_reply_eq: "ext_reply = (\<lambda>v. cli_duckvalue_to_value (convert_extension_duckvalue_to_core v))"
  by (simp add: fun_eq_iff ext_reply_def)

text \<open>
  The callbacks by value add nothing and lose nothing: for the encoded arguments of a
  scalar, table, pragma or cast call, the host asks the manager once, for the same handle and
  the same arguments, and the reply is the answer of the extension in the encoding of the
  interface: every value in every arm but the 128-bit integers, which become their decimal
  text, and a declared error unchanged.
\<close>

theorem value_callbacks_exact:
  "callback_dispatch fm W ''call-scalar'' [V_U32 h, V_List (map cli_duckvalue_to_value xs), invokeinfo_value i] m
     = Some (map_prod (answered (\<lambda>v. cli_duckvalue_to_value (convert_extension_duckvalue_to_core v))) (\<lambda>m1. m1)
         (manager_dispatch_scalar W h xs i m))
   \<and> callback_dispatch fm W ''call-table'' [V_U32 h, V_List (map cli_duckvalue_to_value xs)] m
     = map_option (map_prod (answered (\<lambda>rs. V_List (map (\<lambda>row. V_List (map (\<lambda>v.
           cli_duckvalue_to_value (convert_extension_duckvalue_to_core v)) row)) rs))) (\<lambda>m1. m1))
         (manager_dispatch_table W h xs m)
   \<and> callback_dispatch fm W ''call-pragma'' [V_U32 h, V_List (map cli_duckvalue_to_value xs)] m
     = Some (map_prod (answered (\<lambda>p. V_Option (map_option (\<lambda>v. cli_duckvalue_to_value (convert_extension_duckvalue_to_core v)) p))) (\<lambda>m1. m1)
         (manager_dispatch_pragma W h xs m))
   \<and> callback_dispatch fm W ''call-cast'' [V_U32 h, cli_duckvalue_to_value x] m
     = Some (map_prod (answered (\<lambda>v. cli_duckvalue_to_value (convert_extension_duckvalue_to_core v))) (\<lambda>m1. m1)
         (manager_dispatch_cast W h x m))"
  by (simp add: callback_dispatch_def callback_scalar_def callback_table_def callback_pragma_def callback_cast_def
      callback_reply_eq ext_reply_eq core_resultset_to_value_def convert_extension_resultset_to_core_def comp_def
      map_prod_def case_prod_unfold)

section \<open>Callbacks by column\<close>

definition column_tuples :: "colvec list \<Rightarrow> duckvalue list list" where
  "column_tuples cs = map (\<lambda>r. map (\<lambda>c. colvec_to_values c ! r) cs) [0..<case cs of [] \<Rightarrow> 0 | c # _ \<Rightarrow> unat (cv_rows c)]"

lemma flat_tuples:
  assumes "\<forall>c \<in> set cs. flat_colvec c \<and> cv_rows c = n"
  shows "core_colvecs_to_ext_rows cs = Some (column_tuples cs)"
proof -
  have "(case cs of [] \<Rightarrow> 0 | c # _ \<Rightarrow> unat (cv_rows c)) = (if cs = [] then 0 else unat n)"
    using assms by (cases cs) auto
  then show ?thesis using flat_rows [OF assms] by (simp add: column_tuples_def)
qed

lemma core_colvecs_back [simp]: "rmap (value_to_core_colvec fm) (map core_colvec_to_value cs) = Inr cs"
  by (rule rmap_pack) simp

text \<open>
  C37. The callbacks by column: for the encodings of columns that are full, of one length and of any
  arm but the nested ones, the manager is asked once, for the same handle and the rows of the
  columns, without a panic; the reply is the column of the answers, and a declared error is
  unchanged. The column reads back as the answers in the arm of the first one that is not NULL; an
  answer of another arm reads back as NULL.
\<close>

theorem column_callbacks_exact:
  assumes "\<forall>c \<in> set cs. flat_colvec c \<and> cv_rows c = n"
  shows "callback_dispatch fm W ''call-scalar-batch-col'' [V_U32 h, V_List (map core_colvec_to_value cs), invokeinfo_value i] m
       = map_option (map_prod (answered (\<lambda>vs. core_colvec_to_value (ext_values_to_core_colvec vs))) (\<lambda>m1. m1))
           (manager_dispatch_scalar_batch W h (column_tuples cs) i m)
     \<and> callback_dispatch fm W ''call-aggregate-col'' [V_U32 h, V_List (map core_colvec_to_value cs)] m
       = map_option (map_prod (answered (\<lambda>v. cli_duckvalue_to_value (convert_extension_duckvalue_to_core v))) (\<lambda>m1. m1))
           (manager_dispatch_aggregate W h (column_tuples cs) m)
     \<and> (let vs = map convert_extension_duckvalue_to_core ws in
          value_to_core_colvec fm (core_colvec_to_value (ext_values_to_core_colvec ws)) = Inr (column_from_values vs) \<and>
          colvec_to_values (column_from_values vs) = same_arm_view (representative vs) vs)"
  by (simp add: callback_dispatch_def callback_scalar_batch_def callback_aggregate_def flat_tuples [OF assms]
      callback_reply_eq ext_reply_eq ext_values_to_core_colvec_eq pivot_view map_prod_def case_prod_unfold Let_def)

section \<open>Casts\<close>

text \<open>The values of a column, cast by one call each; the first error ends it.\<close>

fun cast_each :: "fmt \<Rightarrow> 'm world \<Rightarrow> u32 \<Rightarrow> duckvalue list \<Rightarrow> 'm manager \<Rightarrow> ((wvalue + wvalue list) \<times> 'm manager) option" where
  "cast_each fm W h [] m = Some (Inr [], m)"
| "cast_each fm W h (v # vs) m =
     Option.bind (callback_dispatch fm W ''call-cast'' [V_U32 h, cli_duckvalue_to_value v] m) (\<lambda>(r, m1).
       case r of
         Inr [V_Result (Inr (Some w))] \<Rightarrow>
           map_option (\<lambda>(rs, m2). (map_sum (\<lambda>e. e) (\<lambda>ws. w # ws) rs, m2)) (cast_each fm W h vs m1)
       | Inr [V_Result (Inl (Some e))] \<Rightarrow> Some (Inl e, m1)
       | _ \<Rightarrow> None)"

lemma value_cast:
  "callback_dispatch fm W ''call-cast'' [V_U32 h, cli_duckvalue_to_value v] m
     = Some (map_prod (answered (\<lambda>v. cli_duckvalue_to_value (convert_extension_duckvalue_to_core v))) (\<lambda>m1. m1)
         (manager_dispatch_cast W h v m))"
  by (simp add: callback_dispatch_def callback_cast_def callback_reply_eq ext_reply_eq map_prod_def case_prod_unfold)

lemma cast_each_rows:
  "cast_each fm W h vs m =
     Some (map_prod (map_sum cli_duckerror_to_value (map (\<lambda>v. cli_duckvalue_to_value (convert_extension_duckvalue_to_core v))))
       (\<lambda>m1. m1) (cast_rows W h (map (\<lambda>v. [v]) vs) m))"
proof (induction vs arbitrary: m)
  case (Cons v vs)
  obtain r m1 where "manager_dispatch_cast W h v m = (r, m1)" by (rule prod.exhaust)
  then show ?case using Cons [of m1]
    by (cases r; cases "cast_rows W h (map (\<lambda>v. [v]) vs) m1"; cases "fst (cast_rows W h (map (\<lambda>v. [v]) vs) m1)")
      (auto simp: value_cast answered_def)
qed simp

lemma flat_length: "flat_colvec c \<Longrightarrow> length (colvec_to_values c) = unat (cv_rows c)"
  unfolding flat_colvec_def column_rows_def colvec_to_values_def Let_def
  by (cases "cv_data c") (simp_all add: emit_def)

lemma tuples_of_one: "flat_colvec c \<Longrightarrow> column_tuples [c] = map (\<lambda>v. [v]) (colvec_to_values c)"
proof -
  assume "flat_colvec c"
  moreover have "map (\<lambda>r. [vs ! r]) [0..<length vs] = map (\<lambda>v. [v]) vs" for vs :: "duckvalue list"
    using map_nth [of vs] by (metis (no_types, lifting) length_map map_equality_iff nth_map)
  ultimately show ?thesis by (simp add: column_tuples_def flat_length flip: flat_length)
qed

text \<open>
  C38. A cast of a column is the casts of its values: for a full column in any arm but the nested
  ones, the columnar cast of the interface replies with the column made of the values that one
  single cast call each would have replied with in this order, or with the first error of
  those calls, and leaves the extensions in the state that these calls leave. Making the column
  keeps the values in the arm of the first one that is not NULL; a value of another arm, which a
  single call would have returned, is a NULL of the column.
\<close>

theorem column_cast_is_rowwise:
  assumes "flat_colvec c"
  shows "callback_dispatch fm W ''call-cast-col'' [V_U32 h, core_colvec_to_value c] m
    = map_option (map_prod (\<lambda>r. Inr [V_Result (case r of
          Inl e \<Rightarrow> Inl (Some e)
        | Inr ws \<Rightarrow> (case rmap (value_to_core_duckvalue fm) ws of
              Inr vs \<Rightarrow> Inr (Some (core_colvec_to_value (column_from_values vs)))
            | Inl _ \<Rightarrow> Inl None))]) (\<lambda>m1. m1))
      (cast_each fm W h (colvec_to_values c) m)"
proof -
  obtain r m1 where e: "cast_rows W h (map (\<lambda>v. [v]) (colvec_to_values c)) m = (r, m1)" by (rule prod.exhaust)
  have rows: "core_colvecs_to_ext_rows [c] = Some (map (\<lambda>v. [v]) (colvec_to_values c))"
    using flat_tuples [of "[c]" "cv_rows c"] tuples_of_one [OF assms] assms by simp
  have d: "rmap (value_to_core_duckvalue fm) (map (\<lambda>v. cli_duckvalue_to_value (convert_extension_duckvalue_to_core v)) vs)
      = Inr (map convert_extension_duckvalue_to_core vs)" for vs
    by (rule rmap_map_Inr) simp
  have call: "callback_dispatch fm W ''call-cast-col'' [V_U32 h, core_colvec_to_value c] m
      = Some (answered (\<lambda>vs. core_colvec_to_value (ext_values_to_core_colvec vs)) r, m1)"
    by (simp add: callback_dispatch_def callback_cast_batch_def rows e callback_reply_eq)
  have each: "cast_each fm W h (colvec_to_values c) m = Some (map_sum cli_duckerror_to_value
      (map (\<lambda>v. cli_duckvalue_to_value (convert_extension_duckvalue_to_core v))) r, m1)"
    by (simp add: cast_each_rows e)
  show ?thesis unfolding call each by (cases r) (simp_all only: option.map map_prod_simp map_sum.simps sum.case answered_def d ext_values_to_core_colvec_eq)
qed

section \<open>A concrete column\<close>

definition two_rows :: colvec where
  "two_rows = column_from_values [D_Int64 5, D_Null]"

lemma two_rows_flat: "flat_colvec two_rows \<and> cv_rows two_rows = 2"
  by code_simp

theorem column_callbacks_exact_witness:
  "callback_dispatch plain_fmt demo_world ''call-aggregate-col'' [V_U32 3, V_List [core_colvec_to_value two_rows]] demo_pending
     = map_option (map_prod (answered (\<lambda>v. cli_duckvalue_to_value (convert_extension_duckvalue_to_core v))) (\<lambda>m1. m1))
         (manager_dispatch_aggregate demo_world 3 [[D_Int64 5], [D_Null]] demo_pending)"
proof -
  have "column_tuples [two_rows] = [[D_Int64 5], [D_Null]]" by code_simp
  then show ?thesis
    using column_callbacks_exact [of "[two_rows]" 2 plain_fmt demo_world 3 _ demo_pending "[]"] two_rows_flat by simp
qed

text \<open>An extension with a cast under handle 1 that answers its first call ''a'' and every later one ''b''.\<close>

definition cast_guest :: "(nat \<times> nat) running guest" where
  "cast_guest g name args =
     (case g of ((n, p), s, reg) \<Rightarrow>
        (Inr [V_Result (Inr (Some (colvec_to_value
           (column_from_values [D_Text (if n = 0 then ''a'' else ''b'')]))))], ((Suc n, p), s, reg)))"

definition cast_world :: "(nat \<times> nat) world" where
  "cast_world = demo_world\<lparr>w_guest := (\<lambda>_. cast_guest)\<rparr>"

definition cast_manager :: "(nat \<times> nat) manager" where
  "cast_manager = (new_manager None None)
     \<lparr>m_extensions := [(''db'', (0, 0), new_ext_state ''db'')],
      m_registry := snd (allocate new_registry ''db'' Cast 3)\<rparr>"

theorem column_cast_is_rowwise_witness:
  "\<exists>m1. callback_dispatch plain_fmt cast_world ''call-cast-col'' [V_U32 1, core_colvec_to_value two_rows] cast_manager
      = Some (Inr [V_Result (Inr (Some (core_colvec_to_value (column_from_values [D_Text ''a'', D_Text ''b'']))))], m1)
    \<and> map_option fst (map_of (m_extensions m1) ''db'') = Some (2, 0)"
proof -
  have v: "colvec_to_values two_rows = [D_Int64 5, D_Null]" by code_simp
  obtain r m1 where e: "cast_each plain_fmt cast_world 1 [D_Int64 5, D_Null] cast_manager = Some (r, m1)"
    using cast_each_rows by (metis surj_pair)
  have "map_option fst (cast_each plain_fmt cast_world 1 [D_Int64 5, D_Null] cast_manager)
      = Some (Inr (map cli_duckvalue_to_value [D_Text ''a'', D_Text ''b'']))" by code_simp
  then have r: "r = Inr (map cli_duckvalue_to_value [D_Text ''a'', D_Text ''b''])" by (simp only: e option.map fst_conv option.inject)
  have "map_option (\<lambda>(r, m1). map_option fst (map_of (m_extensions m1) ''db''))
      (cast_each plain_fmt cast_world 1 [D_Int64 5, D_Null] cast_manager) = Some (Some (2, 0))" by code_simp
  then have s: "map_option fst (map_of (m_extensions m1) ''db'') = Some (2, 0)"
    by (simp only: e option.map prod.case option.inject)
  have d: "rmap (value_to_core_duckvalue plain_fmt) (map cli_duckvalue_to_value [D_Text ''a'', D_Text ''b''])
      = Inr [D_Text ''a'', D_Text ''b'']" by code_simp
  show ?thesis
    using column_cast_is_rowwise [of two_rows plain_fmt cast_world 1 cast_manager] two_rows_flat s
    unfolding v e r by (simp only: option.map map_prod_simp sum.case d) simp
qed

end
