(* ===== verification/Import_Facts.thy ===== *)
theory Import_Facts
  imports Core_Facts
begin

text \<open>
  The five interfaces that the core imports, together: every reply has the declared type, and
  the archive gives a further instance of the core what the first one was given.
\<close>

section \<open>The declared types\<close>

definition wit_funcflags :: wit where
  "wit_funcflags = W_Flags [''deterministic'', ''commutative'', ''stateless'', ''sideeffecting'', ''deprecated'']"

definition wit_func_arg :: wit where
  "wit_func_arg = W_Record [(''name'', W_Option W_String), (''logical'', wit_logicaltype)]"

definition wit_func_opts :: wit where
  "wit_func_opts = W_Record
     [(''description'', W_Option W_String), (''tags'', W_List W_String), (''attributes'', wit_funcflags)]"

definition wit_ext_opts :: wit where
  "wit_ext_opts = W_Record [(''description'', W_Option W_String), (''tags'', W_List W_String)]"

definition wit_function_registration :: wit where
  "wit_function_registration = W_Record
     [(''name'', W_String), (''arguments'', W_List wit_func_arg), (''returns'', wit_logicaltype),
      (''callback-handle'', W_U32), (''options'', W_Option wit_func_opts)]"

definition wit_table_registration :: wit where
  "wit_table_registration = W_Record
     [(''name'', W_String), (''arguments'', W_List wit_func_arg), (''columns'', W_List wit_columndef),
      (''callback-handle'', W_U32), (''options'', W_Option wit_ext_opts)]"

definition wit_pending_registrations :: wit where
  "wit_pending_registrations = W_Record
     [(''scalars'', W_List wit_function_registration), (''tables'', W_List wit_table_registration),
      (''aggregates'', W_List wit_function_registration),
      (''macros'', W_List (W_Record [(''schema'', W_String), (''name'', W_String),
         (''parameters'', W_List W_String), (''definition-sql'', W_String)])),
      (''table-macros'', W_List (W_Record [(''schema'', W_String), (''name'', W_String),
         (''parameters'', W_List W_String), (''body-sql'', W_String)])),
      (''replacement-scans'', W_List (W_Record [(''extensions'', W_List W_String), (''function-name'', W_String)])),
      (''logical-types'', W_List (W_Record [(''name'', W_String), (''physical'', W_String)])),
      (''casts'', W_List (W_Record [(''source'', W_String), (''target'', W_String), (''callback-handle'', W_U32)]))]"

definition wit_tvm_handle :: wit where
  "wit_tvm_handle = W_Record [(''region-id'', W_U16), (''generation'', W_U16), (''offset'', W_U32)]"

definition wit_tvm_error :: wit where
  "wit_tvm_error = W_Variant
     [(''region-not-found'', Some W_U16), (''stale-handle'', None), (''out-of-bounds'', None), (''not-resident'', None),
      (''allocation-failed'', None), (''backing-store'', Some W_String), (''pinned'', None)]"

definition wit_region_info :: wit where
  "wit_region_info = W_Record
     [(''id'', W_U16), (''generation'', W_U16),
      (''kind'', W_Enum [''hot-heap'', ''object-arena'', ''blob-arena'', ''page-store'', ''scratch'', ''device-state'', ''code-cache'']),
      (''capacity'', W_U32), (''used'', W_U32), (''residency'', W_Enum [''hot'', ''warm'', ''cold'', ''external''])]"

definition duck_result :: "wit \<Rightarrow> wit" where
  "duck_result t = W_Result (Some t) (Some wit_duckerror)"

definition tvm_result :: "wit option \<Rightarrow> wit" where
  "tvm_result t = W_Result t (Some wit_tvm_error)"

text \<open>The type that an interface declares for the result of a method.\<close>

definition declared_reply :: "string \<Rightarrow> string \<Rightarrow> wit option" where
  "declared_reply iface mth =
     map_of [((loader_iface, ''request-load''), W_Bool),
       ((hooks_iface, ''get-pending-registrations''), wit_pending_registrations),
       ((core_callback_iface, ''call-scalar''), duck_result wit_duckvalue),
       ((core_callback_iface, ''call-scalar-batch-col''), duck_result wit_colvec),
       ((core_callback_iface, ''call-table''), duck_result (W_List (W_List wit_duckvalue))),
       ((core_callback_iface, ''call-aggregate-col''), duck_result wit_duckvalue),
       ((core_callback_iface, ''call-cast-col''), duck_result wit_colvec),
       ((core_callback_iface, ''call-pragma''), duck_result (W_Option wit_duckvalue)),
       ((core_callback_iface, ''call-cast''), duck_result wit_duckvalue),
       ((tvm_manager_iface, ''create-region''), tvm_result (Some W_U16)),
       ((tvm_manager_iface, ''destroy-region''), tvm_result None),
       ((tvm_manager_iface, ''alloc''), tvm_result (Some wit_tvm_handle)),
       ((tvm_manager_iface, ''dealloc''), tvm_result None),
       ((tvm_manager_iface, ''describe-region''), tvm_result (Some wit_region_info)),
       ((tvm_bytes_iface, ''read''), tvm_result (Some wit_bytes)),
       ((tvm_bytes_iface, ''write''), tvm_result None)] (iface, mth)"

section \<open>The registrations\<close>

lemma opt_string_typed [simp]: "typed (opt_string s) (W_Option W_String)"
  by (cases s) (simp_all add: opt_string_def)

lemma strings_typed [simp]: "typed (V_List (map V_String ss)) (W_List W_String)"
  by (simp add: list_all_iff)

lemma native_logicaltype_typed [simp]: "typed (native_logicaltype_to_value t) wit_logicaltype"
  by (cases t) (simp_all add: native_logicaltype_to_value_def complex_type_def wit_logicaltype_def)

lemma list_typed [simp]: "(\<And>x. x \<in> set xs \<Longrightarrow> typed (f x) t) \<Longrightarrow> typed (V_List (map f xs)) (W_List t)"
  by (simp add: list_all_iff)

lemma option_typed [simp]: "(\<And>x. typed (f x) t) \<Longrightarrow> typed (V_Option (map_option f p)) (W_Option t)"
  by (cases p) simp_all

lemma parts_typed [simp]:
  "typed (native_func_arg_to_value a) wit_func_arg"
  "typed (native_ext_opts_to_value e) wit_ext_opts"
  "typed (native_columndef_to_value c) wit_columndef"
  by (simp_all add: native_func_arg_to_value_def wit_func_arg_def
      native_ext_opts_to_value_def wit_ext_opts_def native_columndef_to_value_def wit_columndef_def
      del: typed.simps(14,17))

lemma funcflags_typed [simp]: "typed (native_funcflags_to_value f) wit_funcflags"
  by (auto simp: native_funcflags_to_value_def wit_funcflags_def)

lemma func_opts_typed [simp]: "typed (native_func_opts_to_value p) wit_func_opts"
  by (simp add: native_func_opts_to_value_def wit_func_opts_def del: typed.simps(14,17))

lemma registrations_typed:
  "typed (native_scalar_registration_to_value s) wit_function_registration"
  "typed (native_aggregate_registration_to_value a) wit_function_registration"
  "typed (native_table_registration_to_value t) wit_table_registration"
  by (simp_all add: native_scalar_registration_to_value_def native_aggregate_registration_to_value_def
      native_table_registration_to_value_def wit_function_registration_def wit_table_registration_def
      del: typed.simps(14,17))

lemma pending_typed: "typed (native_pending_registrations_to_value d) wit_pending_registrations"
  by (simp add: native_pending_registrations_to_value_def wit_pending_registrations_def registrations_typed
      native_macro_registration_to_value_def native_table_macro_registration_to_value_def
      native_replacement_scan_registration_to_value_def native_logical_type_registration_to_value_def
      native_cast_registration_to_value_def del: typed.simps(14,17))

section \<open>Replies\<close>

text \<open>An error of the call, or one value of the type.\<close>

definition replies :: "wit \<Rightarrow> string + wvalue list \<Rightarrow> bool" where
  "replies t r = (case r of Inl e \<Rightarrow> True | Inr vs \<Rightarrow> \<exists>v. vs = [v] \<and> typed v t)"

lemma replies_error [simp]: "replies t (Inl e)"
  by (simp add: replies_def)

lemma replies_duck: "(\<And>x. typed (enc x) t) \<Longrightarrow> replies (duck_result t) (Inr (callback_reply enc r))"
  by (cases r) (simp_all add: replies_def duck_result_def callback_reply_def core_duckerror_eq)

lemma tvm_error_typed [simp]: "typed (bindgen_tvm_error_to_value e) wit_tvm_error"
  by (cases e) (simp_all add: bindgen_tvm_error_to_value_def wit_tvm_error_def)

lemma replies_tvm: "(\<And>x. payload_typed (enc x) t) \<Longrightarrow> replies (tvm_result t) (Inr (tvm_reply enc r))"
  by (cases r) (simp_all add: replies_def tvm_result_def tvm_reply_def)

lemma replies_tvm_error: "replies (tvm_result t) (Inr (tvm_reply enc (Inl e)))"
  by (simp add: replies_def tvm_result_def tvm_reply_def)

lemma handle_typed [simp]: "typed (pack_tvm_handle h) wit_tvm_handle"
  by (simp add: pack_tvm_handle_def wit_tvm_handle_def)

lemma u8s_typed [simp]: "typed (V_List (map V_U8 b)) wit_bytes"
  using bytes_value_typed [of b] by (simp add: bytes_to_value_list_def)

lemma payload_some: "typed v t \<Longrightarrow> payload_typed (Some v) (Some t)"
  by simp

lemma loader_replies: "replies W_Bool (fst (loader_call fm W ''request-load'' args sh))"
  by (simp add: loader_call_def replies_def case_prod_unfold split: list.split wvalue.split)

lemma hooks_replies: "replies wit_pending_registrations (fst (hooks_call fm W st ''get-pending-registrations'' args sh))"
  using pending_typed by (simp add: hooks_call_def replies_def split: prod.split)

section \<open>Callbacks\<close>

definition outcome_replies :: "wit \<Rightarrow> 'm core_outcome \<Rightarrow> bool" where
  "outcome_replies t r = (case r of None \<Rightarrow> True | Some (a, m) \<Rightarrow> replies t a)"

lemma outcome_some [simp]:
  "outcome_replies t (Some (a, m)) = replies t a"
  "outcome_replies t (Some (case p of (r, m1) \<Rightarrow> (f r, m1))) = replies t (f (fst p))"
  "outcome_replies t (map_option (\<lambda>(r, m1). (g r, m1)) q) = (case q of None \<Rightarrow> True | Some p \<Rightarrow> replies t (g (fst p)))"
  "outcome_replies t (map_option (\<lambda>x. case h x of (r, m1) \<Rightarrow> (g r, m1)) q') = (case q' of None \<Rightarrow> True | Some x \<Rightarrow> replies t (g (fst (h x))))"
  by (simp_all add: outcome_replies_def case_prod_unfold split: option.split)

lemma outcome_bind [simp]:
  "outcome_replies t (Option.bind q f) = (case q of None \<Rightarrow> True | Some a \<Rightarrow> outcome_replies t (f a))"
  by (cases q) (simp_all add: outcome_replies_def)

lemma ext_reply_typed [simp]: "typed (ext_reply v) wit_duckvalue"
  by (simp add: ext_reply_def)

lemma pragma_replies: "replies (duck_result (W_Option wit_duckvalue)) (Inr (callback_reply (\<lambda>d. V_Option (map_option ext_reply d)) r))"
  by (rule replies_duck) (rule option_typed, simp)

lemma callback_replies:
  "outcome_replies (duck_result wit_duckvalue) (callback_scalar fm W args m)"
  "outcome_replies (duck_result wit_duckvalue) (callback_cast fm W args m)"
  "outcome_replies (duck_result (W_Option wit_duckvalue)) (callback_pragma fm W args m)"
  unfolding callback_scalar_def callback_cast_def callback_pragma_def
  by (simp_all add: replies_duck pragma_replies split: list.split wvalue.split sum.split prod.split)

lemma callback_table_replies:
  "outcome_replies (duck_result (W_List (W_List wit_duckvalue))) (callback_table fm W args m)"
  "outcome_replies (duck_result wit_duckvalue) (callback_aggregate fm W args m)"
  unfolding callback_table_def callback_aggregate_def
  by (simp_all add: replies_duck split: list.split wvalue.split sum.split option.split)

lemma callback_column_replies:
  "outcome_replies (duck_result wit_colvec) (callback_scalar_batch fm W args m)"
  "outcome_replies (duck_result wit_colvec) (callback_cast_batch fm W args m)"
  unfolding callback_scalar_batch_def callback_cast_batch_def
  by (simp_all add: replies_duck split: list.split wvalue.split sum.split prod.split option.split)

section \<open>Spill memory\<close>

lemma tvm_region_replies:
  "replies (tvm_result (Some W_U16)) (fst (tvm_create_region C fm args s))"
  "replies (tvm_result None) (fst (tvm_destroy_region C fm args s))"
  "replies (tvm_result (Some wit_region_info)) (fst (tvm_describe_region fm args s))"
  unfolding tvm_create_region_def tvm_destroy_region_def tvm_describe_region_def
  by (simp_all add: replies_tvm replies_tvm_error split: list.split wvalue.split sum.split prod.split)

lemma tvm_block_replies:
  "replies (tvm_result (Some wit_tvm_handle)) (fst (tvm_alloc C fm args s))"
  "replies (tvm_result None) (fst (tvm_dealloc C fm args s))"
  unfolding tvm_alloc_def tvm_dealloc_def
  by (simp_all add: replies_tvm replies_tvm_error split: list.split wvalue.split sum.split prod.split)

lemma read_replies: "replies (tvm_result (Some wit_bytes)) (Inr (tvm_reply (\<lambda>b. Some (V_List (map V_U8 b))) r))"
  by (rule replies_tvm) (rule payload_some, simp del: typed.simps)

lemma tvm_bytes_replies:
  "replies (tvm_result (Some wit_bytes)) (fst (tvm_read C fm args s))"
  "replies (tvm_result None) (fst (tvm_write C fm args s))"
  unfolding tvm_read_def tvm_write_def
  by (simp_all add: replies_tvm read_replies replies_tvm_error split: list.split wvalue.split sum.split prod.split)

section \<open>All imports\<close>

lemmas iface_defs = loader_iface_def hooks_iface_def core_callback_iface_def tvm_manager_iface_def tvm_bytes_iface_def

text \<open>An answer of one interface, by its declared type; an undeclared method has none.\<close>

definition declared_ok :: "string \<Rightarrow> string \<Rightarrow> string + wvalue list \<Rightarrow> bool" where
  "declared_ok iface mth r = (case declared_reply iface mth of Some t \<Rightarrow> replies t r | None \<Rightarrow> isl r)"

lemma loader_ok: "declared_ok loader_iface mth (fst (loader_call fm W mth args sh))"
  using loader_replies [of fm W args sh]
  by (cases "mth = ''request-load''") (simp_all add: declared_ok_def declared_reply_def iface_defs loader_call_def)

lemma hooks_ok: "declared_ok hooks_iface mth (fst (hooks_call fm W st mth args sh))"
  using hooks_replies [of fm W st args sh]
  by (cases "mth = ''get-pending-registrations''") (simp_all add: declared_ok_def declared_reply_def iface_defs hooks_call_def)

lemma callback_ok: "callback_dispatch fm W mth args m = Some (r, m1) \<Longrightarrow> declared_ok core_callback_iface mth r"
  using callback_replies [of fm W args m] callback_table_replies [of fm W args m] callback_column_replies [of fm W args m]
  unfolding declared_ok_def declared_reply_def
  by (auto simp: iface_defs callback_dispatch_def outcome_replies_def split: if_split_asm)

lemma manager_ok_reply: "declared_ok tvm_manager_iface mth (fst (tvm_manager_call C fm mth args s))"
  using tvm_region_replies(1,2) [where C = C and fm = fm and args = args and s = s]
    tvm_region_replies(3) [where fm = fm and args = args and s = s] tvm_block_replies [where C = C and fm = fm and args = args and s = s]
  unfolding declared_ok_def declared_reply_def by (simp add: iface_defs tvm_manager_call_def)

lemma bytes_ok: "declared_ok tvm_bytes_iface mth (fst (tvm_bytes_call C fm mth args s))"
  using tvm_bytes_replies [where C = C and fm = fm and args = args and s = s]
  unfolding declared_ok_def declared_reply_def by (simp add: iface_defs tvm_bytes_call_def)

text \<open>
  C39. Every reply to the core has the type that the interface declares for the method: for the
  five interfaces that an instance of the core imports, every method, all arguments, every state
  of the extensions and the spill memory, and whatever the extensions and the crate of the spill
  memory answer, an answer that is not an error of the call is one value of the declared type;
  an undeclared method has no answer.
\<close>

theorem core_imports_typed:
  assumes "core_import_call fm W C iface mth args s = Some (Some (Inr vs, s1))"
  shows "\<exists>t v. declared_reply iface mth = Some t \<and> vs = [v] \<and> typed v t"
proof -
  have "declared_ok iface mth (Inr vs)"
    using assms loader_ok [of mth fm W args "ci_shared s"] hooks_ok [of mth fm W "ci_store s" args "ci_shared s"]
      callback_ok [of fm W mth args "sh_manager (ci_shared s)"] manager_ok_reply [of mth C fm args "ci_tvm s"]
      bytes_ok [of mth C fm args "ci_tvm s"]
    by (auto simp: core_import_call_def apsnd_def map_prod_def case_prod_unfold split: if_split_asm)
  then show ?thesis by (auto simp: declared_ok_def replies_def split: option.splits)
qed

section \<open>The archive\<close>

text \<open>
  What happens to a manager that instances of the core share: the first instance asks for the
  registrations, a further one does, or the manager changes in any way at all.
\<close>

datatype 'm core_event = Primary_Asks | Sibling_Asks | Manager_Does "'m manager \<Rightarrow> 'm manager"

definition primary_store :: core_store where
  "primary_store = \<lparr>st_sibling = False, st_archive = True\<rparr>"

definition sibling_store :: core_store where
  "sibling_store = \<lparr>st_sibling = True, st_archive = True\<rparr>"

definition ask :: "fmt \<Rightarrow> 'm world \<Rightarrow> core_store \<Rightarrow> 'm core_shared \<Rightarrow> (string + wvalue list) \<times> 'm core_shared" where
  "ask fm W st = hooks_call fm W st ''get-pending-registrations'' []"

text \<open>The answers that the first instance got, in order, and the state after all events.\<close>

fun core_run :: "fmt \<Rightarrow> 'm world \<Rightarrow> 'm core_event list \<Rightarrow> 'm core_shared \<Rightarrow> (string + wvalue list) list \<times> 'm core_shared" where
  "core_run fm W [] sh = ([], sh)"
| "core_run fm W (Primary_Asks # es) sh =
     (case ask fm W primary_store sh of (r, sh1) \<Rightarrow>
       (case core_run fm W es sh1 of (rs, sh2) \<Rightarrow> (r # rs, sh2)))"
| "core_run fm W (Sibling_Asks # es) sh = core_run fm W es (snd (ask fm W sibling_store sh))"
| "core_run fm W (Manager_Does f # es) sh = core_run fm W es (sh\<lparr>sh_manager := f (sh_manager sh)\<rparr>)"

text \<open>The entries of one kind in an answer.\<close>

definition entries :: "string \<Rightarrow> string + wvalue list \<Rightarrow> wvalue list" where
  "entries kind r =
     (case r of
        Inr [V_Record fs] \<Rightarrow> (case map_of fs kind of Some (V_List xs) \<Rightarrow> xs | _ \<Rightarrow> [])
      | _ \<Rightarrow> [])"

definition registration_kinds :: "string list" where
  "registration_kinds = [''scalars'', ''tables'', ''aggregates'', ''macros'', ''table-macros'', ''replacement-scans'',
     ''logical-types'', ''casts'']"

lemma ask_sibling: "ask fm W sibling_store sh = (Inr [native_pending_registrations_to_value (sh_archive sh)], sh)"
  by (simp add: ask_def hooks_call_def drain_pending_registrations_for_replay_def sibling_store_def)

lemma ask_primary:
  "ask fm W primary_store sh =
     (case drain_pending_registrations W (sh_manager sh) of
        (d, m1) \<Rightarrow> (Inr [native_pending_registrations_to_value d],
                     \<lparr>sh_manager = m1, sh_archive = append_registrations (sh_archive sh) d\<rparr>))"
  by (simp add: ask_def hooks_call_def drain_pending_registrations_for_replay_def primary_store_def split: prod.split)

lemma entries_append:
  "kind \<in> set registration_kinds \<Longrightarrow>
     entries kind (Inr [native_pending_registrations_to_value (append_registrations a b)])
     = entries kind (Inr [native_pending_registrations_to_value a]) @ entries kind (Inr [native_pending_registrations_to_value b])"
  by (auto simp: registration_kinds_def entries_def native_pending_registrations_to_value_def append_registrations_def)

lemma entries_none: "entries kind (Inr [native_pending_registrations_to_value no_registrations]) = []"
  by (auto simp: entries_def native_pending_registrations_to_value_def no_registrations_def split: option.split)

lemma archive_run:
  "core_run fm W es sh = (rs, sh1) \<Longrightarrow> kind \<in> set registration_kinds \<Longrightarrow>
     entries kind (Inr [native_pending_registrations_to_value (sh_archive sh1)])
     = entries kind (Inr [native_pending_registrations_to_value (sh_archive sh)]) @ concat (map (entries kind) rs)"
proof (induction es arbitrary: sh rs)
  case (Cons e es)
  then show ?case
    by (cases e) (auto simp: ask_primary ask_sibling entries_append split: prod.splits)
qed simp

text \<open>
  C40. A further instance of the core installs what the first one did. When the archive was empty
  at first, then after any events, with the first instance asking for registrations any number of
  times while extensions are loaded and called in between, a further instance that asks gets, for
  each of the eight kinds, exactly the entries that the first instance was given, in order; asking
  changes nothing, so it may ask again; and the first instance gets what it would get without an
  archive.
\<close>

theorem further_instance_replays:
  assumes "core_run fm W es sh = (rs, sh1)" and "sh_archive sh = no_registrations"
  shows "snd (ask fm W sibling_store sh1) = sh1 \<and>
    (\<forall>kind \<in> set registration_kinds. entries kind (fst (ask fm W sibling_store sh1)) = concat (map (entries kind) rs)) \<and>
    fst (ask fm W primary_store sh1) = fst (ask fm W \<lparr>st_sibling = False, st_archive = False\<rparr> sh1)"
  using archive_run [OF assms(1)] assms(2)
  by (simp add: ask_sibling entries_none ask_primary)
    (simp add: ask_def hooks_call_def drain_pending_registrations_for_replay_def split: prod.split)

theorem further_instance_replays_witness:
  "let run = core_run plain_fmt demo_world [Primary_Asks, Sibling_Asks, Primary_Asks] \<lparr>sh_manager = demo_pending, sh_archive = no_registrations\<rparr>
   in entries ''scalars'' (fst (ask plain_fmt demo_world sibling_store (snd run))) = concat (map (entries ''scalars'') (fst run))"
  using further_instance_replays [OF prod.collapse [symmetric], where fm = plain_fmt and W = demo_world
      and es = "[Primary_Asks, Sibling_Asks, Primary_Asks]"
      and sh = "\<lparr>sh_manager = demo_pending, sh_archive = no_registrations\<rparr>"]
  by (simp add: registration_kinds_def Let_def del: core_run.simps)

definition demo_core :: "(nat \<times> nat, u8 list option list) core_inner" where
  "demo_core = fresh_core_inner \<lparr>sh_manager = demo_pending, sh_archive = no_registrations\<rparr> []"

theorem core_imports_typed_witness:
  "\<exists>v. core_import_call plain_fmt demo_world block_tvm tvm_bytes_iface ''read'' [first_handle, V_U32 2] demo_core
       = Some (Some (Inr [v], demo_core)) \<and>
     typed v (tvm_result (Some wit_bytes))"
proof -
  have c: "core_import_call plain_fmt demo_world block_tvm tvm_bytes_iface ''read'' [first_handle, V_U32 2] demo_core
      = Some (Some (Inr stale_reply, demo_core))"
    by (simp add: core_import_call_def tvm_bytes_call_def tvm_read_def first_handle_def tvm_resolve_def demo_core_def
        fresh_core_inner_def stale_reply_eq)
  moreover have "declared_reply tvm_bytes_iface ''read'' = Some (tvm_result (Some wit_bytes))"
    by (simp add: declared_reply_def iface_defs)
  ultimately show ?thesis using core_imports_typed [OF c] by auto
qed

section \<open>What does not reach the core\<close>

text \<open>
  Registrations of the other kinds leave no trace in the answer: storages, pragmas, settings and
  secrets are kept by the manager, and the remaining seven kinds by nobody.
\<close>

lemma unsent_kinds:
  "native_pending_registrations_to_value (d\<lparr>pr_storages := a, pr_pragmas := b, pr_settings := c, pr_secrets := s,
     pr_copy_handlers := k, pr_arrow_tables := t, pr_scalar_ex := x, pr_enum_types := e, pr_modified_types := m,
     pr_log_storages := l, pr_coordinate_systems := y\<rparr>) = native_pending_registrations_to_value d"
  by (simp add: native_pending_registrations_to_value_def)

text \<open>The same list type has two names, at the top and inside another type.\<close>

lemma list_type_names:
  "native_logicaltype_to_value (R_List R_Int32) = complex_type ''LIST(INTEGER)''"
  "neutral_logicaltype_to_type_expr (R_List R_Int32) = ''INTEGER[]''"
  by (simp_all add: native_logicaltype_to_value_def)

end
