(* ===== verification/Spec2Isabelle.thy ===== *)
theory Spec2Isabelle
  imports Guest_Runs Dispatch_More Resolver Sql_Write Sigv4 Delta_Rewrite Plan_Shape Manager_Invariant Host_Attach_Facts Host_Execute_Facts Host_Resource_Facts Httpd_Facts Import_Facts
begin

text \<open>
  A verification library for ducklink, a host that runs a DuckDB core and its extensions as
  WebAssembly components. The library models the Rust code of the host and of the extension runtime.
  The components themselves, the wasmos runtime that executes them, and the crates the code only
  calls (the JSON parser, SHA-256 and HMAC, SQLite, the file system, the clock) are parameters: fields
  of a record that every definition which uses them takes, with what the code relies on stated where
  it is used.

  \<^bold>\<open>How the program is put together.\<close> An extension is a component that registers callbacks while it
  is loaded and is called through its exports afterwards. \<open>crates/ducklink-runtime\<close> holds the state of
  one extension store and the codecs at its boundary. \<open>crates/ducklink-host\<close> holds the manager of all
  extensions, the session of the command line over the DuckDB core, the interception of statements
  that address attached catalogs, the servers and the tools. A statement of the user goes from the
  database interface (\<open>Host_Cli\<close>) to \<open>execute_single_statement\<close> (\<open>Host_Execute\<close>), which runs what was
  deferred, asks the write router (\<open>Sql_Write\<close>) whether it is the host's business and else sends it to
  the core; a callback of the core comes back through the manager (\<open>Manager_Dispatch\<close>) to the instance
  (\<open>Dispatch\<close>) that registered it (\<open>Extension_State\<close>, \<open>Callback_Registry\<close>).

  \<^bold>\<open>The runtime\<close> (\<open>crates/ducklink-runtime/src\<close>).
  \<^item> \<open>Callback_Registry\<close> (\<open>lib.rs\<close>): the table of callback handles, \<open>CallbackRegistry\<close>. Handles are
    32-bit words; the theorems say when a new handle is fresh and what its wrap-around does.
  \<^item> \<open>Duck_Types\<close> (\<open>lib.rs\<close>, \<open>extension.rs\<close>): values, types, errors, registration records.
  \<^item> \<open>Capture\<close>, \<open>Extension_State\<close>, \<open>Runtime_Host\<close> (\<open>extension.rs\<close>, \<open>extension_wasmos.rs\<close>): the state of an
    extension store (\<open>ExtensionInnerState\<close>), what the handlers of the registration interfaces do to it,
    and the drain. \<open>Guest_Runs\<close> proves what a run of arbitrary guest calls leaves for the drain.
  \<^item> \<open>Columnar\<close> (\<open>extension.rs\<close>): rows to columns and back, and the validity bitmap.
  \<^item> \<open>Marshal\<close> (\<open>export_marshal.rs\<close>): the codecs between typed values and runtime values, and that they
    invert each other.
  \<^item> \<open>Dispatch\<close>, \<open>Dispatch_More\<close> (\<open>extension.rs\<close>): the calls of the exports of an \<open>ExtensionInstance\<close>.

  \<^bold>\<open>The manager\<close> (\<open>crates/ducklink-host/src/lib.rs\<close>, \<open>resolver.rs\<close>, \<open>plan_shape.rs\<close>).
  \<^item> \<open>Resolver\<close>: the gates and the choice of a provider; \<open>Text_Lines\<close>: the canonical form of a suite.
  \<^item> \<open>Manager_State\<close>, \<open>Manager_Load\<close>, \<open>Manager_Dispatch\<close>: \<open>ExtensionManager\<close>, its loading and draining, the
    routing of calls. \<open>Manager_Scans\<close>, \<open>Manager_Safety\<close>, \<open>Manager_Writes\<close>, \<open>Manager_Drain\<close> and
    \<open>Manager_Invariant\<close>: termination of the scans, confinement of callbacks, atomic writes, drains that
    deliver once, and the invariant of every state the manager reaches. The contract of a component that
    keeps transactions (\<open>keeps_transactions\<close>) is a hypothesis of \<open>Manager_Writes\<close>, on the component that
    is a parameter, with an instance that fulfils it.
  \<^item> \<open>Plan_Shape\<close>: the flattening of query plans.

  \<^bold>\<open>Statements\<close> (\<open>at5_intercept.rs\<close>, \<open>delta_rewrite.rs\<close>).
  \<^item> \<open>Sql_Lex\<close>, \<open>Sql_Numbers\<close>, \<open>Sql_Write\<close>: the scanners, the number parsers and the router of writes.
    \<open>Sql_Lexemes\<close> specifies the lexical structure of a script apart from the scanners and compares them
    with it.
  \<^item> \<open>Paths\<close>, \<open>Delta_Rewrite\<close>: the log of a Delta table and the rewriting of its scans.

  \<^bold>\<open>The session\<close> (\<open>crates/ducklink-host/src/lib.rs\<close>).
  \<^item> \<open>Host_Codec\<close>, \<open>Host_Values\<close>: the codecs of the database interface and the text forms of values.
  \<^item> \<open>Host_State\<close>, \<open>Host_Write\<close>: \<open>HostState\<close> and the interception of writes; \<open>Host_Write_Facts\<close> says which
    rows and cells a write touches and when it is on disk.
  \<^item> \<open>Host_Statements\<close>, \<open>Host_Attach\<close>, \<open>Host_Execute\<close>: the statements that the host makes up itself, the
    attach of a foreign catalog, scripts; \<open>Host_Attach_Facts\<close> and \<open>Host_Execute_Facts\<close> bound what the host
    sends to the core on its own behalf and what a failed attach leaves.
  \<^item> \<open>Host_Resources\<close>, \<open>Host_Cli\<close>: connections, streams, statements and appenders as numbers, and the
    untyped calls that use them; \<open>Wit_Types\<close> and \<open>Host_Cli_Facts\<close> compare the codecs with the interface
    types, \<open>Host_Resource_Facts\<close> follows the numbers through a whole session.

  \<^bold>\<open>The imports of the core\<close> (\<open>crates/ducklink-host/src/lib.rs\<close>).
  \<^item> \<open>Core_Codec\<close>, \<open>Core_Callbacks\<close>: the codecs of values and columns, the pivots, and the seven callbacks of
    \<open>CallbackDispatchHost\<close>. \<open>Core_Columns\<close> and \<open>Core_Facts\<close>: they read back, and a callback hands an
    extension the rows of the columns and the core the answers.
  \<^item> \<open>Core_Loader\<close>, \<open>Core_Imports\<close>: loading on request, the registrations as the core gets them, the archive
    for further instances, and the table of the five interfaces. \<open>Import_Facts\<close>: replies have the declared
    types, and a further instance installs what the first one did.
  \<^item> \<open>Tvm_Host\<close>: the spill memory (\<open>TvmManagerHost\<close>, \<open>TvmBytesHost\<close>) over the crate \<open>tvm_core\<close>, a parameter.
    \<open>Tvm_Facts\<close>: a handle reaches its block until it is freed and is refused afterwards, up to the
    wrap-around of the 16-bit generations.

  \<^bold>\<open>The servers\<close> (\<open>httpd.rs\<close>, \<open>handler.rs\<close>, \<open>ui_server.rs\<close>).
  \<^item> \<open>Utf8\<close>: which lists of bytes are strings, and the lossy conversion.
  \<^item> \<open>Json_Text\<close>: the JSON that the servers write by hand, and a reader that gets it back.
  \<^item> \<open>Httpd\<close>: the HTTP server, from the bytes of a connection to the bytes of the response: \<open>read_request\<close>,
    \<open>handle\<close>, the routes table, the handlers, the calls into the core.
  \<^item> \<open>Httpd_Wire\<close>, \<open>Httpd_Json\<close>, \<open>Httpd_Facts\<close>: requests, responses and JSON survive the wire; no request but
    one for \<open>/sql\<close> brings a statement of its own to the core, and every request is answered.

  \<^bold>\<open>Object storage\<close> (\<open>sigv4.rs\<close>): \<open>Civil_Dates\<close> and \<open>Sigv4\<close>, the signed requests and the calendar they need.

  \<^bold>\<open>Conventions.\<close> A Rust string is the list of its UTF-8 bytes (\<open>Prelude\<close>). Machine integers are words. An
  error is the left of a sum; a function of the program that may panic or never return has an option,
  and \<^const>\<open>None\<close> is that. State is passed explicitly. Mutexes are taken and released within one operation
  and are left out, and so are log lines on standard error. A hash map whose order of iteration the
  code observes is an association list in that order, and the theorems hold for every order.

  \<^bold>\<open>Loops, bounds and fuel.\<close> Loops that follow a list are structural recursions, scanners that skip ahead
  are functions with a measure. The search for a free scan handle and the loop over the batches of a
  scan may run forever and are partial functions; theorems of \<open>Manager_Scans\<close> and \<open>Host_Attach_Facts\<close> say
  when they end. The readers of documents (\<open>Json_Text\<close>) take a bound on the steps, the length of the
  text, which their round trip shows to be enough.

  \<^bold>\<open>Interfaces.\<close> A locale states a contract where one part relies on another: \<open>handle_table\<close> (\<open>Handles\<close>),
  the counters that the callback registry and the lock table of an extension share, interpreted in
  \<open>Callback_Registry\<close> and \<open>Extension_State\<close>; \<open>capture_buffer\<close> (\<open>Capture\<close>), the buffers of the three
  registration interfaces, interpreted for each of them in \<open>Extension_State\<close>; \<open>delivery\<close>
  (\<open>Manager_Drain\<close>), the hand-over of one kind of registration, interpreted for each kind.

  \<^bold>\<open>Not modelled.\<close>
  \<^item> The glue over wasmos (\<open>contract_guard_bridge.rs\<close>, \<open>compose_dynlink.rs\<close>, \<open>sub_ext.rs\<close>, the start-up of the
    engine, the \<open>install_*\<close> tables of \<open>extension_wasmos.rs\<close> and its handlers that only forward to the
    services object): what it does is what the runtime does, whose source is not in the repository.
  \<^item> Sockets, TLS, the accept loops, the terminal, the dot commands and the argument parsing of the
    binaries: input and output of the process.
  \<^item> Cron jobs, driver execution, replication, publishing and the extension command line (\<open>cron_cli.rs\<close>,
    \<open>driver_exec.rs\<close>, \<open>replicate.rs\<close>, \<open>publish.rs\<close>, \<open>extcli.rs\<close>): drivers of files, processes and the network.
  \<^item> The native extension's scalars, which adapt crates that are not in the repository, the build tools,
    the benches and boundary tests, and everything that is not Rust.
\<close>

end
